(* ===== verification/Prelude.thy ===== *)
theory Prelude
  imports Main "HOL-Library.Word" "HOL-Library.Multiset"
begin

text \<open>
  What every component of the model shares.

  \<^item> Go errors (\<open>gerr\<close>): an error of the Kubernetes API with its status reason, a plain message,
    or an error wrapped by \<open>fmt.Errorf("...: %w", err)\<close>. The predicates \<open>apierrors.IsNotFound\<close>
    and its kin look through wrapping, which is \<open>is_reason\<close>.
  \<^item> Effects: code that talks to the cluster, to Odoo or to the clock is a function on a world of an
    arbitrary type \<open>'w\<close>; what the world does is an argument of the model (a record of functions).
  \<^item> Time is an \<open>int\<close> of nanoseconds, a \<open>time.Duration\<close> the signed value of a 64-bit word where the
    code multiplies it.
  \<^item> The functions of Go's \<open>strings\<close>, \<open>slices\<close> and \<open>strconv\<close> packages that the code uses, on byte
    strings (\<open>char list\<close>).
  \<^item> \<open>gany\<close>: a Go value of static type \<open>any\<close> as JSON decoding produces it.
\<close>

named_theorems go_defs \<open>definitions of the modelled standard library functions\<close>

section \<open>Errors\<close>

datatype api_reason =
    NotFound | AlreadyExists | Conflict | ServerTimeout | TooManyRequests | ServiceUnavailable
  | Forbidden | NotRegistered | StatusTimeout | OtherReason

datatype gerr = ApiErr api_reason | Msg string | Wrapped string gerr

fun is_reason :: "api_reason \<Rightarrow> gerr \<Rightarrow> bool" where
  "is_reason r (ApiErr r') = (r = r')"
| "is_reason r (Msg m) = False"
| "is_reason r (Wrapped m e) = is_reason r e"

abbreviation IsNotFound :: "gerr \<Rightarrow> bool" where
  "IsNotFound \<equiv> is_reason NotFound"

abbreviation IsAlreadyExists :: "gerr \<Rightarrow> bool" where
  "IsAlreadyExists \<equiv> is_reason AlreadyExists"

text \<open>What a \<open>Reconcile\<close> gives back to the controller; a panic of the Go code is a value too.\<close>

datatype reconcile_result = Failure gerr | Done | RequeueAfter int | Panicked

section \<open>Time\<close>

type_synonym instant = int
type_synonym duration = int

definition second :: duration where "second = 1000000000"
definition minute :: duration where "minute = 60 * second"
definition hour :: duration where "hour = 60 * minute"

lemmas duration_defs = second_def minute_def hour_def

text \<open>The zero \<open>time.Time\<close> (year 1) on the Unix scale, and \<open>IsZero\<close> on a \<open>*metav1.Time\<close>, nil included.\<close>

definition zero_time :: instant where "zero_time = - 62135596800 * second"

definition IsZero :: "instant option \<Rightarrow> bool" where
  "IsZero t = (case t of None \<Rightarrow> True | Some i \<Rightarrow> i = zero_time)"

text \<open>\<open>Time.Sub\<close> saturates at the bounds of a \<open>time.Duration\<close>.\<close>

definition time_sub :: "instant \<Rightarrow> instant \<Rightarrow> duration" where
  "time_sub a b = max (- (2 ^ 63)) (min (2 ^ 63 - 1) (a - b))"

text \<open>A product of durations as Go computes it: on 64-bit two's complement words.\<close>

definition dur_mult :: "int \<Rightarrow> int \<Rightarrow> duration" where
  "dur_mult a b = sint (word_of_int (a * b) :: 64 word)"

lemma sint64_exact:
  assumes "- (2 ^ 63) \<le> z" and "z < 2 ^ 63"
  shows "sint (word_of_int z :: 64 word) = z"
  using assms by (simp add: sint_sbintrunc' signed_take_bit_int_eq_self)

lemma sint32_exact:
  assumes "- (2 ^ 31) \<le> z" and "z < 2 ^ 31"
  shows "sint (word_of_int z :: 32 word) = z"
  using assms by (simp add: sint_sbintrunc' signed_take_bit_int_eq_self)

lemma dur_mult_exact:
  assumes "- (2 ^ 63) \<le> a * b" and "a * b < 2 ^ 63"
  shows "dur_mult a b = a * b"
  using assms by (simp only: dur_mult_def sint64_exact)

section \<open>Strings\<close>

definition has_prefix :: "string \<Rightarrow> string \<Rightarrow> bool" where
  [go_defs]: "has_prefix s p = (take (length p) s = p)"

definition trim_prefix :: "string \<Rightarrow> string \<Rightarrow> string" where
  [go_defs]: "trim_prefix s p = (if has_prefix s p then drop (length p) s else s)"

definition has_suffix :: "string \<Rightarrow> string \<Rightarrow> bool" where
  [go_defs]: "has_suffix s p = (length p \<le> length s \<and> drop (length s - length p) s = p)"

definition trim_suffix :: "string \<Rightarrow> string \<Rightarrow> string" where
  [go_defs]: "trim_suffix s p = (if has_suffix s p then take (length s - length p) s else s)"

text \<open>\<open>strings.Contains\<close>: the second string stands somewhere in the first.\<close>

fun contains_str :: "string \<Rightarrow> string \<Rightarrow> bool" where
  "contains_str [] p = (p = [])"
| "contains_str (c # s) p = (has_prefix (c # s) p \<or> contains_str s p)"

text \<open>\<open>strings.Split\<close> at a one-byte separator; the result is never empty.\<close>

fun split_char :: "char \<Rightarrow> string \<Rightarrow> string list" where
  "split_char c [] = [[]]"
| "split_char c (x # xs) =
     (if x = c then [] # split_char c xs
      else (case split_char c xs of [] \<Rightarrow> [[x]] | p # ps \<Rightarrow> (x # p) # ps))"

fun join_char :: "char \<Rightarrow> string list \<Rightarrow> string" where
  "join_char c [] = []"
| "join_char c [p] = p"
| "join_char c (p # ps) = p @ c # join_char c ps"

text \<open>\<open>strings.Cut\<close> at a one-byte separator: before, after (empty when there is none), found.\<close>

fun cut_char :: "char \<Rightarrow> string \<Rightarrow> string \<times> string \<times> bool" where
  "cut_char c [] = ([], [], False)"
| "cut_char c (x # xs) =
     (if x = c then ([], xs, True)
      else (case cut_char c xs of (a, b, f) \<Rightarrow> (x # a, b, f)))"

text \<open>\<open>strings.TrimSpace\<close> on the ASCII white space.\<close>

definition is_space :: "char \<Rightarrow> bool" where
  [go_defs]: "is_space c = (c \<in> {CHR 0x09, CHR 0x0A, CHR 0x0B, CHR 0x0C, CHR 0x0D, CHR '' ''})"

definition trim_space :: "string \<Rightarrow> string" where
  [go_defs]: "trim_space s = rev (dropWhile is_space (rev (dropWhile is_space s)))"

text \<open>\<open>strconv.Itoa\<close>.\<close>

definition digit_char :: "nat \<Rightarrow> char" where
  [go_defs]: "digit_char d = char_of (48 + d)"

fun nat_to_string :: "nat \<Rightarrow> string" where
  "nat_to_string n =
     (if n < 10 then [digit_char n] else nat_to_string (n div 10) @ [digit_char (n mod 10)])"

declare nat_to_string.simps [simp del]

definition itoa :: "int \<Rightarrow> string" where
  [go_defs]: "itoa z = (if z < 0 then CHR ''-'' # nat_to_string (nat (- z)) else nat_to_string (nat z))"

text \<open>\<open>strconv.Atoi\<close>, and \<open>strconv.ParseInt\<close> to base 10 with 64 bits: None is their error.\<close>

definition digit_val :: "char \<Rightarrow> int option" where
  "digit_val c = (let n = int (of_char c :: nat) in if 48 \<le> n \<and> n \<le> 57 then Some (n - 48) else None)"

fun parse_digits :: "int \<Rightarrow> string \<Rightarrow> int option" where
  "parse_digits acc [] = Some acc"
| "parse_digits acc (c # cs) =
     (case digit_val c of None \<Rightarrow> None | Some d \<Rightarrow> parse_digits (acc * 10 + d) cs)"

definition parse_int :: "string \<Rightarrow> int option" where
  "parse_int s =
     (let (neg, ds) = (case s of [] \<Rightarrow> (False, [])
                       | c # cs \<Rightarrow> if c = CHR ''-'' then (True, cs) else if c = CHR ''+'' then (False, cs) else (False, s))
      in if ds = [] then None
         else (case parse_digits 0 ds of
                 None \<Rightarrow> None
               | Some n \<Rightarrow>
                   (let z = (if neg then - n else n)
                    in if - (2 ^ 63) \<le> z \<and> z < 2 ^ 63 then Some z else None)))"

text \<open>\<open>strings.ToLower\<close> on ASCII.\<close>

definition to_lower_char :: "char \<Rightarrow> char" where
  "to_lower_char c = (let n = (of_char c :: nat) in if 65 \<le> n \<and> n \<le> 90 then char_of (n + 32) else c)"

definition to_lower :: "string \<Rightarrow> string" where
  "to_lower s = map to_lower_char s"

text \<open>\<open>slices.Contains\<close>.\<close>

abbreviation (input) slices_contains :: "'a list \<Rightarrow> 'a \<Rightarrow> bool" where
  "slices_contains xs x \<equiv> x \<in> set xs"

section \<open>Values of static type any\<close>

text \<open>
  A number decoded into \<open>any\<close> is a \<open>float64\<close> (encoding/json) or an \<open>int64\<close> (the Kubernetes
  decoder). Of a \<open>float64\<close> the code only takes the conversion to an integer, so it is kept as its
  value truncated towards zero. Objects are association lists; the first binding of a key counts.
\<close>

datatype gany =
    GNull
  | GBool bool
  | GInt64 int
  | GInt int
  | GFloat64 int
  | GStr string
  | GList "gany list"
  | GMap "(string \<times> gany) list"

text \<open>
  The assertions \<open>v.(string)\<close>, \<open>v.(map[string]any)\<close> and \<open>v.([]any)\<close> in their two-result form,
  and the map read \<open>m[k]\<close>, which gives nil for an absent key.
\<close>

fun as_string :: "gany \<Rightarrow> string option" where
  "as_string (GStr s) = Some s"
| "as_string _ = None"

fun as_map :: "gany \<Rightarrow> (string \<times> gany) list option" where
  "as_map (GMap m) = Some m"
| "as_map _ = None"

fun as_list :: "gany \<Rightarrow> gany list option" where
  "as_list (GList l) = Some l"
| "as_list _ = None"

definition any_get :: "(string \<times> gany) list \<Rightarrow> string \<Rightarrow> gany" where
  [go_defs]: "any_get m k = (case map_of m k of None \<Rightarrow> GNull | Some v \<Rightarrow> v)"

text \<open>The value an ignored failed assertion leaves: the zero value of the type.\<close>

definition or_zero :: "'a \<Rightarrow> 'a option \<Rightarrow> 'a" where
  [go_defs]: "or_zero z x = (case x of None \<Rightarrow> z | Some v \<Rightarrow> v)"

lemma or_zero_simps [simp]: "or_zero z (Some x) = x" "or_zero z None = z"
  by (simp_all add: or_zero_def)

text \<open>A map write \<open>m[k] = v\<close>: the binding is replaced in place, or added.\<close>

fun any_put :: "string \<Rightarrow> 'v \<Rightarrow> (string \<times> 'v) list \<Rightarrow> (string \<times> 'v) list" where
  "any_put k v [] = [(k, v)]"
| "any_put k v ((k', v') # m) = (if k = k' then (k, v) # m else (k', v') # any_put k v m)"

lemma map_of_any_put [simp]: "map_of (any_put k v m) = (map_of m)(k \<mapsto> v)"
  by (induction m) (auto simp: fun_eq_iff)

lemma any_get_put [simp]: "any_get (any_put k v m) k' = (if k' = k then v else any_get m k')"
  by (simp add: any_get_def)

text \<open>
  What apimachinery documents of \<open>unstructured.NestedFieldNoCopy\<close> and its typed variants: a path is
  followed through nested objects; a missing field or a null on the way is not found, a value that is
  not an object on the way is an error, and so is a last value of another type than the variant wants.
  These are laws for the parameters that stand for the package, not definitions of the model.
\<close>

fun nested_field :: "(string \<times> gany) list \<Rightarrow> string list \<Rightarrow> gerr + gany option" where
  "nested_field m [] = Inr (Some (GMap m))"
| "nested_field m [k] = Inr (map_of m k)"
| "nested_field m (k # ks) =
     (case map_of m k of
        None \<Rightarrow> Inr None
      | Some GNull \<Rightarrow> Inr None
      | Some (GMap m') \<Rightarrow> nested_field m' ks
      | Some _ \<Rightarrow> Inl (Msg ''accessor error''))"

definition nested_as :: "(gany \<Rightarrow> 'a option) \<Rightarrow> (string \<times> gany) list \<Rightarrow> string list \<Rightarrow> gerr + 'a option" where
  "nested_as cast m ks =
     (case nested_field m ks of
        Inl e \<Rightarrow> Inl e
      | Inr None \<Rightarrow> Inr None
      | Inr (Some v) \<Rightarrow> (case cast v of None \<Rightarrow> Inl (Msg ''accessor error'') | Some x \<Rightarrow> Inr (Some x)))"

section \<open>Conversion of decoded numbers\<close>

text \<open>
  \<open>utils.ToInt32\<close>. The conversions from the integer types wrap; of a \<open>float64\<close> outside the range the
  language leaves the result to the implementation, the argument \<open>conv\<close>.
\<close>

definition ToInt32 :: "(int \<Rightarrow> 32 word) \<Rightarrow> gany \<Rightarrow> 32 word" where
  "ToInt32 conv v =
     (case v of
        GInt64 p \<Rightarrow> word_of_int p
      | GFloat64 p \<Rightarrow> (if - (2 ^ 31) \<le> p \<and> p < 2 ^ 31 then word_of_int p else conv p)
      | GInt p \<Rightarrow> word_of_int p
      | _ \<Rightarrow> 0)"

section \<open>Lemmas on strings and lists\<close>

lemma IsZero_None [simp]: "IsZero None"
  by (simp add: IsZero_def)

lemma time_sub_pos: "b < a \<Longrightarrow> 0 < time_sub a b"
  by (simp add: time_sub_def)

lemma split_char_not_Nil [simp]: "split_char c s \<noteq> []"
  by (induction s) (auto split: list.splits)

lemma split_char_no_sep: "c \<notin> set s \<Longrightarrow> split_char c s = [s]"
  by (induction s) auto

lemma split_char_append:
  assumes "c \<notin> set p"
  shows "split_char c (p @ c # s) = p # split_char c s"
  using assms by (induction p) auto

lemma split_join_char:
  assumes "ps \<noteq> []" and "\<forall>p \<in> set ps. c \<notin> set p"
  shows "split_char c (join_char c ps) = ps"
  using assms
proof (induction c ps rule: join_char.induct)
  case (2 c p)
  then show ?case by (simp add: split_char_no_sep)
next
  case (3 c p q ps)
  then show ?case by (simp add: split_char_append)
qed simp

lemma join_split_char: "join_char c (split_char c s) = s"
proof (induction s)
  case (Cons x s)
  obtain p ps where ps: "split_char c s = p # ps"
    by (cases "split_char c s") auto
  with Cons show ?case by (cases ps) auto
qed simp

lemma has_prefix_append [simp]: "has_prefix (p @ s) p"
  by (simp add: has_prefix_def)

lemma has_prefix_iff: "has_prefix s p \<longleftrightarrow> (\<exists>t. s = p @ t)"
  by (metis append_eq_conv_conj append_take_drop_id has_prefix_def)

lemma trim_prefix_append [simp]: "trim_prefix (p @ s) p = s"
  by (simp add: trim_prefix_def)

lemma cut_char_eq:
  assumes "c \<notin> set a"
  shows "cut_char c (a @ c # b) = (a, b, True)"
  using assms by (induction a) auto

lemma contains_str_iff: "contains_str s p \<longleftrightarrow> (\<exists>a b. s = a @ p @ b)"
proof (induction s)
  case Nil
  then show ?case by simp
next
  case (Cons c s)
  show ?case
  proof
    assume "contains_str (c # s) p"
    then consider "has_prefix (c # s) p" | "contains_str s p" by auto
    then show "\<exists>a b. c # s = a @ p @ b"
    proof cases
      case 1
      then show ?thesis by (metis append_Nil has_prefix_iff)
    next
      case 2
      then show ?thesis using Cons.IH by (metis append_Cons)
    qed
  next
    assume "\<exists>a b. c # s = a @ p @ b"
    then obtain a b where ab: "c # s = a @ p @ b" by blast
    show "contains_str (c # s) p"
    proof (cases a)
      case Nil
      with ab show ?thesis by (metis append_Nil contains_str.simps(2) has_prefix_append)
    next
      case (Cons x a')
      with ab have "s = a' @ p @ b" by simp
      then show ?thesis using Cons.IH by auto
    qed
  qed
qed

lemma filter_nth_eq:
  "filter P xs = map (\<lambda>i. xs ! i) [i \<leftarrow> [0..<length xs]. P (xs ! i)]"
proof (induction xs rule: rev_induct)
  case (snoc x xs)
  have "map (\<lambda>i. (xs @ [x]) ! i) (filter (\<lambda>i. P ((xs @ [x]) ! i)) [0..<length xs])
      = map (\<lambda>i. xs ! i) (filter (\<lambda>i. P (xs ! i)) [0..<length xs])"
    by (rule map_cong [OF filter_cong]) (auto simp: nth_append)
  then show ?case using snoc by simp
qed simp

lemma digit_val_char: "d < 10 \<Longrightarrow> digit_val (digit_char d) = Some (int d)"
  by (auto simp: digit_val_def digit_char_def Let_def)

lemma parse_digits_append: "parse_digits acc (a @ b) = Option.bind (parse_digits acc a) (\<lambda>n. parse_digits n b)"
  by (induction a arbitrary: acc) (auto split: option.splits)

lemma parse_digits_nat: "parse_digits 0 (nat_to_string n) = Some (int n)"
proof (induction n rule: nat_to_string.induct)
  case (1 n)
  show ?case
  proof (cases "n < 10")
    case False
    then have "parse_digits 0 (nat_to_string (n div 10)) = Some (int (n div 10))" using 1 by simp
    moreover have "int (n div 10) * 10 + int (n mod 10) = int n"
      by (metis div_mult_mod_eq of_nat_add of_nat_mult of_nat_numeral)
    ultimately show ?thesis using False
      by (subst nat_to_string.simps) (simp add: parse_digits_append digit_val_char)
  qed (subst nat_to_string.simps, simp add: digit_val_char)
qed

lemma nat_to_string_head: "nat_to_string n \<noteq> [] \<and> hd (nat_to_string n) \<notin> {CHR ''-'', CHR ''+''}"
proof (induction n rule: nat_to_string.induct)
  case (1 n)
  have "digit_char d \<notin> {CHR ''-'', CHR ''+''}" if "d < 10" for d
    using digit_val_char [OF that] by (auto simp: digit_val_def)
  then show ?case using 1 by (subst nat_to_string.simps) (simp add: hd_append nat_to_string.simps [of n])
qed

lemma digits_of_nat_to_string: "c \<in> set (nat_to_string n) \<Longrightarrow> digit_val c \<noteq> None"
proof (induction n rule: nat_to_string.induct)
  case (1 n)
  then show ?case
    by (subst (asm) nat_to_string.simps) (auto simp: digit_val_char split: if_splits)
qed

lemma dot_notin_itoa: "0 \<le> z \<Longrightarrow> CHR ''.'' \<notin> set (itoa z)"
  using digits_of_nat_to_string [of "CHR ''.''" "nat z"] by (auto simp: itoa_def digit_val_def)

lemma itoa_not_Nil [simp]: "itoa z \<noteq> []"
  using nat_to_string_head by (simp add: itoa_def)

lemma parse_int_itoa:
  assumes "- (2 ^ 63) \<le> z" and "z < 2 ^ 63"
  shows "parse_int (itoa z) = Some z"
proof (cases "z < 0")
  case True
  then show ?thesis using assms nat_to_string_head [of "nat (- z)"]
    by (simp add: itoa_def parse_int_def parse_digits_nat)
next
  case False
  obtain c cs where c: "nat_to_string (nat z) = c # cs" using nat_to_string_head by (cases "nat_to_string (nat z)") auto
  with False show ?thesis using assms nat_to_string_head [of "nat z"] parse_digits_nat [of "nat z"]
    by (simp add: itoa_def parse_int_def)
qed

section \<open>Loops over indices\<close>

lemma take_filter_down:
  "i \<in> set (take k (filter P (rev [0..<n]))) \<longleftrightarrow>
     i < n \<and> P i \<and> length (filter P [Suc i..<n]) < k"
proof (induction n arbitrary: k)
  case (Suc n)
  show ?case
  proof (cases "P n")
    case True
    show ?thesis
    proof (cases k)
      case (Suc k')
      with True Suc.IH [of k'] show ?thesis
        by (cases "i < n") (auto simp: less_Suc_eq)
    qed simp
  next
    case False
    with Suc.IH [of k] show ?thesis by (cases "i < n") (auto simp: less_Suc_eq)
  qed
qed simp

lemma length_filter_nth_from:
  "length (filter (\<lambda>j. Q (xs ! j)) [i..<length xs]) = length (filter Q (drop i xs))"
proof -
  have "drop i xs = map (\<lambda>j. xs ! j) [i..<length xs]"
    by (rule nth_equalityI) auto
  then show ?thesis by (simp add: filter_map comp_def)
qed

text \<open>Keep the elements that satisfy a test on the element and on what follows it in the list.\<close>

fun keep_by :: "('a \<Rightarrow> 'a list \<Rightarrow> bool) \<Rightarrow> 'a list \<Rightarrow> 'a list" where
  "keep_by K [] = []"
| "keep_by K (x # xs) = (if K x xs then x # keep_by K xs else keep_by K xs)"

lemma keep_by_nth:
  "map (\<lambda>i. xs ! i) (filter (\<lambda>i. K (xs ! i) (drop (Suc i) xs)) [0..<length xs]) = keep_by K xs"
proof (induction xs)
  case (Cons x xs)
  have "[0..<length (x # xs)] = 0 # map Suc [0..<length xs]"
    by (simp add: map_Suc_upt upt_conv_Cons del: upt_Suc)
  with Cons show ?case
    by (simp add: filter_map comp_def del: upt_Suc)
qed simp

lemma keep_by_set: "x \<in> set (keep_by K xs) \<Longrightarrow> x \<in> set xs"
  by (induction xs) (auto split: if_splits)

lemma keep_by_filter_all: "(\<And>x ys. P x \<Longrightarrow> K x ys) \<Longrightarrow> filter P (keep_by K xs) = filter P xs"
  by (induction xs) auto

lemma keep_oldest:
  "filter P (keep_by (\<lambda>x ys. \<not> (P x \<and> int (length (filter P ys)) < n)) xs)
     = take (length (filter P xs) - nat n) (filter P xs)"
  by (induction xs) (auto simp: Suc_diff_le not_less nat_le_iff zless_nat_eq_int_zless)

lemma keep_by_filter_cong:
  assumes "\<And>x ys. P x \<Longrightarrow> K x ys = K' x ys"
  shows "filter P (keep_by K xs) = filter P (keep_by K' xs)"
  using assms by (induction xs) auto


section \<open>Ranging over a map\<close>

text \<open>
  A Go map is ranged over in an unspecified order. Where the code does so, the model takes the order
  as an argument: a function from the keys, in the order they were inserted, to the order of the
  iteration. The language promises that every key is visited once.
\<close>

definition range_order :: "('k list \<Rightarrow> 'k list) \<Rightarrow> bool" where
  "range_order order \<longleftrightarrow> (\<forall>ks. mset (order ks) = mset ks)"

lemma range_order_set: "range_order order \<Longrightarrow> set (order ks) = set ks"
  unfolding range_order_def by (metis set_mset_mset)

lemma range_order_distinct: "range_order order \<Longrightarrow> distinct (order ks) = distinct ks"
  unfolding range_order_def by (metis mset_eq_imp_distinct_iff)

lemma range_order_id [simp]: "range_order id" "range_order (\<lambda>ks. ks)" "range_order rev"
  by (simp_all add: range_order_def)

lemma distinct_concat_map:
  assumes "distinct ks" and "\<And>k. distinct (f k)" and "\<And>k k' x. x \<in> set (f k) \<Longrightarrow> x \<in> set (f k') \<Longrightarrow> k = k'"
  shows "distinct (concat (map f ks))"
  using assms(1)
proof (induction ks)
  case (Cons k ks)
  have "set (f k) \<inter> \<Union> (set ` set (map f ks)) = {}"
    using Cons.prems assms(3) by (fastforce simp: disjoint_iff)
  with Cons show ?case using assms(2) by simp
qed simp

end
