(* ===== verification/Billing_Events.thy ===== *)
theory Billing_Events
  imports Prelude
begin

text \<open>
  The event list of a BillingService and the functions on it: the data of
  \<open>apis/vshn/v1/billing_service.go\<close> and \<open>pkg/controller/billing/{types,events,resend}.go\<close>.
  The list is kept newest first. State and type of an event are strings restricted by a CRD
  enumeration, hence datatypes. Then what pruning keeps, what a search finds, and what a resend
  request changes.
\<close>

section \<open>Data\<close>

datatype event_state = Pending | Sent | Failed | Superseded | Resend

datatype event_type = Created | Deleted | Scaled

record billing_event =
  ev_Type :: event_type
  ev_ProductID :: string
  ev_InstanceID :: string
  ev_Value :: string
  ev_ItemDescription :: string
  ev_ItemGroupDescription :: string
  ev_Timestamp :: instant
  ev_State :: event_state
  ev_RetryCount :: int
  ev_LastAttemptTime :: instant

record item_spec =
  it_ProductID :: string
  it_ItemDescription :: string
  it_ItemGroupDescription :: string
  it_Value :: string
  it_InstanceID :: string

datatype cond_type = ConditionTypeSynced | ConditionTypeReady
datatype cond_reason = ReasonAllEventsSent | ReasonPendingOrFailed | ReasonReconcileSuccess | ReasonDeleting

record condition =
  co_Type :: cond_type
  co_Status :: bool
  co_Reason :: cond_reason
  co_ObservedGeneration :: int
  co_LastTransitionTime :: instant

text \<open>Metadata, specification and status of the resource. Annotations are a map.\<close>

record billing_service =
  bs_Namespace :: string
  bs_Name :: string
  bs_Generation :: int
  bs_Annotations :: "string \<Rightarrow> string option"
  bs_Finalizers :: "string list"
  bs_DeletionTimestamp :: "instant option"
  bs_KeepAfterDeletion :: int
  bs_ServiceID :: string
  bs_SalesOrderID :: string
  bs_Organization :: string
  bs_Items :: "item_spec list"
  bs_Events :: "billing_event list"
  bs_Conditions :: "condition list"

type_synonym events = "billing_event list"

abbreviation sent :: "billing_event \<Rightarrow> bool" where
  "sent e \<equiv> ev_State e = Sent"

text \<open>Kinds of events by which Odoo learns that an instance exists.\<close>

abbreviation announces :: "billing_event \<Rightarrow> bool" where
  "announces e \<equiv> ev_Type e = Created \<or> ev_Type e = Scaled"

section \<open>Pruning\<close>

text \<open>The counting loop of \<open>pruneEventsIfNeeded\<close>: a map from instance to number of events.\<close>

definition eventCountPerInstance :: "events \<Rightarrow> string \<Rightarrow> nat" where
  "eventCountPerInstance evs = fold (\<lambda>e m. m(ev_InstanceID e := m (ev_InstanceID e) + 1)) evs (\<lambda>_. 0)"

text \<open>The indices of the sent events of one instance, collected from the oldest (last) one on.\<close>

definition prunableIndices :: "events \<Rightarrow> string \<Rightarrow> nat list" where
  "prunableIndices evs iid =
     filter (\<lambda>i. ev_InstanceID (evs ! i) = iid \<and> ev_State (evs ! i) = Sent) (rev [0..<length evs])"

definition prune_instance :: "events \<Rightarrow> int \<Rightarrow> string \<Rightarrow> nat list" where
  "prune_instance evs maxEvents iid =
     (let currentCount = int (eventCountPerInstance evs iid) in
      if currentCount \<le> maxEvents then []
      else (let toPrune = currentCount - maxEvents;
                prunable = prunableIndices evs iid;
                pruneCount = (if int (length prunable) < toPrune then int (length prunable) else toPrune)
            in take (nat pruneCount) prunable))"

text \<open>
  The whole of \<open>pruneEventsIfNeeded\<close>. \<open>order\<close> is the order in which the runtime iterates over the
  keys of the counting map. The result is the number of pruned events and the remaining ones.
\<close>

definition pruneEventsIfNeeded :: "(string list \<Rightarrow> string list) \<Rightarrow> events \<Rightarrow> int \<Rightarrow> nat \<times> events" where
  "pruneEventsIfNeeded order evs maxEvents =
     (let eventsToRemove = concat (map (prune_instance evs maxEvents) (order (remdups (map ev_InstanceID evs))));
          totalPruned = length eventsToRemove
      in if totalPruned = 0 then (0, evs)
         else (totalPruned,
               map (\<lambda>i. evs ! i) (filter (\<lambda>i. i \<notin> set eventsToRemove) [0..<length evs])))"

section \<open>Searching\<close>

record findEventOpts =
  fo_States :: "event_state list"
  fo_Type :: "event_type option"

definition matches :: "findEventOpts \<Rightarrow> billing_event \<Rightarrow> bool" where
  "matches opts e =
     (\<not> (fo_States opts \<noteq> [] \<and> ev_State e \<notin> set (fo_States opts)) \<and>
      (case fo_Type opts of None \<Rightarrow> True | Some t \<Rightarrow> ev_Type e = t))"

text \<open>The loop of \<open>findEvent\<close> from index \<open>n - 1\<close> down to 0.\<close>

fun find_down :: "findEventOpts \<Rightarrow> events \<Rightarrow> nat \<Rightarrow> (nat \<times> billing_event) option" where
  "find_down opts evs 0 = None"
| "find_down opts evs (Suc i) =
     (if matches opts (evs ! i) then Some (i, evs ! i) else find_down opts evs i)"

definition findEvent :: "events \<Rightarrow> findEventOpts \<Rightarrow> (nat \<times> billing_event) option" where
  "findEvent evs opts = find_down opts evs (length evs)"

fun hasEventByInstanceID :: "events \<Rightarrow> event_type \<Rightarrow> string \<Rightarrow> bool" where
  "hasEventByInstanceID [] t iid = False"
| "hasEventByInstanceID (e # es) t iid =
     (if ev_Type e = t \<and> ev_InstanceID e = iid then True else hasEventByInstanceID es t iid)"

fun hasEventWithValueByInstanceID :: "events \<Rightarrow> event_type \<Rightarrow> string \<Rightarrow> string \<Rightarrow> bool" where
  "hasEventWithValueByInstanceID [] t iid v = False"
| "hasEventWithValueByInstanceID (e # es) t iid v =
     (if ev_Type e = t \<and> ev_InstanceID e = iid \<and> ev_Value e = v then True
      else hasEventWithValueByInstanceID es t iid v)"

fun lastSentValueForInstanceID :: "events \<Rightarrow> string \<Rightarrow> string option" where
  "lastSentValueForInstanceID [] iid = None"
| "lastSentValueForInstanceID (e # es) iid =
     (if ev_State e \<noteq> Sent then lastSentValueForInstanceID es iid
      else if ev_InstanceID e \<noteq> iid then lastSentValueForInstanceID es iid
      else if ev_Type e = Scaled \<or> ev_Type e = Created then Some (ev_Value e)
      else lastSentValueForInstanceID es iid)"

definition lastObservedValueForInstanceID :: "events \<Rightarrow> string \<Rightarrow> string \<Rightarrow> string" where
  "lastObservedValueForInstanceID evs iid fallback =
     (case lastSentValueForInstanceID evs iid of Some v \<Rightarrow> v | None \<Rightarrow> fallback)"

fun hasBacklog :: "events \<Rightarrow> bool" where
  "hasBacklog [] = False"
| "hasBacklog (e # es) =
     (if ev_State e \<noteq> Sent \<and> ev_State e \<noteq> Superseded then True else hasBacklog es)"

section \<open>Resending\<close>

datatype resend_mode = ResendAll | ResendNotSent | ResendFailed | ResendOther string

definition resend_mode_of :: "string \<Rightarrow> resend_mode" where
  "resend_mode_of s =
     (if s = ''all'' then ResendAll else if s = ''not-sent'' then ResendNotSent
      else if s = ''failed'' then ResendFailed else ResendOther s)"

definition mark_resend :: "billing_event \<Rightarrow> billing_event" where
  "mark_resend e = e\<lparr>ev_State := Resend, ev_RetryCount := ev_RetryCount e + 1\<rparr>"

text \<open>
  The three loops of \<open>handleResendAnnotation\<close>: each marks the events of the list that it does not
  skip and reports whether it changed one.
\<close>

fun resend_loop :: "(billing_event \<Rightarrow> bool) \<Rightarrow> events \<Rightarrow> events \<times> bool" where
  "resend_loop hit [] = ([], False)"
| "resend_loop hit (e # es) =
     (case resend_loop hit es of
        (es', changed) \<Rightarrow> if hit e then (mark_resend e # es', True) else (e # es', changed))"

definition handleResendAnnotation :: "events \<Rightarrow> string \<Rightarrow> events \<times> bool" where
  "handleResendAnnotation evs mode =
     (case resend_mode_of mode of
        ResendAll \<Rightarrow> resend_loop (\<lambda>e. ev_State e \<noteq> Superseded) evs
      | ResendNotSent \<Rightarrow> resend_loop (\<lambda>e. ev_State e \<noteq> Superseded \<and> ev_State e \<noteq> Sent) evs
      | ResendFailed \<Rightarrow> resend_loop (\<lambda>e. ev_State e = Failed) evs
      | ResendOther _ \<Rightarrow> (evs, False))"

section \<open>Lemmas\<close>

lemma eventCountPerInstance_eq:
  "eventCountPerInstance evs iid = length (filter (\<lambda>e. ev_InstanceID e = iid) evs)"
proof -
  have "fold (\<lambda>e m. m(ev_InstanceID e := m (ev_InstanceID e) + 1)) evs m iid
      = m iid + length (filter (\<lambda>e. ev_InstanceID e = iid) evs)" for m
    by (induction evs arbitrary: m) auto
  then show ?thesis by (simp add: eventCountPerInstance_def)
qed

lemma hasEventByInstanceID_iff:
  "hasEventByInstanceID evs t iid \<longleftrightarrow> (\<exists>e \<in> set evs. ev_Type e = t \<and> ev_InstanceID e = iid)"
  by (induction evs) auto

lemma hasEventWithValueByInstanceID_iff:
  "hasEventWithValueByInstanceID evs t iid v \<longleftrightarrow>
     (\<exists>e \<in> set evs. ev_Type e = t \<and> ev_InstanceID e = iid \<and> ev_Value e = v)"
  by (induction evs) auto

lemma hasBacklog_iff:
  "hasBacklog evs \<longleftrightarrow> (\<exists>e \<in> set evs. ev_State e \<in> {Pending, Failed, Resend})"
proof (induction evs)
  case (Cons e es)
  then show ?case by (cases "ev_State e") auto
qed simp

subsection \<open>Pruning, without indices\<close>

text \<open>
  Reference: an event goes when it is sent and fewer older sent events of its instance exist than
  the instance has events in excess of the limit.
\<close>

definition older_sent :: "billing_event \<Rightarrow> events \<Rightarrow> nat" where
  "older_sent e older = length (filter (\<lambda>o'. ev_InstanceID o' = ev_InstanceID e \<and> sent o') older)"

definition excess :: "events \<Rightarrow> int \<Rightarrow> string \<Rightarrow> int" where
  "excess evs maxEvents iid = int (length (filter (\<lambda>e. ev_InstanceID e = iid) evs)) - maxEvents"

definition prune_reference :: "events \<Rightarrow> int \<Rightarrow> events" where
  "prune_reference evs maxEvents =
     keep_by (\<lambda>e older. \<not> (sent e \<and> int (older_sent e older) < excess evs maxEvents (ev_InstanceID e))) evs"

lemma prune_instance_take:
  "prune_instance evs m iid = take (nat (excess evs m iid)) (prunableIndices evs iid)"
  by (auto simp: prune_instance_def excess_def eventCountPerInstance_eq Let_def)

lemma in_prune_instance:
  "i \<in> set (prune_instance evs m iid) \<longleftrightarrow>
     i < length evs \<and> ev_InstanceID (evs ! i) = iid \<and> sent (evs ! i) \<and>
     int (older_sent (evs ! i) (drop (Suc i) evs)) < excess evs m iid"
  unfolding prune_instance_take prunableIndices_def take_filter_down
  using length_filter_nth_from [of "\<lambda>e. ev_InstanceID e = iid \<and> sent e" evs "Suc i"]
  by (auto simp: older_sent_def zless_nat_eq_int_zless)

lemma pruned_events:
  assumes "range_order order"
  shows "snd (pruneEventsIfNeeded order evs m) = prune_reference evs m"
proof -
  let ?rem = "concat (map (prune_instance evs m) (order (remdups (map ev_InstanceID evs))))"
  let ?K = "\<lambda>e older. \<not> (sent e \<and> int (older_sent e older) < excess evs m (ev_InstanceID e))"
  have rem: "i \<notin> set ?rem \<longleftrightarrow> ?K (evs ! i) (drop (Suc i) evs)" if "i < length evs" for i
    using that by (auto simp: range_order_set [OF assms] in_prune_instance)
  have "snd (pruneEventsIfNeeded order evs m)
      = map (\<lambda>i. evs ! i) (filter (\<lambda>i. i \<notin> set ?rem) [0..<length evs])"
    by (auto simp: pruneEventsIfNeeded_def Let_def map_nth)
  also have "\<dots> = map (\<lambda>i. evs ! i) (filter (\<lambda>i. ?K (evs ! i) (drop (Suc i) evs)) [0..<length evs])"
    using rem by (intro arg_cong [where f = "map _"] filter_cong) auto
  also have "\<dots> = prune_reference evs m"
    unfolding prune_reference_def by (rule keep_by_nth)
  finally show ?thesis .
qed

lemma prune_reference_instance:
  "filter (\<lambda>e. ev_InstanceID e = iid \<and> sent e) (prune_reference evs m)
     = (let s = filter (\<lambda>e. ev_InstanceID e = iid \<and> sent e) evs in take (length s - nat (excess evs m iid)) s)"
proof -
  let ?P = "\<lambda>e. ev_InstanceID e = iid \<and> sent e"
  have "filter ?P (prune_reference evs m)
      = filter ?P (keep_by (\<lambda>e older. \<not> (?P e \<and> int (length (filter ?P older)) < excess evs m iid)) evs)"
    unfolding prune_reference_def by (rule keep_by_filter_cong) (auto simp: older_sent_def)
  then show ?thesis by (simp only: keep_oldest Let_def)
qed

lemma prune_reference_subset: "set (prune_reference evs m) \<subseteq> set evs"
  unfolding prune_reference_def by (auto dest: keep_by_set)

lemma prune_reference_unsent: "filter (\<lambda>e. \<not> sent e) (prune_reference evs m) = filter (\<lambda>e. \<not> sent e) evs"
  unfolding prune_reference_def by (rule keep_by_filter_all) auto

lemma fst_prune:
  assumes "range_order order"
  shows "fst (pruneEventsIfNeeded order evs m) + length (snd (pruneEventsIfNeeded order evs m)) = length evs"
proof -
  let ?rem = "concat (map (prune_instance evs m) (order (remdups (map ev_InstanceID evs))))"
  have "distinct ?rem"
  proof (rule distinct_concat_map)
    show "distinct (prune_instance evs m iid)" for iid
      by (simp add: prune_instance_take prunableIndices_def)
  qed (use assms in \<open>simp_all add: range_order_distinct in_prune_instance\<close>)
  moreover have "set ?rem \<subseteq> {..<length evs}"
    by (auto simp: in_prune_instance)
  moreover have "length (filter (\<lambda>i. i \<notin> set ?rem) [0..<length evs]) = length evs - card (set ?rem)"
    if "set ?rem \<subseteq> {..<length evs}"
  proof -
    have "length (filter (\<lambda>i. i \<notin> set ?rem) [0..<length evs]) = card ({..<length evs} - set ?rem)"
      by (subst distinct_card [symmetric]) (auto intro!: arg_cong [where f = card])
    then show ?thesis using that by (simp add: card_Diff_subset del: set_concat set_map)
  qed
  moreover have "card (set ?rem) \<le> length evs" if "set ?rem \<subseteq> {..<length evs}"
    using card_mono [OF _ that] by simp
  ultimately show ?thesis
    by (simp add: pruneEventsIfNeeded_def Let_def distinct_card del: set_concat set_map length_concat length_0_conv)
qed

lemma count_split:
  "length (filter (\<lambda>e. ev_InstanceID e = iid) evs)
    = length (filter (\<lambda>e. ev_InstanceID e = iid \<and> sent e) evs)
      + length (filter (\<lambda>e. ev_InstanceID e = iid \<and> \<not> sent e) evs)"
  by (induction evs) auto

lemma find_down_Some:
  "find_down opts evs n = Some (i, e) \<longleftrightarrow>
     i < n \<and> e = evs ! i \<and> matches opts e \<and> (\<forall>j. i < j \<and> j < n \<longrightarrow> \<not> matches opts (evs ! j))"
  by (induction n) (auto simp: less_Suc_eq)

lemma find_down_None: "find_down opts evs n = None \<longleftrightarrow> (\<forall>j < n. \<not> matches opts (evs ! j))"
  by (induction n) (auto simp: less_Suc_eq)

lemma findEvent_Some:
  "findEvent evs opts = Some (i, e) \<longleftrightarrow>
     i < length evs \<and> e = evs ! i \<and> matches opts e \<and> (\<forall>j. i < j \<and> j < length evs \<longrightarrow> \<not> matches opts (evs ! j))"
  by (simp add: findEvent_def find_down_Some)

lemma findEvent_None: "findEvent evs opts = None \<longleftrightarrow> (\<forall>x \<in> set evs. \<not> matches opts x)"
  by (auto simp: findEvent_def find_down_None in_set_conv_nth) (metis nth_mem)

lemma resend_loop_eq: "resend_loop hit evs = (map (\<lambda>e. if hit e then mark_resend e else e) evs, \<exists>e \<in> set evs. hit e)"
  by (induction evs) auto

lemma lastSentValue_None: "lastSentValueForInstanceID evs iid = None \<longleftrightarrow> (\<forall>e \<in> set evs. \<not> (sent e \<and> announces e \<and> ev_InstanceID e = iid))"
  by (induction evs) auto

lemma mark_resend_neq: "mark_resend e \<noteq> e"
proof
  assume "mark_resend e = e"
  then have "ev_RetryCount (mark_resend e) = ev_RetryCount e" by simp
  then show False by (simp add: mark_resend_def)
qed

lemma map_if_neq: "(\<And>e. f e \<noteq> e) \<Longrightarrow> map (\<lambda>e. if P e then f e else e) xs \<noteq> xs \<longleftrightarrow> (\<exists>e \<in> set xs. P e)"
  by (induction xs) auto

section \<open>An example\<close>

definition example_event :: "string \<Rightarrow> event_type \<Rightarrow> event_state \<Rightarrow> string \<Rightarrow> billing_event" where
  "example_event iid t st v = \<lparr>ev_Type = t, ev_ProductID = ''pg'', ev_InstanceID = iid, ev_Value = v,
     ev_ItemDescription = [], ev_ItemGroupDescription = [], ev_Timestamp = 0, ev_State = st,
     ev_RetryCount = 0, ev_LastAttemptTime = 0\<rparr>"

definition example_events :: events where
  "example_events = [example_event ''a'' Scaled Pending ''3'', example_event ''a'' Scaled Sent ''2'',
     example_event ''b'' Created Sent ''1'', example_event ''a'' Created Sent ''1'']"

lemma example_prune:
  "(1, take 3 example_events) = pruneEventsIfNeeded rev example_events 2"
  by code_simp

section \<open>Properties\<close>

text \<open>
  C7. Pruning does not depend on the order in which the runtime visits the instances: it computes
  the index-free reference.
\<close>

theorem prune_equals_reference:
  assumes "range_order order"
  shows "snd (pruneEventsIfNeeded order evs maxEvents) = prune_reference evs maxEvents"
  using assms by (rule pruned_events)

theorem prune_equals_reference_witness:
  "snd (pruneEventsIfNeeded rev example_events 1) = prune_reference example_events 1 \<and>
   prune_reference example_events 1 = [example_events ! 0, example_events ! 2]"
proof
  show "snd (pruneEventsIfNeeded rev example_events 1) = prune_reference example_events 1"
    by (rule prune_equals_reference) simp
  show "prune_reference example_events 1 = [example_events ! 0, example_events ! 2]"
    by code_simp
qed

text \<open>
  C8. Pruning keeps every event that is not sent, in order; of the sent events of an instance it
  keeps the newest; an instance within the limit keeps all its events, another one ends at the limit,
  or at its number of unsent events when that is larger; the reported number is exact.
\<close>

theorem prune_keeps:
  assumes "range_order order" and "(n, evs') = pruneEventsIfNeeded order evs m"
  shows "n + length evs' = length evs \<and> filter (\<lambda>e. \<not> sent e) evs' = filter (\<lambda>e. \<not> sent e) evs \<and>
    (\<forall>iid. (let s = filter (\<lambda>e. ev_InstanceID e = iid \<and> sent e) evs
            in filter (\<lambda>e. ev_InstanceID e = iid \<and> sent e) evs' = take (length s - nat (excess evs m iid)) s) \<and>
       int (length (filter (\<lambda>e. ev_InstanceID e = iid) evs')) =
           (let c = int (length (filter (\<lambda>e. ev_InstanceID e = iid) evs));
                u = int (length (filter (\<lambda>e. ev_InstanceID e = iid \<and> \<not> sent e) evs))
            in if c \<le> m then c else max m u))"
proof -
  have e: "evs' = prune_reference evs m"
    using pruned_events [OF assms(1), of evs m] assms(2) by (metis snd_conv)
  have u: "filter (\<lambda>e. ev_InstanceID e = iid \<and> \<not> sent e) evs' = filter (\<lambda>e. ev_InstanceID e = iid \<and> \<not> sent e) evs" for iid
    using arg_cong [OF prune_reference_unsent [of evs m], of "filter (\<lambda>e. ev_InstanceID e = iid)"] by (simp add: e conj_commute)
  show ?thesis
    using prune_reference_unsent fst_prune [OF assms(1), of evs m] assms(2) [symmetric]
    by (auto simp: e Let_def count_split [of _ "prune_reference evs m"] count_split [of _ evs] prune_reference_instance
     u [unfolded e] excess_def)
qed

theorem prune_keeps_witness:
  "filter (\<lambda>e. \<not> sent e) (take 3 example_events) = [example_events ! 0] \<and>
   length (filter (\<lambda>e. ev_InstanceID e = ''a'') (take 3 example_events)) = 2"
proof -
  have "filter (\<lambda>e. \<not> sent e) (take 3 example_events) = filter (\<lambda>e. \<not> sent e) example_events"
    and "int (length (filter (\<lambda>e. ev_InstanceID e = ''a'') (take 3 example_events))) = 2"
    using prune_keeps [OF range_order_id(3) example_prune]
    by (auto simp: example_events_def example_event_def)
  then show ?thesis by (simp add: example_events_def example_event_def)
qed

text \<open>
  A resend request changes only what its mode names: every event keeps its place, its identity
  and its data; those the mode selects become \<open>resend\<close> with one more retry, superseded ones never;
  and the handler reports a change exactly when there is one (so it never skips the status update
  it needs).
\<close>

theorem handleResendAnnotation_spec:
  "(let (evs', changed) = handleResendAnnotation evs mode;
        hit = (\<lambda>e. (mode = ''all'' \<and> ev_State e \<noteq> Superseded)
                 \<or> (mode = ''not-sent'' \<and> ev_State e \<notin> {Superseded, Sent})
                 \<or> (mode = ''failed'' \<and> ev_State e = Failed))
    in evs' = map (\<lambda>e. if hit e then e\<lparr>ev_State := Resend, ev_RetryCount := ev_RetryCount e + 1\<rparr> else e) evs
       \<and> changed = (evs' \<noteq> evs))"
proof -
  have loop: "resend_loop hit evs = (let evs' = map (\<lambda>e. if hit e then e\<lparr>ev_State := Resend, ev_RetryCount := ev_RetryCount e + 1\<rparr> else e) evs
      in (evs', evs' \<noteq> evs))" for hit
    using resend_loop_eq [of hit evs] map_if_neq [OF mark_resend_neq, of hit evs]
    unfolding mark_resend_def by (simp add: Let_def)
  consider "mode = ''all''" | "mode = ''not-sent''" | "mode = ''failed''"
    | "mode \<noteq> ''all''" "mode \<noteq> ''not-sent''" "mode \<noteq> ''failed''" by blast
  then show ?thesis
    by cases (simp_all add: handleResendAnnotation_def resend_mode_of_def loop Let_def)
qed
end
