(* ===== verification/Billing.thy ===== *)
theory Billing
  imports Billing_Events
begin

text \<open>
  The billing controller, \<open>pkg/controller/billing/{create,delete,delivery,organization,remove,scale,
  conditions,billing_handler}.go\<close>: the handlers that enqueue events, the delivery of one event to
  Odoo, and \<open>Reconcile\<close>. A handler that mutates the object behind a pointer returns its error, the
  object and the world. The cluster, Odoo, the clock and the helpers of controller-runtime and
  client-go are the fields of \<open>billing_env\<close>.
\<close>

section \<open>What the controller calls\<close>

record instance_event =
  ie_ProductID :: string
  ie_InstanceID :: string
  ie_SalesOrderID :: string
  ie_ItemDescription :: string
  ie_ItemGroupDescription :: string
  ie_EventType :: event_type
  ie_Size :: string
  ie_Timestamp :: string

text \<open>
  A successful update decodes the object the server answers with into the caller's object, so the
  calls return one. \<open>be_RetryOnError\<close> is \<open>retry.OnError\<close> with \<open>retry.DefaultRetry\<close>;
  \<open>be_MapOrder\<close> the order of an iteration over a map; \<open>be_ExternalClient\<close> what
  \<open>clientcmd.RESTConfigFromKubeConfig\<close> and \<open>client.New\<close> make of a kubeconfig, \<open>be_GetOrganization\<close>
  a read with that client, the object as its decoded JSON value.
\<close>

record 'w billing_env =
  be_Get :: "string \<Rightarrow> string \<Rightarrow> 'w \<Rightarrow> (gerr + billing_service) \<times> 'w"
  be_Update :: "billing_service \<Rightarrow> 'w \<Rightarrow> (gerr + billing_service) \<times> 'w"
  be_StatusUpdate :: "billing_service \<Rightarrow> 'w \<Rightarrow> (gerr + billing_service) \<times> 'w"
  be_SendInstanceEvent :: "instance_event \<Rightarrow> 'w \<Rightarrow> gerr option \<times> 'w"
  be_Now :: "'w \<Rightarrow> instant \<times> 'w"
  be_ParseTime :: "string \<Rightarrow> instant option"
  be_FormatTime :: "instant \<Rightarrow> string"
  be_RetryOnError :: "(gerr \<Rightarrow> bool) \<Rightarrow> ('w \<Rightarrow> (gerr + billing_service) \<times> 'w) \<Rightarrow> 'w \<Rightarrow> (gerr + billing_service) \<times> 'w"
  be_MapOrder :: "'w \<Rightarrow> string list \<Rightarrow> string list"
  be_AddFinalizer :: "string list \<Rightarrow> string \<Rightarrow> string list \<times> bool"
  be_RemoveFinalizer :: "string list \<Rightarrow> string \<Rightarrow> string list"
  be_ContainsFinalizer :: "string list \<Rightarrow> string \<Rightarrow> bool"
  be_GetSecret :: "string \<Rightarrow> string \<Rightarrow> 'w \<Rightarrow> (gerr + (string \<Rightarrow> string option)) \<times> 'w"
  be_RESTConfig :: "string \<Rightarrow> gerr option"
  be_ExternalClient :: "string \<Rightarrow> gerr option"
  be_GetOrganization :: "string \<Rightarrow> string \<Rightarrow> 'w \<Rightarrow> (gerr + (string \<times> gany) list) \<times> 'w"
  be_NestedString :: "(string \<times> gany) list \<Rightarrow> string list \<Rightarrow> gerr + string option"

text \<open>A handler: its error, the object it leaves, the world after it.\<close>

type_synonym 'w outcome = "gerr option \<times> billing_service \<times> 'w"

definition BillingServiceFinalizer :: string where
  "BillingServiceFinalizer = ''billing.appcat.vshn.io/delete-protection''"

definition InstanceCreationTimestampAnnotation :: string where
  "InstanceCreationTimestampAnnotation = ''appcat.vshn.io/instance-creation-timestamp''"

definition ResendAnnotationKey :: string where
  "ResendAnnotationKey = ''appcat.vshn.io/resend''"

definition successDrainDelay :: duration where "successDrainDelay = 1 * second"

text \<open>\<open>New\<close> replaces a limit that is not positive by the default.\<close>

definition New_maxEvents :: "int \<Rightarrow> int" where
  "New_maxEvents maxEvents = (if maxEvents \<le> 0 then 100 else maxEvents)"

section \<open>Enqueuing events\<close>

text \<open>\<open>return b.Status().Update(ctx, billingService)\<close>.\<close>

definition persist_status :: "'w billing_env \<Rightarrow> billing_service \<Rightarrow> 'w \<Rightarrow> 'w outcome" where
  "persist_status env svc w =
     (case be_StatusUpdate env svc w of
        (Inl e, w') \<Rightarrow> (Some e, svc, w')
      | (Inr svc', w') \<Rightarrow> (None, svc', w'))"

definition enqueueEvent ::
  "'w billing_env \<Rightarrow> int \<Rightarrow> billing_event \<Rightarrow> billing_service \<Rightarrow> 'w \<Rightarrow> 'w outcome" where
  "enqueueEvent env maxEvents event svc w =
     (let (pruned, evs) = pruneEventsIfNeeded (be_MapOrder env w) (event # bs_Events svc) maxEvents
      in persist_status env (svc\<lparr>bs_Events := evs\<rparr>) w)"

definition instanceCreationTimestamp :: "'w billing_env \<Rightarrow> billing_service \<Rightarrow> instant option" where
  "instanceCreationTimestamp env svc =
     (case bs_Annotations svc InstanceCreationTimestampAnnotation of
        None \<Rightarrow> None
      | Some raw \<Rightarrow>
          (if raw \<noteq> [] then
             (case be_ParseTime env raw of
                None \<Rightarrow> None
              | Some t \<Rightarrow> if t \<noteq> zero_time then Some t else None)
           else None))"

definition handleItemCreation ::
  "'w billing_env \<Rightarrow> int \<Rightarrow> item_spec \<Rightarrow> bool \<Rightarrow> billing_service \<Rightarrow> 'w \<Rightarrow> 'w outcome" where
  "handleItemCreation env maxEvents item initialCreation svc w =
     (if hasEventByInstanceID (bs_Events svc) Created (it_InstanceID item) then (None, svc, w)
      else
        (let (ts0, w1) = be_Now env w;
             ts = (if initialCreation then instanceCreationTimestamp env svc else Some ts0)
         in case ts of
              None \<Rightarrow> (Some (Msg ''instance creation timestamp annotation not yet set''), svc, w1)
            | Some t \<Rightarrow>
                enqueueEvent env maxEvents
                  \<lparr>ev_Type = Created, ev_ProductID = it_ProductID item, ev_InstanceID = it_InstanceID item,
                   ev_Value = it_Value item, ev_ItemDescription = it_ItemDescription item,
                   ev_ItemGroupDescription = it_ItemGroupDescription item, ev_Timestamp = t,
                   ev_State = Pending, ev_RetryCount = 0, ev_LastAttemptTime = zero_time\<rparr> svc w1))"

definition handleItemScaling ::
  "'w billing_env \<Rightarrow> int \<Rightarrow> item_spec \<Rightarrow> billing_service \<Rightarrow> 'w \<Rightarrow> 'w outcome" where
  "handleItemScaling env maxEvents item svc w =
     (case lastSentValueForInstanceID (bs_Events svc) (it_InstanceID item) of
        None \<Rightarrow> (None, svc, w)
      | Some lastValue \<Rightarrow>
          (if lastValue = it_Value item then (None, svc, w)
           else if hasEventWithValueByInstanceID (bs_Events svc) Scaled (it_InstanceID item) (it_Value item)
           then (None, svc, w)
           else
             (let (now, w1) = be_Now env w
              in enqueueEvent env maxEvents
                  \<lparr>ev_Type = Scaled, ev_ProductID = it_ProductID item, ev_InstanceID = it_InstanceID item,
                   ev_Value = it_Value item, ev_ItemDescription = it_ItemDescription item,
                   ev_ItemGroupDescription = it_ItemGroupDescription item, ev_Timestamp = now,
                   ev_State = Pending, ev_RetryCount = 0, ev_LastAttemptTime = zero_time\<rparr> svc w1)))"

text \<open>The loop of \<open>Reconcile\<close> over the items of the specification, read once before it starts.\<close>

fun handle_items ::
  "'w billing_env \<Rightarrow> int \<Rightarrow> bool \<Rightarrow> item_spec list \<Rightarrow> billing_service \<Rightarrow> 'w \<Rightarrow> 'w outcome" where
  "handle_items env maxEvents initialCreation [] svc w = (None, svc, w)"
| "handle_items env maxEvents initialCreation (item # items) svc w =
     (case handleItemCreation env maxEvents item initialCreation svc w of
        (Some e, svc1, w1) \<Rightarrow> (Some e, svc1, w1)
      | (None, svc1, w1) \<Rightarrow>
          (case handleItemScaling env maxEvents item svc1 w1 of
             (Some e, svc2, w2) \<Rightarrow> (Some e, svc2, w2)
           | (None, svc2, w2) \<Rightarrow> handle_items env maxEvents initialCreation items svc2 w2))"

section \<open>Deletion of the service and of items\<close>

definition spec_of_event :: "billing_event \<Rightarrow> item_spec" where
  "spec_of_event e = \<lparr>it_ProductID = ev_ProductID e, it_ItemDescription = ev_ItemDescription e,
     it_ItemGroupDescription = ev_ItemGroupDescription e, it_Value = ev_Value e,
     it_InstanceID = ev_InstanceID e\<rparr>"

text \<open>The map \<open>seen\<close> only ever holds true, so it is the set of its keys, returned with the outcome.\<close>

definition enqueueDeleteIfNeeded ::
  "'w billing_env \<Rightarrow> int \<Rightarrow> item_spec \<Rightarrow> instant \<Rightarrow> string set \<Rightarrow> billing_service \<Rightarrow> 'w \<Rightarrow> string set \<times> 'w outcome" where
  "enqueueDeleteIfNeeded env maxEvents it delTime seen svc w =
     (if it_InstanceID it \<in> seen \<or> hasEventByInstanceID (bs_Events svc) Deleted (it_InstanceID it)
      then (seen, None, svc, w)
      else (insert (it_InstanceID it) seen,
            enqueueEvent env maxEvents
              \<lparr>ev_Type = Deleted, ev_ProductID = it_ProductID it, ev_InstanceID = it_InstanceID it,
               ev_Value = lastObservedValueForInstanceID (bs_Events svc) (it_InstanceID it) (it_Value it),
               ev_ItemDescription = it_ItemDescription it,
               ev_ItemGroupDescription = it_ItemGroupDescription it, ev_Timestamp = delTime,
               ev_State = Pending, ev_RetryCount = 0, ev_LastAttemptTime = zero_time\<rparr> svc w))"

text \<open>The two loops of \<open>handleDeletion\<close>; the second ranges over the events as they were before it.\<close>

fun delete_items ::
  "'w billing_env \<Rightarrow> int \<Rightarrow> instant \<Rightarrow> item_spec list \<Rightarrow> string set \<Rightarrow> billing_service \<Rightarrow> 'w \<Rightarrow> string set \<times> 'w outcome" where
  "delete_items env maxEvents delTime [] seen svc w = (seen, None, svc, w)"
| "delete_items env maxEvents delTime (item # items) seen svc w =
     (case enqueueDeleteIfNeeded env maxEvents item delTime seen svc w of
        (seen1, Some e, svc1, w1) \<Rightarrow> (seen1, Some e, svc1, w1)
      | (seen1, None, svc1, w1) \<Rightarrow> delete_items env maxEvents delTime items seen1 svc1 w1)"

fun delete_sent ::
  "'w billing_env \<Rightarrow> int \<Rightarrow> instant \<Rightarrow> events \<Rightarrow> string set \<Rightarrow> billing_service \<Rightarrow> 'w \<Rightarrow> string set \<times> 'w outcome" where
  "delete_sent env maxEvents delTime [] seen svc w = (seen, None, svc, w)"
| "delete_sent env maxEvents delTime (event # evs) seen svc w =
     (if ev_InstanceID event \<in> seen then delete_sent env maxEvents delTime evs seen svc w
      else if ev_State event \<noteq> Sent then delete_sent env maxEvents delTime evs seen svc w
      else if ev_Type event \<noteq> Created \<and> ev_Type event \<noteq> Scaled
      then delete_sent env maxEvents delTime evs seen svc w
      else (case enqueueDeleteIfNeeded env maxEvents (spec_of_event event) delTime seen svc w of
              (seen1, Some e, svc1, w1) \<Rightarrow> (seen1, Some e, svc1, w1)
            | (seen1, None, svc1, w1) \<Rightarrow> delete_sent env maxEvents delTime evs seen1 svc1 w1))"

definition handleDeletion :: "'w billing_env \<Rightarrow> int \<Rightarrow> billing_service \<Rightarrow> 'w \<Rightarrow> 'w outcome" where
  "handleDeletion env maxEvents svc w =
     (case bs_DeletionTimestamp svc of
        None \<Rightarrow> (None, svc, w)
      | Some delTime \<Rightarrow>
          (if delTime = zero_time then (None, svc, w)
           else (case delete_items env maxEvents delTime (bs_Items svc) {} svc w of
                   (_, Some e, svc1, w1) \<Rightarrow> (Some e, svc1, w1)
                 | (seen, None, svc1, w1) \<Rightarrow>
                     (case delete_sent env maxEvents delTime (bs_Events svc1) seen svc1 w1 of
                        (_, Some e, svc2, w2) \<Rightarrow> (Some e, svc2, w2)
                      | (_, None, svc2, w2) \<Rightarrow>
                          (None, svc2\<lparr>bs_Finalizers :=
                             fst (be_AddFinalizer env (bs_Finalizers svc2) BillingServiceFinalizer)\<rparr>, w2)))))"

text \<open>
  \<open>shouldRemoveFinalizer\<close>: the decision, and the time left. The deletion timestamp is dereferenced,
  a nil pointer being a panic (\<open>None\<close>); the caller only asks when it is set.
\<close>

definition shouldRemoveFinalizer :: "billing_service \<Rightarrow> instant \<Rightarrow> (bool \<times> duration option) option" where
  "shouldRemoveFinalizer svc now =
     (if bs_KeepAfterDeletion svc \<le> 0 then Some (True, None)
      else (case bs_DeletionTimestamp svc of
              None \<Rightarrow> None
            | Some deletionTimestamp \<Rightarrow>
                (let allowedDeletionTime = deletionTimestamp + dur_mult (dur_mult (bs_KeepAfterDeletion svc) 24) hour
                 in if now > allowedDeletionTime \<or> now = allowedDeletionTime then Some (True, None)
                    else Some (False, Some (time_sub allowedDeletionTime now)))))"

text \<open>
  The single pass of \<open>handleRemovedItems\<close> over the events. The map of the last sent created or
  scaled event per instance is an association list in the order of insertion. (The map of created
  instances only feeds a log line.)
\<close>

fun last_sent :: "events \<Rightarrow> (string \<times> item_spec) list \<Rightarrow> (string \<times> item_spec) list" where
  "last_sent [] m = m"
| "last_sent (e # es) m =
     (if map_of m (ev_InstanceID e) = None \<and> ev_State e = Sent \<and> (ev_Type e = Created \<or> ev_Type e = Scaled)
      then last_sent es (m @ [(ev_InstanceID e, spec_of_event e)])
      else last_sent es m)"

definition delEvent :: "string \<Rightarrow> item_spec \<Rightarrow> instant \<Rightarrow> billing_event" where
  "delEvent iid info now =
     \<lparr>ev_Type = Deleted, ev_ProductID = it_ProductID info, ev_InstanceID = iid,
      ev_Value = it_Value info, ev_ItemDescription = it_ItemDescription info,
      ev_ItemGroupDescription = it_ItemGroupDescription info, ev_Timestamp = now,
      ev_State = Pending, ev_RetryCount = 0, ev_LastAttemptTime = zero_time\<rparr>"

fun remove_items ::
  "'w billing_env \<Rightarrow> int \<Rightarrow> string set \<Rightarrow> (string \<times> item_spec) list \<Rightarrow> string list \<Rightarrow> billing_service \<Rightarrow> 'w \<Rightarrow> 'w outcome" where
  "remove_items env maxEvents currentInstances lastSent [] svc w = (None, svc, w)"
| "remove_items env maxEvents currentInstances lastSent (iid # iids) svc w =
     (if iid \<in> currentInstances \<or> hasEventByInstanceID (bs_Events svc) Deleted iid
      then remove_items env maxEvents currentInstances lastSent iids svc w
      else
        (let info = the (map_of lastSent iid); (now, w1) = be_Now env w
         in case enqueueEvent env maxEvents (delEvent iid info now) svc w1 of
              (Some e, svc1, w2) \<Rightarrow> (Some e, svc1, w2)
            | (None, svc1, w2) \<Rightarrow> remove_items env maxEvents currentInstances lastSent iids svc1 w2))"

definition handleRemovedItems :: "'w billing_env \<Rightarrow> int \<Rightarrow> billing_service \<Rightarrow> 'w \<Rightarrow> 'w outcome" where
  "handleRemovedItems env maxEvents svc w =
     (let currentInstances = set (map it_InstanceID (bs_Items svc));
          lastSent = last_sent (bs_Events svc) []
      in remove_items env maxEvents currentInstances lastSent (be_MapOrder env w (map fst lastSent)) svc w)"

section \<open>Delivery\<close>

definition sendEventToOdoo ::
  "'w billing_env \<Rightarrow> billing_service \<Rightarrow> billing_event \<Rightarrow> 'w \<Rightarrow> gerr option \<times> 'w" where
  "sendEventToOdoo env svc event w =
     (if ev_InstanceID event = [] then (Some (Msg ''event has no instanceID''), w)
      else be_SendInstanceEvent env
        \<lparr>ie_ProductID = ev_ProductID event, ie_InstanceID = ev_InstanceID event,
         ie_SalesOrderID = bs_SalesOrderID svc, ie_ItemDescription = ev_ItemDescription event,
         ie_ItemGroupDescription = ev_ItemGroupDescription event, ie_EventType = ev_Type event,
         ie_Size = ev_Value event, ie_Timestamp = be_FormatTime env (ev_Timestamp event)\<rparr> w)"

definition isTransientAPIError :: "gerr \<Rightarrow> bool" where
  "isTransientAPIError e =
     (is_reason Conflict e \<or> is_reason ServerTimeout e \<or> is_reason TooManyRequests e \<or>
      is_reason ServiceUnavailable e)"

text \<open>The loop of \<open>persistEventSent\<close>: the first event of the same identity is marked; None if there is none.\<close>

fun mark_sent :: "billing_event \<Rightarrow> events \<Rightarrow> events option" where
  "mark_sent event [] = None"
| "mark_sent event (e # es) =
     (if ev_InstanceID e = ev_InstanceID event \<and> ev_Type e = ev_Type event \<and> ev_Timestamp e = ev_Timestamp event
      then Some (e\<lparr>ev_State := Sent, ev_LastAttemptTime := ev_LastAttemptTime event\<rparr> # es)
      else (case mark_sent event es of None \<Rightarrow> None | Some es' \<Rightarrow> Some (e # es')))"

definition persistEventSent ::
  "'w billing_env \<Rightarrow> billing_service \<Rightarrow> billing_event \<Rightarrow> 'w \<Rightarrow> (gerr + billing_service) \<times> 'w" where
  "persistEventSent env svc event w =
     (case be_Get env (bs_Namespace svc) (bs_Name svc) w of
        (Inl e, w1) \<Rightarrow> (Inl e, w1)
      | (Inr fresh, w1) \<Rightarrow>
          (case mark_sent event (bs_Events fresh) of
             None \<Rightarrow> (Inl (Msg ''event not found after re-fetch (pruned?)''), w1)
           | Some evs \<Rightarrow> be_StatusUpdate env (fresh\<lparr>bs_Events := evs\<rparr>) w1))"

text \<open>The result: whether the event was sent, and the error.\<close>

definition deliverQueuedEvent ::
  "'w billing_env \<Rightarrow> nat \<Rightarrow> billing_service \<Rightarrow> 'w \<Rightarrow> bool \<times> 'w outcome" where
  "deliverQueuedEvent env idx svc w =
     (let (now, w1) = be_Now env w;
          event = (bs_Events svc ! idx)\<lparr>ev_LastAttemptTime := now\<rparr>
      in case sendEventToOdoo env svc event w1 of
           (Some err, w2) \<Rightarrow>
             (let failed = event\<lparr>ev_RetryCount := ev_RetryCount event + 1, ev_State := Failed\<rparr>;
                  (_, svc1, w3) = persist_status env (svc\<lparr>bs_Events := (bs_Events svc)[idx := failed]\<rparr>) w2
              in (False, Some err, svc1, w3))
         | (None, w2) \<Rightarrow>
             (case be_RetryOnError env isTransientAPIError (persistEventSent env svc event) w2 of
                (Inl err, w3) \<Rightarrow> (True, Some err, svc, w3)
              | (Inr fresh, w3) \<Rightarrow> (True, None, fresh, w3)))"

definition processQueue :: "'w billing_env \<Rightarrow> billing_service \<Rightarrow> 'w \<Rightarrow> bool \<times> 'w outcome" where
  "processQueue env svc w =
     (case findEvent (bs_Events svc) \<lparr>fo_States = [Resend], fo_Type = None\<rparr> of
        Some (i, _) \<Rightarrow> deliverQueuedEvent env i svc w
      | None \<Rightarrow>
     (case findEvent (bs_Events svc) \<lparr>fo_States = [Failed], fo_Type = None\<rparr> of
        Some (i, _) \<Rightarrow> deliverQueuedEvent env i svc w
      | None \<Rightarrow>
     (case findEvent (bs_Events svc) \<lparr>fo_States = [Pending], fo_Type = Some Deleted\<rparr> of
        Some (i, _) \<Rightarrow> deliverQueuedEvent env i svc w
      | None \<Rightarrow>
     (case findEvent (bs_Events svc) \<lparr>fo_States = [Pending], fo_Type = None\<rparr> of
        Some (i, _) \<Rightarrow> deliverQueuedEvent env i svc w
      | None \<Rightarrow> (False, None, svc, w)))))"

section \<open>Conditions\<close>

fun findConditionIndex :: "condition list \<Rightarrow> cond_type \<Rightarrow> nat option" where
  "findConditionIndex [] t = None"
| "findConditionIndex (c # cs) t =
     (if co_Type c = t then Some 0
      else (case findConditionIndex cs t of None \<Rightarrow> None | Some i \<Rightarrow> Some (Suc i)))"

definition setCondition :: "condition list \<Rightarrow> condition \<Rightarrow> instant \<Rightarrow> condition list" where
  "setCondition conds cond now =
     (let cond1 = cond\<lparr>co_LastTransitionTime := now\<rparr>
      in case findConditionIndex conds (co_Type cond1) of
           None \<Rightarrow> conds @ [cond1]
         | Some i \<Rightarrow>
             (let prev = conds ! i;
                  cond2 = (if co_Status prev = co_Status cond1 \<and> co_Reason prev = co_Reason cond1
                           then cond1\<lparr>co_LastTransitionTime := co_LastTransitionTime prev\<rparr> else cond1)
              in conds[i := cond2]))"

definition setReadyCondition :: "billing_service \<Rightarrow> instant \<Rightarrow> billing_service" where
  "setReadyCondition svc now =
     (let ready = IsZero (bs_DeletionTimestamp svc);
          cond = \<lparr>co_Type = ConditionTypeReady, co_Status = ready,
                  co_Reason = (if ready then ReasonReconcileSuccess else ReasonDeleting),
                  co_ObservedGeneration = bs_Generation svc, co_LastTransitionTime = zero_time\<rparr>
      in svc\<lparr>bs_Conditions := setCondition (bs_Conditions svc) cond now\<rparr>)"

definition setSyncedCondition :: "billing_service \<Rightarrow> instant \<Rightarrow> billing_service" where
  "setSyncedCondition svc now =
     (let allDelivered = \<not> list_ex (\<lambda>e. ev_State e \<noteq> Sent \<and> ev_State e \<noteq> Superseded) (bs_Events svc);
          cond = \<lparr>co_Type = ConditionTypeSynced, co_Status = allDelivered,
                  co_Reason = (if allDelivered then ReasonAllEventsSent else ReasonPendingOrFailed),
                  co_ObservedGeneration = bs_Generation svc, co_LastTransitionTime = zero_time\<rparr>
      in svc\<lparr>bs_Conditions := setCondition (bs_Conditions svc) cond now\<rparr>)"

definition updateStatus :: "'w billing_env \<Rightarrow> billing_service \<Rightarrow> 'w \<Rightarrow> 'w outcome" where
  "updateStatus env svc w =
     (let (now1, w1) = be_Now env w; (now2, w2) = be_Now env w1
      in persist_status env (setSyncedCondition (setReadyCondition svc now1) now2) w2)"

section \<open>The sales order of an organization\<close>

definition getExternalClusterClient :: "'w billing_env \<Rightarrow> 'w \<Rightarrow> (gerr + string) \<times> 'w" where
  "getExternalClusterClient env w =
     (case be_GetSecret env ''syn-appcat'' ''appuio-control-sa'' w of
        (Inl e, w1) \<Rightarrow> (Inl (Wrapped ''failed to get secret'' e), w1)
      | (Inr data, w1) \<Rightarrow>
          (case data ''kubeconfig'' of
             None \<Rightarrow> (Inl (Msg ''secret does not contain key''), w1)
           | Some kubeconfigData \<Rightarrow>
               (case be_RESTConfig env kubeconfigData of
                  Some e \<Rightarrow> (Inl (Wrapped ''failed to create REST config from kubeconfig'' e), w1)
                | None \<Rightarrow>
                    (case be_ExternalClient env kubeconfigData of
                       Some e \<Rightarrow> (Inl (Wrapped ''failed to create external cluster client'' e), w1)
                     | None \<Rightarrow> (Inr kubeconfigData, w1)))))"

definition getSalesOrderFromOrganization ::
  "'w billing_env \<Rightarrow> string \<Rightarrow> string \<Rightarrow> 'w \<Rightarrow> (gerr + string) \<times> 'w" where
  "getSalesOrderFromOrganization env externalClient organizationName w =
     (case be_GetOrganization env externalClient organizationName w of
        (Inl e, w1) \<Rightarrow> (Inl (Wrapped ''failed to get Organization'' e), w1)
      | (Inr org, w1) \<Rightarrow>
          (case be_NestedString env org [''status'', ''salesOrderName''] of
             Inl e \<Rightarrow> (Inl (Wrapped ''error extracting salesOrderName'' e), w1)
           | Inr None \<Rightarrow> (Inl (Msg ''salesOrderName not found or empty''), w1)
           | Inr (Some salesOrderName) \<Rightarrow>
               (if salesOrderName = [] then (Inl (Msg ''salesOrderName not found or empty''), w1)
                else (Inr salesOrderName, w1))))"

definition fetchSalesOrderFromAPPUiOControl ::
  "'w billing_env \<Rightarrow> string \<Rightarrow> 'w \<Rightarrow> (gerr + string) \<times> 'w" where
  "fetchSalesOrderFromAPPUiOControl env organizationName w =
     (case getExternalClusterClient env w of
        (Inl e, w1) \<Rightarrow> (Inl (Wrapped ''failed to create external cluster client'' e), w1)
      | (Inr externalClient, w1) \<Rightarrow>
          (case getSalesOrderFromOrganization env externalClient organizationName w1 of
             (Inl e, w2) \<Rightarrow> (Inl (Wrapped ''failed to get sales order from Organization'' e), w2)
           | (Inr salesOrder, w2) \<Rightarrow> (Inr salesOrder, w2)))"

section \<open>Reconcile\<close>

text \<open>\<open>b.Update(ctx, billingService)\<close>, with the early return on its error left to the caller.\<close>

definition update_object :: "'w billing_env \<Rightarrow> billing_service \<Rightarrow> 'w \<Rightarrow> 'w outcome" where
  "update_object env svc w =
     (case be_Update env svc w of
        (Inl e, w') \<Rightarrow> (Some e, svc, w')
      | (Inr svc', w') \<Rightarrow> (None, svc', w'))"

text \<open>The steps of \<open>Reconcile\<close>, one definition for each block of the function.\<close>

definition populate_sales_order :: "'w billing_env \<Rightarrow> billing_service \<Rightarrow> 'w \<Rightarrow> 'w outcome" where
  "populate_sales_order env svc w =
     (if bs_SalesOrderID svc \<noteq> [] then (None, svc, w)
      else if bs_Organization svc = [] then (Some (Msg ''sales order and/or organization missing''), svc, w)
      else (case fetchSalesOrderFromAPPUiOControl env (bs_Organization svc) w of
              (Inl e, w1) \<Rightarrow> (Some (Wrapped ''failed to fetch sales order'' e), svc, w1)
            | (Inr salesOrder, w1) \<Rightarrow> update_object env (svc\<lparr>bs_SalesOrderID := salesOrder\<rparr>) w1))"

definition ensure_finalizer :: "'w billing_env \<Rightarrow> billing_service \<Rightarrow> 'w \<Rightarrow> 'w outcome" where
  "ensure_finalizer env svc w =
     (if \<not> IsZero (bs_DeletionTimestamp svc) then (None, svc, w)
      else (case be_AddFinalizer env (bs_Finalizers svc) BillingServiceFinalizer of
              (fins, added) \<Rightarrow>
                (if added then update_object env (svc\<lparr>bs_Finalizers := fins\<rparr>) w
                 else (None, svc\<lparr>bs_Finalizers := fins\<rparr>, w))))"

definition handle_resend :: "'w billing_env \<Rightarrow> billing_service \<Rightarrow> 'w \<Rightarrow> 'w outcome" where
  "handle_resend env svc w =
     (case bs_Annotations svc ResendAnnotationKey of
        None \<Rightarrow> (None, svc, w)
      | Some mode \<Rightarrow>
          (if mode = [] then (None, svc, w)
           else
             (let (evs, changed) = handleResendAnnotation (bs_Events svc) mode;
                  svc0 = svc\<lparr>bs_Events := evs\<rparr>
              in case (if changed then persist_status env svc0 w else (None, svc0, w)) of
                   (Some e, svc1, w1) \<Rightarrow> (Some e, svc1, w1)
                 | (None, svc1, w1) \<Rightarrow>
                     update_object env (svc1\<lparr>bs_Annotations := (bs_Annotations svc1)(ResendAnnotationKey := None)\<rparr>) w1)))"

text \<open>The branch for an object that is being deleted.\<close>

definition finish_deletion ::
  "'w billing_env \<Rightarrow> bool \<Rightarrow> billing_service \<Rightarrow> 'w \<Rightarrow> reconcile_result \<times> 'w" where
  "finish_deletion env wasSent svc w =
     (let (now, w1) = (if bs_KeepAfterDeletion svc \<le> 0 then (0, w) else be_Now env w)
      in case shouldRemoveFinalizer svc now of
           None \<Rightarrow> (Panicked, w1)
         | Some (canRemoveFinalizer, requeueAfter) \<Rightarrow>
             (case (if canRemoveFinalizer \<and> \<not> hasBacklog (bs_Events svc)
                       \<and> be_ContainsFinalizer env (bs_Finalizers svc) BillingServiceFinalizer
                    then update_object env
                           (svc\<lparr>bs_Finalizers := be_RemoveFinalizer env (bs_Finalizers svc) BillingServiceFinalizer\<rparr>) w1
                    else (None, svc, w1)) of
                (Some e, _, w2) \<Rightarrow> (Failure e, w2)
              | (None, svc2, w2) \<Rightarrow>
                  (case updateStatus env svc2 w2 of
                     (Some e, _, w3) \<Rightarrow> (Failure e, w3)
                   | (None, svc3, w3) \<Rightarrow>
                       (if wasSent \<or> hasBacklog (bs_Events svc3) then (RequeueAfter successDrainDelay, w3)
                        else (case requeueAfter of
                                Some d \<Rightarrow> (RequeueAfter d, w3)
                              | None \<Rightarrow> (Done, w3))))))"

definition reconcile_deleting :: "'w billing_env \<Rightarrow> int \<Rightarrow> billing_service \<Rightarrow> 'w \<Rightarrow> reconcile_result \<times> 'w" where
  "reconcile_deleting env maxEvents svc w =
     (case handleDeletion env maxEvents svc w of
        (Some e, _, w1) \<Rightarrow> (Failure e, w1)
      | (None, svc1, w1) \<Rightarrow>
          (case processQueue env svc1 w1 of
             (_, Some e, svc2, w2) \<Rightarrow> (Failure e, snd (snd (updateStatus env svc2 w2)))
           | (wasSent, None, svc2, w2) \<Rightarrow> finish_deletion env wasSent svc2 w2))"

definition reconcile_active :: "'w billing_env \<Rightarrow> int \<Rightarrow> billing_service \<Rightarrow> 'w \<Rightarrow> reconcile_result \<times> 'w" where
  "reconcile_active env maxEvents svc w =
     (case handle_items env maxEvents (length (bs_Events svc) = 0) (bs_Items svc) svc w of
        (Some e, _, w1) \<Rightarrow> (Failure e, w1)
      | (None, svc1, w1) \<Rightarrow>
     (case handleRemovedItems env maxEvents svc1 w1 of
        (Some e, _, w2) \<Rightarrow> (Failure e, w2)
      | (None, svc2, w2) \<Rightarrow>
     (case processQueue env svc2 w2 of
        (_, Some e, svc3, w3) \<Rightarrow> (Failure e, snd (snd (updateStatus env svc3 w3)))
      | (wasSent, None, svc3, w3) \<Rightarrow>
     (case updateStatus env svc3 w3 of
        (Some e, _, w4) \<Rightarrow> (Failure e, w4)
      | (None, svc4, w4) \<Rightarrow>
          (if wasSent \<or> hasBacklog (bs_Events svc4) then (RequeueAfter successDrainDelay, w4)
           else (Done, w4))))))"

definition Reconcile :: "'w billing_env \<Rightarrow> int \<Rightarrow> string \<Rightarrow> string \<Rightarrow> 'w \<Rightarrow> reconcile_result \<times> 'w" where
  "Reconcile env maxEvents namespace name w =
     (case be_Get env namespace name w of
        (Inl e, w1) \<Rightarrow> (if IsNotFound e then (Done, w1) else (Failure e, w1))
      | (Inr svc, w1) \<Rightarrow>
     (case populate_sales_order env svc w1 of
        (Some e, _, w2) \<Rightarrow> (Failure e, w2)
      | (None, svc2, w2) \<Rightarrow>
     (case ensure_finalizer env svc2 w2 of
        (Some e, _, w3) \<Rightarrow> (Failure e, w3)
      | (None, svc3, w3) \<Rightarrow>
     (case handle_resend env svc3 w3 of
        (Some e, _, w4) \<Rightarrow> (Failure e, w4)
      | (None, svc4, w4) \<Rightarrow>
          (if \<not> IsZero (bs_DeletionTimestamp svc4) then reconcile_deleting env maxEvents svc4 w4
           else reconcile_active env maxEvents svc4 w4)))))"

end
