(* ===== verification/Billing_Ledger.thy ===== *)
theory Billing_Ledger
  imports Billing
begin

text \<open>
  What the billing handlers promise. The abstract specification is a ledger: a step adds one pending
  event that the list before it admits, prunes, and stores the result. Every handler that enqueues
  implements steps of the ledger (\<open>enqueue_handler\<close> is that contract, interpreted on each of them), so
  the invariants are proved once, by rule induction on the steps. Then deletion, delivery and the
  finalizer.
\<close>

section \<open>Laws of the environment\<close>

text \<open>The JSON encoding of a \<open>metav1.Time\<close> has a resolution of one second.\<close>

definition wire_time :: "instant \<Rightarrow> instant" where
  "wire_time t = t - t mod second"

definition wire_event :: "billing_event \<Rightarrow> billing_event" where
  "wire_event e = e\<lparr>ev_Timestamp := wire_time (ev_Timestamp e),
                     ev_LastAttemptTime := wire_time (ev_LastAttemptTime e)\<rparr>"

lemma wire_event_sel [simp]:
  "ev_Type (wire_event e) = ev_Type e" "ev_InstanceID (wire_event e) = ev_InstanceID e"
  "ev_State (wire_event e) = ev_State e" "ev_Value (wire_event e) = ev_Value e"
  "ev_RetryCount (wire_event e) = ev_RetryCount e"
  by (simp_all add: wire_event_def)

text \<open>
  A status update that succeeds stores the events it is given and answers with them; a map is ranged
  over in some order.
\<close>

definition status_echo :: "'w billing_env \<Rightarrow> bool" where
  "status_echo env \<longleftrightarrow>
     (\<forall>svc w svc' w'. be_StatusUpdate env svc w = (Inr svc', w') \<longrightarrow>
        bs_Events svc' = map wire_event (bs_Events svc))"

lemma status_echoD:
  "status_echo env \<Longrightarrow> be_StatusUpdate env svc w = (Inr svc', w') \<Longrightarrow>
   bs_Events svc' = map wire_event (bs_Events svc)"
  unfolding status_echo_def by blast

definition lawful :: "'w billing_env \<Rightarrow> bool" where
  "lawful env \<longleftrightarrow> status_echo env \<and> (\<forall>w. range_order (be_MapOrder env w))"

section \<open>The ledger\<close>

definition admissible :: "events \<Rightarrow> billing_event \<Rightarrow> bool" where
  "admissible evs ev =
     (case ev_Type ev of
        Created \<Rightarrow> \<not> hasEventByInstanceID evs Created (ev_InstanceID ev)
      | Deleted \<Rightarrow> \<not> hasEventByInstanceID evs Deleted (ev_InstanceID ev)
      | Scaled \<Rightarrow> (\<exists>v. lastSentValueForInstanceID evs (ev_InstanceID ev) = Some v \<and> v \<noteq> ev_Value ev))"

definition stored :: "int \<Rightarrow> billing_event \<Rightarrow> events \<Rightarrow> events" where
  "stored m ev evs = map wire_event (prune_reference (ev # evs) m)"

inductive ledger_step :: "int \<Rightarrow> events \<Rightarrow> events \<Rightarrow> bool" for m where
  enqueue: "ev_State ev = Pending \<Longrightarrow> admissible evs ev \<Longrightarrow> ledger_step m evs (stored m ev evs)"

inductive_cases ledger_stepE: "ledger_step m evs evs'"

abbreviation ledger_run :: "int \<Rightarrow> events \<Rightarrow> events \<Rightarrow> bool" where
  "ledger_run m \<equiv> (ledger_step m)\<^sup>*\<^sup>*"

lemma unsent_stored:
  assumes "ev_State e \<noteq> Sent" and "e = ev \<or> e \<in> set evs"
  shows "wire_event e \<in> set (stored m ev evs)"
proof -
  have "e \<in> set (filter (\<lambda>e. \<not> sent e) (prune_reference (ev # evs) m))"
    using assms by (simp only: prune_reference_unsent) auto
  then show ?thesis by (simp add: stored_def)
qed

lemma stored_subset: "e \<in> set (stored m ev evs) \<Longrightarrow> \<exists>e0. e = wire_event e0 \<and> (e0 = ev \<or> e0 \<in> set evs)"
  using prune_reference_subset [of "ev # evs" m] by (auto simp: stored_def)

lemma length_filter_keep_by: "length (filter P (keep_by K xs)) \<le> length (filter P xs)"
  by (induction xs) auto

text \<open>An instance has at most one create and at most one delete event.\<close>

definition lifecycle_unique :: "events \<Rightarrow> bool" where
  "lifecycle_unique evs \<longleftrightarrow>
     (\<forall>t iid. t \<noteq> Scaled \<longrightarrow> length (filter (\<lambda>e. ev_Type e = t \<and> ev_InstanceID e = iid) evs) \<le> 1)"

lemma count_stored:
  "length (filter (\<lambda>e. ev_Type e = t \<and> ev_InstanceID e = iid) (stored m ev evs))
     \<le> length (filter (\<lambda>e. ev_Type e = t \<and> ev_InstanceID e = iid) (ev # evs))"
  unfolding stored_def prune_reference_def
  by (simp only: filter_map length_map comp_def wire_event_sel) (rule length_filter_keep_by)

lemma hasEvent_count:
  "\<not> hasEventByInstanceID evs t iid \<Longrightarrow> filter (\<lambda>e. ev_Type e = t \<and> ev_InstanceID e = iid) evs = []"
  by (auto simp: hasEventByInstanceID_iff filter_empty_conv)

lemma ledger_step_unique:
  assumes "ledger_step m evs evs'" and "lifecycle_unique evs"
  shows "lifecycle_unique evs'"
  using assms(1)
proof (rule ledger_stepE)
  fix ev assume ev: "evs' = stored m ev evs" "admissible evs ev"
  have "length (filter (\<lambda>e. ev_Type e = t \<and> ev_InstanceID e = iid) (ev # evs)) \<le> 1" if "t \<noteq> Scaled" for t iid
    using that assms(2) ev(2) hasEvent_count
    by (cases "ev_Type ev") (auto simp: lifecycle_unique_def admissible_def hasEvent_count)
  then show ?thesis
    unfolding lifecycle_unique_def ev(1) using count_stored le_trans by blast
qed

lemma ledger_run_unique: "ledger_run m evs evs' \<Longrightarrow> lifecycle_unique evs \<Longrightarrow> lifecycle_unique evs'"
  by (induction rule: rtranclp_induct) (auto intro: ledger_step_unique)

text \<open>What waits for delivery is never lost.\<close>

definition same_event :: "billing_event \<Rightarrow> billing_event \<Rightarrow> bool" where
  "same_event e e' \<longleftrightarrow> wire_event e = wire_event e'"

lemma wire_event_idem [simp]: "wire_event (wire_event e) = wire_event e"
  by (simp add: wire_event_def wire_time_def second_def)

lemma same_event_wire: "same_event e (wire_event e)"
  by (simp add: same_event_def)

lemma ledger_run_keeps_unsent:
  assumes "ledger_run m evs evs'" and "e \<in> set evs" and "\<not> sent e"
  shows "\<exists>e' \<in> set evs'. same_event e e'"
  using assms(1,2,3)
proof (induction arbitrary: e rule: converse_rtranclp_induct)
  case base
  then show ?case by (auto simp: same_event_def)
next
  case (step evs1 evs2)
  obtain ev where "evs2 = stored m ev evs1" using step.hyps(1) by (rule ledger_stepE)
  then have "wire_event e \<in> set evs2" using step.prems unsent_stored by blast
  from step.IH [OF this] show ?case using step.prems by (simp add: same_event_def)
qed

section \<open>The handlers implement the ledger\<close>

text \<open>The contract of a handler that enqueues: when it succeeds, it has done steps of the ledger.\<close>

locale enqueue_handler =
  fixes handler :: "'w billing_env \<Rightarrow> int \<Rightarrow> billing_service \<Rightarrow> 'w \<Rightarrow> 'w outcome"
  assumes ledger: "lawful env \<Longrightarrow> handler env m svc w = (None, svc', w') \<Longrightarrow>
    ledger_run m (bs_Events svc) (bs_Events svc')"
begin

lemma unique:
  "lawful env \<Longrightarrow> handler env m svc w = (None, svc', w') \<Longrightarrow>
   lifecycle_unique (bs_Events svc) \<Longrightarrow> lifecycle_unique (bs_Events svc')"
  using ledger ledger_run_unique by blast

lemma keeps_unsent:
  "lawful env \<Longrightarrow> handler env m svc w = (None, svc', w') \<Longrightarrow>
   \<forall>e \<in> set (bs_Events svc). \<not> sent e \<longrightarrow> (\<exists>e' \<in> set (bs_Events svc'). same_event e e')"
  using ledger ledger_run_keeps_unsent by blast

end

lemma enqueueEvent_stored:
  assumes "lawful env" and "enqueueEvent env m ev svc w = (None, svc', w')"
  shows "bs_Events svc' = stored m ev (bs_Events svc)"
proof -
  obtain n evs where p: "pruneEventsIfNeeded (be_MapOrder env w) (ev # bs_Events svc) m = (n, evs)"
    by fastforce
  have "evs = prune_reference (ev # bs_Events svc) m"
    using pruned_events [of "be_MapOrder env w" "ev # bs_Events svc" m] assms(1) p by (simp add: lawful_def)
  moreover have "be_StatusUpdate env (svc\<lparr>bs_Events := evs\<rparr>) w = (Inr svc', w')"
    using assms(2) p by (auto simp: enqueueEvent_def persist_status_def split: prod.splits sum.splits)
  ultimately show ?thesis
    using assms(1) status_echoD [of env "svc\<lparr>bs_Events := evs\<rparr>" w svc' w']
    by (simp add: lawful_def stored_def)
qed

lemma enqueueEvent_ledger:
  assumes "lawful env" and "enqueueEvent env m ev svc w = (None, svc', w')"
    and "ev_State ev = Pending" and "admissible (bs_Events svc) ev"
  shows "ledger_run m (bs_Events svc) (bs_Events svc')"
  unfolding enqueueEvent_stored [OF assms(1,2)]
  using assms(3,4) by (intro r_into_rtranclp ledger_step.enqueue)

interpretation creation: enqueue_handler "\<lambda>env m. handleItemCreation env m item initial" for item initial
proof
  fix env :: "'w billing_env" and m svc w svc' w'
  assume "lawful env" "handleItemCreation env m item initial svc w = (None, svc', w')"
  then show "ledger_run m (bs_Events svc) (bs_Events svc')"
    by (auto simp: handleItemCreation_def admissible_def split: if_splits prod.splits option.splits
        elim!: enqueueEvent_ledger)
qed

interpretation scaling: enqueue_handler "\<lambda>env m. handleItemScaling env m item" for item
proof
  fix env :: "'w billing_env" and m svc w svc' w'
  assume "lawful env" "handleItemScaling env m item svc w = (None, svc', w')"
  then show "ledger_run m (bs_Events svc) (bs_Events svc')"
    by (auto simp: handleItemScaling_def admissible_def split: if_splits prod.splits option.splits
        elim!: enqueueEvent_ledger)
qed

interpretation items: enqueue_handler "\<lambda>env m. handle_items env m initial its" for initial its
proof
  fix env :: "'w billing_env" and m svc w svc' w'
  assume "lawful env" "handle_items env m initial its svc w = (None, svc', w')"
  then show "ledger_run m (bs_Events svc) (bs_Events svc')"
  proof (induction its arbitrary: svc w)
    case (Cons it its)
    from Cons.prems(2) obtain svc1 w1 svc2 w2 where
      "handleItemCreation env m it initial svc w = (None, svc1, w1)"
      "handleItemScaling env m it svc1 w1 = (None, svc2, w2)"
      "handle_items env m initial its svc2 w2 = (None, svc', w')"
      by (auto split: prod.splits option.splits)
    with Cons.IH Cons.prems(1) show ?case
      using creation.ledger scaling.ledger by (meson rtranclp_trans)
  qed simp
qed

interpretation removal: enqueue_handler handleRemovedItems
proof
  fix env :: "'w billing_env" and m svc w svc' w'
  assume law: "lawful env" and "handleRemovedItems env m svc w = (None, svc', w')"
  moreover have "remove_items env m cur ls ids svc w = (None, svc', w') \<Longrightarrow>
      ledger_run m (bs_Events svc) (bs_Events svc')" for cur ls ids svc w
  proof (induction ids arbitrary: svc w)
    case (Cons iid ids)
    show ?case
    proof (cases "iid \<in> cur \<or> hasEventByInstanceID (bs_Events svc) Deleted iid")
      case False
      obtain now w1 where now: "be_Now env w = (now, w1)" by fastforce
      let ?ev = "delEvent iid (the (map_of ls iid)) now"
      obtain svc1 w2 where enq: "enqueueEvent env m ?ev svc w1 = (None, svc1, w2)"
        and rest: "remove_items env m cur ls ids svc1 w2 = (None, svc', w')"
        using False Cons.prems now by (auto split: prod.splits option.splits)
      have "ledger_run m (bs_Events svc) (bs_Events svc1)"
        using False by (intro enqueueEvent_ledger [OF law enq]) (auto simp: delEvent_def admissible_def)
      then show ?thesis using Cons.IH [OF rest] by (rule rtranclp_trans)
    qed (use Cons in auto)
  qed simp
  ultimately show "ledger_run m (bs_Events svc) (bs_Events svc')"
    by (simp add: handleRemovedItems_def Let_def)
qed

section \<open>Deletion\<close>

definition del_pending :: "string \<Rightarrow> events \<Rightarrow> bool" where
  "del_pending iid evs \<longleftrightarrow> (\<exists>e \<in> set evs. ev_Type e = Deleted \<and> ev_InstanceID e = iid \<and> ev_State e = Pending)"

definition del_inv :: "events \<Rightarrow> string set \<Rightarrow> events \<Rightarrow> bool" where
  "del_inv evs0 seen evs \<longleftrightarrow>
     (\<forall>iid \<in> seen. del_pending iid evs) \<and>
     (\<forall>iid. hasEventByInstanceID evs Deleted iid \<longrightarrow> hasEventByInstanceID evs0 Deleted iid \<or> del_pending iid evs)"

definition announced :: "int \<Rightarrow> string \<Rightarrow> string set \<Rightarrow> events \<Rightarrow> bool" where
  "announced m iid seen evs \<longleftrightarrow> iid \<in> seen \<or>
     (\<exists>e \<in> set evs. ev_InstanceID e = iid \<and> sent e \<and> announces e) \<and> excess evs m iid \<le> 0"

lemma del_pending_stored:
  assumes "del_pending iid (ev # evs)"
  shows "del_pending iid (stored m ev evs)"
proof -
  obtain e where "e = ev \<or> e \<in> set evs" "ev_Type e = Deleted" "ev_InstanceID e = iid" "ev_State e = Pending"
    using assms by (auto simp: del_pending_def)
  then show ?thesis
    using unsent_stored [of e ev evs m] by (auto simp: del_pending_def intro!: bexI [of _ "wire_event e"])
qed

lemma del_inv_stored:
  assumes "del_inv evs0 seen evs" and "ev_Type ev = Deleted" and "ev_State ev = Pending"
  shows "del_inv evs0 (insert (ev_InstanceID ev) seen) (stored m ev evs)"
  unfolding del_inv_def
proof (intro conjI ballI allI impI)
  fix iid assume "iid \<in> insert (ev_InstanceID ev) seen"
  then have "del_pending iid (ev # evs)"
    using assms by (auto simp: del_inv_def del_pending_def)
  then show "del_pending iid (stored m ev evs)" by (rule del_pending_stored)
next
  fix iid assume "hasEventByInstanceID (stored m ev evs) Deleted iid"
  then have "iid = ev_InstanceID ev \<or> hasEventByInstanceID evs Deleted iid"
    using stored_subset by (fastforce simp: hasEventByInstanceID_iff)
  then have "hasEventByInstanceID evs0 Deleted iid \<or> del_pending iid (ev # evs)"
    using assms by (auto simp: del_inv_def del_pending_def)
  then show "hasEventByInstanceID evs0 Deleted iid \<or> del_pending iid (stored m ev evs)"
    using del_pending_stored by blast
qed

lemma prune_reference_within:
  assumes "excess evs m iid \<le> 0"
  shows "filter (\<lambda>e. ev_InstanceID e = iid) (prune_reference evs m) = filter (\<lambda>e. ev_InstanceID e = iid) evs"
  unfolding prune_reference_def using assms by (intro keep_by_filter_all) auto

lemma stored_other:
  assumes "excess evs m iid \<le> 0" and "ev_InstanceID ev \<noteq> iid"
  shows "filter (\<lambda>e. ev_InstanceID e = iid) (stored m ev evs) = map wire_event (filter (\<lambda>e. ev_InstanceID e = iid) evs)"
proof -
  have "excess (ev # evs) m iid \<le> 0" using assms by (simp add: excess_def)
  from prune_reference_within [OF this] assms(2) show ?thesis
    by (simp add: stored_def filter_map comp_def)
qed

lemma announced_stored:
  assumes "announced m iid seen evs"
  shows "announced m iid (insert (ev_InstanceID ev) seen) (stored m ev evs)"
proof (cases "iid = ev_InstanceID ev \<or> iid \<in> seen")
  case False
  with assms obtain e where e: "e \<in> set (filter (\<lambda>e. ev_InstanceID e = iid) evs)" "sent e" "announces e"
    and x: "excess evs m iid \<le> 0" by (auto simp: announced_def)
  have f: "filter (\<lambda>e. ev_InstanceID e = iid) (stored m ev evs) = map wire_event (filter (\<lambda>e. ev_InstanceID e = iid) evs)"
    using False x by (intro stored_other) auto
  have "wire_event e \<in> set (filter (\<lambda>e. ev_InstanceID e = iid) (stored m ev evs))"
    unfolding f using e(1) by auto
  then have "\<exists>e \<in> set (stored m ev evs). ev_InstanceID e = iid \<and> sent e \<and> announces e"
    using e(2,3) by (intro bexI [of _ "wire_event e"]) auto
  moreover have "excess (stored m ev evs) m iid \<le> 0" using x by (simp add: excess_def f)
  ultimately show ?thesis by (simp add: announced_def)
qed (auto simp: announced_def)

lemma enqueueDelete_cases:
  assumes "lawful env" and "enqueueDeleteIfNeeded env m it delTime seen svc w = (seen', None, svc', w')"
  obtains (skip) "seen' = seen" "svc' = svc" "it_InstanceID it \<in> seen \<or> hasEventByInstanceID (bs_Events svc) Deleted (it_InstanceID it)"
  | (enq) ev where "seen' = insert (ev_InstanceID ev) seen" "bs_Events svc' = stored m ev (bs_Events svc)"
      "ev_Type ev = Deleted" "ev_State ev = Pending" "ev_InstanceID ev = it_InstanceID it"
      "ledger_step m (bs_Events svc) (bs_Events svc')"
proof (cases "it_InstanceID it \<in> seen \<or> hasEventByInstanceID (bs_Events svc) Deleted (it_InstanceID it)")
  case True
  then show ?thesis using assms skip by (auto simp: enqueueDeleteIfNeeded_def)
next
  case False
  then obtain ev where ev: "seen' = insert (ev_InstanceID ev) seen" "enqueueEvent env m ev svc w = (None, svc', w')"
    "ev_Type ev = Deleted" "ev_State ev = Pending" "ev_InstanceID ev = it_InstanceID it"
    using assms(2) by (auto simp: enqueueDeleteIfNeeded_def)
  then have st: "bs_Events svc' = stored m ev (bs_Events svc)"
    using enqueueEvent_stored [OF assms(1) ev(2)] by simp
  have "ledger_step m (bs_Events svc) (bs_Events svc')"
    unfolding st using ev False by (intro ledger_step.enqueue) (auto simp: admissible_def)
  then show ?thesis using ev st enq by blast
qed

definition del_covered :: "events \<Rightarrow> string \<Rightarrow> events \<Rightarrow> bool" where
  "del_covered evs0 iid evs \<longleftrightarrow> hasEventByInstanceID evs0 Deleted iid \<or> del_pending iid evs"

text \<open>What one call of \<open>enqueueDeleteIfNeeded\<close> keeps and adds.\<close>

lemma enqueueDelete_inv:
  assumes "lawful env" and "enqueueDeleteIfNeeded env m it delTime seen svc w = (seen', None, svc', w')"
    and "del_inv evs0 seen (bs_Events svc)"
  shows "del_inv evs0 seen' (bs_Events svc')"
    and "del_covered evs0 (it_InstanceID it) (bs_Events svc')"
    and "del_pending iid (bs_Events svc) \<Longrightarrow> del_pending iid (bs_Events svc')"
    and "announced m iid seen (bs_Events svc) \<Longrightarrow> announced m iid seen' (bs_Events svc')"
    and "ledger_run m (bs_Events svc) (bs_Events svc')"
proof -
  have "del_inv evs0 seen' (bs_Events svc') \<and> del_covered evs0 (it_InstanceID it) (bs_Events svc') \<and>
     (del_pending iid (bs_Events svc) \<longrightarrow> del_pending iid (bs_Events svc')) \<and>
     (announced m iid seen (bs_Events svc) \<longrightarrow> announced m iid seen' (bs_Events svc')) \<and>
     ledger_run m (bs_Events svc) (bs_Events svc')"
    using assms(1,2)
  proof (cases rule: enqueueDelete_cases)
    case skip
    with assms(3) show ?thesis by (auto simp: del_inv_def del_covered_def)
  next
    case (enq ev)
    have "del_pending (it_InstanceID it) (stored m ev (bs_Events svc))"
      by (rule del_pending_stored) (use enq in \<open>auto simp: del_pending_def\<close>)
    moreover have "del_pending iid (bs_Events svc) \<Longrightarrow> del_pending iid (stored m ev (bs_Events svc))"
      by (rule del_pending_stored) (auto simp: del_pending_def)
    ultimately show ?thesis
      using enq(6) del_inv_stored [OF assms(3) enq(3,4)] announced_stored [of m iid seen "bs_Events svc" ev]
      unfolding enq(1,2) del_covered_def by blast
  qed
  then show "del_inv evs0 seen' (bs_Events svc')"
    and "del_covered evs0 (it_InstanceID it) (bs_Events svc')"
    and "del_pending iid (bs_Events svc) \<Longrightarrow> del_pending iid (bs_Events svc')"
    and "announced m iid seen (bs_Events svc) \<Longrightarrow> announced m iid seen' (bs_Events svc')"
    and "ledger_run m (bs_Events svc) (bs_Events svc')" by blast+
qed

lemma delete_items_inv:
  assumes "lawful env" and "delete_items env m delTime its seen svc w = (seen', None, svc', w')"
    and "del_inv evs0 seen (bs_Events svc)"
  shows "del_inv evs0 seen' (bs_Events svc') \<and>
    (\<forall>iid. del_pending iid (bs_Events svc) \<longrightarrow> del_pending iid (bs_Events svc')) \<and>
    (\<forall>it \<in> set its. del_covered evs0 (it_InstanceID it) (bs_Events svc')) \<and>
    (\<forall>iid. announced m iid seen (bs_Events svc) \<longrightarrow> announced m iid seen' (bs_Events svc')) \<and>
    ledger_run m (bs_Events svc) (bs_Events svc')"
  using assms(2,3)
proof (induction its arbitrary: seen svc w)
  case (Cons it its)
  obtain seen1 svc1 w1 where
    one: "enqueueDeleteIfNeeded env m it delTime seen svc w = (seen1, None, svc1, w1)"
    and rest: "delete_items env m delTime its seen1 svc1 w1 = (seen', None, svc', w')"
    using Cons.prems(1) by (auto split: prod.splits option.splits)
  note step = enqueueDelete_inv [OF assms(1) one Cons.prems(2)]
  note IH = Cons.IH [OF rest step(1)]
  have "del_covered evs0 (it_InstanceID it) (bs_Events svc')"
    using step(2) IH by (auto simp: del_covered_def)
  then show ?case using IH step(3,4,5) by (auto intro: rtranclp_trans)
qed simp

lemma delete_sent_inv:
  assumes "lawful env" and "delete_sent env m delTime evs seen svc w = (seen', None, svc', w')"
    and "del_inv evs0 seen (bs_Events svc)"
  shows "del_inv evs0 seen' (bs_Events svc') \<and>
    (\<forall>iid. del_pending iid (bs_Events svc) \<longrightarrow> del_pending iid (bs_Events svc')) \<and>
    (\<forall>e \<in> set evs. sent e \<and> announces e \<longrightarrow> del_covered evs0 (ev_InstanceID e) (bs_Events svc')) \<and>
    ledger_run m (bs_Events svc) (bs_Events svc')"
  using assms(2,3)
proof (induction evs arbitrary: seen svc w)
  case (Cons e evs)
  show ?case
  proof (cases "ev_InstanceID e \<in> seen \<or> \<not> sent e \<or> \<not> announces e")
    case True
    then have "delete_sent env m delTime evs seen svc w = (seen', None, svc', w')"
      using Cons.prems(1) by (auto split: if_splits)
    note IH = Cons.IH [OF this Cons.prems(2)]
    have "del_covered evs0 (ev_InstanceID e) (bs_Events svc')" if "ev_InstanceID e \<in> seen"
      using that IH Cons.prems(2) by (auto simp: del_inv_def del_covered_def)
    then show ?thesis using IH True by auto
  next
    case False
    obtain seen1 svc1 w1 where
      one: "enqueueDeleteIfNeeded env m (spec_of_event e) delTime seen svc w = (seen1, None, svc1, w1)"
      and rest: "delete_sent env m delTime evs seen1 svc1 w1 = (seen', None, svc', w')"
      using Cons.prems(1) False by (auto split: prod.splits option.splits if_splits)
    note step = enqueueDelete_inv [OF assms(1) one Cons.prems(2)]
    note IH = Cons.IH [OF rest step(1)]
    have "del_covered evs0 (ev_InstanceID e) (bs_Events svc')"
      using step(2) IH by (auto simp: del_covered_def spec_of_event_def)
    then show ?thesis using IH step(3,5) by (auto intro: rtranclp_trans)
  qed
qed simp

lemma handleDeletion_run:
  assumes "lawful env" and "handleDeletion env m svc w = (None, svc', w')"
    and "bs_DeletionTimestamp svc = Some delTime" and "delTime \<noteq> zero_time"
  obtains seen svc1 w1 seen2 svc2 where
    "delete_items env m delTime (bs_Items svc) {} svc w = (seen, None, svc1, w1)"
    "delete_sent env m delTime (bs_Events svc1) seen svc1 w1 = (seen2, None, svc2, w')"
    "bs_Events svc' = bs_Events svc2"
  using assms(2-4) that by (auto simp: handleDeletion_def split: prod.splits option.splits)

lemma del_inv_start: "del_inv evs {} evs"
  by (simp add: del_inv_def)

interpretation deletion: enqueue_handler handleDeletion
proof
  fix env :: "'w billing_env" and m svc w svc' w'
  assume law: "lawful env" and h: "handleDeletion env m svc w = (None, svc', w')"
  show "ledger_run m (bs_Events svc) (bs_Events svc')"
  proof (cases "IsZero (bs_DeletionTimestamp svc)")
    case True
    then show ?thesis using h by (auto simp: handleDeletion_def IsZero_def split: option.splits)
  next
    case False
    then obtain d where "bs_DeletionTimestamp svc = Some d" "d \<noteq> zero_time"
      by (auto simp: IsZero_def split: option.splits)
    with law h show ?thesis
    proof (cases rule: handleDeletion_run)
      case (1 seen svc1 w1 seen2 svc2)
      note items = delete_items_inv [OF law 1(1) del_inv_start]
      then have "del_inv (bs_Events svc) seen (bs_Events svc1)" by blast
      from items delete_sent_inv [OF law 1(2) this] 1(3) show ?thesis by (auto intro: rtranclp_trans)
    qed
  qed
qed

section \<open>An example cluster\<close>

text \<open>A cluster that stores one object, an Odoo that counts.\<close>

definition example_env :: "(billing_service \<times> nat) billing_env" where
  "example_env = \<lparr>
     be_Get = (\<lambda>ns n w. (Inr (fst w\<lparr>bs_Namespace := ns, bs_Name := n\<rparr>), w)),
     be_Update = (\<lambda>svc w. (Inr (svc\<lparr>bs_Events := bs_Events (fst w)\<rparr>), (svc\<lparr>bs_Events := bs_Events (fst w)\<rparr>, snd w))),
     be_StatusUpdate = (\<lambda>svc w. (Inr (svc\<lparr>bs_Events := map wire_event (bs_Events svc)\<rparr>),
                                 (svc\<lparr>bs_Events := map wire_event (bs_Events svc)\<rparr>, snd w))),
     be_SendInstanceEvent = (\<lambda>e w. (None, (fst w, Suc (snd w)))),
     be_Now = (\<lambda>w. (0, w)),
     be_ParseTime = (\<lambda>s. Some 0),
     be_FormatTime = (\<lambda>t. ''1970-01-01T00:00:00Z''),
     be_RetryOnError = (\<lambda>p f w. f w),
     be_MapOrder = (\<lambda>w ks. ks),
     be_AddFinalizer = (\<lambda>fs f. if f \<in> set fs then (fs, False) else (fs @ [f], True)),
     be_RemoveFinalizer = (\<lambda>fs f. filter (\<lambda>g. g \<noteq> f) fs),
     be_ContainsFinalizer = (\<lambda>fs f. f \<in> set fs),
     be_GetSecret = (\<lambda>ns n w. (Inl (ApiErr NotFound), w)),
     be_RESTConfig = (\<lambda>k. None),
     be_ExternalClient = (\<lambda>k. None),
     be_GetOrganization = (\<lambda>c n w. (Inl (ApiErr NotFound), w)),
     be_NestedString = (\<lambda>m p. Inr None)\<rparr>"

definition example_service :: "events \<Rightarrow> billing_service" where
  "example_service evs = \<lparr>bs_Namespace = ''ns'', bs_Name = ''pg'', bs_Generation = 1, bs_Annotations = Map.empty,
     bs_Finalizers = [BillingServiceFinalizer], bs_DeletionTimestamp = Some (5 * second), bs_KeepAfterDeletion = 30,
     bs_ServiceID = ''s'', bs_SalesOrderID = ''so'', bs_Organization = [],
     bs_Items = [\<lparr>it_ProductID = ''pg'', it_ItemDescription = [], it_ItemGroupDescription = [], it_Value = ''2'',
                 it_InstanceID = ''a''\<rparr>],
     bs_Events = evs, bs_Conditions = []\<rparr>"

lemma example_lawful: "lawful example_env" "status_echo example_env"
  by (auto simp: lawful_def status_echo_def example_env_def)

section \<open>Properties\<close>

text \<open>
  C4. When the service is deleted, an instance is forgotten only if it is gone from the specification and has more events
  than the limit: after \<open>handleDeletion\<close> has succeeded, every instance of the specification, and every instance that
  Odoo was told about and whose events are within the limit, has a pending delete event, or had a delete event before.
\<close>

theorem handleDeletion_complete:
  assumes "lawful env" and "handleDeletion env maxEvents svc w = (None, svc', w')"
    and "bs_DeletionTimestamp svc = Some delTime" and "delTime \<noteq> zero_time"
    and "iid \<in> set (map it_InstanceID (bs_Items svc)) \<or>
         (\<exists>e \<in> set (bs_Events svc). ev_InstanceID e = iid \<and> sent e \<and> announces e) \<and>
         excess (bs_Events svc) maxEvents iid \<le> 0"
  shows "hasEventByInstanceID (bs_Events svc) Deleted iid \<or>
    (\<exists>e \<in> set (bs_Events svc'). ev_Type e = Deleted \<and> ev_InstanceID e = iid \<and> ev_State e = Pending)"
  using assms(1-4)
proof (cases rule: handleDeletion_run)
  case (1 seen svc1 w1 seen2 svc2)
  note items = delete_items_inv [OF assms(1) 1(1) del_inv_start]
  then have inv: "del_inv (bs_Events svc) seen (bs_Events svc1)" by blast
  note sents = delete_sent_inv [OF assms(1) 1(2) inv]
  have "del_covered (bs_Events svc) iid (bs_Events svc2)"
  proof (cases "iid \<in> set (map it_InstanceID (bs_Items svc))")
    case True
    then show ?thesis using items sents by (auto simp: del_covered_def)
  next
    case False
    then have "announced maxEvents iid {} (bs_Events svc)" using assms(5) by (auto simp: announced_def)
    then have "announced maxEvents iid seen (bs_Events svc1)" using items by blast
    then show ?thesis using inv sents by (auto simp: announced_def del_inv_def del_covered_def)
  qed
  then show ?thesis using 1(3) by (simp add: del_covered_def del_pending_def)
qed

theorem handleDeletion_complete_witness:
  "\<exists>e \<in> set (bs_Events (fst (snd (handleDeletion example_env 100 (example_service (tl example_events))
       (example_service (tl example_events), 0))))).
     ev_Type e = Deleted \<and> ev_InstanceID e = ''b'' \<and> ev_State e = Pending"
proof -
  let ?svc = "example_service (tl example_events)" and ?w = "(example_service (tl example_events), 0::nat)"
  let ?r = "handleDeletion example_env 100 ?svc ?w"
  have run: "handleDeletion example_env 100 ?svc ?w = (None, fst (snd ?r), snd (snd ?r))"
  proof -
    have "fst ?r = None" by code_simp
    then show ?thesis by (metis prod.collapse)
  qed
  have "\<not> hasEventByInstanceID (bs_Events ?svc) Deleted ''b''" by code_simp
  moreover have "bs_DeletionTimestamp ?svc = Some (5 * second)" by (simp add: example_service_def)
  moreover have "(\<exists>e \<in> set (bs_Events ?svc). ev_InstanceID e = ''b'' \<and> sent e \<and> announces e)
      \<and> excess (bs_Events ?svc) 100 ''b'' \<le> 0"
    by code_simp
  moreover have "5 * second \<noteq> zero_time" by code_simp
  ultimately show ?thesis
    using handleDeletion_complete [OF example_lawful(1) run, of "5 * second" "''b''"] by blast
qed

text \<open>
  C5. The handlers that enqueue events keep the life cycle of every instance: it has at most one
  create and one delete event, and no event that still has to be delivered disappears.
\<close>

theorem handlers_keep_lifecycle:
  assumes "lawful env" and "lifecycle_unique (bs_Events svc)"
    and "handle_items env maxEvents initialCreation its svc w = (None, svc', w') \<or>
         handleRemovedItems env maxEvents svc w = (None, svc', w') \<or>
         handleDeletion env maxEvents svc w = (None, svc', w')"
  shows "lifecycle_unique (bs_Events svc') \<and>
    (\<forall>e \<in> set (bs_Events svc). \<not> sent e \<longrightarrow> (\<exists>e' \<in> set (bs_Events svc'). same_event e e'))"
  using assms(3)
proof (elim disjE)
  assume h: "handle_items env maxEvents initialCreation its svc w = (None, svc', w')"
  show ?thesis using items.unique [OF assms(1) h assms(2)] items.keeps_unsent [OF assms(1) h] by blast
next
  assume h: "handleRemovedItems env maxEvents svc w = (None, svc', w')"
  show ?thesis using removal.unique [OF assms(1) h assms(2)] removal.keeps_unsent [OF assms(1) h] by blast
next
  assume h: "handleDeletion env maxEvents svc w = (None, svc', w')"
  show ?thesis using deletion.unique [OF assms(1) h assms(2)] deletion.keeps_unsent [OF assms(1) h] by blast
qed

theorem handlers_keep_lifecycle_witness:
  "lifecycle_unique (bs_Events (fst (snd (handleRemovedItems example_env 100 (example_service example_events)
     (example_service example_events, 0)))))"
proof -
  let ?svc = "example_service example_events" and ?w = "(example_service example_events, 0::nat)"
  let ?r = "handleRemovedItems example_env 100 ?svc ?w"
  have "fst ?r = None" by code_simp
  then have run: "handleRemovedItems example_env 100 ?svc ?w = (None, fst (snd ?r), snd (snd ?r))"
    by (metis prod.collapse)
  have "lifecycle_unique (bs_Events ?svc)"
    by (auto simp: lifecycle_unique_def example_service_def example_events_def example_event_def)
  then show ?thesis
    using handlers_keep_lifecycle [OF example_lawful(1), of ?svc 100 False "[]" ?w] run by blast
qed

end
