(* ===== verification/Billing_Delivery.thy ===== *)
theory Billing_Delivery
  imports Billing_Ledger
begin

text \<open>
  Delivery to Odoo: which event \<open>processQueue\<close> chooses, what a delivery that succeeds leaves in the
  cluster, how many requests a \<open>Reconcile\<close> makes, and when the finalizer goes. The laws name what the
  code relies on: \<open>retry_law\<close> (client-go's \<open>retry.OnError\<close>), \<open>store_law\<close> (the API server) and
  \<open>counts_sends\<close> (only \<open>SendInstanceEvent\<close> reaches Odoo).
\<close>

section \<open>The queue\<close>

definition priority :: "billing_event \<Rightarrow> nat" where
  "priority e = (case ev_State e of Resend \<Rightarrow> 0 | Failed \<Rightarrow> 1
     | Pending \<Rightarrow> (if ev_Type e = Deleted then 2 else 3) | _ \<Rightarrow> 4)"

definition next_event :: "events \<Rightarrow> nat \<Rightarrow> bool" where
  "next_event evs i \<longleftrightarrow> i < length evs \<and> priority (evs ! i) < 4 \<and>
     (\<forall>j < length evs. priority (evs ! i) < priority (evs ! j) \<or>
        priority (evs ! i) = priority (evs ! j) \<and> j \<le> i)"

lemma priority_matches:
  "matches \<lparr>fo_States = [Resend], fo_Type = None\<rparr> e \<longleftrightarrow> priority e = 0"
  "matches \<lparr>fo_States = [Failed], fo_Type = None\<rparr> e \<longleftrightarrow> priority e = 1"
  "matches \<lparr>fo_States = [Pending], fo_Type = Some Deleted\<rparr> e \<longleftrightarrow> priority e = 2"
  "matches \<lparr>fo_States = [Pending], fo_Type = None\<rparr> e \<longleftrightarrow> priority e = 2 \<or> priority e = 3"
  by (cases "ev_State e"; simp add: matches_def priority_def)+

lemma hasBacklog_priority: "hasBacklog evs \<longleftrightarrow> (\<exists>e \<in> set evs. priority e < 4)"
proof -
  have "ev_State e \<in> {Pending, Failed, Resend} \<longleftrightarrow> priority e < 4" for e
    by (cases "ev_State e") (auto simp: priority_def)
  then show ?thesis by (simp add: hasBacklog_iff)
qed

lemma next_eventI:
  assumes "findEvent evs opts = Some (i, e)" and "\<And>e. matches opts e \<longleftrightarrow> priority e \<in> S"
    and "\<And>e. e \<in> set evs \<Longrightarrow> priority e \<in> S \<or> p < priority e" and "\<And>e. e \<in> set evs \<Longrightarrow> priority e \<in> S \<Longrightarrow> priority e = p" and "p < 4"
  shows "next_event evs i"
proof -
  have i: "i < length evs" "priority (evs ! i) = p" "\<forall>j. i < j \<and> j < length evs \<longrightarrow> priority (evs ! j) \<notin> S"
    using assms(1,2,4) by (auto simp: findEvent_Some)
  show ?thesis
    unfolding next_event_def i(2)
    using i(1) assms(3-5) i(3) by (metis leI nth_mem)
qed

abbreviation twin :: "billing_event \<Rightarrow> billing_event \<Rightarrow> bool" where
  "twin e e' \<equiv> ev_InstanceID e' = ev_InstanceID e \<and> ev_Type e' = ev_Type e \<and> ev_Timestamp e' = ev_Timestamp e"

lemma mark_sent_None: "mark_sent e evs = None \<longleftrightarrow> (\<forall>x \<in> set evs. \<not> twin e x)"
  by (induction evs) (auto split: option.splits)

lemma mark_sent_first:
  assumes "k < length evs" and "twin e (evs ! k)" and "\<forall>j < k. \<not> twin e (evs ! j)"
  shows "mark_sent e evs = Some (evs[k := (evs ! k)\<lparr>ev_State := Sent, ev_LastAttemptTime := ev_LastAttemptTime e\<rparr>])"
  using assms
proof (induction evs arbitrary: k)
  case (Cons x evs)
  show ?case
  proof (cases k)
    case 0
    then show ?thesis using Cons.prems by auto
  next
    case (Suc k')
    have "\<not> twin e x" using Cons.prems(3) Suc by auto
    moreover have "\<forall>j < k'. \<not> twin e (evs ! j)" using Cons.prems(3) Suc by auto
    ultimately show ?thesis using Cons.IH [of k'] Cons.prems Suc by auto
  qed
qed simp

text \<open>
  \<open>retry.OnError\<close> runs the function until it succeeds or gives up: what holds at the start and is kept
  by runs that fail holds when the run starts whose success it returns.
\<close>

definition retry_law :: "'w billing_env \<Rightarrow> bool" where
  "retry_law env \<longleftrightarrow>
     (\<forall>p f w r w' P. be_RetryOnError env p f w = (Inr r, w') \<longrightarrow> P w \<longrightarrow>
        (\<forall>v e v'. P v \<longrightarrow> f v = (Inl e, v') \<longrightarrow> P v') \<longrightarrow> (\<exists>v. P v \<and> f v = (Inr r, w')))"

lemma retry_lawE:
  assumes "retry_law env" and "be_RetryOnError env p f w = (Inr r, w')" and "P w"
    and "\<And>v e v'. P v \<Longrightarrow> f v = (Inl e, v') \<Longrightarrow> P v'"
  obtains v where "P v" and "f v = (Inr r, w')"
  using assms unfolding retry_law_def by metis

text \<open>
  The object of one key in the cluster: \<open>content w\<close> are the events stored in the world \<open>w\<close>. Reads
  see it and leave it, only a status update that succeeds changes it, Odoo and the clock do not.
\<close>

definition store_law :: "'w billing_env \<Rightarrow> string \<Rightarrow> string \<Rightarrow> ('w \<Rightarrow> events) \<Rightarrow> bool" where
  "store_law env ns n content \<longleftrightarrow>
     (\<forall>w. content (snd (be_Now env w)) = content w) \<and>
     (\<forall>e w. content (snd (be_SendInstanceEvent env e w)) = content w) \<and>
     (\<forall>w. content (snd (be_Get env ns n w)) = content w) \<and>
     (\<forall>w s w'. be_Get env ns n w = (Inr s, w') \<longrightarrow>
        bs_Events s = content w \<and> bs_Namespace s = ns \<and> bs_Name s = n) \<and>
     (\<forall>s w e w'. be_StatusUpdate env s w = (Inl e, w') \<longrightarrow> content w' = content w) \<and>
     (\<forall>s w s' w'. bs_Namespace s = ns \<longrightarrow> bs_Name s = n \<longrightarrow> be_StatusUpdate env s w = (Inr s', w') \<longrightarrow>
        content w' = map wire_event (bs_Events s))"

lemma store_lawD:
  assumes "store_law env ns n content"
  shows "content (snd (be_Now env w)) = content w"
    and "content (snd (be_SendInstanceEvent env e w)) = content w"
    and "content (snd (be_Get env ns n w)) = content w"
    and "be_Get env ns n w = (Inr s, w') \<Longrightarrow> bs_Events s = content w \<and> bs_Namespace s = ns \<and> bs_Name s = n"
    and "be_StatusUpdate env s w = (Inl er, w') \<Longrightarrow> content w' = content w"
    and "bs_Namespace s = ns \<Longrightarrow> bs_Name s = n \<Longrightarrow> be_StatusUpdate env s w = (Inr s', w') \<Longrightarrow>
        content w' = map wire_event (bs_Events s)"
  using assms unfolding store_law_def by blast+

lemma persistEventSent_fails:
  assumes "store_law env (bs_Namespace svc) (bs_Name svc) content"
    and "persistEventSent env svc ev w = (Inl e, w')"
  shows "content w' = content w"
proof -
  note laws = store_lawD [OF assms(1)]
  show ?thesis
    using assms(2) laws(3) [of w] laws(5)
    by (auto simp: persistEventSent_def split: prod.splits option.splits sum.splits)
qed

lemma persistEventSent_succeeds:
  assumes "status_echo env" and "store_law env (bs_Namespace svc) (bs_Name svc) content"
    and "persistEventSent env svc ev w = (Inr svc', w')"
    and "k < length (content w)" and "twin ev (content w ! k)" and "\<forall>j < k. \<not> twin ev (content w ! j)"
  shows "bs_Events svc' = map wire_event ((content w)[k := (content w ! k)\<lparr>ev_State := Sent, ev_LastAttemptTime := ev_LastAttemptTime ev\<rparr>])
    \<and> content w' = bs_Events svc'"
proof -
  obtain fresh w4 evs where get: "be_Get env (bs_Namespace svc) (bs_Name svc) w = (Inr fresh, w4)"
    and m: "mark_sent ev (bs_Events fresh) = Some evs"
    and upd: "be_StatusUpdate env (fresh\<lparr>bs_Events := evs\<rparr>) w4 = (Inr svc', w')"
    using assms(3) by (auto simp: persistEventSent_def split: prod.splits option.splits sum.splits)
  note fresh = store_lawD(4) [OF assms(2) get]
  have "content w' = map wire_event evs"
    using store_lawD(6) [OF assms(2) _ _ upd] fresh by simp
  moreover have "bs_Events svc' = map wire_event evs" using status_echoD [OF assms(1) upd] by simp
  moreover have "evs = (content w)[k := (content w ! k)\<lparr>ev_State := Sent, ev_LastAttemptTime := ev_LastAttemptTime ev\<rparr>]"
    using m fresh mark_sent_first [OF assms(4-6)] by simp
  ultimately show ?thesis by simp
qed

text \<open>Ghost counter: \<open>cnt w\<close> is the number of requests Odoo has received in the world \<open>w\<close>.\<close>

definition counts_sends :: "'w billing_env \<Rightarrow> ('w \<Rightarrow> nat) \<Rightarrow> bool" where
  "counts_sends env cnt \<longleftrightarrow>
     (\<forall>e w. cnt (snd (be_SendInstanceEvent env e w)) = Suc (cnt w)) \<and>
     (\<forall>ns n w. cnt (snd (be_Get env ns n w)) = cnt w) \<and>
     (\<forall>s w. cnt (snd (be_Update env s w)) = cnt w) \<and>
     (\<forall>s w. cnt (snd (be_StatusUpdate env s w)) = cnt w) \<and>
     (\<forall>w. cnt (snd (be_Now env w)) = cnt w) \<and>
     (\<forall>ns n w. cnt (snd (be_GetSecret env ns n w)) = cnt w) \<and>
     (\<forall>c n w. cnt (snd (be_GetOrganization env c n w)) = cnt w) \<and>
     (\<forall>p f w. (\<forall>v. cnt (snd (f v)) = cnt v) \<longrightarrow> cnt (snd (be_RetryOnError env p f w)) = cnt w)"

lemma counts_eq:
  assumes "counts_sends env cnt"
  shows "be_Get env ns n w = (r1, w') \<Longrightarrow> cnt w' = cnt w"
    and "be_Update env s w = (r2, w') \<Longrightarrow> cnt w' = cnt w"
    and "be_StatusUpdate env s w = (r3, w') \<Longrightarrow> cnt w' = cnt w"
    and "be_Now env w = (r4, w') \<Longrightarrow> cnt w' = cnt w"
    and "be_GetSecret env ns n w = (r5, w') \<Longrightarrow> cnt w' = cnt w"
    and "be_GetOrganization env c n w = (r6, w') \<Longrightarrow> cnt w' = cnt w"
    and "be_SendInstanceEvent env e w = (r7, w') \<Longrightarrow> cnt w' = Suc (cnt w)"
  using assms unfolding counts_sends_def by (metis snd_conv)+

lemma enqueueEvent_quiet:
  assumes counts: "counts_sends env cnt"
  shows "enqueueEvent env m ev svc w = (e, svc', w') \<Longrightarrow> cnt w' = cnt w"
  by (auto simp: enqueueEvent_def persist_status_def split: prod.splits sum.splits dest: counts_eq [OF counts])

lemma creation_quiet:
  assumes counts: "counts_sends env cnt"
  shows "handleItemCreation env m it i svc w = (e, svc', w') \<Longrightarrow> cnt w' = cnt w"
  by (auto simp: handleItemCreation_def Let_def split: prod.splits if_splits option.splits dest!: counts_eq [OF counts] enqueueEvent_quiet [OF counts])

lemma scaling_quiet:
  assumes counts: "counts_sends env cnt"
  shows "handleItemScaling env m it svc w = (e, svc', w') \<Longrightarrow> cnt w' = cnt w"
  by (auto simp: handleItemScaling_def Let_def split: prod.splits if_splits option.splits dest!: counts_eq [OF counts] enqueueEvent_quiet [OF counts])

lemma items_quiet:
  assumes counts: "counts_sends env cnt"
  shows "handle_items env m i its svc w = (e, svc', w') \<Longrightarrow> cnt w' = cnt w"
  by (induction its arbitrary: svc w) (auto split: prod.splits option.splits dest!: creation_quiet [OF counts] scaling_quiet [OF counts])

lemma enqueueDelete_quiet:
  assumes counts: "counts_sends env cnt"
  shows "enqueueDeleteIfNeeded env m it d seen svc w = (seen', e, svc', w') \<Longrightarrow> cnt w' = cnt w"
  by (auto simp: enqueueDeleteIfNeeded_def split: if_splits dest!: enqueueEvent_quiet [OF counts])

lemma delete_items_quiet:
  assumes counts: "counts_sends env cnt"
  shows "delete_items env m d its seen svc w = (seen', e, svc', w') \<Longrightarrow> cnt w' = cnt w"
  by (induction its arbitrary: seen svc w) (auto split: prod.splits option.splits dest!: enqueueDelete_quiet [OF counts])

lemma delete_sent_quiet:
  assumes counts: "counts_sends env cnt"
  shows "delete_sent env m d evs seen svc w = (seen', e, svc', w') \<Longrightarrow> cnt w' = cnt w"
  by (induction evs arbitrary: seen svc w) (auto split: prod.splits option.splits if_splits dest!: enqueueDelete_quiet [OF counts])

lemma deletion_quiet:
  assumes counts: "counts_sends env cnt"
  shows "handleDeletion env m svc w = (e, svc', w') \<Longrightarrow> cnt w' = cnt w"
  by (auto simp: handleDeletion_def split: prod.splits option.splits if_splits dest!: delete_items_quiet [OF counts] delete_sent_quiet [OF counts])

lemma remove_items_quiet:
  assumes counts: "counts_sends env cnt"
  shows "remove_items env m cur ls ids svc w = (e, svc', w') \<Longrightarrow> cnt w' = cnt w"
  by (induction ids arbitrary: svc w) (auto split: prod.splits option.splits if_splits dest!: counts_eq [OF counts] enqueueEvent_quiet [OF counts])

lemma removal_quiet:
  assumes counts: "counts_sends env cnt"
  shows "handleRemovedItems env m svc w = (e, svc', w') \<Longrightarrow> cnt w' = cnt w"
  by (auto simp: handleRemovedItems_def Let_def dest!: remove_items_quiet [OF counts])

lemma persist_quiet:
  assumes counts: "counts_sends env cnt"
  shows "persistEventSent env svc ev w = (r, w') \<Longrightarrow> cnt w' = cnt w"
  by (auto simp: persistEventSent_def split: prod.splits option.splits sum.splits dest!: counts_eq [OF counts])

lemma retry_quiet:
  assumes counts: "counts_sends env cnt"
  shows "be_RetryOnError env p (persistEventSent env svc ev) w = (r, w') \<Longrightarrow> cnt w' = cnt w"
  using counts persist_quiet [OF counts] unfolding counts_sends_def by (metis snd_conv surj_pair)

lemma status_quiet:
  assumes counts: "counts_sends env cnt"
  shows "persist_status env svc w = (e, svc', w') \<Longrightarrow> cnt w' = cnt w"
  by (auto simp: persist_status_def split: prod.splits sum.splits dest!: counts_eq [OF counts])

lemma deliver_sends:
  assumes counts: "counts_sends env cnt"
  shows "deliverQueuedEvent env i svc w = (b, e, svc', w') \<Longrightarrow> cnt w' \<le> Suc (cnt w)"
  by (auto simp: deliverQueuedEvent_def sendEventToOdoo_def Let_def split: prod.splits option.splits sum.splits if_splits
     dest!: counts_eq [OF counts] retry_quiet [OF counts] status_quiet [OF counts])

lemma processQueue_sends:
  assumes counts: "counts_sends env cnt"
  shows "processQueue env svc w = (b, e, svc', w') \<Longrightarrow> cnt w' \<le> Suc (cnt w)"
  by (auto simp: processQueue_def split: option.splits prod.splits dest: deliver_sends [OF counts])

lemma updateStatus_quiet:
  assumes counts: "counts_sends env cnt"
  shows "updateStatus env svc w = (e, svc', w') \<Longrightarrow> cnt w' = cnt w"
  by (auto simp: updateStatus_def Let_def split: prod.splits dest!: counts_eq [OF counts] status_quiet [OF counts])

lemma update_quiet:
  assumes counts: "counts_sends env cnt"
  shows "update_object env svc w = (e, svc', w') \<Longrightarrow> cnt w' = cnt w"
  by (auto simp: update_object_def split: prod.splits sum.splits dest!: counts_eq [OF counts])

lemma fetch_quiet:
  assumes counts: "counts_sends env cnt"
  shows "fetchSalesOrderFromAPPUiOControl env n w = (r, w') \<Longrightarrow> cnt w' = cnt w"
  by (auto simp: fetchSalesOrderFromAPPUiOControl_def getExternalClusterClient_def getSalesOrderFromOrganization_def
     split: prod.splits sum.splits option.splits if_splits dest!: counts_eq [OF counts])

lemma populate_quiet:
  assumes counts: "counts_sends env cnt"
  shows "populate_sales_order env svc w = (e, svc', w') \<Longrightarrow> cnt w' = cnt w"
  by (auto simp: populate_sales_order_def split: prod.splits sum.splits if_splits dest!: fetch_quiet [OF counts] update_quiet [OF counts])

lemma finalizer_quiet:
  assumes counts: "counts_sends env cnt"
  shows "ensure_finalizer env svc w = (e, svc', w') \<Longrightarrow> cnt w' = cnt w"
  by (auto simp: ensure_finalizer_def split: prod.splits if_splits dest!: update_quiet [OF counts])

lemma resend_quiet:
  assumes counts: "counts_sends env cnt"
  shows "handle_resend env svc w = (e, svc', w') \<Longrightarrow> cnt w' = cnt w"
  by (auto simp: handle_resend_def Let_def split: prod.splits if_splits option.splits dest!: update_quiet [OF counts] status_quiet [OF counts])

lemma finish_quiet:
  assumes counts: "counts_sends env cnt"
  shows "finish_deletion env b svc w = (r, w') \<Longrightarrow> cnt w' = cnt w"
  by (auto simp: finish_deletion_def Let_def split: prod.splits if_splits option.splits dest!: update_quiet [OF counts] updateStatus_quiet [OF counts] counts_eq [OF counts])


lemma reconcile_deleting_sends:
  assumes counts: "counts_sends env cnt"
  shows "reconcile_deleting env m svc w = (r, w') \<Longrightarrow> cnt w' \<le> Suc (cnt w)"
  unfolding reconcile_deleting_def
  by (auto split: prod.splits option.splits dest!: deletion_quiet [OF counts] processQueue_sends [OF counts]
      finish_quiet [OF counts]) (metis counts surjective_pairing updateStatus_quiet)+

lemma reconcile_active_sends:
  assumes counts: "counts_sends env cnt"
  shows "reconcile_active env m svc w = (r, w') \<Longrightarrow> cnt w' \<le> Suc (cnt w)"
  unfolding reconcile_active_def
  by (auto split: prod.splits option.splits if_splits dest!: items_quiet [OF counts] removal_quiet [OF counts]
      processQueue_sends [OF counts]) (metis counts surjective_pairing updateStatus_quiet)+

section \<open>The grace period\<close>

lemma keep_duration:
  assumes "0 < k" and "k \<le> 106751"
  shows "dur_mult (dur_mult k 24) hour = k * (24 * hour)"
proof -
  have "dur_mult k 24 = k * 24" using assms by (intro dur_mult_exact) auto
  moreover have "dur_mult (k * 24) hour = k * 24 * hour"
    using assms by (intro dur_mult_exact) (auto simp: duration_defs)
  ultimately show ?thesis by simp
qed

lemma keep_duration_overflow:
  assumes "106752 \<le> k" and "k \<le> 213503"
  shows "dur_mult (dur_mult k 24) hour < 0"
proof -
  have "dur_mult k 24 = k * 24" using assms by (intro dur_mult_exact) auto
  moreover have "(word_of_int (k * 24 * hour) :: 64 word) = word_of_int (k * 24 * hour - 2 ^ 64)"
    by (simp only: word_of_int_eq_iff take_bit_eq_mod) simp
  then have "dur_mult (k * 24) hour = k * 24 * hour - 2 ^ 64"
    unfolding dur_mult_def using assms by (simp only:) (rule sint64_exact; simp add: duration_defs)
  ultimately show ?thesis using assms by (simp add: duration_defs)
qed

lemma finish_deletion_no_update:
  assumes "shouldRemoveFinalizer svc (fst (be_Now env w)) = Some (r, d)" and "r \<longrightarrow> hasBacklog (bs_Events svc)"
    and "bs_KeepAfterDeletion svc \<le> 0 \<longrightarrow> r"
  shows "finish_deletion (env\<lparr>be_Update := f\<rparr>) s svc w = finish_deletion env s svc w"
  using assms unfolding finish_deletion_def updateStatus_def persist_status_def
  by (auto simp: shouldRemoveFinalizer_def Let_def split: prod.splits option.splits)

lemma hasBacklog_wire [simp]: "hasBacklog (map wire_event evs) = hasBacklog evs"
  by (induction evs) auto

lemma updateStatus_events:
  assumes "status_echo env" and "updateStatus env svc w = (None, svc', w')"
  shows "bs_Events svc' = map wire_event (bs_Events svc)"
  using assms(2) status_echoD [OF assms(1)]
  by (fastforce simp: updateStatus_def persist_status_def setSyncedCondition_def setReadyCondition_def Let_def
      split: prod.splits sum.splits)

lemma finish_deletion_kept:
  assumes "shouldRemoveFinalizer svc (fst (be_Now env w)) = Some (r, rq)" and "r \<longrightarrow> hasBacklog (bs_Events svc)"
  obtains w1 where "finish_deletion env s svc w =
    (case updateStatus env svc w1 of
       (Some e, _, w3) \<Rightarrow> (Failure e, w3)
     | (None, svc3, w3) \<Rightarrow>
         (if s \<or> hasBacklog (bs_Events svc3) then (RequeueAfter successDrainDelay, w3)
          else (case rq of Some d \<Rightarrow> (RequeueAfter d, w3) | None \<Rightarrow> (Done, w3))))"
proof -
  obtain now w1 where nw: "(if bs_KeepAfterDeletion svc \<le> 0 then (0, w) else be_Now env w) = (now, w1)"
    by fastforce
  then have sr: "shouldRemoveFinalizer svc now = Some (r, rq)"
    using assms(1) by (cases "bs_KeepAfterDeletion svc \<le> 0") (simp_all add: shouldRemoveFinalizer_def)
  have "\<not> (r \<and> \<not> hasBacklog (bs_Events svc) \<and> c)" for c using assms(2) by blast
  then show ?thesis
    by (intro that [of w1]) (simp only: finish_deletion_def nw sr Let_def prod.case option.case if_False)
qed

lemma example_laws:
  "retry_law example_env" "counts_sends example_env snd" "store_law example_env ns n (\<lambda>w. bs_Events (fst w))"
  by (auto simp: retry_law_def counts_sends_def store_law_def example_env_def)

section \<open>Properties\<close>

lemma processQueue_choice:
  "\<not> hasBacklog (bs_Events svc) \<and> processQueue env svc w = (False, None, svc, w) \<or>
   (\<exists>i. next_event (bs_Events svc) i \<and> processQueue env svc w = deliverQueuedEvent env i svc w)"
proof -
  let ?evs = "bs_Events svc"
  let ?o0 = "\<lparr>fo_States = [Resend], fo_Type = None\<rparr>" and ?o1 = "\<lparr>fo_States = [Failed], fo_Type = None\<rparr>"
    and ?o2 = "\<lparr>fo_States = [Pending], fo_Type = Some Deleted\<rparr>" and ?o3 = "\<lparr>fo_States = [Pending], fo_Type = None\<rparr>"
  consider (a) i e where "findEvent ?evs ?o0 = Some (i, e)"
    | (b) i e where "findEvent ?evs ?o0 = None" "findEvent ?evs ?o1 = Some (i, e)"
    | (c) i e where "findEvent ?evs ?o0 = None" "findEvent ?evs ?o1 = None" "findEvent ?evs ?o2 = Some (i, e)"
    | (d) i e where "findEvent ?evs ?o0 = None" "findEvent ?evs ?o1 = None" "findEvent ?evs ?o2 = None" "findEvent ?evs ?o3 = Some (i, e)"
    | (n) "findEvent ?evs ?o0 = None" "findEvent ?evs ?o1 = None" "findEvent ?evs ?o2 = None" "findEvent ?evs ?o3 = None"
    by (metis not_None_eq surj_pair)
  then show ?thesis
  proof cases
    case a
    have "next_event ?evs i" by (rule next_eventI [OF a, where S = "{0}" and p = 0]) (auto simp: priority_matches)
    then show ?thesis using a by (auto simp: processQueue_def)
  next
    case b
    have "next_event ?evs i"
      by (rule next_eventI [OF b(2), where S = "{1}" and p = 1])
        (use b(1) in \<open>fastforce simp: priority_matches findEvent_None\<close>)+
    then show ?thesis using b by (auto simp: processQueue_def)
  next
    case c
    have "next_event ?evs i"
      by (rule next_eventI [OF c(3), where S = "{2}" and p = 2])
        (use c(1,2) in \<open>fastforce simp: priority_matches findEvent_None\<close>)+
    then show ?thesis using c by (auto simp: processQueue_def)
  next
    case d
    have "next_event ?evs i"
      by (rule next_eventI [OF d(4), where S = "{2,3}" and p = 3])
        (use d(1-3) in \<open>fastforce simp: priority_matches findEvent_None\<close>)+
    then show ?thesis using d by (auto simp: processQueue_def)
  next
    case n
    then have "priority e \<noteq> 0 \<and> priority e \<noteq> 1 \<and> priority e \<noteq> 2 \<and> priority e \<noteq> 3" if "e \<in> set ?evs" for e
      using that by (simp add: findEvent_None priority_matches)
    then have "\<not> hasBacklog ?evs" by (fastforce simp: hasBacklog_priority)
    then show ?thesis using n by (simp add: processQueue_def)
  qed
qed

text \<open>
  C6. \<open>processQueue\<close> does nothing exactly when no event waits; otherwise it delivers one event: of the
  highest priority (resend, failed, pending delete, other pending) the oldest one.
\<close>

theorem processQueue_next:
  "\<not> hasBacklog (bs_Events svc) \<and> processQueue env svc w = (False, None, svc, w) \<or>
   (\<exists>i. next_event (bs_Events svc) i \<and> processQueue env svc w = deliverQueuedEvent env i svc w)"
  by (rule processQueue_choice)

text \<open>
  A delivery that succeeds marks in the cluster the first event of the list with the instance,
  type and timestamp of the delivered one, and changes no other event. That is the delivered event
  when no newer event is its twin; two scale events of one instance in the same second are twins, and
  then the newer one is marked although it was not sent, and the delivered one stays in the queue.
\<close>

theorem delivery_marks_first_twin:
  assumes "status_echo env" and "retry_law env"
    and "store_law env (bs_Namespace svc) (bs_Name svc) content" and "content w = bs_Events svc"
    and "deliverQueuedEvent env idx svc w = (True, None, svc', w')"
    and "k \<le> idx" and "idx < length (bs_Events svc)"
    and "twin (bs_Events svc ! idx) (bs_Events svc ! k)" and "\<forall>j < k. \<not> twin (bs_Events svc ! idx) (bs_Events svc ! j)"
  shows "\<exists>now. bs_Events svc' = map wire_event ((bs_Events svc)
      [k := (bs_Events svc ! k)\<lparr>ev_State := Sent, ev_LastAttemptTime := now\<rparr>]) \<and> content w' = bs_Events svc'"
proof -
  let ?evs = "bs_Events svc"
  note laws = store_lawD [OF assms(3)]
  obtain now w1 where now: "be_Now env w = (now, w1)" by fastforce
  let ?ev = "(?evs ! idx)\<lparr>ev_LastAttemptTime := now\<rparr>"
  obtain w2 where send: "sendEventToOdoo env svc ?ev w1 = (None, w2)"
    and retry: "be_RetryOnError env isTransientAPIError (persistEventSent env svc ?ev) w2 = (Inr svc', w')"
    using assms(5) now by (auto simp: deliverQueuedEvent_def Let_def split: prod.splits option.splits sum.splits)
  have w2: "content w2 = ?evs"
    using send laws(2) laws(1) [of w] now assms(4)
    by (metis prod.inject sendEventToOdoo_def snd_conv option.distinct(1))
  obtain v where v: "content v = ?evs" "persistEventSent env svc ?ev v = (Inr svc', w')"
    by (rule retry_lawE [OF assms(2) retry, where P = "\<lambda>v. content v = ?evs"])
      (use w2 persistEventSent_fails [OF assms(3)] in auto)
  then show ?thesis
    using persistEventSent_succeeds [OF assms(1,3) v(2), of k] assms(6-9) by auto
qed

definition example_twins :: billing_service where
  "example_twins = example_service [example_event ''a'' Scaled Pending ''3'', example_event ''a'' Scaled Pending ''2'']"

theorem delivery_marks_first_twin_witness:
  "bs_Events (fst (snd (snd (deliverQueuedEvent example_env 1 example_twins (example_twins, 0)))))
     = [example_event ''a'' Scaled Sent ''3'', example_event ''a'' Scaled Pending ''2'']"
proof -
  let ?r = "deliverQueuedEvent example_env 1 example_twins (example_twins, 0::nat)"
  have "fst ?r \<and> fst (snd ?r) = None" by code_simp
  then have run: "?r = (True, None, fst (snd (snd ?r)), snd (snd (snd ?r)))"
    by (metis (full_types) prod.collapse)
  obtain now where "bs_Events (fst (snd (snd ?r))) = map wire_event ((bs_Events example_twins)
      [0 := (bs_Events example_twins ! 0)\<lparr>ev_State := Sent, ev_LastAttemptTime := now\<rparr>])"
    using delivery_marks_first_twin [OF example_lawful(2) example_laws(1) example_laws(3) _ run, of 0]
    by (auto simp: example_twins_def example_service_def example_event_def)
  moreover have "ev_LastAttemptTime (bs_Events (fst (snd (snd ?r))) ! 0) = 0" by code_simp
  ultimately show ?thesis
    by (simp add: example_twins_def example_service_def example_event_def wire_event_def wire_time_def)
qed

text \<open>C1. One \<open>Reconcile\<close> makes at most one request to Odoo, whatever the cluster answers.\<close>

theorem Reconcile_sends_at_most_one:
  assumes "counts_sends env cnt"
  shows "cnt (snd (Reconcile env maxEvents ns name w)) \<le> Suc (cnt w)"
  unfolding Reconcile_def
  by (auto split: prod.splits option.splits sum.splits if_splits
      dest!: counts_eq [OF assms] populate_quiet [OF assms] finalizer_quiet [OF assms] resend_quiet [OF assms])
    (metis assms reconcile_deleting_sends reconcile_active_sends surjective_pairing)+

theorem Reconcile_sends_at_most_one_witness:
  "snd (snd (Reconcile example_env 100 ''ns'' ''pg'' (example_service example_events, 0))) \<le> 1"
  using Reconcile_sends_at_most_one [OF example_laws(2), of 100 "''ns''" "''pg''" "(example_service example_events, 0)"]
  by simp

text \<open>
  C9. While events wait for delivery, or the grace period of \<open>KeepAfterDeletion\<close> days (up to 106751,
  where the multiplication of durations does not wrap) is not over, the finalizer stays: the step is
  the same whatever an update of the object would do, and the object is reconciled again.
\<close>

theorem finalizer_waits:
  assumes "status_echo env" and "bs_DeletionTimestamp svc = Some d"
    and "hasBacklog (bs_Events svc) \<or>
      0 < bs_KeepAfterDeletion svc \<and> bs_KeepAfterDeletion svc \<le> 106751 \<and>
      fst (be_Now env w) < d + bs_KeepAfterDeletion svc * (24 * hour)"
  shows "finish_deletion (env\<lparr>be_Update := f\<rparr>) s svc w = finish_deletion env s svc w \<and>
    fst (finish_deletion env s svc w) \<noteq> Done"
proof
  have "shouldRemoveFinalizer svc (fst (be_Now env w)) \<noteq> None"
    using assms(2) by (simp add: shouldRemoveFinalizer_def Let_def del: not_None_eq)
  then obtain r rq where sr: "shouldRemoveFinalizer svc (fst (be_Now env w)) = Some (r, rq)"
    by (metis not_None_eq surj_pair)
  have r: "r \<longrightarrow> hasBacklog (bs_Events svc)" and k: "bs_KeepAfterDeletion svc \<le> 0 \<longrightarrow> r"
    and rq: "\<not> hasBacklog (bs_Events svc) \<longrightarrow> rq \<noteq> None"
    using sr assms(2,3) keep_duration [of "bs_KeepAfterDeletion svc"]
    by (auto simp: shouldRemoveFinalizer_def Let_def split: if_splits)
  show "finish_deletion (env\<lparr>be_Update := f\<rparr>) s svc w = finish_deletion env s svc w"
    using sr r k by (rule finish_deletion_no_update)
  show "fst (finish_deletion env s svc w) \<noteq> Done"
    using sr r
  proof (rule finish_deletion_kept [where s = s])
    fix w1 assume "finish_deletion env s svc w =
      (case updateStatus env svc w1 of
         (Some e, _, w3) \<Rightarrow> (Failure e, w3)
       | (None, svc3, w3) \<Rightarrow>
           (if s \<or> hasBacklog (bs_Events svc3) then (RequeueAfter successDrainDelay, w3)
            else (case rq of Some d \<Rightarrow> (RequeueAfter d, w3) | None \<Rightarrow> (Done, w3))))"
    then show ?thesis
      using rq updateStatus_events [OF assms(1), of svc w1] by (auto split: prod.splits option.splits)
  qed
qed

theorem finalizer_waits_witness:
  "fst (finish_deletion example_env False (example_service []) (example_service [], 0)) \<noteq> Done"
proof -
  have "fst (be_Now example_env (example_service [], 0))
      < 5 * second + bs_KeepAfterDeletion (example_service []) * (24 * hour)"
    by (simp add: example_env_def example_service_def duration_defs)
  then show ?thesis
    using finalizer_waits [OF example_lawful(2), of "example_service []" "5 * second" "(example_service [], 0)"]
    by (simp add: example_service_def)
qed

text \<open>
  The start of billing is never guessed: a new BillingService whose creation annotation is missing
  or does not parse is not billed. The step only reads the clock and fails, so it is retried.
\<close>

theorem initial_creation_waits:
  assumes "bs_Events svc = []" and "bs_Items svc \<noteq> []" and "instanceCreationTimestamp env svc = None"
  shows "\<exists>e. reconcile_active env maxEvents svc w = (Failure e, snd (be_Now env w))"
  using assms by (cases "bs_Items svc") (auto simp: reconcile_active_def handleItemCreation_def Let_def split: prod.splits)

theorem initial_creation_waits_witness:
  "\<exists>e. reconcile_active example_env 100 (example_service []) (example_service [], 0)
     = (Failure e, snd (be_Now example_env (example_service [], 0)))"
  by (rule initial_creation_waits) (simp_all add: example_service_def instanceCreationTimestamp_def)

text \<open>
  A value that an instance was scaled to once is never reported again: after A, B, A the change
  back to B finds the sent scale event of the first time and enqueues nothing, although the last
  value Odoo was told is another one.
\<close>

theorem scale_back_is_lost:
  assumes "lastSentValueForInstanceID (bs_Events svc) (it_InstanceID item) = Some v" and "v \<noteq> it_Value item"
    and "e \<in> set (bs_Events svc)" and "sent e" and "ev_Type e = Scaled"
    and "ev_InstanceID e = it_InstanceID item" and "ev_Value e = it_Value item"
  shows "handleItemScaling env maxEvents item svc w = (None, svc, w)"
  using assms by (auto simp: handleItemScaling_def hasEventWithValueByInstanceID_iff)

theorem scale_back_is_lost_witness:
  "(let svc = example_service [example_event ''a'' Scaled Sent ''1'', example_event ''a'' Scaled Sent ''2'',
              example_event ''a'' Created Sent ''1'']
    in lastSentValueForInstanceID (bs_Events svc) ''a'' = Some ''1'' \<and> it_Value (hd (bs_Items svc)) = ''2'' \<and>
       handleItemScaling example_env 100 (hd (bs_Items svc)) svc (svc, 0) = (None, svc, (svc, 0)))"
proof -
  let ?evs = "[example_event ''a'' Scaled Sent ''1'', example_event ''a'' Scaled Sent ''2'',
              example_event ''a'' Created Sent ''1'']"
  have "handleItemScaling example_env 100 (hd (bs_Items (example_service ?evs))) (example_service ?evs)
      (example_service ?evs, 0) = (None, example_service ?evs, (example_service ?evs, 0))"
    by (rule scale_back_is_lost [where e = "?evs ! 1" and v = "''1''"])
      (simp_all add: example_service_def example_event_def)
  then show ?thesis by (simp add: example_service_def example_event_def)
qed

end
