(* ===== verification/Billing_Liveness.thy ===== *)
theory Billing_Liveness
  imports Billing_Delivery
begin

text \<open>
  Whether the queue of the billing controller gets empty: one event with every \<open>Reconcile\<close> when Odoo and the cluster
  answer, and never when Odoo keeps refusing one event.
\<close>

section \<open>What waits\<close>

definition waiting :: "events \<Rightarrow> nat" where
  "waiting evs = length (filter (\<lambda>e. priority e < 4) evs)"

lemma waiting_backlog: "hasBacklog evs \<longleftrightarrow> waiting evs \<noteq> 0"
  by (auto simp: waiting_def hasBacklog_priority filter_empty_conv)

text \<open>The events as the API server stores them, no two with the same instance, type and time.\<close>

definition identity :: "billing_event \<Rightarrow> event_type \<times> string \<times> instant" where
  "identity e = (ev_Type e, ev_InstanceID e, ev_Timestamp e)"

definition queue_ok :: "events \<Rightarrow> bool" where
  "queue_ok evs \<longleftrightarrow> distinct (map identity evs) \<and> map wire_event evs = evs \<and> (\<forall>e \<in> set evs. ev_InstanceID e \<noteq> '''')"

definition odoo_accepts :: "'w billing_env \<Rightarrow> bool" where
  "odoo_accepts env \<longleftrightarrow> (\<forall>e w. fst (be_SendInstanceEvent env e w) = None)"

section \<open>One delivery\<close>

lemma wire_idem [simp]: "wire_event (wire_event e) = wire_event e"
  by (simp add: wire_event_def wire_time_def)

definition delivered :: "instant \<Rightarrow> nat \<Rightarrow> events \<Rightarrow> events" where
  "delivered t i evs = evs[i := wire_event ((evs ! i)\<lparr>ev_State := Sent, ev_LastAttemptTime := t\<rparr>)]"

lemma identity_wire: "wire_event e = e \<Longrightarrow> identity (wire_event (e\<lparr>ev_State := s, ev_LastAttemptTime := t\<rparr>)) = identity e"
  by (cases e) (simp add: identity_def wire_event_def)

lemma queue_ok_delivered:
  assumes "queue_ok evs" "i < length evs"
  shows "queue_ok (delivered t i evs)"
proof -
  have e: "wire_event (evs ! i) = evs ! i" using assms unfolding queue_ok_def by (metis nth_map)
  have "map identity (delivered t i evs) = map identity evs"
    using identity_wire [OF e] assms(2) by (simp add: delivered_def map_update list_update_same_conv)
  moreover have "map wire_event (delivered t i evs) = delivered t i evs"
    using assms by (simp add: delivered_def map_update queue_ok_def)
  moreover have "\<forall>e \<in> set (delivered t i evs). ev_InstanceID e \<noteq> ''''"
    using assms by (auto simp: delivered_def queue_ok_def dest!: set_update_subset_insert [THEN subsetD])
  ultimately show ?thesis using assms by (simp add: queue_ok_def)
qed

lemma waiting_append: "waiting (xs @ e # ys) = (if priority e < 4 then 1 else 0) + waiting xs + waiting ys"
  by (simp add: waiting_def)

lemma waiting_delivered:
  assumes "i < length evs" "priority (evs ! i) < 4"
  shows "waiting evs = Suc (waiting (delivered t i evs))"
proof -
  have p: "priority (wire_event ((evs ! i)\<lparr>ev_State := Sent, ev_LastAttemptTime := t\<rparr>)) = 4"
    by (simp add: priority_def)
  have "waiting evs = Suc (waiting (take i evs) + waiting (drop (Suc i) evs))"
    using waiting_append [of "take i evs" "evs ! i" "drop (Suc i) evs"] assms id_take_nth_drop [OF assms(1)] by simp
  moreover have "waiting (delivered t i evs) = waiting (take i evs) + waiting (drop (Suc i) evs)"
    unfolding delivered_def upd_conv_take_nth_drop [OF assms(1)] waiting_append using p by simp
  ultimately show ?thesis by simp
qed

lemma no_earlier_twin:
  assumes "distinct (map identity evs)" "i < length evs" "j < i"
  shows "\<not> twin (evs ! i) (evs ! j)"
  using assms by (auto simp: distinct_conv_nth identity_def)

section \<open>A Reconcile with nothing to enqueue\<close>

text \<open>
  The object in the cluster: \<open>obj w\<close> is the BillingService stored last. Reads give it, an update of the status stores
  the events and conditions, an update of the object everything else; what fails stores nothing.
\<close>

definition object_law :: "'w billing_env \<Rightarrow> string \<Rightarrow> string \<Rightarrow> ('w \<Rightarrow> billing_service) \<Rightarrow> bool" where
  "object_law env ns n obj \<longleftrightarrow>
     (\<forall>w. bs_Namespace (obj w) = ns \<and> bs_Name (obj w) = n) \<and>
     (\<forall>w. obj (snd (be_Now env w)) = obj w) \<and>
     (\<forall>e w. obj (snd (be_SendInstanceEvent env e w)) = obj w) \<and>
     (\<forall>w. obj (snd (be_Get env ns n w)) = obj w) \<and>
     (\<forall>w s w'. be_Get env ns n w = (Inr s, w') \<longrightarrow> s = obj w) \<and>
     (\<forall>s w e w'. be_StatusUpdate env s w = (Inl e, w') \<longrightarrow> obj w' = obj w) \<and>
     (\<forall>s w e w'. be_Update env s w = (Inl e, w') \<longrightarrow> obj w' = obj w) \<and>
     (\<forall>s w s' w'. bs_Namespace s = ns \<longrightarrow> bs_Name s = n \<longrightarrow> be_StatusUpdate env s w = (Inr s', w') \<longrightarrow>
        s' = obj w' \<and> (\<exists>c. obj w' = (obj w)\<lparr>bs_Events := map wire_event (bs_Events s), bs_Conditions := c\<rparr>)) \<and>
     (\<forall>s w s' w'. bs_Namespace s = ns \<longrightarrow> bs_Name s = n \<longrightarrow> be_Update env s w = (Inr s', w') \<longrightarrow>
        s' = obj w' \<and> bs_Events (obj w') = bs_Events (obj w))"

lemma object_lawD:
  assumes "object_law env ns n obj"
  shows "bs_Namespace (obj w) = ns" "bs_Name (obj w) = n"
    and "obj (snd (be_Now env w)) = obj w"
    and "obj (snd (be_SendInstanceEvent env e w)) = obj w"
    and "obj (snd (be_Get env ns n w)) = obj w"
    and "be_Get env ns n w = (Inr s, w') \<Longrightarrow> s = obj w"
    and "be_StatusUpdate env s w = (Inl er, w') \<Longrightarrow> obj w' = obj w"
    and "be_Update env s w = (Inl er, w') \<Longrightarrow> obj w' = obj w"
    and "bs_Namespace s = ns \<Longrightarrow> bs_Name s = n \<Longrightarrow> be_StatusUpdate env s w = (Inr s', w') \<Longrightarrow>
        s' = obj w' \<and> (\<exists>c. obj w' = (obj w)\<lparr>bs_Events := map wire_event (bs_Events s), bs_Conditions := c\<rparr>)"
    and "bs_Namespace s = ns \<Longrightarrow> bs_Name s = n \<Longrightarrow> be_Update env s w = (Inr s', w') \<Longrightarrow>
        s' = obj w' \<and> bs_Events (obj w') = bs_Events (obj w)"
  using assms unfolding object_law_def by (elim conjE; simp; fail | elim conjE; metis)+

text \<open>
  While the finalizer holds the object, the cluster answers reads and updates of the status; \<open>retry.OnError\<close> does not
  retry what succeeds, and a finalizer that is there is not added.
\<close>

definition cluster_serves :: "'w billing_env \<Rightarrow> string \<Rightarrow> string \<Rightarrow> ('w \<Rightarrow> billing_service) \<Rightarrow> bool" where
  "cluster_serves env ns n obj \<longleftrightarrow>
     (\<forall>w. BillingServiceFinalizer \<in> set (bs_Finalizers (obj w)) \<longrightarrow> (\<exists>s w'. be_Get env ns n w = (Inr s, w'))) \<and>
     (\<forall>s w. BillingServiceFinalizer \<in> set (bs_Finalizers (obj w)) \<longrightarrow> (\<exists>s' w'. be_StatusUpdate env s w = (Inr s', w'))) \<and>
     (\<forall>p f w r w'. f w = (Inr r, w') \<longrightarrow> be_RetryOnError env p f w = (Inr r, w')) \<and>
     (\<forall>fins f. f \<in> set fins \<longrightarrow> be_AddFinalizer env fins f = (fins, False)) \<and>
     (\<forall>w. range_order (be_MapOrder env w))"

lemma cluster_servesD:
  assumes "cluster_serves env ns n obj"
  shows "BillingServiceFinalizer \<in> set (bs_Finalizers (obj w)) \<Longrightarrow> \<exists>s w'. be_Get env ns n w = (Inr s, w')"
    and "BillingServiceFinalizer \<in> set (bs_Finalizers (obj w)) \<Longrightarrow> \<exists>s' w'. be_StatusUpdate env s w = (Inr s', w')"
    and "f w = (Inr r, w') \<Longrightarrow> be_RetryOnError env p f w = (Inr r, w')"
    and "g \<in> set fins \<Longrightarrow> be_AddFinalizer env fins g = (fins, False)"
    and "range_order (be_MapOrder env w)"
  using assms unfolding cluster_serves_def by (elim conjE; blast)+

text \<open>
  The events already say all that the specification asks for: of a service that is being deleted, every instance has a
  delete event; else every item has a create event and its value was either always the same or has a scale event, and
  every other instance that was announced has a delete event.
\<close>

definition item_enqueued :: "events \<Rightarrow> item_spec \<Rightarrow> bool" where
  "item_enqueued evs it \<longleftrightarrow> hasEventByInstanceID evs Created (it_InstanceID it) \<and>
     ((\<forall>e \<in> set evs. announces e \<and> ev_InstanceID e = it_InstanceID it \<longrightarrow> ev_Value e = it_Value it) \<or>
      hasEventWithValueByInstanceID evs Scaled (it_InstanceID it) (it_Value it))"

definition all_enqueued :: "billing_service \<Rightarrow> bool" where
  "all_enqueued svc \<longleftrightarrow>
     (if IsZero (bs_DeletionTimestamp svc)
      then (\<forall>it \<in> set (bs_Items svc). item_enqueued (bs_Events svc) it) \<and>
        (\<forall>e \<in> set (bs_Events svc). announces e \<longrightarrow> ev_InstanceID e \<in> it_InstanceID ` set (bs_Items svc) \<or>
           hasEventByInstanceID (bs_Events svc) Deleted (ev_InstanceID e))
      else (\<forall>it \<in> set (bs_Items svc). hasEventByInstanceID (bs_Events svc) Deleted (it_InstanceID it)) \<and>
        (\<forall>e \<in> set (bs_Events svc). hasEventByInstanceID (bs_Events svc) Deleted (ev_InstanceID e)))"

definition settled :: "billing_service \<Rightarrow> bool" where
  "settled svc \<longleftrightarrow> bs_SalesOrderID svc \<noteq> [] \<and> BillingServiceFinalizer \<in> set (bs_Finalizers svc) \<and>
     bs_Annotations svc ResendAnnotationKey = None \<and> queue_ok (bs_Events svc) \<and> all_enqueued svc"

text \<open>What is asked for does not depend on the state of an event.\<close>

definition kin :: "billing_event \<Rightarrow> event_type \<times> string \<times> string" where
  "kin e = (ev_Type e, ev_InstanceID e, ev_Value e)"

lemma kin_delivered: "i < length evs \<Longrightarrow> map kin (delivered t i evs) = map kin evs"
  by (simp add: delivered_def map_update list_update_same_conv kin_def wire_event_def)

lemma hasEvent_kin: "hasEventByInstanceID evs ty iid \<longleftrightarrow> (\<exists>v. (ty, iid, v) \<in> kin ` set evs)"
  by (auto simp: hasEventByInstanceID_iff kin_def image_iff)

lemma hasValue_kin: "hasEventWithValueByInstanceID evs ty iid v \<longleftrightarrow> (ty, iid, v) \<in> kin ` set evs"
  by (auto simp: hasEventWithValueByInstanceID_iff kin_def image_iff)

lemma ball_kin: "(\<forall>e \<in> set evs. P (ev_Type e) (ev_InstanceID e) (ev_Value e)) \<longleftrightarrow> (\<forall>(ty, iid, v) \<in> kin ` set evs. P ty iid v)"
  by (auto simp: kin_def)

lemma all_enqueued_kin:
  assumes "map kin (bs_Events s') = map kin (bs_Events s)" "bs_Items s' = bs_Items s" "bs_DeletionTimestamp s' = bs_DeletionTimestamp s"
  shows "all_enqueued s' = all_enqueued s"
proof -
  have "kin ` set (bs_Events s') = kin ` set (bs_Events s)" using assms(1) by (metis list.set_map)
  then show ?thesis
    unfolding all_enqueued_def item_enqueued_def hasEvent_kin hasValue_kin assms(2,3)
      ball_kin [of _ "\<lambda>ty iid v. (ty = Created \<or> ty = Scaled) \<and> iid = j \<longrightarrow> v = u" for j u]
      ball_kin [of _ "\<lambda>ty iid v. (ty = Created \<or> ty = Scaled) \<longrightarrow> iid \<in> A \<or> (\<exists>v. (Deleted, iid, v) \<in> K)" for A K]
      ball_kin [of _ "\<lambda>ty iid v. \<exists>v. (Deleted, iid, v) \<in> K" for K]
    by simp
qed

lemma last_sent_value: "lastSentValueForInstanceID evs iid = Some v \<Longrightarrow> \<exists>e \<in> set evs. announces e \<and> ev_InstanceID e = iid \<and> ev_Value e = v"
  by (induction evs) (auto split: if_splits)

lemma items_idle:
  assumes "\<forall>it \<in> set its. item_enqueued (bs_Events svc) it"
  shows "handle_items env m initial its svc w = (None, svc, w)"
  using assms
proof (induction its)
  case (Cons it its)
  have e: "item_enqueued (bs_Events svc) it" using Cons.prems by simp
  have "handleItemScaling env m it svc w = (None, svc, w)"
    using e last_sent_value [of "bs_Events svc" "it_InstanceID it"]
    by (cases "lastSentValueForInstanceID (bs_Events svc) (it_InstanceID it)") (auto simp: handleItemScaling_def item_enqueued_def)
  then show ?case using Cons e by (simp add: handleItemCreation_def item_enqueued_def)
qed simp

lemma last_sent_keys: "set (map fst (last_sent evs m)) \<subseteq> set (map fst m) \<union> ev_InstanceID ` {e \<in> set evs. announces e}"
proof (induction evs m rule: last_sent.induct)
  case (2 e es m)
  then show ?case by (cases "map_of m (ev_InstanceID e) = None \<and> ev_State e = Sent \<and> announces e") (auto split: if_splits)
qed simp

lemma removed_idle:
  assumes "range_order (be_MapOrder env w)" "\<forall>e \<in> set (bs_Events svc). announces e \<longrightarrow> ev_InstanceID e \<in> it_InstanceID ` set (bs_Items svc) \<or>
      hasEventByInstanceID (bs_Events svc) Deleted (ev_InstanceID e)"
  shows "handleRemovedItems env m svc w = (None, svc, w)"
proof -
  have idle: "remove_items env m cur ls ids svc w = (None, svc, w)"
    if "\<forall>i \<in> set ids. i \<in> cur \<or> hasEventByInstanceID (bs_Events svc) Deleted i" for cur ls ids
    using that by (induction ids) auto
  have "set (be_MapOrder env w (map fst (last_sent (bs_Events svc) []))) \<subseteq> ev_InstanceID ` {e \<in> set (bs_Events svc). announces e}"
    using last_sent_keys [of "bs_Events svc" "[]"] range_order_set [OF assms(1)] by simp
  then have "\<forall>i \<in> set (be_MapOrder env w (map fst (last_sent (bs_Events svc) []))).
      i \<in> set (map it_InstanceID (bs_Items svc)) \<or> hasEventByInstanceID (bs_Events svc) Deleted i"
    using assms(2) by fastforce
  then show ?thesis unfolding handleRemovedItems_def Let_def by (rule idle)
qed

lemma deletion_idle:
  assumes "\<forall>it \<in> set (bs_Items svc). hasEventByInstanceID (bs_Events svc) Deleted (it_InstanceID it)"
    "\<forall>e \<in> set (bs_Events svc). hasEventByInstanceID (bs_Events svc) Deleted (ev_InstanceID e)"
    "be_AddFinalizer env (bs_Finalizers svc) BillingServiceFinalizer = (bs_Finalizers svc, False)"
  shows "handleDeletion env m svc w = (None, svc, w)"
proof -
  have "delete_items env m d its {} svc w = ({}, None, svc, w)"
    if "\<forall>it \<in> set its. hasEventByInstanceID (bs_Events svc) Deleted (it_InstanceID it)" for its d
    using that by (induction its) (auto simp: enqueueDeleteIfNeeded_def)
  moreover have "delete_sent env m d evs {} svc w = ({}, None, svc, w)"
    if "\<forall>e \<in> set evs. hasEventByInstanceID (bs_Events svc) Deleted (ev_InstanceID e)" for evs d
    using that by (induction evs) (auto simp: enqueueDeleteIfNeeded_def spec_of_event_def)
  ultimately show ?thesis using assms by (auto simp: handleDeletion_def split: option.splits)
qed

lemma delivery_served:
  assumes laws: "object_law env ns n obj" "cluster_serves env ns n obj" "odoo_accepts env"
    and s: "settled (obj w)" "i < length (bs_Events (obj w))"
  shows "\<exists>t c svc' w'. deliverQueuedEvent env i (obj w) w = (True, None, svc', w') \<and> svc' = obj w' \<and>
    obj w' = (obj w)\<lparr>bs_Events := delivered t i (bs_Events (obj w)), bs_Conditions := c\<rparr>"
proof -
  let ?svc = "obj w" and ?evs = "bs_Events (obj w)"
  note ob = object_lawD [OF laws(1)] and cl = cluster_servesD [OF laws(2)]
  have q: "queue_ok ?evs" and fin: "BillingServiceFinalizer \<in> set (bs_Finalizers ?svc)" using s(1) by (simp_all add: settled_def)
  obtain now w1 where now: "be_Now env w = (now, w1)" by fastforce
  let ?ev = "(?evs ! i)\<lparr>ev_LastAttemptTime := now\<rparr>" and ?new = "?evs[i := (?evs ! i)\<lparr>ev_State := Sent, ev_LastAttemptTime := now\<rparr>]"
  have iid: "ev_InstanceID ?ev \<noteq> ''''" using q s(2) by (simp add: queue_ok_def)
  obtain w2 where send: "sendEventToOdoo env ?svc ?ev w1 = (None, w2)"
  proof -
    obtain r v where r: "sendEventToOdoo env ?svc ?ev w1 = (r, v)" by fastforce
    moreover have "r = None" using r laws(3) iid unfolding sendEventToOdoo_def odoo_accepts_def by (metis fst_conv)
    ultimately show ?thesis using that by blast
  qed
  have w2: "obj w2 = ?svc" using send ob(4) ob(3) [of w] now iid unfolding sendEventToOdoo_def by (metis snd_conv)
  then obtain fresh w3 where get: "be_Get env ns n w2 = (Inr fresh, w3)" using cl(1) fin by fastforce
  have fresh: "fresh = ?svc" "obj w3 = ?svc" using ob(6) [OF get] ob(5) [of w2] get w2 by simp_all
  have m: "mark_sent ?ev ?evs = Some ?new"
    using mark_sent_first [of i ?evs ?ev] no_earlier_twin [of ?evs i] q s(2) by (auto simp: queue_ok_def)
  obtain s' w4 where upd: "be_StatusUpdate env (?svc\<lparr>bs_Events := ?new\<rparr>) w3 = (Inr s', w4)"
    using cl(2) [of w3] fin fresh(2) by metis
  obtain c where c: "s' = obj w4" "obj w4 = ?svc\<lparr>bs_Events := map wire_event ?new, bs_Conditions := c\<rparr>"
    using ob(9) [OF _ _ upd] ob(1,2) fresh(2) by auto
  have "persistEventSent env ?svc ?ev w2 = (Inr s', w4)"
    by (simp add: persistEventSent_def ob(1,2) get fresh(1) m upd)
  then have "be_RetryOnError env isTransientAPIError (persistEventSent env ?svc ?ev) w2 = (Inr s', w4)" by (rule cl(3))
  then have run: "deliverQueuedEvent env i ?svc w = (True, None, s', w4)" by (simp add: deliverQueuedEvent_def now send)
  have "map wire_event ?new = delivered now i ?evs" using q by (simp add: delivered_def map_update queue_ok_def)
  with run c show ?thesis by metis
qed

lemma settled_conditions [simp]: "settled (svc\<lparr>bs_Conditions := c\<rparr>) = settled svc"
  by (simp add: settled_def all_enqueued_def)

lemma settled_delivered:
  assumes "settled svc" "i < length (bs_Events svc)"
  shows "settled (svc\<lparr>bs_Events := delivered t i (bs_Events svc), bs_Conditions := c\<rparr>)"
  using assms queue_ok_delivered [of "bs_Events svc" i t]
    all_enqueued_kin [of "svc\<lparr>bs_Events := delivered t i (bs_Events svc), bs_Conditions := c\<rparr>" svc]
  by (simp add: settled_def kin_delivered)

lemma updateStatus_served:
  assumes "object_law env ns n obj" "bs_Namespace svc = ns" "bs_Name svc = n" "bs_Events svc = bs_Events (obj w)"
    "map wire_event (bs_Events svc) = bs_Events svc"
  shows "\<exists>c. obj (snd (snd (updateStatus env svc w))) = (obj w)\<lparr>bs_Conditions := c\<rparr>"
proof -
  note ob = object_lawD [OF assms(1)]
  obtain t1 w1 t2 w2 where now: "be_Now env w = (t1, w1)" "be_Now env w1 = (t2, w2)" by (metis surj_pair)
  have w2: "obj w2 = obj w" using ob(3) now by (metis snd_conv)
  define svc2 where "svc2 = setSyncedCondition (setReadyCondition svc t1) t2"
  have s: "bs_Namespace svc2 = ns" "bs_Name svc2 = n" "bs_Events svc2 = bs_Events (obj w)"
    using assms(2-4) by (simp_all add: svc2_def setSyncedCondition_def setReadyCondition_def Let_def)
  have keep: "obj w = (obj w)\<lparr>bs_Conditions := bs_Conditions (obj w)\<rparr>" by simp
  have st: "snd (snd (updateStatus env svc w)) = snd (be_StatusUpdate env svc2 w2)"
    by (simp add: updateStatus_def now svc2_def persist_status_def split: prod.splits sum.splits)
  show ?thesis
  proof (cases "be_StatusUpdate env svc2 w2")
    case (Pair r w3)
    show ?thesis
    proof (cases r)
      case (Inl e)
      then have "obj w3 = obj w" using ob(7) Pair w2 by metis
      then show ?thesis using st Pair keep by (metis snd_conv)
    next
      case (Inr s')
      then obtain c where "obj w3 = (obj w)\<lparr>bs_Events := map wire_event (bs_Events svc2), bs_Conditions := c\<rparr>"
        using ob(9) [OF s(1,2) Pair [unfolded Inr]] w2 by auto
      moreover have "map wire_event (bs_Events svc2) = bs_Events (obj w)" using s(3) assms(4,5) by simp
      moreover have "(obj w)\<lparr>bs_Events := bs_Events (obj w), bs_Conditions := c\<rparr> = (obj w)\<lparr>bs_Conditions := c\<rparr>" by (cases "obj w") simp
      ultimately show ?thesis using st Pair by auto
    qed
  qed
qed

lemma finish_deletion_served:
  assumes "object_law env ns n obj" "map wire_event (bs_Events (obj w)) = bs_Events (obj w)"
  shows "bs_Events (obj (snd (finish_deletion env b (obj w) w))) = bs_Events (obj w) \<and>
    (hasBacklog (bs_Events (obj w)) \<longrightarrow> (\<exists>c. obj (snd (finish_deletion env b (obj w) w)) = (obj w)\<lparr>bs_Conditions := c\<rparr>))"
proof -
  note ob = object_lawD [OF assms(1)]
  let ?svc = "obj w"
  obtain now w1 where now: "(if bs_KeepAfterDeletion ?svc \<le> 0 then (0, w) else be_Now env w) = (now, w1)" by fastforce
  have w1: "obj w1 = ?svc" using ob(3) [of w] now by (auto split: if_splits)
  have keep: "?svc = ?svc\<lparr>bs_Conditions := bs_Conditions ?svc\<rparr>" by simp
  show ?thesis
  proof (cases "shouldRemoveFinalizer ?svc now")
    case None
    then have "snd (finish_deletion env b ?svc w) = w1" unfolding finish_deletion_def now Let_def by simp
    then show ?thesis using w1 keep by metis
  next
    case (Some d)
    obtain can rq where d: "d = (can, rq)" by fastforce
    define fins where "fins = (if can \<and> \<not> hasBacklog (bs_Events ?svc) \<and> be_ContainsFinalizer env (bs_Finalizers ?svc) BillingServiceFinalizer
        then update_object env (?svc\<lparr>bs_Finalizers := be_RemoveFinalizer env (bs_Finalizers ?svc) BillingServiceFinalizer\<rparr>) w1
        else (None, ?svc, w1))"
    obtain e svc2 w2 where f: "fins = (e, svc2, w2)" using prod_cases3 by blast
    have upd: "bs_Events (obj w2) = bs_Events ?svc \<and> (e = None \<longrightarrow> svc2 = obj w2) \<and> (hasBacklog (bs_Events ?svc) \<longrightarrow> obj w2 = ?svc \<and> e = None)"
    proof (cases "can \<and> \<not> hasBacklog (bs_Events ?svc) \<and> be_ContainsFinalizer env (bs_Finalizers ?svc) BillingServiceFinalizer")
      case True
      then have u: "update_object env (?svc\<lparr>bs_Finalizers := be_RemoveFinalizer env (bs_Finalizers ?svc) BillingServiceFinalizer\<rparr>) w1 = (e, svc2, w2)"
        using f by (simp add: fins_def)
      obtain r w3 where run: "be_Update env (?svc\<lparr>bs_Finalizers := be_RemoveFinalizer env (bs_Finalizers ?svc) BillingServiceFinalizer\<rparr>) w1 = (r, w3)"
        by fastforce
      show ?thesis
      proof (cases r)
        case (Inl x)
        then show ?thesis using u run True w1 ob(8) [OF run [unfolded Inl]] by (auto simp: update_object_def)
      next
        case (Inr s')
        then show ?thesis using u run True w1 ob(10) [OF _ _ run [unfolded Inr]] ob(1,2) by (auto simp: update_object_def)
      qed
    next
      case False
      then have "fins = (None, ?svc, w1)" by (auto simp: fins_def)
      then show ?thesis using f w1 by simp
    qed
    have fd: "finish_deletion env b ?svc w = (case fins of (Some e, _, w2) \<Rightarrow> (Failure e, w2)
      | (None, svc2, w2) \<Rightarrow> (case updateStatus env svc2 w2 of (Some e, _, w3) \<Rightarrow> (Failure e, w3)
         | (None, svc3, w3) \<Rightarrow> (if b \<or> hasBacklog (bs_Events svc3) then (RequeueAfter successDrainDelay, w3)
             else (case rq of Some d \<Rightarrow> (RequeueAfter d, w3) | None \<Rightarrow> (Done, w3)))))"
      unfolding finish_deletion_def now Let_def fins_def by (simp add: Some d)
    show ?thesis
    proof (cases e)
      case None
      have "snd (finish_deletion env b ?svc w) = snd (snd (updateStatus env svc2 w2))"
        unfolding fd f None by (simp split: prod.splits option.splits)
      moreover obtain c where "obj (snd (snd (updateStatus env svc2 w2))) = (obj w2)\<lparr>bs_Conditions := c\<rparr>"
        using updateStatus_served [OF assms(1), of svc2 w2] upd None ob(1,2) assms(2) by auto
      ultimately show ?thesis using upd by auto
    next
      case (Some e')
      then have "snd (finish_deletion env b ?svc w) = w2" unfolding fd f by simp
      then show ?thesis using upd Some by auto
    qed
  qed
qed

lemma Reconcile_served:
  fixes maxEvents :: int
  assumes laws: "object_law env ns n obj" "cluster_serves env ns n obj" "odoo_accepts env"
    and s: "settled (obj w)" "hasBacklog (bs_Events (obj w))"
  defines "w' \<equiv> snd (Reconcile env maxEvents ns n w)"
  shows "waiting (bs_Events (obj w)) = Suc (waiting (bs_Events (obj w'))) \<and> (hasBacklog (bs_Events (obj w')) \<longrightarrow> settled (obj w'))"
proof -
  note ob = object_lawD [OF laws(1)] and cl = cluster_servesD [OF laws(2)]
  let ?svc = "obj w"
  have set: "bs_SalesOrderID ?svc \<noteq> []" "BillingServiceFinalizer \<in> set (bs_Finalizers ?svc)"
    "bs_Annotations ?svc ResendAnnotationKey = None" "all_enqueued ?svc" using s(1) by (simp_all add: settled_def)
  obtain v w1 where "be_Get env ns n w = (Inr v, w1)" using cl(1) set(2) by blast
  then have get: "be_Get env ns n w = (Inr ?svc, w1)" and w1: "obj w1 = ?svc" using ob(5) [of w] ob(6) by auto
  note fin = cl(4) [OF set(2)]
  have rec: "Reconcile env maxEvents ns n w = (if \<not> IsZero (bs_DeletionTimestamp ?svc) then reconcile_deleting env maxEvents ?svc w1
      else reconcile_active env maxEvents ?svc w1)"
    using set fin by (simp add: Reconcile_def get populate_sales_order_def ensure_finalizer_def handle_resend_def)
  have "hasBacklog (bs_Events ?svc)" using s(2) .
  then obtain i where i: "next_event (bs_Events ?svc) i" "processQueue env ?svc w1 = deliverQueuedEvent env i ?svc w1"
    using processQueue_choice [of ?svc env w1] by blast
  have il: "i < length (bs_Events ?svc)" "priority (bs_Events ?svc ! i) < 4" using i(1) by (simp_all add: next_event_def)
  obtain t c w2 where pq: "processQueue env ?svc w1 = (True, None, obj w2, w2)"
    "obj w2 = ?svc\<lparr>bs_Events := delivered t i (bs_Events ?svc), bs_Conditions := c\<rparr>"
    using delivery_served [OF laws, of w1 i] s(1) il(1) i(2) w1 by auto
  have s2: "settled (obj w2)" unfolding pq(2) by (rule settled_delivered [OF s(1) il(1)])
  have wire: "map wire_event (bs_Events (obj w2)) = bs_Events (obj w2)" using s2 by (simp add: settled_def queue_ok_def)
  have ev: "bs_Events (obj w') = bs_Events (obj w2) \<and> (hasBacklog (bs_Events (obj w2)) \<longrightarrow> settled (obj w'))"
  proof (cases "IsZero (bs_DeletionTimestamp ?svc)")
    case True
    then have en: "\<forall>it \<in> set (bs_Items ?svc). item_enqueued (bs_Events ?svc) it"
      "\<forall>e \<in> set (bs_Events ?svc). announces e \<longrightarrow> ev_InstanceID e \<in> it_InstanceID ` set (bs_Items ?svc) \<or>
         hasEventByInstanceID (bs_Events ?svc) Deleted (ev_InstanceID e)"
      using set(4) by (simp_all add: all_enqueued_def)
    have "w' = snd (snd (updateStatus env (obj w2) w2))"
      unfolding w'_def rec using True
      by (simp add: reconcile_active_def items_idle [OF en(1)] removed_idle [OF cl(5) en(2)] pq(1) split: prod.splits option.splits)
    moreover obtain c' where "obj (snd (snd (updateStatus env (obj w2) w2))) = (obj w2)\<lparr>bs_Conditions := c'\<rparr>"
      using updateStatus_served [OF laws(1) ob(1,2) refl wire] by blast
    ultimately show ?thesis using s2 by simp
  next
    case False
    then have en: "\<forall>it \<in> set (bs_Items ?svc). hasEventByInstanceID (bs_Events ?svc) Deleted (it_InstanceID it)"
      "\<forall>e \<in> set (bs_Events ?svc). hasEventByInstanceID (bs_Events ?svc) Deleted (ev_InstanceID e)"
      using set(4) by (simp_all add: all_enqueued_def)
    have "w' = snd (finish_deletion env True (obj w2) w2)"
      unfolding w'_def rec using False by (simp add: reconcile_deleting_def deletion_idle [OF en fin] pq(1))
    then show ?thesis using finish_deletion_served [OF laws(1) wire, of True] s2 by fastforce
  qed
  have "waiting (bs_Events ?svc) = Suc (waiting (bs_Events (obj w2)))"
    unfolding pq(2) using waiting_delivered [OF il] by simp
  then show ?thesis using ev by simp
qed

section \<open>The queue drains\<close>

fun reconciles :: "'w billing_env \<Rightarrow> int \<Rightarrow> string \<Rightarrow> string \<Rightarrow> nat \<Rightarrow> 'w \<Rightarrow> 'w" where
  "reconciles env maxEvents ns n 0 w = w"
| "reconciles env maxEvents ns n (Suc k) w = reconciles env maxEvents ns n k (snd (Reconcile env maxEvents ns n w))"

text \<open>
  C2. The queue drains. Of a service whose stored events already say all that its specification asks for, each with an
  instance and no two with the same instance, type and time, every \<open>Reconcile\<close> delivers one event as long as Odoo
  accepts what it is sent and the cluster answers: after as many as events waited none waits, and not before.
\<close>

theorem queue_drains:
  assumes "object_law env ns n obj" "cluster_serves env ns n obj" "odoo_accepts env"
    and "settled (obj w)" "k \<le> waiting (bs_Events (obj w))"
  shows "waiting (bs_Events (obj (reconciles env maxEvents ns n k w))) = waiting (bs_Events (obj w)) - k \<and>
    (hasBacklog (bs_Events (obj (reconciles env maxEvents ns n k w))) \<longleftrightarrow> k < waiting (bs_Events (obj w)))"
proof -
  have "settled (obj w) \<or> waiting (bs_Events (obj w)) = 0 \<Longrightarrow> k \<le> waiting (bs_Events (obj w)) \<Longrightarrow>
      waiting (bs_Events (obj (reconciles env maxEvents ns n k w))) = waiting (bs_Events (obj w)) - k"
  proof (induction k arbitrary: w)
    case (Suc k)
    let ?w' = "snd (Reconcile env maxEvents ns n w)"
    have "settled (obj w)" "hasBacklog (bs_Events (obj w))" using Suc.prems waiting_backlog by auto
    from Reconcile_served [OF assms(1-3) this, of maxEvents]
    have r: "waiting (bs_Events (obj w)) = Suc (waiting (bs_Events (obj ?w')))"
      "settled (obj ?w') \<or> waiting (bs_Events (obj ?w')) = 0" using waiting_backlog by auto
    then show ?case using Suc.IH [OF r(2)] Suc.prems(2) by simp
  qed simp
  then show ?thesis using assms(4,5) by (auto simp: waiting_backlog)
qed

section \<open>A refused event\<close>

text \<open>A turn reads the object and delivers one event; what the memory holds after it is read again in the next one.\<close>

definition queue_turn :: "'w billing_env \<Rightarrow> string \<Rightarrow> string \<Rightarrow> 'w \<Rightarrow> 'w" where
  "queue_turn env ns n w =
     (case be_Get env ns n w of
        (Inl e, w) \<Rightarrow> w
      | (Inr svc, w) \<Rightarrow> (case processQueue env svc w of (_, _, _, w) \<Rightarrow> w))"

fun queue_turns :: "'w billing_env \<Rightarrow> string \<Rightarrow> string \<Rightarrow> nat \<Rightarrow> 'w \<Rightarrow> 'w" where
  "queue_turns env ns n 0 w = w"
| "queue_turns env ns n (Suc k) w = queue_turns env ns n k (queue_turn env ns n w)"

lemma next_event_unique: "next_event evs i \<Longrightarrow> next_event evs j \<Longrightarrow> i = j"
  unfolding next_event_def by (metis le_antisym order_less_asym)

lemma next_event_cong: "map priority evs' = map priority evs \<Longrightarrow> next_event evs' i = next_event evs i"
  unfolding next_event_def by (metis length_map nth_map)

text \<open>The event at \<open>i\<close> has failed before and is the next one.\<close>

definition stuck_at :: "events \<Rightarrow> nat \<Rightarrow> string \<Rightarrow> bool" where
  "stuck_at evs i iid \<longleftrightarrow> next_event evs i \<and> ev_State (evs ! i) = Failed \<and> ev_InstanceID (evs ! i) = iid"

definition odoo_refuses :: "'w billing_env \<Rightarrow> string \<Rightarrow> bool" where
  "odoo_refuses env iid \<longleftrightarrow> (\<forall>e w. ie_InstanceID e = iid \<longrightarrow> fst (be_SendInstanceEvent env e w) \<noteq> None)"

lemma stuck_update:
  fixes t :: instant and r :: int
  assumes "stuck_at evs i iid"
  defines "evs' \<equiv> map wire_event (evs[i := (evs ! i)\<lparr>ev_LastAttemptTime := t, ev_RetryCount := r, ev_State := Failed\<rparr>])"
  shows "stuck_at evs' i iid \<and> map ev_State evs' = map ev_State evs"
proof -
  let ?e = "(evs ! i)\<lparr>ev_LastAttemptTime := t, ev_RetryCount := r, ev_State := Failed\<rparr>"
  have i: "i < length evs" "ev_State (evs ! i) = Failed" "ev_InstanceID (evs ! i) = iid" "next_event evs i"
    using assms(1) by (simp_all add: stuck_at_def next_event_def)
  have w: "map priority (map wire_event es) = map priority es" "map ev_State (map wire_event es) = map ev_State es" for es
    by (induction es) (simp_all add: priority_def)
  have "priority ?e = priority (evs ! i)" using i by (simp add: priority_def)
  then have "map priority evs' = map priority evs"
    unfolding evs'_def w using i(1) by (simp add: map_update list_update_same_conv)
  moreover have "map ev_State evs' = map ev_State evs"
    unfolding evs'_def w using i(1,2) by (simp add: map_update list_update_same_conv)
  moreover have "ev_InstanceID (evs' ! i) = iid" "ev_State (evs' ! i) = Failed" using i by (simp_all add: evs'_def)
  ultimately show ?thesis using i(4) next_event_cong [of evs' evs i] unfolding stuck_at_def by blast
qed

lemma stuck_turn:
  assumes "store_law env ns n content" "odoo_refuses env iid" "stuck_at (content w) i iid"
  shows "stuck_at (content (queue_turn env ns n w)) i iid \<and>
    map ev_State (content (queue_turn env ns n w)) = map ev_State (content w)"
proof -
  note st = store_lawD [OF assms(1)]
  obtain r w1 where get: "be_Get env ns n w = (r, w1)" by fastforce
  have w1: "content w1 = content w" using st(3) [of w] get by simp
  show ?thesis
  proof (cases r)
    case (Inl e)
    then show ?thesis using get w1 assms(3) by (simp add: queue_turn_def)
  next
    case (Inr svc)
    have svc: "bs_Events svc = content w" "bs_Namespace svc = ns" "bs_Name svc = n" using st(4) get Inr by blast+
    have "hasBacklog (bs_Events svc)" using assms(3) svc by (auto simp: stuck_at_def hasBacklog_priority next_event_def)
    then obtain j where j: "next_event (bs_Events svc) j" "processQueue env svc w1 = deliverQueuedEvent env j svc w1"
      using processQueue_choice [of svc env w1] by blast
    then have "j = i" using assms(3) svc next_event_unique by (auto simp: stuck_at_def)
    obtain now w2 where now: "be_Now env w1 = (now, w2)" by fastforce
    let ?ev = "(bs_Events svc ! i)\<lparr>ev_LastAttemptTime := now\<rparr>"
    obtain x w3 where send: "sendEventToOdoo env svc ?ev w2 = (x, w3)" by fastforce
    have "x \<noteq> None" using send assms(2,3) svc unfolding sendEventToOdoo_def odoo_refuses_def stuck_at_def
      by (auto split: if_splits simp: prod_eq_iff)
    then obtain err where x: "x = Some err" by blast
    have w3: "content w3 = content w"
      using send st(2) st(1) [of w1] now w1 unfolding sendEventToOdoo_def by (auto split: if_splits simp: prod_eq_iff)
    let ?evs = "(bs_Events svc)[i := ?ev\<lparr>ev_RetryCount := ev_RetryCount ?ev + 1, ev_State := Failed\<rparr>]"
    obtain u w4 where upd: "be_StatusUpdate env (svc\<lparr>bs_Events := ?evs\<rparr>) w3 = (u, w4)" by fastforce
    have turn: "queue_turn env ns n w = w4"
      using get Inr j(2) \<open>j = i\<close> now send x upd
      by (cases u) (simp_all add: queue_turn_def deliverQueuedEvent_def persist_status_def Let_def)
    show ?thesis
    proof (cases u)
      case (Inl e)
      then have "content w4 = content w" using st(5) upd w3 by metis
      then show ?thesis using turn assms(3) by simp
    next
      case (Inr s)
      have "content w4 = map wire_event ?evs" using st(6) [OF _ _ upd [unfolded Inr]] svc by simp
      then show ?thesis using turn stuck_update [OF assms(3), where t = now and r = "ev_RetryCount (content w ! i) + 1"] svc by simp
    qed
  qed
qed

text \<open>
  C3. One event that Odoo keeps refusing holds up the whole service: it is retried before every other, without a
  limit, so however many turns there are, no event gets another state, deletions included.
\<close>

theorem refused_event_blocks_queue:
  assumes "store_law env ns n content" "odoo_refuses env iid" "stuck_at (content w) i iid"
  shows "map ev_State (content (queue_turns env ns n k w)) = map ev_State (content w)"
  using assms(3)
proof (induction k arbitrary: w)
  case (Suc k)
  then show ?case using stuck_turn [OF assms(1,2) Suc.prems] by simp
qed simp

section \<open>Examples\<close>

text \<open>A cluster that keeps the specification and the status of the object apart.\<close>

definition served_object :: "billing_service \<times> nat \<Rightarrow> billing_service" where
  "served_object w = (fst w)\<lparr>bs_Namespace := ''ns'', bs_Name := ''pg''\<rparr>"

definition serving_env :: "(billing_service \<times> nat) billing_env" where
  "serving_env = example_env\<lparr>
     be_StatusUpdate := (\<lambda>s w. let v = (served_object w)\<lparr>bs_Events := map wire_event (bs_Events s), bs_Conditions := bs_Conditions s\<rparr>
       in (Inr v, (v, snd w))),
     be_Update := (\<lambda>s w. let v = s\<lparr>bs_Namespace := ''ns'', bs_Name := ''pg'', bs_Events := bs_Events (fst w), bs_Conditions := bs_Conditions (fst w)\<rparr>
       in (Inr v, (v, snd w)))\<rparr>"

lemma place_last: "x\<lparr>bs_Events := e, bs_Conditions := c, bs_Namespace := a, bs_Name := b\<rparr> = x\<lparr>bs_Namespace := a, bs_Name := b, bs_Events := e, bs_Conditions := c\<rparr>"
  by (cases x) simp

lemma serving_laws:
  "object_law serving_env ''ns'' ''pg'' served_object" "cluster_serves serving_env ''ns'' ''pg'' served_object" "odoo_accepts serving_env"
  by (auto simp: object_law_def cluster_serves_def odoo_accepts_def serving_env_def example_env_def served_object_def Let_def)
    (metis place_last)

theorem queue_drains_witness:
  "\<exists>svc. bs_Events svc = [example_event ''a'' Deleted Pending ''2'', example_event ''a'' Created Failed ''2''] \<and>
    hasBacklog (bs_Events (served_object (reconciles serving_env 100 ''ns'' ''pg'' 1 (svc, 0)))) \<and>
    \<not> hasBacklog (bs_Events (served_object (reconciles serving_env 100 ''ns'' ''pg'' 2 (svc, 0))))"
proof -
  let ?evs = "[example_event ''a'' Deleted Pending ''2'', example_event ''a'' Created Failed ''2'']"
  have e: "bs_Events (served_object (example_service ?evs, 0)) = ?evs" by (simp add: served_object_def example_service_def)
  have w: "waiting ?evs = 2" by (simp add: waiting_def priority_def example_event_def)
  have q: "queue_ok ?evs" by (simp add: queue_ok_def identity_def example_event_def wire_event_def wire_time_def)
  have "settled (served_object (example_service ?evs, 0))"
    using q by (simp add: settled_def all_enqueued_def item_enqueued_def IsZero_def served_object_def example_service_def example_event_def)
  note drains = queue_drains [OF serving_laws this, unfolded e w, of _ 100]
  show ?thesis using drains [of 1] drains [of 2] by (intro exI [of _ "example_service ?evs"]) (simp add: example_service_def)
qed

text \<open>An Odoo that does not know the product of instance \<open>b\<close>.\<close>

definition refusing_env :: "(billing_service \<times> nat) billing_env" where
  "refusing_env = example_env\<lparr>be_SendInstanceEvent := (\<lambda>e w. (if ie_InstanceID e = ''b'' then Some (Msg ''unknown product'') else None, w))\<rparr>"

theorem refused_event_blocks_queue_witness:
  "\<exists>svc. map ev_State (bs_Events svc) = [Failed, Pending] \<and>
    map ev_State (bs_Events (fst (queue_turns refusing_env ''ns'' ''b'' 1000 (svc, 0)))) = [Failed, Pending]"
proof -
  let ?svc = "example_service [example_event ''b'' Created Failed ''1'', example_event ''a'' Deleted Pending ''1'']"
  have e: "bs_Events ?svc = [example_event ''b'' Created Failed ''1'', example_event ''a'' Deleted Pending ''1'']"
    by (simp add: example_service_def)
  have l: "store_law refusing_env ''ns'' ''b'' (\<lambda>w. bs_Events (fst w))" "odoo_refuses refusing_env ''b''"
    by (auto simp: store_law_def odoo_refuses_def refusing_env_def example_env_def)
  have s: "stuck_at (bs_Events (fst (?svc, 0::nat))) 0 ''b''"
    unfolding fst_conv e by (auto simp: stuck_at_def next_event_def priority_def example_event_def less_Suc_eq)
  show ?thesis
    using refused_event_blocks_queue [OF l s] e by (intro exI [of _ ?svc]) (simp add: example_event_def)
qed

end
