(* ===== verification/TcpGateway.thy ===== *)
theory TcpGateway
  imports Prelude
begin

text \<open>
  The mutating webhook for XListenerSets, \<open>pkg/controller/webhooks/tcpgateway/{sharding,allocator,
  handler}.go\<close>: the choice of a gateway by its number of listeners, the reservation of TCP ports by
  Lease objects, and the admission handler. Ports are \<open>int32\<close>, so 32-bit words read as signed. The
  search for a port is a loop that need not end (\<open>port++\<close> wraps around), hence a partial function
  whose \<open>None\<close> is "does not return".
\<close>

section \<open>Gateways\<close>

record gateway_key =
  gk_Namespace :: string
  gk_Name :: string

record gateway_sharding =
  gs_gateways :: "gateway_key list"
  gs_capacity :: int

definition filterAllowed :: "gateway_sharding \<Rightarrow> gateway_key list \<Rightarrow> gateway_key list" where
  "filterAllowed gs allowed = filter (\<lambda>gw. slices_contains allowed gw) (gs_gateways gs)"

text \<open>The loop of \<open>SelectGateway\<close> over the candidates, carrying the best one and its count.\<close>

fun best_gateway ::
  "int \<Rightarrow> int \<Rightarrow> (gateway_key \<Rightarrow> int) \<Rightarrow> gateway_key list \<Rightarrow> gateway_key \<times> int \<Rightarrow> gateway_key \<times> int" where
  "best_gateway capacity new counts [] (best, bestCount) = (best, bestCount)"
| "best_gateway capacity new counts (gw # gws) (best, bestCount) =
     (let count = counts gw
      in if count + new \<le> capacity \<and> count < bestCount then best_gateway capacity new counts gws (gw, count)
         else best_gateway capacity new counts gws (best, bestCount))"

text \<open>A read of a missing key of the counting map gives 0, so the map is a total function.\<close>

definition SelectGateway ::
  "gateway_sharding \<Rightarrow> gateway_key \<Rightarrow> int \<Rightarrow> (gateway_key \<Rightarrow> int) \<Rightarrow> gateway_key list \<Rightarrow> gerr + gateway_key \<times> bool" where
  "SelectGateway gs currentRef new counts allowed =
     (let candidates = (if length allowed > 0 then filterAllowed gs allowed else gs_gateways gs)
      in if slices_contains candidates currentRef \<and> counts currentRef + new \<le> gs_capacity gs
         then Inr (currentRef, False)
         else (case best_gateway (gs_capacity gs) new counts candidates
                      (\<lparr>gk_Namespace = [], gk_Name = []\<rparr>, gs_capacity gs + 1) of
                 (best, bestCount) \<Rightarrow>
                   (if bestCount > gs_capacity gs then Inl (Msg ''all gateways are full'')
                    else Inr (best, True))))"

section \<open>Leases and the cluster\<close>

record lease =
  le_Namespace :: string
  le_Name :: string
  le_UID :: string
  le_Labels :: "(string \<times> string) list"
  le_HolderIdentity :: "string option"
  le_AcquireTime :: "instant option"

type_synonym gobj = "(string \<times> gany) list"

text \<open>
  The client of the cluster, the clock, the accessors of apimachinery for decoded objects, the JSON
  codec and the conversion of a float outside the range of \<open>int32\<close>.
\<close>

record 'w tcp_env =
  tc_List :: "'w \<Rightarrow> (gerr + gobj list) \<times> 'w"
  tc_CreateLease :: "lease \<Rightarrow> 'w \<Rightarrow> gerr option \<times> 'w"
  tc_GetLease :: "string \<Rightarrow> string \<Rightarrow> 'w \<Rightarrow> (gerr + lease) \<times> 'w"
  tc_GetListenerSet :: "string \<Rightarrow> string \<Rightarrow> 'w \<Rightarrow> gerr option \<times> 'w"
  tc_DeleteLease :: "lease \<Rightarrow> string \<Rightarrow> 'w \<Rightarrow> gerr option \<times> 'w"
  tc_Now :: "'w \<Rightarrow> instant \<times> 'w"
  tc_NestedSlice :: "gobj \<Rightarrow> string list \<Rightarrow> gerr + gany list option"
  tc_NestedString :: "gobj \<Rightarrow> string list \<Rightarrow> gerr + string option"
  tc_NestedField :: "gobj \<Rightarrow> string list \<Rightarrow> gerr + gany option"
  tc_Unmarshal :: "string \<Rightarrow> gerr + gobj"
  tc_Marshal :: "gobj \<Rightarrow> gerr + string"
  tc_FloatToInt32 :: "int \<Rightarrow> 32 word"

section \<open>What the listener sets use\<close>

definition listXListenerSets :: "'w tcp_env \<Rightarrow> 'w \<Rightarrow> (gerr + gobj list) \<times> 'w" where
  "listXListenerSets env w =
     (case tc_List env w of
        (Inl e, w') \<Rightarrow> (Inl (Wrapped ''listing XListenerSets'' e), w')
      | (Inr items, w') \<Rightarrow> (Inr items, w'))"

definition listeners_of :: "'w tcp_env \<Rightarrow> gobj \<Rightarrow> gany list option" where
  "listeners_of env item =
     (case tc_NestedSlice env item [''spec'', ''listeners''] of Inl e \<Rightarrow> None | Inr ls \<Rightarrow> ls)"

text \<open>The inner loop of \<open>extractUsedPorts\<close>, over the listeners of one object.\<close>

fun used_by_listeners :: "'w tcp_env \<Rightarrow> gany list \<Rightarrow> 32 word set \<Rightarrow> 32 word set" where
  "used_by_listeners env [] used = used"
| "used_by_listeners env (l # ls) used =
     (case as_map l of
        None \<Rightarrow> used_by_listeners env ls used
      | Some lMap \<Rightarrow>
          (case tc_NestedField env lMap [''port''] of
             Inl e \<Rightarrow> used_by_listeners env ls used
           | Inr None \<Rightarrow> used_by_listeners env ls used
           | Inr (Some port) \<Rightarrow>
               (let p = ToInt32 (tc_FloatToInt32 env) port
                in used_by_listeners env ls (if 0 < sint p then insert p used else used))))"

fun used_by_items :: "'w tcp_env \<Rightarrow> gobj list \<Rightarrow> 32 word set \<Rightarrow> 32 word set" where
  "used_by_items env [] used = used"
| "used_by_items env (item # items) used =
     (case listeners_of env item of
        None \<Rightarrow> used_by_items env items used
      | Some ls \<Rightarrow> used_by_items env items (used_by_listeners env ls used))"

definition extractUsedPorts :: "'w tcp_env \<Rightarrow> gobj list \<Rightarrow> 32 word set" where
  "extractUsedPorts env items = used_by_items env items {}"

definition extractGatewayKey :: "'w tcp_env \<Rightarrow> gobj \<Rightarrow> gateway_key" where
  "extractGatewayKey env obj =
     (let str = (\<lambda>field. case tc_NestedString env obj [''spec'', ''parentRef'', field] of
                           Inr (Some s) \<Rightarrow> s | _ \<Rightarrow> [])
      in \<lparr>gk_Namespace = str ''namespace'', gk_Name = str ''name''\<rparr>)"

fun count_listeners :: "'w tcp_env \<Rightarrow> gobj list \<Rightarrow> (gateway_key \<Rightarrow> int) \<Rightarrow> gateway_key \<Rightarrow> int" where
  "count_listeners env [] counts = counts"
| "count_listeners env (item # items) counts =
     (let gw = extractGatewayKey env item
      in if gk_Name gw = [] then count_listeners env items counts
         else (case listeners_of env item of
                 None \<Rightarrow> count_listeners env items counts
               | Some ls \<Rightarrow> count_listeners env items (counts(gw := counts gw + int (length ls)))))"

definition extractListenerCounts :: "'w tcp_env \<Rightarrow> gobj list \<Rightarrow> gateway_key \<Rightarrow> int" where
  "extractListenerCounts env items = count_listeners env items (\<lambda>_. 0)"

section \<open>Reserving a port\<close>

text \<open>\<open>tryReclaimStaleLease\<close>: whether it has deleted the lease.\<close>

definition delete_lease :: "'w tcp_env \<Rightarrow> lease \<Rightarrow> 'w \<Rightarrow> bool \<times> 'w" where
  "delete_lease env existing w =
     (case tc_DeleteLease env existing (le_UID existing) w of (e, w') \<Rightarrow> (e = None, w'))"

definition tryReclaimStaleLease :: "'w tcp_env \<Rightarrow> string \<Rightarrow> string \<Rightarrow> 'w \<Rightarrow> bool \<times> 'w" where
  "tryReclaimStaleLease env name namespace w =
     (case tc_GetLease env namespace name w of
        (Inl e, w1) \<Rightarrow> (False, w1)
      | (Inr existing, w1) \<Rightarrow>
          (case le_HolderIdentity existing of
             None \<Rightarrow> delete_lease env existing w1
           | Some holder \<Rightarrow>
               (if holder = [] then delete_lease env existing w1
                else
                  (case cut_char CHR ''/'' holder of (holderNs, holderName, _) \<Rightarrow>
                     (case tc_GetListenerSet env holderNs holderName w1 of
                        (None, w2) \<Rightarrow> (False, w2)
                      | (Some err, w2) \<Rightarrow>
                          (if \<not> IsNotFound err then (False, w2)
                           else (case le_AcquireTime existing of
                                   None \<Rightarrow> delete_lease env existing w2
                                 | Some t \<Rightarrow>
                                     (let (now, w3) = tc_Now env w2
                                      in if time_sub now t < 30 * second then (False, w3)
                                         else delete_lease env existing w3))))))))"

definition port_lease :: "32 word \<Rightarrow> string \<Rightarrow> string \<Rightarrow> instant \<Rightarrow> lease" where
  "port_lease port namespace holder now =
     \<lparr>le_Namespace = namespace, le_Name = ''tcp-port-'' @ itoa (sint port), le_UID = [],
      le_Labels = [(''app.kubernetes.io/managed-by'', ''tcpgateway-port-allocator'')],
      le_HolderIdentity = Some holder, le_AcquireTime = Some now\<rparr>"

partial_function (option) alloc_loop ::
  "'w tcp_env \<Rightarrow> 32 word \<Rightarrow> 32 word set \<Rightarrow> string \<Rightarrow> string \<Rightarrow> instant \<Rightarrow> 32 word \<Rightarrow> 'w \<Rightarrow> ((gerr + 32 word) \<times> 'w) option" where
  "alloc_loop env portRangeEnd used namespace holder now port w =
     (if sint port \<le> sint portRangeEnd then
        (if port \<in> used then alloc_loop env portRangeEnd used namespace holder now (port + 1) w
         else
           (case tc_CreateLease env (port_lease port namespace holder now) w of
              (None, w1) \<Rightarrow> Some (Inr port, w1)
            | (Some err, w1) \<Rightarrow>
                (if IsAlreadyExists err then
                   (case tryReclaimStaleLease env (le_Name (port_lease port namespace holder now)) namespace w1 of
                      (reclaimed, w2) \<Rightarrow>
                        (if reclaimed then
                           (case tc_CreateLease env (port_lease port namespace holder now) w2 of
                              (None, w3) \<Rightarrow> Some (Inr port, w3)
                            | (Some _, w3) \<Rightarrow> alloc_loop env portRangeEnd used namespace holder now (port + 1) w3)
                         else alloc_loop env portRangeEnd used namespace holder now (port + 1) w2))
                 else Some (Inl (Wrapped ''reserving port'' err), w1))))
      else Some (Inl (Msg ''port range exhausted: all ports are in use''), w))"

definition AllocatePort ::
  "'w tcp_env \<Rightarrow> 32 word \<Rightarrow> 32 word \<Rightarrow> 32 word set \<Rightarrow> string \<Rightarrow> string \<Rightarrow> 'w \<Rightarrow> ((gerr + 32 word) \<times> 'w) option" where
  "AllocatePort env portRangeStart portRangeEnd used namespace holder w =
     (let (now, w1) = tc_Now env w
      in alloc_loop env portRangeEnd used namespace holder now portRangeStart w1)"

section \<open>The admission handler\<close>

datatype admission_response = Allowed | Denied string | Errored int gerr | Patched string string

datatype admission_operation = CreateOp | OtherOp

record xlistenerset_handler =
  xh_portRangeStart :: "32 word"
  xh_portRangeEnd :: "32 word"
  xh_sharding :: "gateway_sharding option"
  xh_leaseNS :: string

text \<open>The handler that \<open>SetupXListenerSetWebhookWithManager\<close> registers.\<close>

definition setup_handler :: "32 word \<Rightarrow> 32 word \<Rightarrow> int \<Rightarrow> string \<Rightarrow> string list \<Rightarrow> xlistenerset_handler" where
  "setup_handler portRangeStart portRangeEnd gatewayCapacity gatewayNS gatewayNames =
     \<lparr>xh_portRangeStart = portRangeStart, xh_portRangeEnd = portRangeEnd,
      xh_sharding =
        (if gatewayCapacity > 0 \<and> length gatewayNames > 0
         then Some \<lparr>gs_gateways = map (\<lambda>n. \<lparr>gk_Namespace = gatewayNS, gk_Name = n\<rparr>) gatewayNames,
                    gs_capacity = gatewayCapacity\<rparr>
         else None),
      xh_leaseNS = gatewayNS\<rparr>"

definition TCPGatewayAllowedAnnotation :: string where
  "TCPGatewayAllowedAnnotation = ''appcat.vshn.io/allowed-gateways''"

definition TCPGatewayAllocatedPortAnnotation :: string where
  "TCPGatewayAllocatedPortAnnotation = ''appcat.vshn.io/allocated-port''"

text \<open>A failed assertion leaves the zero value: a nil map, an empty string, a nil slice.\<close>

abbreviation map_field :: "gobj \<Rightarrow> string \<Rightarrow> gobj" where
  "map_field m k \<equiv> or_zero [] (as_map (any_get m k))"

abbreviation string_field :: "gobj \<Rightarrow> string \<Rightarrow> string" where
  "string_field m k \<equiv> or_zero [] (as_string (any_get m k))"

abbreviation list_field :: "gobj \<Rightarrow> string \<Rightarrow> gany list" where
  "list_field m k \<equiv> or_zero [] (as_list (any_get m k))"

definition parseAllowedGateways :: "gobj \<Rightarrow> string \<Rightarrow> gateway_key list" where
  "parseAllowedGateways metadata gatewayNS =
     (let raw = string_field (map_field metadata ''annotations'') TCPGatewayAllowedAnnotation
      in if raw = [] then []
         else map (\<lambda>n. \<lparr>gk_Namespace = gatewayNS, gk_Name = n\<rparr>)
                (filter (\<lambda>n. n \<noteq> []) (map trim_space (split_char CHR '','' raw))))"

text \<open>
  The sharding block of \<open>Handle\<close>: a response that ends the request, or the specification and whether
  it was changed.
\<close>

definition shard ::
  "'w tcp_env \<Rightarrow> gateway_sharding \<Rightarrow> gobj list \<Rightarrow> gobj \<Rightarrow> gobj \<Rightarrow> admission_response + gobj \<times> bool" where
  "shard env gs items metadata spec =
     (let listenerCounts = extractListenerCounts env items;
          parentRef = map_field spec ''parentRef'';
          parentNs = string_field parentRef ''namespace'';
          parentName = string_field parentRef ''name''
      in if parentName = []
         then Inl (Denied ''spec.parentRef.name is required when gateway sharding is enabled'')
         else (case SelectGateway gs \<lparr>gk_Namespace = parentNs, gk_Name = parentName\<rparr>
                      (int (length (list_field spec ''listeners''))) listenerCounts
                      (parseAllowedGateways metadata parentNs) of
                 Inl e \<Rightarrow> Inl (Denied ''cannot place XListenerSet'')
               | Inr (selected, changed) \<Rightarrow>
                   (if changed
                    then Inr (any_put ''parentRef''
                                (GMap (any_put ''namespace'' (GStr (gk_Namespace selected))
                                        (any_put ''name'' (GStr (gk_Name selected)) parentRef))) spec, True)
                    else Inr (spec, False))))"

text \<open>
  The loop over the listeners, carrying the metadata of the object and whether something was changed.
  The code writes through references to the maps of the object; here \<open>Handle\<close> puts the metadata back.
  A nil map and an empty one behave alike.
\<close>

definition annotate_port :: "gobj \<Rightarrow> 32 word \<Rightarrow> gobj" where
  "annotate_port metadata port =
     any_put ''annotations''
       (GMap (any_put TCPGatewayAllocatedPortAnnotation (GStr (itoa (sint port)))
                (map_field metadata ''annotations''))) metadata"

fun assign_ports ::
  "'w tcp_env \<Rightarrow> xlistenerset_handler \<Rightarrow> 32 word set \<Rightarrow> string \<Rightarrow> gany list \<Rightarrow> gobj \<Rightarrow> bool \<Rightarrow> 'w
     \<Rightarrow> ((gerr + gobj \<times> bool) \<times> 'w) option" where
  "assign_ports env h used holder [] metadata modified w = Some (Inr (metadata, modified), w)"
| "assign_ports env h used holder (l # ls) metadata modified w =
     (case as_map l of
        None \<Rightarrow> assign_ports env h used holder ls metadata modified w
      | Some listenerMap \<Rightarrow>
          (if ToInt32 (tc_FloatToInt32 env) (any_get listenerMap ''port'') = 0 then
             (case AllocatePort env (xh_portRangeStart h) (xh_portRangeEnd h) used (xh_leaseNS h) holder w of
                None \<Rightarrow> None
              | Some (Inl err, w1) \<Rightarrow> Some (Inl (Wrapped ''allocating port for listener'' err), w1)
              | Some (Inr newPort, w1) \<Rightarrow>
                  assign_ports env h used holder ls (annotate_port metadata newPort) True w1)
           else assign_ports env h used holder ls metadata modified w))"

definition Handle ::
  "'w tcp_env \<Rightarrow> xlistenerset_handler \<Rightarrow> admission_operation \<Rightarrow> string \<Rightarrow> 'w \<Rightarrow> (admission_response \<times> 'w) option" where
  "Handle env h operation raw w =
     (if operation \<noteq> CreateOp then Some (Allowed, w)
      else (case tc_Unmarshal env raw of
        Inl e \<Rightarrow> Some (Errored 400 (Wrapped ''unmarshaling XListenerSet'' e), w)
      | Inr obj \<Rightarrow>
     (let metadata = map_field obj ''metadata'';
          name = string_field metadata ''name'';
          namespace = string_field metadata ''namespace''
      in case as_map (any_get obj ''spec'') of
        None \<Rightarrow> Some (Errored 400 (Msg ''missing or invalid spec''), w)
      | Some spec \<Rightarrow>
     (case listXListenerSets env w of
        (Inl e, w1) \<Rightarrow> Some (Errored 500 (Wrapped ''listing XListenerSets'' e), w1)
      | (Inr items, w1) \<Rightarrow>
     (case (case xh_sharding h of None \<Rightarrow> Inr (spec, False) | Some gs \<Rightarrow> shard env gs items metadata spec) of
        Inl response \<Rightarrow> Some (response, w1)
      | Inr (spec1, modified) \<Rightarrow>
     (case assign_ports env h (extractUsedPorts env items) (namespace @ ''/'' @ name)
             (list_field spec1 ''listeners'') metadata modified w1 of
        None \<Rightarrow> None
      | Some (Inl err, w2) \<Rightarrow> Some (Errored 500 err, w2)
      | Some (Inr (metadata1, modified1), w2) \<Rightarrow>
          (if \<not> modified1 then Some (Allowed, w2)
           else
             (let obj1 = any_put ''spec'' (GMap spec1) obj;
                  obj2 = (if metadata1 = metadata then obj1 else any_put ''metadata'' (GMap metadata1) obj1)
              in case tc_Marshal env obj2 of
                   Inl e \<Rightarrow> Some (Errored 500 (Wrapped ''marshaling patched XListenerSet'' e), w2)
                 | Inr patched \<Rightarrow> Some (Patched raw patched, w2)))))))))"

section \<open>Properties\<close>

text \<open>The gateways a listener set may be placed on.\<close>

definition candidates :: "gateway_sharding \<Rightarrow> gateway_key list \<Rightarrow> gateway_key set" where
  "candidates gs allowed = (if allowed = [] then set (gs_gateways gs) else set (gs_gateways gs) \<inter> set allowed)"

lemma best_gateway_inv:
  assumes "best_gateway cap new counts gws (b0, c0) = (b, c)"
    and "0 \<le> new" and "c0 \<le> cap \<longrightarrow> b0 \<in> S \<and> counts b0 = c0 \<and> c0 + new \<le> cap" and "set gws \<subseteq> S"
  shows "(c \<le> cap \<longrightarrow> b \<in> S \<and> counts b = c \<and> c + new \<le> cap) \<and>
    (\<forall>g \<in> set gws. counts g + new \<le> cap \<longrightarrow> c \<le> counts g) \<and> c \<le> c0"
  using assms
proof (induction gws arbitrary: b0 c0)
  case (Cons g gws)
  show ?case
  proof (cases "counts g + new \<le> cap \<and> counts g < c0")
    case True
    with Cons.prems have "best_gateway cap new counts gws (g, counts g) = (b, c)" by simp
    from Cons.IH [OF this] Cons.prems True show ?thesis by auto
  next
    case False
    with Cons.prems have "best_gateway cap new counts gws (b0, c0) = (b, c)" by (auto split: if_splits)
    from Cons.IH [OF this] Cons.prems False show ?thesis by auto
  qed
qed simp

text \<open>
  C11. \<open>SelectGateway\<close> keeps the current gateway when it is a candidate with room; otherwise it takes a
  candidate with room and the fewest listeners; it fails exactly when no candidate has room.
\<close>

theorem SelectGateway_spec:
  assumes "0 \<le> new"
  shows "(case SelectGateway gs currentRef new counts allowed of
      Inl e \<Rightarrow> \<forall>g \<in> candidates gs allowed. gs_capacity gs < counts g + new
    | Inr (g, changed) \<Rightarrow>
        g \<in> candidates gs allowed \<and> counts g + new \<le> gs_capacity gs \<and>
        (if changed then (\<forall>g' \<in> candidates gs allowed. counts g' + new \<le> gs_capacity gs \<longrightarrow> counts g \<le> counts g')
         else g = currentRef) \<and>
        (currentRef \<in> candidates gs allowed \<and> counts currentRef + new \<le> gs_capacity gs \<longrightarrow> \<not> changed))"
proof -
  let ?cs = "if length allowed > 0 then filterAllowed gs allowed else gs_gateways gs"
  let ?none = "\<lparr>gk_Namespace = [], gk_Name = []\<rparr>"
  have cs: "set ?cs = candidates gs allowed"
    by (auto simp: candidates_def filterAllowed_def)
  obtain b c where bc: "best_gateway (gs_capacity gs) new counts ?cs (?none, gs_capacity gs + 1) = (b, c)"
    by fastforce
  have inv: "(c \<le> gs_capacity gs \<longrightarrow> b \<in> candidates gs allowed \<and> counts b = c \<and> c + new \<le> gs_capacity gs) \<and>
    (\<forall>g \<in> candidates gs allowed. counts g + new \<le> gs_capacity gs \<longrightarrow> c \<le> counts g)"
    using best_gateway_inv [OF bc assms, of "candidates gs allowed"] unfolding cs by simp
  have mem: "slices_contains ?cs currentRef \<longleftrightarrow> currentRef \<in> candidates gs allowed"
    using cs by simp
  have sel: "SelectGateway gs currentRef new counts allowed =
     (if currentRef \<in> candidates gs allowed \<and> counts currentRef + new \<le> gs_capacity gs then Inr (currentRef, False)
      else if c > gs_capacity gs then Inl (Msg ''all gateways are full'') else Inr (b, True))"
    unfolding SelectGateway_def Let_def mem bc by simp
  show ?thesis
    unfolding sel using inv assms by auto
qed

section \<open>Leases: laws and safety\<close>

text \<open>
  What the API server promises: creation fails when the object exists, a deletion with a UID as its
  precondition only deletes that object, reads do not write. \<open>leases w\<close> are the Lease objects in the
  world \<open>w\<close> by namespace and name, \<open>sets w\<close> tells which listener sets exist.
\<close>

definition lease_laws :: "'w tcp_env \<Rightarrow> ('w \<Rightarrow> string \<times> string \<Rightarrow> lease option) \<Rightarrow> ('w \<Rightarrow> string \<times> string \<Rightarrow> bool) \<Rightarrow> bool" where
  "lease_laws env leases sets \<longleftrightarrow>
     (\<forall>l w w'. tc_CreateLease env l w = (None, w') \<longrightarrow>
        leases w (le_Namespace l, le_Name l) = None \<and>
        (\<exists>uid. leases w' = (leases w)((le_Namespace l, le_Name l) \<mapsto> l\<lparr>le_UID := uid\<rparr>)) \<and> sets w' = sets w) \<and>
     (\<forall>l w e w'. tc_CreateLease env l w = (Some e, w') \<longrightarrow> leases w' = leases w \<and> sets w' = sets w) \<and>
     (\<forall>ns n w r w'. tc_GetLease env ns n w = (r, w') \<longrightarrow> leases w' = leases w \<and> sets w' = sets w \<and>
        (\<forall>l. r = Inr l \<longrightarrow> leases w (ns, n) = Some l \<and> le_Namespace l = ns \<and> le_Name l = n)) \<and>
     (\<forall>ns n w e w'. tc_GetListenerSet env ns n w = (e, w') \<longrightarrow> leases w' = leases w \<and> sets w' = sets w \<and>
        (sets w (ns, n) \<longrightarrow> (\<forall>err. e = Some err \<longrightarrow> \<not> IsNotFound err))) \<and>
     (\<forall>l uid w w'. tc_DeleteLease env l uid w = (None, w') \<longrightarrow>
        (\<exists>l'. leases w (le_Namespace l, le_Name l) = Some l' \<and> le_UID l' = uid) \<and>
        leases w' = (leases w)((le_Namespace l, le_Name l) := None) \<and> sets w' = sets w) \<and>
     (\<forall>l uid w e w'. tc_DeleteLease env l uid w = (Some e, w') \<longrightarrow> leases w' = leases w \<and> sets w' = sets w) \<and>
     (\<forall>w t w'. tc_Now env w = (t, w') \<longrightarrow> leases w' = leases w \<and> sets w' = sets w)"

lemma lease_lawsD:
  assumes "lease_laws env leases sets"
  shows "tc_CreateLease env l w = (None, w') \<Longrightarrow>
        leases w (le_Namespace l, le_Name l) = None \<and>
        (\<exists>uid. leases w' = (leases w)((le_Namespace l, le_Name l) \<mapsto> l\<lparr>le_UID := uid\<rparr>)) \<and> sets w' = sets w"
    and "tc_CreateLease env l w = (Some e, w') \<Longrightarrow> leases w' = leases w \<and> sets w' = sets w"
    and "tc_GetLease env ns n w = (r, w') \<Longrightarrow> leases w' = leases w \<and> sets w' = sets w \<and>
        (\<forall>l. r = Inr l \<longrightarrow> leases w (ns, n) = Some l \<and> le_Namespace l = ns \<and> le_Name l = n)"
    and "tc_GetListenerSet env ns n w = (e', w') \<Longrightarrow> leases w' = leases w \<and> sets w' = sets w \<and>
        (sets w (ns, n) \<longrightarrow> (\<forall>err. e' = Some err \<longrightarrow> \<not> IsNotFound err))"
    and "tc_DeleteLease env l uid w = (None, w') \<Longrightarrow>
        (\<exists>l'. leases w (le_Namespace l, le_Name l) = Some l' \<and> le_UID l' = uid) \<and>
        leases w' = (leases w)((le_Namespace l, le_Name l) := None) \<and> sets w' = sets w"
    and "tc_DeleteLease env l uid w = (Some e, w') \<Longrightarrow> leases w' = leases w \<and> sets w' = sets w"
    and "tc_Now env w = (t, w') \<Longrightarrow> leases w' = leases w \<and> sets w' = sets w"
  using assms unfolding lease_laws_def by (elim conjE; simp; fail)+

text \<open>A lease that nobody may take: its holder exists, or took it less than half a minute ago.\<close>

definition held :: "'w tcp_env \<Rightarrow> (string \<times> string \<Rightarrow> bool) \<Rightarrow> lease \<Rightarrow> bool" where
  "held env sets l \<longleftrightarrow>
     (\<exists>h ns n f. le_HolderIdentity l = Some h \<and> h \<noteq> [] \<and> cut_char CHR ''/'' h = (ns, n, f) \<and>
        (sets (ns, n) \<or> (\<exists>t. le_AcquireTime l = Some t \<and> (\<forall>v. time_sub (fst (tc_Now env v)) t < 30 * second))))"

definition keeps_held :: "'w tcp_env \<Rightarrow> ('w \<Rightarrow> string \<times> string \<Rightarrow> lease option) \<Rightarrow> ('w \<Rightarrow> string \<times> string \<Rightarrow> bool) \<Rightarrow> 'w \<Rightarrow> 'w \<Rightarrow> bool" where
  "keeps_held env leases sets w w' \<longleftrightarrow> sets w' = sets w \<and>
     (\<forall>k l. leases w k = Some l \<longrightarrow> held env (sets w) l \<longrightarrow> leases w' k = Some l)"

lemma keeps_held_trans: "keeps_held env leases sets w w1 \<Longrightarrow> keeps_held env leases sets w1 w2 \<Longrightarrow> keeps_held env leases sets w w2"
  by (auto simp: keeps_held_def)

lemma keeps_held_same: "leases w' = leases w \<Longrightarrow> sets w' = sets w \<Longrightarrow> keeps_held env leases sets w w'"
  by (simp add: keeps_held_def)

lemma delete_lease_keeps:
  assumes "lease_laws env leases sets" and "delete_lease env l w = (b, w')"
    and "leases w (le_Namespace l, le_Name l) = Some l" and "\<not> held env (sets w) l"
  shows "keeps_held env leases sets w w'"
proof -
  obtain e where d: "tc_DeleteLease env l (le_UID l) w = (e, w')"
    using assms(2) by (auto simp: delete_lease_def split: prod.splits)
  show ?thesis
  proof (cases e)
    case None
    then have "leases w' = (leases w)((le_Namespace l, le_Name l) := None)" "sets w' = sets w"
      using lease_lawsD(5) [OF assms(1)] d by auto
    then show ?thesis using assms(3,4) by (auto simp: keeps_held_def)
  next
    case (Some err)
    then show ?thesis using lease_lawsD(6) [OF assms(1)] d by (intro keeps_held_same) auto
  qed
qed

lemma create_keeps:
  assumes "lease_laws env leases sets" and "tc_CreateLease env l w = (r, w')"
  shows "keeps_held env leases sets w w'"
proof (cases r)
  case None
  then show ?thesis using lease_lawsD(1) [OF assms(1), of l w w'] assms(2) by (auto simp: keeps_held_def)
next
  case (Some e)
  then show ?thesis using lease_lawsD(2) [OF assms(1), of l w e w'] assms(2) by (auto simp: keeps_held_def)
qed

lemma reclaim_keeps:
  assumes laws: "lease_laws env leases sets" and r: "tryReclaimStaleLease env n ns w = (b, w')"
  shows "keeps_held env leases sets w w'"
proof -
  obtain r1 w1 where g: "tc_GetLease env ns n w = (r1, w1)" by fastforce
  note gl = lease_lawsD(3) [OF laws g]
  have k1: "keeps_held env leases sets w w1" using gl by (simp add: keeps_held_same)
  show ?thesis
  proof (cases r1)
    case (Inl e)
    then show ?thesis using r g k1 by (simp add: tryReclaimStaleLease_def)
  next
    case (Inr l)
    have l: "leases w1 (le_Namespace l, le_Name l) = Some l" using gl Inr by auto
    show ?thesis
    proof (cases "le_HolderIdentity l = None \<or> le_HolderIdentity l = Some []")
      case True
      then have "delete_lease env l w1 = (b, w')" "\<not> held env (sets w1) l"
        using r g Inr by (auto simp: tryReclaimStaleLease_def held_def)
      then have "keeps_held env leases sets w1 w'" by (rule delete_lease_keeps [OF laws _ l])
      with k1 show ?thesis by (rule keeps_held_trans)
    next
      case False
      then obtain h where h: "le_HolderIdentity l = Some h" "h \<noteq> []" by auto
      obtain hns hn f where c: "cut_char CHR ''/'' h = (hns, hn, f)" by (metis prod_cases3)
      obtain e w2 where s: "tc_GetListenerSet env hns hn w1 = (e, w2)" by fastforce
      note sl = lease_lawsD(4) [OF laws s]
      have k2: "keeps_held env leases sets w1 w2" using sl by (simp add: keeps_held_same)
      have l2: "leases w2 (le_Namespace l, le_Name l) = Some l" using l sl by simp
      show ?thesis
      proof (cases "\<exists>err. e = Some err \<and> IsNotFound err")
        case False
        then have "w' = w2" using r g Inr h c s by (auto simp: tryReclaimStaleLease_def split: option.splits)
        then show ?thesis using keeps_held_trans [OF k1 k2] by simp
      next
        case True
        then obtain err where err: "e = Some err" "IsNotFound err" by blast
        have ns: "\<not> sets w2 (hns, hn)" using sl err by auto
        obtain now w3 where n: "tc_Now env w2 = (now, w3)" by fastforce
        note nl = lease_lawsD(7) [OF laws n]
        have k3: "keeps_held env leases sets w2 w3" using nl by (simp add: keeps_held_same)
        have l3: "leases w3 (le_Namespace l, le_Name l) = Some l" using l2 nl by simp
        show ?thesis
        proof (cases "le_AcquireTime l")
          case None
          then have "delete_lease env l w2 = (b, w')" "\<not> held env (sets w2) l"
            using r g Inr h c s err ns by (auto simp: tryReclaimStaleLease_def held_def)
          then have "keeps_held env leases sets w2 w'" by (rule delete_lease_keeps [OF laws _ l2])
          with keeps_held_trans [OF k1 k2] show ?thesis by (rule keeps_held_trans)
        next
          case (Some t)
          show ?thesis
          proof (cases "time_sub now t < 30 * second")
            case True
            then have "w' = w3" using r g Inr h c s err n Some by (simp add: tryReclaimStaleLease_def)
            then show ?thesis using keeps_held_trans [OF keeps_held_trans [OF k1 k2] k3] by simp
          next
            case False
            then have d: "delete_lease env l w3 = (b, w')"
              using r g Inr h c s err n Some by (simp add: tryReclaimStaleLease_def)
            have "\<not> (\<forall>v. time_sub (fst (tc_Now env v)) t < 30 * second)"
              using False n by (metis fst_conv)
            then have "\<not> held env (sets w3) l" using h c ns nl Some by (auto simp: held_def)
            from keeps_held_trans [OF keeps_held_trans [OF k1 k2] k3] delete_lease_keeps [OF laws d l3 this]
            show ?thesis by (rule keeps_held_trans)
          qed
        qed
      qed
    qed
  qed
qed


lemma sint_succ: "sint (p :: 32 word) < 2 ^ 31 - 1 \<Longrightarrow> sint (p + 1) = sint p + 1"
proof -
  assume a: "sint p < 2 ^ 31 - 1"
  have p: "p + 1 = word_of_int (sint p + 1)" by simp
  have "- (2 ^ 31) \<le> sint p" using sint_ge [of p] by simp
  with a show ?thesis unfolding p by (intro sint32_exact) simp_all
qed

definition alloc_safe ::
  "('w \<Rightarrow> string \<times> string \<Rightarrow> lease option) \<Rightarrow> ('w \<Rightarrow> string \<times> string \<Rightarrow> bool) \<Rightarrow> 'w tcp_env \<Rightarrow> 32 word \<Rightarrow> 32 word set
     \<Rightarrow> string \<Rightarrow> string \<Rightarrow> instant \<Rightarrow> 32 word \<Rightarrow> 'w \<Rightarrow> (gerr + 32 word) \<times> 'w \<Rightarrow> bool" where
  "alloc_safe leases sets env e used ns holder now port w y \<longleftrightarrow>
     keeps_held env leases sets w (snd y) \<and>
     (\<forall>p. fst y = Inr p \<longrightarrow> p \<notin> used \<and> sint p \<le> sint e \<and>
        (sint e < 2 ^ 31 - 1 \<longrightarrow> sint port \<le> sint p) \<and>
        (\<exists>uid. leases (snd y) (ns, le_Name (port_lease p ns holder now))
           = Some ((port_lease p ns holder now)\<lparr>le_UID := uid\<rparr>)))"

lemma alloc_loop_safe:
  assumes "alloc_loop env e used ns holder now port w = Some y"
  shows "lease_laws env leases sets \<longrightarrow> alloc_safe leases sets env e used ns holder now port w y"
proof (rule alloc_loop.raw_induct [OF _ assms, where P = "\<lambda>env e used ns holder now port w y.
    lease_laws env leases sets \<longrightarrow> alloc_safe leases sets env e used ns holder now port w y"])
  fix loop env e used ns holder now port w y
  assume IH: "\<And>env e used ns holder now port w y. loop env e used ns holder now port w = Some y \<Longrightarrow>
      lease_laws env leases sets \<longrightarrow> alloc_safe leases sets env e used ns holder now port w y"
    and body: "(if sint port \<le> sint e then
        (if port \<in> used then loop env e used ns holder now (port + 1) w
         else
           (case tc_CreateLease env (port_lease port ns holder now) w of
              (None, w1) \<Rightarrow> Some (Inr port, w1)
            | (Some err, w1) \<Rightarrow>
                (if IsAlreadyExists err then
                   (case tryReclaimStaleLease env (le_Name (port_lease port ns holder now)) ns w1 of
                      (reclaimed, w2) \<Rightarrow>
                        (if reclaimed then
                           (case tc_CreateLease env (port_lease port ns holder now) w2 of
                              (None, w3) \<Rightarrow> Some (Inr port, w3)
                            | (Some _, w3) \<Rightarrow> loop env e used ns holder now (port + 1) w3)
                         else loop env e used ns holder now (port + 1) w2))
                 else Some (Inl (Wrapped ''reserving port'' err), w1))))
      else Some (Inl (Msg ''port range exhausted: all ports are in use''), w)) = Some y"
  let ?lease = "port_lease port ns holder now"
  show "lease_laws env leases sets \<longrightarrow> alloc_safe leases sets env e used ns holder now port w y"
  proof
    assume laws: "lease_laws env leases sets"
    have again: "alloc_safe leases sets env e used ns holder now port w y"
      if "loop env e used ns holder now (port + 1) w2 = Some y"
        and "sint port \<le> sint e" and k: "keeps_held env leases sets w w2" for w2
      using IH [OF that(1)] laws that(2) keeps_held_trans [OF k] sint_succ [of port]
      by (auto simp: alloc_safe_def)
    have got: "alloc_safe leases sets env e used ns holder now port w y"
      if "tc_CreateLease env ?lease w2 = (None, w3)" and "y = (Inr port, w3)" and "port \<notin> used"
        and "sint port \<le> sint e" and "keeps_held env leases sets w w2" for w2 w3
      using that lease_lawsD(1) [OF laws that(1)] keeps_held_trans [OF that(5) create_keeps [OF laws that(1)]]
      by (auto simp: alloc_safe_def port_lease_def)
    show "alloc_safe leases sets env e used ns holder now port w y"
    proof (cases "sint port \<le> sint e \<and> port \<notin> used")
      case False
      then show ?thesis using body again [of w] by (auto simp: alloc_safe_def keeps_held_def split: if_splits)
    next
      case True
      obtain r1 w1 where c1: "tc_CreateLease env ?lease w = (r1, w1)" by fastforce
      note k1 = create_keeps [OF laws c1]
      show ?thesis
      proof (cases r1)
        case None
        then show ?thesis using body True c1 got [of w w1] by (simp add: keeps_held_def)
      next
        case (Some err)
        obtain b w2 where rc: "tryReclaimStaleLease env (le_Name ?lease) ns w1 = (b, w2)" by fastforce
        note k2 = keeps_held_trans [OF k1 reclaim_keeps [OF laws rc]]
        obtain r3 w3 where c3: "tc_CreateLease env ?lease w2 = (r3, w3)" by fastforce
        note k3 = keeps_held_trans [OF k2 create_keeps [OF laws c3]]
        show ?thesis
          using body True c1 Some rc c3 again [of w2] again [of w3] k1 k2 k3 got [of w2 w3]
          by (cases r3) (auto simp: alloc_safe_def split: if_splits)
      qed
    qed
  qed
qed

text \<open>
  C10. A port that \<open>AllocatePort\<close> returns lies in the range, is used by no listener set, and its lease
  is in the cluster with this holder. (The range must end below the largest \<open>int32\<close>, where \<open>port++\<close>
  wraps around to negative ports.)
\<close>

theorem AllocatePort_reserves:
  assumes "lease_laws env leases sets"
    and "AllocatePort env portRangeStart portRangeEnd used namespace holder w = Some (Inr port, w')"
    and "sint portRangeEnd < 2 ^ 31 - 1"
  shows "sint portRangeStart \<le> sint port \<and> sint port \<le> sint portRangeEnd \<and> port \<notin> used \<and>
    (\<exists>l. leases w' (namespace, ''tcp-port-'' @ itoa (sint port)) = Some l \<and> le_HolderIdentity l = Some holder)"
  using assms alloc_loop_safe [of env portRangeEnd used namespace holder _ portRangeStart _ "(Inr port, w')" leases sets]
  by (fastforce simp: AllocatePort_def alloc_safe_def port_lease_def split: prod.splits)

text \<open>
  Whatever \<open>AllocatePort\<close> tries and however it ends, it deletes no lease whose holder exists or
  took it less than half a minute ago.
\<close>

theorem AllocatePort_keeps_leases:
  assumes "lease_laws env leases sets"
    and "AllocatePort env portRangeStart portRangeEnd used namespace holder w = Some (r, w')"
    and "leases w k = Some l" and "held env (sets w) l"
  shows "leases w' k = Some l"
proof -
  obtain now w1 where now: "tc_Now env w = (now, w1)" by fastforce
  have "keeps_held env leases sets w w1" using lease_lawsD(7) [OF assms(1) now] by (simp add: keeps_held_same)
  moreover have "keeps_held env leases sets w1 w'"
    using assms(1,2) now alloc_loop_safe [of env portRangeEnd used namespace holder now portRangeStart w1 "(r, w')" leases sets]
    by (auto simp: AllocatePort_def alloc_safe_def)
  ultimately show ?thesis using assms(3,4) unfolding keeps_held_def by metis
qed

lemma alloc_loop_terminates:
  assumes "sint e < 2 ^ 31 - 1"
  shows "alloc_loop env e used ns holder now port w \<noteq> None"
proof (induction "nat (sint e - sint port + 1)" arbitrary: port w rule: less_induct)
  case less
  have IH: "alloc_loop env e used ns holder now (port + 1) w2 \<noteq> None" if "sint port \<le> sint e" for w2
    using that assms sint_succ [of port] by (intro less) auto
  show ?case
    by (subst alloc_loop.simps) (use IH in \<open>auto split: prod.splits option.splits simp del: not_None_eq\<close>)
qed

text \<open>
  The search for a port ends, with a port or an error, when the range ends below the largest
  \<open>int32\<close>.
\<close>

theorem AllocatePort_terminates:
  assumes "sint portRangeEnd < 2 ^ 31 - 1"
  shows "\<exists>r w'. AllocatePort env portRangeStart portRangeEnd used namespace holder w = Some (r, w')"
  using alloc_loop_terminates [OF assms] by (fastforce simp: AllocatePort_def split: prod.splits)

text \<open>
  When sharding admits a listener set, the gateway its specification names afterwards is one of
  the candidates and has room for all its listeners, and no other field of the specification changes.
\<close>

theorem shard_respects_capacity:
  assumes "shard env gs items metadata spec = Inr (spec', changed)"
  shows "(let ref = map_field spec' ''parentRef'';
              gw = \<lparr>gk_Namespace = string_field ref ''namespace'', gk_Name = string_field ref ''name''\<rparr>;
              allowed = parseAllowedGateways metadata (string_field (map_field spec ''parentRef'') ''namespace'')
          in gw \<in> candidates gs allowed \<and>
             extractListenerCounts env items gw + int (length (list_field spec' ''listeners'')) \<le> gs_capacity gs) \<and>
    (\<forall>k. k \<noteq> ''parentRef'' \<longrightarrow> any_get spec' k = any_get spec k) \<and> (\<not> changed \<longrightarrow> spec' = spec)"
proof -
  let ?ref = "map_field spec ''parentRef''"
  let ?cur = "\<lparr>gk_Namespace = string_field ?ref ''namespace'', gk_Name = string_field ?ref ''name''\<rparr>"
  let ?new = "int (length (list_field spec ''listeners''))"
  let ?allowed = "parseAllowedGateways metadata (string_field ?ref ''namespace'')"
  obtain g where sel: "SelectGateway gs ?cur ?new (extractListenerCounts env items) ?allowed = Inr (g, changed)"
    and spec': "spec' = (if changed then any_put ''parentRef''
       (GMap (any_put ''namespace'' (GStr (gk_Namespace g)) (any_put ''name'' (GStr (gk_Name g)) ?ref))) spec else spec)"
    using assms by (auto simp: shard_def Let_def split: if_splits sum.splits prod.splits)
  have "0 \<le> ?new" by simp
  note spec = SelectGateway_spec [OF this, where gs = gs and currentRef = ?cur
      and counts = "extractListenerCounts env items" and allowed = ?allowed, unfolded sel, simplified]
  show ?thesis
    using spec by (cases changed; cases g) (auto simp: spec' Let_def)
qed

definition example_tcp :: "(string \<times> string \<Rightarrow> lease option) tcp_env" where
  "example_tcp = \<lparr>
     tc_List = (\<lambda>w. (Inr [], w)),
     tc_CreateLease = (\<lambda>l w. if w (le_Namespace l, le_Name l) = None
        then (None, w((le_Namespace l, le_Name l) \<mapsto> l\<lparr>le_UID := ''uid''\<rparr>)) else (Some (ApiErr AlreadyExists), w)),
     tc_GetLease = (\<lambda>ns n w. case w (ns, n) of
          None \<Rightarrow> (Inl (ApiErr NotFound), w)
        | Some l \<Rightarrow> (if le_Namespace l = ns \<and> le_Name l = n then Inr l else Inl (ApiErr NotFound), w)),
     tc_GetListenerSet = (\<lambda>ns n w. (None, w)),
     tc_DeleteLease = (\<lambda>l uid w. case w (le_Namespace l, le_Name l) of
          None \<Rightarrow> (Some (ApiErr NotFound), w)
        | Some l' \<Rightarrow> if le_UID l' = uid then (None, w((le_Namespace l, le_Name l) := None)) else (Some (ApiErr Conflict), w)),
     tc_Now = (\<lambda>w. (0, w)),
     tc_NestedSlice = nested_as as_list,
     tc_NestedString = nested_as as_string,
     tc_NestedField = nested_field,
     tc_Unmarshal = (\<lambda>s. Inr []),
     tc_Marshal = (\<lambda>m. Inr []),
     tc_FloatToInt32 = (\<lambda>p. 0)\<rparr>"

lemma example_lease_laws: "lease_laws example_tcp (\<lambda>w. w) (\<lambda>w k. True)"
  unfolding lease_laws_def example_tcp_def by (auto split: option.splits if_splits)


lemma itoa_examples: "itoa 10001 = ''10001''" "itoa 10002 = ''10002''"
  by (simp_all add: itoa_def nat_to_string.simps digit_char_def char_of_def bit_simps)

definition example_leases :: "string \<times> string \<Rightarrow> lease option" where
  "example_leases = [(''gw'', ''tcp-port-10001'') \<mapsto> port_lease 10001 ''gw'' ''ns/b'' 0]"

lemma example_alloc:
  "AllocatePort example_tcp 10000 10002 {10000} ''gw'' ''ns/a'' example_leases
   = Some (Inr 10002, example_leases((''gw'', ''tcp-port-10002'') \<mapsto> (port_lease 10002 ''gw'' ''ns/a'' 0)\<lparr>le_UID := ''uid''\<rparr>))"
proof -
  have c1: "tc_CreateLease example_tcp (port_lease 10001 ''gw'' ''ns/a'' 0) example_leases = (Some (ApiErr AlreadyExists), example_leases)"
    by (simp add: example_tcp_def port_lease_def itoa_examples example_leases_def)
  have c2: "tryReclaimStaleLease example_tcp (le_Name (port_lease 10001 ''gw'' ''ns/a'' 0)) ''gw'' example_leases = (False, example_leases)"
    by (simp add: example_tcp_def port_lease_def itoa_examples example_leases_def tryReclaimStaleLease_def)
  have c3: "tc_CreateLease example_tcp (port_lease 10002 ''gw'' ''ns/a'' 0) example_leases =
     (None, example_leases((''gw'', ''tcp-port-10002'') \<mapsto> (port_lease 10002 ''gw'' ''ns/a'' 0)\<lparr>le_UID := ''uid''\<rparr>))"
    by (simp add: example_tcp_def port_lease_def itoa_examples example_leases_def)
  have n: "tc_Now example_tcp example_leases = (0, example_leases)" by (simp add: example_tcp_def)
  show ?thesis
    unfolding AllocatePort_def n Let_def prod.case
    apply (subst alloc_loop.simps, simp)
    apply (subst alloc_loop.simps, simp add: c1 c2)
    apply (subst alloc_loop.simps, simp add: c3)
    done
qed

theorem AllocatePort_reserves_witness:
  "sint (10000 :: 32 word) \<le> sint (10002 :: 32 word) \<and> (10002 :: 32 word) \<notin> {10000}"
  using AllocatePort_reserves [OF example_lease_laws example_alloc] by simp

theorem AllocatePort_keeps_leases_witness:
  "(example_leases((''gw'', ''tcp-port-10002'') \<mapsto> (port_lease 10002 ''gw'' ''ns/a'' 0)\<lparr>le_UID := ''uid''\<rparr>))
     (''gw'', ''tcp-port-10001'') = Some (port_lease 10001 ''gw'' ''ns/b'' 0)"
  by (rule AllocatePort_keeps_leases [OF example_lease_laws example_alloc])
    (auto simp: example_leases_def held_def port_lease_def)

theorem AllocatePort_terminates_witness:
  "\<exists>r w'. AllocatePort example_tcp 10000 10999 {} ''gw'' ''ns/a'' (\<lambda>k. None) = Some (r, w')"
  by (rule AllocatePort_terminates) simp

definition example_gateways :: gateway_sharding where
  "example_gateways = \<lparr>gs_gateways = [\<lparr>gk_Namespace = ''gw'', gk_Name = ''a''\<rparr>, \<lparr>gk_Namespace = ''gw'', gk_Name = ''b''\<rparr>],
     gs_capacity = 2\<rparr>"

theorem SelectGateway_spec_witness:
  "SelectGateway example_gateways \<lparr>gk_Namespace = ''gw'', gk_Name = ''a''\<rparr> 1
      (\<lambda>g. if gk_Name g = ''a'' then 2 else 1) [] = Inr (\<lparr>gk_Namespace = ''gw'', gk_Name = ''b''\<rparr>, True) \<and>
   \<lparr>gk_Namespace = ''gw'', gk_Name = ''b''\<rparr> \<in> candidates example_gateways []"
proof
  show sel: "SelectGateway example_gateways \<lparr>gk_Namespace = ''gw'', gk_Name = ''a''\<rparr> 1
      (\<lambda>g. if gk_Name g = ''a'' then 2 else 1) [] = Inr (\<lparr>gk_Namespace = ''gw'', gk_Name = ''b''\<rparr>, True)"
    by (simp add: SelectGateway_def example_gateways_def)
  show "\<lparr>gk_Namespace = ''gw'', gk_Name = ''b''\<rparr> \<in> candidates example_gateways []"
    using SelectGateway_spec [where new = 1 and gs = example_gateways and currentRef = "\<lparr>gk_Namespace = ''gw'', gk_Name = ''a''\<rparr>"
        and counts = "\<lambda>g. if gk_Name g = ''a'' then 2 else 1" and allowed = "[]"]
    by (simp add: sel)
qed

definition example_spec :: gobj where
  "example_spec = [(''parentRef'', GMap [(''namespace'', GStr ''gw''), (''name'', GStr ''a'')]),
     (''listeners'', GList [GMap [(''port'', GInt64 0)]])]"

theorem shard_respects_capacity_witness:
  "\<exists>spec'. shard example_tcp example_gateways [] [] example_spec = Inr (spec', False) \<and> spec' = example_spec"
proof -
  have "shard example_tcp example_gateways [] [] example_spec = Inr (example_spec, False)"
    by (simp add: shard_def example_spec_def any_get_def or_zero_def parseAllowedGateways_def SelectGateway_def
        example_gateways_def extractListenerCounts_def)
  from shard_respects_capacity [OF this] this show ?thesis by blast
qed
end
