(* ===== verification/Webhook_Base.thy ===== *)
theory Webhook_Base
  imports Prelude
begin

text \<open>
  What the admission webhooks of \<open>pkg/controller/webhooks\<close> share: the collected field errors
  (\<open>fieldErrors\<close> in \<open>default_handler.go\<close>), the error a validator returns, and the check for the
  deletion protection of a claim (\<open>claim_deletionprotection.go\<close>). Of a field error its type, field
  and bad value are kept; the text of the detail is dropped.
\<close>

datatype field_error_type = FE_NotFound | FE_Invalid | FE_Forbidden | FE_Internal | FE_TooLong

record field_error =
  fe_Type :: field_error_type
  fe_Field :: string
  fe_BadValue :: string

definition field_err :: "field_error_type \<Rightarrow> string \<Rightarrow> string \<Rightarrow> field_error" where
  "field_err t f v = \<lparr>fe_Type = t, fe_Field = f, fe_BadValue = v\<rparr>"

lemma field_err_sel [simp]:
  "fe_Type (field_err t f v) = t" "fe_Field (field_err t f v) = f" "fe_BadValue (field_err t f v) = v"
  by (simp_all add: field_err_def)

text \<open>The error of a validator: of the API, a message, or collected field errors.\<close>

datatype webhook_error = WErr gerr | WFields "field_error list"

text \<open>\<open>fieldErrors.Get\<close>: nil when nothing was collected.\<close>

definition Get :: "field_error list \<Rightarrow> webhook_error option" where
  "Get errs = (if length errs > 0 then Some (WFields errs) else None)"

lemma Get_None [simp]: "Get errs = None \<longleftrightarrow> errs = []"
  by (simp add: Get_def)

text \<open>Adding the error of a check that found one.\<close>

fun add_opt :: "field_error list \<Rightarrow> field_error option \<Rightarrow> field_error list" where
  "add_opt errs None = errs"
| "add_opt errs (Some e) = errs @ [e]"

lemma add_opt_Nil [simp]: "add_opt errs x = [] \<longleftrightarrow> errs = [] \<and> x = None"
  by (cases x) auto

lemma set_add_opt [simp]: "set (add_opt errs x) = set errs \<union> set_option x"
  by (cases x) auto

definition GetClaimDeletionProtection :: "bool \<Rightarrow> field_error option" where
  "GetClaimDeletionProtection deletionProtection =
     (if deletionProtection
      then Some (field_err FE_Forbidden ''spec.parameters.security.deletionProtection'' [])
      else None)"

end
