(* ===== verification/Labels.thy ===== *)
theory Labels
  imports Prelude
begin

text \<open>Labels of \<open>src/pkg/comp-functions/runtime/function_mgr.go\<close>: the runtime writes them, the webhooks read them.\<close>

definition OwnerKindLabel :: string where "OwnerKindLabel = ''appcat.vshn.io/ownerkind''"
definition OwnerVersionLabel :: string where "OwnerVersionLabel = ''appcat.vshn.io/ownerapiversion''"
definition OwnerGroupLabel :: string where "OwnerGroupLabel = ''appcat.vshn.io/ownergroup''"
definition OwnerCompositeLabel :: string where "OwnerCompositeLabel = ''appcat.vshn.io/ownercomposite''"
definition ProviderConfigLabel :: string where "ProviderConfigLabel = ''appcat.vshn.io/provider-config''"

end
