(* ===== verification/DeletionProtection.thy ===== *)
theory DeletionProtection
  imports Webhook_Base Labels
begin

text \<open>
  The protection of the objects of a service against deletion, in \<open>pkg/controller/webhooks\<close>:
  \<open>deletionprotection.go\<close> (the decision for managed and unmanaged objects),
  \<open>generic_deletionprotection_handler.go\<close>, \<open>unmanaged_protection.go\<close>, \<open>xobjectbuckets.go\<close> and
  \<open>objectbuckets.go\<close> (the admission handlers). A decision is the record \<open>composite_info\<close>; every
  handler allows a deletion exactly when it returns no error.
\<close>

section \<open>Objects and the cluster\<close>

record kobject =
  ko_Kind :: string
  ko_Namespace :: string
  ko_Name :: string
  ko_Labels :: "string \<Rightarrow> string option"
  ko_CreationTimestamp :: instant

text \<open>
  A composite as the code reads it: its deletion timestamp, and the daily backups it keeps when its
  type implements \<open>common.InfoGetter\<close>.
\<close>

record composite =
  cp_DeletionTimestamp :: "instant option"
  cp_KeepDaily :: "int option"

record gvk =
  gvk_Group :: string
  gvk_Version :: string
  gvk_Kind :: string

text \<open>
  The two clients, the scheme and the clock. \<open>Scheme().New\<close> gives an error or whether
  the new object is a \<open>client.Object\<close>; \<open>None\<close> as the control plane is a client that is nil.
\<close>

datatype cluster = ServiceCluster | ControlPlane

record 'w del_env =
  de_HasControlPlane :: bool
  de_SchemeNew :: "gvk \<Rightarrow> gerr + bool"
  de_GetComposite :: "cluster \<Rightarrow> gvk \<Rightarrow> string \<Rightarrow> 'w \<Rightarrow> (gerr + composite) \<times> 'w"
  de_GetNamespace :: "string \<Rightarrow> 'w \<Rightarrow> (gerr + kobject) \<times> 'w"
  de_Now :: "'w \<Rightarrow> instant \<times> 'w"

record compositeInfo =
  ci_Exists :: bool
  ci_Name :: string
  ci_Reason :: string

definition ProtectionOverrideLabelStorage :: string where
  "ProtectionOverrideLabelStorage = ''appcat.vshn.io/webhook-allowpvcdeletion''"

definition ProtectionOverrideLabel :: string where
  "ProtectionOverrideLabel = ''appcat.vshn.io/webhook-allowdeletion''"

definition BackupDisabledTimestampLabel :: string where
  "BackupDisabledTimestampLabel = ''appcat.vshn.io/backup-disabled-timestamp''"

lemmas label_defs = ProtectionOverrideLabelStorage_def ProtectionOverrideLabel_def OwnerCompositeLabel_def
  OwnerKindLabel_def OwnerVersionLabel_def OwnerGroupLabel_def BackupDisabledTimestampLabel_def

section \<open>The decision\<close>

definition isDeletionProtected :: "kobject \<Rightarrow> bool" where
  "isDeletionProtected obj =
     (case ko_Labels obj ProtectionOverrideLabel of
        None \<Rightarrow> True
      | Some val \<Rightarrow> \<not> val = ''true'')"

text \<open>A label that is absent or empty: \<open>!ok || v == ""\<close>.\<close>

definition label_set :: "kobject \<Rightarrow> string \<Rightarrow> string option" where
  "label_set obj l = (case ko_Labels obj l of None \<Rightarrow> None | Some v \<Rightarrow> if v = [] then None else Some v)"

definition blocked_info :: "kobject \<Rightarrow> string \<Rightarrow> string \<Rightarrow> compositeInfo" where
  "blocked_info obj name label =
     \<lparr>ci_Exists = isDeletionProtected obj, ci_Name = name,
      ci_Reason = label @ '' label not set, blocking deletion''\<rparr>"

definition plain_info :: "bool \<Rightarrow> string \<Rightarrow> compositeInfo" where
  "plain_info exists name = \<lparr>ci_Exists = exists, ci_Name = name, ci_Reason = []\<rparr>"

text \<open>
  \<open>checkManagedObject\<close> with its two results. The reason for a missing group label names the version
  label, as the code has it.
\<close>

definition checkManagedObject ::
  "'w del_env \<Rightarrow> kobject \<Rightarrow> 'w \<Rightarrow> compositeInfo \<times> gerr option \<times> 'w" where
  "checkManagedObject env obj w =
     (let cpClient = (if de_HasControlPlane env then ControlPlane else ServiceCluster) in
      case label_set obj OwnerCompositeLabel of
        None \<Rightarrow> (blocked_info obj ''unknown'' OwnerCompositeLabel, None, w)
      | Some ownerName \<Rightarrow>
     (case label_set obj OwnerKindLabel of
        None \<Rightarrow> (blocked_info obj ownerName OwnerKindLabel, None, w)
      | Some ownerKind \<Rightarrow>
     (case label_set obj OwnerVersionLabel of
        None \<Rightarrow> (blocked_info obj ownerName OwnerVersionLabel, None, w)
      | Some ownerVersion \<Rightarrow>
     (case label_set obj OwnerGroupLabel of
        None \<Rightarrow> (blocked_info obj ownerName OwnerVersionLabel, None, w)
      | Some ownerGroup \<Rightarrow>
     (let g = \<lparr>gvk_Group = ownerGroup, gvk_Version = ownerVersion, gvk_Kind = ownerKind\<rparr> in
      case de_SchemeNew env g of
        Inl err \<Rightarrow>
          (if is_reason NotRegistered err then (plain_info False ownerName, Some err, w)
           else (plain_info False ownerName, None, w))
      | Inr isObject \<Rightarrow>
          (if \<not> isObject
           then (plain_info False ownerName, Some (Msg ''object is not a valid client object''), w)
           else (case de_GetComposite env cpClient g ownerName w of
                   (Inl err, w1) \<Rightarrow>
                     (if IsNotFound err then (plain_info False ownerName, None, w1)
                      else (plain_info True ownerName, Some (Wrapped ''cannot get composite'' err), w1))
                 | (Inr compo, w1) \<Rightarrow>
                     (if cp_DeletionTimestamp compo \<noteq> None then (plain_info False ownerName, None, w1)
                      else (plain_info (isDeletionProtected obj) ownerName, None, w1)))))))))"

definition checkUnmanagedObject ::
  "'w del_env \<Rightarrow> kobject \<Rightarrow> 'w \<Rightarrow> compositeInfo \<times> gerr option \<times> 'w" where
  "checkUnmanagedObject env obj w =
     (case de_GetNamespace env (ko_Namespace obj) w of
        (Inl err, w1) \<Rightarrow> (plain_info False [], (if IsNotFound err then None else Some err), w1)
      | (Inr namespace, w1) \<Rightarrow>
          (if has_prefix (ko_Kind obj) ''PersistentVolume''
              \<and> ko_Labels namespace ProtectionOverrideLabelStorage = Some ''true''
           then (plain_info False [], None, w1)
           else (case checkManagedObject env namespace w1 of
                   (ci, Some err, w2) \<Rightarrow> (plain_info False [], Some err, w2)
                 | (ci, None, w2) \<Rightarrow>
                     (ci\<lparr>ci_Exists := ci_Exists ci \<and> isDeletionProtected obj\<rparr>, None, w2))))"

section \<open>The handlers\<close>


datatype review_response = RAllowed | RDenied string | RErrored gerr

text \<open>\<open>UnmanagedHandler.Handle\<close>: the decoded old object, or the error of decoding it.\<close>

definition Unmanaged_Handle ::
  "'w del_env \<Rightarrow> bool \<Rightarrow> gerr + kobject \<Rightarrow> 'w \<Rightarrow> review_response \<times> 'w" where
  "Unmanaged_Handle env isDelete oldObject w =
     (if isDelete then
        (case oldObject of
           Inl err \<Rightarrow> (RErrored err, w)
         | Inr oldObj \<Rightarrow>
             (case checkUnmanagedObject env oldObj w of
                (compInfo, Some err, w1) \<Rightarrow> (RErrored err, w1)
              | (compInfo, None, w1) \<Rightarrow>
                  (if ci_Exists compInfo then (RDenied (ci_Name compInfo), w1) else (RAllowed, w1))))
      else (RErrored (Msg ''unexpected operation''), w))"

definition defaultRetentionDays :: int where "defaultRetentionDays = 6"

definition getCompositeByName :: "'w del_env \<Rightarrow> kobject \<Rightarrow> 'w \<Rightarrow> (gerr + composite) \<times> 'w" where
  "getCompositeByName env bucket w =
     (case label_set bucket OwnerCompositeLabel of
        None \<Rightarrow> (Inl (Msg ''owner composite label not found on bucket''), w)
      | Some ownerName \<Rightarrow>
     (case label_set bucket OwnerKindLabel of
        None \<Rightarrow> (Inl (Msg ''owner kind label not found on bucket''), w)
      | Some ownerKind \<Rightarrow>
     (case label_set bucket OwnerVersionLabel of
        None \<Rightarrow> (Inl (Msg ''owner version label not found on bucket''), w)
      | Some ownerVersion \<Rightarrow>
     (case label_set bucket OwnerGroupLabel of
        None \<Rightarrow> (Inl (Msg ''owner group label not found on bucket''), w)
      | Some ownerGroup \<Rightarrow>
     (let g = \<lparr>gvk_Group = ownerGroup, gvk_Version = ownerVersion, gvk_Kind = ownerKind\<rparr>;
          kubeClient = (if de_HasControlPlane env then ControlPlane else ServiceCluster)
      in case de_SchemeNew env g of
           Inl err \<Rightarrow>
             (if is_reason NotRegistered err then (Inl (Msg ''composite type not registered in scheme''), w)
              else (Inl (Wrapped ''failed to create composite object'' err), w))
         | Inr isObject \<Rightarrow>
             (if \<not> isObject then (Inl (Msg ''object is not a valid client object''), w)
              else (case de_GetComposite env kubeClient g ownerName w of
                      (Inl err, w1) \<Rightarrow> (Inl (Wrapped ''failed to get composite'' err), w1)
                    | (Inr compo, w1) \<Rightarrow> (Inr compo, w1))))))))"

definition getRetentionDays :: "'w del_env \<Rightarrow> kobject \<Rightarrow> compositeInfo \<Rightarrow> 'w \<Rightarrow> int \<times> 'w" where
  "getRetentionDays env bucket compInfo w =
     (if \<not> ci_Exists compInfo then (defaultRetentionDays, w)
      else (case getCompositeByName env bucket w of
              (Inl err, w1) \<Rightarrow> (defaultRetentionDays, w1)
            | (Inr composite, w1) \<Rightarrow>
                (case cp_KeepDaily composite of
                   None \<Rightarrow> (defaultRetentionDays, w1)
                 | Some keepDaily \<Rightarrow> (if keepDaily > 0 then keepDaily else defaultRetentionDays, w1))))"

definition XObjectBucket_ValidateDelete :: "'w del_env \<Rightarrow> kobject \<Rightarrow> 'w \<Rightarrow> gerr option \<times> 'w" where
  "XObjectBucket_ValidateDelete env bucket w =
     (let creationTimestamp = ko_CreationTimestamp bucket; (now, w1) = de_Now env w
      in if time_sub now creationTimestamp < 61 * minute
         then (Some (Msg ''XObjectBucket is too young to be deleted''), w1)
         else (case checkManagedObject env bucket w1 of
                 (compInfo, Some err, w2) \<Rightarrow> (Some err, w2)
               | (compInfo, None, w2) \<Rightarrow>
                   (let protect = (\<lambda>w. if ci_Exists compInfo
                         then (Some (Msg (if ci_Reason compInfo \<noteq> [] then ci_Reason compInfo else ''protected'')), w)
                         else (None, w))
                    in case ko_Labels bucket BackupDisabledTimestampLabel of
                         None \<Rightarrow> protect w2
                       | Some backupDisabledTimestamp \<Rightarrow>
                           (case parse_int backupDisabledTimestamp of
                              None \<Rightarrow> protect w2
                            | Some timestampUnix \<Rightarrow>
                                (let backupDisabledTime = timestampUnix * second;
                                     (retentionDays, w3) = getRetentionDays env bucket compInfo w2;
                                     retentionPeriod = dur_mult (dur_mult retentionDays 24) hour;
                                     allowedDeletionTime = backupDisabledTime + retentionPeriod
                                 in if now < allowedDeletionTime
                                    then (Some (Msg ''retention period has not expired yet''), w3)
                                    else (None, w3))))))"

record object_bucket =
  ob_BucketName :: string
  ob_DeletionProtection :: bool

definition ObjectBucket_ValidateUpdate :: "object_bucket \<Rightarrow> object_bucket \<Rightarrow> webhook_error option" where
  "ObjectBucket_ValidateUpdate oldBucket newBucket =
     Get (if ob_BucketName oldBucket \<noteq> ob_BucketName newBucket
          then [field_err FE_Invalid ''spec.parameters.bucketName'' (ob_BucketName newBucket)] else [])"

definition ObjectBucket_ValidateDelete :: "object_bucket \<Rightarrow> webhook_error option" where
  "ObjectBucket_ValidateDelete bucket = Get (add_opt [] (GetClaimDeletionProtection (ob_DeletionProtection bucket)))"

section \<open>Properties\<close>

definition owner_of :: "kobject \<Rightarrow> (string \<times> gvk) option" where
  "owner_of obj =
     (case (label_set obj OwnerCompositeLabel, label_set obj OwnerKindLabel,
            label_set obj OwnerVersionLabel, label_set obj OwnerGroupLabel) of
        (Some n, Some k, Some v, Some g) \<Rightarrow> Some (n, \<lparr>gvk_Group = g, gvk_Version = v, gvk_Kind = k\<rparr>)
      | _ \<Rightarrow> None)"

definition home_cluster :: "'w del_env \<Rightarrow> cluster" where
  "home_cluster env = (if de_HasControlPlane env then ControlPlane else ServiceCluster)"

text \<open>The composite that owns the object is gone, on its way, or of a version the scheme cannot parse.\<close>

definition owner_gone :: "'w del_env \<Rightarrow> kobject \<Rightarrow> 'w \<Rightarrow> bool" where
  "owner_gone env obj w \<longleftrightarrow>
     (\<exists>name g. owner_of obj = Some (name, g) \<and>
        ((\<exists>err. de_SchemeNew env g = Inl err \<and> \<not> is_reason NotRegistered err) \<or>
         (\<exists>err w'. de_SchemeNew env g = Inr True \<and> de_GetComposite env (home_cluster env) g name w = (Inl err, w') \<and> IsNotFound err) \<or>
         (\<exists>c w'. de_SchemeNew env g = Inr True \<and> de_GetComposite env (home_cluster env) g name w = (Inr c, w') \<and> cp_DeletionTimestamp c \<noteq> None)))"

abbreviation overridden :: "kobject \<Rightarrow> bool" where
  "overridden obj \<equiv> ko_Labels obj ProtectionOverrideLabel = Some ''true''"

lemma isDeletionProtected_iff: "isDeletionProtected obj \<longleftrightarrow> \<not> overridden obj"
  by (simp add: isDeletionProtected_def split: option.splits)

lemma checkManagedObject_open:
  assumes "checkManagedObject env obj w = (ci, None, w')" and "\<not> ci_Exists ci"
  shows "overridden obj \<or> owner_gone env obj w"
  using assms unfolding checkManagedObject_def owner_gone_def owner_of_def home_cluster_def
  by (auto simp: isDeletionProtected_iff blocked_info_def plain_info_def Let_def split: option.splits sum.splits if_splits prod.splits)

text \<open>An object and a cluster for the witnesses.\<close>

definition example_del :: "unit del_env" where
  "example_del = \<lparr>de_HasControlPlane = False, de_SchemeNew = (\<lambda>g. Inr True),
     de_GetComposite = (\<lambda>c g n w. if n = ''gone'' then (Inl (ApiErr NotFound), w)
        else (Inr \<lparr>cp_DeletionTimestamp = None, cp_KeepDaily = Some 7\<rparr>, w)),
     de_GetNamespace = (\<lambda>n w. (Inl (ApiErr NotFound), w)),
     de_Now = (\<lambda>w. (8 * 24 * hour, w))\<rparr>"

definition example_object :: "string \<Rightarrow> kobject" where
  "example_object n = \<lparr>ko_Kind = ''XObjectBucket'', ko_Namespace = ''ns'', ko_Name = ''b'',
     ko_Labels = [OwnerCompositeLabel \<mapsto> n, OwnerKindLabel \<mapsto> ''XVSHNRedis'', OwnerVersionLabel \<mapsto> ''v1'',
        OwnerGroupLabel \<mapsto> ''vshn.appcat.vshn.io'', BackupDisabledTimestampLabel \<mapsto> ''0''],
     ko_CreationTimestamp = 0\<rparr>"

lemma example_labels:
  "label_set (example_object n) OwnerCompositeLabel = (if n = [] then None else Some n)"
  "label_set (example_object n) OwnerKindLabel = Some ''XVSHNRedis''"
  "label_set (example_object n) OwnerVersionLabel = Some ''v1''"
  "label_set (example_object n) OwnerGroupLabel = Some ''vshn.appcat.vshn.io''"
  "ko_Labels (example_object n) ProtectionOverrideLabel = None"
  "ko_Labels (example_object n) BackupDisabledTimestampLabel = Some ''0''"
  by (simp_all add: label_set_def example_object_def label_defs)



text \<open>
  The deletion of an unmanaged object is only admitted when its namespace does not exist, the object
  or the namespace carries the override label, the composite of the namespace is gone, or the object
  is a persistent volume (claim) in a namespace that allows deleting storage.
\<close>

theorem unmanaged_deletion_needs_reason:
  assumes "Unmanaged_Handle env True (Inr obj) w = (RAllowed, w')"
  shows "\<exists>r w1. de_GetNamespace env (ko_Namespace obj) w = (r, w1) \<and>
    (case r of
       Inl err \<Rightarrow> IsNotFound err
     | Inr ns \<Rightarrow> overridden obj \<or> overridden ns \<or> owner_gone env ns w1 \<or>
         has_prefix (ko_Kind obj) ''PersistentVolume'' \<and> ko_Labels ns ProtectionOverrideLabelStorage = Some ''true'')"
proof -
  obtain r w1 where r: "de_GetNamespace env (ko_Namespace obj) w = (r, w1)" by fastforce
  show ?thesis
  proof (cases r)
    case (Inl err)
    then show ?thesis using assms r
      by (auto simp: Unmanaged_Handle_def checkUnmanagedObject_def split: if_splits)
  next
    case (Inr ns)
    obtain ci e w2 where c: "checkManagedObject env ns w1 = (ci, e, w2)" by (metis prod_cases3)
    show ?thesis
      using assms r Inr c checkManagedObject_open [of env ns w1 ci w2]
      by (auto simp: Unmanaged_Handle_def checkUnmanagedObject_def isDeletionProtected_iff split: if_splits option.splits)
  qed
qed

theorem unmanaged_deletion_needs_reason_witness:
  "\<exists>r w1. de_GetNamespace example_del ''ns'' () = (r, w1) \<and> (case r of Inl err \<Rightarrow> IsNotFound err | Inr ns \<Rightarrow> False)"
proof -
  have "Unmanaged_Handle example_del True (Inr (example_object ''pg'')) () = (RAllowed, ())"
    by (simp add: Unmanaged_Handle_def checkUnmanagedObject_def example_del_def plain_info_def)
  from unmanaged_deletion_needs_reason [OF this] show ?thesis
    by (simp add: example_object_def example_del_def)
qed

lemma getRetentionDays_source:
  assumes "getRetentionDays env bucket ci w = (d, w')"
  shows "0 < d \<and> (d = 6 \<or> (\<exists>c. getCompositeByName env bucket w = (Inr c, w') \<and> cp_KeepDaily c = Some d))"
  using assms
  by (auto simp: getRetentionDays_def defaultRetentionDays_def split: if_splits prod.splits sum.splits option.splits)

lemma retention_period:
  assumes "0 < d" and "d \<le> 106751"
  shows "dur_mult (dur_mult d 24) hour = d * (24 * hour)"
proof -
  have "dur_mult d 24 = d * 24" using assms by (intro dur_mult_exact) auto
  moreover have "dur_mult (d * 24) hour = d * 24 * hour"
    using assms by (intro dur_mult_exact) (auto simp: duration_defs)
  ultimately show ?thesis by simp
qed

lemma old_enough: "\<not> time_sub now created < 61 * minute \<Longrightarrow> created + 61 * minute \<le> now"
  by (auto simp: time_sub_def duration_defs min_def max_def split: if_splits)

text \<open>
  A bucket is only deleted 61 minutes after its creation. Without a parseable backup-disabled label
  the rule for managed objects applies; with one, the time since then must reach the daily backups the
  composite keeps, or six days when it cannot be read, whatever the override label says.
\<close>

theorem bucket_deletion_waits:
  assumes "XObjectBucket_ValidateDelete env bucket w = (None, w')"
    and "de_Now env w = (now, w1)"
  shows "ko_CreationTimestamp bucket + 61 * minute \<le> now \<and>
    (case Option.bind (ko_Labels bucket BackupDisabledTimestampLabel) parse_int of
       None \<Rightarrow> overridden bucket \<or> owner_gone env bucket w1
     | Some t \<Rightarrow> \<exists>days w2. 0 < days \<and>
         (days = 6 \<or> (\<exists>c. getCompositeByName env bucket w2 = (Inr c, w') \<and> cp_KeepDaily c = Some days)) \<and>
         (days \<le> 106751 \<longrightarrow> t * second + days * (24 * hour) \<le> now))"
proof
  show "ko_CreationTimestamp bucket + 61 * minute \<le> now"
    using assms by (intro old_enough) (auto simp: XObjectBucket_ValidateDelete_def)
next
  obtain ci e w2 where c: "checkManagedObject env bucket w1 = (ci, e, w2)" by (metis prod_cases3)
  have e: "e = None" using assms c by (auto simp: XObjectBucket_ValidateDelete_def split: if_splits option.splits)
  show "case Option.bind (ko_Labels bucket BackupDisabledTimestampLabel) parse_int of
       None \<Rightarrow> overridden bucket \<or> owner_gone env bucket w1
     | Some t \<Rightarrow> \<exists>days w2. 0 < days \<and>
         (days = 6 \<or> (\<exists>c. getCompositeByName env bucket w2 = (Inr c, w') \<and> cp_KeepDaily c = Some days)) \<and>
         (days \<le> 106751 \<longrightarrow> t * second + days * (24 * hour) \<le> now)"
  proof (cases "Option.bind (ko_Labels bucket BackupDisabledTimestampLabel) parse_int")
    case None
    then have "\<not> ci_Exists ci"
      using assms c e by (auto simp: XObjectBucket_ValidateDelete_def Let_def split: if_splits option.splits)
    then show ?thesis using None c e checkManagedObject_open [of env bucket w1 ci w2] by simp
  next
    case (Some t)
    then obtain s where s: "ko_Labels bucket BackupDisabledTimestampLabel = Some s" "parse_int s = Some t"
      by (auto simp: bind_eq_Some_conv)
    obtain days w3 where d: "getRetentionDays env bucket ci w2 = (days, w3)" by fastforce
    have "w3 = w'" and "\<not> now < t * second + dur_mult (dur_mult days 24) hour"
      using assms c e s d by (auto simp: XObjectBucket_ValidateDelete_def Let_def split: if_splits)
    then show ?thesis
      unfolding Some option.case
      using getRetentionDays_source [OF d] retention_period [of days]
      by (intro exI [of _ days] exI [of _ w2]) (auto simp: not_less)
  qed
qed

theorem bucket_deletion_waits_witness:
  "XObjectBucket_ValidateDelete example_del (example_object ''pg'') () = (None, ()) \<and>
   ko_CreationTimestamp (example_object ''pg'') + 61 * minute \<le> 8 * 24 * hour"
proof -
  have days: "getRetentionDays example_del (example_object ''pg'') ci () = (if ci_Exists ci then 7 else 6, ())" for ci
    by (simp add: getRetentionDays_def getCompositeByName_def example_labels example_del_def defaultRetentionDays_def)
  have now: "de_Now example_del () = (8 * 24 * hour, ())" by (simp add: example_del_def)
  have c: "checkManagedObject example_del (example_object ''pg'') () = (plain_info True ''pg'', None, ())"
    by (simp add: checkManagedObject_def example_labels example_del_def plain_info_def isDeletionProtected_def)
  have p: "parse_int ''0'' = Some 0" by code_simp
  have run: "XObjectBucket_ValidateDelete example_del (example_object ''pg'') () = (None, ())"
    by (simp add: XObjectBucket_ValidateDelete_def now c p days example_labels plain_info_def retention_period)
       (simp add: example_object_def time_sub_def duration_defs)
  from bucket_deletion_waits [OF this now] run show ?thesis by blast
qed


end
