(* ===== verification/Resources.thy ===== *)
theory Resources
  imports Webhook_Base
begin

text \<open>
  The resources of an instance and the quotas of a namespace: \<open>pkg/common/utils/{resources,plans,
  sidecars}.go\<close> and \<open>pkg/common/quotas/quotas.go\<close>. A \<open>resource.Quantity\<close> of apimachinery is a value of
  an arbitrary type \<open>'q\<close> with the operations of \<open>quantity_ops\<close>; \<open>quantity_laws\<close> says what its
  documentation promises of them, as amounts in units of 10 to the power of -9. Multiplications are
  those of \<open>int64\<close>.
\<close>

section \<open>Quantities\<close>

record 'q quantity_ops =
  qo_Parse :: "string \<Rightarrow> gerr + 'q"
  qo_Cmp :: "'q \<Rightarrow> 'q \<Rightarrow> int"
  qo_IsZero :: "'q \<Rightarrow> bool"
  qo_Add :: "'q \<Rightarrow> 'q \<Rightarrow> 'q"
  qo_Zero :: 'q
  qo_MilliValue :: "'q \<Rightarrow> int"
  qo_Value :: "'q \<Rightarrow> int"
  qo_SetMilli :: "'q \<Rightarrow> int \<Rightarrow> 'q"
  qo_Set :: "'q \<Rightarrow> int \<Rightarrow> 'q"
  qo_NewMilliDecimal :: "int \<Rightarrow> 'q"
  qo_NewBinary :: "int \<Rightarrow> 'q"
  qo_String :: "'q \<Rightarrow> string"

text \<open>A product of two \<open>int64\<close> values.\<close>

abbreviation mult64 :: "int \<Rightarrow> int \<Rightarrow> int" where
  "mult64 \<equiv> dur_mult"

section \<open>Resources\<close>

record 'q resources =
  rs_CPURequests :: 'q
  rs_CPURequestsPath :: string
  rs_CPULimits :: 'q
  rs_CPULimitsPath :: string
  rs_MemoryRequests :: 'q
  rs_MemoryRequestsPath :: string
  rs_MemoryLimits :: 'q
  rs_MemoryLimitsPath :: string
  rs_Disk :: 'q
  rs_DiskPath :: string

text \<open>The struct literal \<open>Resources{}\<close>.\<close>

definition zero_resources :: "'q quantity_ops \<Rightarrow> 'q resources" where
  "zero_resources Q =
     \<lparr>rs_CPURequests = qo_Zero Q, rs_CPURequestsPath = [], rs_CPULimits = qo_Zero Q, rs_CPULimitsPath = [],
      rs_MemoryRequests = qo_Zero Q, rs_MemoryRequestsPath = [], rs_MemoryLimits = qo_Zero Q,
      rs_MemoryLimitsPath = [], rs_Disk = qo_Zero Q, rs_DiskPath = []\<rparr>"

definition AddResources :: "'q quantity_ops \<Rightarrow> 'q resources \<Rightarrow> 'q resources \<Rightarrow> 'q resources" where
  "AddResources Q r s = r\<lparr>
     rs_CPULimits := qo_Add Q (rs_CPULimits r) (rs_CPULimits s),
     rs_CPURequests := qo_Add Q (rs_CPURequests r) (rs_CPURequests s),
     rs_MemoryLimits := qo_Add Q (rs_MemoryLimits r) (rs_MemoryLimits s),
     rs_MemoryRequests := qo_Add Q (rs_MemoryRequests r) (rs_MemoryRequests s),
     rs_Disk := qo_Add Q (rs_Disk r) (rs_Disk s)\<rparr>"

definition MultiplyBy :: "'q quantity_ops \<Rightarrow> int \<Rightarrow> 'q resources \<Rightarrow> 'q resources" where
  "MultiplyBy Q i r =
     (if i \<le> 0 then r
      else r\<lparr>
        rs_CPULimits := qo_SetMilli Q (rs_CPULimits r) (mult64 (qo_MilliValue Q (rs_CPULimits r)) i),
        rs_CPURequests := qo_SetMilli Q (rs_CPURequests r) (mult64 (qo_MilliValue Q (rs_CPURequests r)) i),
        rs_MemoryLimits := qo_Set Q (rs_MemoryLimits r) (mult64 (qo_Value Q (rs_MemoryLimits r)) i),
        rs_MemoryRequests := qo_Set Q (rs_MemoryRequests r) (mult64 (qo_Value Q (rs_MemoryRequests r)) i),
        rs_Disk := qo_Set Q (rs_Disk r) (mult64 (qo_Value Q (rs_Disk r)) i)\<rparr>)"

section \<open>Plans and sidecars\<close>

text \<open>Maps decoded from JSON, as association lists; a missing key reads as the zero value.\<close>

record plan_size =
  pl_CPU :: string
  pl_Disk :: string
  pl_Memory :: string
  pl_NodeSelector :: "(string \<times> string) list"

type_synonym plans = "(string \<times> plan_size) list"

definition plan_of :: "plans \<Rightarrow> string \<Rightarrow> plan_size" where
  "plan_of p plan = (case map_of p plan of Some s \<Rightarrow> s
     | None \<Rightarrow> \<lparr>pl_CPU = [], pl_Disk = [], pl_Memory = [], pl_NodeSelector = []\<rparr>)"

definition convertPlanToResource :: "'q quantity_ops \<Rightarrow> string \<Rightarrow> plans \<Rightarrow> gerr + 'q resources" where
  "convertPlanToResource Q plan p =
     (let planSize = plan_of p plan in
      case qo_Parse Q (pl_CPU planSize) of
        Inl err \<Rightarrow> Inl err
      | Inr cpu \<Rightarrow>
     (case qo_Parse Q (pl_Memory planSize) of
        Inl err \<Rightarrow> Inl err
      | Inr memory \<Rightarrow>
     (case qo_Parse Q (pl_Disk planSize) of
        Inl err \<Rightarrow> Inl err
      | Inr disk \<Rightarrow>
          Inr ((zero_resources Q)\<lparr>rs_CPURequests := cpu, rs_CPULimits := cpu, rs_MemoryRequests := memory,
                 rs_MemoryLimits := memory, rs_Disk := disk\<rparr>))))"

record sidecar =
  sc_LimitsCPU :: string
  sc_LimitsMemory :: string
  sc_RequestsCPU :: string
  sc_RequestsMemory :: string

type_synonym sidecars = "(string \<times> sidecar) list"

definition sidecar_of :: "sidecars \<Rightarrow> string \<Rightarrow> sidecar" where
  "sidecar_of s n = (case map_of s n of Some c \<Rightarrow> c
     | None \<Rightarrow> \<lparr>sc_LimitsCPU = [], sc_LimitsMemory = [], sc_RequestsCPU = [], sc_RequestsMemory = []\<rparr>)"

definition convertSidecarToResource :: "'q quantity_ops \<Rightarrow> sidecars \<Rightarrow> string \<Rightarrow> gerr + 'q resources" where
  "convertSidecarToResource Q s n =
     (let c = sidecar_of s n in
      case qo_Parse Q (sc_RequestsCPU c) of
        Inl err \<Rightarrow> Inl err
      | Inr requestsCPU \<Rightarrow>
     (case qo_Parse Q (sc_LimitsCPU c) of
        Inl err \<Rightarrow> Inl err
      | Inr limitsCPU \<Rightarrow>
     (case qo_Parse Q (sc_RequestsMemory c) of
        Inl err \<Rightarrow> Inl err
      | Inr requestsMemory \<Rightarrow>
     (case qo_Parse Q (sc_LimitsMemory c) of
        Inl err \<Rightarrow> Inl err
      | Inr limitsMemory \<Rightarrow>
          Inr ((zero_resources Q)\<lparr>rs_CPURequests := requestsCPU, rs_CPULimits := limitsCPU,
                 rs_MemoryRequests := requestsMemory, rs_MemoryLimits := limitsMemory\<rparr>)))))"

text \<open>\<open>GetAllSideCarsResources\<close> ranges over the map: \<open>keys\<close> are its keys in the order of the iteration.\<close>

fun add_sidecars :: "'q quantity_ops \<Rightarrow> sidecars \<Rightarrow> string list \<Rightarrow> 'q resources \<Rightarrow> gerr + 'q resources" where
  "add_sidecars Q s [] rTot = Inr rTot"
| "add_sidecars Q s (n # keys) rTot =
     (case convertSidecarToResource Q s n of
        Inl err \<Rightarrow> Inl err
      | Inr r \<Rightarrow> add_sidecars Q s keys (AddResources Q rTot r))"

definition GetAllSideCarsResources ::
  "'q quantity_ops \<Rightarrow> (string list \<Rightarrow> string list) \<Rightarrow> sidecars \<Rightarrow> gerr + 'q resources" where
  "GetAllSideCarsResources Q order s = add_sidecars Q s (order (remdups (map fst s))) (zero_resources Q)"

text \<open>
  The cluster: a ConfigMap as its data, a namespace as its annotations and labels; the JSON decoders
  and the setting \<open>PLANS_NAMESPACE\<close>.
\<close>

type_synonym str_map = "string \<Rightarrow> string option"

record 'w quota_env =
  qe_GetConfigMap :: "string \<Rightarrow> string \<Rightarrow> 'w \<Rightarrow> (gerr + str_map) \<times> 'w"
  qe_GetNamespaceAnnotations :: "string \<Rightarrow> 'w \<Rightarrow> (gerr + str_map) \<times> 'w"
  qe_GetNamespaceLabels :: "string \<Rightarrow> 'w \<Rightarrow> (gerr + str_map) \<times> 'w"
  qe_CountNamespaces :: "string \<Rightarrow> 'w \<Rightarrow> (gerr + nat) \<times> 'w"
  qe_NewRequirement :: "string \<Rightarrow> gerr option"
  qe_UnmarshalPlans :: "string \<Rightarrow> gerr + plans"
  qe_UnmarshalSidecars :: "string \<Rightarrow> gerr + sidecars"
  qe_PlansNamespace :: string
  qe_SidecarOrder :: "string list \<Rightarrow> string list"

definition data_field :: "str_map \<Rightarrow> string \<Rightarrow> string" where
  "data_field d k = (case d k of None \<Rightarrow> [] | Some v \<Rightarrow> v)"

definition FetchPlansFromCluster ::
  "'q quantity_ops \<Rightarrow> 'w quota_env \<Rightarrow> string \<Rightarrow> string \<Rightarrow> 'w \<Rightarrow> (gerr + 'q resources) \<times> 'w" where
  "FetchPlansFromCluster Q env name plan w =
     (case qe_GetConfigMap env (qe_PlansNamespace env) name w of
        (Inl err, w1) \<Rightarrow> (Inl err, w1)
      | (Inr data, w1) \<Rightarrow>
          (case qe_UnmarshalPlans env (data_field data ''plans'') of
             Inl err \<Rightarrow> (Inl err, w1)
           | Inr p \<Rightarrow> (convertPlanToResource Q plan p, w1)))"

definition FetchPlansFromConfig :: "'q quantity_ops \<Rightarrow> 'w quota_env \<Rightarrow> str_map \<Rightarrow> string \<Rightarrow> gerr + 'q resources" where
  "FetchPlansFromConfig Q env config plan =
     (case qe_UnmarshalPlans env (data_field config ''plans'') of
        Inl err \<Rightarrow> Inl err
      | Inr p \<Rightarrow> convertPlanToResource Q plan p)"

text \<open>A selector that is nil falls back to the plan's.\<close>

definition FetchNodeSelectorFromConfig ::
  "'w quota_env \<Rightarrow> str_map \<Rightarrow> string \<Rightarrow> (string \<times> string) list option \<Rightarrow> gerr + (string \<times> string) list" where
  "FetchNodeSelectorFromConfig env config plan nodeSelector =
     (case nodeSelector of
        Some sel \<Rightarrow> Inr sel
      | None \<Rightarrow>
          (case qe_UnmarshalPlans env (data_field config ''plans'') of
             Inl err \<Rightarrow> Inl err
           | Inr p \<Rightarrow> Inr (pl_NodeSelector (plan_of p plan))))"

definition FetchSidecarsFromCluster :: "'w quota_env \<Rightarrow> string \<Rightarrow> 'w \<Rightarrow> (gerr + sidecars) \<times> 'w" where
  "FetchSidecarsFromCluster env name w =
     (case qe_GetConfigMap env (qe_PlansNamespace env) name w of
        (Inl err, w1) \<Rightarrow> (Inl err, w1)
      | (Inr data, w1) \<Rightarrow> (qe_UnmarshalSidecars env (data_field data ''sideCars''), w1))"

definition FetchSidecarsFromConfig :: "'w quota_env \<Rightarrow> str_map \<Rightarrow> gerr + sidecars" where
  "FetchSidecarsFromConfig env config = qe_UnmarshalSidecars env (data_field config ''sideCars'')"

definition FetchInitContainersFromConfig :: "'w quota_env \<Rightarrow> str_map \<Rightarrow> gerr + sidecars" where
  "FetchInitContainersFromConfig env config = qe_UnmarshalSidecars env (data_field config ''initContainers'')"

definition FetchSidecarFromCluster ::
  "'q quantity_ops \<Rightarrow> 'w quota_env \<Rightarrow> string \<Rightarrow> string \<Rightarrow> 'w \<Rightarrow> (gerr + 'q resources) \<times> 'w" where
  "FetchSidecarFromCluster Q env name n w =
     (case FetchSidecarsFromCluster env name w of
        (Inl err, w1) \<Rightarrow> (Inl err, w1)
      | (Inr s, w1) \<Rightarrow> (convertSidecarToResource Q s n, w1))"

section \<open>Defaults\<close>

definition DefaultCPURequests :: "'q quantity_ops \<Rightarrow> 'q" where
  "DefaultCPURequests Q = qo_NewMilliDecimal Q 5000"

definition DefaultMemoryRequests :: "'q quantity_ops \<Rightarrow> 'q" where
  "DefaultMemoryRequests Q = qo_NewBinary Q 23622320128"

definition DefaultDiskRequests :: "'q quantity_ops \<Rightarrow> 'q" where
  "DefaultDiskRequests Q = qo_NewBinary Q 1099511627776"

text \<open>After an error the totals are those of the struct literal the error comes with, all zero.\<close>

definition AddPsqlSidecarResources ::
  "'q quantity_ops \<Rightarrow> (string list \<Rightarrow> string list) \<Rightarrow> sidecars \<Rightarrow> int \<Rightarrow> 'q resources \<Rightarrow> 'q resources" where
  "AddPsqlSidecarResources Q order s instances0 r =
     (let (res, instances) = (case GetAllSideCarsResources Q order s of
                                Inl err \<Rightarrow> (zero_resources Q, 1)
                              | Inr res \<Rightarrow> (res, instances0))
      in r\<lparr>
        rs_CPURequests := qo_Add Q (rs_CPURequests r) (qo_NewMilliDecimal Q (mult64 (qo_MilliValue Q (rs_CPURequests res)) instances)),
        rs_MemoryRequests := qo_Add Q (rs_MemoryRequests r) (qo_NewBinary Q (mult64 (qo_Value Q (rs_MemoryRequests res)) instances)),
        rs_CPULimits := qo_Add Q (rs_CPULimits r) (qo_NewMilliDecimal Q (mult64 (qo_MilliValue Q (rs_CPULimits res)) instances)),
        rs_MemoryLimits := qo_Add Q (rs_MemoryLimits r) (qo_NewBinary Q (mult64 (qo_Value Q (rs_MemoryLimits res)) instances))\<rparr>)"

definition GetDefaultResources ::
  "'q quantity_ops \<Rightarrow> (string list \<Rightarrow> string list) \<Rightarrow> string \<Rightarrow> sidecars \<Rightarrow> 'q resources" where
  "GetDefaultResources Q order kind s =
     (let r = (zero_resources Q)\<lparr>
            rs_CPURequests := DefaultCPURequests Q, rs_CPULimits := DefaultCPURequests Q,
            rs_MemoryRequests := DefaultMemoryRequests Q, rs_MemoryLimits := DefaultMemoryRequests Q\<rparr>
      in if contains_str kind ''VSHNPostgreSQL'' then AddPsqlSidecarResources Q order s 2 r else r)"

end
