(* ===== verification/Quotas.thy ===== *)
theory Quotas
  imports Resources
begin

text \<open>
  The check of an instance against the quotas (\<open>CheckResourcesAgainstQuotas\<close> and what it calls, in
  \<open>pkg/common/utils/resources.go\<close>) and the quota checker of \<open>pkg/common/quotas/quotas.go\<close>, which first
  looks at the number of namespaces of the organization. Then: when a request is within its quota,
  what the number of namespaces decides, what the default annotations change.
\<close>

section \<open>Quotas of a namespace\<close>

definition quotaAnnotationPrefix :: string where "quotaAnnotationPrefix = ''resourcequota.appuio.io/''"
definition resourceQuotaNameCompute :: string where "resourceQuotaNameCompute = ''organization-compute''"
definition resourceQuotaNameObjects :: string where "resourceQuotaNameObjects = ''organization-objects''"

definition compute_annotation :: "string \<Rightarrow> string" where
  "compute_annotation res = quotaAnnotationPrefix @ resourceQuotaNameCompute @ ''.'' @ res"

definition terminating_annotation :: "string \<Rightarrow> string" where
  "terminating_annotation res = quotaAnnotationPrefix @ resourceQuotaNameCompute @ ''-terminating.'' @ res"

definition DiskAnnotation :: string where
  "DiskAnnotation = quotaAnnotationPrefix @ resourceQuotaNameObjects @ ''.requests.storage''"

definition StorageClassesAnnotation :: string where
  "StorageClassesAnnotation = quotaAnnotationPrefix @ resourceQuotaNameObjects @ ''.storageclasses''"

definition CpuRequestAnnotation :: string where "CpuRequestAnnotation = compute_annotation ''requests.cpu''"
definition CpuLimitAnnotation :: string where "CpuLimitAnnotation = compute_annotation ''limits.cpu''"
definition MemoryRequestAnnotation :: string where "MemoryRequestAnnotation = compute_annotation ''requests.memory''"
definition MemoryLimitAnnotation :: string where "MemoryLimitAnnotation = compute_annotation ''limits.memory''"
definition CpuRequestTerminationQuota :: string where "CpuRequestTerminationQuota = terminating_annotation ''requests.cpu''"
definition CpuLimitTerminationQuota :: string where "CpuLimitTerminationQuota = terminating_annotation ''limits.cpu''"
definition MemoryRequestTerminationQuota :: string where "MemoryRequestTerminationQuota = terminating_annotation ''requests.memory''"
definition MemoryLimitTerminationQuota :: string where "MemoryLimitTerminationQuota = terminating_annotation ''limits.memory''"
definition ActiveDeadlineSecondsOverrideAnnotation :: string where
  "ActiveDeadlineSecondsOverrideAnnotation = ''appuio.io/active-deadline-seconds-override''"

lemmas annotation_defs = quotaAnnotationPrefix_def resourceQuotaNameCompute_def resourceQuotaNameObjects_def
  compute_annotation_def terminating_annotation_def DiskAnnotation_def StorageClassesAnnotation_def
  CpuRequestAnnotation_def CpuLimitAnnotation_def MemoryRequestAnnotation_def MemoryLimitAnnotation_def
  CpuRequestTerminationQuota_def CpuLimitTerminationQuota_def MemoryRequestTerminationQuota_def
  MemoryLimitTerminationQuota_def ActiveDeadlineSecondsOverrideAnnotation_def

text \<open>One block of \<open>getNamespaceQuotas\<close>: an annotation that is set is parsed, another leaves the value.\<close>

definition quota_annotation :: "'q quantity_ops \<Rightarrow> str_map \<Rightarrow> string \<Rightarrow> 'q \<Rightarrow> gerr + 'q" where
  "quota_annotation Q anns k old = (case anns k of None \<Rightarrow> Inr old | Some s \<Rightarrow> qo_Parse Q s)"

definition parse_quotas :: "'q quantity_ops \<Rightarrow> str_map \<Rightarrow> gerr + 'q resources" where
  "parse_quotas Q anns =
     (let z = qo_Zero Q in
      case quota_annotation Q anns CpuRequestAnnotation z of Inl e \<Rightarrow> Inl e | Inr cpuRequests \<Rightarrow>
     (case quota_annotation Q anns CpuLimitAnnotation z of Inl e \<Rightarrow> Inl e | Inr cpuLimits \<Rightarrow>
     (case quota_annotation Q anns MemoryRequestAnnotation z of Inl e \<Rightarrow> Inl e | Inr memoryRequests \<Rightarrow>
     (case quota_annotation Q anns MemoryLimitAnnotation z of Inl e \<Rightarrow> Inl e | Inr memoryLimits \<Rightarrow>
     (case quota_annotation Q anns DiskAnnotation z of Inl e \<Rightarrow> Inl e | Inr disk \<Rightarrow>
        Inr ((zero_resources Q)\<lparr>rs_CPURequests := cpuRequests, rs_CPULimits := cpuLimits,
               rs_MemoryRequests := memoryRequests, rs_MemoryLimits := memoryLimits, rs_Disk := disk\<rparr>))))))"

definition getNamespaceQuotas ::
  "'q quantity_ops \<Rightarrow> 'w quota_env \<Rightarrow> string \<Rightarrow> 'w \<Rightarrow> (gerr + 'q resources) \<times> 'w" where
  "getNamespaceQuotas Q env instanceNamespace w =
     (case qe_GetNamespaceAnnotations env instanceNamespace w of
        (Inl err, w1) \<Rightarrow> (Inl err, w1)
      | (Inr annotations, w1) \<Rightarrow> (parse_quotas Q annotations, w1))"

section \<open>The check\<close>

datatype status_error = InternalError gerr | Invalid "field_error list" | ForbiddenErr | BadRequest gerr

definition check_rows ::
  "'q quantity_ops \<Rightarrow> (string list \<Rightarrow> string list) \<Rightarrow> 'q resources \<Rightarrow> 'q resources \<Rightarrow> string \<Rightarrow> sidecars \<Rightarrow> (string \<times> 'q \<times> 'q \<times> 'q) list" where
  "check_rows Q order r quota kind s =
     (let rDef = GetDefaultResources Q order kind s in
      [(rs_CPURequestsPath r, rs_CPURequests r, rs_CPURequests quota, rs_CPURequests rDef),
       (rs_CPULimitsPath r, rs_CPULimits r, rs_CPULimits quota, rs_CPULimits rDef),
       (rs_MemoryRequestsPath r, rs_MemoryRequests r, rs_MemoryRequests quota, rs_MemoryRequests rDef),
       (rs_MemoryLimitsPath r, rs_MemoryLimits r, rs_MemoryLimits quota, rs_MemoryLimits rDef),
       (rs_DiskPath r, rs_Disk r, rs_Disk quota, DefaultDiskRequests Q)])"

fun check_loop :: "'q quantity_ops \<Rightarrow> (string \<times> 'q \<times> 'q \<times> 'q) list \<Rightarrow> field_error list" where
  "check_loop Q [] = []"
| "check_loop Q ((path, requested, quota, fallback) # rows) =
     (let limit = (if qo_IsZero Q quota then fallback else quota)
      in if qo_Cmp Q requested limit = 1 then field_err FE_Forbidden path [] # check_loop Q rows
         else check_loop Q rows)"

definition checkAgainstResources ::
  "'q quantity_ops \<Rightarrow> (string list \<Rightarrow> string list) \<Rightarrow> 'q resources \<Rightarrow> 'q resources \<Rightarrow> string \<Rightarrow> sidecars \<Rightarrow> field_error list" where
  "checkAgainstResources Q order r quota kind s = check_loop Q (check_rows Q order r quota kind s)"

text \<open>
  \<open>CheckResourcesAgainstQuotas\<close>. A namespace that does not exist has no quotas set (all values zero),
  so the defaults count.
\<close>

definition fetch_sidecars_for :: "'w quota_env \<Rightarrow> string \<Rightarrow> 'w \<Rightarrow> (gerr + sidecars) \<times> 'w" where
  "fetch_sidecars_for env kind w =
     (if kind = ''VSHNPostgreSQL'' then FetchSidecarsFromCluster env ''vshnpostgresqlplans'' w else (Inr [], w))"

definition CheckResourcesAgainstQuotas ::
  "'q quantity_ops \<Rightarrow> 'w quota_env \<Rightarrow> 'q resources \<Rightarrow> string \<Rightarrow> string \<Rightarrow> 'w \<Rightarrow> status_error option \<times> 'w" where
  "CheckResourcesAgainstQuotas Q env r instanceNamespace kind w =
     (let order = qe_SidecarOrder env;
          verdict = (\<lambda>quota s. let errs = checkAgainstResources Q order r quota kind s
                               in if length errs = 0 then None else Some (Invalid errs))
      in case fetch_sidecars_for env kind w of
           (Inl err, w1) \<Rightarrow> (Some (InternalError err), w1)
         | (Inr s, w1) \<Rightarrow>
             (if instanceNamespace \<noteq> [] then
                (case getNamespaceQuotas Q env instanceNamespace w1 of
                   (Inl err, w2) \<Rightarrow>
                     (if \<not> IsNotFound err then (Some (InternalError err), w2)
                      else (verdict (zero_resources Q) s, w2))
                 | (Inr q, w2) \<Rightarrow> (verdict q s, w2))
              else (verdict (GetDefaultResources Q order kind s) s, w1)))"

section \<open>The quota checker\<close>

definition OrgLabelName :: string where "OrgLabelName = ''appuio.io/organization''"
definition DefaultMaxNamespaces :: int where "DefaultMaxNamespaces = 25"
definition OverrideCMDataFieldName :: string where "OverrideCMDataFieldName = ''namespaceQuota''"
definition NsOverrideCMPrefix :: string where "NsOverrideCMPrefix = ''override-''"
definition NsOverrideCMNamespace :: string where "NsOverrideCMNamespace = ''appuio-cloud''"

record 'q quota_checker =
  qc_requestedResources :: "'q resources"
  qc_instanceNamespace :: string
  qc_claimNamespace :: string
  qc_claimName :: string
  qc_kind :: string
  qc_checkNamespaceQuota :: bool
  qc_instances :: int

definition getOrgFromNamespace :: "'w quota_env \<Rightarrow> string \<Rightarrow> 'w \<Rightarrow> (gerr + string) \<times> 'w" where
  "getOrgFromNamespace env nsName w =
     (case qe_GetNamespaceLabels env nsName w of
        (Inl err, w1) \<Rightarrow> (Inl (Wrapped ''cannot get namespace'' err), w1)
      | (Inr labels, w1) \<Rightarrow>
          (case labels OrgLabelName of
             None \<Rightarrow> (Inl (Msg ''namespace does not have organization label''), w1)
           | Some nsOrg \<Rightarrow> (Inr nsOrg, w1)))"

text \<open>The override of an organization, when it has one.\<close>

definition getNamespaceOverrides :: "'w quota_env \<Rightarrow> string \<Rightarrow> 'w \<Rightarrow> (gerr + int option) \<times> 'w" where
  "getNamespaceOverrides env orgName w =
     (case qe_GetConfigMap env NsOverrideCMNamespace (NsOverrideCMPrefix @ orgName) w of
        (Inl err, w1) \<Rightarrow> (if IsNotFound err then (Inr None, w1) else (Inl err, w1))
      | (Inr data, w1) \<Rightarrow>
          (case data OverrideCMDataFieldName of
             None \<Rightarrow> (Inr None, w1)
           | Some override \<Rightarrow>
               (case parse_int override of
                  None \<Rightarrow> (Inl (Msg ''invalid syntax''), w1)
                | Some overrideInt \<Rightarrow> (Inr (Some overrideInt), w1))))"

definition areNamespacesWithinQuota :: "'w quota_env \<Rightarrow> string \<Rightarrow> 'w \<Rightarrow> status_error option \<times> 'w" where
  "areNamespacesWithinQuota env orgName w =
     (case qe_NewRequirement env orgName of
        Some err \<Rightarrow> (Some (BadRequest err), w)
      | None \<Rightarrow>
     (case qe_CountNamespaces env orgName w of
        (Inl err, w1) \<Rightarrow> (Some (BadRequest err), w1)
      | (Inr foundNamespaces, w1) \<Rightarrow>
     (case getNamespaceOverrides env orgName w1 of
        (Inl err, w2) \<Rightarrow> (Some (InternalError err), w2)
      | (Inr (Some override), w2) \<Rightarrow> (if int foundNamespaces \<ge> override then Some ForbiddenErr else None, w2)
      | (Inr None, w2) \<Rightarrow> (if int foundNamespaces \<ge> DefaultMaxNamespaces then Some ForbiddenErr else None, w2))))"

definition CheckQuotas :: "'q quantity_ops \<Rightarrow> 'w quota_env \<Rightarrow> 'q quota_checker \<Rightarrow> 'w \<Rightarrow> status_error option \<times> 'w" where
  "CheckQuotas Q env q w =
     (case getOrgFromNamespace env (qc_claimNamespace q) w of
        (Inl err, w1) \<Rightarrow> (Some (InternalError err), w1)
      | (Inr orgName, w1) \<Rightarrow>
          (case areNamespacesWithinQuota env orgName w1 of
             (Some nsErr, w2) \<Rightarrow> (Some nsErr, w2)
           | (None, w2) \<Rightarrow>
               CheckResourcesAgainstQuotas Q env (qc_requestedResources q) (qc_instanceNamespace q) (qc_kind q) w2))"

section \<open>Default annotations\<close>

text \<open>\<open>if _, ok := annotations[k]; !ok {annotations[k] = v}\<close>.\<close>

definition put_default :: "string \<Rightarrow> string \<Rightarrow> str_map \<Rightarrow> str_map" where
  "put_default k v anns = (case anns k of None \<Rightarrow> anns(k \<mapsto> v) | Some _ \<Rightarrow> anns)"

definition GetExoscaleStorageClassQuota :: string where
  "GetExoscaleStorageClassQuota =
     [CHR ''{'', CHR 0x22] @ ''rbd-storagepool-cluster.storageclass.storage.k8s.io/requests.storage''
       @ [CHR 0x22] @ '': '' @ [CHR 0x22] @ ''100Gi'' @ [CHR 0x22] @ '', '' @ [CHR 0x22]
       @ ''cephfs-fspool-cluster.storageclass.storage.k8s.io/requests.storage''
       @ [CHR 0x22] @ '': '' @ [CHR 0x22] @ ''100Gi'' @ [CHR 0x22, CHR ''}'']"

definition AddNamespaceQuotas ::
  "'q quantity_ops \<Rightarrow> (string list \<Rightarrow> string list) \<Rightarrow> str_map \<Rightarrow> sidecars \<Rightarrow> string \<Rightarrow> string \<Rightarrow> str_map" where
  "AddNamespaceQuotas Q order annotations0 s kind cloudProvider =
     (let r = GetDefaultResources Q order kind s;
          annotations1 = put_default DiskAnnotation (qo_String Q (DefaultDiskRequests Q)) annotations0;
          annotations2 = put_default CpuRequestAnnotation (qo_String Q (rs_CPURequests r)) annotations1;
          annotations3 = put_default CpuLimitAnnotation (qo_String Q (rs_CPULimits r)) annotations2;
          annotations4 = put_default MemoryRequestAnnotation (qo_String Q (rs_MemoryRequests r)) annotations3;
          annotations5 = put_default MemoryLimitAnnotation (qo_String Q (rs_MemoryLimits r)) annotations4;
          annotations6 = put_default CpuRequestTerminationQuota (qo_String Q (rs_CPURequests r)) annotations5;
          annotations7 = put_default CpuLimitTerminationQuota (qo_String Q (rs_CPULimits r)) annotations6;
          annotations8 = put_default MemoryRequestTerminationQuota (qo_String Q (rs_MemoryRequests r)) annotations7;
          annotations9 = put_default MemoryLimitTerminationQuota (qo_String Q (rs_MemoryLimits r)) annotations8;
          annotations10 = put_default ActiveDeadlineSecondsOverrideAnnotation ''21600'' annotations9
      in if cloudProvider = ''exoscale''
         then put_default StorageClassesAnnotation GetExoscaleStorageClassQuota annotations10
         else annotations10)"

section \<open>Laws and an instance\<close>

text \<open>
  What apimachinery documents of quantities, with \<open>val\<close> the amount in units of 10 to the power of -9
  (the finest one \<open>ParseQuantity\<close> keeps): \<open>Cmp\<close> compares amounts, \<open>Value\<close> and \<open>MilliValue\<close> round up.
\<close>

definition quantity_laws :: "'q quantity_ops \<Rightarrow> ('q \<Rightarrow> int) \<Rightarrow> bool" where
  "quantity_laws Q val \<longleftrightarrow>
     (\<forall>a b. qo_Cmp Q a b = (if val a < val b then - 1 else if val a = val b then 0 else 1)) \<and>
     (\<forall>a. qo_IsZero Q a = (val a = 0)) \<and> val (qo_Zero Q) = 0 \<and>
     (\<forall>a b. val (qo_Add Q a b) = val a + val b) \<and>
     (\<forall>a. qo_MilliValue Q a = - ((- val a) div 1000000)) \<and>
     (\<forall>a. qo_Value Q a = - ((- val a) div 1000000000)) \<and>
     (\<forall>a n. val (qo_SetMilli Q a n) = n * 1000000) \<and> (\<forall>a n. val (qo_Set Q a n) = n * 1000000000) \<and>
     (\<forall>n. val (qo_NewMilliDecimal Q n) = n * 1000000) \<and> (\<forall>n. val (qo_NewBinary Q n) = n * 1000000000)"

lemma quantity_lawsD:
  assumes "quantity_laws Q val"
  shows "qo_Cmp Q a b = 1 \<longleftrightarrow> val b < val a" and "qo_Cmp Q a b < 0 \<longleftrightarrow> val a < val b"
    and "qo_IsZero Q a \<longleftrightarrow> val a = 0" and "val (qo_Zero Q) = 0" and "val (qo_Add Q a b) = val a + val b"
    and "val (qo_NewMilliDecimal Q n) = n * 1000000" and "val (qo_NewBinary Q n) = n * 1000000000"
  using assms unfolding quantity_laws_def by auto

definition example_quantity :: "int quantity_ops" where
  "example_quantity = \<lparr>qo_Parse = (\<lambda>s. if s = ''1'' then Inr 1000000000 else Inl (Msg ''bad quantity'')),
     qo_Cmp = (\<lambda>a b. if a < b then - 1 else if a = b then 0 else 1), qo_IsZero = (\<lambda>a. a = 0),
     qo_Add = (\<lambda>a b. a + b), qo_Zero = 0, qo_MilliValue = (\<lambda>a. - ((- a) div 1000000)),
     qo_Value = (\<lambda>a. - ((- a) div 1000000000)), qo_SetMilli = (\<lambda>a n. n * 1000000),
     qo_Set = (\<lambda>a n. n * 1000000000), qo_NewMilliDecimal = (\<lambda>n. n * 1000000),
     qo_NewBinary = (\<lambda>n. n * 1000000000), qo_String = (\<lambda>a. itoa a)\<rparr>"

lemma example_quantity_laws: "quantity_laws example_quantity (\<lambda>a. a)"
  by (auto simp: quantity_laws_def example_quantity_def)

definition example_quota_env :: "unit quota_env" where
  "example_quota_env = \<lparr>qe_GetConfigMap = (\<lambda>ns n w. (Inl (ApiErr NotFound), w)),
     qe_GetNamespaceAnnotations = (\<lambda>n w. (Inl (ApiErr NotFound), w)),
     qe_GetNamespaceLabels = (\<lambda>n w. (Inr [OrgLabelName \<mapsto> ''acme''], w)),
     qe_CountNamespaces = (\<lambda>org w. (Inr 25, w)), qe_NewRequirement = (\<lambda>org. None),
     qe_UnmarshalPlans = (\<lambda>s. Inr []), qe_UnmarshalSidecars = (\<lambda>s. Inr []), qe_PlansNamespace = ''plans'',
     qe_SidecarOrder = id\<rparr>"

definition example_checker :: "int quota_checker" where
  "example_checker = \<lparr>qc_requestedResources = zero_resources example_quantity, qc_instanceNamespace = [],
     qc_claimNamespace = ''ns'', qc_claimName = ''pg'', qc_kind = ''VSHNRedis'', qc_checkNamespaceQuota = True,
     qc_instances = 1\<rparr>"

section \<open>Properties\<close>

definition within :: "('q \<Rightarrow> int) \<Rightarrow> 'q \<Rightarrow> 'q \<Rightarrow> 'q \<Rightarrow> bool" where
  "within val requested quota fallback \<longleftrightarrow> val requested \<le> (if val quota = 0 then val fallback else val quota)"

lemma check_loop_Nil:
  assumes "quantity_laws Q val"
  shows "check_loop Q rows = [] \<longleftrightarrow> (\<forall>(path, requested, quota, fallback) \<in> set rows. within val requested quota fallback)"
  by (induction rows) (auto simp: Let_def within_def quantity_lawsD [OF assms] split: prod.splits)

text \<open>
  C13. The check finds no error exactly when each of the five requested amounts is at most its quota,
  where a quota of zero (or none) stands for the default.
\<close>

theorem quota_check_exact:
  assumes "quantity_laws Q val"
  shows "checkAgainstResources Q order r quota kind s = [] \<longleftrightarrow>
    (let d = GetDefaultResources Q order kind s in
       within val (rs_CPURequests r) (rs_CPURequests quota) (rs_CPURequests d) \<and>
       within val (rs_CPULimits r) (rs_CPULimits quota) (rs_CPULimits d) \<and>
       within val (rs_MemoryRequests r) (rs_MemoryRequests quota) (rs_MemoryRequests d) \<and>
       within val (rs_MemoryLimits r) (rs_MemoryLimits quota) (rs_MemoryLimits d) \<and>
       within val (rs_Disk r) (rs_Disk quota) (DefaultDiskRequests Q))"
  unfolding checkAgainstResources_def check_loop_Nil [OF assms] by (simp add: check_rows_def Let_def)

theorem quota_check_exact_witness:
  "checkAgainstResources example_quantity id
     ((zero_resources example_quantity)\<lparr>rs_CPURequests := 5000000000\<rparr>) (zero_resources example_quantity) ''VSHNRedis'' [] = []"
  by (simp add: quota_check_exact [OF example_quantity_laws] within_def Let_def)
     (simp add: zero_resources_def example_quantity_def GetDefaultResources_def DefaultCPURequests_def
       DefaultMemoryRequests_def DefaultDiskRequests_def has_prefix_def)

text \<open>
  An organization that has reached its number of namespaces (25, or its override) is refused, also
  when the caller asks for the check without the namespace quota, as the update of a PostgreSQL
  instance does.
\<close>

theorem namespace_limit_always_checked:
  assumes "getOrgFromNamespace env (qc_claimNamespace q) w = (Inr org, w1)"
    and "qe_NewRequirement env org = None" and "qe_CountNamespaces env org w1 = (Inr n, w2)"
    and "getNamespaceOverrides env org w2 = (Inr override, w3)"
    and "(case override of None \<Rightarrow> 25 | Some k \<Rightarrow> k) \<le> int n"
  shows "CheckQuotas Q env (q\<lparr>qc_checkNamespaceQuota := False\<rparr>) w = (Some ForbiddenErr, w3)"
  using assms by (auto simp: CheckQuotas_def areNamespacesWithinQuota_def DefaultMaxNamespaces_def split: option.splits)

theorem namespace_limit_always_checked_witness:
  "CheckQuotas example_quantity example_quota_env (example_checker\<lparr>qc_checkNamespaceQuota := False\<rparr>) () = (Some ForbiddenErr, ())"
  by (rule namespace_limit_always_checked [where org = "''acme''" and n = 25 and override = None])
    (simp_all add: getOrgFromNamespace_def getNamespaceOverrides_def example_quota_env_def)

definition managed_annotations :: "string list" where
  "managed_annotations = [DiskAnnotation, CpuRequestAnnotation, CpuLimitAnnotation, MemoryRequestAnnotation,
     MemoryLimitAnnotation, CpuRequestTerminationQuota, CpuLimitTerminationQuota, MemoryRequestTerminationQuota,
     MemoryLimitTerminationQuota, ActiveDeadlineSecondsOverrideAnnotation]"

lemma put_default_keeps: "m \<subseteq>\<^sub>m m' \<Longrightarrow> m \<subseteq>\<^sub>m put_default k v m'"
  by (force simp: map_le_def put_default_def dom_def split: option.splits)

lemma put_default_dom: "dom (put_default k v m) = insert k (dom m)"
  by (auto simp: put_default_def split: option.splits)

lemma put_default_id: "k \<in> dom m \<Longrightarrow> put_default k v m = m"
  by (auto simp: put_default_def)

lemma AddNamespaceQuotas_fixed:
  assumes "set managed_annotations \<subseteq> dom a" and "cloudProvider = ''exoscale'' \<Longrightarrow> StorageClassesAnnotation \<in> dom a"
  shows "AddNamespaceQuotas Q order a s kind cloudProvider = a"
  using assms by (simp add: AddNamespaceQuotas_def Let_def managed_annotations_def put_default_id)

text \<open>
  The default quotas overwrite no annotation, set every annotation that is managed (and on Exoscale
  the storage classes) and nothing else, and adding them a second time changes nothing.
\<close>

theorem AddNamespaceQuotas_defaults:
  "annotations \<subseteq>\<^sub>m AddNamespaceQuotas Q order annotations s kind cloudProvider \<and>
   dom (AddNamespaceQuotas Q order annotations s kind cloudProvider) =
     dom annotations \<union> set managed_annotations \<union> (if cloudProvider = ''exoscale'' then {StorageClassesAnnotation} else {}) \<and>
   AddNamespaceQuotas Q order (AddNamespaceQuotas Q order annotations s kind cloudProvider) s' kind' cloudProvider
     = AddNamespaceQuotas Q order annotations s kind cloudProvider"
proof (intro conjI)
  let ?A = "\<lambda>a s k. AddNamespaceQuotas Q order a s k cloudProvider"
  show "annotations \<subseteq>\<^sub>m ?A annotations s kind"
    by (simp add: AddNamespaceQuotas_def Let_def put_default_keeps)
  show dom: "dom (?A annotations s kind) = dom annotations \<union> set managed_annotations \<union>
      (if cloudProvider = ''exoscale'' then {StorageClassesAnnotation} else {})"
    by (auto simp: AddNamespaceQuotas_def Let_def put_default_dom managed_annotations_def)
  show "?A (?A annotations s kind) s' kind' = ?A annotations s kind"
    by (rule AddNamespaceQuotas_fixed) (unfold dom, auto)
qed


end
