(* ===== verification/DefaultWebhook.thy ===== *)
theory DefaultWebhook
  imports Quotas Labels
begin

text \<open>
  The validation every service shares, \<open>pkg/controller/webhooks/default_handler.go\<close>: provider
  configurations, quotas, disk downsizing, name length, guaranteed availability and warnings. The
  claim is the record \<open>service_claim\<close> of what the code reads through \<open>common.Composite\<close>; a validator
  returns its warnings, its error and the world.
\<close>

section \<open>Claims and the cluster\<close>

record service_claim =
  sv_Name :: string
  sv_Namespace :: string
  sv_Labels :: str_map
  sv_Instances :: int
  sv_Plan :: string
  sv_CPU :: string
  sv_Memory :: string
  sv_Disk :: string
  sv_RequestsCPU :: string
  sv_RequestsMemory :: string
  sv_InstanceNamespace :: string
  sv_SLA :: string
  sv_DeletionTimestamp :: "instant option"
  sv_DeletionProtection :: bool
  sv_PinImageTag :: string
  sv_DisableAppcatRelease :: bool

record default_handler =
  dh_withQuota :: bool
  dh_name :: string
  dh_kind :: string
  dh_nameLength :: int

datatype provider_kind = KubernetesProvider | HelmProvider

text \<open>
  The quotas' cluster, the reads of provider configurations (as decoded objects) and secrets, and the
  accessors of apimachinery.
\<close>

record 'w webhook_env =
  we_Quota :: "'w quota_env"
  we_GetProviderConfig :: "provider_kind \<Rightarrow> string \<Rightarrow> 'w \<Rightarrow> (gerr + (string \<times> gany) list) \<times> 'w"
  we_GetSecret :: "string \<Rightarrow> string \<Rightarrow> 'w \<Rightarrow> gerr option \<times> 'w"
  we_NestedMap :: "(string \<times> gany) list \<Rightarrow> string list \<Rightarrow> gerr + (string \<times> gany) list option"
  we_NestedString :: "(string \<times> gany) list \<Rightarrow> string list \<Rightarrow> gerr + string option"

datatype warning = WarnPinnedImage | WarnReleaseDisabled
  | WarnPinIgnored | WarnNotOptimized | WarnEnvVariablesRef | WarnCustomizationImage

text \<open>A claim with the fields of its service, read as a \<open>common.Composite\<close>.\<close>

abbreviation as_composite :: "'a service_claim_scheme \<Rightarrow> service_claim" where
  "as_composite \<equiv> service_claim.truncate"

section \<open>Provider configurations\<close>

definition label_error :: "field_error_type \<Rightarrow> string \<Rightarrow> field_error" where
  "label_error t v = field_err t (''metadata.labels.'' @ ProviderConfigLabel) v"

definition validateProviderConfigSecret ::
  "'w webhook_env \<Rightarrow> (string \<times> gany) list \<Rightarrow> string \<Rightarrow> 'w \<Rightarrow> field_error option \<times> 'w" where
  "validateProviderConfigSecret env providerConfig name w =
     (case we_NestedMap env providerConfig [''spec'', ''credentials''] of
        Inl err \<Rightarrow> (Some (label_error FE_Internal name), w)
      | Inr None \<Rightarrow> (Some (label_error FE_Invalid name), w)
      | Inr (Some credentials) \<Rightarrow>
     (case we_NestedString env credentials [''source''] of
        Inl err \<Rightarrow> (Some (label_error FE_Internal name), w)
      | Inr source \<Rightarrow>
     (case we_NestedMap env credentials [''secretRef''] of
        Inl err \<Rightarrow> (Some (label_error FE_Internal name), w)
      | Inr secretRef \<Rightarrow>
          (if source = None \<and> secretRef = None then (Some (label_error FE_Invalid name), w)
           else if source \<noteq> None then (None, w)
           else
             (case secretRef of
                None \<Rightarrow> (Some (label_error FE_Invalid name), w)
              | Some ref \<Rightarrow>
             (case we_NestedString env ref [''name''] of
                Inr (Some secretName) \<Rightarrow>
                  (if secretName = [] then (Some (label_error FE_Invalid name), w)
                   else
                  (case we_NestedString env ref [''namespace''] of
                     Inr (Some secretNamespace) \<Rightarrow>
                       (if secretNamespace = [] then (Some (label_error FE_Invalid name), w)
                        else (case we_GetSecret env secretNamespace secretName w of
                                (None, w1) \<Rightarrow> (None, w1)
                              | (Some err, w1) \<Rightarrow>
                                  (if IsNotFound err then (Some (label_error FE_NotFound name), w1)
                                   else (Some (label_error FE_Internal name), w1))))
                   | _ \<Rightarrow> (Some (label_error FE_Invalid name), w)))
              | _ \<Rightarrow> (Some (label_error FE_Invalid name), w)))))))"

text \<open>One of the two blocks of \<open>ValidateProviderConfig\<close>.\<close>

definition check_provider ::
  "'w webhook_env \<Rightarrow> provider_kind \<Rightarrow> string \<Rightarrow> 'w \<Rightarrow> field_error option \<times> 'w" where
  "check_provider env kind name w =
     (case we_GetProviderConfig env kind name w of
        (Inl err, w1) \<Rightarrow> (Some (label_error (if IsNotFound err then FE_NotFound else FE_Internal) name), w1)
      | (Inr config, w1) \<Rightarrow> validateProviderConfigSecret env config name w1)"

definition ValidateProviderConfig ::
  "'w webhook_env \<Rightarrow> service_claim \<Rightarrow> 'w \<Rightarrow> field_error list \<times> 'w" where
  "ValidateProviderConfig env c w =
     (case sv_Labels c ProviderConfigLabel of
        None \<Rightarrow> ([], w)
      | Some name \<Rightarrow>
          (if name = [] then ([], w)
           else
             (let (kubeErr, w1) = check_provider env KubernetesProvider name w;
                  (helmErr, w2) = check_provider env HelmProvider name w1
              in (add_opt (add_opt [] kubeErr) helmErr, w2))))"

section \<open>Quotas\<close>

definition addPathsToResources :: "bool \<Rightarrow> 'q resources \<Rightarrow> 'q resources" where
  "addPathsToResources isLegacy res =
     (let base = ''spec.parameters.size.'' in
      if isLegacy then
        res\<lparr>rs_CPULimitsPath := base @ ''CPULimits'', rs_CPURequestsPath := base @ ''CPURequests'',
            rs_MemoryLimitsPath := base @ ''memoryLimits'', rs_MemoryRequestsPath := base @ ''memoryLimits'',
            rs_DiskPath := base @ ''disk''\<rparr>
      else
        res\<lparr>rs_CPULimitsPath := base @ ''CPU'', rs_CPURequestsPath := base @ ''Requests.CPU'',
            rs_MemoryLimitsPath := base @ ''Memory'', rs_MemoryRequestsPath := base @ ''Requests.Memory'',
            rs_DiskPath := base @ ''disk''\<rparr>)"

text \<open>\<open>parseResource\<close> (in \<open>postgresql.go\<close>): the quantity, zero after an error, and the error.\<close>

definition parseResource :: "'q quantity_ops \<Rightarrow> string \<Rightarrow> string \<Rightarrow> 'q \<times> field_error option" where
  "parseResource Q path v =
     (case qo_Parse Q v of
        Inl err \<Rightarrow> (qo_Zero Q, Some (field_err FE_Invalid path v))
      | Inr q \<Rightarrow> (q, None))"

text \<open>
  A block \<open>if size != "" { resources.X, fieldErr = parseResource(...) }\<close>, for the value that is set;
  the five blocks are the same in the default handler and in the one for PostgreSQL.
\<close>

definition size_field ::
  "'q quantity_ops \<Rightarrow> string \<Rightarrow> string \<Rightarrow> 'q \<Rightarrow> field_error list \<Rightarrow> 'q \<times> field_error list" where
  "size_field Q path v old errs =
     (if v = [] then (old, errs) else (case parseResource Q path v of (q, e) \<Rightarrow> (q, add_opt errs e)))"

definition parse_sizes ::
  "'q quantity_ops \<Rightarrow> service_claim \<Rightarrow> 'q resources \<Rightarrow> 'q resources \<times> field_error list" where
  "parse_sizes Q c r =
     (let (cpuLimits, errs1) = size_field Q (rs_CPULimitsPath r) (sv_CPU c) (rs_CPULimits r) [];
          (cpuRequests, errs2) = size_field Q (rs_CPURequestsPath r) (sv_RequestsCPU c) (rs_CPURequests r) errs1;
          (memoryLimits, errs3) = size_field Q (rs_MemoryLimitsPath r) (sv_Memory c) (rs_MemoryLimits r) errs2;
          (memoryRequests, errs4) = size_field Q (rs_MemoryRequestsPath r) (sv_RequestsMemory c) (rs_MemoryRequests r) errs3;
          (disk, errs5) = size_field Q (rs_DiskPath r) (sv_Disk c) (rs_Disk r) errs4
      in (r\<lparr>rs_CPULimits := cpuLimits, rs_CPURequests := cpuRequests, rs_MemoryLimits := memoryLimits,
            rs_MemoryRequests := memoryRequests, rs_Disk := disk\<rparr>, errs5))"

text \<open>The resources of the plan, when one is set.\<close>

definition plan_resources ::
  "'q quantity_ops \<Rightarrow> 'w webhook_env \<Rightarrow> string \<Rightarrow> string \<Rightarrow> 'w \<Rightarrow> (gerr + 'q resources) \<times> 'w" where
  "plan_resources Q env name plan w =
     (if plan \<noteq> [] then FetchPlansFromCluster Q (we_Quota env) name plan w else (Inr (zero_resources Q), w))"

definition checkQuotas ::
  "'q quantity_ops \<Rightarrow> 'w webhook_env \<Rightarrow> default_handler \<Rightarrow> service_claim \<Rightarrow> bool \<Rightarrow> 'w \<Rightarrow> status_error option \<times> 'w" where
  "checkQuotas Q env h c checkNamespaceQuota w =
     (case plan_resources Q env (''vshn'' @ dh_name h @ ''plans'') (sv_Plan c) w of
        (Inl err, w1) \<Rightarrow> (Some (InternalError err), w1)
      | (Inr resources, w1) \<Rightarrow>
          (case parse_sizes Q c (addPathsToResources (dh_name h = ''redis'') resources) of
             (resources1, allErrs) \<Rightarrow>
               (if length allErrs \<noteq> 0 then (Some (Invalid allErrs), w1)
                else CheckQuotas Q (we_Quota env)
                       \<lparr>qc_requestedResources = MultiplyBy Q (sv_Instances c) resources1,
                        qc_instanceNamespace = sv_InstanceNamespace c, qc_claimNamespace = sv_Namespace c,
                        qc_claimName = sv_Name c, qc_kind = dh_kind h,
                        qc_checkNamespaceQuota = checkNamespaceQuota, qc_instances = sv_Instances c\<rparr> w1)))"

definition quota_error :: "status_error option \<Rightarrow> field_error option" where
  "quota_error e = (case e of None \<Rightarrow> None
     | Some _ \<Rightarrow> Some (field_err FE_Forbidden ''quota'' ''*your namespace quota*''))"

section \<open>Disk size\<close>

definition getEffectiveDiskSize ::
  "'q quantity_ops \<Rightarrow> 'w webhook_env \<Rightarrow> service_claim \<Rightarrow> string \<Rightarrow> 'w \<Rightarrow> (gerr + string) \<times> 'w" where
  "getEffectiveDiskSize Q env c serviceName w =
     (if sv_Disk c \<noteq> [] then (Inr (sv_Disk c), w)
      else if sv_Plan c \<noteq> [] then
        (case FetchPlansFromCluster Q (we_Quota env) (to_lower serviceName @ ''plans'') (sv_Plan c) w of
           (Inl err, w1) \<Rightarrow> (Inl (Wrapped ''failed to fetch plan'' err), w1)
         | (Inr planResources, w1) \<Rightarrow>
             (if qo_IsZero Q (rs_Disk planResources) then (Inr [], w1)
              else (Inr (qo_String Q (rs_Disk planResources)), w1)))
      else (Inr [], w))"

definition size_value :: "service_claim \<Rightarrow> string" where
  "size_value c = ''plan: '' @ sv_Plan c @ '', disk: '' @ sv_Disk c"

definition ValidateDiskDownsizing ::
  "'q quantity_ops \<Rightarrow> 'w webhook_env \<Rightarrow> service_claim \<Rightarrow> service_claim \<Rightarrow> string \<Rightarrow> 'w \<Rightarrow> field_error option \<times> 'w" where
  "ValidateDiskDownsizing Q env oldComp newComp serviceName w =
     (case getEffectiveDiskSize Q env oldComp serviceName w of
        (Inl err, w1) \<Rightarrow> (None, w1)
      | (Inr oldDiskSize, w1) \<Rightarrow>
          (if oldDiskSize = [] then (None, w1)
           else
     (case getEffectiveDiskSize Q env newComp serviceName w1 of
        (Inl err, w2) \<Rightarrow> (Some (field_err FE_Invalid ''spec.parameters.size'' (size_value newComp)), w2)
      | (Inr newDiskSize, w2) \<Rightarrow>
          (if newDiskSize = [] then (None, w2)
           else
     (case qo_Parse Q oldDiskSize of
        Inl err \<Rightarrow> (None, w2)
      | Inr oldQuantity \<Rightarrow>
     (case qo_Parse Q newDiskSize of
        Inl err \<Rightarrow> (Some (field_err FE_Invalid ''spec.parameters.size.disk'' newDiskSize), w2)
      | Inr newQuantity \<Rightarrow>
          (if qo_Cmp Q newQuantity oldQuantity < 0
           then (Some (field_err FE_Forbidden ''spec.parameters.size'' (size_value newComp)), w2)
           else (None, w2))))))))"

section \<open>Other checks\<close>

definition validateResourceNameLength :: "default_handler \<Rightarrow> string \<Rightarrow> field_error option" where
  "validateResourceNameLength h name =
     (if int (length name) > dh_nameLength h then Some (field_err FE_TooLong ''.metadata.name'' name) else None)"

definition checkGuaranteedAvailability :: "service_claim \<Rightarrow> field_error list" where
  "checkGuaranteedAvailability c =
     (if sv_SLA c = ''guaranteed'' \<and> sv_Instances c > 0 \<and> sv_Instances c < 2
      then [field_err FE_Invalid ''spec.parameters.instances'' (itoa (sv_Instances c))] else [])"

definition checkManualVersionManagementWarnings :: "service_claim \<Rightarrow> warning list" where
  "checkManualVersionManagementWarnings c =
     (if sv_PinImageTag c \<noteq> [] then [WarnPinnedImage] else []) @
     (if sv_DisableAppcatRelease c then [WarnReleaseDisabled] else [])"

section \<open>The validators\<close>

text \<open>The block under \<open>if r.withQuota\<close>.\<close>

definition quota_block ::
  "'q quantity_ops \<Rightarrow> 'w webhook_env \<Rightarrow> default_handler \<Rightarrow> service_claim \<Rightarrow> 'w \<Rightarrow> field_error option \<times> 'w" where
  "quota_block Q env h c w =
     (if dh_withQuota h
      then (case checkQuotas Q env h c True w of (e, w1) \<Rightarrow> (quota_error e, w1))
      else (None, w))"

definition Default_ValidateCreate ::
  "'q quantity_ops \<Rightarrow> 'w webhook_env \<Rightarrow> default_handler \<Rightarrow> service_claim \<Rightarrow> 'w
     \<Rightarrow> warning list \<times> webhook_error option \<times> 'w" where
  "Default_ValidateCreate Q env h c w =
     (let (allErrs1, w1) = ValidateProviderConfig env c w;
          (quotaErr, w2) = quota_block Q env h c w1;
          allErrs2 = add_opt allErrs1 quotaErr;
          allErrs3 = add_opt allErrs2 (validateResourceNameLength h (sv_Name c));
          allErrs4 = allErrs3 @ checkGuaranteedAvailability c
      in (checkManualVersionManagementWarnings c, Get allErrs4, w2))"

definition Default_ValidateUpdate ::
  "'q quantity_ops \<Rightarrow> 'w webhook_env \<Rightarrow> default_handler \<Rightarrow> service_claim \<Rightarrow> service_claim \<Rightarrow> 'w
     \<Rightarrow> warning list \<times> webhook_error option \<times> 'w" where
  "Default_ValidateUpdate Q env h oldComp c w =
     (if sv_DeletionTimestamp c \<noteq> None then ([], None, w)
      else
        (let (diskErr, w1) = ValidateDiskDownsizing Q env oldComp c (dh_kind h) w;
             allErrs1 = add_opt [] diskErr;
             (providerConfigErrs, w2) = ValidateProviderConfig env c w1;
             allErrs2 = allErrs1 @ providerConfigErrs;
             (quotaErr, w3) = quota_block Q env h c w2;
             allErrs3 = add_opt allErrs2 quotaErr;
             allErrs4 = allErrs3 @ checkGuaranteedAvailability c
         in (checkManualVersionManagementWarnings c, Get allErrs4, w3)))"

definition Default_ValidateDelete :: "service_claim \<Rightarrow> webhook_error option" where
  "Default_ValidateDelete c = Get (add_opt [] (GetClaimDeletionProtection (sv_DeletionProtection c)))"

section \<open>Laws and an instance\<close>

text \<open>The accessors do what apimachinery documents of them.\<close>

definition accessor_laws :: "'w webhook_env \<Rightarrow> bool" where
  "accessor_laws env \<longleftrightarrow> we_NestedMap env = nested_as as_map \<and> we_NestedString env = nested_as as_string"

definition example_credentials :: "(string \<times> gany) list" where
  "example_credentials = [(''source'', GStr ''Secret''),
     (''secretRef'', GMap [(''name'', GStr ''creds''), (''namespace'', GStr ''crossplane'')])]"

definition example_webhook_env :: "unit webhook_env" where
  "example_webhook_env = \<lparr>we_Quota = example_quota_env,
     we_GetProviderConfig = (\<lambda>k n w. (Inr [(''spec'', GMap [(''credentials'', GMap example_credentials)])], w)),
     we_GetSecret = (\<lambda>ns n w. (Some (ApiErr NotFound), w)),
     we_NestedMap = nested_as as_map, we_NestedString = nested_as as_string\<rparr>"

lemma example_webhook_env_laws: "accessor_laws example_webhook_env"
  by (simp add: accessor_laws_def example_webhook_env_def)

definition example_claim :: service_claim where
  "example_claim = \<lparr>sv_Name = ''db'', sv_Namespace = ''ns'', sv_Labels = (\<lambda>_. None), sv_Instances = 1, sv_Plan = [],
     sv_CPU = [], sv_Memory = [], sv_Disk = ''1'', sv_RequestsCPU = [], sv_RequestsMemory = [],
     sv_InstanceNamespace = ''db-ns'', sv_SLA = ''besteffort'', sv_DeletionTimestamp = None,
     sv_DeletionProtection = False, sv_PinImageTag = [], sv_DisableAppcatRelease = False\<rparr>"

definition example_handler :: default_handler where
  "example_handler = \<lparr>dh_withQuota = False, dh_name = ''redis'', dh_kind = ''VSHNRedis'', dh_nameLength = 37\<rparr>"

section \<open>Properties\<close>

lemma nested_as_1: "nested_as cast m [k] = (case map_of m k of None \<Rightarrow> Inr None
   | Some v \<Rightarrow> (case cast v of None \<Rightarrow> Inl (Msg ''accessor error'') | Some x \<Rightarrow> Inr (Some x)))"
  by (simp add: nested_as_def split: option.splits)

lemma as_string_Some [simp]: "as_string v = Some s \<longleftrightarrow> v = GStr s"
  by (cases v) auto

lemma as_map_Some [simp]: "as_map v = Some m \<longleftrightarrow> v = GMap m"
  by (cases v) auto

text \<open>The value of a one-element path, by cases.\<close>

lemma nested_string_cases:
  obtains e where "nested_as as_string m [k] = Inl e" "\<And>s. map_of m k \<noteq> Some (GStr s)" "map_of m k \<noteq> None"
  | "nested_as as_string m [k] = Inr None" "map_of m k = None"
  | s where "nested_as as_string m [k] = Inr (Some s)" "map_of m k = Some (GStr s)"
  by (cases "map_of m k"; cases "or_zero GNull (map_of m k)") (auto simp: nested_as_1)

lemma nested_map_cases:
  obtains e where "nested_as as_map m [k] = Inl e" "\<And>s. map_of m k \<noteq> Some (GMap s)" "map_of m k \<noteq> None"
  | "nested_as as_map m [k] = Inr None" "map_of m k = None"
  | s where "nested_as as_map m [k] = Inr (Some s)" "map_of m k = Some (GMap s)"
  by (cases "map_of m k"; cases "or_zero GNull (map_of m k)") (auto simp: nested_as_1)

text \<open>A \<open>secretRef\<close> names a secret that exists.\<close>

definition secret_exists :: "'w webhook_env \<Rightarrow> (string \<times> gany) list \<Rightarrow> 'w \<Rightarrow> bool" where
  "secret_exists env ref w \<longleftrightarrow> (\<exists>n ns. map_of ref ''name'' = Some (GStr n) \<and> n \<noteq> [] \<and>
     map_of ref ''namespace'' = Some (GStr ns) \<and> ns \<noteq> [] \<and> fst (we_GetSecret env ns n w) = None)"

text \<open>
  The credentials of a provider configuration pass exactly when they have a \<open>source\<close> - then the
  secret is not looked for, whatever \<open>secretRef\<close> says - or, without one, when \<open>secretRef\<close> names a secret
  that exists.
\<close>

theorem provider_secret_exact:
  assumes "accessor_laws env" and "map_of config ''spec'' = Some (GMap spec)"
    and "map_of spec ''credentials'' = Some (GMap cred)"
  shows "fst (validateProviderConfigSecret env config name w) = None \<longleftrightarrow>
    (\<exists>src. map_of cred ''source'' = Some (GStr src)) \<and> (\<forall>v. map_of cred ''secretRef'' = Some v \<longrightarrow> (\<exists>ref. v = GMap ref)) \<or>
    map_of cred ''source'' = None \<and> (\<exists>ref. map_of cred ''secretRef'' = Some (GMap ref) \<and> secret_exists env ref w)"
proof -
  have acc: "we_NestedMap env = nested_as as_map" "we_NestedString env = nested_as as_string"
    using assms(1) by (simp_all add: accessor_laws_def)
  have cred: "nested_as as_map config [''spec'', ''credentials''] = Inr (Some cred)"
    using assms(2,3) by (simp add: nested_as_def)
  have ref: "fst (case nested_as as_string ref [''name''] of
                Inr (Some secretName) \<Rightarrow>
                  (if secretName = [] then (Some (label_error FE_Invalid name), w)
                   else
                  (case nested_as as_string ref [''namespace''] of
                     Inr (Some secretNamespace) \<Rightarrow>
                       (if secretNamespace = [] then (Some (label_error FE_Invalid name), w)
                        else (case we_GetSecret env secretNamespace secretName w of
                                (None, w1) \<Rightarrow> (None, w1)
                              | (Some err, w1) \<Rightarrow>
                                  (if IsNotFound err then (Some (label_error FE_NotFound name), w1)
                                   else (Some (label_error FE_Internal name), w1))))
                   | _ \<Rightarrow> (Some (label_error FE_Invalid name), w)))
              | _ \<Rightarrow> (Some (label_error FE_Invalid name), w)) = None \<longleftrightarrow> secret_exists env ref w" for ref
    by (cases rule: nested_string_cases [of ref "''name''"]; cases rule: nested_string_cases [of ref "''namespace''"])
       (auto simp: secret_exists_def split: prod.splits option.splits)
  show ?thesis
    unfolding validateProviderConfigSecret_def acc cred
    by (cases rule: nested_string_cases [of cred "''source''"]; cases rule: nested_map_cases [of cred "''secretRef''"])
       (auto simp: ref)
qed

theorem provider_secret_exact_witness:
  "fst (validateProviderConfigSecret example_webhook_env [(''spec'', GMap [(''credentials'', GMap example_credentials)])] ''pc'' ()) = None"
  by (subst provider_secret_exact [OF example_webhook_env_laws, where spec = "[(''credentials'', GMap example_credentials)]"
        and cred = example_credentials])
     (simp_all add: example_credentials_def)

lemma ValidateDiskDownsizing_exact:
  assumes "quantity_laws Q val"
    and "getEffectiveDiskSize Q env oldComp s w = (Inr oldSize, w1)" and "oldSize \<noteq> []" and "qo_Parse Q oldSize = Inr oldQ"
    and "getEffectiveDiskSize Q env newComp s w1 = (Inr newSize, w2)" and "newSize \<noteq> []" and "qo_Parse Q newSize = Inr newQ"
  shows "fst (ValidateDiskDownsizing Q env oldComp newComp s w) = None \<longleftrightarrow> val oldQ \<le> val newQ"
  using assms quantity_lawsD(2) [OF assms(1)] by (simp add: ValidateDiskDownsizing_def not_less)

text \<open>
  C14. Of a claim that is not being deleted, whose disk size so far is known, not empty and a valid quantity, an accepted
  update has a disk size, explicit or of its plan, that is known too; unless it is empty, when nothing is compared, it
  is a valid quantity and not smaller.
\<close>

theorem update_never_shrinks_disk:
  assumes "quantity_laws Q val" and "sv_DeletionTimestamp c = None"
    and "getEffectiveDiskSize Q env oldComp (dh_kind h) w = (Inr oldSize, w1)" and "oldSize \<noteq> []"
    and "qo_Parse Q oldSize = Inr oldQ"
    and "Default_ValidateUpdate Q env h oldComp c w = (warnings, None, w')"
  shows "\<exists>newSize w2. getEffectiveDiskSize Q env c (dh_kind h) w1 = (Inr newSize, w2) \<and>
    (newSize \<noteq> [] \<longrightarrow> (\<exists>newQ. qo_Parse Q newSize = Inr newQ \<and> val oldQ \<le> val newQ))"
proof -
  have ok: "fst (ValidateDiskDownsizing Q env oldComp c (dh_kind h) w) = None"
    using assms(2,6) by (auto simp: Default_ValidateUpdate_def split: prod.splits)
  then obtain newSize w2 where new: "getEffectiveDiskSize Q env c (dh_kind h) w1 = (Inr newSize, w2)"
    using assms(3,4) by (auto simp: ValidateDiskDownsizing_def split: prod.splits sum.splits)
  have "\<exists>newQ. qo_Parse Q newSize = Inr newQ \<and> val oldQ \<le> val newQ" if ne: "newSize \<noteq> []"
  proof -
    obtain newQ where q: "qo_Parse Q newSize = Inr newQ"
      using ok assms(3-5) new ne by (auto simp: ValidateDiskDownsizing_def split: sum.splits)
    then show ?thesis using ok ValidateDiskDownsizing_exact [OF assms(1,3-5) new ne q] by simp
  qed
  then show ?thesis using new by blast
qed

lemma example_update: "Default_ValidateUpdate example_quantity example_webhook_env example_handler example_claim example_claim () = ([], None, ())"
  by (simp add: getEffectiveDiskSize_def example_claim_def example_quantity_def Default_ValidateUpdate_def
    ValidateDiskDownsizing_def ValidateProviderConfig_def quota_block_def example_handler_def
    checkGuaranteedAvailability_def checkManualVersionManagementWarnings_def)

theorem update_never_shrinks_disk_witness:
  "Default_ValidateUpdate example_quantity example_webhook_env example_handler example_claim example_claim () = ([], None, ())
     \<and> (\<exists>newQ. qo_Parse example_quantity (sv_Disk example_claim) = Inr newQ \<and> 1000000000 \<le> newQ)"
proof (intro conjI example_update)
  have d: "sv_DeletionTimestamp example_claim = None" by (simp add: example_claim_def)
  have e: "getEffectiveDiskSize example_quantity example_webhook_env example_claim (dh_kind example_handler) () = (Inr (sv_Disk example_claim), ())"
    by (simp add: getEffectiveDiskSize_def example_claim_def example_quantity_def)
  have p: "sv_Disk example_claim \<noteq> []" "qo_Parse example_quantity (sv_Disk example_claim) = Inr 1000000000"
    by (simp_all add: example_quantity_def example_claim_def)
  show "\<exists>newQ. qo_Parse example_quantity (sv_Disk example_claim) = Inr newQ \<and> 1000000000 \<le> newQ"
    using update_never_shrinks_disk [OF example_quantity_laws d e p example_update] e p(1) by auto
qed

end
