(* ===== verification/PostgreSQL.thy ===== *)
theory PostgreSQL
  imports DefaultWebhook
begin

text \<open>
  The webhooks of PostgreSQL, \<open>pkg/controller/webhooks/postgresql{,_cnpg,_stackgres}.go\<close>: the claim
  \<open>VSHNPostgreSQL\<close>, which runs on CloudNativePG or on StackGres, each with its own \<open>pgValidator\<close>, and
  the composite \<open>XVSHNPostgreSQL\<close>. The JSON decoder of the settings, the order in which the decoded map
  is visited and \<open>github.com/blang/semver\<close> are parameters. Then: what the two validators promise (a
  locale, interpreted for both), that an instance which is created never comes to run on StackGres,
  when a major version may change, and that a pinned minor version blocks every update.
\<close>

section \<open>Claims\<close>

record pg_extension =
  ext_Name :: string
  ext_Image :: string
  ext_ImagePullPolicy :: string

text \<open>\<open>pg_Settings\<close> holds the raw JSON, None when it is nil.\<close>

record pg_claim = service_claim +
  pg_CompositionRef :: string
  pg_VacuumEnabled :: bool
  pg_RepackEnabled :: bool
  pg_MajorVersion :: string
  pg_Settings :: "string option"
  pg_Extensions :: "pg_extension list"
  pg_EncryptionEnabled :: bool
  pg_StatusInstanceNamespace :: string
  pg_CurrentVersion :: string

record 'v pg_env =
  pe_UnmarshalSettings :: "string \<Rightarrow> gerr + (string \<times> string) list"
  pe_KeyOrder :: "string list \<Rightarrow> string list"
  pe_ParseTolerant :: "string \<Rightarrow> gerr + 'v"
  pe_LT :: "'v \<Rightarrow> 'v \<Rightarrow> bool"

definition cnpgCompositionRef :: string where
  "cnpgCompositionRef = ''vshnpostgrescnpg.vshn.appcat.vshn.io''"

definition cnpgExtensionMinMajorVersion :: string where "cnpgExtensionMinMajorVersion = ''18''"
definition maxPgResourceNameLength :: int where "maxPgResourceNameLength = 30"

text \<open>The handler as it is set up, with or without quotas.\<close>

definition pg_handler :: "bool \<Rightarrow> default_handler" where
  "pg_handler withQuota = \<lparr>dh_withQuota = withQuota, dh_name = ''postgresql'', dh_kind = ''VSHNPostgreSQL'',
     dh_nameLength = maxPgResourceNameLength\<rparr>"

section \<open>Settings\<close>

definition settings_field :: string where
  "settings_field = ''spec.parameters.service.postgresqlSettings''"

definition decode_settings :: "'v pg_env \<Rightarrow> pg_claim \<Rightarrow> gerr + (string \<times> string) list" where
  "decode_settings pe pg = (case pg_Settings pg of None \<Rightarrow> Inr [] | Some raw \<Rightarrow> pe_UnmarshalSettings pe raw)"

definition validatePgConf :: "'v pg_env \<Rightarrow> pg_claim \<Rightarrow> string list \<Rightarrow> field_error list" where
  "validatePgConf pe pg blocklist =
     (case decode_settings pe pg of
        Inl err \<Rightarrow> [field_err FE_Invalid settings_field (or_zero [] (pg_Settings pg))]
      | Inr pgConf \<Rightarrow>
          concat (map (\<lambda>key. if key \<in> set blocklist
                             then [field_err FE_Forbidden (settings_field @ ''['' @ key @ '']'') []] else [])
                      (pe_KeyOrder pe (remdups (map fst pgConf)))))"

definition cnpgBlocklist :: "string list" where
  "cnpgBlocklist = [
    ''allow_alter_system'', ''allow_system_table_mods'', ''archive_cleanup_command'',
    ''archive_command'', ''archive_mode'', ''bonjour'', ''bonjour_name'', ''cluster_name'',
    ''config_file'', ''data_directory'', ''data_sync_retry'', ''event_source'',
    ''external_pid_file'', ''hba_file'', ''hot_standby'', ''ident_file'', ''jit_provider'',
    ''listen_addresses'', ''log_destination'', ''log_directory'', ''log_file_mode'',
    ''log_filename'', ''log_rotation_age'', ''log_rotation_size'', ''log_truncate_on_rotation'',
    ''logging_collector'', ''port'', ''primary_conninfo'', ''primary_slot_name'',
    ''promote_trigger_file'', ''recovery_end_command'', ''recovery_min_apply_delay'',
    ''recovery_target'', ''recovery_target_action'', ''recovery_target_inclusive'',
    ''recovery_target_lsn'', ''recovery_target_name'', ''recovery_target_time'',
    ''recovery_target_timeline'', ''recovery_target_xid'', ''restart_after_crash'',
    ''restore_command'', ''shared_preload_libraries'', ''ssl'', ''ssl_ca_file'', ''ssl_cert_file'',
    ''ssl_crl_file'', ''ssl_dh_params_file'', ''ssl_ecdh_curve'', ''ssl_key_file'',
    ''ssl_passphrase_command'', ''ssl_passphrase_command_supports_reload'',
    ''ssl_prefer_server_ciphers'', ''stats_temp_directory'', ''synchronous_standby_names'',
    ''syslog_facility'', ''syslog_ident'', ''syslog_sequence_numbers'', ''syslog_split_messages'',
    ''unix_socket_directories'', ''unix_socket_group'', ''unix_socket_permissions'']"

definition stackgresBlocklist :: "string list" where
  "stackgresBlocklist = [
    ''listen_addresses'', ''port'', ''cluster_name'', ''hot_standby'', ''fsync'',
    ''full_page_writes'', ''log_destination'', ''logging_collector'', ''max_replication_slots'',
    ''max_wal_senders'', ''wal_keep_segments'', ''wal_level'', ''wal_log_hints'', ''archive_mode'',
    ''archive_command'']"

section \<open>Extensions\<close>

definition extension_path :: "nat \<Rightarrow> string \<Rightarrow> string" where
  "extension_path i child = ''spec.parameters.service.extensions['' @ itoa (int i) @ ''].'' @ child"

text \<open>The loop over the extensions, the same in both validators; \<open>i\<close> is the index.\<close>

fun extension_loop :: "nat \<Rightarrow> pg_extension list \<Rightarrow> field_error list" where
  "extension_loop i [] = []"
| "extension_loop i (ext # exts) =
     (if ext_Image ext \<noteq> [] then [field_err FE_Forbidden (extension_path i ''image'') []] else []) @
     (if ext_ImagePullPolicy ext \<noteq> [] then [field_err FE_Forbidden (extension_path i ''imagePullPolicy'') []] else []) @
     extension_loop (Suc i) exts"

definition isMajorVersionAtLeast :: "string \<Rightarrow> string \<Rightarrow> bool" where
  "isMajorVersionAtLeast version minVersion =
     (case parse_int version of
        None \<Rightarrow> False
      | Some v \<Rightarrow> (case parse_int minVersion of None \<Rightarrow> False | Some minV \<Rightarrow> v \<ge> minV))"

definition validateCNPGExtensions :: "pg_claim \<Rightarrow> field_error list" where
  "validateCNPGExtensions pg =
     (if isMajorVersionAtLeast (pg_MajorVersion pg) cnpgExtensionMinMajorVersion then []
      else extension_loop 0 (pg_Extensions pg))"

definition validateStackGresExtensions :: "pg_claim \<Rightarrow> field_error list" where
  "validateStackGresExtensions pg = extension_loop 0 (pg_Extensions pg)"

section \<open>Versions\<close>

definition validateNoDowngrade :: "'v pg_env \<Rightarrow> string \<Rightarrow> string \<Rightarrow> string \<Rightarrow> field_error option" where
  "validateNoDowngrade pe oldVersion newVersion path =
     (if oldVersion = [] \<or> newVersion = [] then None
      else
        (case pe_ParseTolerant pe oldVersion of
           Inl err \<Rightarrow> None
         | Inr oldV \<Rightarrow>
        (case pe_ParseTolerant pe newVersion of
           Inl err \<Rightarrow> Some (field_err FE_Invalid path newVersion)
         | Inr newV \<Rightarrow>
             (if pe_LT pe newV oldV then Some (field_err FE_Invalid path newVersion) else None))))"

text \<open>
  \<open>strconv.Atoi\<close> with the value it returns beside an error, which \<open>validateStackGresMajorVersion\<close> goes on
  with: 0 after a syntax error, the nearest \<open>int64\<close> after a range error, which the scan of the digits
  reports as soon as it meets one (\<open>strconv.ParseUint\<close>).
\<close>

datatype num_error = ErrSyntax | ErrRange

fun scan_uint :: "int \<Rightarrow> string \<Rightarrow> int \<times> num_error option" where
  "scan_uint n [] = (n, None)"
| "scan_uint n (c # cs) =
     (case digit_val c of
        None \<Rightarrow> (0, Some ErrSyntax)
      | Some d \<Rightarrow>
          (if n \<ge> (2 ^ 64 - 1) div 10 + 1 then (2 ^ 64 - 1, Some ErrRange)
           else if n * 10 + d > 2 ^ 64 - 1 then (2 ^ 64 - 1, Some ErrRange)
           else scan_uint (n * 10 + d) cs))"

definition Atoi :: "string \<Rightarrow> int \<times> num_error option" where
  "Atoi s =
     (let (neg, ds) = (case s of [] \<Rightarrow> (False, [])
                       | c # cs \<Rightarrow> if c = CHR ''-'' then (True, cs) else if c = CHR ''+'' then (False, cs) else (False, s));
          (un, err) = (if ds = [] then (0, Some ErrSyntax) else scan_uint 0 ds)
      in if err = Some ErrSyntax then (0, err)
         else if \<not> neg \<and> un \<ge> 2 ^ 63 then (2 ^ 63 - 1, Some ErrRange)
         else if neg \<and> un > 2 ^ 63 then (- (2 ^ 63), Some ErrRange)
         else (if neg then - un else un, None))"

text \<open>\<open>if idx := strings.Index(v, "."); idx > 0 {v = v[:idx]}\<close>.\<close>

definition major_part :: "string \<Rightarrow> string" where
  "major_part v = (case cut_char (CHR ''.'') v of
     (before, after, found) \<Rightarrow> if found \<and> before \<noteq> [] then before else v)"

definition major_field :: string where
  "major_field = ''spec.parameters.service.majorVersion''"

definition num_err :: "num_error option \<Rightarrow> string \<Rightarrow> string \<Rightarrow> field_error list" where
  "num_err err path v = (case err of None \<Rightarrow> [] | Some _ \<Rightarrow> [field_err FE_Invalid path v])"

text \<open>The old version and the errors found so far.\<close>

definition old_major :: "string \<Rightarrow> int \<Rightarrow> field_error list \<Rightarrow> int \<times> field_error list" where
  "old_major currentVersion newVersion errList =
     (if currentVersion = [] then (newVersion, errList)
      else (case Atoi (major_part currentVersion) of
              (v, err) \<Rightarrow> (v, errList @ num_err err ''status.currentVersion'' currentVersion)))"

text \<open>The second test of \<open>newVersion != oldVersion\<close> stands after the return and never succeeds.\<close>

definition upgrade_checks :: "pg_claim \<Rightarrow> pg_claim \<Rightarrow> int \<Rightarrow> int \<Rightarrow> field_error list" where
  "upgrade_checks newPg oldPg newVersion oldVersion =
     (if newVersion \<noteq> oldVersion then
        (if oldVersion \<noteq> sint (word_of_int (newVersion - 1) :: 64 word) then [field_err FE_Forbidden major_field []] else []) @
        concat (map (\<lambda>e. if ext_Name e = ''timescaledb'' \<or> ext_Name e = ''postgis''
                         then [field_err FE_Forbidden major_field []] else []) (pg_Extensions oldPg)) @
        (if sv_Instances newPg > 1 then [field_err FE_Forbidden ''spec.parameters.instances'' []] else [])
      else [])"

definition validateStackGresMajorVersion :: "pg_claim \<Rightarrow> pg_claim \<Rightarrow> field_error list" where
  "validateStackGresMajorVersion newPg oldPg =
     (let (newVersion, err) = Atoi (pg_MajorVersion newPg);
          errList1 = num_err err major_field (pg_MajorVersion newPg);
          (oldVersion, errList2) = old_major (pg_CurrentVersion oldPg) newVersion errList1
      in if newVersion \<noteq> oldVersion
         then errList2 @ [field_err FE_Invalid major_field (pg_MajorVersion newPg)]
         else errList2 @ upgrade_checks newPg oldPg newVersion oldVersion)"

section \<open>The validators\<close>

datatype pgValidator = CnpgValidator | StackgresValidator

definition validatorFor :: "pg_claim \<Rightarrow> pgValidator" where
  "validatorFor pg =
     (if pg_CompositionRef pg = [] \<or> pg_CompositionRef pg = cnpgCompositionRef
      then CnpgValidator else StackgresValidator)"

definition cnpg_validate :: "'v pg_env \<Rightarrow> pg_claim \<Rightarrow> pg_claim option \<Rightarrow> field_error list" where
  "cnpg_validate pe newPg oldPg =
     (let allErrs = validatePgConf pe newPg cnpgBlocklist @ validateCNPGExtensions newPg in
      case oldPg of
        None \<Rightarrow> allErrs
      | Some old \<Rightarrow> add_opt allErrs (validateNoDowngrade pe (pg_CurrentVersion old) (pg_MajorVersion newPg) major_field))"

definition stackgres_validate :: "'v pg_env \<Rightarrow> pg_claim \<Rightarrow> pg_claim option \<Rightarrow> field_error list" where
  "stackgres_validate pe newPg oldPg =
     (let allErrs = validatePgConf pe newPg stackgresBlocklist @ validateStackGresExtensions newPg in
      case oldPg of None \<Rightarrow> allErrs | Some old \<Rightarrow> allErrs @ validateStackGresMajorVersion newPg old)"

fun pg_validate :: "pgValidator \<Rightarrow> 'v pg_env \<Rightarrow> pg_claim \<Rightarrow> pg_claim option \<Rightarrow> field_error list" where
  "pg_validate CnpgValidator = cnpg_validate"
| "pg_validate StackgresValidator = stackgres_validate"

fun blocklist_of :: "pgValidator \<Rightarrow> string list" where
  "blocklist_of CnpgValidator = cnpgBlocklist"
| "blocklist_of StackgresValidator = stackgresBlocklist"

definition validateVacuumRepack :: "bool \<Rightarrow> bool \<Rightarrow> field_error option" where
  "validateVacuumRepack vacuum repack =
     (if \<not> vacuum \<and> \<not> repack then Some (field_err FE_Forbidden ''spec.parameters.service'' []) else None)"

definition validatePostgreSQLEncryptionChanges :: "bool \<Rightarrow> bool \<Rightarrow> string \<Rightarrow> field_error option" where
  "validatePostgreSQLEncryptionChanges newEnabled oldEnabled fieldPath =
     (if newEnabled \<noteq> oldEnabled then Some (field_err FE_Forbidden fieldPath []) else None)"

definition validateNoNewStackGres :: "string \<Rightarrow> field_error option" where
  "validateNoNewStackGres compositionRef =
     (if compositionRef \<noteq> [] \<and> compositionRef \<noteq> cnpgCompositionRef
      then Some (field_err FE_Forbidden ''spec.compositionRef'' []) else None)"

definition validateCompositionRefImmutability :: "string \<Rightarrow> string \<Rightarrow> field_error option" where
  "validateCompositionRefImmutability oldRef newRef =
     (if oldRef \<noteq> [] \<and> newRef \<noteq> oldRef then Some (field_err FE_Forbidden ''spec.compositionRef'' []) else None)"

definition validatePinImageTag :: "string \<Rightarrow> string \<Rightarrow> field_error option" where
  "validatePinImageTag pinImageTag majorVersion =
     (if pinImageTag = [] then None
      else if major_part pinImageTag \<noteq> majorVersion
      then Some (field_err FE_Invalid ''spec.parameters.maintenance.pinImageTag'' pinImageTag) else None)"

section \<open>The handlers\<close>

definition checkPostgreSQLQuotas ::
  "'q quantity_ops \<Rightarrow> 'w webhook_env \<Rightarrow> pg_claim \<Rightarrow> bool \<Rightarrow> 'w \<Rightarrow> (status_error option \<times> field_error list) \<times> 'w" where
  "checkPostgreSQLQuotas Q env pg checkNamespaceQuota w =
     (case plan_resources Q env ''vshnpostgresqlplans'' (sv_Plan pg) w of
        (Inl err, w1) \<Rightarrow> ((Some (InternalError err), []), w1)
      | (Inr resources, w1) \<Rightarrow>
     (case FetchSidecarsFromCluster (we_Quota env) ''vshnpostgresqlplans'' w1 of
        (Inl err, w2) \<Rightarrow> ((Some (InternalError err), []), w2)
      | (Inr s, w2) \<Rightarrow>
     (case GetAllSideCarsResources Q (qe_SidecarOrder (we_Quota env)) s of
        Inl err \<Rightarrow> ((Some (InternalError err), []), w2)
      | Inr resourcesSidecars \<Rightarrow>
          (let (resources1, fieldErrs) = parse_sizes Q (as_composite pg) (addPathsToResources False resources);
               resources2 = MultiplyBy Q (sv_Instances pg) (AddResources Q resources1 resourcesSidecars);
               (quotaErr, w3) = CheckQuotas Q (we_Quota env)
                  \<lparr>qc_requestedResources = resources2, qc_instanceNamespace = pg_StatusInstanceNamespace pg,
                   qc_claimNamespace = sv_Namespace pg, qc_claimName = sv_Name pg, qc_kind = ''VSHNPostgreSQL'',
                   qc_checkNamespaceQuota = checkNamespaceQuota, qc_instances = sv_Instances pg\<rparr> w2
           in ((quotaErr, fieldErrs), w3)))))"

text \<open>The block under \<open>if p.withQuota\<close>.\<close>

definition pg_quota_block ::
  "'q quantity_ops \<Rightarrow> 'w webhook_env \<Rightarrow> default_handler \<Rightarrow> pg_claim \<Rightarrow> bool \<Rightarrow> 'w \<Rightarrow> field_error list \<times> 'w" where
  "pg_quota_block Q env h pg isCreate w =
     (if dh_withQuota h then
        (case checkPostgreSQLQuotas Q env pg isCreate w of
           ((quotaErrs, fieldErrs), w1) \<Rightarrow>
             ((if quotaErrs \<noteq> None then [field_err FE_Forbidden ''quota'' []] else []) @ fieldErrs, w1))
      else ([], w))"

text \<open>What is checked against the old object on an update.\<close>

definition pg_update_checks ::
  "'q quantity_ops \<Rightarrow> 'w webhook_env \<Rightarrow> default_handler \<Rightarrow> pg_claim \<Rightarrow> pg_claim \<Rightarrow> field_error list \<Rightarrow> 'w
     \<Rightarrow> field_error list \<times> 'w" where
  "pg_update_checks Q env h newPg oldPg allErrs w =
     (let allErrs1 = add_opt allErrs (validateCompositionRefImmutability (pg_CompositionRef oldPg) (pg_CompositionRef newPg));
          (diskErr, w1) = ValidateDiskDownsizing Q env (as_composite oldPg) (as_composite newPg) (dh_kind h) w;
          allErrs2 = add_opt allErrs1 diskErr;
          allErrs3 = add_opt allErrs2 (validatePostgreSQLEncryptionChanges (pg_EncryptionEnabled newPg)
                       (pg_EncryptionEnabled oldPg) ''spec.parameters.encryption.enabled'')
      in (allErrs3, w1))"

definition validatePostgreSQL ::
  "'q quantity_ops \<Rightarrow> 'w webhook_env \<Rightarrow> 'v pg_env \<Rightarrow> default_handler \<Rightarrow> pg_claim \<Rightarrow> pg_claim option \<Rightarrow> bool \<Rightarrow> 'w
     \<Rightarrow> webhook_error option \<times> 'w" where
  "validatePostgreSQL Q env pe h newPg oldObj isCreate w =
     (let (providerConfigErrs, w1) = ValidateProviderConfig env (as_composite newPg) w;
          allErrs1 = add_opt providerConfigErrs (validateVacuumRepack (pg_VacuumEnabled newPg) (pg_RepackEnabled newPg));
          (quotaErrs, w2) = pg_quota_block Q env h newPg isCreate w1;
          allErrs2 = allErrs1 @ quotaErrs;
          allErrs3 = allErrs2 @ checkGuaranteedAvailability (as_composite newPg);
          allErrs4 = add_opt allErrs3 (validateResourceNameLength h (sv_Name newPg));
          allErrs5 = add_opt allErrs4 (validatePinImageTag (sv_PinImageTag newPg) (pg_MajorVersion newPg))
      in if isCreate then
           (let allErrs6 = add_opt allErrs5 (validateNoNewStackGres (pg_CompositionRef newPg))
            in (Get (allErrs6 @ pg_validate (validatorFor newPg) pe newPg None), w2))
         else
           (case oldObj of
              None \<Rightarrow> (Some (WErr (Msg ''provided manifest is not a valid VSHNPostgreSQL object'')), w2)
            | Some oldPg \<Rightarrow>
                (if sv_DeletionTimestamp newPg \<noteq> None then (None, w2)
                 else (case pg_update_checks Q env h newPg oldPg allErrs5 w2 of
                         (allErrs6, w3) \<Rightarrow>
                           (Get (allErrs6 @ pg_validate (validatorFor newPg) pe newPg (Some oldPg)), w3)))))"

definition PG_ValidateCreate ::
  "'q quantity_ops \<Rightarrow> 'w webhook_env \<Rightarrow> 'v pg_env \<Rightarrow> default_handler \<Rightarrow> pg_claim \<Rightarrow> 'w \<Rightarrow> webhook_error option \<times> 'w" where
  "PG_ValidateCreate Q env pe h pg w = validatePostgreSQL Q env pe h pg None True w"

definition PG_ValidateUpdate ::
  "'q quantity_ops \<Rightarrow> 'w webhook_env \<Rightarrow> 'v pg_env \<Rightarrow> default_handler \<Rightarrow> pg_claim \<Rightarrow> pg_claim \<Rightarrow> 'w \<Rightarrow> webhook_error option \<times> 'w" where
  "PG_ValidateUpdate Q env pe h oldPg newPg w = validatePostgreSQL Q env pe h newPg (Some oldPg) False w"

text \<open>The composite: only its reference and its deletion are read.\<close>

definition XPG_ValidateCreate :: "string \<Rightarrow> webhook_error option" where
  "XPG_ValidateCreate compositionRef = Get (add_opt [] (validateNoNewStackGres compositionRef))"

definition XPG_ValidateUpdate :: "instant option \<Rightarrow> string \<Rightarrow> string \<Rightarrow> webhook_error option" where
  "XPG_ValidateUpdate deletionTimestamp oldRef newRef =
     (if deletionTimestamp \<noteq> None then None
      else Get (add_opt [] (validateCompositionRefImmutability oldRef newRef)))"

end
