(* ===== verification/PostgreSQL_Lifecycle.thy ===== *)
theory PostgreSQL_Lifecycle
  imports PostgreSQL
begin

text \<open>
  What the webhooks of PostgreSQL guarantee. The contract of a \<open>pgValidator\<close> is the locale
  \<open>pg_validator\<close>, interpreted for CloudNativePG and for StackGres; the life of an instance under
  accepted requests is the relation \<open>pg_history\<close>.
\<close>

section \<open>Conversions\<close>

lemma scan_uint_parse: "scan_uint n s = (v, None) \<Longrightarrow> parse_digits n s = Some v"
  by (induction n s rule: scan_uint.induct) (auto split: option.splits if_splits)

lemma scan_uint_range: "scan_uint n s = (v, None) \<Longrightarrow> 0 \<le> n \<Longrightarrow> 0 \<le> v"
proof (induction n s rule: scan_uint.induct)
  case (2 n c cs)
  then obtain d where d: "digit_val c = Some d" by (auto split: option.splits)
  then have "0 \<le> d" by (auto simp: digit_val_def Let_def split: if_splits)
  with 2 d show ?case by (auto split: if_splits)
qed simp

lemma scan_uint_overflow: "scan_uint n s = (v, Some ErrRange) \<Longrightarrow> v = 2 ^ 64 - 1"
  by (induction n s rule: scan_uint.induct) (auto split: option.splits if_splits)

text \<open>\<open>Atoi\<close> without an error is the conversion \<open>parse_int\<close>.\<close>

lemma Atoi_parse_int:
  assumes "Atoi s = (v, None)"
  shows "parse_int s = Some v"
proof -
  define neg ds where "neg = (s \<noteq> [] \<and> hd s = CHR ''-'')" and "ds = (if s \<noteq> [] \<and> (hd s = CHR ''-'' \<or> hd s = CHR ''+'') then tl s else s)"
  have split: "(case s of [] \<Rightarrow> (False, []) | c # cs \<Rightarrow> if c = CHR ''-'' then (True, cs) else if c = CHR ''+'' then (False, cs) else (False, s)) = (neg, ds)"
    by (cases s) (auto simp: neg_def ds_def)
  have ne: "ds \<noteq> []" using assms unfolding Atoi_def split by auto
  obtain un err where scan: "scan_uint 0 ds = (un, err)" by (metis surj_pair)
  from assms ne have err: "err \<noteq> Some ErrSyntax" "\<not> (\<not> neg \<and> un \<ge> 2 ^ 63)" "\<not> (neg \<and> un > 2 ^ 63)" "v = (if neg then - un else un)"
    unfolding Atoi_def split by (auto simp: scan Let_def split: if_splits)
  have "err \<noteq> Some ErrRange"
    using scan_uint_overflow [of 0 ds un] scan err(2,3) by (cases neg) auto
  then have none: "err = None" using err(1) by (cases err) (auto intro: num_error.exhaust)
  show ?thesis
    using scan_uint_parse [OF scan [unfolded none]] scan_uint_range [OF scan [unfolded none]] err(2-4) ne
    unfolding parse_int_def split by (auto simp: Let_def)
qed

section \<open>The contract of a validator\<close>

text \<open>The keys of the settings the loop visits, None when the JSON is broken.\<close>

definition visited_settings :: "'v pg_env \<Rightarrow> pg_claim \<Rightarrow> string set option" where
  "visited_settings pe pg = (case decode_settings pe pg of
     Inl e \<Rightarrow> None | Inr conf \<Rightarrow> Some (set (pe_KeyOrder pe (remdups (map fst conf)))))"

definition uses_images :: "pg_claim \<Rightarrow> bool" where
  "uses_images pg \<longleftrightarrow> (\<exists>e \<in> set (pg_Extensions pg). ext_Image e \<noteq> [] \<or> ext_ImagePullPolicy e \<noteq> [])"

locale pg_validator =
  fixes validate :: "pg_claim \<Rightarrow> pg_claim option \<Rightarrow> field_error list"
    and settings :: "pg_claim \<Rightarrow> string set option"
    and blocked :: "string set"
    and images_allowed :: "pg_claim \<Rightarrow> bool"
  assumes accepts_settings: "validate newPg oldPg = [] \<Longrightarrow> \<exists>S. settings newPg = Some S \<and> S \<inter> blocked = {}"
    and accepts_images: "validate newPg oldPg = [] \<Longrightarrow> uses_images newPg \<Longrightarrow> images_allowed newPg"
begin

lemma accepted_key: "validate newPg oldPg = [] \<Longrightarrow> settings newPg = Some S \<Longrightarrow> k \<in> S \<Longrightarrow> k \<notin> blocked"
  using accepts_settings by fastforce

lemma broken_settings: "settings newPg = None \<Longrightarrow> validate newPg oldPg \<noteq> []"
  using accepts_settings by fastforce

lemma refused_image: "uses_images newPg \<Longrightarrow> \<not> images_allowed newPg \<Longrightarrow> validate newPg oldPg \<noteq> []"
  using accepts_images by blast

end

lemma validatePgConf_Nil:
  "validatePgConf pe pg blocklist = [] \<longleftrightarrow> (\<exists>S. visited_settings pe pg = Some S \<and> S \<inter> set blocklist = {})"
  by (auto simp: validatePgConf_def visited_settings_def split: sum.splits)

lemma extension_loop_Nil:
  "extension_loop i exts = [] \<longleftrightarrow> (\<forall>e \<in> set exts. ext_Image e = [] \<and> ext_ImagePullPolicy e = [])"
  by (induction i exts rule: extension_loop.induct) auto

interpretation cnpg: pg_validator "cnpg_validate pe" "visited_settings pe" "set cnpgBlocklist"
    "\<lambda>pg. isMajorVersionAtLeast (pg_MajorVersion pg) ''18''" for pe
  by unfold_locales
    (auto simp: cnpg_validate_def validatePgConf_Nil validateCNPGExtensions_def extension_loop_Nil uses_images_def Let_def
      cnpgExtensionMinMajorVersion_def split: option.splits if_splits)

interpretation stackgres: pg_validator "stackgres_validate pe" "visited_settings pe" "set stackgresBlocklist" "\<lambda>pg. False" for pe
  by unfold_locales
    (auto simp: stackgres_validate_def validatePgConf_Nil validateStackGresExtensions_def extension_loop_Nil
      uses_images_def Let_def split: option.splits)

text \<open>What acceptance by the handler means for the validator: nothing is let through unless it is deleted.\<close>

lemma accepted_validates:
  assumes "validatePostgreSQL Q env pe h newPg oldObj isCreate w = (None, w')"
    and "isCreate \<or> sv_DeletionTimestamp newPg = None"
  shows "pg_validate (validatorFor newPg) pe newPg (if isCreate then None else oldObj) = []"
  using assms unfolding validatePostgreSQL_def
  by (auto simp: Let_def split: if_splits prod.splits option.splits)



section \<open>Properties\<close>

text \<open>
  C15. A claim that is accepted, and not being deleted, has settings that can be decoded, none of them
  on the blocklist of the implementation it runs on.
\<close>

theorem accepted_settings_are_free:
  assumes "validatePostgreSQL Q env pe h pg oldObj isCreate w = (None, w')"
    and "isCreate \<or> sv_DeletionTimestamp pg = None" and "range_order (pe_KeyOrder pe)"
  shows "\<exists>conf. decode_settings pe pg = Inr conf \<and>
    (\<forall>(k, v) \<in> set conf. k \<notin> set (blocklist_of (validatorFor pg)))"
proof -
  have ok: "pg_validate (validatorFor pg) pe pg (if isCreate then None else oldObj) = []"
    using accepted_validates assms(1,2) .
  have "\<exists>S. visited_settings pe pg = Some S \<and> S \<inter> set (blocklist_of (validatorFor pg)) = {}"
    using ok cnpg.accepts_settings [where pe = pe] stackgres.accepts_settings [where pe = pe]
    by (cases "validatorFor pg") (metis blocklist_of.simps pg_validate.simps)+
  then show ?thesis
    by (fastforce simp: visited_settings_def range_order_set [OF assms(3)] split: sum.splits)
qed



text \<open>
  What the documentation of \<open>blang/semver\<close> says of the versions the code compares: \<open>ParseTolerant\<close> reads a
  missing minor or patch as zero, and \<open>LT\<close> compares the numbers from the left.
\<close>

definition semver_laws :: "'v pg_env \<Rightarrow> ('v \<Rightarrow> int \<times> int \<times> int) \<Rightarrow> bool" where
  "semver_laws pe ver \<longleftrightarrow>
     (\<forall>M. 0 \<le> M \<and> M < 2 ^ 63 \<longrightarrow> (\<exists>v. pe_ParseTolerant pe (itoa M) = Inr v \<and> ver v = (M, 0, 0))) \<and>
     (\<forall>M m. 0 \<le> M \<and> M < 2 ^ 63 \<and> 0 \<le> m \<and> m < 2 ^ 63 \<longrightarrow>
        (\<exists>v. pe_ParseTolerant pe (itoa M @ CHR ''.'' # itoa m) = Inr v \<and> ver v = (M, m, 0))) \<and>
     (\<forall>a b. pe_LT pe a b = (case ver a of (a1, a2, a3) \<Rightarrow> case ver b of (b1, b2, b3) \<Rightarrow>
        a1 < b1 \<or> a1 = b1 \<and> (a2 < b2 \<or> a2 = b2 \<and> a3 < b3)))"

definition example_ParseTolerant :: "string \<Rightarrow> gerr + int \<times> int \<times> int" where
  "example_ParseTolerant s = (case map parse_int (split_char (CHR ''.'') s) of
     [Some a] \<Rightarrow> Inr (a, 0, 0) | [Some a, Some b] \<Rightarrow> Inr (a, b, 0) | [Some a, Some b, Some c] \<Rightarrow> Inr (a, b, c)
   | _ \<Rightarrow> Inl (Msg ''invalid version''))"

definition example_pg_env :: "(int \<times> int \<times> int) pg_env" where
  "example_pg_env = \<lparr>pe_UnmarshalSettings = (\<lambda>s. Inr [(''work_mem'', s)]), pe_KeyOrder = id,
     pe_ParseTolerant = example_ParseTolerant,
     pe_LT = (\<lambda>(a1, a2, a3) (b1, b2, b3). a1 < b1 \<or> a1 = b1 \<and> (a2 < b2 \<or> a2 = b2 \<and> a3 < b3))\<rparr>"

lemma example_pg_env_laws: "semver_laws example_pg_env id"
  by (auto simp: semver_laws_def example_pg_env_def example_ParseTolerant_def split_char_no_sep split_char_append
      dot_notin_itoa parse_int_itoa split: prod.splits)

definition example_pg :: pg_claim where
  "example_pg = \<lparr>sv_Name = ''pg'', sv_Namespace = ''ns'', sv_Labels = (\<lambda>_. None), sv_Instances = 1, sv_Plan = [],
     sv_CPU = [], sv_Memory = [], sv_Disk = [], sv_RequestsCPU = [], sv_RequestsMemory = [],
     sv_InstanceNamespace = ''vshn-postgresql-pg'', sv_SLA = ''besteffort'', sv_DeletionTimestamp = None,
     sv_DeletionProtection = False, sv_PinImageTag = [], sv_DisableAppcatRelease = False,
     pg_CompositionRef = cnpgCompositionRef, pg_VacuumEnabled = True, pg_RepackEnabled = True, pg_MajorVersion = ''15'',
     pg_Settings = Some ''4MB'', pg_Extensions = [], pg_EncryptionEnabled = False, pg_StatusInstanceNamespace = [],
     pg_CurrentVersion = []\<rparr>"

lemmas example_pg_simps = example_pg_def service_claim.defs pg_handler_def maxPgResourceNameLength_def
  ValidateProviderConfig_def validateVacuumRepack_def pg_quota_block_def checkGuaranteedAvailability_def
  validateResourceNameLength_def validatePinImageTag_def

lemma example_pg_created:
  "PG_ValidateCreate example_quantity example_webhook_env example_pg_env (pg_handler False) example_pg () = (None, ())"
  by (simp add: PG_ValidateCreate_def validatePostgreSQL_def example_pg_simps validateNoNewStackGres_def validatorFor_def
      cnpg_validate_def validatePgConf_def decode_settings_def example_pg_env_def cnpgBlocklist_def
      validateCNPGExtensions_def isMajorVersionAtLeast_def split: option.splits)

theorem accepted_settings_are_free_witness:
  "\<exists>conf. decode_settings example_pg_env example_pg = Inr conf \<and>
     (\<forall>(k, v) \<in> set conf. k \<notin> set (blocklist_of (validatorFor example_pg)))"
  by (rule accepted_settings_are_free [OF example_pg_created [unfolded PG_ValidateCreate_def]])
     (simp_all add: example_pg_env_def)


lemma major_part_pin: "0 \<le> M \<Longrightarrow> major_part (itoa M @ CHR ''.'' # s) = itoa M"
  by (simp add: major_part_def cut_char_eq dot_notin_itoa)

text \<open>
  An instance pinned to a minor version (a tag the webhook takes) cannot be updated once its status
  has that version: every update that keeps the major version is refused as a downgrade.
\<close>

theorem pinned_minor_blocks_updates:
  assumes "semver_laws pe ver" and "0 \<le> M" and "M < 2 ^ 63" and "0 < m" and "m < 2 ^ 63"
    and "pg_CurrentVersion oldPg = itoa M @ CHR ''.'' # itoa m" and "pg_MajorVersion newPg = itoa M"
    and "validatorFor newPg = CnpgValidator" and "sv_DeletionTimestamp newPg = None"
  shows "validatePinImageTag (pg_CurrentVersion oldPg) (pg_MajorVersion newPg) = None \<and>
    (\<exists>errs. fst (PG_ValidateUpdate Q env pe h oldPg newPg w) = Some (WFields errs) \<and>
       field_err FE_Invalid major_field (pg_MajorVersion newPg) \<in> set errs)"
proof
  show "validatePinImageTag (pg_CurrentVersion oldPg) (pg_MajorVersion newPg) = None"
    using assms(2,6,7) by (simp add: validatePinImageTag_def major_part_pin)
  obtain oldV newV where v: "pe_ParseTolerant pe (pg_CurrentVersion oldPg) = Inr oldV" "ver oldV = (M, m, 0)"
      "pe_ParseTolerant pe (pg_MajorVersion newPg) = Inr newV" "ver newV = (M, 0, 0)"
    using assms(1-7) unfolding semver_laws_def by (metis less_imp_le)
  have "pe_LT pe newV oldV" using assms(1,4) v by (simp add: semver_laws_def)
  then have "validateNoDowngrade pe (pg_CurrentVersion oldPg) (pg_MajorVersion newPg) major_field
      = Some (field_err FE_Invalid major_field (pg_MajorVersion newPg))"
    using v assms(6,7) by (simp add: validateNoDowngrade_def)
  then have err: "field_err FE_Invalid major_field (pg_MajorVersion newPg) \<in> set (pg_validate (validatorFor newPg) pe newPg (Some oldPg))"
    using assms(8) by (simp add: cnpg_validate_def Let_def)
  have "\<exists>errs w'. PG_ValidateUpdate Q env pe h oldPg newPg w =
      (Get (errs @ pg_validate (validatorFor newPg) pe newPg (Some oldPg)), w')"
    using assms(9) unfolding PG_ValidateUpdate_def validatePostgreSQL_def Let_def
    by (force split: prod.splits)
  then show "\<exists>errs. fst (PG_ValidateUpdate Q env pe h oldPg newPg w) = Some (WFields errs) \<and>
      field_err FE_Invalid major_field (pg_MajorVersion newPg) \<in> set errs"
    using err by (auto simp: Get_def)
qed

theorem pinned_minor_blocks_updates_witness:
  "\<exists>errs. fst (PG_ValidateUpdate example_quantity example_webhook_env example_pg_env (pg_handler False)
       (example_pg\<lparr>pg_CurrentVersion := ''15.9''\<rparr>) example_pg ()) = Some (WFields errs) \<and>
     field_err FE_Invalid major_field ''15'' \<in> set errs"
proof -
  have num: "itoa 15 = ''15''" "itoa 9 = ''9''"
    by code_simp+
  show ?thesis
    using pinned_minor_blocks_updates [OF example_pg_env_laws, of 15 9 "example_pg\<lparr>pg_CurrentVersion := ''15.9''\<rparr>" example_pg,
        where Q = example_quantity and env = example_webhook_env and h = "pg_handler False" and w = "()"]
    by (simp add: num example_pg_def validatorFor_def)
qed

text \<open>
  An update that is accepted for an instance on StackGres has a major version that is a number, the
  one of the version that runs.
\<close>

theorem stackgres_keeps_major:
  assumes "PG_ValidateUpdate Q env pe h oldPg newPg w = (None, w')" and "sv_DeletionTimestamp newPg = None"
    and "validatorFor newPg = StackgresValidator"
  shows "\<exists>v. parse_int (pg_MajorVersion newPg) = Some v \<and>
    (pg_CurrentVersion oldPg = [] \<or> parse_int (major_part (pg_CurrentVersion oldPg)) = Some v)"
proof -
  have ok: "validateStackGresMajorVersion newPg oldPg = []"
    using accepted_validates [OF assms(1) [unfolded PG_ValidateUpdate_def]] assms(2,3)
    by (simp add: stackgres_validate_def Let_def)
  obtain v err where v: "Atoi (pg_MajorVersion newPg) = (v, err)" by fastforce
  obtain v' errs where old: "old_major (pg_CurrentVersion oldPg) v (num_err err major_field (pg_MajorVersion newPg)) = (v', errs)"
    by fastforce
  have eq: "v = v'" "errs = []" using ok by (auto simp: validateStackGresMajorVersion_def v old split: if_splits)
  have "err = None \<and> (pg_CurrentVersion oldPg = [] \<or> Atoi (major_part (pg_CurrentVersion oldPg)) = (v, None))"
    using old eq by (auto simp: old_major_def num_err_def split: if_splits prod.splits option.splits)
  then show ?thesis using v Atoi_parse_int by blast
qed

theorem stackgres_keeps_major_witness:
  "\<exists>v. parse_int (pg_MajorVersion (example_pg\<lparr>pg_CompositionRef := ''sg''\<rparr>)) = Some v \<and>
     (pg_CurrentVersion (example_pg\<lparr>pg_CompositionRef := ''sg'', pg_CurrentVersion := ''15.9''\<rparr>) = [] \<or>
      parse_int (major_part (pg_CurrentVersion (example_pg\<lparr>pg_CompositionRef := ''sg'', pg_CurrentVersion := ''15.9''\<rparr>))) = Some v)"
proof (rule stackgres_keeps_major)
  show "PG_ValidateUpdate example_quantity example_webhook_env example_pg_env (pg_handler False)
      (example_pg\<lparr>pg_CompositionRef := ''sg'', pg_CurrentVersion := ''15.9''\<rparr>) (example_pg\<lparr>pg_CompositionRef := ''sg''\<rparr>) ()
      = (None, ())"
    by (simp add: PG_ValidateUpdate_def validatePostgreSQL_def example_pg_simps pg_update_checks_def
        validateCompositionRefImmutability_def ValidateDiskDownsizing_def getEffectiveDiskSize_def
        validatePostgreSQLEncryptionChanges_def validatorFor_def cnpgCompositionRef_def stackgres_validate_def
        validatePgConf_def decode_settings_def example_pg_env_def stackgresBlocklist_def validateStackGresExtensions_def
        validateStackGresMajorVersion_def old_major_def major_part_def Atoi_def digit_val_def num_err_def upgrade_checks_def)
qed (simp_all add: example_pg_def validatorFor_def cnpgCompositionRef_def)
end
