(* ===== verification/ServiceWebhooks.thy ===== *)
theory ServiceWebhooks
  imports PostgreSQL
begin

text \<open>
  The webhooks of the other services, \<open>pkg/controller/webhooks/{keycloak,nextcloud,forgejo,mariadb,
  redis,codey}.go\<close>, which call the default handler first, and the destinations of Keycloak's custom
  files as the composition function reads them (\<open>functions/vshnkeycloak/deploy.go\<close>). Garage, MinIO and
  OpenBao use the default handler as it is. \<open>IsDNSName\<close>, the JSON decoder and the cluster are
  parameters; maps are visited in the order the model is given.
\<close>

section \<open>Claims\<close>

record custom_file =
  cf_Source :: string
  cf_Destination :: string

text \<open>\<open>kc_PgEncryption\<close> is None when \<open>PostgreSQLParameters\<close> is nil.\<close>

record keycloak_claim = service_claim +
  kc_CustomImage :: string
  kc_CustomizationImage :: string
  kc_CustomFiles :: "custom_file list"
  kc_PgEncryption :: "bool option"
  kc_RelativePath :: string
  kc_CustomEnvVariablesRef :: "string option"

record nextcloud_claim = service_claim +
  nx_FQDN :: "string list"
  nx_CollaboraEnabled :: bool
  nx_CollaboraFQDN :: string
  nx_Version :: string
  nx_PgEncryption :: "bool option"

record forgejo_claim = service_claim +
  fj_FQDN :: "string list"
  fj_Mailer :: "(string \<times> string) list"

record mariadb_claim = service_claim +
  md_TLSEnabled :: bool

record codey_claim = service_claim +
  cd_ResourceRef :: string

text \<open>A composition revision: its number and the raw inputs of its pipeline steps; an ingress.\<close>

record composition_revision =
  rev_Revision :: int
  rev_Inputs :: "string option list"

record ingress =
  ing_Labels :: str_map
  ing_Hosts :: "string list"

text \<open>The requirement of a list option; a later \<open>MatchingLabelsSelector\<close> is passed after the first.\<close>

datatype requirement = OwnerKindIs string | OwnerCompositeIsNot string

record 'w service_env =
  se_ListRevisions :: "'w \<Rightarrow> (gerr + composition_revision list) \<times> 'w"
  se_UnmarshalConfigMap :: "string \<Rightarrow> gerr + str_map"
  se_IsDNSName :: "string \<Rightarrow> bool"
  se_NewRequirement :: "requirement \<Rightarrow> gerr option"
  se_ListIngresses :: "requirement list \<Rightarrow> 'w \<Rightarrow> (gerr + ingress list) \<times> 'w"
  se_MailerOrder :: "string list \<Rightarrow> string list"

text \<open>The errors of the default handler, which are always collected field errors.\<close>

definition parent_errors :: "webhook_error option \<Rightarrow> field_error list" where
  "parent_errors e = (case e of Some (WFields es) \<Rightarrow> es | _ \<Rightarrow> [])"

definition EqualFold :: "string \<Rightarrow> string \<Rightarrow> bool" where
  [go_defs]: "EqualFold s t \<longleftrightarrow> to_lower s = to_lower t"

section \<open>Keycloak\<close>

definition keycloakRootFolders :: "string list" where
  "keycloakRootFolders = [''providers'', ''themes'', ''lib'', ''conf'', ''bin'']"

definition validateCustomImageMutualExclusion :: "keycloak_claim \<Rightarrow> field_error option" where
  "validateCustomImageMutualExclusion k =
     (if kc_CustomImage k \<noteq> [] \<and> kc_CustomizationImage k \<noteq> []
      then Some (field_err FE_Invalid ''spec.parameters.service.customImage.image'' (kc_CustomImage k)) else None)"

definition custom_file_path :: "nat \<Rightarrow> string \<Rightarrow> string" where
  "custom_file_path i child = ''spec.parameters.service.customFiles['' @ itoa (int i) @ ''].'' @ child"

text \<open>The loop over the root folders, then the one over the files; \<open>i\<close> is the index.\<close>

definition in_root_folder :: "string \<Rightarrow> bool" where
  "in_root_folder destination = (\<exists>folder \<in> set keycloakRootFolders. has_prefix (trim_prefix destination ''/'') folder)"

fun custom_file_loop :: "nat \<Rightarrow> custom_file list \<Rightarrow> field_error option" where
  "custom_file_loop i [] = None"
| "custom_file_loop i (f # fs) =
     (if cf_Source f = [] then Some (field_err FE_Invalid (custom_file_path i ''source'') (cf_Source f))
      else if cf_Destination f = [] then Some (field_err FE_Invalid (custom_file_path i ''destination'') (cf_Destination f))
      else if contains_str (cf_Destination f) ''..''
        then Some (field_err FE_Invalid (custom_file_path i ''destination'') (cf_Destination f))
      else if in_root_folder (cf_Destination f)
        then Some (field_err FE_Invalid (custom_file_path i ''destination'') (cf_Destination f))
      else custom_file_loop (Suc i) fs)"

definition validateCustomFilePaths :: "custom_file list \<Rightarrow> field_error option" where
  "validateCustomFilePaths customFiles = custom_file_loop 0 customFiles"

definition validateCustomFileObject :: "keycloak_claim \<Rightarrow> field_error option" where
  "validateCustomFileObject k =
     (if length (kc_CustomFiles k) > 0 \<and> kc_CustomizationImage k = []
      then Some (field_err FE_Invalid ''spec.parameters.service.customizationImage.image'' [])
      else validateCustomFilePaths (kc_CustomFiles k))"

definition warnPinImageTagIgnoredForCustomImage :: "keycloak_claim \<Rightarrow> warning list" where
  "warnPinImageTagIgnoredForCustomImage k =
     (if kc_CustomImage k \<noteq> [] \<and> sv_PinImageTag k \<noteq> [] then [WarnPinIgnored] else [])"

definition isDeprecatedFieldInUse :: "keycloak_claim \<Rightarrow> warning list" where
  "isDeprecatedFieldInUse k =
     (if kc_CustomEnvVariablesRef k \<noteq> None then [WarnEnvVariablesRef] else []) @
     (if kc_CustomizationImage k \<noteq> [] then [WarnCustomizationImage] else [])"

definition keycloakImagesOptimizedInput :: string where
  "keycloakImagesOptimizedInput = ''keycloak_images_optimized''"

text \<open>The two loops of \<open>optimizedImagesEnabled\<close>.\<close>

fun latest_revision :: "composition_revision option \<Rightarrow> composition_revision list \<Rightarrow> composition_revision option" where
  "latest_revision latest [] = latest"
| "latest_revision latest (r # rs) =
     latest_revision (case latest of
                        None \<Rightarrow> Some r
                      | Some l \<Rightarrow> if rev_Revision r > rev_Revision l then Some r else Some l) rs"

fun first_input :: "'w service_env \<Rightarrow> string option list \<Rightarrow> bool" where
  "first_input se [] = False"
| "first_input se (None # steps) = first_input se steps"
| "first_input se (Some raw # steps) =
     (case se_UnmarshalConfigMap se raw of
        Inl err \<Rightarrow> first_input se steps
      | Inr data \<Rightarrow> data_field data keycloakImagesOptimizedInput = ''true'')"

definition optimizedImagesEnabled :: "'w service_env \<Rightarrow> 'w \<Rightarrow> bool \<times> 'w" where
  "optimizedImagesEnabled se w =
     (case se_ListRevisions se w of
        (Inl err, w1) \<Rightarrow> (False, w1)
      | (Inr items, w1) \<Rightarrow>
          (case latest_revision None items of
             None \<Rightarrow> (False, w1)
           | Some latest \<Rightarrow> (first_input se (rev_Inputs latest), w1)))"

definition warnRelativePathDisablesOptimized :: "'w service_env \<Rightarrow> keycloak_claim \<Rightarrow> 'w \<Rightarrow> warning list \<times> 'w" where
  "warnRelativePathDisablesOptimized se k w =
     (if trim_suffix (kc_RelativePath k) ''/'' = [] then ([], w)
      else (case optimizedImagesEnabled se w of
              (enabled, w1) \<Rightarrow> (if \<not> enabled then ([], w1) else ([WarnNotOptimized], w1))))"

definition Keycloak_ValidateCreate ::
  "'q quantity_ops \<Rightarrow> 'w webhook_env \<Rightarrow> 'w service_env \<Rightarrow> default_handler \<Rightarrow> keycloak_claim \<Rightarrow> 'w
     \<Rightarrow> warning list \<times> webhook_error option \<times> 'w" where
  "Keycloak_ValidateCreate Q env se h k w =
     (let (defaultWarnings, err, w1) = Default_ValidateCreate Q env h (as_composite k) w;
          allErrs1 = parent_errors err;
          allErrs2 = add_opt allErrs1 (validateCustomImageMutualExclusion k);
          allErrs3 = add_opt allErrs2 (validateCustomFileObject k);
          warnings = isDeprecatedFieldInUse k @ warnPinImageTagIgnoredForCustomImage k;
          (relativePath, w2) = warnRelativePathDisablesOptimized se k w1
      in (defaultWarnings @ warnings @ relativePath, Get allErrs3, w2))"

text \<open>The comparison of the encryption of the database, when both claims have its parameters.\<close>

definition encryption_change :: "bool option \<Rightarrow> bool option \<Rightarrow> field_error option" where
  "encryption_change newEncryption oldEncryption =
     (case (newEncryption, oldEncryption) of
        (Some new, Some old) \<Rightarrow>
          validatePostgreSQLEncryptionChanges new old ''spec.parameters.service.postgreSQLParameters.encryption.enabled''
      | _ \<Rightarrow> None)"

definition Keycloak_ValidateUpdate ::
  "'q quantity_ops \<Rightarrow> 'w webhook_env \<Rightarrow> 'w service_env \<Rightarrow> default_handler \<Rightarrow> keycloak_claim \<Rightarrow> keycloak_claim \<Rightarrow> 'w
     \<Rightarrow> warning list \<times> webhook_error option \<times> 'w" where
  "Keycloak_ValidateUpdate Q env se h oldKeycloak k w =
     (if sv_DeletionTimestamp k \<noteq> None then ([], None, w)
      else
        (let (defaultWarnings, err, w1) = Default_ValidateUpdate Q env h (as_composite oldKeycloak) (as_composite k) w;
             allErrs1 = parent_errors err;
             allErrs2 = add_opt allErrs1 (validateCustomImageMutualExclusion k);
             allErrs3 = add_opt allErrs2 (validateCustomFileObject k);
             allErrs4 = add_opt allErrs3 (encryption_change (kc_PgEncryption k) (kc_PgEncryption oldKeycloak));
             warnings = isDeprecatedFieldInUse k @ warnPinImageTagIgnoredForCustomImage k;
             (relativePath, w2) = warnRelativePathDisablesOptimized se k w1
         in (defaultWarnings @ warnings @ relativePath, Get allErrs4, w2)))"

section \<open>Keycloak's custom files in the composition function\<close>

definition deploy_keycloakRootFolders :: "string list" where
  "deploy_keycloakRootFolders = [''providers'', ''themes'', ''lib'', ''conf'', ''bin'']"

definition IsKeycloakRootFolder :: "string \<Rightarrow> bool" where
  "IsKeycloakRootFolder folder = (\<exists>rootFolder \<in> set deploy_keycloakRootFolders. EqualFold folder rootFolder)"

definition isCustomFileDestinationValid :: "string \<Rightarrow> bool" where
  "isCustomFileDestinationValid destination =
     (let d = trim_prefix (trim_prefix destination ''./'') ''/''
      in \<not> IsKeycloakRootFolder d \<and> \<not> contains_str d ''..'')"

text \<open>
  The files the init container copies, from the loop of \<open>addCustomFileCopyInitContainer\<close>, and the paths
  they are mounted at, from the one of \<open>newValues\<close>.
\<close>

fun files_to_copy :: "custom_file list \<Rightarrow> gerr + (string \<times> string) list" where
  "files_to_copy [] = Inr []"
| "files_to_copy (f # fs) =
     (let finalDestination = trim_prefix (trim_prefix (cf_Destination f) ''./'') ''/''
      in if \<not> isCustomFileDestinationValid finalDestination then Inl (Msg ''destination is bad'')
         else (case files_to_copy fs of
                 Inl err \<Rightarrow> Inl err
               | Inr files \<Rightarrow> Inr ((trim_prefix (cf_Source f) ''/'', finalDestination) # files)))"

definition mount_paths :: "custom_file list \<Rightarrow> string list" where
  "mount_paths files = map (\<lambda>f. ''/opt/keycloak/'' @ trim_prefix (cf_Destination f) ''/'')
     (filter (\<lambda>f. isCustomFileDestinationValid (trim_prefix (cf_Destination f) ''/'')) files)"

section \<open>Nextcloud\<close>

definition validateNoVersionDowngrade :: "'v pg_env \<Rightarrow> string \<Rightarrow> string \<Rightarrow> field_error option" where
  "validateNoVersionDowngrade pe oldVersion newVersion =
     (if oldVersion = [] \<or> newVersion = [] then None
      else
        (case pe_ParseTolerant pe oldVersion of
           Inl err \<Rightarrow> None
         | Inr oldV \<Rightarrow>
        (case pe_ParseTolerant pe newVersion of
           Inl err \<Rightarrow> Some (field_err FE_Invalid ''spec.parameters.service.version'' newVersion)
         | Inr newV \<Rightarrow>
             (if pe_LT pe newV oldV then Some (field_err FE_Invalid ''spec.parameters.service.version'' newVersion)
              else None))))"

fun validateFQDNs :: "'w service_env \<Rightarrow> string list \<Rightarrow> field_error option" where
  "validateFQDNs se [] = None"
| "validateFQDNs se (fqdn # fqdns) =
     (if \<not> se_IsDNSName se fqdn then Some (field_err FE_Invalid ''spec.parameters.service.fqdn'' fqdn)
      else validateFQDNs se fqdns)"

text \<open>The block under \<open>if nx.Spec.Parameters.Service.Collabora.Enabled\<close>, in both validators.\<close>

definition collabora_checks :: "'w service_env \<Rightarrow> nextcloud_claim \<Rightarrow> field_error list" where
  "collabora_checks se nx =
     (if nx_CollaboraEnabled nx then
        (if nx_CollaboraFQDN nx = [] then [field_err FE_Invalid ''spec.parameters.service.collabora.fqdn'' []] else []) @
        add_opt [] (validateFQDNs se [nx_CollaboraFQDN nx])
      else [])"

definition Nextcloud_ValidateCreate ::
  "'q quantity_ops \<Rightarrow> 'w webhook_env \<Rightarrow> 'w service_env \<Rightarrow> default_handler \<Rightarrow> nextcloud_claim \<Rightarrow> 'w
     \<Rightarrow> warning list \<times> webhook_error option \<times> 'w" where
  "Nextcloud_ValidateCreate Q env se h nx w =
     (let (warnings, err, w1) = Default_ValidateCreate Q env h (as_composite nx) w;
          allErrs1 = parent_errors err
      in if warnings \<noteq> [] \<and> err = None then (warnings, None, w1)
         else
           (let allErrs2 = add_opt allErrs1 (validateFQDNs se (nx_FQDN nx))
            in ([], Get (allErrs2 @ collabora_checks se nx), w1)))"

definition Nextcloud_ValidateUpdate ::
  "'q quantity_ops \<Rightarrow> 'w webhook_env \<Rightarrow> 'v pg_env \<Rightarrow> 'w service_env \<Rightarrow> default_handler \<Rightarrow> nextcloud_claim \<Rightarrow> nextcloud_claim \<Rightarrow> 'w
     \<Rightarrow> warning list \<times> webhook_error option \<times> 'w" where
  "Nextcloud_ValidateUpdate Q env pe se h oldNx nx w =
     (if sv_DeletionTimestamp nx \<noteq> None then ([], None, w)
      else
        (let (warnings, err, w1) = Default_ValidateUpdate Q env h (as_composite oldNx) (as_composite nx) w;
             allErrs1 = parent_errors err
         in if warnings \<noteq> [] \<and> err = None then (warnings, None, w1)
            else
              (let allErrs2 = (if sv_PinImageTag nx = []
                               then add_opt allErrs1 (validateNoVersionDowngrade pe (nx_Version oldNx) (nx_Version nx))
                               else allErrs1);
                   allErrs3 = add_opt allErrs2 (validateFQDNs se (nx_FQDN nx));
                   allErrs4 = allErrs3 @ collabora_checks se nx;
                   allErrs5 = add_opt allErrs4 (encryption_change (nx_PgEncryption nx) (nx_PgEncryption oldNx))
               in ([], Get allErrs5, w1))))"

section \<open>Forgejo\<close>

definition denied_mailer_protocols :: "string list" where
  "denied_mailer_protocols = [''smtp+unix'', ''sendmail'']"

fun mailer_loop :: "(string \<times> string) list \<Rightarrow> field_error option" where
  "mailer_loop [] = None"
| "mailer_loop ((k, v) # entries) =
     (if EqualFold k ''PROTOCOL'' \<and> v \<in> set denied_mailer_protocols
      then Some (field_err FE_Invalid ''spec.paramaters.service.config.mailer'' v)
      else mailer_loop entries)"

definition validateForgejoConfig :: "'w service_env \<Rightarrow> (string \<times> string) list \<Rightarrow> field_error option" where
  "validateForgejoConfig se mailer =
     mailer_loop (map (\<lambda>k. (k, or_zero [] (map_of mailer k))) (se_MailerOrder se (remdups (map fst mailer))))"

definition Forgejo_ValidateCreate ::
  "'q quantity_ops \<Rightarrow> 'w webhook_env \<Rightarrow> 'w service_env \<Rightarrow> default_handler \<Rightarrow> forgejo_claim \<Rightarrow> 'w
     \<Rightarrow> warning list \<times> webhook_error option \<times> 'w" where
  "Forgejo_ValidateCreate Q env se h forgejo w =
     (let (warnings, err, w1) = Default_ValidateCreate Q env h (as_composite forgejo) w;
          allErrs1 = parent_errors err
      in if warnings \<noteq> [] \<and> err = None then (warnings, None, w1)
         else
           (let allErrs2 = add_opt allErrs1 (validateFQDNs se (fj_FQDN forgejo));
                allErrs3 = add_opt allErrs2 (validateForgejoConfig se (fj_Mailer forgejo))
            in ([], Get allErrs3, w1)))"

definition Forgejo_ValidateUpdate ::
  "'q quantity_ops \<Rightarrow> 'w webhook_env \<Rightarrow> 'w service_env \<Rightarrow> default_handler \<Rightarrow> forgejo_claim \<Rightarrow> forgejo_claim \<Rightarrow> 'w
     \<Rightarrow> warning list \<times> webhook_error option \<times> 'w" where
  "Forgejo_ValidateUpdate Q env se h oldForgejo forgejo w =
     (if sv_DeletionTimestamp forgejo \<noteq> None then ([], None, w)
      else
        (let (warnings, err, w1) = Default_ValidateUpdate Q env h (as_composite oldForgejo) (as_composite forgejo) w;
             allErrs1 = parent_errors err
         in if warnings \<noteq> [] \<and> err = None then (warnings, None, w1)
            else
              (let allErrs2 = add_opt allErrs1 (validateFQDNs se (fj_FQDN forgejo));
                   allErrs3 = add_opt allErrs2 (validateForgejoConfig se (fj_Mailer forgejo))
               in ([], Get allErrs3, w1))))"

section \<open>MariaDB and Redis\<close>

definition MariaDB_ValidateUpdate ::
  "'q quantity_ops \<Rightarrow> 'w webhook_env \<Rightarrow> default_handler \<Rightarrow> mariadb_claim \<Rightarrow> mariadb_claim \<Rightarrow> 'w
     \<Rightarrow> warning list \<times> webhook_error option \<times> 'w" where
  "MariaDB_ValidateUpdate Q env h oldDb newDb w =
     (if sv_DeletionTimestamp newDb \<noteq> None then ([], None, w)
      else
        (let (warnings, err, w1) = Default_ValidateUpdate Q env h (as_composite oldDb) (as_composite newDb) w;
             allErrs1 = parent_errors err
         in if warnings \<noteq> [] \<and> err = None then (warnings, None, w1)
            else
              ([], Get (if sv_Instances newDb > 1 \<and> md_TLSEnabled oldDb \<noteq> md_TLSEnabled newDb
                        then allErrs1 @ [field_err FE_Invalid ''spec.parameters.tls.TLSEnabled'' []]
                        else allErrs1), w1)))"

definition Redis_ValidateCreate ::
  "'q quantity_ops \<Rightarrow> 'w webhook_env \<Rightarrow> default_handler \<Rightarrow> service_claim \<Rightarrow> 'w
     \<Rightarrow> warning list \<times> webhook_error option \<times> 'w" where
  "Redis_ValidateCreate Q env h redis w =
     (let (parentWarnings, parentErr, w1) = Default_ValidateCreate Q env h redis w;
          allErrs = parent_errors parentErr
      in if parentWarnings \<noteq> [] \<and> parentErr = None then (parentWarnings, None, w1) else ([], Get allErrs, w1))"

definition Redis_ValidateUpdate ::
  "'q quantity_ops \<Rightarrow> 'w webhook_env \<Rightarrow> default_handler \<Rightarrow> service_claim \<Rightarrow> service_claim \<Rightarrow> 'w
     \<Rightarrow> warning list \<times> webhook_error option \<times> 'w" where
  "Redis_ValidateUpdate Q env h oldRedis redis w =
     (if sv_DeletionTimestamp redis \<noteq> None then ([], None, w)
      else
        (let (parentWarnings, parentErr, w1) = Default_ValidateUpdate Q env h oldRedis redis w;
             allErrs = parent_errors parentErr
         in if parentWarnings \<noteq> [] \<and> parentErr = None then (parentWarnings, None, w1) else ([], Get allErrs, w1)))"

section \<open>Codey\<close>

definition codeyUrlSuffix :: string where "codeyUrlSuffix = ''.app.codey.ch''"

definition acme_solver_label :: string where "acme_solver_label = ''acme.cert-manager.io/http01-solver''"

text \<open>The loop over the ingresses: one that is no ACME solver and has the host.\<close>

fun host_taken :: "string \<Rightarrow> ingress list \<Rightarrow> bool" where
  "host_taken fqdn [] = False"
| "host_taken fqdn (i # is) =
     (if ing_Labels i acme_solver_label \<noteq> None then host_taken fqdn is
      else if fqdn \<in> set (ing_Hosts i) then True
      else host_taken fqdn is)"

definition codey_requirements :: "'w service_env \<Rightarrow> string \<Rightarrow> gerr + requirement list" where
  "codey_requirements se compositeName =
     (case se_NewRequirement se (OwnerKindIs ''XVSHNForgejo'') of
        Some err \<Rightarrow> Inl err
      | None \<Rightarrow>
          (if compositeName \<noteq> [] then
             (case se_NewRequirement se (OwnerCompositeIsNot compositeName) of
                Some err \<Rightarrow> Inl err
              | None \<Rightarrow> Inr [OwnerKindIs ''XVSHNForgejo'', OwnerCompositeIsNot compositeName])
           else Inr [OwnerKindIs ''XVSHNForgejo'']))"

definition isCodeyFqdnUnique :: "'w service_env \<Rightarrow> string \<Rightarrow> string \<Rightarrow> 'w \<Rightarrow> field_error option \<times> 'w" where
  "isCodeyFqdnUnique se fqdn compositeName w =
     (case codey_requirements se compositeName of
        Inl err \<Rightarrow> (Some (field_err FE_Internal ''N/A'' []), w)
      | Inr listOpts \<Rightarrow>
          (case se_ListIngresses se listOpts w of
             (Inl err, w1) \<Rightarrow> (Some (field_err FE_Internal ''N/A'' []), w1)
           | (Inr items, w1) \<Rightarrow>
               (if host_taken fqdn items
                then (Some (field_err FE_Invalid ''metadata.name'' (hd (split_char (CHR ''.'') fqdn))), w1)
                else (None, w1))))"

definition Codey_ValidateCreate ::
  "'q quantity_ops \<Rightarrow> 'w webhook_env \<Rightarrow> 'w service_env \<Rightarrow> default_handler \<Rightarrow> codey_claim \<Rightarrow> 'w
     \<Rightarrow> warning list \<times> webhook_error option \<times> 'w" where
  "Codey_ValidateCreate Q env se h codey w =
     (let (warnings, err, w1) = Default_ValidateCreate Q env h (as_composite codey) w;
          allErrs1 = parent_errors err
      in if warnings \<noteq> [] \<and> err = None then (warnings, None, w1)
         else
           (case isCodeyFqdnUnique se (sv_Name codey @ codeyUrlSuffix) [] w1 of
              (e, w2) \<Rightarrow> ([], Get (add_opt allErrs1 e), w2)))"

text \<open>The update drops the error of the default handler when there is a warning.\<close>

definition Codey_ValidateUpdate ::
  "'q quantity_ops \<Rightarrow> 'w webhook_env \<Rightarrow> 'w service_env \<Rightarrow> default_handler \<Rightarrow> codey_claim \<Rightarrow> codey_claim \<Rightarrow> 'w
     \<Rightarrow> warning list \<times> webhook_error option \<times> 'w" where
  "Codey_ValidateUpdate Q env se h oldCodey codey w =
     (let (warnings, parentErr, w1) = Default_ValidateUpdate Q env h (as_composite oldCodey) (as_composite codey) w;
          allErrs1 = parent_errors parentErr
      in if warnings \<noteq> [] then (warnings, None, w1)
         else
           (case isCodeyFqdnUnique se (sv_Name codey @ codeyUrlSuffix) (cd_ResourceRef codey) w1 of
              (e, w2) \<Rightarrow> ([], Get (add_opt allErrs1 e), w2)))"

end
