(* ===== verification/ServiceWebhooks_Props.thy ===== *)
theory ServiceWebhooks_Props
  imports ServiceWebhooks
begin

text \<open>
  What the webhooks of the services let through and what they do not: the checks a warning skips, the
  settings of an accepted Forgejo instance, the custom files of Keycloak against what the composition
  function does with them, the host names of Codey; and which composition revision Keycloak's webhook
  looks at.
\<close>

section \<open>Lemmas\<close>

lemma Default_errors_are_fields:
  "fst (snd (Default_ValidateCreate Q env h c w)) \<noteq> Some (WErr e)"
  "fst (snd (Default_ValidateUpdate Q env h old c w)) \<noteq> Some (WErr e)"
  by (auto simp: Default_ValidateCreate_def Default_ValidateUpdate_def Get_def split: prod.splits)

lemma Default_update_warnings:
  assumes "Default_ValidateUpdate Q env h old c w = (ws, e, w')" and "sv_DeletionTimestamp c = None"
  shows "ws = checkManualVersionManagementWarnings c"
  using assms by (auto simp: Default_ValidateUpdate_def split: prod.splits)

lemma truncate_sel [simp]:
  "sv_DeletionTimestamp (as_composite c) = sv_DeletionTimestamp c" "sv_PinImageTag (as_composite c) = sv_PinImageTag c"
  "sv_DisableAppcatRelease (as_composite c) = sv_DisableAppcatRelease c"
  by (simp_all add: service_claim.defs)

lemma validateFQDNs_None: "validateFQDNs se fqdns = None \<longleftrightarrow> (\<forall>f \<in> set fqdns. se_IsDNSName se f)"
  by (induction fqdns) auto

lemma mailer_loop_None:
  "mailer_loop entries = None \<longleftrightarrow> (\<forall>(k, v) \<in> set entries. EqualFold k ''PROTOCOL'' \<longrightarrow> v \<notin> set denied_mailer_protocols)"
  by (induction entries rule: mailer_loop.induct) auto

lemma validateForgejoConfig_None:
  assumes "range_order (se_MailerOrder se)"
  shows "validateForgejoConfig se mailer = None \<longleftrightarrow>
    (\<forall>k v. map_of mailer k = Some v \<longrightarrow> EqualFold k ''PROTOCOL'' \<longrightarrow> v \<notin> set denied_mailer_protocols)"
proof -
  have "k \<in> fst ` set mailer \<longleftrightarrow> (\<exists>v. map_of mailer k = Some v)" for k
    by (metis not_Some_eq map_of_eq_None_iff)
  then show ?thesis
    by (fastforce simp: validateForgejoConfig_def mailer_loop_None range_order_set [OF assms])
qed

lemma host_taken_iff:
  "host_taken fqdn is \<longleftrightarrow> (\<exists>i \<in> set is. ing_Labels i acme_solver_label = None \<and> fqdn \<in> set (ing_Hosts i))"
  by (induction "is") auto

text \<open>The revision that counts is one with the highest number.\<close>

lemma latest_revision_max:
  "latest_revision l rs = (case l of None \<Rightarrow> latest_revision None rs | Some r \<Rightarrow> latest_revision (Some r) rs) \<and>
   (\<forall>r. latest_revision (Some r) rs \<noteq> None \<and> the (latest_revision (Some r) rs) \<in> set (r # rs) \<and>
      (\<forall>r' \<in> set (r # rs). rev_Revision r' \<le> rev_Revision (the (latest_revision (Some r) rs))))"
proof (induction rs arbitrary: l)
  case Nil
  then show ?case by (auto split: option.splits)
next
  case (Cons a rs)
  have step: "latest_revision (Some r) (a # rs) = latest_revision (Some (if rev_Revision a > rev_Revision r then a else r)) rs" for r
    by simp
  show ?case
  proof (intro conjI allI)
    show "latest_revision l (a # rs) = (case l of None \<Rightarrow> latest_revision None (a # rs) | Some r \<Rightarrow> latest_revision (Some r) (a # rs))"
      by (cases l) auto
  next
    fix r
    let ?m = "if rev_Revision a > rev_Revision r then a else r"
    show "latest_revision (Some r) (a # rs) \<noteq> None" using Cons.IH [of None] unfolding step by blast
    have m: "the (latest_revision (Some ?m) rs) \<in> set (?m # rs)"
      "\<forall>r' \<in> set (?m # rs). rev_Revision r' \<le> rev_Revision (the (latest_revision (Some ?m) rs))"
      using Cons.IH [of None] by blast+
    show "the (latest_revision (Some r) (a # rs)) \<in> set (r # a # rs)" using m(1) unfolding step by (auto split: if_splits)
    show "\<forall>r' \<in> set (r # a # rs). rev_Revision r' \<le> rev_Revision (the (latest_revision (Some r) (a # rs)))"
      using m(2) unfolding step by (auto split: if_splits)
  qed
qed

lemma optimized_images_latest:
  assumes "se_ListRevisions se w = (Inr items, w1)" and "items \<noteq> []"
  shows "\<exists>r \<in> set items. (\<forall>r' \<in> set items. rev_Revision r' \<le> rev_Revision r) \<and>
    optimizedImagesEnabled se w = (first_input se (rev_Inputs r), w1)"
proof -
  obtain a rs where items: "items = a # rs" using assms(2) by (cases items) auto
  from latest_revision_max [of None rs] obtain r where "latest_revision (Some a) rs = Some r" "r \<in> set items"
      "\<forall>r' \<in> set items. rev_Revision r' \<le> rev_Revision r"
    unfolding items by (metis option.exhaust_sel)
  then show ?thesis using assms(1) items by (auto simp: optimizedImagesEnabled_def)
qed

section \<open>Properties\<close>

text \<open>
  With the release disabled or an image pinned, an update that passes the default checks is accepted
  for Nextcloud, Forgejo and MariaDB, whatever their own checks would say: host names, the downgrade of
  the version, the encryption of the database, the denied mailers and the change of TLS are not looked at.
\<close>

theorem warning_skips_service_checks:
  assumes "Default_ValidateUpdate Q env h c0 c w = (ws, None, w')" and "sv_DeletionTimestamp c = None"
    and "sv_DisableAppcatRelease c \<or> sv_PinImageTag c \<noteq> []"
    and "as_composite oldNx = c0" and "as_composite nx = c" and "as_composite oldFj = c0" and "as_composite fj = c"
    and "as_composite oldMd = c0" and "as_composite md = c"
  shows "Nextcloud_ValidateUpdate Q env pe se h oldNx nx w = (ws, None, w') \<and>
    Forgejo_ValidateUpdate Q env se h oldFj fj w = (ws, None, w') \<and>
    MariaDB_ValidateUpdate Q env h oldMd md w = (ws, None, w')"
proof -
  have ws: "ws \<noteq> []"
    using Default_update_warnings [OF assms(1,2)] assms(3) by (auto simp: checkManualVersionManagementWarnings_def)
  have "sv_DeletionTimestamp nx = None" "sv_DeletionTimestamp fj = None" "sv_DeletionTimestamp md = None"
    using assms(2,5,7,9) truncate_sel(1) by metis+
  with ws show ?thesis
    by (simp add: Nextcloud_ValidateUpdate_def Forgejo_ValidateUpdate_def MariaDB_ValidateUpdate_def assms(1,4-9))
qed

text \<open>
  Without a warning an update of Forgejo that is accepted has host names that are DNS names and no
  denied mailer protocol, under any spelling of the key.
\<close>

theorem forgejo_accepts_safe_settings:
  assumes "Forgejo_ValidateUpdate Q env se h old fj w = (ws, None, w')" and "sv_DeletionTimestamp fj = None"
    and "\<not> sv_DisableAppcatRelease fj" and "sv_PinImageTag fj = []" and "range_order (se_MailerOrder se)"
  shows "(\<forall>f \<in> set (fj_FQDN fj). se_IsDNSName se f) \<and>
    (\<forall>k v. map_of (fj_Mailer fj) k = Some v \<longrightarrow> EqualFold k ''PROTOCOL'' \<longrightarrow> v \<notin> set denied_mailer_protocols)"
proof -
  obtain ds e w1 where d: "Default_ValidateUpdate Q env h (as_composite old) (as_composite fj) w = (ds, e, w1)"
    by (metis surj_pair)
  have "ds = []" using Default_update_warnings [OF d] assms(2-4) by (simp add: checkManualVersionManagementWarnings_def)
  then have "validateFQDNs se (fj_FQDN fj) = None" "validateForgejoConfig se (fj_Mailer fj) = None"
    using assms(1,2) by (auto simp: Forgejo_ValidateUpdate_def d)
  then show ?thesis by (simp add: validateFQDNs_None validateForgejoConfig_None [OF assms(5)])
qed

lemma not_in_root_folder: "\<not> in_root_folder (''./'' @ s)"
  by (simp add: in_root_folder_def keycloakRootFolders_def has_prefix_def trim_prefix_def)

lemma root_folder_no_dots:
  assumes "folder \<in> set keycloakRootFolders"
  shows "contains_str (folder @ s) ''..'' = contains_str s ''..''"
  using assms by (auto simp: keycloakRootFolders_def has_prefix_def)

lemma root_folder_no_slash: "IsKeycloakRootFolder s \<Longrightarrow> CHR ''/'' \<notin> set s"
proof
  assume root: "IsKeycloakRootFolder s" and "CHR ''/'' \<in> set s"
  then have "to_lower_char (CHR ''/'') \<in> set (to_lower s)" by (auto simp: to_lower_def)
  moreover have "to_lower_char (CHR ''/'') = CHR ''/''" by code_simp
  moreover have "to_lower s \<in> to_lower ` set deploy_keycloakRootFolders"
    using root by (auto simp: IsKeycloakRootFolder_def EqualFold_def)
  moreover have "\<forall>r \<in> set deploy_keycloakRootFolders. CHR ''/'' \<notin> set (to_lower r)" by code_simp
  ultimately show False by auto
qed

lemma trim_root_folder:
  assumes "folder \<in> set keycloakRootFolders"
  shows "trim_prefix (folder @ s) ''/'' = folder @ s" and "trim_prefix (folder @ s) ''./'' = folder @ s"
  using assms by (auto simp: keycloakRootFolders_def trim_prefix_def has_prefix_def)

text \<open>
  A custom file can be put into a root folder of Keycloak: \<open>./conf/x\<close> passes the webhook, which only
  trims a slash, and the composition copies it to \<open>conf/x\<close>; \<open>./conf\<close> passes the webhook as well and makes
  the composition fail.
\<close>

theorem root_folder_bypass:
  assumes "folder \<in> set keycloakRootFolders" and "source \<noteq> []" and "\<not> contains_str rest ''..''"
  shows "validateCustomFilePaths [\<lparr>cf_Source = source, cf_Destination = ''./'' @ folder @ ''/'' @ rest\<rparr>] = None \<and>
    files_to_copy [\<lparr>cf_Source = source, cf_Destination = ''./'' @ folder @ ''/'' @ rest\<rparr>]
      = Inr [(trim_prefix source ''/'', folder @ ''/'' @ rest)] \<and>
    validateCustomFilePaths [\<lparr>cf_Source = source, cf_Destination = ''./'' @ folder\<rparr>] = None \<and>
    files_to_copy [\<lparr>cf_Source = source, cf_Destination = ''./'' @ folder\<rparr>] = Inl (Msg ''destination is bad'')"
proof -
  let ?d = "folder @ ''/'' @ rest"
  have pre: "trim_prefix (''./'' @ s) ''./'' = s" for s by (rule trim_prefix_append)
  have dots: "contains_str (''./'' @ s) ''..'' = contains_str s ''..''" "contains_str (''/'' @ s) ''..'' = contains_str s ''..''" for s
    by (simp_all add: has_prefix_def)
  have nodots: "\<not> contains_str ?d ''..''" "\<not> contains_str folder ''..''"
    using assms(3) root_folder_no_dots [OF assms(1), of "[]"] root_folder_no_dots [OF assms(1), of "''/'' @ rest"]
    unfolding dots(2) by simp_all
  have accept: "validateCustomFilePaths [\<lparr>cf_Source = source, cf_Destination = ''./'' @ s\<rparr>] = None"
    if "\<not> contains_str s ''..''" for s
    using that assms(2) not_in_root_folder [of s] dots(1) [of s] unfolding validateCustomFilePaths_def by simp
  have trim: "trim_prefix ?d ''/'' = ?d" "trim_prefix ?d ''./'' = ?d" "trim_prefix folder ''/'' = folder" "trim_prefix folder ''./'' = folder"
    using trim_root_folder [OF assms(1)] trim_root_folder [OF assms(1), of "[]"] by simp_all
  have "IsKeycloakRootFolder folder"
    using assms(1) by (auto simp: IsKeycloakRootFolder_def deploy_keycloakRootFolders_def keycloakRootFolders_def EqualFold_def)
  then have bad: "\<not> isCustomFileDestinationValid folder" by (simp add: isCustomFileDestinationValid_def trim)
  have "\<not> IsKeycloakRootFolder ?d" using root_folder_no_slash [of ?d] by auto
  then have good: "isCustomFileDestinationValid ?d"
    using nodots(1) unfolding isCustomFileDestinationValid_def Let_def trim by blast
  have copy: "files_to_copy [\<lparr>cf_Source = source, cf_Destination = ''./'' @ s\<rparr>]
      = (if isCustomFileDestinationValid s then Inr [(trim_prefix source ''/'', s)] else Inl (Msg ''destination is bad''))"
    if "trim_prefix s ''/'' = s" for s
    unfolding files_to_copy.simps Let_def custom_file.select_convs pre that by simp
  show ?thesis
    using accept [OF nodots(1)] accept [OF nodots(2)] copy [OF trim(1)] copy [OF trim(3)] good bad by presburger
qed

text \<open>
  A Codey instance that is created without a warning has a host name that no ingress of the list has,
  other than the solvers of ACME challenges.
\<close>

theorem codey_host_unique:
  assumes "Codey_ValidateCreate Q env se h codey w = ([], None, w')"
  shows "\<exists>w1 items. se_ListIngresses se [OwnerKindIs ''XVSHNForgejo''] w1 = (Inr items, w') \<and>
    (\<forall>i \<in> set items. ing_Labels i acme_solver_label = None \<longrightarrow> sv_Name codey @ codeyUrlSuffix \<notin> set (ing_Hosts i))"
proof -
  obtain ds e w1 where d: "Default_ValidateCreate Q env h (as_composite codey) w = (ds, e, w1)"
    by (metis surj_pair)
  have "isCodeyFqdnUnique se (sv_Name codey @ codeyUrlSuffix) [] w1 = (None, w')"
    using assms by (auto simp: Codey_ValidateCreate_def d Let_def split: if_splits prod.splits)
  then have "\<exists>items. se_ListIngresses se [OwnerKindIs ''XVSHNForgejo''] w1 = (Inr items, w')
      \<and> \<not> host_taken (sv_Name codey @ codeyUrlSuffix) items"
    by (auto simp: isCodeyFqdnUnique_def codey_requirements_def split: option.splits sum.splits prod.splits if_splits)
  then show ?thesis unfolding host_taken_iff by blast
qed
section \<open>Instances\<close>

definition example_service_env :: "unit service_env" where
  "example_service_env = \<lparr>se_ListRevisions = (\<lambda>w. (Inr [], w)), se_UnmarshalConfigMap = (\<lambda>s. Inr (\<lambda>_. None)),
     se_IsDNSName = (\<lambda>s. s \<noteq> []), se_NewRequirement = (\<lambda>r. None), se_ListIngresses = (\<lambda>rs w. (Inr [], w)),
     se_MailerOrder = id\<rparr>"

definition pinned_claim :: service_claim where
  "pinned_claim = example_claim\<lparr>sv_DisableAppcatRelease := True\<rparr>"

lemma fold_protocol: "EqualFold ''protocol'' ''PROTOCOL''"
  by code_simp

lemma pinned_update: "Default_ValidateUpdate example_quantity example_webhook_env example_handler example_claim pinned_claim ()
    = ([WarnReleaseDisabled], None, ())"
  by (simp add: pinned_claim_def getEffectiveDiskSize_def example_claim_def example_quantity_def Default_ValidateUpdate_def
    ValidateDiskDownsizing_def ValidateProviderConfig_def quota_block_def example_handler_def
    checkGuaranteedAvailability_def checkManualVersionManagementWarnings_def)

definition example_nx :: "service_claim \<Rightarrow> nextcloud_claim" where
  "example_nx c = service_claim.extend c (nextcloud_claim.fields [[]] False [] ''30'' (Some True))"

definition example_fj :: "service_claim \<Rightarrow> string \<Rightarrow> forgejo_claim" where
  "example_fj c protocol = service_claim.extend c (forgejo_claim.fields [''code.example.org''] [(''protocol'', protocol)])"

definition example_md :: "service_claim \<Rightarrow> bool \<Rightarrow> mariadb_claim" where
  "example_md c tls = service_claim.extend c (mariadb_claim.fields tls)"

definition example_cd :: codey_claim where
  "example_cd = service_claim.extend example_claim (codey_claim.fields [])"

lemma example_truncate: "as_composite (example_nx c) = c" "as_composite (example_fj c p) = c" "as_composite (example_md c b) = c"
  "as_composite example_cd = example_claim"
  by (simp_all add: example_nx_def example_fj_def example_md_def example_cd_def service_claim.defs)

theorem warning_skips_service_checks_witness:
  "Forgejo_ValidateUpdate example_quantity example_webhook_env example_service_env example_handler
     (example_fj example_claim ''smtp'') (example_fj pinned_claim ''sendmail'') () = ([WarnReleaseDisabled], None, ()) \<and>
   validateForgejoConfig example_service_env (fj_Mailer (example_fj pinned_claim ''sendmail'')) \<noteq> None"
proof
  show "Forgejo_ValidateUpdate example_quantity example_webhook_env example_service_env example_handler
     (example_fj example_claim ''smtp'') (example_fj pinned_claim ''sendmail'') () = ([WarnReleaseDisabled], None, ())"
  proof (rule conjunct1 [OF conjunct2 [OF warning_skips_service_checks [OF pinned_update _ _ example_truncate(1)
        example_truncate(1) example_truncate(2) example_truncate(2) example_truncate(3) example_truncate(3)]]])
  qed (simp_all add: pinned_claim_def example_claim_def)
  show "validateForgejoConfig example_service_env (fj_Mailer (example_fj pinned_claim ''sendmail'')) \<noteq> None"
    by (simp add: validateForgejoConfig_def example_service_env_def example_fj_def service_claim.defs forgejo_claim.defs
        fold_protocol denied_mailer_protocols_def)
qed

theorem forgejo_accepts_safe_settings_witness: "''smtp'' \<notin> set denied_mailer_protocols"
proof -
  let ?fj = "example_fj example_claim ''smtp''"
  have "Forgejo_ValidateUpdate example_quantity example_webhook_env example_service_env example_handler ?fj ?fj () = ([], None, ())"
    by (simp add: Forgejo_ValidateUpdate_def example_truncate example_update parent_errors_def)
       (simp add: example_fj_def service_claim.defs forgejo_claim.defs example_claim_def example_service_env_def Get_def
         validateForgejoConfig_def denied_mailer_protocols_def)
  from forgejo_accepts_safe_settings [OF this]
  have "\<forall>k v. map_of (fj_Mailer ?fj) k = Some v \<longrightarrow> EqualFold k ''PROTOCOL'' \<longrightarrow> v \<notin> set denied_mailer_protocols"
    by (simp add: example_fj_def service_claim.defs forgejo_claim.defs example_claim_def example_service_env_def)
  moreover have "map_of (fj_Mailer ?fj) ''protocol'' = Some ''smtp''"
    by (simp add: example_fj_def service_claim.defs forgejo_claim.defs)
  ultimately show ?thesis using fold_protocol by blast
qed

theorem root_folder_bypass_witness:
  "validateCustomFilePaths [\<lparr>cf_Source = ''x'', cf_Destination = ''./conf/keycloak.conf''\<rparr>] = None \<and>
   files_to_copy [\<lparr>cf_Source = ''x'', cf_Destination = ''./conf/keycloak.conf''\<rparr>] = Inr [(''x'', ''conf/keycloak.conf'')]"
  using root_folder_bypass [of "''conf''" "''x''" "''keycloak.conf''"]
  by (simp add: keycloakRootFolders_def has_prefix_def trim_prefix_def)

theorem codey_host_unique_witness:
  "\<exists>w1 items. se_ListIngresses example_service_env [OwnerKindIs ''XVSHNForgejo''] w1 = (Inr items, ()) \<and>
    (\<forall>i \<in> set items. ing_Labels i acme_solver_label = None \<longrightarrow> sv_Name example_cd @ codeyUrlSuffix \<notin> set (ing_Hosts i))"
proof (rule codey_host_unique [where Q = example_quantity and env = example_webhook_env and h = example_handler and w = "()"])
  have "Default_ValidateCreate example_quantity example_webhook_env example_handler example_claim () = ([], None, ())"
    by (simp add: Default_ValidateCreate_def example_claim_def ValidateProviderConfig_def quota_block_def example_handler_def
      validateResourceNameLength_def checkGuaranteedAvailability_def checkManualVersionManagementWarnings_def)
  then show "Codey_ValidateCreate example_quantity example_webhook_env example_service_env example_handler example_cd () = ([], None, ())"
    by (simp add: Codey_ValidateCreate_def example_truncate parent_errors_def isCodeyFqdnUnique_def codey_requirements_def
        example_service_env_def)
qed

end
