(* ===== verification/Semver.thy ===== *)
theory Semver
  imports Prelude "HOL-Library.List_Lexorder"
begin

text \<open>
  The versions of \<open>github.com/blang/semver\<close> as the maintenance uses them: the fields the code reads are
  a record, the package's functions a record of functions, and \<open>semver_order\<close> what its documentation
  promises of them (the order of semver.org, in which a pre-release counts only between equal numbers).
\<close>

text \<open>\<open>vs_Pre\<close> is None when the slice of pre-release identifiers is nil.\<close>

record semver_version =
  vs_Major :: nat
  vs_Minor :: nat
  vs_Patch :: nat
  vs_Pre :: "string list option"

record semver_ops =
  so_ParseTolerant :: "string \<Rightarrow> gerr + semver_version"
  so_New :: "string \<Rightarrow> gerr + semver_version"
  so_EQ :: "semver_version \<Rightarrow> semver_version \<Rightarrow> bool"
  so_LTE :: "semver_version \<Rightarrow> semver_version \<Rightarrow> bool"
  so_String :: "semver_version \<Rightarrow> string"

definition triple_less :: "semver_version \<Rightarrow> semver_version \<Rightarrow> bool" where
  "triple_less a b \<longleftrightarrow> vs_Major a < vs_Major b \<or> vs_Major a = vs_Major b \<and>
     (vs_Minor a < vs_Minor b \<or> vs_Minor a = vs_Minor b \<and> vs_Patch a < vs_Patch b)"

definition same_triple :: "semver_version \<Rightarrow> semver_version \<Rightarrow> bool" where
  "same_triple a b \<longleftrightarrow> vs_Major a = vs_Major b \<and> vs_Minor a = vs_Minor b \<and> vs_Patch a = vs_Patch b"

text \<open>The laws, with the place of a version in the order as its rank.\<close>

definition semver_order :: "semver_ops \<Rightarrow> (semver_version \<Rightarrow> 'r::linorder) \<Rightarrow> bool" where
  "semver_order so rank \<longleftrightarrow>
     (\<forall>a b. so_LTE so a b \<longleftrightarrow> rank a \<le> rank b) \<and> (\<forall>a b. so_EQ so a b \<longleftrightarrow> rank a = rank b) \<and>
     (\<forall>a b. triple_less a b \<longrightarrow> rank a < rank b) \<and>
     (\<forall>a b. same_triple a b \<and> vs_Pre a = None \<and> vs_Pre b = None \<longrightarrow> rank a = rank b)"

lemma semver_orderD:
  assumes "semver_order so rank"
  shows "so_LTE so a b \<longleftrightarrow> rank a \<le> rank b" and "so_EQ so a b \<longleftrightarrow> rank a = rank b"
    and "triple_less a b \<Longrightarrow> rank a < rank b"
    and "same_triple a b \<Longrightarrow> vs_Pre a = None \<Longrightarrow> vs_Pre b = None \<Longrightarrow> rank a = rank b"
  using assms unfolding semver_order_def by blast+

text \<open>Equal ranks mean equal numbers.\<close>

lemma rank_eq_triple:
  assumes "semver_order so rank" and "rank a = rank b"
  shows "same_triple a b"
proof -
  have "\<not> triple_less a b" "\<not> triple_less b a"
    using semver_orderD(3) [OF assms(1)] assms(2) by (metis less_irrefl)+
  then show ?thesis unfolding triple_less_def same_triple_def by (meson linorder_neqE_nat)
qed

section \<open>An instance\<close>

text \<open>Numbers separated by dots; the rank puts the three numbers into one and a pre-release before them.\<close>

definition example_parse :: "string \<Rightarrow> gerr + semver_version" where
  "example_parse s = (case map parse_int (split_char (CHR ''.'') s) of
     [Some a, Some b, Some c] \<Rightarrow> Inr \<lparr>vs_Major = nat a, vs_Minor = nat b, vs_Patch = nat c, vs_Pre = None\<rparr>
   | _ \<Rightarrow> Inl (Msg ''invalid version''))"

definition triple_rank :: "semver_version \<Rightarrow> nat list" where
  "triple_rank v = [vs_Major v, vs_Minor v, vs_Patch v]"

definition example_New :: "string \<Rightarrow> gerr + semver_version" where
  "example_New s = (case cut_char (CHR ''-'') s of (a, b, pre) \<Rightarrow>
     (case example_parse a of
        Inl e \<Rightarrow> Inl e
      | Inr v \<Rightarrow> Inr (if pre then v\<lparr>vs_Pre := Some (split_char (CHR ''.'') b)\<rparr> else v)))"

definition example_String :: "semver_version \<Rightarrow> string" where
  "example_String v = join_char (CHR ''.'') (map (\<lambda>n. itoa (int n)) [vs_Major v, vs_Minor v, vs_Patch v]) @
     (case vs_Pre v of None \<Rightarrow> '''' | Some ids \<Rightarrow> CHR ''-'' # join_char (CHR ''.'') ids)"

definition example_rank :: "semver_version \<Rightarrow> nat list" where
  "example_rank v = triple_rank v @ [if vs_Pre v = None then 1 else 0]"

definition example_semver :: semver_ops where
  "example_semver = \<lparr>so_ParseTolerant = (\<lambda>s. example_New (trim_prefix s ''v'')), so_New = example_New,
     so_EQ = (\<lambda>a b. example_rank a = example_rank b), so_LTE = (\<lambda>a b. example_rank a \<le> example_rank b),
     so_String = example_String\<rparr>"

lemma example_semver_order: "semver_order example_semver example_rank"
  by (auto simp: semver_order_def example_semver_def example_rank_def triple_rank_def triple_less_def same_triple_def)

end
