(* ===== verification/Release.thy ===== *)
theory Release
  imports Semver Resources "HOL-Library.List_Lexorder"
begin

text \<open>
  The roll-out of composition revisions, \<open>src/pkg/maintenance/release/release.go\<close>: which revision is the
  latest one old enough, when a claim or composite is moved to it, and when it is left alone because
  that would take it back. The cluster is the parameter \<open>release_env\<close>; of a claim or a composite the record
  \<open>comp_object\<close> keeps what the code reads or writes.
\<close>

section \<open>Data\<close>

definition DefaultServiceIDLabel :: string where
  "DefaultServiceIDLabel = ''metadata.appcat.vshn.io/serviceID''"

definition RevisionLabel :: string where
  "RevisionLabel = ''metadata.appcat.vshn.io/revision''"

definition AutoUpdate :: string where
  "AutoUpdate = ''metadata.appcat.vshn.io/autoUpdate''"

lemmas release_labels = DefaultServiceIDLabel_def RevisionLabel_def AutoUpdate_def

record group_version_kind =
  gvk_Group :: string
  gvk_Version :: string
  gvk_Kind :: string

text \<open>\<open>xpv1.UpdatePolicy\<close>; a label selector is its \<open>MatchLabels\<close>, a nil map being the empty one.\<close>

datatype update_policy = UpdateAutomatic | UpdateManual

record comp_object =
  co_gvk :: group_version_kind
  co_namespace :: string
  co_name :: string
  co_labels :: str_map
  co_policy :: "update_policy option"
  co_selector :: "str_map option"

record composition_revision =
  cr_name :: string
  cr_labels :: str_map
  cr_Revision :: int
  cr_CreationTimestamp :: instant

record releaser_opts =
  ro_ClaimName :: string
  ro_Composite :: string
  ro_ClaimNamespace :: string
  ro_Group :: string
  ro_Kind :: string
  ro_Version :: string
  ro_ServiceID :: string
  ro_ServiceIDLabel :: string

record version_handler =
  claimName :: string
  compositeName :: string
  claimNamespace :: string
  ownerGroup :: string
  ownerKind :: string
  ownerVersion :: string
  serviceId :: string
  serviceIDLabel :: string

record 'w release_env =
  re_ListRevisions :: "string \<Rightarrow> string \<Rightarrow> 'w \<Rightarrow> (gerr + composition_revision list) \<times> 'w"
  re_Get :: "group_version_kind \<Rightarrow> string \<Rightarrow> string \<Rightarrow> 'w \<Rightarrow> (gerr + comp_object) \<times> 'w"
  re_Update :: "comp_object \<Rightarrow> 'w \<Rightarrow> gerr option \<times> 'w"
  re_Now :: "'w \<Rightarrow> instant \<times> 'w"

definition NewDefaultVersionHandler :: "releaser_opts \<Rightarrow> version_handler" where
  "NewDefaultVersionHandler opts =
     (let label = (if ro_ServiceIDLabel opts = '''' then DefaultServiceIDLabel else ro_ServiceIDLabel opts)
      in \<lparr>claimName = ro_ClaimName opts, compositeName = ro_Composite opts, claimNamespace = ro_ClaimNamespace opts,
          ownerGroup = ro_Group opts, ownerKind = ro_Kind opts, ownerVersion = ro_Version opts,
          serviceId = ro_ServiceID opts, serviceIDLabel = label\<rparr>)"

section \<open>The latest revision\<close>

definition filterRevisionsByAge ::
    "instant \<Rightarrow> composition_revision list \<Rightarrow> duration \<Rightarrow> composition_revision list" where
  "filterRevisionsByAge now revisions minAge =
     filter (\<lambda>item. minAge \<le> time_sub now (cr_CreationTimestamp item)) revisions"

text \<open>The loop over \<open>eligibleRevisions[1:]\<close>.\<close>

fun newest_revision :: "composition_revision \<Rightarrow> composition_revision list \<Rightarrow> composition_revision" where
  "newest_revision latest [] = latest"
| "newest_revision latest (item # items) =
     newest_revision (if cr_Revision latest < cr_Revision item then item else latest) items"

definition getLatestRevision ::
    "'w release_env \<Rightarrow> version_handler \<Rightarrow> duration \<Rightarrow> 'w \<Rightarrow> (gerr + composition_revision) \<times> 'w" where
  "getLatestRevision env vh minAge w =
     (case re_ListRevisions env (serviceIDLabel vh) (serviceId vh) w of
        (Inl e, w) \<Rightarrow> (Inl (Wrapped ''failed to list composition revisions'' e), w)
      | (Inr items, w) \<Rightarrow>
          (if items = [] then (Inl (Msg ''no composition revisions found''), w)
           else (case re_Now env w of
             (now, w) \<Rightarrow>
               (let old = filterRevisionsByAge now items minAge;
                    eligible = (if old = [] then items else old)
                in (Inr (newest_revision (hd eligible) (tl eligible)), w)))))"

definition getLatestRevisionLabel ::
    "'w release_env \<Rightarrow> version_handler \<Rightarrow> duration \<Rightarrow> 'w \<Rightarrow> (gerr + string) \<times> 'w" where
  "getLatestRevisionLabel env vh minAge w =
     (case getLatestRevision env vh minAge w of
        (Inl e, w) \<Rightarrow> (Inl (Wrapped ''failed to fetch latest revision'' e), w)
      | (Inr cr, w) \<Rightarrow>
          (case cr_labels cr RevisionLabel of
             None \<Rightarrow> (Inl (Msg ''missing revision label in composition revision''), w)
           | Some revision \<Rightarrow>
               (if revision = '''' then (Inl (Msg ''missing revision label in composition revision''), w)
                else (Inr revision, w))))"

section \<open>Claims and composites\<close>

text \<open>\<open>strings.TrimLeft(s, "Xx")\<close> takes a set of characters, so it removes all leading ones.\<close>

definition removeLeadingX :: "string \<Rightarrow> string" where
  "removeLeadingX s = dropWhile (\<lambda>c. c \<in> set ''Xx'') s"

definition getClaimGVK :: "version_handler \<Rightarrow> group_version_kind" where
  "getClaimGVK vh = \<lparr>gvk_Group = ownerGroup vh, gvk_Version = ownerVersion vh, gvk_Kind = removeLeadingX (ownerKind vh)\<rparr>"

definition getCompositeGVK :: "version_handler \<Rightarrow> group_version_kind" where
  "getCompositeGVK vh = \<lparr>gvk_Group = ownerGroup vh, gvk_Version = ownerVersion vh, gvk_Kind = ownerKind vh\<rparr>"

definition applyUpdatePolicy :: "comp_object \<Rightarrow> string \<Rightarrow> comp_object" where
  "applyUpdatePolicy obj revision =
     obj\<lparr>co_policy := Some UpdateAutomatic, co_selector := Some [RevisionLabel \<mapsto> revision]\<rparr>"

definition setAutoPolicy :: "comp_object \<Rightarrow> comp_object" where
  "setAutoPolicy obj = obj\<lparr>co_policy := Some UpdateAutomatic, co_selector := None\<rparr>"

definition hasAutoUpdateLabel :: "comp_object \<Rightarrow> bool" where
  "hasAutoUpdateLabel obj = (co_labels obj AutoUpdate = Some ''true'')"

definition parseRevisionLabel :: "semver_ops \<Rightarrow> string \<Rightarrow> gerr + semver_version" where
  "parseRevisionLabel so revisionLabel =
     (if revisionLabel = '''' then Inl (Msg ''revision label is empty'')
      else (let firstPart = hd (split_char (CHR ''-'') revisionLabel)
            in (case so_ParseTolerant so firstPart of
                  Inl e \<Rightarrow> Inl (Wrapped ''failed to parse revision label'' e)
                | Inr version \<Rightarrow> Inr version)))"

definition getCurrentRevisionLabel :: "comp_object \<Rightarrow> string" where
  "getCurrentRevisionLabel obj =
     (case co_selector obj of
        None \<Rightarrow> ''''
      | Some labels \<Rightarrow> (case labels RevisionLabel of None \<Rightarrow> '''' | Some l \<Rightarrow> l))"

definition shouldSkipRevisionUpdate :: "semver_ops \<Rightarrow> comp_object \<Rightarrow> string \<Rightarrow> bool" where
  "shouldSkipRevisionUpdate so obj targetRevision =
     (let currentLabel = getCurrentRevisionLabel obj in
      if currentLabel = '''' then False
      else (case parseRevisionLabel so currentLabel of
              Inl e \<Rightarrow> False
            | Inr currentVersion \<Rightarrow>
                (case parseRevisionLabel so targetRevision of
                   Inl e \<Rightarrow> False
                 | Inr targetVersion \<Rightarrow> so_LTE so targetVersion currentVersion)))"

text \<open>What both update functions do to the object they have read; None is the early return that writes nothing.\<close>

definition retarget :: "semver_ops \<Rightarrow> string \<Rightarrow> bool \<Rightarrow> comp_object \<Rightarrow> comp_object option" where
  "retarget so revision enabled obj =
     (if enabled then
        (if hasAutoUpdateLabel obj then Some (setAutoPolicy obj)
         else if shouldSkipRevisionUpdate so obj revision then None
         else Some (applyUpdatePolicy obj revision))
      else Some (setAutoPolicy obj))"

definition updateClaim ::
    "semver_ops \<Rightarrow> 'w release_env \<Rightarrow> version_handler \<Rightarrow> string \<Rightarrow> bool \<Rightarrow> 'w \<Rightarrow> gerr option \<times> 'w" where
  "updateClaim so env vh revision enabled w =
     (case re_Get env (getClaimGVK vh) (claimNamespace vh) (claimName vh) w of
        (Inl e, w) \<Rightarrow> (Some e, w)
      | (Inr c, w) \<Rightarrow>
          (case retarget so revision enabled c of
             None \<Rightarrow> (None, w)
           | Some c' \<Rightarrow>
               (case re_Update env c' w of
                  (None, w) \<Rightarrow> (None, w)
                | (Some e, w) \<Rightarrow>
                    (if IsNotFound e then (Some e, w) else (Some (Wrapped ''failed to update claim'' e), w)))))"

definition updateComposite ::
    "semver_ops \<Rightarrow> 'w release_env \<Rightarrow> version_handler \<Rightarrow> string \<Rightarrow> bool \<Rightarrow> 'w \<Rightarrow> gerr option \<times> 'w" where
  "updateComposite so env vh revision enabled w =
     (case re_Get env (getCompositeGVK vh) '''' (compositeName vh) w of
        (Inl e, w) \<Rightarrow> (Some (Wrapped ''failed to get composite'' e), w)
      | (Inr c, w) \<Rightarrow>
          (case retarget so revision enabled c of
             None \<Rightarrow> (None, w)
           | Some c' \<Rightarrow>
               (case re_Update env c' w of
                  (None, w) \<Rightarrow> (None, w)
                | (Some e, w) \<Rightarrow> (Some (Wrapped ''failed to update composite'' e), w))))"

text \<open>The part of \<open>ReleaseLatest\<close> after the revision is known.\<close>

definition release_revision ::
    "semver_ops \<Rightarrow> 'w release_env \<Rightarrow> version_handler \<Rightarrow> string \<Rightarrow> bool \<Rightarrow> 'w \<Rightarrow> gerr option \<times> 'w" where
  "release_revision so env vh revision enabled w =
     (case updateClaim so env vh revision enabled w of
        (None, w) \<Rightarrow> (None, w)
      | (Some e, w) \<Rightarrow>
          (if IsNotFound e \<or> claimName vh = '''' \<and> claimNamespace vh = ''''
           then updateComposite so env vh revision enabled w
           else (Some (Wrapped ''failed to update claim'' e), w)))"

definition ReleaseLatest ::
    "semver_ops \<Rightarrow> 'w release_env \<Rightarrow> version_handler \<Rightarrow> bool \<Rightarrow> duration \<Rightarrow> 'w \<Rightarrow> gerr option \<times> 'w" where
  "ReleaseLatest so env vh enabled minAge w =
     (if enabled then
        (case getLatestRevisionLabel env vh minAge w of
           (Inl e, w) \<Rightarrow> (Some e, w)
         | (Inr revision, w) \<Rightarrow>
             (if revision = '''' then (None, w) else release_revision so env vh revision True w))
      else release_revision so env vh '''' False w)"

section \<open>The latest revision, proved\<close>

lemma newest_revision_max:
  "newest_revision r rs \<in> set (r # rs) \<and> (\<forall>x \<in> set (r # rs). cr_Revision x \<le> cr_Revision (newest_revision r rs))"
proof (induction rs arbitrary: r)
  case (Cons item rs)
  show ?case
  proof (cases "cr_Revision r < cr_Revision item")
    case True
    then show ?thesis using Cons [of item] by auto
  next
    case False
    then show ?thesis using Cons [of r] by auto
  qed
qed simp

definition newest_of :: "composition_revision list \<Rightarrow> composition_revision \<Rightarrow> bool" where
  "newest_of rs r \<longleftrightarrow> r \<in> set rs \<and> (\<forall>x \<in> set rs. cr_Revision x \<le> cr_Revision r)"

lemma newest_of_list: "rs \<noteq> [] \<Longrightarrow> newest_of rs (newest_revision (hd rs) (tl rs))"
  using newest_revision_max [of "hd rs" "tl rs"] by (simp add: newest_of_def)

definition old_enough :: "instant \<Rightarrow> duration \<Rightarrow> composition_revision \<Rightarrow> bool" where
  "old_enough now minAge r \<longleftrightarrow> minAge \<le> time_sub now (cr_CreationTimestamp r)"

text \<open>
  The latest revision is the one with the highest number among those that have reached the minimum
  age; only when none has, it is the highest of all, so there always is one unless the list is empty.
\<close>

theorem latest_revision_spec:
  assumes "re_ListRevisions env (serviceIDLabel vh) (serviceId vh) w = (Inr items, w1)"
    and "re_Now env w1 = (now, w2)" and "items \<noteq> []"
  shows "\<exists>r. getLatestRevision env vh minAge w = (Inr r, w2) \<and>
    newest_of (if \<exists>x \<in> set items. old_enough now minAge x then filter (old_enough now minAge) items else items) r"
proof -
  have old: "filterRevisionsByAge now items minAge = filter (old_enough now minAge) items"
    by (simp add: filterRevisionsByAge_def old_enough_def [abs_def])
  show ?thesis
    using assms newest_of_list [of items] newest_of_list [of "filter (old_enough now minAge) items"]
    by (auto simp: getLatestRevision_def old Let_def filter_empty_conv)
qed

section \<open>The store of claims and composites\<close>

type_synonym obj_key = "group_version_kind \<times> string \<times> string"

definition obj_key_of :: "comp_object \<Rightarrow> obj_key" where
  "obj_key_of obj = (co_gvk obj, co_namespace obj, co_name obj)"

definition claim_key :: "version_handler \<Rightarrow> obj_key" where
  "claim_key vh = (getClaimGVK vh, claimNamespace vh, claimName vh)"

definition composite_key :: "version_handler \<Rightarrow> obj_key" where
  "composite_key vh = (getCompositeGVK vh, '''', compositeName vh)"

text \<open>
  What the API server promises: a read returns the stored object and changes nothing, a successful update
  stores the object under its own key, a failed one may or may not have reached the store.
\<close>

definition release_store :: "'w release_env \<Rightarrow> ('w \<Rightarrow> obj_key \<Rightarrow> comp_object option) \<Rightarrow> bool" where
  "release_store env objs \<longleftrightarrow>
     (\<forall>g ns n w r w'. re_Get env g ns n w = (r, w') \<longrightarrow>
        objs w' = objs w \<and> (\<forall>obj. r = Inr obj \<longrightarrow> objs w (g, ns, n) = Some obj)) \<and>
     (\<forall>obj w r w'. re_Update env obj w = (r, w') \<longrightarrow>
        objs w' = (objs w)(obj_key_of obj \<mapsto> obj) \<or> r \<noteq> None \<and> objs w' = objs w) \<and>
     (\<forall>w k obj. objs w k = Some obj \<longrightarrow> obj_key_of obj = k) \<and>
     (\<forall>l s w r w'. re_ListRevisions env l s w = (r, w') \<longrightarrow> objs w' = objs w) \<and>
     (\<forall>w now w'. re_Now env w = (now, w') \<longrightarrow> objs w' = objs w)"

lemma release_storeD:
  assumes "release_store env objs"
  shows "re_Get env g ns n w = (r, w') \<Longrightarrow> objs w' = objs w"
    and "re_Get env g ns n w = (Inr obj, w') \<Longrightarrow> objs w (g, ns, n) = Some obj"
    and "re_Update env obj w = (None, w') \<Longrightarrow> objs w' = (objs w)(obj_key_of obj \<mapsto> obj)"
    and "re_Update env obj w = (err, w') \<Longrightarrow> objs w' = (objs w)(obj_key_of obj \<mapsto> obj) \<or> objs w' = objs w"
    and "objs w k = Some obj \<Longrightarrow> obj_key_of obj = k"
    and "re_ListRevisions env l s w = (rl, w') \<Longrightarrow> objs w' = objs w"
    and "re_Now env w = (now, w') \<Longrightarrow> objs w' = objs w"
  using assms unfolding release_store_def by (blast | metis)+

lemma retarget_key: "retarget so target en obj = Some obj' \<Longrightarrow> obj_key_of obj' = obj_key_of obj"
  by (auto simp: retarget_def setAutoPolicy_def applyUpdatePolicy_def obj_key_of_def split: if_splits)

lemma retarget_labels: "retarget so target en obj = Some obj' \<Longrightarrow> co_labels obj' = co_labels obj"
  by (auto simp: retarget_def setAutoPolicy_def applyUpdatePolicy_def split: if_splits)

lemma latest_label_keeps:
  assumes "release_store env objs" and "getLatestRevisionLabel env vh minAge w = (r, w')"
  shows "objs w' = objs w"
  using assms(2) release_storeD(6,7) [OF assms(1)]
  by (fastforce simp: getLatestRevisionLabel_def getLatestRevision_def Let_def split: prod.splits sum.splits if_splits option.splits)

section \<open>The contract of the two update functions\<close>

text \<open>
  \<open>updateClaim\<close> and \<open>updateComposite\<close> do the same to different objects: they write at most the object of
  their key, as \<open>retarget\<close> says, and when they succeed it is written. What follows for a rollout is proved
  once from that contract.
\<close>

definition written :: "(obj_key \<Rightarrow> comp_object option) \<Rightarrow> obj_key \<Rightarrow> (comp_object \<Rightarrow> comp_object option) \<Rightarrow>
    gerr option \<Rightarrow> (obj_key \<Rightarrow> comp_object option) \<Rightarrow> bool" where
  "written before k f r after \<longleftrightarrow>
     (after = before \<or> (\<exists>obj obj'. before k = Some obj \<and> f obj = Some obj' \<and> after = before(k \<mapsto> obj'))) \<and>
     (r = None \<longrightarrow> (\<exists>obj. before k = Some obj \<and> after k = Some (case f obj of None \<Rightarrow> obj | Some obj' \<Rightarrow> obj')))"

locale revision_updater =
  fixes update :: "semver_ops \<Rightarrow> 'w release_env \<Rightarrow> version_handler \<Rightarrow> string \<Rightarrow> bool \<Rightarrow> 'w \<Rightarrow> gerr option \<times> 'w"
    and key :: "version_handler \<Rightarrow> obj_key"
  assumes contract: "release_store env objs \<Longrightarrow> update so env vh target en w = (r, w') \<Longrightarrow>
      written (objs w) (key vh) (retarget so target en) r (objs w')"
begin

text \<open>An object is left alone or becomes what \<open>retarget\<close> makes of it.\<close>

lemma object_after:
  assumes "release_store env objs" and "update so env vh target en w = (r, w')" and "objs w k = Some obj"
  shows "\<exists>obj'. objs w' k = Some obj' \<and> (obj' = obj \<or> retarget so target en obj = Some obj')"
  using contract [OF assms(1,2)] assms(3) by (auto simp: written_def)

lemma success:
  assumes "release_store env objs" and "update so env vh target en w = (None, w')"
  shows "\<exists>obj. objs w (key vh) = Some obj \<and>
    objs w' (key vh) = Some (case retarget so target en obj of None \<Rightarrow> obj | Some obj' \<Rightarrow> obj')"
  using contract [OF assms] by (simp add: written_def)

end

lemma read_retarget_written:
  assumes store: "release_store env objs" and get: "re_Get env g ns n w = (got, w1)"
    and keeps: "\<And>obj obj'. f obj = Some obj' \<Longrightarrow> obj_key_of obj' = obj_key_of obj"
    and fails: "\<And>e. got = Inl e \<Longrightarrow> r \<noteq> None \<and> w' = w1"
    and skips: "\<And>obj. got = Inr obj \<Longrightarrow> f obj = None \<Longrightarrow> w' = w1"
    and stores: "\<And>obj obj'. got = Inr obj \<Longrightarrow> f obj = Some obj' \<Longrightarrow>
      \<exists>u. re_Update env obj' w1 = (u, w') \<and> (r = None \<longrightarrow> u = None)"
  shows "written (objs w) (g, ns, n) f r (objs w')"
proof (cases got)
  case (Inl e)
  then show ?thesis using fails release_storeD(1) [OF store get] by (auto simp: written_def)
next
  case (Inr obj)
  have w1: "objs w1 = objs w" and obj: "objs w (g, ns, n) = Some obj"
    using release_storeD(1,2) [OF store] get Inr by blast+
  show ?thesis
  proof (cases "f obj")
    case None
    then show ?thesis using skips [OF Inr] w1 obj by (simp add: written_def)
  next
    case (Some obj')
    have "obj_key_of obj' = (g, ns, n)" using keeps [OF Some] release_storeD(5) [OF store obj] by simp
    moreover obtain u where "re_Update env obj' w1 = (u, w')" "r = None \<longrightarrow> u = None" using stores [OF Inr Some] by blast
    ultimately show ?thesis using release_storeD(3,4) [OF store, of obj' w1] w1 obj Some by (auto simp: written_def)
  qed
qed

interpretation claim_updater: revision_updater updateClaim claim_key
proof
  fix env :: "'w release_env" and objs :: "'w \<Rightarrow> obj_key \<Rightarrow> comp_object option" and so vh target en w r w'
  assume store: "release_store env objs" and u: "updateClaim so env vh target en w = (r, w')"
  obtain got w1 where get: "re_Get env (getClaimGVK vh) (claimNamespace vh) (claimName vh) w = (got, w1)" by fastforce
  show "written (objs w) (claim_key vh) (retarget so target en) r (objs w')"
    unfolding claim_key_def
    by (rule read_retarget_written [OF store get retarget_key])
      (use u get in \<open>auto simp: updateClaim_def split: option.splits prod.splits if_splits\<close>)
qed

interpretation composite_updater: revision_updater updateComposite composite_key
proof
  fix env :: "'w release_env" and objs :: "'w \<Rightarrow> obj_key \<Rightarrow> comp_object option" and so vh target en w r w'
  assume store: "release_store env objs" and u: "updateComposite so env vh target en w = (r, w')"
  obtain got w1 where get: "re_Get env (getCompositeGVK vh) '''' (compositeName vh) w = (got, w1)" by fastforce
  show "written (objs w) (composite_key vh) (retarget so target en) r (objs w')"
    unfolding composite_key_def
    by (rule read_retarget_written [OF store get retarget_key])
      (use u get in \<open>auto simp: updateComposite_def split: option.splits prod.splits if_splits\<close>)
qed

section \<open>Rollouts over time\<close>

definition release_level :: "semver_ops \<Rightarrow> comp_object \<Rightarrow> semver_version option" where
  "release_level so obj =
     (case parseRevisionLabel so (getCurrentRevisionLabel obj) of Inl e \<Rightarrow> None | Inr v \<Rightarrow> Some v)"

lemma release_level_apply:
  assumes "parseRevisionLabel so target = Inr v"
  shows "release_level so (applyUpdatePolicy obj target) = Some v"
  using assms by (simp add: release_level_def applyUpdatePolicy_def getCurrentRevisionLabel_def RevisionLabel_def)

lemma empty_label_no_level: "getCurrentRevisionLabel obj = '''' \<Longrightarrow> release_level so obj = None"
  by (simp add: release_level_def parseRevisionLabel_def)

text \<open>A pinned object only goes up.\<close>

lemma retarget_up:
  assumes "semver_order so rank" and "retarget so target True obj = Some obj'" and "\<not> hasAutoUpdateLabel obj"
    and "release_level so obj = Some v" and "parseRevisionLabel so target = Inr t"
  shows "release_level so obj' = Some t \<and> rank v < rank t"
proof -
  have cur: "parseRevisionLabel so (getCurrentRevisionLabel obj) = Inr v"
    using assms(4) by (simp add: release_level_def split: sum.splits)
  have "getCurrentRevisionLabel obj \<noteq> ''''" using assms(4) empty_label_no_level by fastforce
  then have "obj' = applyUpdatePolicy obj target \<and> \<not> so_LTE so t v"
    using assms(2,3,5) cur by (auto simp: retarget_def shouldSkipRevisionUpdate_def Let_def split: if_splits)
  then show ?thesis using release_level_apply [OF assms(5)] semver_orderD(1) [OF assms(1)] by (simp add: not_le)
qed

lemma release_revision_object:
  assumes "release_store env objs" and "release_revision so env vh target en w = (r, w')" and "objs w k = Some obj"
  shows "\<exists>obj'. objs w' k = Some obj' \<and>
    (obj' = obj \<or> retarget so target en obj = Some obj' \<or> (\<exists>mid. retarget so target en obj = Some mid \<and> retarget so target en mid = Some obj'))"
proof -
  obtain e w1 where c: "updateClaim so env vh target en w = (e, w1)" by fastforce
  obtain mid where mid: "objs w1 k = Some mid" "mid = obj \<or> retarget so target en obj = Some mid"
    using claim_updater.object_after [OF assms(1) c assms(3)] by blast
  consider "w' = w1" | "updateComposite so env vh target en w1 = (r, w')"
    using assms(2) c by (auto simp: release_revision_def split: option.splits if_splits)
  then show ?thesis
  proof cases
    case 2
    show ?thesis using composite_updater.object_after [OF assms(1) 2 mid(1)] mid(2) by auto
  qed (use mid in auto)
qed

text \<open>Every label a listed revision carries can be read as a version.\<close>

definition revisions_parse :: "semver_ops \<Rightarrow> 'w release_env \<Rightarrow> bool" where
  "revisions_parse so env \<longleftrightarrow>
     (\<forall>l s w items w'. re_ListRevisions env l s w = (Inr items, w') \<longrightarrow>
        (\<forall>r \<in> set items. \<forall>label. cr_labels r RevisionLabel = Some label \<and> label \<noteq> '''' \<longrightarrow>
           (\<exists>v. parseRevisionLabel so label = Inr v)))"

lemma latest_label_from_list:
  assumes "getLatestRevisionLabel env vh minAge w = (Inr label, w')"
  shows "label \<noteq> '''' \<and> (\<exists>items w1. re_ListRevisions env (serviceIDLabel vh) (serviceId vh) w = (Inr items, w1) \<and>
    (\<exists>r \<in> set items. cr_labels r RevisionLabel = Some label))"
proof -
  obtain cr where cr: "getLatestRevision env vh minAge w = (Inr cr, w')" "cr_labels cr RevisionLabel = Some label" "label \<noteq> ''''"
    using assms by (auto simp: getLatestRevisionLabel_def split: prod.splits sum.splits option.splits if_splits)
  then obtain items w1 where items: "re_ListRevisions env (serviceIDLabel vh) (serviceId vh) w = (Inr items, w1)" "items \<noteq> []"
    by (auto simp: getLatestRevision_def split: prod.splits sum.splits if_splits)
  obtain now w2 where now: "re_Now env w1 = (now, w2)" by fastforce
  have "cr \<in> set items"
    using items now cr(1) newest_of_list [of items] newest_of_list [of "filterRevisionsByAge now items minAge"]
    by (auto simp: getLatestRevision_def Let_def newest_of_def filterRevisionsByAge_def split: if_splits)
  then show ?thesis using items cr by blast
qed

text \<open>
  What happens to the cluster over time: rollouts for any instance, and anything else that leaves the
  labels and the revision selectors of the existing objects alone.
\<close>

inductive rollouts :: "semver_ops \<Rightarrow> 'w release_env \<Rightarrow> ('w \<Rightarrow> obj_key \<Rightarrow> comp_object option) \<Rightarrow> 'w \<Rightarrow> 'w \<Rightarrow> bool"
  for so env objs w where
  start: "rollouts so env objs w w"
| rollout: "rollouts so env objs w w' \<Longrightarrow> ReleaseLatest so env vh True minAge w' = (r, w'') \<Longrightarrow> rollouts so env objs w w''"
| elsewhere: "rollouts so env objs w w' \<Longrightarrow>
    (\<And>k obj. objs w' k = Some obj \<Longrightarrow>
       \<exists>obj'. objs w'' k = Some obj' \<and> co_selector obj' = co_selector obj \<and> co_labels obj' = co_labels obj) \<Longrightarrow>
    rollouts so env objs w w''"

lemma rollout_step:
  assumes ord: "semver_order so rank" and store: "release_store env objs" and parse: "revisions_parse so env"
    and run: "ReleaseLatest so env vh True minAge w = (r, w')"
    and obj: "objs w k = Some obj" "\<not> hasAutoUpdateLabel obj" "release_level so obj = Some v"
  shows "\<exists>obj' v'. objs w' k = Some obj' \<and> \<not> hasAutoUpdateLabel obj' \<and> release_level so obj' = Some v' \<and> rank v \<le> rank v'"
proof -
  obtain l w1 where l: "getLatestRevisionLabel env vh minAge w = (l, w1)" by fastforce
  have w1: "objs w1 = objs w" using latest_label_keeps [OF store l] .
  show ?thesis
  proof (cases l)
    case (Inl e)
    then show ?thesis using run l w1 obj by (auto simp: ReleaseLatest_def)
  next
    case (Inr target)
    then have "getLatestRevisionLabel env vh minAge w = (Inr target, w1)" using l by simp
    note t = latest_label_from_list [OF this]
    then obtain tv where tv: "parseRevisionLabel so target = Inr tv"
      using parse unfolding revisions_parse_def by blast
    have r: "release_revision so env vh target True w1 = (r, w')"
      using run l Inr t by (simp add: ReleaseLatest_def)
    have up: "\<not> hasAutoUpdateLabel x \<Longrightarrow> release_level so x = Some xv \<Longrightarrow> retarget so target True x = Some y \<Longrightarrow>
        \<not> hasAutoUpdateLabel y \<and> release_level so y = Some tv \<and> rank xv < rank tv" for x y xv
      using retarget_up [OF ord _ _ _ tv] retarget_labels by (fastforce simp: hasAutoUpdateLabel_def)
    show ?thesis
      using release_revision_object [OF store r, of k obj] w1 obj up by (smt (verit) less_imp_le less_le_trans order_refl)
  qed
qed

text \<open>
  C17. Whatever sequence of rollouts and of other changes happens, the revision an instance is pinned to
  never goes back: an object with a readable revision that does not follow all updates still has one
  later, and it is not lower.
\<close>

theorem rollouts_never_go_back:
  assumes "semver_order so rank" and "release_store env objs" and "revisions_parse so env"
    and "rollouts so env objs w w'"
    and "objs w k = Some obj" and "\<not> hasAutoUpdateLabel obj" and "release_level so obj = Some v"
  shows "\<exists>obj' v'. objs w' k = Some obj' \<and> \<not> hasAutoUpdateLabel obj' \<and> release_level so obj' = Some v' \<and> rank v \<le> rank v'"
  using assms(4)
proof induction
  case start
  then show ?case using assms by blast
next
  case (rollout w' vh minAge r w'')
  then show ?case using rollout_step [OF assms(1-3) rollout.hyps(2)] by (meson order_trans)
next
  case (elsewhere w' w'')
  then obtain o1 v1 where o1: "objs w' k = Some o1" "\<not> hasAutoUpdateLabel o1" "release_level so o1 = Some v1" "rank v \<le> rank v1"
    by blast
  from elsewhere.hyps(2) [OF o1(1)] o1 show ?case
    by (auto simp: hasAutoUpdateLabel_def release_level_def getCurrentRevisionLabel_def)
qed

text \<open>
  A rollout that reports success has reached its instance: the claim, or the composite, follows all
  updates, or it is pinned to a version at least as high as the one of the latest revision.
\<close>

theorem rollout_reaches_latest:
  assumes "semver_order so rank" and "release_store env objs"
    and "ReleaseLatest so env vh True minAge w = (None, w')"
    and "getLatestRevisionLabel env vh minAge w = (Inr label, w1)"
    and "parseRevisionLabel so label = Inr latest"
  shows "\<exists>obj \<in> {obj. objs w' (claim_key vh) = Some obj} \<union> {obj. objs w' (composite_key vh) = Some obj}.
    if hasAutoUpdateLabel obj then co_selector obj = None
    else \<exists>v. release_level so obj = Some v \<and> rank latest \<le> rank v"
proof -
  have "label \<noteq> ''''" using latest_label_from_list [OF assms(4)] by blast
  then have run: "release_revision so env vh label True w1 = (None, w')" using assms(3,4) by (simp add: ReleaseLatest_def)
  have done_right: "if hasAutoUpdateLabel x then co_selector x = None
      else \<exists>v. release_level so x = Some v \<and> rank latest \<le> rank v"
    if "x = (case retarget so label True obj of None \<Rightarrow> obj | Some obj' \<Rightarrow> obj')" for x obj
  proof (cases "hasAutoUpdateLabel obj")
    case True
    then show ?thesis using that by (simp add: retarget_def setAutoPolicy_def hasAutoUpdateLabel_def)
  next
    case auto: False
    show ?thesis
    proof (cases "retarget so label True obj")
      case None
      then have skip: "shouldSkipRevisionUpdate so obj label" using auto by (simp add: retarget_def split: if_splits)
      then obtain v where "release_level so obj = Some v" "so_LTE so latest v"
        using assms(5) by (auto simp: shouldSkipRevisionUpdate_def release_level_def Let_def split: if_splits sum.splits)
      then show ?thesis using that None auto semver_orderD(1) [OF assms(1)] by auto
    next
      case (Some obj')
      then have "obj' = applyUpdatePolicy obj label" using auto by (simp add: retarget_def split: if_splits)
      then show ?thesis using that Some auto release_level_apply [OF assms(5)]
        by (simp add: hasAutoUpdateLabel_def applyUpdatePolicy_def)
    qed
  qed
  obtain e w2 where c: "updateClaim so env vh label True w1 = (e, w2)" by fastforce
  consider "e = None" "w' = w2" | "updateComposite so env vh label True w2 = (None, w')"
    using run c by (cases e) (simp_all add: release_revision_def split: if_splits)
  then show ?thesis
  proof cases
    case 1
    then have "updateClaim so env vh label True w1 = (None, w')" using c by simp
    from claim_updater.success [OF assms(2) this] show ?thesis using done_right by blast
  next
    case 2
    from composite_updater.success [OF assms(2) 2] show ?thesis using done_right by blast
  qed
qed

section \<open>A cluster to run it on\<close>

text \<open>Objects and revisions; the clock stands still.\<close>

definition example_objs :: "(obj_key \<Rightarrow> comp_object option) \<Rightarrow> obj_key \<Rightarrow> comp_object option" where
  "example_objs w k = (case w k of Some obj \<Rightarrow> if obj_key_of obj = k then Some obj else None | None \<Rightarrow> None)"

definition example_release :: "composition_revision list \<Rightarrow> instant \<Rightarrow> (obj_key \<Rightarrow> comp_object option) release_env" where
  "example_release revs now =
     \<lparr>re_ListRevisions = (\<lambda>l s w. (Inr (filter (\<lambda>r. cr_labels r l = Some s) revs), w)),
      re_Get = (\<lambda>g ns n w. (case example_objs w (g, ns, n) of None \<Rightarrow> Inl (ApiErr NotFound) | Some obj \<Rightarrow> Inr obj, w)),
      re_Update = (\<lambda>obj w. (if example_objs w (obj_key_of obj) = None then (Some (ApiErr NotFound), w)
                           else (None, w(obj_key_of obj \<mapsto> obj)))),
      re_Now = (\<lambda>w. (now, w))\<rparr>"

lemma example_release_store: "release_store (example_release revs now) example_objs"
  by (auto simp: release_store_def example_release_def example_objs_def fun_eq_iff split: option.splits if_splits)

definition example_handler :: version_handler where
  "example_handler = NewDefaultVersionHandler \<lparr>ro_ClaimName = ''pg'', ro_Composite = ''pg-x'', ro_ClaimNamespace = ''ns'',
     ro_Group = ''vshn.appcat.vshn.io'', ro_Kind = ''XVSHNPostgreSQL'', ro_Version = ''v1'', ro_ServiceID = ''vshn-postgresql'',
     ro_ServiceIDLabel = ''''\<rparr>"

definition example_pinned :: "string \<Rightarrow> comp_object" where
  "example_pinned label = \<lparr>co_gvk = getClaimGVK example_handler, co_namespace = ''ns'', co_name = ''pg'', co_labels = Map.empty,
     co_policy = None, co_selector = Some [RevisionLabel \<mapsto> label]\<rparr>"

definition example_revision :: "int \<Rightarrow> string \<Rightarrow> instant \<Rightarrow> composition_revision" where
  "example_revision n label t = \<lparr>cr_name = label, cr_labels = [DefaultServiceIDLabel \<mapsto> ''vshn-postgresql'', RevisionLabel \<mapsto> label],
     cr_Revision = n, cr_CreationTimestamp = t\<rparr>"

text \<open>Three revisions of which the newest is too young.\<close>

definition example_revisions :: "composition_revision list" where
  "example_revisions = [example_revision 1 ''v1.2.0-v4.1.0'' 0, example_revision 3 ''v1.4.0-v4.3.0'' (20 * hour),
     example_revision 2 ''v1.3.0-v4.2.0'' 0]"

abbreviation example_cluster :: "(obj_key \<Rightarrow> comp_object option) release_env" where
  "example_cluster \<equiv> example_release example_revisions (24 * hour)"

abbreviation example_world :: "obj_key \<Rightarrow> comp_object option" where
  "example_world \<equiv> [claim_key example_handler \<mapsto> example_pinned ''v1.2.0-v4.1.0'']"

lemmas example_release_defs = example_release_def example_handler_def NewDefaultVersionHandler_def example_pinned_def
  example_revision_def example_revisions_def release_labels getClaimGVK_def claim_key_def obj_key_of_def
  removeLeadingX_def duration_defs

lemma example_listed:
  "re_ListRevisions example_cluster (serviceIDLabel example_handler) (serviceId example_handler) w = (Inr example_revisions, w)"
  "re_Now example_cluster w = (24 * hour, w)"
  by (simp_all add: example_release_defs)

text \<open>Of the two that are old enough, the second is the newest.\<close>

lemma latest_revision_spec_witness:
  "\<exists>r. getLatestRevision example_cluster example_handler (10 * hour) example_world = (Inr r, example_world) \<and>
    newest_of (if \<exists>x \<in> set example_revisions. old_enough (24 * hour) (10 * hour) x
               then filter (old_enough (24 * hour) (10 * hour)) example_revisions else example_revisions) r"
  using latest_revision_spec [OF example_listed, of "10 * hour"] by (simp add: example_revisions_def)


lemma example_parses:
  "parseRevisionLabel example_semver ''v1.2.0-v4.1.0'' = Inr \<lparr>vs_Major = 1, vs_Minor = 2, vs_Patch = 0, vs_Pre = None\<rparr>"
  "parseRevisionLabel example_semver ''v1.3.0-v4.2.0'' = Inr \<lparr>vs_Major = 1, vs_Minor = 3, vs_Patch = 0, vs_Pre = None\<rparr>"
  "parseRevisionLabel example_semver ''v1.4.0-v4.3.0'' = Inr \<lparr>vs_Major = 1, vs_Minor = 4, vs_Patch = 0, vs_Pre = None\<rparr>"
  by code_simp+

lemma example_latest:
  "getLatestRevisionLabel example_cluster example_handler (10 * hour) example_world = (Inr ''v1.3.0-v4.2.0'', example_world)"
  unfolding getLatestRevisionLabel_def getLatestRevision_def
  by (simp only: example_listed prod.case sum.case)
    (simp add: filterRevisionsByAge_def time_sub_def example_revisions_def example_revision_def duration_defs Let_def release_labels)

lemma example_retarget:
  "retarget example_semver ''v1.3.0-v4.2.0'' True (example_pinned ''v1.2.0-v4.1.0'') =
     Some (applyUpdatePolicy (example_pinned ''v1.2.0-v4.1.0'') ''v1.3.0-v4.2.0'')"
proof -
  have "\<not> so_LTE example_semver \<lparr>vs_Major = 1, vs_Minor = 3, vs_Patch = 0, vs_Pre = None\<rparr>
      \<lparr>vs_Major = 1, vs_Minor = 2, vs_Patch = 0, vs_Pre = None\<rparr>" by (simp add: example_semver_def example_rank_def triple_rank_def)
  then show ?thesis
    by (simp add: retarget_def hasAutoUpdateLabel_def shouldSkipRevisionUpdate_def getCurrentRevisionLabel_def
      example_pinned_def Let_def example_parses)
qed

lemma example_run:
  "ReleaseLatest example_semver example_cluster example_handler True (10 * hour) example_world =
     (None, [claim_key example_handler \<mapsto> applyUpdatePolicy (example_pinned ''v1.2.0-v4.1.0'') ''v1.3.0-v4.2.0''])"
proof -
  have k: "obj_key_of (example_pinned l) = claim_key example_handler" for l by (simp add: example_release_defs)
  have get: "re_Get example_cluster (getClaimGVK example_handler) (claimNamespace example_handler) (claimName example_handler) example_world
      = (Inr (example_pinned ''v1.2.0-v4.1.0''), example_world)"
    using k by (simp add: example_release_def example_objs_def claim_key_def)
  have up: "re_Update example_cluster (applyUpdatePolicy (example_pinned ''v1.2.0-v4.1.0'') ''v1.3.0-v4.2.0'') example_world
      = (None, [claim_key example_handler \<mapsto> applyUpdatePolicy (example_pinned ''v1.2.0-v4.1.0'') ''v1.3.0-v4.2.0''])"
    using k retarget_key [OF example_retarget] by (simp add: example_release_def example_objs_def)
  show ?thesis by (simp add: ReleaseLatest_def example_latest release_revision_def updateClaim_def get example_retarget up)
qed

lemma example_revisions_parse: "revisions_parse example_semver example_cluster"
  unfolding revisions_parse_def example_release_def
  by (auto simp: example_revisions_def example_revision_def release_labels example_parses split: if_splits)

lemma rollouts_never_go_back_witness:
  "\<exists>obj' v'. [claim_key example_handler \<mapsto> applyUpdatePolicy (example_pinned ''v1.2.0-v4.1.0'') ''v1.3.0-v4.2.0'']
       (claim_key example_handler) = Some obj' \<and>
     \<not> hasAutoUpdateLabel obj' \<and> release_level example_semver obj' = Some v' \<and>
     example_rank \<lparr>vs_Major = 1, vs_Minor = 2, vs_Patch = 0, vs_Pre = None\<rparr> \<le> example_rank v'"
proof -
  let ?w' = "[claim_key example_handler \<mapsto> applyUpdatePolicy (example_pinned ''v1.2.0-v4.1.0'') ''v1.3.0-v4.2.0'']"
  have k: "obj_key_of (example_pinned l) = claim_key example_handler" for l by (simp add: example_release_defs)
  have "example_objs example_world (claim_key example_handler) = Some (example_pinned ''v1.2.0-v4.1.0'')"
    using k by (simp add: example_objs_def)
  moreover have "\<not> hasAutoUpdateLabel (example_pinned ''v1.2.0-v4.1.0'')" by (simp add: hasAutoUpdateLabel_def example_pinned_def)
  moreover have "release_level example_semver (example_pinned ''v1.2.0-v4.1.0'') =
      Some \<lparr>vs_Major = 1, vs_Minor = 2, vs_Patch = 0, vs_Pre = None\<rparr>"
    by (simp add: release_level_def getCurrentRevisionLabel_def example_pinned_def example_parses)
  ultimately have "\<exists>obj' v'. example_objs ?w' (claim_key example_handler) = Some obj' \<and>
     \<not> hasAutoUpdateLabel obj' \<and> release_level example_semver obj' = Some v' \<and>
     example_rank \<lparr>vs_Major = 1, vs_Minor = 2, vs_Patch = 0, vs_Pre = None\<rparr> \<le> example_rank v'"
    by (rule rollouts_never_go_back [OF example_semver_order example_release_store example_revisions_parse
      rollouts.rollout [OF rollouts.start example_run]])
  then show ?thesis by (auto simp: example_objs_def split: option.splits if_splits)
qed

lemma rollout_reaches_latest_witness:
  "\<exists>obj \<in> {obj. example_objs [claim_key example_handler \<mapsto> applyUpdatePolicy (example_pinned ''v1.2.0-v4.1.0'') ''v1.3.0-v4.2.0'']
             (claim_key example_handler) = Some obj}
      \<union> {obj. example_objs [claim_key example_handler \<mapsto> applyUpdatePolicy (example_pinned ''v1.2.0-v4.1.0'') ''v1.3.0-v4.2.0'']
             (composite_key example_handler) = Some obj}.
    if hasAutoUpdateLabel obj then co_selector obj = None
    else \<exists>v. release_level example_semver obj = Some v \<and>
      example_rank \<lparr>vs_Major = 1, vs_Minor = 3, vs_Patch = 0, vs_Pre = None\<rparr> \<le> example_rank v"
  by (rule rollout_reaches_latest [OF example_semver_order example_release_store example_run example_latest example_parses(2)])

end
