(* ===== verification/HelmPatcher.thy ===== *)
theory HelmPatcher
  imports Semver Resources
begin

text \<open>
  The maintenance of the services that are installed by a Helm chart,
  \<open>src/pkg/maintenance/helm/helmpatcher.go\<close>: the versions a registry offers, page by page, the choice of one,
  and the patch of the release. HTTP, the cluster and the decoding of JSON are the parameter \<open>helm_env\<close>. The
  loops over the pages are \<open>partial_function\<close>s, None being a registry whose pages never end.
\<close>

section \<open>Data\<close>

text \<open>A call fails with an error, or panics.\<close>

datatype go_fail = Err gerr | Panic

definition ImageContentType :: string where "ImageContentType = ''image''"

definition ActiveTagStatus :: string where "ActiveTagStatus = ''active''"

lemmas hub_constants = ImageContentType_def ActiveTagStatus_def

record hub_result =
  hr_Name :: string
  hr_TagStatus :: string
  hr_ContentType :: string

text \<open>The two implementations of \<open>VersionLister\<close>: a page list of Docker hub, and the tags of a registry.\<close>

datatype version_lister = HubPayload "hub_result list" | RegistryResult "string list"

fun GetVersions :: "version_lister \<Rightarrow> string list" where
  "GetVersions (HubPayload results) =
     map hr_Name (filter (\<lambda>v. hr_TagStatus v = ActiveTagStatus \<and> hr_ContentType v = ImageContentType) results)"
| "GetVersions (RegistryResult tags) = tags"

text \<open>A \<open>ValuePath\<close> is its \<open>path\<close>, which is what \<open>AsSlice\<close> returns.\<close>

type_synonym value_path = "string list"

definition GetJSONPatchPath :: "value_path \<Rightarrow> string" where
  "GetJSONPatchPath path = ''/spec/forProvider/values/'' @ join_char (CHR ''/'') path"

record helm_release =
  hl_Name :: string
  hl_Namespace :: string
  hl_Values :: string

record json_patch =
  jp_Op :: string
  jp_Path :: string
  jp_Value :: string

record http_response =
  rs_StatusCode :: int
  rs_Header :: "string \<Rightarrow> string"
  rs_Body :: string

text \<open>
  \<open>he_Do url token\<close> sends a GET request with a bearer token, or without the header when it is empty;
  \<open>he_NewRequest\<close> is the error of \<open>http.NewRequest\<close> for a URL.
\<close>

record 'w helm_env =
  he_InstanceNamespace :: string
  he_Get :: "string \<Rightarrow> 'w \<Rightarrow> (gerr + http_response) \<times> 'w"
  he_NewRequest :: "string \<Rightarrow> gerr option"
  he_Do :: "string \<Rightarrow> string \<Rightarrow> 'w \<Rightarrow> (gerr + http_response) \<times> 'w"
  he_ParseURL :: "string \<Rightarrow> gerr + string \<times> string"
  he_DecodePayload :: "string \<Rightarrow> gerr + hub_result list"
  he_DecodeTags :: "string \<Rightarrow> gerr + string list"
  he_DecodeStrings :: "string \<Rightarrow> gerr + str_map"
  he_DecodeValues :: "string \<Rightarrow> gerr + (string \<times> gany) list"
  he_NestedFieldCopy :: "(string \<times> gany) list \<Rightarrow> string list \<Rightarrow> gerr + gany option"
  he_ListReleases :: "'w \<Rightarrow> (gerr + helm_release list) \<times> 'w"
  he_Patch :: "helm_release \<Rightarrow> json_patch list \<Rightarrow> 'w \<Rightarrow> gerr option \<times> 'w"

section \<open>Docker hub\<close>

text \<open>The loop of \<open>getHubVersions\<close>: pages are fetched until one does not hold 100 results.\<close>

partial_function (option) hub_pages ::
    "'w helm_env \<Rightarrow> string \<Rightarrow> hub_result list \<Rightarrow> nat \<Rightarrow> 'w \<Rightarrow> ((go_fail + version_lister) \<times> 'w) option" where
  "hub_pages env imageURL results page w =
     (case he_Get env (imageURL @ ''&page='' @ itoa (int page)) w of
        (Inl e, w) \<Rightarrow> Some (Inl (Err (Wrapped ''cannot access docker hub'' e)), w)
      | (Inr resp, w) \<Rightarrow>
          (case he_DecodePayload env (rs_Body resp) of
             Inl e \<Rightarrow> Some (Inl (Err (Wrapped ''cannot decode payload'' e)), w)
           | Inr payload \<Rightarrow>
               (if length payload \<noteq> 100 then Some (Inr (HubPayload (results @ payload)), w)
                else hub_pages env imageURL (results @ payload) (page + 1) w)))"

definition getHubVersions :: "'w helm_env \<Rightarrow> string \<Rightarrow> 'w \<Rightarrow> ((go_fail + version_lister) \<times> 'w) option" where
  "getHubVersions env imageURL w = hub_pages env imageURL [] 1 w"

section \<open>Other registries\<close>

text \<open>\<open>strings.Trim(s, cutset)\<close>.\<close>

definition trim_set :: "string \<Rightarrow> string \<Rightarrow> string" where
  "trim_set s cutset = rev (dropWhile (\<lambda>c. c \<in> set cutset) (rev (dropWhile (\<lambda>c. c \<in> set cutset) s)))"

fun link_parts :: "string list \<Rightarrow> string" where
  "link_parts [] = ''''"
| "link_parts (part # parts) =
     (case cut_char (CHR '';'') (trim_space part) of (seg0, seg1, found) \<Rightarrow>
        if found \<and> contains_str (trim_space seg1) ''rel=\"next\"'' then trim_set seg0 '' <>''
        else link_parts parts)"

definition parseLinkHeader :: "(string \<Rightarrow> string) \<Rightarrow> string" where
  "parseLinkHeader header =
     (let link = header ''Link'' in if link \<noteq> '''' then link_parts (split_char (CHR '','') link) else '''')"

text \<open>
  The submatch of the regular expression \<open>name="(.*?)"\<close>: the shortest text up to the next quote, on one
  line, after the first place where that is possible.
\<close>

fun quoted_after :: "string \<Rightarrow> string \<Rightarrow> string option" where
  "quoted_after name [] = None"
| "quoted_after name (c # s) =
     (if has_prefix (c # s) (name @ ''=\"'')
      then (case cut_char (CHR 0x22) (drop (length name + 2) (c # s)) of (value, _, closed) \<Rightarrow>
              if closed \<and> CHR 0x0A \<notin> set value then Some value else quoted_after name s)
      else quoted_after name s)"

definition getToken :: "'w helm_env \<Rightarrow> string \<Rightarrow> 'w \<Rightarrow> (gerr + string) \<times> 'w" where
  "getToken env authHeader w =
     (case quoted_after ''realm'' authHeader of
        None \<Rightarrow> (Inl (Msg ''error parsing the token endpoint to fetch token, no realm found''), w)
      | Some realm \<Rightarrow>
     (case quoted_after ''scope'' authHeader of
        None \<Rightarrow> (Inl (Msg ''error parsing the token endpoint to fetch token, no scope found''), w)
      | Some scope \<Rightarrow>
          (case he_Get env (realm @ ''?scope='' @ scope) w of
             (Inl e, w) \<Rightarrow> (Inl (Wrapped ''cannot access registry'' e), w)
           | (Inr resp, w) \<Rightarrow>
               (case he_DecodeStrings env (rs_Body resp) of
                  Inl e \<Rightarrow> (Inl (Wrapped ''cannot decode docker registry results'' e), w)
                | Inr results \<Rightarrow> (Inr (case results ''token'' of None \<Rightarrow> '''' | Some t \<Rightarrow> t), w)))))"

definition listTagsWithToken ::
    "'w helm_env \<Rightarrow> string \<Rightarrow> string \<Rightarrow> 'w \<Rightarrow> (gerr + http_response \<times> string) \<times> 'w" where
  "listTagsWithToken env imageURL authHeader w =
     (case getToken env authHeader w of
        (Inl e, w) \<Rightarrow> (Inl (Wrapped ''cannot get token'' e), w)
      | (Inr token, w) \<Rightarrow>
          (case he_NewRequest env imageURL of
             Some e \<Rightarrow> (Inl (Wrapped ''cannot build GHCR request'' e), w)
           | None \<Rightarrow>
               (case he_Do env imageURL token w of
                  (Inl e, w) \<Rightarrow> (Inl (Wrapped ''cannot get GHCR image tags'' e), w)
                | (Inr resp, w) \<Rightarrow> (Inr (resp, token), w))))"

definition next_url :: "string \<times> string \<Rightarrow> string \<Rightarrow> string" where
  "next_url base nextPath =
     (let path = (if has_prefix nextPath ''/'' then nextPath else CHR ''/'' # nextPath)
      in fst base @ ''://'' @ snd base @ path)"

text \<open>
  The loop over the pages after the first. The error of \<open>http.NewRequest\<close> is ignored there, so a link that
  is no URL is a nil request, and using that panics.
\<close>

partial_function (option) registry_pages ::
    "'w helm_env \<Rightarrow> string \<times> string \<Rightarrow> string \<Rightarrow> string list \<Rightarrow> string \<Rightarrow> 'w \<Rightarrow>
     ((go_fail + version_lister) \<times> 'w) option" where
  "registry_pages env base token tags nextPath w =
     (if nextPath = '''' then Some (Inr (RegistryResult tags), w)
      else
        (let nextURL = next_url base nextPath
         in (case he_NewRequest env nextURL of
               Some _ \<Rightarrow> Some (Inl Panic, w)
             | None \<Rightarrow>
                 (case he_Do env nextURL token w of
                    (Inl e, w) \<Rightarrow> Some (Inl (Err (Wrapped ''cannot access registry'' e)), w)
                  | (Inr resp, w) \<Rightarrow>
                      (if rs_StatusCode resp \<noteq> 200
                       then Some (Inl (Err (Msg ''registry returned bad status code'')), w)
                       else (case he_DecodeTags env (rs_Body resp) of
                               Inl e \<Rightarrow> Some (Inl (Err (Wrapped ''cannot decode registry results'' e)), w)
                             | Inr page \<Rightarrow>
                                 registry_pages env base token (tags @ page) (parseLinkHeader (rs_Header resp)) w))))))"

text \<open>The rest of \<open>getRegistryVersions\<close> once there is a response for the first page.\<close>

definition registry_first_page ::
    "'w helm_env \<Rightarrow> string \<Rightarrow> http_response \<Rightarrow> string \<Rightarrow> 'w \<Rightarrow> ((go_fail + version_lister) \<times> 'w) option" where
  "registry_first_page env imageURL resp token w =
     (if rs_StatusCode resp \<noteq> 200 then Some (Inl (Err (Msg ''registry returned bad status code'')), w)
      else (case he_DecodeTags env (rs_Body resp) of
              Inl e \<Rightarrow> Some (Inl (Err (Wrapped ''cannot decode docker registry results'' e)), w)
            | Inr tags \<Rightarrow>
                (let nextPath = parseLinkHeader (rs_Header resp)
                 in (case he_ParseURL env imageURL of
                       Inl e \<Rightarrow> Some (Inl (Err (Wrapped ''cannot parse maintenanceURL'' e)), w)
                     | Inr base \<Rightarrow> registry_pages env base token tags nextPath w))))"

definition getRegistryVersions :: "'w helm_env \<Rightarrow> string \<Rightarrow> 'w \<Rightarrow> ((go_fail + version_lister) \<times> 'w) option" where
  "getRegistryVersions env imageURL w =
     (case he_Get env imageURL w of
        (Inl e, w) \<Rightarrow> Some (Inl (Err (Wrapped ''cannot access registry'' e)), w)
      | (Inr resp, w) \<Rightarrow>
          (if rs_StatusCode resp = 401
           then (case listTagsWithToken env imageURL (rs_Header resp ''www-authenticate'') w of
                   (Inl e, w) \<Rightarrow> Some (Inl (Err (Wrapped ''cannot list tags with token'' e)), w)
                 | (Inr (authResp, authToken), w) \<Rightarrow> registry_first_page env imageURL authResp authToken w)
           else registry_first_page env imageURL resp '''' w))"

definition getVersions :: "'w helm_env \<Rightarrow> string \<Rightarrow> 'w \<Rightarrow> ((go_fail + version_lister) \<times> 'w) option" where
  "getVersions env imageURL w =
     (if contains_str imageURL ''https://hub.docker.com'' then getHubVersions env imageURL w
      else getRegistryVersions env imageURL w)"

section \<open>The release\<close>

definition GetRelease :: "'w helm_env \<Rightarrow> string \<Rightarrow> 'w \<Rightarrow> (gerr + helm_release) \<times> 'w" where
  "GetRelease env instanceNamespace w =
     (case he_ListReleases env w of
        (Inl e, w) \<Rightarrow> (Inl (Wrapped ''cannot get release list from cluster'' e), w)
      | (Inr items, w) \<Rightarrow>
          (case find (\<lambda>item. hl_Namespace item = instanceNamespace) items of
             None \<Rightarrow> (Inl (Msg ''cannot find release in namespace''), w)
           | Some release \<Rightarrow>
               (if hl_Name release = '''' then (Inl (Msg ''cannot find release in namespace''), w)
                else (Inr release, w))))"

text \<open>The unchecked assertion \<open>tag.(string)\<close> panics on any other value.\<close>

definition getCurrentTagFromRelease :: "'w helm_env \<Rightarrow> helm_release \<Rightarrow> string list \<Rightarrow> go_fail + string" where
  "getCurrentTagFromRelease env release fieldPath =
     (case he_DecodeValues env (hl_Values release) of
        Inl e \<Rightarrow> Inl (Err (Wrapped ''cannot unmarshal values from release'' e))
      | Inr values \<Rightarrow>
          (case he_NestedFieldCopy env values fieldPath of
             Inl e \<Rightarrow> Inl (Err (Wrapped ''cannot get image tag from release'' e))
           | Inr None \<Rightarrow> Inl (Err (Msg ''cannot get image tag from release''))
           | Inr (Some tag) \<Rightarrow> (case tag of GStr s \<Rightarrow> Inr s | _ \<Rightarrow> Inl Panic)))"

definition patchRelease :: "'w helm_env \<Rightarrow> string \<Rightarrow> helm_release \<Rightarrow> string \<Rightarrow> 'w \<Rightarrow> gerr option \<times> 'w" where
  "patchRelease env version release patchPath w =
     he_Patch env release [\<lparr>jp_Op = ''replace'', jp_Path = patchPath, jp_Value = version\<rparr>] w"

section \<open>Which version\<close>

type_synonym strategy = "version_lister \<Rightarrow> string \<Rightarrow> gerr + string"

text \<open>One round of the loop of \<open>semVerPatches\<close>: the highest minor first, then the latest patch.\<close>

definition better_version :: "bool \<Rightarrow> bool \<Rightarrow> semver_version \<Rightarrow> semver_version \<Rightarrow> semver_version" where
  "better_version ignoreBuild checkMinor newV v =
     (let newV = (if checkMinor \<and> vs_Major v = vs_Major newV \<and> vs_Minor newV < vs_Minor v then v else newV)
      in if vs_Major v = vs_Major newV \<and> vs_Minor v = vs_Minor newV \<and> vs_Patch newV < vs_Patch v
         then (if ignoreBuild \<and> vs_Pre v \<noteq> None then newV else v)
         else newV)"

fun best_version :: "semver_ops \<Rightarrow> bool \<Rightarrow> bool \<Rightarrow> semver_version \<Rightarrow> string list \<Rightarrow> semver_version" where
  "best_version so ignoreBuild checkMinor newV [] = newV"
| "best_version so ignoreBuild checkMinor newV (res # results) =
     (case so_New so res of
        Inl e \<Rightarrow> best_version so ignoreBuild checkMinor newV results
      | Inr v \<Rightarrow> best_version so ignoreBuild checkMinor (better_version ignoreBuild checkMinor newV v) results)"

definition semVerPatches :: "semver_ops \<Rightarrow> bool \<Rightarrow> bool \<Rightarrow> strategy" where
  "semVerPatches so ignoreBuild checkMinor results currentTag =
     (case so_ParseTolerant so currentTag of
        Inl e \<Rightarrow> Inl (Wrapped ''current version of release is not sem ver'' e)
      | Inr currentV \<Rightarrow>
          (let newV = best_version so ignoreBuild checkMinor currentV (GetVersions results)
           in if so_EQ so currentV newV then Inr currentTag else Inr (so_String so newV)))"

definition SemVerPatchesOnly :: "semver_ops \<Rightarrow> bool \<Rightarrow> strategy" where
  "SemVerPatchesOnly so ignoreBuild = semVerPatches so ignoreBuild False"

definition SemVerMinorAndPatches :: "semver_ops \<Rightarrow> bool \<Rightarrow> strategy" where
  "SemVerMinorAndPatches so ignoreBuild = semVerPatches so ignoreBuild True"

section \<open>The maintenance of a release\<close>

text \<open>\<open>DoMaintenance\<close> once the versions are known.\<close>

definition patch_if_newer ::
    "'w helm_env \<Rightarrow> version_lister \<Rightarrow> value_path \<Rightarrow> strategy \<Rightarrow> 'w \<Rightarrow> go_fail option \<times> 'w" where
  "patch_if_newer env results tagPath versionComp w =
     (case GetRelease env (he_InstanceNamespace env) w of
        (Inl e, w) \<Rightarrow> (Some (Err (Wrapped ''cannot get release from namespace'' e)), w)
      | (Inr release, w) \<Rightarrow>
          (case getCurrentTagFromRelease env release tagPath of
             Inl (Err e) \<Rightarrow> (Some (Err (Wrapped ''cannot get current tag from release'' e)), w)
           | Inl Panic \<Rightarrow> (Some Panic, w)
           | Inr currentTag \<Rightarrow>
               (case versionComp results currentTag of
                  Inl e \<Rightarrow> (Some (Err (Wrapped ''cannot parse new version from release'' e)), w)
                | Inr version \<Rightarrow>
                    (if currentTag = version then (None, w)
                     else (case patchRelease env version release (GetJSONPatchPath tagPath) w of
                             (None, w) \<Rightarrow> (None, w)
                           | (Some e, w) \<Rightarrow> (Some (Err (Wrapped ''cannot patch release'' e)), w))))))"

definition image_maintenance ::
    "'w helm_env \<Rightarrow> string \<Rightarrow> value_path \<Rightarrow> strategy \<Rightarrow> 'w \<Rightarrow> (go_fail option \<times> 'w) option" where
  "image_maintenance env tagURL tagPath versionComp w =
     (case getVersions env tagURL w of
        None \<Rightarrow> None
      | Some (Inl (Err e), w) \<Rightarrow> Some (Some (Err (Wrapped ''cannot access registry'' e)), w)
      | Some (Inl Panic, w) \<Rightarrow> Some (Some Panic, w)
      | Some (Inr results, w) \<Rightarrow>
          (if GetVersions results = [] then Some (Some (Err (Msg ''no images found! Please check url'')), w)
           else Some (patch_if_newer env results tagPath versionComp w)))"

section \<open>The chosen version\<close>

text \<open>\<open>v\<close> is a version the strategy may move to from \<open>c\<close>.\<close>

definition eligible_version :: "bool \<Rightarrow> bool \<Rightarrow> semver_version \<Rightarrow> semver_version \<Rightarrow> bool" where
  "eligible_version ignoreBuild checkMinor c v \<longleftrightarrow>
     vs_Major v = vs_Major c \<and> (checkMinor \<or> vs_Minor v = vs_Minor c) \<and> \<not> (ignoreBuild \<and> vs_Pre v \<noteq> None)"

lemma better_version_cases:
  obtains (stay) "better_version ib cm n v = n" and "eligible_version ib cm n v \<Longrightarrow> \<not> triple_less n v"
  | (go) "better_version ib cm n v = v" and "vs_Major v = vs_Major n" and "cm \<or> vs_Minor v = vs_Minor n" and "triple_less n v"
proof (cases "cm \<and> vs_Major v = vs_Major n \<and> vs_Minor n < vs_Minor v")
  case True
  then show ?thesis using go by (simp add: better_version_def triple_less_def)
next
  case minor: False
  show ?thesis
  proof (cases "vs_Major v = vs_Major n \<and> vs_Minor v = vs_Minor n \<and> vs_Patch n < vs_Patch v")
    case True
    show ?thesis
    proof (cases "ib \<and> vs_Pre v \<noteq> None")
      case pre: True
      show ?thesis by (rule stay) (use True pre in \<open>simp_all add: better_version_def eligible_version_def\<close>)
    next
      case False
      show ?thesis
        by (rule go) (use True False in \<open>auto simp: better_version_def triple_less_def\<close>)
    qed
  next
    case False
    then have "better_version ib cm n v = n" using minor by (auto simp: better_version_def Let_def)
    moreover have "eligible_version ib cm n v \<Longrightarrow> \<not> triple_less n v"
      using minor False by (auto simp: eligible_version_def triple_less_def)
    ultimately show ?thesis by (rule stay)
  qed
qed

lemma triple_less_trans: "triple_less a b \<Longrightarrow> triple_less b c \<Longrightarrow> triple_less a c"
  by (auto simp: triple_less_def)

lemma triple_less_total: "\<not> triple_less a b \<Longrightarrow> triple_less a c \<Longrightarrow> triple_less b c"
  by (auto simp: triple_less_def)

lemma triple_less_irrefl [simp]: "\<not> triple_less a a"
  by (simp add: triple_less_def)

definition best_of :: "semver_ops \<Rightarrow> bool \<Rightarrow> bool \<Rightarrow> semver_version \<Rightarrow> string list \<Rightarrow> semver_version \<Rightarrow> bool" where
  "best_of so ib cm c tags best \<longleftrightarrow>
     (best = c \<or> triple_less c best \<and> vs_Major best = vs_Major c \<and> (cm \<or> vs_Minor best = vs_Minor c) \<and>
        (\<exists>t \<in> set tags. so_New so t = Inr best)) \<and>
     (\<forall>t \<in> set tags. \<forall>v. so_New so t = Inr v \<and> eligible_version ib cm c v \<longrightarrow> \<not> triple_less best v)"

lemma best_version_best_of: "best_of so ib cm c tags (best_version so ib cm c tags)"
proof (induction tags arbitrary: c)
  case Nil
  then show ?case by (simp add: best_of_def)
next
  case (Cons t tags)
  show ?case
  proof (cases "so_New so t")
    case (Inl e)
    then show ?thesis using Cons [of c] by (auto simp: best_of_def)
  next
    case (Inr v)
    let ?best = "best_version so ib cm (better_version ib cm c v) tags"
    have IH: "best_of so ib cm (better_version ib cm c v) tags ?best" by (rule Cons)
    show ?thesis
    proof (cases rule: better_version_cases [of ib cm c v])
      case stay
      have "\<not> triple_less ?best v" if "eligible_version ib cm c v"
        using IH stay(1) stay(2) [OF that] triple_less_trans [of c ?best v]
        by (auto simp: best_of_def)
      then show ?thesis using IH stay(1) Inr by (auto simp: best_of_def)
    next
      case go
      have up: "?best = v \<or> triple_less v ?best" using IH go(1) by (auto simp: best_of_def)
      have same: "eligible_version ib cm c x \<Longrightarrow> triple_less ?best x \<Longrightarrow> eligible_version ib cm v x" for x
        using go up by (auto simp: eligible_version_def)
      have "vs_Major ?best = vs_Major c" "cm \<or> vs_Minor ?best = vs_Minor c" "triple_less c ?best"
        using IH go up triple_less_trans [OF go(4)] by (auto simp: best_of_def)
      moreover have "\<exists>t' \<in> set (t # tags). so_New so t' = Inr ?best"
        using IH go(1) Inr by (auto simp: best_of_def)
      moreover have "\<not> triple_less ?best v" using up triple_less_trans by fastforce
      ultimately show ?thesis
        using IH go(1) Inr same by (auto simp: best_of_def)
    qed
  qed
qed

text \<open>
  The semantic-version strategy picks the newest version: among the tags that can be read as
  versions, keep the major version (and the minor one, unless minors are allowed) and, where asked, are
  no pre-releases, none is higher than the picked one; the current tag is kept literally unless a
  strictly higher tag is picked, which is one of the registry and stays within the allowed range.
\<close>

theorem semver_picks_newest:
  assumes "semver_order so rank" and "so_ParseTolerant so currentTag = Inr c"
  shows "\<exists>best. best_of so ignoreBuild checkMinor c (GetVersions results) best \<and>
    semVerPatches so ignoreBuild checkMinor results currentTag = Inr (if best = c then currentTag else so_String so best)"
proof -
  let ?best = "best_version so ignoreBuild checkMinor c (GetVersions results)"
  have best: "best_of so ignoreBuild checkMinor c (GetVersions results) ?best" by (rule best_version_best_of)
  have "so_EQ so c ?best \<longleftrightarrow> ?best = c"
    using best semver_orderD(2,3) [OF assms(1)] by (fastforce simp: best_of_def)
  then show ?thesis using best assms(2) by (auto simp: semVerPatches_def Let_def)
qed

section \<open>Pages\<close>

text \<open>A hub that answers from a list of pages, the last of which is the first that is not full.\<close>

definition hub_serves :: "'w helm_env \<Rightarrow> string \<Rightarrow> hub_result list list \<Rightarrow> bool" where
  "hub_serves env imageURL pages \<longleftrightarrow>
     (\<forall>i < length pages. \<forall>w. \<exists>resp w'. he_Get env (imageURL @ ''&page='' @ itoa (int (i + 1))) w = (Inr resp, w') \<and>
        he_DecodePayload env (rs_Body resp) = Inr (pages ! i))"

lemma hub_pages_from:
  assumes "hub_serves env imageURL pages" and "\<forall>p \<in> set (butlast pages). length p = 100"
    and "length (last pages) \<noteq> 100" and "i < length pages"
  shows "\<exists>w'. hub_pages env imageURL acc (i + 1) w = Some (Inr (HubPayload (acc @ concat (drop i pages))), w')"
  using assms(4)
proof (induction "length pages - i" arbitrary: i acc w)
  case (Suc n)
  obtain resp w1 where get: "he_Get env (imageURL @ ''&page='' @ itoa (int (i + 1))) w = (Inr resp, w1)"
      "he_DecodePayload env (rs_Body resp) = Inr (pages ! i)"
    using assms(1) Suc.prems unfolding hub_serves_def by blast
  have drop: "drop i pages = pages ! i # drop (i + 1) pages" using Suc.prems by (simp add: Cons_nth_drop_Suc)
  show ?case
  proof (cases "i + 1 < length pages")
    case True
    then have "butlast pages ! i \<in> set (butlast pages)" by (intro nth_mem) simp
    then have "pages ! i \<in> set (butlast pages)" using True by (simp add: nth_butlast)
    then have "length (pages ! i) = 100" using assms(2) by blast
    moreover have "n = length pages - (i + 1)" using Suc.hyps(2) by simp
    ultimately show ?thesis
      using Suc.hyps(1) [of "i + 1" "acc @ pages ! i" w1] True get drop by (subst hub_pages.simps) simp
  next
    case False
    then have "i = length pages - 1" using Suc.prems by linarith
    then have "pages ! i = last pages" using Suc.prems by (cases "pages = []") (simp_all add: last_conv_nth)
    then have "length (pages ! i) \<noteq> 100" using assms(3) by simp
    then show ?thesis using False Suc.prems get drop by (subst hub_pages.simps) simp
  qed
qed simp

text \<open>
  The loop over the pages of Docker hub ends with every result: when the hub serves full pages of 100
  results and at last one that is not full, all pages are fetched, in order, and nothing is fetched after
  the last.
\<close>

theorem getHubVersions_complete:
  assumes "hub_serves env imageURL pages" and "pages \<noteq> []"
    and "\<forall>p \<in> set (butlast pages). length p = 100" and "length (last pages) \<noteq> 100"
  shows "\<exists>w'. getHubVersions env imageURL w = Some (Inr (HubPayload (concat pages)), w')"
  using hub_pages_from [OF assms(1,3,4), of 0 "[]" w] assms(2) by (simp add: getHubVersions_def)

section \<open>What a maintenance changes\<close>

text \<open>
  \<open>patches w\<close> is the history of patches sent to the cluster. Only \<open>Patch\<close> adds to it, and a patch that fails
  may or may not have been applied.
\<close>

definition patch_history :: "'w helm_env \<Rightarrow> ('w \<Rightarrow> (helm_release \<times> json_patch list) list) \<Rightarrow> bool" where
  "patch_history env patches \<longleftrightarrow>
     (\<forall>url w. patches (snd (he_Get env url w)) = patches w) \<and>
     (\<forall>url token w. patches (snd (he_Do env url token w)) = patches w) \<and>
     (\<forall>w. patches (snd (he_ListReleases env w)) = patches w) \<and>
     (\<forall>rel ops w. patches (snd (he_Patch env rel ops w)) = patches w @ [(rel, ops)] \<or>
        fst (he_Patch env rel ops w) \<noteq> None \<and> patches (snd (he_Patch env rel ops w)) = patches w)"

lemma patch_historyD:
  assumes "patch_history env patches"
  shows "he_Get env url w = (g, w') \<Longrightarrow> patches w' = patches w"
    and "he_Do env url token w = (d, w') \<Longrightarrow> patches w' = patches w"
    and "he_ListReleases env w = (l, w') \<Longrightarrow> patches w' = patches w"
    and "he_Patch env rel ops w = (p, w') \<Longrightarrow> patches w' = patches w @ [(rel, ops)] \<or> patches w' = patches w"
  using assms unfolding patch_history_def by (metis snd_conv)+

lemma hub_pages_keep:
  assumes "hub_pages env imageURL results page w = Some y" and "patch_history env patches"
  shows "patches (snd y) = patches w"
proof -
  have "patch_history env patches \<longrightarrow> patches (snd y) = patches w"
  proof (rule hub_pages.raw_induct [OF _ assms(1), where P = "\<lambda>env url acc n w y.
      patch_history env patches \<longrightarrow> patches (snd y) = patches w"])
    fix loop env url acc n w y
    assume IH: "\<And>env url acc n w y. loop env url acc n w = Some y \<Longrightarrow>
        patch_history env patches \<longrightarrow> patches (snd y) = patches w"
      and body: "(case he_Get env (url @ ''&page='' @ itoa (int n)) w of
        (Inl e, w) \<Rightarrow> Some (Inl (Err (Wrapped ''cannot access docker hub'' e)), w)
      | (Inr resp, w) \<Rightarrow>
          (case he_DecodePayload env (rs_Body resp) of
             Inl e \<Rightarrow> Some (Inl (Err (Wrapped ''cannot decode payload'' e)), w)
           | Inr payload \<Rightarrow>
               (if length payload \<noteq> 100 then Some (Inr (HubPayload (acc @ payload)), w)
                else loop env url (acc @ payload) (n + 1) w))) = Some y"
    show "patch_history env patches \<longrightarrow> patches (snd y) = patches w"
    proof
      assume h: "patch_history env patches"
      obtain g w1 where g: "he_Get env (url @ ''&page='' @ itoa (int n)) w = (g, w1)" by fastforce
      show "patches (snd y) = patches w"
        using body g patch_historyD(1) [OF h g] IH [of env _ _ _ w1] h by (auto split: sum.splits if_splits)
    qed
  qed
  then show ?thesis using assms(2) by blast
qed

lemma registry_pages_keep:
  assumes "registry_pages env base token tags nextPath w = Some y" and "patch_history env patches"
  shows "patches (snd y) = patches w"
proof -
  have "patch_history env patches \<longrightarrow> patches (snd y) = patches w"
  proof (rule registry_pages.raw_induct [OF _ assms(1), where P = "\<lambda>env base token tags nextPath w y.
      patch_history env patches \<longrightarrow> patches (snd y) = patches w"])
    fix loop env base token tags nextPath w y
    assume IH: "\<And>env base token tags nextPath w y. loop env base token tags nextPath w = Some y \<Longrightarrow>
        patch_history env patches \<longrightarrow> patches (snd y) = patches w"
      and body: "(if nextPath = '''' then Some (Inr (RegistryResult tags), w)
      else
        (let nextURL = next_url base nextPath
         in (case he_NewRequest env nextURL of
               Some _ \<Rightarrow> Some (Inl Panic, w)
             | None \<Rightarrow>
                 (case he_Do env nextURL token w of
                    (Inl e, w) \<Rightarrow> Some (Inl (Err (Wrapped ''cannot access registry'' e)), w)
                  | (Inr resp, w) \<Rightarrow>
                      (if rs_StatusCode resp \<noteq> 200
                       then Some (Inl (Err (Msg ''registry returned bad status code'')), w)
                       else (case he_DecodeTags env (rs_Body resp) of
                               Inl e \<Rightarrow> Some (Inl (Err (Wrapped ''cannot decode registry results'' e)), w)
                             | Inr page \<Rightarrow>
                                 loop env base token (tags @ page) (parseLinkHeader (rs_Header resp)) w)))))) = Some y"
    show "patch_history env patches \<longrightarrow> patches (snd y) = patches w"
    proof
      assume h: "patch_history env patches"
      show "patches (snd y) = patches w"
      proof (cases "nextPath = ''''")
        case False
        obtain d w1 where d: "he_Do env (next_url base nextPath) token w = (d, w1)" by fastforce
        show ?thesis
          using body False d patch_historyD(2) [OF h d] IH [of env _ _ _ _ w1] h
          by (auto simp: Let_def split: sum.splits if_splits option.splits)
      qed (use body in auto)
    qed
  qed
  then show ?thesis using assms(2) by blast
qed

lemma token_keeps:
  assumes "patch_history env patches" and "listTagsWithToken env imageURL header w = (r, w')"
  shows "patches w' = patches w"
  using assms(2) patch_historyD(1,2) [OF assms(1)]
  by (fastforce simp: listTagsWithToken_def getToken_def split: option.splits sum.splits prod.splits)

lemma first_page_keeps:
  assumes "patch_history env patches" and "registry_first_page env imageURL resp token w = Some y"
  shows "patches (snd y) = patches w"
proof -
  consider e where "y = (e, w)" | base tags path where "registry_pages env base token tags path w = Some y"
    using assms(2) by (auto simp: registry_first_page_def Let_def split: if_splits sum.splits)
  then show ?thesis using registry_pages_keep [OF _ assms(1)] by cases auto
qed

lemma getVersions_keeps:
  assumes "patch_history env patches" and "getVersions env imageURL w = Some y"
  shows "patches (snd y) = patches w"
proof (cases "contains_str imageURL ''https://hub.docker.com''")
  case True
  then show ?thesis using assms(2) hub_pages_keep [OF _ assms(1)] by (simp add: getVersions_def getHubVersions_def)
next
  case False
  obtain g w1 where g: "he_Get env imageURL w = (g, w1)" by fastforce
  have w1: "patches w1 = patches w" using patch_historyD(1) [OF assms(1) g] .
  have run: "getRegistryVersions env imageURL w = Some y" using assms(2) False by (simp add: getVersions_def)
  show ?thesis
  proof (cases g)
    case (Inl e)
    then show ?thesis using run g w1 by (auto simp: getRegistryVersions_def)
  next
    case (Inr resp)
    obtain t w2 where t: "listTagsWithToken env imageURL (rs_Header resp ''www-authenticate'') w1 = (t, w2)" by fastforce
    have w2: "patches w2 = patches w" using token_keeps [OF assms(1) t] w1 by simp
    consider "registry_first_page env imageURL resp '''' w1 = Some y" | e where "y = (e, w2)"
      | resp' token where "registry_first_page env imageURL resp' token w2 = Some y"
      using run g Inr t by (auto simp: getRegistryVersions_def split: sum.splits if_splits)
    then show ?thesis using first_page_keeps [OF assms(1)] w1 w2 by cases auto
  qed
qed

text \<open>
  The contract of a version strategy: the tag it returns is the current one or a newer one. Under it the
  maintenance sends at most one patch, which puts a newer tag in the place of the current one.
\<close>

definition upgrade_patch ::
    "'w helm_env \<Rightarrow> value_path \<Rightarrow> (string \<Rightarrow> string \<Rightarrow> bool) \<Rightarrow> helm_release \<times> json_patch list \<Rightarrow> bool" where
  "upgrade_patch env path newer p \<longleftrightarrow>
     (\<exists>current new. hl_Namespace (fst p) = he_InstanceNamespace env \<and>
        getCurrentTagFromRelease env (fst p) path = Inr current \<and> newer current new \<and>
        snd p = [\<lparr>jp_Op = ''replace'', jp_Path = GetJSONPatchPath path, jp_Value = new\<rparr>])"

locale version_strategy =
  fixes strategy :: "version_lister \<Rightarrow> string \<Rightarrow> gerr + string" and newer :: "string \<Rightarrow> string \<Rightarrow> bool"
  assumes upgrade: "strategy results current = Inr new \<Longrightarrow> new = current \<or> newer current new"
begin

lemma patch_if_newer_upgrades:
  assumes "patch_history env patches" and "patch_if_newer env results path strategy w = (r, w')"
  shows "patches w' = patches w \<or> (\<exists>p. patches w' = patches w @ [p] \<and> upgrade_patch env path newer p)"
proof -
  obtain g w1 where g: "GetRelease env (he_InstanceNamespace env) w = (g, w1)" by fastforce
  have w1: "patches w1 = patches w"
    using g patch_historyD(3) [OF assms(1)] by (fastforce simp: GetRelease_def split: prod.splits sum.splits option.splits if_splits)
  show ?thesis
  proof (cases g)
    case (Inl e)
    then show ?thesis using assms(2) g w1 by (simp add: patch_if_newer_def)
  next
    case rel: (Inr release)
    have ns: "hl_Namespace release = he_InstanceNamespace env"
      using g rel by (auto simp: GetRelease_def find_Some_iff split: prod.splits sum.splits option.splits if_splits)
    show ?thesis
    proof (cases "getCurrentTagFromRelease env release path")
      case (Inl e)
      then show ?thesis using assms(2) g w1 rel by (auto simp: patch_if_newer_def split: go_fail.splits)
    next
      case tag: (Inr current)
      show ?thesis
      proof (cases "strategy results current")
        case (Inl e)
        then show ?thesis using assms(2) g w1 rel tag by (simp add: patch_if_newer_def)
      next
        case new: (Inr new)
        let ?ops = "[\<lparr>jp_Op = ''replace'', jp_Path = GetJSONPatchPath path, jp_Value = new\<rparr>]"
        obtain p w2 where p: "he_Patch env release ?ops w1 = (p, w2)" by fastforce
        have "w' = w1 \<or> current \<noteq> new \<and> w' = w2"
          using assms(2) g rel tag new p by (auto simp: patch_if_newer_def patchRelease_def split: if_splits option.splits)
        moreover have "current \<noteq> new \<Longrightarrow> upgrade_patch env path newer (release, ?ops)"
          using upgrade [OF new] ns tag by (auto simp: upgrade_patch_def)
        ultimately show ?thesis using patch_historyD(4) [OF assms(1) p] w1 by auto
      qed
    qed
  qed
qed

lemma maintenance_upgrades:
  assumes "patch_history env patches" and "image_maintenance env url path strategy w = Some (r, w')"
  shows "patches w' = patches w \<or> (\<exists>p. patches w' = patches w @ [p] \<and> upgrade_patch env path newer p)"
proof -
  obtain y where y: "getVersions env url w = Some y" using assms(2) by (auto simp: image_maintenance_def split: option.splits)
  obtain v w1 where v: "y = (v, w1)" by fastforce
  have w1: "patches w1 = patches w" using getVersions_keeps [OF assms(1) y] v by simp
  show ?thesis
  proof (cases v)
    case (Inl e)
    then show ?thesis using assms(2) y v w1 by (cases e) (auto simp: image_maintenance_def)
  next
    case (Inr results)
    then show ?thesis
      using assms(2) y v w1 patch_if_newer_upgrades [OF assms(1), of results path w1 r w']
      by (auto simp: image_maintenance_def split: if_splits)
  qed
qed

end


section \<open>The semantic-version strategies\<close>

definition semver_upgrade :: "semver_ops \<Rightarrow> bool \<Rightarrow> string \<Rightarrow> string \<Rightarrow> bool" where
  "semver_upgrade so checkMinor current new \<longleftrightarrow>
     (\<exists>c v. so_ParseTolerant so current = Inr c \<and> new = so_String so v \<and> \<not> so_EQ so c v \<and>
        (v = c \<or> triple_less c v \<and> vs_Major v = vs_Major c \<and> (checkMinor \<or> vs_Minor v = vs_Minor c)))"

interpretation semver_strategy: version_strategy "semVerPatches so ignoreBuild checkMinor" "semver_upgrade so checkMinor"
  for so ignoreBuild checkMinor
proof
  fix results current new
  assume "semVerPatches so ignoreBuild checkMinor results current = Inr new"
  moreover note best_version_best_of [of so ignoreBuild checkMinor _ "GetVersions results"]
  ultimately show "new = current \<or> semver_upgrade so checkMinor current new"
    unfolding semver_upgrade_def best_of_def by (fastforce simp: semVerPatches_def Let_def split: sum.splits if_splits)
qed

text \<open>Under the laws of the versions the new tag is a higher version, not another spelling of the current one.\<close>

lemma semver_upgrade_strict:
  assumes "semver_order so rank" and "semver_upgrade so checkMinor current new"
  shows "\<exists>c v. so_ParseTolerant so current = Inr c \<and> new = so_String so v \<and> triple_less c v \<and>
    vs_Major v = vs_Major c \<and> (checkMinor \<or> vs_Minor v = vs_Minor c)"
  using assms(2) semver_orderD(2) [OF assms(1)] unfolding semver_upgrade_def by blast

text \<open>
  A pre-release of a new minor version is taken although pre-releases are to be ignored, and once it is
  installed its final release is not taken any more: only a higher patch number counts.
\<close>

lemma prerelease_of_new_minor_sticks:
  assumes "semver_order so rank" and "so_ParseTolerant so current = Inr c"
    and "so_New so pre = Inr p" and "vs_Pre p \<noteq> None" and "so_New so final = Inr f" and "same_triple f p"
    and "vs_Major p = vs_Major c" and "vs_Minor c < vs_Minor p"
  shows "SemVerMinorAndPatches so True (RegistryResult [pre, final]) current = Inr (so_String so p)"
    and "so_ParseTolerant so installed = Inr p \<Longrightarrow>
      SemVerMinorAndPatches so True (RegistryResult [pre, final]) installed = Inr installed"
proof -
  have "rank c < rank p" using semver_orderD(3) [OF assms(1), of c p] assms(7,8) by (simp add: triple_less_def)
  then have lt: "rank c \<noteq> rank p" by simp
  have best: "best_version so True True c [pre, final] = p" "best_version so True True p [pre, final] = p"
    using assms by (simp_all add: better_version_def same_triple_def)
  show "SemVerMinorAndPatches so True (RegistryResult [pre, final]) current = Inr (so_String so p)"
    using assms(2) best(1) lt semver_orderD(2) [OF assms(1)]
    by (simp add: SemVerMinorAndPatches_def semVerPatches_def Let_def del: best_version.simps)
  show "SemVerMinorAndPatches so True (RegistryResult [pre, final]) installed = Inr installed"
    if "so_ParseTolerant so installed = Inr p"
    using that best(2) semver_orderD(2) [OF assms(1)]
    by (simp add: SemVerMinorAndPatches_def semVerPatches_def Let_def del: best_version.simps)
qed

section \<open>Concrete runs\<close>

lemma semver_picks_newest_witness:
  "\<exists>best. best_of example_semver False True \<lparr>vs_Major = 1, vs_Minor = 2, vs_Patch = 3, vs_Pre = None\<rparr>
       (GetVersions (RegistryResult [''1.2.4'', ''2.0.0'', ''1.10.0'', ''latest''])) best \<and>
     semVerPatches example_semver False True (RegistryResult [''1.2.4'', ''2.0.0'', ''1.10.0'', ''latest'']) ''v1.2.3'' =
       Inr (if best = \<lparr>vs_Major = 1, vs_Minor = 2, vs_Patch = 3, vs_Pre = None\<rparr> then ''v1.2.3'' else so_String example_semver best)"
  by (rule semver_picks_newest [OF example_semver_order]) code_simp

text \<open>A hub with one full page and one that holds two images; the world counts the requests.\<close>

definition example_hub_page :: "nat \<Rightarrow> hub_result list" where
  "example_hub_page i = (if i = 0 then replicate 100 \<lparr>hr_Name = ''1.2.4'', hr_TagStatus = ''active'', hr_ContentType = ''image''\<rparr>
     else [\<lparr>hr_Name = ''1.2.5'', hr_TagStatus = ''active'', hr_ContentType = ''image''\<rparr>])"

definition example_hub :: "nat helm_env" where
  "example_hub = \<lparr>he_InstanceNamespace = ''ns'',
     he_Get = (\<lambda>url w. (Inr \<lparr>rs_StatusCode = 200, rs_Header = (\<lambda>_. ''''), rs_Body = url\<rparr>, w + 1)),
     he_NewRequest = (\<lambda>_. None),
     he_Do = (\<lambda>url token w. (Inl (Msg ''no registry''), w)),
     he_ParseURL = (\<lambda>_. Inr ('''', '''')),
     he_DecodePayload = (\<lambda>body. Inr (if body = ''u&page=1'' then example_hub_page 0 else example_hub_page 1)),
     he_DecodeTags = (\<lambda>_. Inr []),
     he_DecodeStrings = (\<lambda>_. Inr Map.empty),
     he_DecodeValues = (\<lambda>_. Inr []),
     he_NestedFieldCopy = (\<lambda>_ _. Inr None),
     he_ListReleases = (\<lambda>w. (Inr [], w)),
     he_Patch = (\<lambda>_ _ w. (None, w))\<rparr>"

lemma example_hub_serves: "hub_serves example_hub ''u'' [example_hub_page 0, example_hub_page 1]"
proof -
  have "itoa 1 = ''1''" "itoa 2 = ''2''" by code_simp+
  then show ?thesis
    unfolding hub_serves_def example_hub_def by (auto simp: less_2_cases_iff numeral_2_eq_2 less_Suc_eq)
qed

lemma getHubVersions_complete_witness:
  "\<exists>w'. getHubVersions example_hub ''u'' 0 = Some (Inr (HubPayload (concat [example_hub_page 0, example_hub_page 1])), w')"
  by (rule getHubVersions_complete [OF example_hub_serves]) (simp_all add: example_hub_page_def)

end
