(* ===== verification/ServiceMaintenance.thy ===== *)
theory ServiceMaintenance
  imports HelmPatcher
begin

text \<open>
  The maintenance jobs of the services built on a Helm release: \<open>src/pkg/maintenance/{config,url,redis,mariadb,
  nextcloud,forgejo,keycloak,minio}.go\<close>. A MinIO tag is a date; \<open>time.Parse\<close> and \<open>Format\<close> are written out for
  the layout it has.
\<close>

section \<open>Environment and configuration\<close>

text \<open>\<open>strconv.ParseBool\<close>.\<close>

definition parse_bool :: "string \<Rightarrow> bool option" where
  "parse_bool s =
     (if s \<in> {''1'', ''t'', ''T'', ''true'', ''TRUE'', ''True''} then Some True
      else if s \<in> {''0'', ''f'', ''F'', ''false'', ''FALSE'', ''False''} then Some False
      else None)"

text \<open>\<open>config.go\<close>: \<open>parseBool\<close> takes what cannot be read as false.\<close>

definition parseBool :: "string \<Rightarrow> bool" where
  "parseBool s = (parse_bool s = Some True)"

record maintenance_config =
  mc_DisableServiceMaint :: bool
  mc_DisableAppcatRelease :: bool

definition GetMaintenanceConfig ::
    "('w \<Rightarrow> (gerr + str_map) \<times> 'w) \<Rightarrow> string \<Rightarrow> 'w \<Rightarrow> (gerr + maintenance_config) \<times> 'w" where
  "GetMaintenanceConfig get_cm serviceID w =
     (case get_cm w of
        (Inl e, w) \<Rightarrow> (Inl e, w)
      | (Inr data, w) \<Rightarrow>
          (Inr \<lparr>mc_DisableServiceMaint = parseBool (or_zero '''' (data (serviceID @ ''.disableServiceMaint''))),
                mc_DisableAppcatRelease = parseBool (or_zero '''' (data (serviceID @ ''.disableAppcatRelease'')))\<rparr>, w))"

text \<open>The environment variable \<open>MAINTENANCE_URL\<close>, empty when it is not set.\<close>

definition getMaintenanceURL :: "string \<Rightarrow> gerr + string" where
  "getMaintenanceURL url = (if url \<noteq> '''' then Inr url else Inl (Msg ''MAINTENANCE_URL environment variable not set''))"

section \<open>Dates in MinIO tags\<close>

text \<open>A UTC time in the fields of its date. Times in UTC are ordered as their fields are.\<close>

record utc_time =
  ut_year :: nat
  ut_month :: nat
  ut_day :: nat
  ut_hour :: nat
  ut_minute :: nat
  ut_second :: nat
  ut_nanosecond :: nat

definition time_fields :: "utc_time \<Rightarrow> nat list" where
  "time_fields t = [ut_year t, ut_month t, ut_day t, ut_hour t, ut_minute t, ut_second t, ut_nanosecond t]"

definition Before :: "utc_time \<Rightarrow> utc_time \<Rightarrow> bool" where
  "Before a b \<longleftrightarrow> time_fields a < time_fields b"

definition days_in :: "nat \<Rightarrow> nat \<Rightarrow> nat" where
  "days_in month year =
     (if month = 2 then (if year mod 4 = 0 \<and> (year mod 100 \<noteq> 0 \<or> year mod 400 = 0) then 29 else 28)
      else if month \<in> {4, 6, 9, 11} then 30 else 31)"

definition valid_time :: "utc_time \<Rightarrow> bool" where
  "valid_time t \<longleftrightarrow> ut_year t < 10000 \<and> 1 \<le> ut_month t \<and> ut_month t \<le> 12 \<and> 1 \<le> ut_day t \<and>
     ut_day t \<le> days_in (ut_month t) (ut_year t) \<and> ut_hour t < 24 \<and> ut_minute t < 60 \<and> ut_second t < 60"

text \<open>\<open>getnum\<close> of package \<open>time\<close>: two digits, or one where the layout does not fix the width.\<close>

definition is_digit :: "char \<Rightarrow> bool" where
  "is_digit c \<longleftrightarrow> digit_val c \<noteq> None"

definition digit :: "char \<Rightarrow> nat" where
  "digit c = (case digit_val c of None \<Rightarrow> 0 | Some d \<Rightarrow> nat d)"

definition getnum :: "bool \<Rightarrow> string \<Rightarrow> (nat \<times> string) option" where
  "getnum fixed s =
     (case s of
        a # b # rest \<Rightarrow>
          (if \<not> is_digit a then None
           else if is_digit b then Some (digit a * 10 + digit b, rest)
           else if fixed then None else Some (digit a, b # rest))
      | [a] \<Rightarrow> (if is_digit a \<and> \<not> fixed then Some (digit a, []) else None)
      | [] \<Rightarrow> None)"

definition get_year :: "string \<Rightarrow> (nat \<times> string) option" where
  "get_year s =
     (if length s < 4 \<or> \<not> list_all is_digit (take 4 s) then None
      else Some (foldl (\<lambda>n c. n * 10 + digit c) 0 (take 4 s), drop 4 s))"

definition skip_char :: "char \<Rightarrow> string \<Rightarrow> string option" where
  "skip_char c s = (case s of x # rest \<Rightarrow> if x = c then Some rest else None | [] \<Rightarrow> None)"

text \<open>A fraction of the second is accepted although the layout has none; digits after the ninth are dropped.\<close>

definition get_fraction :: "string \<Rightarrow> nat \<times> string" where
  "get_fraction s =
     (case s of
        p # d # rest \<Rightarrow>
          (if (p = CHR ''.'' \<or> p = CHR '','') \<and> is_digit d
           then (let digits = take 9 (takeWhile is_digit (d # rest))
                 in (foldl (\<lambda>n c. n * 10 + digit c) 0 digits * 10 ^ (9 - length digits), dropWhile is_digit (d # rest)))
           else (0, s))
      | _ \<Rightarrow> (0, s))"

text \<open>
  \<open>time.Parse("2006-01-02T15-04-05Z07:00", s)\<close> on a string that ends in Z: a numeric zone would leave that Z
  as extra text, so only the zone Z itself is accepted.
\<close>

definition parse_time :: "string \<Rightarrow> utc_time option" where
  "parse_time s =
     (case get_year s of None \<Rightarrow> None | Some (y, s) \<Rightarrow>
      (case Option.bind (skip_char (CHR ''-'') s) (getnum True) of None \<Rightarrow> None | Some (mo, s) \<Rightarrow>
      (case Option.bind (skip_char (CHR ''-'') s) (getnum True) of None \<Rightarrow> None | Some (d, s) \<Rightarrow>
      (case Option.bind (skip_char (CHR ''T'') s) (getnum False) of None \<Rightarrow> None | Some (h, s) \<Rightarrow>
      (case Option.bind (skip_char (CHR ''-'') s) (getnum True) of None \<Rightarrow> None | Some (mi, s) \<Rightarrow>
      (case Option.bind (skip_char (CHR ''-'') s) (getnum True) of None \<Rightarrow> None | Some (sec, s) \<Rightarrow>
        (let (ns, s) = get_fraction s;
             t = \<lparr>ut_year = y, ut_month = mo, ut_day = d, ut_hour = h, ut_minute = mi, ut_second = sec, ut_nanosecond = ns\<rparr>
         in if s = ''Z'' \<and> valid_time t then Some t else None)))))))"

text \<open>\<open>Format\<close> with that layout: fields of two digits, the year of four, the fraction dropped.\<close>

definition two_digits :: "nat \<Rightarrow> string" where
  "two_digits n = [digit_char (n div 10), digit_char (n mod 10)]"

definition format_time :: "utc_time \<Rightarrow> string" where
  "format_time t = two_digits (ut_year t div 100) @ two_digits (ut_year t mod 100) @ ''-'' @ two_digits (ut_month t) @ ''-'' @
     two_digits (ut_day t) @ ''T'' @ two_digits (ut_hour t) @ ''-'' @ two_digits (ut_minute t) @ ''-'' @
     two_digits (ut_second t) @ ''Z''"

definition minioTagPrefix :: string where "minioTagPrefix = ''RELEASE.''"

definition earliestTag :: string where "earliestTag = ''2023-09-20T22-49-55Z''"

text \<open>
  The submatch of the regular expression \<open>RELEASE.(?P<date>.*Z$)\<close>: its dots match any character but a
  newline.
\<close>

fun minio_match :: "string \<Rightarrow> string option" where
  "minio_match [] = None"
| "minio_match (c # s) =
     (let date = drop 8 (c # s)
      in if has_prefix (c # s) ''RELEASE'' \<and> date \<noteq> [] \<and> last date = CHR ''Z'' \<and> CHR 0x0A \<notin> set (drop 7 (c # s))
         then Some date else minio_match s)"

definition parseMinioDate :: "string \<Rightarrow> gerr + utc_time" where
  "parseMinioDate currentTag =
     (case minio_match currentTag of
        None \<Rightarrow> Inl (Msg ''did not match any date'')
      | Some date \<Rightarrow> (case parse_time date of None \<Rightarrow> Inl (Msg ''parsing time'') | Some t \<Rightarrow> Inr t))"

text \<open>The loop of \<open>compareMinioVersions\<close>.\<close>

fun newest_date :: "utc_time \<Rightarrow> string list \<Rightarrow> utc_time" where
  "newest_date newDate [] = newDate"
| "newest_date newDate (res # results) =
     (case parseMinioDate res of
        Inl e \<Rightarrow> newest_date newDate results
      | Inr v \<Rightarrow> newest_date (if Before newDate v then v else newDate) results)"

definition compareMinioVersions :: strategy where
  "compareMinioVersions results currentTag =
     (let currentTag = (if currentTag = '''' then minioTagPrefix @ earliestTag else currentTag);
          currentDate = (case parseMinioDate currentTag of
             Inl e \<Rightarrow> parseMinioDate (minioTagPrefix @ earliestTag) | Inr d \<Rightarrow> Inr d)
      in (case currentDate of
            Inl e \<Rightarrow> Inl e
          | Inr d \<Rightarrow> Inr (minioTagPrefix @ format_time (newest_date d (GetVersions results)))))"

section \<open>The jobs\<close>

text \<open>What \<open>ensureTagIsNotNil\<close> needs besides the Helm environment.\<close>

record 'w minio_env =
  me_NestedString :: "(string \<times> gany) list \<Rightarrow> string list \<Rightarrow> gerr + string option"
  me_SetNestedField :: "(string \<times> gany) list \<Rightarrow> string \<Rightarrow> string list \<Rightarrow> gerr + (string \<times> gany) list"
  me_Marshal :: "(string \<times> gany) list \<Rightarrow> gerr + string"
  me_Update :: "helm_release \<Rightarrow> 'w \<Rightarrow> gerr option \<times> 'w"

definition ensureTagIsNotNil :: "'w helm_env \<Rightarrow> 'w minio_env \<Rightarrow> value_path \<Rightarrow> 'w \<Rightarrow> gerr option \<times> 'w" where
  "ensureTagIsNotNil env me valuesPath w =
     (case GetRelease env (he_InstanceNamespace env) w of
        (Inl e, w) \<Rightarrow> (Some e, w)
      | (Inr release, w) \<Rightarrow>
     (case he_DecodeValues env (hl_Values release) of
        Inl e \<Rightarrow> (Some e, w)
      | Inr values \<Rightarrow>
     (case me_NestedString me values valuesPath of
        Inl e \<Rightarrow> (Some e, w)
      | Inr (Some _) \<Rightarrow> (None, w)
      | Inr None \<Rightarrow>
     (case me_SetNestedField me values '''' valuesPath of
        Inl e \<Rightarrow> (Some e, w)
      | Inr values \<Rightarrow>
     (case me_Marshal me values of
        Inl e \<Rightarrow> (Some e, w)
      | Inr raw \<Rightarrow> me_Update me (release\<lparr>hl_Values := raw\<rparr>) w)))))"

definition minio_DoMaintenance :: "'w helm_env \<Rightarrow> 'w minio_env \<Rightarrow> string \<Rightarrow> 'w \<Rightarrow> (go_fail option \<times> 'w) option" where
  "minio_DoMaintenance env me url w =
     (case getMaintenanceURL url of
        Inl e \<Rightarrow> Some (Some (Err e), w)
      | Inr maintenanceURL \<Rightarrow>
          (case ensureTagIsNotNil env me [''image'', ''tag''] w of
             (Some e, w) \<Rightarrow> Some (Some (Err (Wrapped ''could not ensure tag exists'' e)), w)
           | (None, w) \<Rightarrow> image_maintenance env maintenanceURL [''image'', ''tag''] compareMinioVersions w))"

text \<open>The five services that follow semantic versions have the same job up to the strategy.\<close>

definition semver_job ::
    "strategy \<Rightarrow> 'w helm_env \<Rightarrow> string \<Rightarrow> 'w \<Rightarrow> (go_fail option \<times> 'w) option" where
  "semver_job versionComp env url w =
     (case getMaintenanceURL url of
        Inl e \<Rightarrow> Some (Some (Err e), w)
      | Inr maintenanceURL \<Rightarrow> image_maintenance env maintenanceURL [''image'', ''tag''] versionComp w)"

definition redis_DoMaintenance :: "semver_ops \<Rightarrow> 'w helm_env \<Rightarrow> string \<Rightarrow> 'w \<Rightarrow> (go_fail option \<times> 'w) option" where
  "redis_DoMaintenance so = semver_job (SemVerPatchesOnly so False)"

definition mariadb_DoMaintenance :: "semver_ops \<Rightarrow> 'w helm_env \<Rightarrow> string \<Rightarrow> 'w \<Rightarrow> (go_fail option \<times> 'w) option" where
  "mariadb_DoMaintenance so = semver_job (SemVerPatchesOnly so False)"

definition nextcloud_DoMaintenance :: "semver_ops \<Rightarrow> 'w helm_env \<Rightarrow> string \<Rightarrow> 'w \<Rightarrow> (go_fail option \<times> 'w) option" where
  "nextcloud_DoMaintenance so = semver_job (SemVerPatchesOnly so True)"

definition forgejo_DoMaintenance :: "semver_ops \<Rightarrow> 'w helm_env \<Rightarrow> string \<Rightarrow> 'w \<Rightarrow> (go_fail option \<times> 'w) option" where
  "forgejo_DoMaintenance so = semver_job (SemVerPatchesOnly so True)"

definition keycloak_DoMaintenance :: "semver_ops \<Rightarrow> 'w helm_env \<Rightarrow> string \<Rightarrow> 'w \<Rightarrow> (go_fail option \<times> 'w) option" where
  "keycloak_DoMaintenance so = semver_job (SemVerMinorAndPatches so True)"

lemmas semver_jobs = redis_DoMaintenance_def mariadb_DoMaintenance_def nextcloud_DoMaintenance_def
  forgejo_DoMaintenance_def keycloak_DoMaintenance_def

section \<open>Dates round trip\<close>

lemma digit_of_char [simp]: "d < 10 \<Longrightarrow> is_digit (digit_char d) \<and> digit (digit_char d) = d"
  by (simp add: is_digit_def digit_def digit_val_char)

lemma getnum_two_digits: "n < 100 \<Longrightarrow> getnum fixed (two_digits n @ s) = Some (n, s)"
  by (simp add: getnum_def two_digits_def)

lemma skip_char_Cons [simp]: "skip_char c (c # s) = Some s"
  by (simp add: skip_char_def)

lemma four_digits:
  fixes p q r s a b y :: nat
  assumes "10 * p + q = a" and "10 * r + s = b" and "100 * a + b = y"
  shows "((p * 10 + q) * 10 + r) * 10 + s = y"
  unfolding assms [symmetric] by (simp add: algebra_simps)

lemma get_year_digits:
  assumes "y < 10000"
  shows "get_year (two_digits (y div 100) @ two_digits (y mod 100) @ s) = Some (y, s)"
proof -
  have "y div 100 div 10 < 10" "y div 100 mod 10 < 10" "y mod 100 div 10 < 10" "y mod 100 mod 10 < 10" using assms by auto
  moreover have "((y div 100 div 10 * 10 + y div 100 mod 10) * 10 + y mod 100 div 10) * 10 + y mod 100 mod 10 = y"
    by (rule four_digits [where a = "y div 100" and b = "y mod 100"]) (simp_all only: mult_div_mod_eq)
  ultimately show ?thesis by (simp add: get_year_def two_digits_def)
qed

lemma valid_days: "valid_time t \<Longrightarrow> ut_day t < 100"
  by (auto simp: valid_time_def days_in_def split: if_splits)

lemma parse_format_time:
  assumes "valid_time t"
  shows "parse_time (format_time t) = Some (t\<lparr>ut_nanosecond := 0\<rparr>)"
proof -
  have b: "ut_year t < 10000" "ut_month t < 100" "ut_day t < 100" "ut_hour t < 100" "ut_minute t < 100" "ut_second t < 100"
    using assms valid_days by (auto simp: valid_time_def)
  have v: "valid_time (t\<lparr>ut_nanosecond := 0\<rparr>)" using assms by (simp add: valid_time_def)
  have f: "get_fraction ''Z'' = (0, ''Z'')" by (simp add: get_fraction_def)
  show ?thesis
    using b v by (cases t) (simp add: parse_time_def format_time_def get_year_digits getnum_two_digits f)
qed

lemma digit_char_no_newline: "n < 10 \<Longrightarrow> digit_char n \<noteq> CHR 0x0A"
  using digit_val_char [of n] by (auto simp: digit_val_def)

lemma two_digits_no_newline: "n < 100 \<Longrightarrow> CHR 0x0A \<notin> set (two_digits n)"
  using less_mult_imp_div_less [of n 10 10] digit_char_no_newline [of "n div 10"] digit_char_no_newline [of "n mod 10"] by (auto simp: two_digits_def)

lemma format_time_line:
  assumes "valid_time t"
  shows "CHR 0x0A \<notin> set (format_time t) \<and> format_time t \<noteq> [] \<and> last (format_time t) = CHR ''Z''"
  using assms valid_days [OF assms] two_digits_no_newline
  by (auto simp: format_time_def valid_time_def last_append)

lemma minio_match_tag:
  assumes "CHR 0x0A \<notin> set date" and "date \<noteq> []" and "last date = CHR ''Z''"
  shows "minio_match (minioTagPrefix @ date) = Some date"
  using assms by (simp add: minioTagPrefix_def has_prefix_def)

text \<open>
  A MinIO tag written for a date is read back as that date (a tag has no fraction of a second), so the
  tag a maintenance installs is understood by the next one.
\<close>

theorem minio_tag_roundtrip:
  assumes "valid_time t"
  shows "parseMinioDate (minioTagPrefix @ format_time t) = Inr (t\<lparr>ut_nanosecond := 0\<rparr>)"
  using format_time_line [OF assms] parse_format_time [OF assms] by (simp add: parseMinioDate_def minio_match_tag)

lemma minio_tag_roundtrip_witness:
  "parseMinioDate (minioTagPrefix @ format_time
     \<lparr>ut_year = 2024, ut_month = 2, ut_day = 29, ut_hour = 23, ut_minute = 5, ut_second = 59, ut_nanosecond = 7\<rparr>) =
     Inr \<lparr>ut_year = 2024, ut_month = 2, ut_day = 29, ut_hour = 23, ut_minute = 5, ut_second = 59, ut_nanosecond = 0\<rparr>"
proof -
  have "valid_time \<lparr>ut_year = 2024, ut_month = 2, ut_day = 29, ut_hour = 23, ut_minute = 5, ut_second = 59, ut_nanosecond = 7\<rparr>"
    by (simp add: valid_time_def days_in_def)
  from minio_tag_roundtrip [OF this] show ?thesis by simp
qed

section \<open>The newest date\<close>

lemma parse_valid: "parseMinioDate s = Inr d \<Longrightarrow> valid_time d"
  by (auto simp: parseMinioDate_def parse_time_def Let_def split: option.splits prod.splits if_splits)

definition earliest_date :: utc_time where
  "earliest_date = \<lparr>ut_year = 2023, ut_month = 9, ut_day = 20, ut_hour = 22, ut_minute = 49, ut_second = 55, ut_nanosecond = 0\<rparr>"

lemma earliest_parses: "parseMinioDate (minioTagPrefix @ earliestTag) = Inr earliest_date"
  unfolding earliest_date_def by code_simp

lemma Before_linear: "\<not> Before a a" "Before a b \<Longrightarrow> Before b c \<Longrightarrow> Before a c" "\<not> Before a b \<Longrightarrow> Before a c \<Longrightarrow> Before b c"
  by (auto simp: Before_def)

lemma newest_date_spec:
  "(newest_date d tags = d \<or> Before d (newest_date d tags) \<and> (\<exists>t \<in> set tags. parseMinioDate t = Inr (newest_date d tags))) \<and>
   (\<forall>t \<in> set tags. \<forall>v. parseMinioDate t = Inr v \<longrightarrow> \<not> Before (newest_date d tags) v)"
proof (induction tags arbitrary: d)
  case (Cons t tags)
  show ?case
  proof (cases "parseMinioDate t")
    case (Inl e)
    then show ?thesis using Cons [of d] by auto
  next
    case (Inr v)
    let ?d = "if Before d v then v else d"
    have up: "newest_date ?d tags = ?d \<or> Before ?d (newest_date ?d tags)" using Cons [of ?d] by blast
    then have "\<not> Before (newest_date ?d tags) v"
      using Before_linear by (smt (verit))
    then show ?thesis using Cons [of ?d] Inr up Before_linear(2) [of d v] by (auto split: if_splits)
  qed
qed simp

text \<open>What the current tag counts as, and what the strategy may answer.\<close>

definition minio_current :: "string \<Rightarrow> utc_time" where
  "minio_current tag = (case parseMinioDate tag of Inl e \<Rightarrow> earliest_date | Inr d \<Rightarrow> d)"

definition minio_upgrade :: "string \<Rightarrow> string \<Rightarrow> bool" where
  "minio_upgrade current new \<longleftrightarrow>
     (\<exists>d. valid_time d \<and> new = minioTagPrefix @ format_time d \<and> (d = minio_current current \<or> Before (minio_current current) d))"

lemma compareMinioVersions_newest:
  "compareMinioVersions results current =
     Inr (minioTagPrefix @ format_time (newest_date (minio_current current) (GetVersions results)))"
  by (simp add: compareMinioVersions_def minio_current_def earliest_parses parseMinioDate_def [of "[]"] Let_def split: sum.splits)

interpretation minio_strategy: version_strategy compareMinioVersions minio_upgrade
proof
  fix results current new
  assume "compareMinioVersions results current = Inr new"
  then have new: "new = minioTagPrefix @ format_time (newest_date (minio_current current) (GetVersions results))"
    by (simp add: compareMinioVersions_newest)
  have v: "valid_time (minio_current current)"
    using parse_valid parse_valid [OF earliest_parses] by (auto simp: minio_current_def split: sum.splits)
  show "new = current \<or> minio_upgrade current new"
    using newest_date_spec [of "minio_current current" "GetVersions results"] v parse_valid new
    unfolding minio_upgrade_def by metis
qed

section \<open>Every service\<close>

datatype helm_service = Redis | MariaDB | Nextcloud | Forgejo | Keycloak | Minio

fun helm_job :: "semver_ops \<Rightarrow> 'w minio_env \<Rightarrow> helm_service \<Rightarrow> 'w helm_env \<Rightarrow> string \<Rightarrow> 'w \<Rightarrow> (go_fail option \<times> 'w) option" where
  "helm_job so me Redis = redis_DoMaintenance so"
| "helm_job so me MariaDB = mariadb_DoMaintenance so"
| "helm_job so me Nextcloud = nextcloud_DoMaintenance so"
| "helm_job so me Forgejo = forgejo_DoMaintenance so"
| "helm_job so me Keycloak = keycloak_DoMaintenance so"
| "helm_job so me Minio = (\<lambda>env. minio_DoMaintenance env me)"

text \<open>A strictly higher version within the same major, and the same minor but for Keycloak; of MinIO no older date.\<close>

definition higher_tag :: "semver_ops \<Rightarrow> helm_service \<Rightarrow> string \<Rightarrow> string \<Rightarrow> bool" where
  "higher_tag so service current new \<longleftrightarrow>
     (if service = Minio then minio_upgrade current new
      else \<exists>c v. so_ParseTolerant so current = Inr c \<and> new = so_String so v \<and> triple_less c v \<and>
        vs_Major v = vs_Major c \<and> (service = Keycloak \<or> vs_Minor v = vs_Minor c))"

lemma upgrade_patch_mono:
  assumes "upgrade_patch env path newer p" and "\<And>a b. newer a b \<Longrightarrow> newer' a b"
  shows "upgrade_patch env path newer' p"
  using assms unfolding upgrade_patch_def by blast

lemma semver_job_upgrades:
  assumes "patch_history env patches" and "semver_order so rank" and "semver_job (semVerPatches so ib cm) env url w = Some (r, w')"
    and "\<And>a b. semver_upgrade so cm a b \<Longrightarrow> newer a b"
  shows "patches w' = patches w \<or> (\<exists>p. patches w' = patches w @ [p] \<and> upgrade_patch env [''image'', ''tag''] newer p)"
proof (cases "getMaintenanceURL url")
  case (Inl e)
  then show ?thesis using assms(3) by (simp add: semver_job_def)
next
  case (Inr u)
  then have "image_maintenance env u [''image'', ''tag''] (semVerPatches so ib cm) w = Some (r, w')"
    using assms(3) by (simp add: semver_job_def)
  from semver_strategy.maintenance_upgrades [OF assms(1) this] show ?thesis
    using upgrade_patch_mono [of env _ _ _ newer] assms(4) by blast
qed

lemma minio_job_upgrades:
  assumes "patch_history env patches" and "\<And>rel w. patches (snd (me_Update me rel w)) = patches w"
    and "minio_DoMaintenance env me url w = Some (r, w')"
  shows "patches w' = patches w \<or> (\<exists>p. patches w' = patches w @ [p] \<and> upgrade_patch env [''image'', ''tag''] minio_upgrade p)"
proof (cases "getMaintenanceURL url")
  case (Inl e)
  then show ?thesis using assms(3) by (simp add: minio_DoMaintenance_def)
next
  case (Inr u)
  obtain e w1 where e: "ensureTagIsNotNil env me [''image'', ''tag''] w = (e, w1)" by fastforce
  have "patches w2 = patches w" if "GetRelease env (he_InstanceNamespace env) w = (g, w2)" for g w2
    using that patch_historyD(3) [OF assms(1)]
    by (fastforce simp: GetRelease_def split: prod.splits sum.splits option.splits if_splits)
  then have w1: "patches w1 = patches w"
    using e assms(2) by (auto simp: ensureTagIsNotNil_def split: prod.splits sum.splits option.splits) (metis snd_conv)+
  show ?thesis
  proof (cases e)
    case (Some err)
    then show ?thesis using assms(3) Inr e w1 by (simp add: minio_DoMaintenance_def)
  next
    case None
    then have "image_maintenance env u [''image'', ''tag''] compareMinioVersions w1 = Some (r, w')"
      using assms(3) Inr e by (simp add: minio_DoMaintenance_def)
    from minio_strategy.maintenance_upgrades [OF assms(1) this] show ?thesis using w1 by simp
  qed
qed

text \<open>
  The maintenance of a service sends at most one patch. It replaces the image tag of the release in the
  instance's namespace by a higher version of the same major - also of the same minor, except for
  Keycloak - or, for MinIO, by a date that is not older.
\<close>

theorem helm_job_only_upgrades:
  assumes "patch_history env patches" and "semver_order so rank"
    and "\<And>rel w. patches (snd (me_Update me rel w)) = patches w"
    and "helm_job so me service env url w = Some (r, w')"
  shows "patches w' = patches w \<or>
    (\<exists>p. patches w' = patches w @ [p] \<and> upgrade_patch env [''image'', ''tag''] (higher_tag so service) p)"
proof -
  have strict: "service \<noteq> Minio \<Longrightarrow> semver_upgrade so cm a b \<Longrightarrow> (cm \<Longrightarrow> service = Keycloak) \<Longrightarrow> higher_tag so service a b" for cm a b
    using semver_upgrade_strict [OF assms(2)] unfolding higher_tag_def by (meson)
  note job = semver_job_upgrades [OF assms(1,2), where newer = "higher_tag so service"]
  show ?thesis
  proof (cases "service = Minio")
    case True
    have same: "higher_tag so Minio = minio_upgrade" by (simp add: fun_eq_iff higher_tag_def)
    from True assms(4) have "minio_DoMaintenance env me url w = Some (r, w')" by simp
    from minio_job_upgrades [OF assms(1,3) this] show ?thesis unfolding True same .
  next
    case False
    show ?thesis
    proof (cases "service = Keycloak")
      case True
      then have "semver_job (semVerPatches so True True) env url w = Some (r, w')"
        using assms(4) by (simp add: semver_jobs SemVerMinorAndPatches_def [abs_def])
      then show ?thesis by (rule job) (rule strict [OF False, of True], simp_all add: True)
    next
      case patches_only: False
      then obtain ib where "semver_job (semVerPatches so ib False) env url w = Some (r, w')"
        using assms(4) False by (cases service) (auto simp: semver_jobs SemVerPatchesOnly_def [abs_def])
      then show ?thesis by (rule job) (rule strict [OF False, of False], simp_all)
    qed
  qed
qed


section \<open>A run\<close>

text \<open>A registry with one page and one release; the world is the history of the patches.\<close>

type_synonym patch_log = "(helm_release \<times> json_patch list) list"

definition example_helm_release :: helm_release where
  "example_helm_release = \<lparr>hl_Name = ''redis-abc'', hl_Namespace = ''ns'', hl_Values = ''{}''\<rparr>"

definition example_registry :: "patch_log helm_env" where
  "example_registry = \<lparr>he_InstanceNamespace = ''ns'',
     he_Get = (\<lambda>url w. (Inr \<lparr>rs_StatusCode = 200, rs_Header = (\<lambda>_. ''''), rs_Body = url\<rparr>, w)),
     he_NewRequest = (\<lambda>_. None),
     he_Do = (\<lambda>url token w. (Inl (Msg ''one page only''), w)),
     he_ParseURL = (\<lambda>_. Inr (''https'', ''r'')),
     he_DecodePayload = (\<lambda>_. Inr []),
     he_DecodeTags = (\<lambda>_. Inr [''1.2.4'', ''1.3.0'', ''latest'']),
     he_DecodeStrings = (\<lambda>_. Inr Map.empty),
     he_DecodeValues = (\<lambda>_. Inr [(''image'', GMap [(''tag'', GStr ''1.2.3'')])]),
     he_NestedFieldCopy = nested_field,
     he_ListReleases = (\<lambda>w. (Inr [example_helm_release], w)),
     he_Patch = (\<lambda>rel ops w. (None, w @ [(rel, ops)]))\<rparr>"

definition example_minio_env :: "patch_log minio_env" where
  "example_minio_env = \<lparr>me_NestedString = nested_as as_string, me_SetNestedField = (\<lambda>m v ks. Inr m),
     me_Marshal = (\<lambda>_. Inr ''{}''), me_Update = (\<lambda>_ w. (None, w))\<rparr>"

lemma example_patch_history: "patch_history example_registry (\<lambda>w. w)"
  by (simp add: patch_history_def example_registry_def)

lemma example_job:
  "helm_job example_semver example_minio_env Redis example_registry ''r'' [] =
     Some (None, [(example_helm_release, [\<lparr>jp_Op = ''replace'', jp_Path = GetJSONPatchPath [''image'', ''tag''], jp_Value = ''1.2.4''\<rparr>])])"
proof -
  have versions: "getVersions example_registry ''r'' [] = Some (Inr (RegistryResult [''1.2.4'', ''1.3.0'', ''latest'']), [])"
    by (simp add: getVersions_def getRegistryVersions_def registry_first_page_def parseLinkHeader_def example_registry_def
      Let_def has_prefix_def registry_pages.simps)
  have choice: "semVerPatches example_semver False False (RegistryResult [''1.2.4'', ''1.3.0'', ''latest'']) ''1.2.3'' = Inr ''1.2.4''"
    by code_simp
  have release: "GetRelease example_registry ''ns'' [] = (Inr example_helm_release, [])"
    by (simp add: GetRelease_def example_registry_def example_helm_release_def)
  have tag: "getCurrentTagFromRelease example_registry example_helm_release [''image'', ''tag''] = Inr ''1.2.3''"
    by (simp add: getCurrentTagFromRelease_def example_registry_def)
  show ?thesis
    by (simp add: redis_DoMaintenance_def semver_job_def getMaintenanceURL_def image_maintenance_def versions SemVerPatchesOnly_def)
      (simp add: patch_if_newer_def choice patchRelease_def example_registry_def [THEN arg_cong [where f = he_InstanceNamespace]]
        example_registry_def [THEN arg_cong [where f = he_Patch]] release tag)
qed

lemma helm_job_only_upgrades_witness:
  "\<exists>p. [(example_helm_release, [\<lparr>jp_Op = ''replace'', jp_Path = GetJSONPatchPath [''image'', ''tag''], jp_Value = ''1.2.4''\<rparr>])] = [p] \<and>
     upgrade_patch example_registry [''image'', ''tag''] (higher_tag example_semver Redis) p"
  using helm_job_only_upgrades [OF example_patch_history example_semver_order _ example_job]
  by (simp add: example_minio_env_def)

end
