(* ===== verification/Backup_Waiter.thy ===== *)
theory Backup_Waiter
  imports Resources
begin

text \<open>
  Waiting for running backups before a maintenance: \<open>src/pkg/maintenance/backup/{waiter,k8up,cnpg,stackgres}.go\<close>.
  An \<open>InProgressFunc\<close> of the code is a function of the namespace and the world. The polling of apimachinery is a
  parameter, \<open>poll_law\<close> what its documentation says of it.
\<close>

section \<open>Data\<close>

definition BackupTypeLabelKey :: string where "BackupTypeLabelKey = ''appcat.vshn.io/backup-type''"

definition BackupTypePreMaintenance :: string where "BackupTypePreMaintenance = ''pre-maintenance''"

definition MaxBackupAge :: duration where "MaxBackupAge = 24 * hour"

record backup_meta =
  bm_Name :: string
  bm_CreationTimestamp :: "instant option"
  bm_DeletionTimestamp :: "instant option"

text \<open>\<open>kb_HasFinished\<close> is what k8up's method of that name says of the status.\<close>

record k8up_backup = backup_meta +
  kb_HasFinished :: bool

record cnpg_backup = backup_meta +
  cb_Phase :: string

record batch_job = backup_meta +
  bj_Owners :: "string list"
  bj_Conditions :: "(string \<times> string) list"

text \<open>The cluster, of which a list of clusters is the numbers of their instances, and a list of CronJobs their UIDs.\<close>

record 'w backup_env =
  ba_InstanceNamespace :: string
  ba_Now :: "'w \<Rightarrow> instant \<times> 'w"
  ba_DeleteAllOf :: "string \<Rightarrow> string \<Rightarrow> string \<times> string \<Rightarrow> 'w \<Rightarrow> gerr option \<times> 'w"
  ba_ListK8up :: "string \<Rightarrow> 'w \<Rightarrow> (gerr + k8up_backup list) \<times> 'w"
  ba_ListCNPGClusters :: "string \<Rightarrow> 'w \<Rightarrow> (gerr + int list) \<times> 'w"
  ba_ListCNPG :: "string \<Rightarrow> 'w \<Rightarrow> (gerr + cnpg_backup list) \<times> 'w"
  ba_ListSGClusters :: "string \<Rightarrow> 'w \<Rightarrow> (gerr + int list) \<times> 'w"
  ba_ListBackupCronJobs :: "string \<Rightarrow> 'w \<Rightarrow> (gerr + string list) \<times> 'w"
  ba_ListJobs :: "string \<Rightarrow> 'w \<Rightarrow> (gerr + batch_job list) \<times> 'w"

type_synonym 'w in_progress = "string \<Rightarrow> 'w \<Rightarrow> (gerr + string list) \<times> 'w"

section \<open>What counts as running\<close>

definition IsBackupStuck :: "'w backup_env \<Rightarrow> 'a backup_meta_scheme \<Rightarrow> 'w \<Rightarrow> bool \<times> 'w" where
  "IsBackupStuck env obj w =
     (case bm_CreationTimestamp obj of
        None \<Rightarrow> (False, w)
      | Some created \<Rightarrow>
          (if IsZero (Some created) then (False, w)
           else (case ba_Now env w of (now, w) \<Rightarrow> (MaxBackupAge \<le> time_sub now created, w))))"

definition IsClusterSuspended :: "int \<Rightarrow> bool" where
  "IsClusterSuspended instances \<longleftrightarrow> instances = 0"

definition ownedByAny :: "string list \<Rightarrow> string set \<Rightarrow> bool" where
  "ownedByAny refs owners = list_ex (\<lambda>ref. ref \<in> owners) refs"

definition isJobFinished :: "batch_job \<Rightarrow> bool" where
  "isJobFinished job =
     list_ex (\<lambda>(t, s). (t = ''Complete'' \<or> t = ''Failed'') \<and> s = ''True'') (bj_Conditions job)"

text \<open>The loop all three lists go through: \<open>skip\<close> is the condition of its \<open>continue\<close>.\<close>

fun still_running ::
    "('b backup_meta_scheme \<Rightarrow> 'w \<Rightarrow> bool \<times> 'w) \<Rightarrow> 'b backup_meta_scheme list \<Rightarrow> 'w \<Rightarrow> string list \<times> 'w" where
  "still_running skip [] w = ([], w)"
| "still_running skip (b # bs) w =
     (case skip b w of (skipped, w) \<Rightarrow>
      (case still_running skip bs w of (names, w) \<Rightarrow>
         (if skipped then names else bm_Name b # names, w)))"

definition skip_k8up :: "'w backup_env \<Rightarrow> k8up_backup \<Rightarrow> 'w \<Rightarrow> bool \<times> 'w" where
  "skip_k8up env b w =
     (if \<not> IsZero (bm_DeletionTimestamp b) \<or> kb_HasFinished b then (True, w) else IsBackupStuck env b w)"

definition K8upBackupsInProgress :: "'w backup_env \<Rightarrow> 'w in_progress" where
  "K8upBackupsInProgress env namespace w =
     (case ba_ListK8up env namespace w of
        (Inl e, w) \<Rightarrow> (Inl (Wrapped ''failed to list k8up Backups'' e), w)
      | (Inr items, w) \<Rightarrow> (case still_running (skip_k8up env) items w of (names, w) \<Rightarrow> (Inr names, w)))"

definition terminal_phases :: "string set" where
  "terminal_phases = {''completed'', ''failed'', ''walArchivingFailing''}"

definition skip_cnpg :: "'w backup_env \<Rightarrow> cnpg_backup \<Rightarrow> 'w \<Rightarrow> bool \<times> 'w" where
  "skip_cnpg env b w =
     (if \<not> IsZero (bm_DeletionTimestamp b) then (True, w)
      else (case IsBackupStuck env b w of (stuck, w) \<Rightarrow> (stuck \<or> cb_Phase b \<in> terminal_phases, w)))"

definition CNPGBackupsInProgress :: "'w backup_env \<Rightarrow> 'w in_progress" where
  "CNPGBackupsInProgress env namespace w =
     (case ba_ListCNPGClusters env namespace w of
        (Inl e, w) \<Rightarrow> (Inl (Wrapped ''failed to list CNPG Clusters'' e), w)
      | (Inr [], w) \<Rightarrow> (Inr [], w)
      | (Inr (instances # _), w) \<Rightarrow>
          (if IsClusterSuspended instances then (Inr [], w)
           else (case ba_ListCNPG env namespace w of
                   (Inl e, w) \<Rightarrow> (Inl (Wrapped ''failed to list CNPG Backups'' e), w)
                 | (Inr items, w) \<Rightarrow>
                     (case still_running (skip_cnpg env) items w of (names, w) \<Rightarrow> (Inr names, w)))))"

definition skip_job :: "'w backup_env \<Rightarrow> string set \<Rightarrow> batch_job \<Rightarrow> 'w \<Rightarrow> bool \<times> 'w" where
  "skip_job env cronJobs job w =
     (if \<not> IsZero (bm_DeletionTimestamp job) \<or> \<not> ownedByAny (bj_Owners job) cronJobs \<or> isJobFinished job then (True, w)
      else IsBackupStuck env job w)"

definition StackGresBackupsInProgress :: "'w backup_env \<Rightarrow> 'w in_progress" where
  "StackGresBackupsInProgress env namespace w =
     (case ba_ListSGClusters env namespace w of
        (Inl e, w) \<Rightarrow> (Inl (Wrapped ''failed to list SGClusters'' e), w)
      | (Inr [], w) \<Rightarrow> (Inr [], w)
      | (Inr (instances # _), w) \<Rightarrow>
          (if IsClusterSuspended instances then (Inr [], w)
           else (case ba_ListBackupCronJobs env namespace w of
                   (Inl e, w) \<Rightarrow> (Inl (Wrapped ''failed to list StackGres backup CronJobs'' e), w)
                 | (Inr [], w) \<Rightarrow> (Inr [], w)
                 | (Inr uids, w) \<Rightarrow>
                     (case ba_ListJobs env namespace w of
                        (Inl e, w) \<Rightarrow> (Inl (Wrapped ''failed to list Jobs'' e), w)
                      | (Inr items, w) \<Rightarrow>
                          (case still_running (skip_job env (set uids)) items w of (names, w) \<Rightarrow> (Inr names, w))))))"

section \<open>The waiter\<close>

text \<open>
  \<open>wait.PollUntilContextTimeout\<close>: interval, timeout, whether to call at once, the condition on the captured
  variables and the world. It returns nil, an interruption (time out or cancelled context) or the error of
  the condition.
\<close>

datatype poll_outcome = PollDone | PollInterrupted | PollFailed gerr

type_synonym 'w poll_state = "(string list \<times> gerr option) \<times> 'w"

type_synonym 'w poller =
  "duration \<Rightarrow> duration \<Rightarrow> bool \<Rightarrow> ('w poll_state \<Rightarrow> (gerr + bool) \<times> 'w poll_state) \<Rightarrow> 'w poll_state \<Rightarrow> poll_outcome \<times> 'w poll_state"

record 'w waiter =
  wa_timeout :: duration
  wa_interval :: duration
  wa_inProgress :: "'w in_progress"
  wa_leftoverType :: string

definition NewWaiter :: "'w in_progress \<Rightarrow> string \<Rightarrow> 'w waiter" where
  "NewWaiter inProgress leftoverType =
     \<lparr>wa_timeout = 6 * hour, wa_interval = 30 * second, wa_inProgress = inProgress, wa_leftoverType = leftoverType\<rparr>"

definition NewK8upWaiter :: "'w backup_env \<Rightarrow> 'w waiter" where
  "NewK8upWaiter env = NewWaiter (K8upBackupsInProgress env) ''k8up.Backup''"

definition NewCNPGWaiter :: "'w backup_env \<Rightarrow> 'w waiter" where
  "NewCNPGWaiter env = NewWaiter (CNPGBackupsInProgress env) ''cnpg.Backup''"

definition NewStackGresWaiter :: "'w backup_env \<Rightarrow> 'w waiter" where
  "NewStackGresWaiter env = NewWaiter (StackGresBackupsInProgress env) ''batch.Job''"

lemmas waiter_defs = NewK8upWaiter_def NewCNPGWaiter_def NewStackGresWaiter_def NewWaiter_def

text \<open>The condition that is polled; a failed check is kept and retried.\<close>

definition check_running :: "'w waiter \<Rightarrow> string \<Rightarrow> 'w poll_state \<Rightarrow> (gerr + bool) \<times> 'w poll_state" where
  "check_running wa namespace st =
     (case wa_inProgress wa namespace (snd st) of
        (Inl e, w) \<Rightarrow> (Inr False, (([], Some e), w))
      | (Inr names, w) \<Rightarrow> (Inr (names = []), ((names, None), w)))"

definition CleanupPreMaintenanceBackups :: "'w backup_env \<Rightarrow> string \<Rightarrow> string \<Rightarrow> 'w \<Rightarrow> gerr option \<times> 'w" where
  "CleanupPreMaintenanceBackups env obj namespace w =
     (case ba_DeleteAllOf env obj namespace (BackupTypeLabelKey, BackupTypePreMaintenance) w of
        (None, w) \<Rightarrow> (None, w)
      | (Some e, w) \<Rightarrow> (Some (Wrapped ''failed to remove leftover pre-maintenance backups'' e), w))"

definition WaitForRunningBackups :: "'w backup_env \<Rightarrow> 'w poller \<Rightarrow> 'w waiter \<Rightarrow> 'w \<Rightarrow> gerr option \<times> 'w" where
  "WaitForRunningBackups env poll wa w =
     (let namespace = ba_InstanceNamespace env in
      if namespace = '''' then (Some (Msg ''INSTANCE_NAMESPACE not set''), w)
      else (case CleanupPreMaintenanceBackups env (wa_leftoverType wa) namespace w of
        (_, w) \<Rightarrow>
          (case poll (wa_interval wa) (wa_timeout wa) True (check_running wa namespace) (([], None), w) of
             (PollDone, (_, w)) \<Rightarrow> (None, w)
           | (PollInterrupted, ((running, Some lastErr), w)) \<Rightarrow>
               (Some (Wrapped ''failed to check for running backups'' lastErr), w)
           | (PollInterrupted, ((running, None), w)) \<Rightarrow> (Some (Msg ''backups still in progress''), w)
           | (PollFailed e, (_, w)) \<Rightarrow> (Some (Wrapped ''failed to check for running backups'' e), w))))"

text \<open>
  The documentation of the poller: it returns nil when the condition has returned true without an error,
  and it returns then.
\<close>

definition poll_law :: "'w poller \<Rightarrow> bool" where
  "poll_law poll \<longleftrightarrow>
     (\<forall>i t im cond st st'. poll i t im cond st = (PollDone, st') \<longrightarrow> (\<exists>st1. cond st1 = (Inr True, st')))"

section \<open>What a successful wait means\<close>

lemma still_running_empty:
  assumes "still_running skip bs w = ([], w')"
  shows "\<forall>b \<in> set bs. \<exists>w0. fst (skip b w0)"
  using assms
proof (induction bs arbitrary: w)
  case (Cons b bs)
  obtain s w1 where s: "skip b w = (s, w1)" by fastforce
  obtain names w2 where n: "still_running skip bs w1 = (names, w2)" by fastforce
  have "s" "names = []" "w2 = w'" using Cons.prems s n by (auto split: if_splits)
  then show ?case using Cons.IH [of w1] s n by (auto intro!: exI [of _ w])
qed simp

text \<open>A backup that need not be waited for: on its way out, ended, or stuck when the clock was read.\<close>

definition stuck_now :: "'w backup_env \<Rightarrow> 'a backup_meta_scheme \<Rightarrow> bool" where
  "stuck_now env b \<longleftrightarrow> (\<exists>created w. bm_CreationTimestamp b = Some created \<and>
     MaxBackupAge \<le> time_sub (fst (ba_Now env w)) created)"

definition over :: "'w backup_env \<Rightarrow> ('a backup_meta_scheme \<Rightarrow> bool) \<Rightarrow> 'a backup_meta_scheme \<Rightarrow> bool" where
  "over env ended b \<longleftrightarrow> \<not> IsZero (bm_DeletionTimestamp b) \<or> ended b \<or> stuck_now env b"

lemma stuck_now: "fst (IsBackupStuck env b w) \<Longrightarrow> stuck_now env b"
  by (auto simp: IsBackupStuck_def stuck_now_def split: option.splits if_splits prod.splits)
    (metis fst_conv)+

text \<open>What no name in progress says of the lists a check has read, for each kind of backup.\<close>

definition quiet_k8up :: "'w backup_env \<Rightarrow> string \<Rightarrow> 'w \<Rightarrow> bool" where
  "quiet_k8up env ns w \<longleftrightarrow> (\<exists>items w1. ba_ListK8up env ns w = (Inr items, w1) \<and> (\<forall>b \<in> set items. over env kb_HasFinished b))"

definition quiet_cnpg :: "'w backup_env \<Rightarrow> string \<Rightarrow> 'w \<Rightarrow> bool" where
  "quiet_cnpg env ns w \<longleftrightarrow> (\<exists>clusters w1. ba_ListCNPGClusters env ns w = (Inr clusters, w1) \<and>
     (clusters = [] \<or> hd clusters = 0 \<or>
      (\<exists>items w2. ba_ListCNPG env ns w1 = (Inr items, w2) \<and> (\<forall>b \<in> set items. over env (\<lambda>b. cb_Phase b \<in> terminal_phases) b))))"

definition quiet_stackgres :: "'w backup_env \<Rightarrow> string \<Rightarrow> 'w \<Rightarrow> bool" where
  "quiet_stackgres env ns w \<longleftrightarrow> (\<exists>clusters w1. ba_ListSGClusters env ns w = (Inr clusters, w1) \<and>
     (clusters = [] \<or> hd clusters = 0 \<or>
      (\<exists>uids w2. ba_ListBackupCronJobs env ns w1 = (Inr uids, w2) \<and>
        (uids = [] \<or> (\<exists>items w3. ba_ListJobs env ns w2 = (Inr items, w3) \<and>
           (\<forall>j \<in> set items. set (bj_Owners j) \<inter> set uids \<noteq> {} \<longrightarrow> over env isJobFinished j))))))"

text \<open>
  The contract of an \<open>InProgressFunc\<close>: it returns no name only when the namespace is quiet. A wait that
  succeeds has then seen the namespace quiet, in the very last thing it did.
\<close>

locale backup_checker =
  fixes inProgress :: "'w in_progress" and quiet :: "string \<Rightarrow> 'w \<Rightarrow> bool"
  assumes no_name: "inProgress ns w = (Inr [], w') \<Longrightarrow> quiet ns w"
begin

lemma wait_sees_quiet:
  assumes "poll_law poll" and "wa_inProgress wa = inProgress"
    and "WaitForRunningBackups env poll wa w = (None, w')"
  shows "\<exists>w1. quiet (ba_InstanceNamespace env) w1 \<and> snd (inProgress (ba_InstanceNamespace env) w1) = w'"
proof -
  let ?ns = "ba_InstanceNamespace env"
  obtain c w0 where c: "CleanupPreMaintenanceBackups env (wa_leftoverType wa) ?ns w = (c, w0)" by fastforce
  obtain r st where p: "poll (wa_interval wa) (wa_timeout wa) True (check_running wa ?ns) (([], None), w0) = (r, st)" by (metis surj_pair)
  have "r = PollDone" "snd st = w'"
    using assms(3) c p by (auto simp: WaitForRunningBackups_def Let_def split: if_splits poll_outcome.splits prod.splits option.splits)
  then obtain st1 where st1: "check_running wa ?ns st1 = (Inr True, st)" using assms(1) p unfolding poll_law_def by blast
  then have run: "inProgress ?ns (snd st1) = (Inr [], w')"
    using assms(2) \<open>snd st = w'\<close> by (auto simp: check_running_def split: prod.splits sum.splits)
  then show ?thesis using no_name [OF run] by (intro exI [of _ "snd st1"]) simp
qed

end

interpretation k8up_checker: backup_checker "K8upBackupsInProgress env" "quiet_k8up env" for env
proof
  fix ns w w'
  assume "K8upBackupsInProgress env ns w = (Inr [], w')"
  then obtain items w1 where l: "ba_ListK8up env ns w = (Inr items, w1)" "still_running (skip_k8up env) items w1 = ([], w')"
    by (auto simp: K8upBackupsInProgress_def split: prod.splits sum.splits)
  have "over env kb_HasFinished b" if "b \<in> set items" for b
    using still_running_empty [OF l(2)] that stuck_now [of env b]
    by (auto simp: skip_k8up_def over_def split: if_splits)
  then show "quiet_k8up env ns w" using l(1) unfolding quiet_k8up_def by blast
qed

interpretation cnpg_checker: backup_checker "CNPGBackupsInProgress env" "quiet_cnpg env" for env
proof
  fix ns w w'
  assume run: "CNPGBackupsInProgress env ns w = (Inr [], w')"
  obtain clusters w1 where c: "ba_ListCNPGClusters env ns w = (Inr clusters, w1)"
    using run by (auto simp: CNPGBackupsInProgress_def split: prod.splits sum.splits)
  show "quiet_cnpg env ns w"
  proof (cases "clusters = [] \<or> hd clusters = 0")
    case True
    then show ?thesis using c unfolding quiet_cnpg_def by blast
  next
    case False
    then obtain items w2 where l: "ba_ListCNPG env ns w1 = (Inr items, w2)" "still_running (skip_cnpg env) items w2 = ([], w')"
      using run c by (cases clusters) (auto simp: CNPGBackupsInProgress_def IsClusterSuspended_def split: prod.splits sum.splits)
    have "over env (\<lambda>b. cb_Phase b \<in> terminal_phases) b" if "b \<in> set items" for b
      using still_running_empty [OF l(2)] that stuck_now [of env b]
      by (auto simp: skip_cnpg_def over_def split: if_splits prod.splits) (metis fst_conv prod.collapse)
    then show ?thesis using c l(1) unfolding quiet_cnpg_def by blast
  qed
qed

interpretation stackgres_checker: backup_checker "StackGresBackupsInProgress env" "quiet_stackgres env" for env
proof
  fix ns w w'
  assume run: "StackGresBackupsInProgress env ns w = (Inr [], w')"
  obtain clusters w1 where c: "ba_ListSGClusters env ns w = (Inr clusters, w1)"
    using run by (auto simp: StackGresBackupsInProgress_def split: prod.splits sum.splits)
  show "quiet_stackgres env ns w"
  proof (cases "clusters = [] \<or> hd clusters = 0")
    case True
    then show ?thesis using c unfolding quiet_stackgres_def by blast
  next
    case False
    then obtain uids w2 where u: "ba_ListBackupCronJobs env ns w1 = (Inr uids, w2)"
      using run c by (cases clusters) (auto simp: StackGresBackupsInProgress_def IsClusterSuspended_def split: prod.splits sum.splits)
    show ?thesis
    proof (cases uids)
      case Nil
      then show ?thesis using c u unfolding quiet_stackgres_def by blast
    next
      case (Cons uid more)
      then obtain items w3 where l: "ba_ListJobs env ns w2 = (Inr items, w3)"
          "still_running (skip_job env (set uids)) items w3 = ([], w')"
        using run c u False
        by (cases clusters) (auto simp: StackGresBackupsInProgress_def IsClusterSuspended_def split: prod.splits sum.splits)
      have "over env isJobFinished j" if "j \<in> set items" "set (bj_Owners j) \<inter> set uids \<noteq> {}" for j
        using still_running_empty [OF l(2)] that stuck_now [of env j]
        by (auto simp: skip_job_def over_def ownedByAny_def list_ex_iff split: if_splits)
      then show ?thesis using c u l(1) unfolding quiet_stackgres_def by blast
    qed
  qed
qed

end
