(* ===== verification/PgMaintenance.thy ===== *)
theory PgMaintenance
  imports Backup_Waiter HelmPatcher
begin

text \<open>
  The maintenance of PostgreSQL, \<open>src/pkg/maintenance/postgresql.go\<close> (StackGres) with the choice of a version in
  \<open>src/pkg/auth/stackgres/client.go\<close>, and \<open>postgresqlcnpg.go\<close>. Objects are the fields the code reads or sets;
  reading a nil pointer is \<open>Panic\<close>. The library \<open>hashicorp/go-version\<close> is the parameter \<open>go_version\<close>.
\<close>

section \<open>Versions\<close>

record 'g go_version =
  gv_NewVersion :: "string \<Rightarrow> gerr + 'g"
  gv_Segments :: "'g \<Rightarrow> int list"
  gv_LessThan :: "'g \<Rightarrow> 'g \<Rightarrow> bool"
  gv_Original :: "'g \<Rightarrow> string"
  gv_SortReverse :: "'g list \<Rightarrow> 'g list"

text \<open>The loop over the list: the versions of the same major, or the error of one that cannot be read.\<close>

fun valid_versions :: "'g go_version \<Rightarrow> 'g \<Rightarrow> string list \<Rightarrow> gerr + 'g list" where
  "valid_versions gv current [] = Inr []"
| "valid_versions gv current (newVersion # versions) =
     (case gv_NewVersion gv newVersion of
        Inl e \<Rightarrow> Inl e
      | Inr tmpVersion \<Rightarrow>
          (case valid_versions gv current versions of
             Inl e \<Rightarrow> Inl e
           | Inr valid \<Rightarrow>
               Inr (if hd (gv_Segments gv tmpVersion) = hd (gv_Segments gv current) then tmpVersion # valid else valid)))"

text \<open>A nil list is None; an error comes with the empty string.\<close>

definition GetLatestMinorVersion :: "'g go_version \<Rightarrow> string \<Rightarrow> string list option \<Rightarrow> string \<times> gerr option" where
  "GetLatestMinorVersion gv vers versionList =
     (case versionList of
        None \<Rightarrow> (vers, None)
      | Some versions \<Rightarrow>
          (case gv_NewVersion gv vers of
             Inl e \<Rightarrow> ('''', Some e)
           | Inr current \<Rightarrow>
               (case valid_versions gv current versions of
                  Inl e \<Rightarrow> ('''', Some e)
                | Inr valid \<Rightarrow>
                    (let sorted = gv_SortReverse gv valid
                     in if sorted \<noteq> [] \<and> gv_LessThan gv current (hd sorted) then (gv_Original gv (hd sorted), None)
                        else (gv_Original gv current, None)))))"

section \<open>StackGres\<close>

definition su :: string where "su = ''securityUpgrade''"
definition mvu :: string where "mvu = ''minorVersionUpgrade''"
definition repack_op :: string where "repack_op = ''repack''"
definition vacuum_op :: string where "vacuum_op = ''vacuum''"

lemmas op_names = su_def mvu_def repack_op_def vacuum_op_def

record sg_condition =
  sc_Reason :: "string option"
  sc_Status :: "string option"

record sg_cluster =
  sg_Name :: string
  sg_Instances :: int
  sg_PostgresVersion :: string
  sg_Conditions :: "sg_condition list option"

record sg_dbops =
  op_Name :: string
  op_Namespace :: string
  op_SgCluster :: string
  op_Op :: string
  op_MaxRetries :: int
  op_MinorVersionUpgrade :: "(string \<times> string) option"
  op_SecurityUpgrade :: "string option"
  op_Conditions :: "sg_condition list option"

text \<open>
  What the \<open>select\<close> of \<open>waitForUpgrade\<close> receives: the timer, the closed channel, or an event, whose object may
  not be an SGDbOps.
\<close>

datatype watch_input = TimerFired | ChannelClosed | ModifiedEvent "sg_dbops option" | ErrorEvent | OtherEvent

record pg_claim_status =
  pc_Name :: string
  pc_Namespace :: string
  pc_IsEOL :: bool

record 'w sg_env =
  se_ListClusters :: "string \<Rightarrow> 'w \<Rightarrow> (gerr + sg_cluster list) \<times> 'w"
  se_GetAvailableVersions :: "'w \<Rightarrow> (gerr + string list) \<times> 'w"
  se_Delete :: "sg_dbops \<Rightarrow> 'w \<Rightarrow> gerr option \<times> 'w"
  se_Create :: "sg_dbops \<Rightarrow> 'w \<Rightarrow> gerr option \<times> 'w"
  se_Watch :: "string \<Rightarrow> 'w \<Rightarrow> gerr option \<times> 'w"
  se_Receive :: "'w \<Rightarrow> watch_input \<times> 'w"
  se_GetClaim :: "string \<Rightarrow> string \<Rightarrow> 'w \<Rightarrow> (gerr + pg_claim_status) \<times> 'w"
  se_UpdateClaim :: "pg_claim_status \<Rightarrow> 'w \<Rightarrow> gerr option \<times> 'w"

record pg_job =
  pj_instanceNamespace :: string
  pj_claimNamespace :: string
  pj_claimName :: string
  pj_repack :: string
  pj_vacuum :: string

text \<open>\<open>*c.Reason == reason && *c.Status == "True"\<close>, and the loop that looks for such a condition.\<close>

definition condition_holds :: "string \<Rightarrow> sg_condition \<Rightarrow> go_fail + bool" where
  "condition_holds reason c =
     (case sc_Reason c of
        None \<Rightarrow> Inl Panic
      | Some r \<Rightarrow> (if r \<noteq> reason then Inr False
                   else (case sc_Status c of None \<Rightarrow> Inl Panic | Some s \<Rightarrow> Inr (s = ''True''))))"

fun some_condition :: "string \<Rightarrow> sg_condition list \<Rightarrow> go_fail + bool" where
  "some_condition reason [] = Inr False"
| "some_condition reason (c # cs) =
     (case condition_holds reason c of
        Inl e \<Rightarrow> Inl e
      | Inr True \<Rightarrow> Inr True
      | Inr False \<Rightarrow> some_condition reason cs)"

definition checkRequiredUpgrade :: "sg_cluster \<Rightarrow> go_fail + bool" where
  "checkRequiredUpgrade sgCluster =
     (case sg_Conditions sgCluster of None \<Rightarrow> Inr False | Some cs \<Rightarrow> some_condition ''ClusterRequiresUpgrade'' cs)"

definition isUpgradeFinished :: "sg_condition \<Rightarrow> go_fail + bool" where
  "isUpgradeFinished v = condition_holds ''OperationCompleted'' v"

definition getDbOpsObject :: "pg_job \<Rightarrow> string \<Rightarrow> string \<Rightarrow> string \<Rightarrow> sg_dbops" where
  "getDbOpsObject p clusterName objectName opName =
     \<lparr>op_Name = objectName, op_Namespace = pj_instanceNamespace p, op_SgCluster = clusterName, op_Op = opName, op_MaxRetries = 1,
      op_MinorVersionUpgrade = None, op_SecurityUpgrade = None, op_Conditions = None\<rparr>"

definition applyDbOps :: "'w sg_env \<Rightarrow> sg_dbops \<Rightarrow> 'w \<Rightarrow> gerr option \<times> 'w" where
  "applyDbOps env obj w =
     (case se_Delete env obj w of
        (Some e, w) \<Rightarrow> (if IsNotFound e then se_Create env obj w else (Some e, w))
      | (None, w) \<Rightarrow> se_Create env obj w)"

definition createRepack :: "'w sg_env \<Rightarrow> pg_job \<Rightarrow> string \<Rightarrow> 'w \<Rightarrow> gerr option \<times> 'w" where
  "createRepack env p clusterName = applyDbOps env (getDbOpsObject p clusterName ''databasesrepack'' repack_op)"

definition createVacuum :: "'w sg_env \<Rightarrow> pg_job \<Rightarrow> string \<Rightarrow> 'w \<Rightarrow> gerr option \<times> 'w" where
  "createVacuum env p clusterName = applyDbOps env (getDbOpsObject p clusterName ''vacuum'' vacuum_op)"

definition createMinorUpgrade :: "'w sg_env \<Rightarrow> pg_job \<Rightarrow> string \<Rightarrow> string \<Rightarrow> 'w \<Rightarrow> gerr option \<times> 'w" where
  "createMinorUpgrade env p clusterName minorVersion =
     applyDbOps env ((getDbOpsObject p clusterName ''minorupgrade'' mvu)\<lparr>op_MinorVersionUpgrade := Some (''InPlace'', minorVersion)\<rparr>)"

definition createSecurityUpgrade :: "'w sg_env \<Rightarrow> pg_job \<Rightarrow> string \<Rightarrow> 'w \<Rightarrow> gerr option \<times> 'w" where
  "createSecurityUpgrade env p clusterName =
     applyDbOps env ((getDbOpsObject p clusterName ''securitymaintenance'' su)\<lparr>op_SecurityUpgrade := Some ''InPlace''\<rparr>)"

definition isEOL :: "string \<Rightarrow> string list \<Rightarrow> bool" where
  "isEOL currentVersion versionList \<longleftrightarrow> \<not> slices_contains versionList currentVersion"

definition setEOLStatus :: "'w sg_env \<Rightarrow> pg_job \<Rightarrow> 'w \<Rightarrow> gerr option \<times> 'w" where
  "setEOLStatus env p w =
     (case se_GetClaim env (pj_claimNamespace p) (pj_claimName p) w of
        (Inl e, w) \<Rightarrow> (Some e, w)
      | (Inr claim, w) \<Rightarrow> se_UpdateClaim env (claim\<lparr>pc_IsEOL := True\<rparr>) w)"

text \<open>\<open>upgradeVersion\<close> returns the operation it has created, the empty name and an error, or both.\<close>

definition upgradeVersion ::
    "'g go_version \<Rightarrow> 'w sg_env \<Rightarrow> pg_job \<Rightarrow> string \<Rightarrow> string \<Rightarrow> 'w \<Rightarrow> (string \<times> gerr option) \<times> 'w" where
  "upgradeVersion gv env p currentVersion sgClusterName w =
     (case se_GetAvailableVersions env w of
        (fetched, w) \<Rightarrow>
          (let versionList = (case fetched of Inl _ \<Rightarrow> None | Inr l \<Rightarrow> Some l);
               (latestMinor, err) = GetLatestMinorVersion gv currentVersion versionList;
               currentVersion = (if err = None then currentVersion else latestMinor)
           in if currentVersion \<noteq> latestMinor then
                (case createMinorUpgrade env p sgClusterName latestMinor w of (e, w) \<Rightarrow> ((mvu, e), w))
              else
                (case (case versionList of
                         Some l \<Rightarrow> (if isEOL currentVersion l then setEOLStatus env p w else (None, w))
                       | None \<Rightarrow> (None, w)) of
                   (Some e, w) \<Rightarrow> (('''', Some (Wrapped ''cannot set EOL status on claim'' e)), w)
                 | (None, w) \<Rightarrow>
                     (case createSecurityUpgrade env p sgClusterName w of (e, w) \<Rightarrow> ((su, e), w)))))"

text \<open>What one turn of the \<open>select\<close> in \<open>waitForUpgrade\<close> does: return a value, or go round (None).\<close>

definition wait_turn :: "string \<Rightarrow> watch_input \<Rightarrow> go_fail option option" where
  "wait_turn opName input =
     (case input of
        TimerFired \<Rightarrow> Some (Some (Err (ApiErr StatusTimeout)))
      | ChannelClosed \<Rightarrow> Some (Some (Err (Msg ''sgdbops resource watch channel had been closed'')))
      | ErrorEvent \<Rightarrow> Some (Some (Err (Msg ''wait for maintenance received watch error'')))
      | OtherEvent \<Rightarrow> None
      | ModifiedEvent None \<Rightarrow> Some (Some Panic)
      | ModifiedEvent (Some ops) \<Rightarrow>
          (case op_Conditions ops of
             None \<Rightarrow> None
           | Some cs \<Rightarrow>
               (if op_Op ops \<noteq> opName then None
                else (case some_condition ''OperationCompleted'' cs of
                        Inl e \<Rightarrow> Some (Some e)
                      | Inr finished \<Rightarrow> (if finished then Some None else None)))))"

text \<open>The endless loop; None when it never gets an input that ends it.\<close>

partial_function (option) wait_loop :: "'w sg_env \<Rightarrow> string \<Rightarrow> 'w \<Rightarrow> (go_fail option \<times> 'w) option" where
  "wait_loop env opName w =
     (case se_Receive env w of
        (input, w) \<Rightarrow> (case wait_turn opName input of Some r \<Rightarrow> Some (r, w) | None \<Rightarrow> wait_loop env opName w))"

definition waitForUpgrade :: "'w sg_env \<Rightarrow> pg_job \<Rightarrow> string \<Rightarrow> 'w \<Rightarrow> (go_fail option \<times> 'w) option" where
  "waitForUpgrade env p opName w =
     (case se_Watch env (pj_instanceNamespace p) w of
        (Some e, w) \<Rightarrow> Some (Some (Err (Msg ''watch error for sgdbops resources'')), w)
      | (None, w) \<Rightarrow> wait_loop env opName w)"

text \<open>What comes after the upgrade: vacuum, repack, and repack again when neither is enabled.\<close>

definition optimise_databases :: "'w sg_env \<Rightarrow> pg_job \<Rightarrow> string \<Rightarrow> 'w \<Rightarrow> go_fail option \<times> 'w" where
  "optimise_databases env p cluster w =
     (case (if pj_vacuum p = ''true'' then createVacuum env p cluster w else (None, w)) of
        (Some e, w) \<Rightarrow> (Some (Err (Msg ''cannot create vacuum'')), w)
      | (None, w) \<Rightarrow>
     (case (if pj_repack p = ''true'' then createRepack env p cluster w else (None, w)) of
        (Some e, w) \<Rightarrow> (Some (Err (Msg ''cannot create repack'')), w)
      | (None, w) \<Rightarrow>
     (case (if pj_vacuum p \<noteq> ''true'' \<and> pj_repack p \<noteq> ''true'' then createRepack env p cluster w else (None, w)) of
        (Some e, w) \<Rightarrow> (Some (Err (Msg ''cannot create repack'')), w)
      | (None, w) \<Rightarrow> (None, w))))"

text \<open>
  Waiting for an operation: a timeout ends the maintenance without an error, any other error ends it with
  one, and otherwise it goes on.
\<close>

definition after_upgrade ::
    "'w sg_env \<Rightarrow> pg_job \<Rightarrow> string \<Rightarrow> ('w \<Rightarrow> (go_fail option \<times> 'w) option) \<Rightarrow> 'w \<Rightarrow> (go_fail option \<times> 'w) option" where
  "after_upgrade env p opName continue w =
     (case waitForUpgrade env p opName w of
        None \<Rightarrow> None
      | Some (None, w) \<Rightarrow> continue w
      | Some (Some Panic, w) \<Rightarrow> Some (Some Panic, w)
      | Some (Some (Err e), w) \<Rightarrow>
          (if is_reason StatusTimeout e then Some (None, w)
           else Some (Some (Err (Msg ''cannot watch for maintenance sgdbops resources'')), w)))"

definition upgrade_and_optimise ::
    "'g go_version \<Rightarrow> 'w sg_env \<Rightarrow> pg_job \<Rightarrow> sg_cluster \<Rightarrow> 'w \<Rightarrow> (go_fail option \<times> 'w) option" where
  "upgrade_and_optimise gv env p sgCluster w =
     (case upgradeVersion gv env p (sg_PostgresVersion sgCluster) (sg_Name sgCluster) w of
        ((_, Some e), w) \<Rightarrow> Some (Some (Err e), w)
      | ((opName, None), w) \<Rightarrow>
          after_upgrade env p opName (\<lambda>w. Some (optimise_databases env p (sg_Name sgCluster) w)) w)"

definition postgresql_DoMaintenance ::
    "'g go_version \<Rightarrow> 'w sg_env \<Rightarrow> pg_job \<Rightarrow> 'w \<Rightarrow> (go_fail option \<times> 'w) option" where
  "postgresql_DoMaintenance gv env p w =
     (case se_ListClusters env (pj_instanceNamespace p) w of
        (Inl e, w) \<Rightarrow> Some (Some (Err e), w)
      | (Inr [], w) \<Rightarrow> Some (None, w)
      | (Inr (sgCluster # _), w) \<Rightarrow>
          (if sg_Instances sgCluster = 0 then Some (None, w)
           else (case checkRequiredUpgrade sgCluster of
                   Inl e \<Rightarrow> Some (Some e, w)
                 | Inr False \<Rightarrow> upgrade_and_optimise gv env p sgCluster w
                 | Inr True \<Rightarrow>
                     (case createSecurityUpgrade env p (sg_Name sgCluster) w of
                        (Some e, w) \<Rightarrow> Some (Some (Err e), w)
                      | (None, w) \<Rightarrow> after_upgrade env p su (upgrade_and_optimise gv env p sgCluster) w))))"

section \<open>The operations on StackGres, proved\<close>

text \<open>The inputs the loop receives, one after the other.\<close>

fun input_at :: "'w sg_env \<Rightarrow> nat \<Rightarrow> 'w \<Rightarrow> watch_input" where
  "input_at env 0 w = fst (se_Receive env w)"
| "input_at env (Suc n) w = input_at env n (snd (se_Receive env w))"

lemma wait_loop_returns:
  assumes "wait_turn opName (input_at env n w) \<noteq> None"
  shows "\<exists>r w'. wait_loop env opName w = Some (r, w')"
  using assms
proof (induction n arbitrary: w)
  case 0
  then show ?case by (subst wait_loop.simps) (auto split: prod.splits)
next
  case (Suc n)
  obtain input w1 where r: "se_Receive env w = (input, w1)" by fastforce
  then have "\<exists>r w'. wait_loop env opName w1 = Some (r, w')" using Suc by simp
  then show ?case using r by (subst wait_loop.simps) (auto split: option.splits)
qed

text \<open>So the wait is over at the latest when the timer fires.\<close>

lemma waitForUpgrade_returns:
  assumes "\<And>w. \<exists>n. input_at env n w = TimerFired"
  shows "\<exists>r w'. waitForUpgrade env p opName w = Some (r, w')"
proof -
  have "\<exists>r w'. wait_loop env opName w = Some (r, w')" for w
  proof -
    obtain n where "input_at env n w = TimerFired" using assms by blast
    then show ?thesis by (intro wait_loop_returns [of opName env n]) (simp add: wait_turn_def)
  qed
  then show ?thesis by (auto simp: waitForUpgrade_def split: prod.splits option.splits)
qed

lemma valid_versions_spec:
  "(case valid_versions gv current versions of
      Inl e \<Rightarrow> \<exists>v \<in> set versions. \<exists>e. gv_NewVersion gv v = Inl e
    | Inr valid \<Rightarrow> set valid = {x. \<exists>v \<in> set versions. gv_NewVersion gv v = Inr x \<and>
        hd (gv_Segments gv x) = hd (gv_Segments gv current)} \<and> (\<forall>v \<in> set versions. \<exists>x. gv_NewVersion gv v = Inr x))"
proof (induction versions)
  case (Cons v versions)
  show ?case
  proof (cases "gv_NewVersion gv v")
    case (Inr x)
    then show ?thesis using Cons by (cases "valid_versions gv current versions") auto
  qed simp
qed simp

lemma GetLatestMinorVersion_error:
  assumes "gv_NewVersion gv vers = Inl e \<or> (\<exists>v \<in> set versions. \<exists>e. gv_NewVersion gv v = Inl e)"
  shows "\<exists>e. GetLatestMinorVersion gv vers (Some versions) = ('''', Some e)"
proof (cases "gv_NewVersion gv vers")
  case (Inr current)
  then show ?thesis
    using assms valid_versions_spec [where gv = gv and current = current and versions = versions] by (auto simp: GetLatestMinorVersion_def split: sum.splits)
qed (simp add: GetLatestMinorVersion_def)

text \<open>
  One entry of the version list that cannot be read as a version makes the job mark the instance as
  end of life: after the error the running version is replaced by the empty string, and that is in no list.
\<close>

theorem unreadable_version_marks_eol:
  assumes "se_GetAvailableVersions env w = (Inr versions, w1)"
    and "\<exists>v \<in> set versions. \<exists>e. gv_NewVersion gv v = Inl e" and "'''' \<notin> set versions"
    and "setEOLStatus env p w1 = (None, w2)" and "createSecurityUpgrade env p cluster w2 = (r, w3)"
  shows "upgradeVersion gv env p currentVersion cluster w = ((su, r), w3)"
proof -
  obtain e where "GetLatestMinorVersion gv currentVersion (Some versions) = ('''', Some e)"
    using GetLatestMinorVersion_error assms(2) by meson
  then show ?thesis using assms by (simp add: upgradeVersion_def isEOL_def)
qed

text \<open>The minor version an upgrade goes to is one of the list, of the running major, and not below the others.\<close>

definition version_order :: "'g go_version \<Rightarrow> ('g \<Rightarrow> 'r::linorder) \<Rightarrow> bool" where
  "version_order gv rank \<longleftrightarrow>
     (\<forall>a b. gv_LessThan gv a b \<longleftrightarrow> rank a < rank b) \<and>
     (\<forall>s v. gv_NewVersion gv s = Inr v \<longrightarrow> gv_Original gv v = s) \<and>
     (\<forall>vs. set (gv_SortReverse gv vs) = set vs \<and> sorted (rev (map rank (gv_SortReverse gv vs))))"

lemma latest_minor_spec:
  assumes "version_order gv rank" and "gv_NewVersion gv vers = Inr current"
    and "GetLatestMinorVersion gv vers (Some versions) = (latest, None)"
  shows "latest = vers \<and> (\<forall>x. (\<exists>v \<in> set versions. gv_NewVersion gv v = Inr x) \<and>
           hd (gv_Segments gv x) = hd (gv_Segments gv current) \<longrightarrow> rank x \<le> rank current) \<or>
    latest \<in> set versions \<and> (\<exists>l. gv_NewVersion gv latest = Inr l \<and> hd (gv_Segments gv l) = hd (gv_Segments gv current) \<and>
      rank current < rank l \<and> (\<forall>x. (\<exists>v \<in> set versions. gv_NewVersion gv v = Inr x) \<and>
        hd (gv_Segments gv x) = hd (gv_Segments gv current) \<longrightarrow> rank x \<le> rank l))"
proof -
  obtain valid where valid: "valid_versions gv current versions = Inr valid"
    using assms(2,3) by (auto simp: GetLatestMinorVersion_def split: sum.splits)
  let ?sorted = "gv_SortReverse gv valid"
  let ?same = "{x. \<exists>v \<in> set versions. gv_NewVersion gv v = Inr x \<and> hd (gv_Segments gv x) = hd (gv_Segments gv current)}"
  have sets: "set ?sorted = ?same"
    using valid_versions_spec [where gv = gv and current = current and versions = versions] valid assms(1) unfolding version_order_def by auto
  have top: "rank x \<le> rank (hd ?sorted)" if "x \<in> ?same" for x
  proof -
    have "x \<in> set ?sorted" using that by (simp only: sets)
    then obtain y ys where "?sorted = y # ys" by (cases ?sorted) auto
    moreover have "sorted (rev (map rank ?sorted))" using assms(1) unfolding version_order_def by blast
    ultimately show ?thesis using that sets by (auto simp: sorted_append)
  qed
  have orig: "gv_Original gv x = s" if "gv_NewVersion gv s = Inr x" for s x
    using assms(1) that unfolding version_order_def by blast
  have less: "gv_LessThan gv a b \<longleftrightarrow> rank a < rank b" for a b
    using assms(1) unfolding version_order_def by blast
  show ?thesis
  proof (cases "?sorted \<noteq> [] \<and> gv_LessThan gv current (hd ?sorted)")
    case True
    then have hd: "hd ?sorted \<in> ?same" using sets by auto
    then obtain v where v: "v \<in> set versions" "gv_NewVersion gv v = Inr (hd ?sorted)" by blast
    moreover have "latest = v"
      using assms(2,3) valid True orig [OF v(2)] by (simp add: GetLatestMinorVersion_def Let_def)
    ultimately show ?thesis using True hd top less by blast
  next
    case False
    then have "latest = vers"
      using assms(2,3) valid orig [OF assms(2)] by (auto simp: GetLatestMinorVersion_def Let_def split: if_splits)
    moreover have "rank x \<le> rank current" if "x \<in> ?same" for x
    proof -
      have "?sorted \<noteq> []" using that sets by auto
      then show ?thesis using False top [OF that] less by force
    qed
    ultimately show ?thesis by blast
  qed
qed

section \<open>CloudNativePG\<close>

record image_catalog =
  ic_Name :: string
  ic_Images :: "(int \<times> string) list"

record cnpg_cluster =
  cc_ImageCatalogRef :: string
  cc_Instances :: int
  cc_ReadyInstances :: int

text \<open>Of the composite the major version and whether backups are enabled (\<open>IsEnabled\<close>: unset counts as true).\<close>

record pg_composite =
  px_MajorVersion :: string
  px_BackupEnabled :: "bool option"

definition backup_is_enabled :: "bool option \<Rightarrow> bool" where
  "backup_is_enabled enabled = (case enabled of None \<Rightarrow> True | Some b \<Rightarrow> b)"

text \<open>
  The cluster, the HTTP client with the YAML decoder, and the connections of \<open>pgx\<close>; closing a connection has
  no part in the result and is left out.
\<close>

record 'w cnpg_env =
  ce_GetComposite :: "string \<Rightarrow> 'w \<Rightarrow> (gerr + pg_composite) \<times> 'w"
  ce_GetCluster :: "string \<Rightarrow> string \<Rightarrow> 'w \<Rightarrow> (gerr + cnpg_cluster) \<times> 'w"
  ce_HttpGet :: "string \<Rightarrow> 'w \<Rightarrow> (gerr + int \<times> string) \<times> 'w"
  ce_DecodeCatalog :: "string \<Rightarrow> gerr + image_catalog"
  ce_GetCatalog :: "string \<Rightarrow> string \<Rightarrow> 'w \<Rightarrow> (gerr + image_catalog) \<times> 'w"
  ce_UpdateCatalog :: "image_catalog \<Rightarrow> 'w \<Rightarrow> gerr option \<times> 'w"
  ce_GetClaim :: "string \<Rightarrow> string \<Rightarrow> 'w \<Rightarrow> (gerr + pg_claim_status) \<times> 'w"
  ce_UpdateClaimStatus :: "pg_claim_status \<Rightarrow> 'w \<Rightarrow> gerr option \<times> 'w"
  ce_GetSecret :: "string \<Rightarrow> string \<Rightarrow> 'w \<Rightarrow> (gerr + str_map) \<times> 'w"
  ce_Connect :: "string \<Rightarrow> 'w \<Rightarrow> gerr option \<times> 'w"
  ce_QueryDatabases :: "string \<Rightarrow> 'w \<Rightarrow> (gerr + (gerr + string) list \<times> gerr option) \<times> 'w"
  ce_ParseConfig :: "string \<Rightarrow> gerr option"
  ce_ConnectDatabase :: "string \<Rightarrow> string \<Rightarrow> 'w \<Rightarrow> gerr option \<times> 'w"
  ce_VacuumAnalyze :: "string \<Rightarrow> 'w \<Rightarrow> gerr option \<times> 'w"

record cnpg_job =
  cj_instanceNamespace :: string
  cj_claimNamespace :: string
  cj_claimName :: string
  cj_compName :: string
  cj_vacuum :: string
  cj_catalogURL :: string

definition PostgresqlURL :: string where "PostgresqlURL = ''POSTGRESQL_URL''"
definition PostgresqlDb :: string where "PostgresqlDb = ''POSTGRESQL_DB''"

definition cnpg_WaitForRunningBackups ::
    "'w cnpg_env \<Rightarrow> cnpg_job \<Rightarrow> 'w backup_env \<Rightarrow> 'w poller \<Rightarrow> 'w \<Rightarrow> gerr option \<times> 'w" where
  "cnpg_WaitForRunningBackups env p benv poll w =
     (case ce_GetComposite env (cj_compName p) w of
        (Inl e, w) \<Rightarrow> (Some (Wrapped ''couldn't get composite'' e), w)
      | (Inr composite, w) \<Rightarrow>
          (if \<not> backup_is_enabled (px_BackupEnabled composite) then (None, w)
           else WaitForRunningBackups benv poll (NewCNPGWaiter benv) w))"

definition getLatestImageCatalog :: "'w cnpg_env \<Rightarrow> string \<Rightarrow> 'w \<Rightarrow> (gerr + image_catalog) \<times> 'w" where
  "getLatestImageCatalog env catalogURL w =
     (case ce_HttpGet env catalogURL w of
        (Inl e, w) \<Rightarrow> (Inl (Wrapped ''cannot fetch latest cnpg catalog'' e), w)
      | (Inr (status, body), w) \<Rightarrow>
          (if status \<noteq> 200 then (Inl (Msg ''cannot fetch latest cnpg catalog''), w)
           else (case ce_DecodeCatalog env body of
                   Inl e \<Rightarrow> (Inl (Wrapped ''cannot decode image catalog'' e), w)
                 | Inr c \<Rightarrow> (Inr c, w))))"

definition applyImageCatalog :: "'w cnpg_env \<Rightarrow> cnpg_job \<Rightarrow> image_catalog \<Rightarrow> cnpg_cluster \<Rightarrow> 'w \<Rightarrow> gerr option \<times> 'w" where
  "applyImageCatalog env p newCatalog instanceCluster w =
     (case ce_GetCatalog env (cj_instanceNamespace p) (cc_ImageCatalogRef instanceCluster) w of
        (Inl e, w) \<Rightarrow> (Some (Wrapped ''cannot get current catalog'' e), w)
      | (Inr currentCatalog, w) \<Rightarrow> ce_UpdateCatalog env (currentCatalog\<lparr>ic_Images := ic_Images newCatalog\<rparr>) w)"

definition cnpg_isEOL :: "int \<Rightarrow> image_catalog \<Rightarrow> bool" where
  "cnpg_isEOL currentVersion imageCatalog = (\<not> list_ex (\<lambda>i. fst i = currentVersion) (ic_Images imageCatalog))"

definition cnpg_setEOLStatus :: "'w cnpg_env \<Rightarrow> cnpg_job \<Rightarrow> 'w \<Rightarrow> gerr option \<times> 'w" where
  "cnpg_setEOLStatus env p w =
     (case ce_GetClaim env (cj_claimNamespace p) (cj_claimName p) w of
        (Inl e, w) \<Rightarrow> (if IsNotFound e then (None, w) else (Some e, w))
      | (Inr claim, w) \<Rightarrow> ce_UpdateClaimStatus env (claim\<lparr>pc_IsEOL := True\<rparr>) w)"

definition getConnectionUri :: "'w cnpg_env \<Rightarrow> cnpg_job \<Rightarrow> 'w \<Rightarrow> (gerr + string) \<times> 'w" where
  "getConnectionUri env p w =
     (case ce_GetSecret env (cj_instanceNamespace p) (cj_compName p @ ''-connection'') w of
        (Inl e, w) \<Rightarrow> (Inl (Wrapped ''couldn't get secret'' e), w)
      | (Inr data, w) \<Rightarrow>
          (let uri = or_zero '''' (data PostgresqlURL)
           in if uri = '''' then (Inl (Msg ''connection secret has empty POSTGRESQL_URL''), w)
              else if has_suffix uri ''*'' then
                (let db = or_zero '''' (data PostgresqlDb)
                 in if db = '''' then (Inl (Msg ''connection secret has empty POSTGRESQL_DB''), w)
                    else (Inr (trim_suffix uri ''*'' @ db), w))
              else (Inr uri, w)))"

text \<open>The loop over the rows of the query.\<close>

fun scan_rows :: "(gerr + string) list \<Rightarrow> gerr + string list" where
  "scan_rows [] = Inr []"
| "scan_rows (Inl e # rows) = Inl (Wrapped ''failed to scan database name'' e)"
| "scan_rows (Inr name # rows) = (case scan_rows rows of Inl e \<Rightarrow> Inl e | Inr names \<Rightarrow> Inr (name # names))"

fun vacuum_databases :: "'w cnpg_env \<Rightarrow> string \<Rightarrow> string list \<Rightarrow> 'w \<Rightarrow> gerr option \<times> 'w" where
  "vacuum_databases env uri [] w = (None, w)"
| "vacuum_databases env uri (db # dbs) w =
     (case ce_ParseConfig env uri of
        Some e \<Rightarrow> (Some (Wrapped ''failed to parse psql uri'' e), w)
      | None \<Rightarrow>
     (case ce_ConnectDatabase env uri db w of
        (Some e, w) \<Rightarrow> (Some (Wrapped ''failed to connect to database'' e), w)
      | (None, w) \<Rightarrow>
     (case ce_VacuumAnalyze env db w of
        (Some e, w) \<Rightarrow> (Some (Wrapped ''failed to execute VACUUM ANALYZE'' e), w)
      | (None, w) \<Rightarrow> vacuum_databases env uri dbs w)))"

definition doVacuum :: "'w cnpg_env \<Rightarrow> cnpg_job \<Rightarrow> 'w \<Rightarrow> gerr option \<times> 'w" where
  "doVacuum env p w =
     (case getConnectionUri env p w of
        (Inl e, w) \<Rightarrow> (Some (Wrapped ''couldn't get psql connection uri'' e), w)
      | (Inr uri, w) \<Rightarrow>
     (case ce_Connect env uri w of
        (Some e, w) \<Rightarrow> (Some (Wrapped ''failed to connect to database'' e), w)
      | (None, w) \<Rightarrow>
     (case ce_QueryDatabases env uri w of
        (Inl e, w) \<Rightarrow> (Some (Wrapped ''failed to list databases'' e), w)
      | (Inr (rows, rows_err), w) \<Rightarrow>
     (case scan_rows rows of
        Inl e \<Rightarrow> (Some e, w)
      | Inr dbs \<Rightarrow>
     (case rows_err of
        Some e \<Rightarrow> (Some (Wrapped ''error iterating database rows'' e), w)
      | None \<Rightarrow> vacuum_databases env uri dbs w)))))"

text \<open>The part of \<open>DoMaintenance\<close> after the catalog has been applied.\<close>

definition eol_and_vacuum :: "'w cnpg_env \<Rightarrow> cnpg_job \<Rightarrow> int \<Rightarrow> image_catalog \<Rightarrow> cnpg_cluster \<Rightarrow> 'w \<Rightarrow> gerr option \<times> 'w" where
  "eol_and_vacuum env p version latestCatalog instanceCluster w =
     (case (if cnpg_isEOL version latestCatalog then cnpg_setEOLStatus env p w else (None, w)) of
        (Some e, w) \<Rightarrow> (Some (Wrapped ''couldn't set EOL status on claim'' e), w)
      | (None, w) \<Rightarrow>
          (if cj_vacuum p = ''true'' \<and> cc_Instances instanceCluster \<noteq> 0 \<and> 0 < cc_ReadyInstances instanceCluster
           then (case doVacuum env p w of
                   (Some e, w) \<Rightarrow> (Some (Msg ''vacuum failed''), w)
                 | (None, w) \<Rightarrow> (None, w))
           else (None, w)))"

definition cnpg_DoMaintenance :: "'w cnpg_env \<Rightarrow> cnpg_job \<Rightarrow> 'w \<Rightarrow> gerr option \<times> 'w" where
  "cnpg_DoMaintenance env p w =
     (case ce_GetComposite env (cj_compName p) w of
        (Inl e, w) \<Rightarrow> (Some (Wrapped ''couldn't get composite'' e), w)
      | (Inr composite, w) \<Rightarrow>
     (case ce_GetCluster env (cj_instanceNamespace p) ''postgresql'' w of
        (Inl e, w) \<Rightarrow> (Some (Wrapped ''couldn't get instance cluster'' e), w)
      | (Inr instanceCluster, w) \<Rightarrow>
     (case parse_int (px_MajorVersion composite) of
        None \<Rightarrow> (Some (Msg ''cannot parse postgresql major version''), w)
      | Some version \<Rightarrow>
     (case getLatestImageCatalog env (cj_catalogURL p) w of
        (Inl e, w) \<Rightarrow> (Some (Wrapped ''cannot get the latest image catalog'' e), w)
      | (Inr latestCatalog, w) \<Rightarrow>
     (case applyImageCatalog env p latestCatalog instanceCluster w of
        (Some e, w) \<Rightarrow> (Some (Wrapped ''cannot apply new image catalog'' e), w)
      | (None, w) \<Rightarrow> eol_and_vacuum env p version latestCatalog instanceCluster w)))))"


section \<open>A run\<close>

definition example_go_version :: "(string \<times> int list) go_version" where
  "example_go_version =
     \<lparr>gv_NewVersion = (\<lambda>s. case those (map parse_int (split_char (CHR ''.'') s)) of
        None \<Rightarrow> Inl (Msg ''Malformed version'') | Some ns \<Rightarrow> Inr (s, ns)),
      gv_Segments = snd, gv_LessThan = (\<lambda>a b. snd a < snd b), gv_Original = fst,
      gv_SortReverse = (\<lambda>vs. rev (sort_key snd vs))\<rparr>"

lemma example_version_order: "version_order example_go_version snd"
  by (auto simp: version_order_def example_go_version_def rev_map split: option.splits)

text \<open>The world is the claim's status and the operations created, newest first.\<close>

definition example_sg :: "string list \<Rightarrow> (pg_claim_status \<times> sg_dbops list) sg_env" where
  "example_sg versions =
     \<lparr>se_ListClusters = (\<lambda>ns w. (Inr [], w)),
      se_GetAvailableVersions = (\<lambda>w. (Inr versions, w)),
      se_Delete = (\<lambda>obj w. (Some (ApiErr NotFound), w)),
      se_Create = (\<lambda>obj w. (None, (fst w, obj # snd w))),
      se_Watch = (\<lambda>ns w. (None, w)),
      se_Receive = (\<lambda>w. (TimerFired, w)),
      se_GetClaim = (\<lambda>ns n w. (Inr (fst w), w)),
      se_UpdateClaim = (\<lambda>claim w. (None, (claim, snd w)))\<rparr>"

definition example_pg_job :: pg_job where
  "example_pg_job = \<lparr>pj_instanceNamespace = ''inst'', pj_claimNamespace = ''ns'', pj_claimName = ''pg'', pj_repack = ''true'', pj_vacuum = ''''\<rparr>"

definition example_pg_status :: "bool \<Rightarrow> pg_claim_status" where
  "example_pg_status eol = \<lparr>pc_Name = ''pg'', pc_Namespace = ''ns'', pc_IsEOL = eol\<rparr>"

text \<open>The running version 16.4 is in the list, and is the newest of its major; one entry that is no version is enough.\<close>

lemma unreadable_version_marks_eol_witness:
  "upgradeVersion example_go_version (example_sg [''16.4'', ''latest'']) example_pg_job ''16.4'' ''cluster'' (example_pg_status False, []) =
     ((su, None), (example_pg_status True,
       [(getDbOpsObject example_pg_job ''cluster'' ''securitymaintenance'' su)\<lparr>op_SecurityUpgrade := Some ''InPlace''\<rparr>]))"
proof (rule unreadable_version_marks_eol)
  show "se_GetAvailableVersions (example_sg [''16.4'', ''latest'']) (example_pg_status False, []) =
      (Inr [''16.4'', ''latest''], (example_pg_status False, []))" by (simp add: example_sg_def)
  have "gv_NewVersion example_go_version ''latest'' = Inl (Msg ''Malformed version'')" by code_simp
  then show "\<exists>v \<in> set [''16.4'', ''latest'']. \<exists>e. gv_NewVersion example_go_version v = Inl e" by auto
  show "setEOLStatus (example_sg [''16.4'', ''latest'']) example_pg_job (example_pg_status False, []) =
      (None, (example_pg_status True, []))" by (simp add: setEOLStatus_def example_sg_def example_pg_status_def)
  show "createSecurityUpgrade (example_sg [''16.4'', ''latest'']) example_pg_job ''cluster'' (example_pg_status True, []) =
      (None, (example_pg_status True,
        [(getDbOpsObject example_pg_job ''cluster'' ''securitymaintenance'' su)\<lparr>op_SecurityUpgrade := Some ''InPlace''\<rparr>]))"
    by (simp add: createSecurityUpgrade_def applyDbOps_def example_sg_def)
qed simp

end
