(* ===== verification/RunMaintenance.thy ===== *)
theory RunMaintenance
  imports Release ServiceMaintenance PgMaintenance
begin

text \<open>
  The maintenance command, \<open>src/cmd/maintenance.go\<close>: which environment variables it needs, which job it runs,
  and in what order it waits for backups, rolls out the revision and maintains the service. Viper is the
  record \<open>maint_vars\<close>; the Go interface \<open>Maintenance\<close> is \<open>maintenance_impl\<close>, and \<open>service_impl\<close> gives it for the
  eight services.
\<close>

section \<open>Settings\<close>

datatype service = Noservice | Postgresql | PostgresqlCnpg | HelmService helm_service

definition maintenanceServices :: "service \<Rightarrow> string" where
  "maintenanceServices s =
     (case s of Noservice \<Rightarrow> '''' | Postgresql \<Rightarrow> ''postgresql'' | PostgresqlCnpg \<Rightarrow> ''postgresql_cnpg''
      | HelmService Redis \<Rightarrow> ''redis'' | HelmService Minio \<Rightarrow> ''minio'' | HelmService MariaDB \<Rightarrow> ''mariadb''
      | HelmService Keycloak \<Rightarrow> ''keycloak'' | HelmService Nextcloud \<Rightarrow> ''nextcloud'' | HelmService Forgejo \<Rightarrow> ''forgejo'')"







section \<open>The jobs behind the interface\<close>









section \<open>The command\<close>







section \<open>Nothing happens before the backups are over\<close>








section \<open>A run of the command for Redis\<close>

















end
