(* ===== verification/Naming.thy ===== *)
theory Naming
  imports Prelude
begin

unbundle bit_operations_syntax

text \<open>
  Names of Kubernetes objects, \<open>src/pkg/comp-functions/runtime/naming.go\<close>. Strings are bytes: a character that is
  not ASCII is a run of bytes none of which is a letter or a digit, so the regular expressions replace it
  just so; lower case is the one of ASCII. The hash is SHA-1, written out on 32-bit words.
\<close>

section \<open>SHA-1\<close>

definition sha1_pad :: "nat list \<Rightarrow> nat list" where
  "sha1_pad msg =
     (let n = length msg; zeros = (119 - n mod 64) mod 64
      in msg @ [128] @ replicate zeros 0 @ map (\<lambda>i. (8 * n) div 256 ^ (7 - i) mod 256) [0..<8])"

fun word_be :: "nat list \<Rightarrow> 32 word" where
  "word_be [a, b, c, d] = of_nat (((a * 256 + b) * 256 + c) * 256 + d)"
| "word_be _ = 0"

fun chunks :: "nat \<Rightarrow> 'a list \<Rightarrow> 'a list list" where
  "chunks n xs = (if n = 0 \<or> xs = [] then [] else take n xs # chunks n (drop n xs))"

declare chunks.simps [simp del]

text \<open>The message schedule, latest word first.\<close>

definition next_schedule :: "32 word list \<Rightarrow> 32 word list" where
  "next_schedule ws = word_rotl 1 (ws ! 2 XOR ws ! 7 XOR ws ! 13 XOR ws ! 15) # ws"

definition schedule_words :: "32 word list \<Rightarrow> 32 word list" where
  "schedule_words ws = rev ((next_schedule ^^ 64) (rev ws))"

type_synonym sha1_state = "32 word \<times> 32 word \<times> 32 word \<times> 32 word \<times> 32 word"

definition sha1_round :: "nat \<times> 32 word \<Rightarrow> sha1_state \<Rightarrow> sha1_state" where
  "sha1_round tw st =
     (case (tw, st) of ((t, wt), (a, b, c, d, e)) \<Rightarrow>
        let (f, k) = (if t < 20 then ((b AND c) OR (NOT b AND d), 0x5A827999)
                      else if t < 40 then (b XOR c XOR d, 0x6ED9EBA1)
                      else if t < 60 then ((b AND c) OR (b AND d) OR (c AND d), 0x8F1BBCDC)
                      else (b XOR c XOR d, 0xCA62C1D6))
        in (word_rotl 5 a + f + e + k + wt, a, word_rotl 30 b, c, d))"

definition sha1_block :: "nat list \<Rightarrow> sha1_state \<Rightarrow> sha1_state" where
  "sha1_block block st =
     (case (st, fold sha1_round (enumerate 0 (schedule_words (map word_be (chunks 4 block)))) st) of
        ((a, b, c, d, e), (a', b', c', d', e')) \<Rightarrow> (a + a', b + b', c + c', d + d', e + e'))"

definition sha1 :: "string \<Rightarrow> sha1_state" where
  "sha1 s = fold sha1_block (chunks 64 (sha1_pad (map of_char s)))
     (0x67452301, 0xEFCDAB89, 0x98BADCFE, 0x10325476, 0xC3D2E1F0)"

definition hex_digit :: "nat \<Rightarrow> char" where
  "hex_digit n = (if n < 10 then digit_char n else char_of (87 + n))"

text \<open>\<open>fmt.Sprintf("%x", sum)\<close>.\<close>

definition hex_word :: "32 word \<Rightarrow> string" where
  "hex_word w = map (\<lambda>i. hex_digit (unat (drop_bit (28 - 4 * i) w AND 15))) [0..<8]"

definition sha1_hex :: "string \<Rightarrow> string" where
  "sha1_hex s = (case sha1 s of (a, b, c, d, e) \<Rightarrow> concat (map hex_word [a, b, c, d, e]))"

section \<open>Names\<close>

definition defaultDNSLabelLength :: nat where "defaultDNSLabelLength = 63"
definition jobDSNLabelLenth :: nat where "jobDSNLabelLenth = 52"

definition hashString :: "string \<Rightarrow> string" where
  "hashString name = CHR ''-'' # take 4 (sha1_hex name)"

definition is_lower_alnum :: "char \<Rightarrow> bool" where
  "is_lower_alnum c = (let n = (of_char c :: nat) in 48 \<le> n \<and> n \<le> 57 \<or> 97 \<le> n \<and> n \<le> 122)"

definition is_alnum :: "char \<Rightarrow> bool" where
  "is_alnum c = (is_lower_alnum c \<or> (let n = (of_char c :: nat) in 65 \<le> n \<and> n \<le> 90))"

text \<open>The regular expressions \<open>^[a-z0-9]([-a-z0-9]*[a-z0-9])?$\<close>, and with a colon in the inner set.\<close>

definition dns1123_match :: "bool \<Rightarrow> string \<Rightarrow> bool" where
  "dns1123_match allowColons s =
     (s \<noteq> [] \<and> is_lower_alnum (hd s) \<and> is_lower_alnum (last s) \<and>
      list_all (\<lambda>c. is_lower_alnum c \<or> c = CHR ''-'' \<or> allowColons \<and> c = CHR '':'') s)"

text \<open>\<open>[^a-zA-Z0-9]+\<close> replaced by a hyphen, and by nothing at the start and at the end.\<close>

fun replace_runs :: "bool \<Rightarrow> string \<Rightarrow> string" where
  "replace_runs in_run [] = []"
| "replace_runs in_run (c # s) =
     (if is_alnum c then c # replace_runs False s
      else if in_run then replace_runs True s
      else CHR ''-'' # replace_runs True s)"

definition escape_start :: "string \<Rightarrow> string" where
  "escape_start s = dropWhile (\<lambda>c. \<not> is_alnum c) s"

definition escape_end :: "string \<Rightarrow> string" where
  "escape_end s = rev (dropWhile (\<lambda>c. \<not> is_alnum c) (rev s))"

definition EscapeDNS1123 :: "string \<Rightarrow> bool \<Rightarrow> string" where
  "EscapeDNS1123 name allowColons =
     (if dns1123_match allowColons name \<and> length name \<le> 253 then name
      else
        (let escapedName = escape_end (escape_start (replace_runs False (to_lower name)))
         in if 253 < length escapedName then take 248 escapedName @ hashString escapedName else escapedName))"

text \<open>A slice \<open>name[:length-5]\<close> with a negative bound would panic; the two lengths in use are 63 and 52.\<close>

definition EscapeDNS1123Label :: "string \<Rightarrow> nat \<Rightarrow> string" where
  "EscapeDNS1123Label name len =
     (let name = EscapeDNS1123 name False
      in if len < length name then take (len - 5) name @ hashString name else name)"

text \<open>The name by the kind of the object; None is an object whose kind is not registered.\<close>

definition escapeK8sNames :: "string option \<Rightarrow> string \<Rightarrow> string" where
  "escapeK8sNames kind name =
     (case kind of
        None \<Rightarrow> EscapeDNS1123 name False
      | Some k \<Rightarrow>
          (if k = ''Pod'' \<or> k = ''Service'' then EscapeDNS1123Label name defaultDNSLabelLength
           else if k \<in> {''Role'', ''ClusterRole'', ''RoleBinding'', ''ClusterRoleBinding''} then EscapeDNS1123 name True
           else if k = ''CronJob'' then EscapeDNS1123Label name jobDSNLabelLenth
           else EscapeDNS1123 name False))"

section \<open>The hash part\<close>

lemma hex_digit_alnum: "n < 16 \<Longrightarrow> is_lower_alnum (hex_digit n)"
proof -
  assume n: "n < 16"
  have "n \<in> {0, 1, 2, 3, 4, 5, 6, 7, 8, 9, 10, 11, 12, 13, 14, 15}" using n by (simp add: eval_nat_numeral less_Suc_eq)
  then show ?thesis by (auto simp: hex_digit_def digit_char_def is_lower_alnum_def)
qed

lemma nibble_less: "unat (w AND 15 :: 32 word) < 16"
proof -
  have "w AND 15 \<le> (15 :: 32 word)" by (rule word_and_le1)
  then show ?thesis by (simp add: word_le_nat_alt)
qed

lemma hex_word_alnum: "list_all is_lower_alnum (hex_word w)" "length (hex_word w) = 8"
  by (simp_all add: hex_word_def list_all_iff hex_digit_alnum nibble_less)

lemma sha1_hex_alnum: "list_all is_lower_alnum (sha1_hex s)" "length (sha1_hex s) = 40"
  by (simp_all add: sha1_hex_def hex_word_alnum split: prod.splits)

lemma hashString_parts:
  obtains h where "hashString s = CHR ''-'' # h" and "length h = 4" and "list_all is_lower_alnum h"
proof -
  have "list_all is_lower_alnum (take 4 (sha1_hex s))"
    using sha1_hex_alnum(1) [of s] by (auto simp: list_all_iff dest: in_set_takeD)
  then show ?thesis using that [of "take 4 (sha1_hex s)"] sha1_hex_alnum(2) [of s] by (simp add: hashString_def)
qed

section \<open>The escaped name\<close>

lemma lower_alnum_cases: "is_alnum c \<Longrightarrow> is_lower_alnum (to_lower_char c)"
  by (auto simp: is_alnum_def is_lower_alnum_def to_lower_char_def Let_def)

lemma alnum_to_lower: "is_alnum (to_lower_char c) \<longleftrightarrow> is_alnum c"
  by (auto simp: is_alnum_def is_lower_alnum_def to_lower_char_def Let_def)

lemma replace_runs_chars: "list_all (\<lambda>c. is_alnum c \<or> c = CHR ''-'') (replace_runs b s)"
  by (induction b s rule: replace_runs.induct) auto

lemma replace_runs_alnum: "filter is_alnum (replace_runs b s) = filter is_alnum s"
proof (induction b s rule: replace_runs.induct)
  case (2 b c s)
  then show ?case by (auto simp: is_alnum_def is_lower_alnum_def)
qed simp

text \<open>Trimming keeps the letters and digits, and leaves one of them at either end.\<close>

lemma escape_ends:
  assumes "filter is_alnum s \<noteq> []"
  shows "escape_end (escape_start s) \<noteq> [] \<and> is_alnum (hd (escape_end (escape_start s))) \<and>
    is_alnum (last (escape_end (escape_start s))) \<and> set (escape_end (escape_start s)) \<subseteq> set s"
proof -
  obtain x where x: "x \<in> set s" "is_alnum x" using assms by (auto simp: filter_empty_conv)
  let ?a = "escape_start s"
  have a: "?a \<noteq> []" "is_alnum (hd ?a)"
    using x hd_dropWhile [of "\<lambda>c. \<not> is_alnum c" s] by (auto simp: escape_start_def dropWhile_eq_Nil_conv)
  let ?b = "dropWhile (\<lambda>c. \<not> is_alnum c) (rev ?a)"
  have "hd ?a \<in> set (rev ?a)" using a by simp
  then have b: "?b \<noteq> []" using a(2) by (auto simp: dropWhile_eq_Nil_conv)
  then have "is_alnum (hd ?b)" using hd_dropWhile [of "\<lambda>c. \<not> is_alnum c" "rev ?a"] by simp
  moreover have "last ?b = hd ?a"
    using b a(1) by (metis dropWhile_append last_appendR last_rev takeWhile_dropWhile_id)
  moreover have "set ?b \<subseteq> set s"
    by (metis escape_start_def set_dropWhileD set_rev subsetI)
  ultimately show ?thesis using a b by (simp add: escape_end_def hd_rev last_rev)
qed

lemma escape_all_other: "filter is_alnum s = [] \<Longrightarrow> escape_start s = []"
  by (simp add: escape_start_def filter_empty_conv)

text \<open>A name made of lower-case letters, digits and hyphens with no hyphen at its ends, cut and hashed, is one.\<close>

lemma cut_and_hash:
  assumes "dns1123_match b s" and "0 < n" and "n \<le> length s"
  shows "dns1123_match b (take n s @ hashString t)" and "length (take n s @ hashString t) = n + 5"
proof -
  obtain h where h: "hashString t = CHR ''-'' # h" "length h = 4" "list_all is_lower_alnum h" by (rule hashString_parts)
  have "h \<noteq> []" using h(2) by auto
  then have "is_lower_alnum (last h)" using h(3) by (simp add: list_all_iff)
  then show "dns1123_match b (take n s @ hashString t)"
    using assms h \<open>h \<noteq> []\<close> by (auto simp: dns1123_match_def list_all_iff hd_append dest: in_set_takeD)
  show "length (take n s @ hashString t) = n + 5" using assms h by simp
qed

lemma dns1123_match_colons: "dns1123_match False s \<Longrightarrow> dns1123_match b s"
  by (auto simp: dns1123_match_def list_all_iff)

lemma EscapeDNS1123_conforms:
  assumes "filter is_alnum name \<noteq> []"
  shows "dns1123_match b (EscapeDNS1123 name b) \<and> length (EscapeDNS1123 name b) \<le> 253"
proof (cases "dns1123_match b name \<and> length name \<le> 253")
  case True
  then show ?thesis by (simp add: EscapeDNS1123_def)
next
  case False
  let ?r = "replace_runs False (to_lower name)"
  let ?e = "escape_end (escape_start ?r)"
  have low: "is_alnum c \<Longrightarrow> is_lower_alnum c" if "c \<in> set ?r" for c
  proof -
    assume c: "is_alnum c"
    have "c \<in> set (filter is_alnum ?r)" using that c by simp
    then have "c \<in> set (to_lower name)" unfolding replace_runs_alnum by simp
    then show ?thesis using c lower_alnum_cases alnum_to_lower by (auto simp: to_lower_def)
  qed
  have "filter is_alnum (to_lower name) \<noteq> []"
    using assms by (auto simp: to_lower_def filter_empty_conv alnum_to_lower)
  then have "filter is_alnum ?r \<noteq> []" by (simp add: replace_runs_alnum)
  note ends = escape_ends [OF this]
  have chars: "is_lower_alnum c \<or> c = CHR ''-''" if "c \<in> set ?e" for c
    using that ends low replace_runs_chars [of False "to_lower name"] by (auto simp: list_all_iff)
  have "hd ?e \<in> set ?r" "last ?e \<in> set ?r" using ends by auto
  then have match: "dns1123_match False ?e" using ends chars low by (auto simp: dns1123_match_def list_all_iff)
  show ?thesis
    using False match dns1123_match_colons [OF match] cut_and_hash [OF match, of 248 ?e] dns1123_match_colons
    by (auto simp: EscapeDNS1123_def Let_def)
qed

lemma EscapeDNS1123_empty:
  assumes "filter is_alnum name = []"
  shows "EscapeDNS1123 name b = ''''"
proof -
  have "filter is_alnum (replace_runs False (to_lower name)) = []"
    using assms by (simp add: replace_runs_alnum to_lower_def filter_empty_conv alnum_to_lower)
  moreover have "\<not> dns1123_match b name"
    using assms by (cases name) (auto simp: dns1123_match_def is_alnum_def filter_empty_conv)
  ultimately show ?thesis by (simp add: EscapeDNS1123_def escape_all_other escape_end_def)
qed

lemma EscapeDNS1123_idem: "EscapeDNS1123 (EscapeDNS1123 name b) b = EscapeDNS1123 name b"
proof (cases "filter is_alnum name = []")
  case True
  then show ?thesis by (simp add: EscapeDNS1123_empty)
next
  case False
  then show ?thesis using EscapeDNS1123_conforms [OF False, of b] by (subst EscapeDNS1123_def) simp
qed

lemma EscapeDNS1123Label_conforms:
  assumes "filter is_alnum name \<noteq> []" and "5 < len"
  shows "dns1123_match False (EscapeDNS1123Label name len) \<and> length (EscapeDNS1123Label name len) \<le> min len 253"
proof (cases "len < length (EscapeDNS1123 name False)")
  case True
  then show ?thesis
    using EscapeDNS1123_conforms [OF assms(1), of False] cut_and_hash [of False "EscapeDNS1123 name False" "len - 5"] assms(2)
    by (simp add: EscapeDNS1123Label_def Let_def)
next
  case False
  then show ?thesis using EscapeDNS1123_conforms [OF assms(1), of False] by (simp add: EscapeDNS1123Label_def Let_def)
qed

definition name_limit :: "string option \<Rightarrow> nat" where
  "name_limit kind = (if kind = Some ''Pod'' \<or> kind = Some ''Service'' then 63 else if kind = Some ''CronJob'' then 52 else 253)"

text \<open>
  C19. Every name that has at least one ASCII letter or digit becomes a well-formed Kubernetes name: lower
  case letters, digits and hyphens (and colons, for RBAC kinds), a letter or digit at both ends, and no
  longer than its kind allows. A name without any becomes empty, which no kind allows.
\<close>

theorem escaped_names_conform:
  "if \<exists>c \<in> set name. is_alnum c
   then dns1123_match (kind \<in> Some ` {''Role'', ''ClusterRole'', ''RoleBinding'', ''ClusterRoleBinding''}) (escapeK8sNames kind name) \<and>
     length (escapeK8sNames kind name) \<le> name_limit kind
   else escapeK8sNames kind name = ''''"
proof (cases "filter is_alnum name = []")
  case True
  then have "escapeK8sNames kind name = ''''"
    by (simp add: escapeK8sNames_def EscapeDNS1123_empty EscapeDNS1123Label_def split: option.splits)
  then show ?thesis using True by (auto simp: filter_empty_conv)
next
  case False
  note c = EscapeDNS1123_conforms [OF False]
    and l = EscapeDNS1123Label_conforms [OF False, of 63] EscapeDNS1123Label_conforms [OF False, of 52]
  have "dns1123_match (kind \<in> Some ` {''Role'', ''ClusterRole'', ''RoleBinding'', ''ClusterRoleBinding''}) (escapeK8sNames kind name) \<and>
     length (escapeK8sNames kind name) \<le> name_limit kind"
  proof (cases kind)
    case None
    then show ?thesis using c by (simp add: escapeK8sNames_def name_limit_def)
  next
    case (Some k)
    then show ?thesis
      using c l by (simp add: escapeK8sNames_def name_limit_def defaultDNSLabelLength_def jobDSNLabelLenth_def image_iff)
  qed
  then show ?thesis using False by (auto simp: filter_empty_conv)
qed

end
