(* ===== verification/Runtime.thy ===== *)
theory Runtime
  imports Naming Labels Resources
begin

text \<open>
  The runtime of the composition functions, \<open>src/pkg/comp-functions/runtime/function_mgr.go\<close>: the desired and
  observed resources of one service, and what the steps of a service do to them. A resource is the fields
  the runtime reads or writes; maps that are ranged over are association lists, visited in an order that
  is an argument.
\<close>

section \<open>Data\<close>

definition ProtectedByAnnotation :: string where "ProtectedByAnnotation = ''appcat.vshn.io/protectedby''"
definition ProtectsAnnotation :: string where "ProtectsAnnotation = ''appcat.vshn.io/protects''"
definition EventForwardAnnotation :: string where "EventForwardAnnotation = ''appcat.vshn.io/forward-events-to''"
definition ProviderConfigIgnoreLabel :: string where "ProviderConfigIgnoreLabel = ''appcat.vshn.io/ignore-provider-config''"
definition WebhookAllowDeletionLabel :: string where "WebhookAllowDeletionLabel = ''appcat.vshn.io/webhook-allowdeletion''"
definition IgnoreConnectionDetailsAnnotation :: string where
  "IgnoreConnectionDetailsAnnotation = ''appcat.vshn.io/ignore-connection-details''"
definition LastReconcileAnnotation :: string where "LastReconcileAnnotation = ''appcat.vshn.io/reconciled-on''"
definition providerConfigRefName :: string where "providerConfigRefName = ''kubernetes''"

lemmas runtime_keys = OwnerKindLabel_def OwnerVersionLabel_def OwnerGroupLabel_def OwnerCompositeLabel_def
  ProtectedByAnnotation_def ProtectsAnnotation_def EventForwardAnnotation_def ProviderConfigLabel_def
  ProviderConfigIgnoreLabel_def WebhookAllowDeletionLabel_def IgnoreConnectionDetailsAnnotation_def
  LastReconcileAnnotation_def

text \<open>The spec of a managed resource; the manifest and the fields up to it are those of a provider-kubernetes \<open>Object\<close>.\<close>

record managed_spec =
  ms_ManagementPolicies :: "string list"
  ms_ProviderConfigRef :: "string option"
  ms_WriteConnectionSecret :: "(string \<times> string) option"
  ms_References :: "string list"
  ms_Readiness :: string
  ms_ConnectionDetails :: "string list"
  ms_Manifest :: "(string \<times> gany) list option"
  ms_Other :: gany

record composed_resource =
  cp_APIVersion :: string
  cp_Kind :: string
  cp_Name :: string
  cp_Labels :: str_map
  cp_Annotations :: str_map
  cp_Spec :: managed_spec

type_synonym kube_option = "composed_resource \<Rightarrow> composed_resource"

text \<open>\<open>resource.Ready\<close>: the empty string and unspecified are two values of it.\<close>

datatype readiness = ReadyEmpty | ReadyUnspecified | ReadyTrue | ReadyFalse

record desired_composed =
  dc_Resource :: composed_resource
  dc_Ready :: readiness

record xp_condition =
  xc_Type :: string
  xc_Status :: string
  xc_Reason :: string

text \<open>
  An observed resource; \<open>or_Status\<close> is what reading its status gives: an error (of the access or the
  conversion), nothing, or its conditions.
\<close>

record observed_composed =
  or_Resource :: composed_resource
  or_Status :: "gerr + xp_condition list option"
  or_ConnectionDetails :: str_map
  or_AtProvider :: "(string \<times> gany) list option"

record claim_ref =
  cl_APIVersion :: string
  cl_Kind :: string
  cl_Namespace :: string
  cl_Name :: string

record observed_composite =
  oc_Name :: string
  oc_Labels :: str_map
  oc_ClaimRef :: "claim_ref option"
  oc_Group :: string
  oc_Version :: string
  oc_Kind :: string

datatype severity = SeverityFatal | SeverityWarning | SeverityNormal

type_synonym fn_result = "severity \<times> string"

record service_runtime =
  sr_Config :: str_map
  sr_desired :: "(string \<times> desired_composed) list"
  sr_connectionDetails :: str_map
  sr_results :: "fn_result list"
  sr_composite :: observed_composite
  sr_observed :: "(string \<times> observed_composed) list"
  sr_requestDesired :: "string list"
  sr_instanceNamespace :: "gerr + string option"
  sr_kubeOptions :: "(string \<times> kube_option list) list"

text \<open>An object to be wrapped into a provider-kubernetes \<open>Object\<close>; no annotations at all is None.\<close>

record kube_object =
  kb_Kind :: string
  kb_Name :: string
  kb_Namespace :: string
  kb_ResourceVersion :: string
  kb_UID :: string
  kb_SelfLink :: string
  kb_Generation :: int
  kb_OwnerReferences :: "gany list"
  kb_Labels :: str_map
  kb_Annotations :: "str_map option"
  kb_Body :: gany

text \<open>
  The function SDK and the scheme: the kind a scheme knows for an object, the conversion of a managed
  resource (it can fail), the JSON of an object, and the current time as RFC 3339.
\<close>

record runtime_env =
  rt_KindOf :: "string \<Rightarrow> string option"
  rt_From :: "composed_resource \<Rightarrow> gerr option"
  rt_ToMap :: "kube_object \<Rightarrow> gerr + (string \<times> gany) list"
  rt_Now :: string

datatype rt_error = NotFoundError | RtErr gerr | RtPanic

section \<open>Labels and annotations\<close>

definition addOwnerReferenceAnnotation :: "service_runtime \<Rightarrow> str_map \<Rightarrow> str_map" where
  "addOwnerReferenceAnnotation s labels =
     labels(OwnerKindLabel \<mapsto> or_zero '''' (sr_Config s ''ownerKind''),
            OwnerVersionLabel \<mapsto> or_zero '''' (sr_Config s ''ownerVersion''),
            OwnerGroupLabel \<mapsto> or_zero '''' (sr_Config s ''ownerGroup''),
            OwnerCompositeLabel \<mapsto> oc_Name (sr_composite s))"

fun removeDuplicate :: "string list \<Rightarrow> string set \<Rightarrow> string list" where
  "removeDuplicate [] seen = []"
| "removeDuplicate (item # items) seen =
     (if item \<in> seen then removeDuplicate items seen else item # removeDuplicate items (insert item seen))"

definition addProtectionAnnotation :: "string \<Rightarrow> string \<Rightarrow> kube_option" where
  "addProtectionAnnotation resName protectionType obj =
     (let annotations = cp_Annotations obj; old = or_zero '''' (annotations protectionType)
      in if old = '''' then obj\<lparr>cp_Annotations := annotations(protectionType \<mapsto> resName)\<rparr>
         else obj\<lparr>cp_Annotations := annotations(protectionType \<mapsto>
                join_char (CHR '','') (removeDuplicate (split_char (CHR '','') old @ [resName]) {}))\<rparr>)"

definition ComposedOptionProtectedBy :: "string \<Rightarrow> kube_option" where
  "ComposedOptionProtectedBy resName = addProtectionAnnotation resName ProtectedByAnnotation"

definition ComposedOptionProtects :: "string \<Rightarrow> kube_option" where
  "ComposedOptionProtects resName = addProtectionAnnotation resName ProtectsAnnotation"

section \<open>Options for kube objects\<close>

definition KubeOptionAddLabels :: "str_map \<Rightarrow> kube_option" where
  "KubeOptionAddLabels labels obj = obj\<lparr>cp_Labels := cp_Labels obj ++ labels\<rparr>"

definition KubeOptionAddRefs :: "string list \<Rightarrow> kube_option" where
  "KubeOptionAddRefs refs obj = obj\<lparr>cp_Spec := (cp_Spec obj)\<lparr>ms_References := refs\<rparr>\<rparr>"

definition KubeOptionCustomReadiness :: "string \<Rightarrow> kube_option" where
  "KubeOptionCustomReadiness readiness obj = obj\<lparr>cp_Spec := (cp_Spec obj)\<lparr>ms_Readiness := readiness\<rparr>\<rparr>"

definition KubeOptionAllowDeletion :: kube_option where
  "KubeOptionAllowDeletion obj = obj\<lparr>cp_Labels := (cp_Labels obj)(WebhookAllowDeletionLabel \<mapsto> ''true'')\<rparr>"

definition KubeOptionAddConnectionDetails :: "string \<Rightarrow> string list \<Rightarrow> kube_option" where
  "KubeOptionAddConnectionDetails destNamespace cd obj =
     (let objName = EscapeDNS1123 (cp_Name obj @ ''-cd'') False
      in obj\<lparr>cp_Spec := (cp_Spec obj)\<lparr>ms_ConnectionDetails := cd, ms_WriteConnectionSecret := Some (objName, destNamespace)\<rparr>\<rparr>)"

definition KubeOptionObserveCreateUpdate :: kube_option where
  "KubeOptionObserveCreateUpdate obj =
     obj\<lparr>cp_Spec := (cp_Spec obj)\<lparr>ms_ManagementPolicies := [''Create'', ''Update'', ''Observe'']\<rparr>\<rparr>"

definition manifest_metadata :: "(string \<times> gany) list \<Rightarrow> (string \<times> gany) list" where
  "manifest_metadata m = or_zero [] (as_map (any_get m ''metadata''))"

definition KubeOptionSetOwnerReferenceFromKubeObject :: "gany \<Rightarrow> kube_option" where
  "KubeOptionSetOwnerReferenceFromKubeObject ownerRef obj =
     (case ms_Manifest (cp_Spec obj) of
        None \<Rightarrow> obj
      | Some m \<Rightarrow>
          (let meta = manifest_metadata m; refs = or_zero [] (as_list (any_get meta ''ownerReferences''))
           in obj\<lparr>cp_Spec := (cp_Spec obj)\<lparr>ms_Manifest :=
                Some (any_put ''metadata'' (GMap (any_put ''ownerReferences'' (GList (refs @ [ownerRef])) meta)) m)\<rparr>\<rparr>))"

definition KubeOptionObserve :: kube_option where
  "KubeOptionObserve obj =
     obj\<lparr>cp_Spec := (cp_Spec obj)\<lparr>ms_ManagementPolicies := [''Observe''],
       ms_Manifest := map_option (filter (\<lambda>kv. fst kv \<noteq> ''spec'')) (ms_Manifest (cp_Spec obj))\<rparr>\<rparr>"

definition KubeOptionProtectedBy :: "string \<Rightarrow> kube_option" where
  "KubeOptionProtectedBy resName = addProtectionAnnotation resName ProtectedByAnnotation"

definition KubeOptionProtects :: "string \<Rightarrow> kube_option" where
  "KubeOptionProtects resName = addProtectionAnnotation resName ProtectsAnnotation"

definition KubeOptionDeployOnControlPlane :: kube_option where
  "KubeOptionDeployOnControlPlane obj = obj\<lparr>cp_Labels := (cp_Labels obj)(ProviderConfigIgnoreLabel \<mapsto> ''true'')\<rparr>"

section \<open>Setting desired resources\<close>

text \<open>\<open>unstructured.RemoveNestedField(m, "metadata", field)\<close> on the manifest.\<close>

definition remove_metadata_field :: "string \<Rightarrow> (string \<times> gany) list \<Rightarrow> (string \<times> gany) list" where
  "remove_metadata_field field m =
     (case as_map (any_get m ''metadata'') of
        None \<Rightarrow> m
      | Some meta \<Rightarrow> any_put ''metadata'' (GMap (filter (\<lambda>kv. fst kv \<noteq> field) meta)) m)"

definition SetDesiredComposedResourceWithName ::
    "runtime_env \<Rightarrow> composed_resource \<Rightarrow> string \<Rightarrow> kube_option list \<Rightarrow> service_runtime \<Rightarrow> rt_error option \<times> service_runtime" where
  "SetDesiredComposedResourceWithName rt obj name opts s =
     (let obj = obj\<lparr>cp_Labels := addOwnerReferenceAnnotation s (cp_Labels obj)\<rparr>;
          obj = obj\<lparr>cp_Name := escapeK8sNames (rt_KindOf rt (cp_Kind obj)) (cp_Name obj)\<rparr>;
          name = EscapeDNS1123 name False;
          obj = fold (\<lambda>opt. opt) opts obj;
          ready = (case map_of (sr_desired s) name of None \<Rightarrow> ReadyEmpty | Some dr \<Rightarrow> dc_Ready dr)
      in (case rt_From rt obj of
            Some e \<Rightarrow> (Some (RtErr e), s)
          | None \<Rightarrow>
              (let spec = (cp_Spec obj)\<lparr>ms_Manifest := map_option
                     (remove_metadata_field ''managedFields'' \<circ> remove_metadata_field ''creationTimestamp'') (ms_Manifest (cp_Spec obj))\<rparr>
               in (None, s\<lparr>sr_desired := any_put name \<lparr>dc_Resource = obj\<lparr>cp_Spec := spec\<rparr>, dc_Ready = ready\<rparr> (sr_desired s)\<rparr>))))"

definition SetDesiredComposedResource ::
    "runtime_env \<Rightarrow> composed_resource \<Rightarrow> kube_option list \<Rightarrow> service_runtime \<Rightarrow> rt_error option \<times> service_runtime" where
  "SetDesiredComposedResource rt obj opts s = SetDesiredComposedResourceWithName rt obj (cp_Name obj) opts s"

definition GetDesiredComposedResourceByName :: "service_runtime \<Rightarrow> string \<Rightarrow> composed_resource option" where
  "GetDesiredComposedResourceByName s name =
     map_option dc_Resource (map_of (sr_desired s) (EscapeDNS1123 name False))"

text \<open>Null values are dropped from objects, and from the objects in lists; a list in a list is not entered.\<close>

fun pruneNilFields :: "(string \<times> gany) list \<Rightarrow> (string \<times> gany) list" and prune_value :: "gany \<Rightarrow> gany"
  and prune_items :: "gany list \<Rightarrow> gany list" where
  "pruneNilFields [] = []"
| "pruneNilFields ((k, v) # m) = (if v = GNull then pruneNilFields m else (k, prune_value v) # pruneNilFields m)"
| "prune_value (GList l) = GList (prune_items l)"
| "prune_value (GMap m) = GMap (pruneNilFields m)"
| "prune_value GNull = GNull"
| "prune_value (GBool b) = GBool b"
| "prune_value (GInt64 i) = GInt64 i"
| "prune_value (GInt i) = GInt i"
| "prune_value (GFloat64 i) = GFloat64 i"
| "prune_value (GStr x) = GStr x"
| "prune_items [] = []"
| "prune_items (x # xs) = (case x of GMap m \<Rightarrow> GMap (pruneNilFields m) | _ \<Rightarrow> x) # prune_items xs"

definition empty_spec :: managed_spec where
  "empty_spec = \<lparr>ms_ManagementPolicies = [], ms_ProviderConfigRef = Some providerConfigRefName, ms_WriteConnectionSecret = None,
     ms_References = [], ms_Readiness = '''', ms_ConnectionDetails = [], ms_Manifest = None, ms_Other = GNull\<rparr>"

text \<open>What \<open>putIntoObject\<close> makes of the object itself before it is put into the manifest.\<close>

definition clean_object :: "service_runtime \<Rightarrow> runtime_env \<Rightarrow> kube_object \<Rightarrow> kube_object" where
  "clean_object s rt obj =
     obj\<lparr>kb_ResourceVersion := '''', kb_UID := '''', kb_SelfLink := '''', kb_Generation := 0, kb_OwnerReferences := [],
       kb_Name := escapeK8sNames (rt_KindOf rt (kb_Kind obj)) (kb_Name obj),
       kb_Annotations := map_option (\<lambda>a. a(''kubectl.kubernetes.io/last-applied-configuration'' \<mapsto> '''')) (kb_Annotations obj),
       kb_Labels := (\<lambda>k. if has_prefix k ''argocd.argoproj.io'' then None
                         else addOwnerReferenceAnnotation s (kb_Labels obj) k)\<rparr>"

definition putIntoObject ::
    "runtime_env \<Rightarrow> service_runtime \<Rightarrow> kube_object \<Rightarrow> string \<Rightarrow> string \<Rightarrow> string list \<Rightarrow> gerr + composed_resource" where
  "putIntoObject rt s obj kon resourceName refs =
     (if rt_KindOf rt (kb_Kind obj) = None then Inl (Msg ''cannot determine object kind, have you registered it in the scheme'')
      else
        (let koSpec = (case GetDesiredComposedResourceByName s resourceName of None \<Rightarrow> empty_spec | Some tmpKo \<Rightarrow> cp_Spec tmpKo);
             koSpec = (if refs = [] then koSpec else koSpec\<lparr>ms_References := refs\<rparr>)
         in (case rt_ToMap rt (clean_object s rt obj) of
               Inl e \<Rightarrow> Inl (Wrapped ''cannot marshal manifest'' e)
             | Inr manifestMap \<Rightarrow>
                 Inr \<lparr>cp_APIVersion = ''kubernetes.crossplane.io/v1alpha2'', cp_Kind = ''Object'', cp_Name = kon,
                   cp_Labels = Map.empty, cp_Annotations = [LastReconcileAnnotation \<mapsto> rt_Now rt],
                   cp_Spec = koSpec\<lparr>ms_Manifest := Some (pruneNilFields manifestMap)\<rparr>\<rparr>)))"

definition SetDesiredKubeObjectWithName ::
    "runtime_env \<Rightarrow> kube_object \<Rightarrow> string \<Rightarrow> string \<Rightarrow> kube_option list \<Rightarrow> service_runtime \<Rightarrow> rt_error option \<times> service_runtime" where
  "SetDesiredKubeObjectWithName rt obj objectName resourceName opts s =
     (case putIntoObject rt s obj objectName resourceName [] of
        Inl e \<Rightarrow> (Some (RtErr e), s)
      | Inr kobj \<Rightarrow>
          (let tracked = or_zero [] (map_of (sr_kubeOptions s) resourceName) @ opts;
               s = s\<lparr>sr_kubeOptions := any_put resourceName tracked (sr_kubeOptions s)\<rparr>
           in SetDesiredComposedResourceWithName rt (fold (\<lambda>opt. opt) tracked kobj) resourceName [] s))"

definition SetDesiredKubeObject ::
    "runtime_env \<Rightarrow> kube_object \<Rightarrow> string \<Rightarrow> kube_option list \<Rightarrow> service_runtime \<Rightarrow> rt_error option \<times> service_runtime" where
  "SetDesiredKubeObject rt obj objectName opts s = SetDesiredKubeObjectWithName rt obj objectName objectName opts s"

section \<open>Observed state and readiness\<close>

definition SetConnectionDetail :: "string \<Rightarrow> string \<Rightarrow> service_runtime \<Rightarrow> service_runtime" where
  "SetConnectionDetail name val s = s\<lparr>sr_connectionDetails := (sr_connectionDetails s)(name \<mapsto> val)\<rparr>"

definition GetObservedComposedResourceConnectionDetails :: "service_runtime \<Rightarrow> string \<Rightarrow> rt_error + str_map" where
  "GetObservedComposedResourceConnectionDetails s objectName =
     (case map_of (sr_observed s) (EscapeDNS1123 objectName False) of
        None \<Rightarrow> Inl NotFoundError | Some object \<Rightarrow> Inr (or_ConnectionDetails object))"

definition GetObservedComposedResource :: "service_runtime \<Rightarrow> string \<Rightarrow> rt_error + composed_resource" where
  "GetObservedComposedResource s name =
     (case map_of (sr_observed s) (EscapeDNS1123 name False) of
        None \<Rightarrow> Inl NotFoundError | Some res \<Rightarrow> Inr (or_Resource res))"

text \<open>The observed details are added to the composite's; a missing resource adds none.\<close>

definition AddObservedConnectionDetails :: "string \<Rightarrow> service_runtime \<Rightarrow> rt_error option \<times> service_runtime" where
  "AddObservedConnectionDetails name s =
     (case GetObservedComposedResourceConnectionDetails s name of
        Inl NotFoundError \<Rightarrow> (None, s)
      | Inl e \<Rightarrow> (Some e, s)
      | Inr cd \<Rightarrow> (None, s\<lparr>sr_connectionDetails := sr_connectionDetails s ++ cd\<rparr>))"

text \<open>An observed kube object without a manifest in its status counts as not found.\<close>

definition GetObservedKubeObject :: "service_runtime \<Rightarrow> string \<Rightarrow> rt_error + (string \<times> gany) list" where
  "GetObservedKubeObject s name =
     (case map_of (sr_observed s) (EscapeDNS1123 name False) of
        None \<Rightarrow> Inl NotFoundError
      | Some res \<Rightarrow> (case or_AtProvider res of None \<Rightarrow> Inl NotFoundError | Some m \<Rightarrow> Inr m))"

definition GetDesiredKubeObject :: "service_runtime \<Rightarrow> string \<Rightarrow> rt_error + (string \<times> gany) list" where
  "GetDesiredKubeObject s name =
     (case map_of (sr_desired s) (EscapeDNS1123 name False) of
        None \<Rightarrow> Inl NotFoundError
      | Some res \<Rightarrow> (case ms_Manifest (cp_Spec (dc_Resource res)) of
                      None \<Rightarrow> Inl (RtErr (Msg ''unexpected end of JSON input'')) | Some m \<Rightarrow> Inr m))"

definition GetBoolFromCompositionConfig :: "service_runtime \<Rightarrow> string \<Rightarrow> bool" where
  "GetBoolFromCompositionConfig s key =
     (case sr_Config s key of
        None \<Rightarrow> False
      | Some en \<Rightarrow> en \<in> {''1'', ''t'', ''T'', ''true'', ''TRUE'', ''True''})"

definition AddResult :: "fn_result \<Rightarrow> service_runtime \<Rightarrow> service_runtime" where
  "AddResult r s = s\<lparr>sr_results := sr_results s @ [r]\<rparr>"

definition SetDesiredResourceReadiness :: "string \<Rightarrow> readiness \<Rightarrow> service_runtime \<Rightarrow> service_runtime" where
  "SetDesiredResourceReadiness name ready s =
     (case map_of (sr_desired s) name of
        None \<Rightarrow> s
      | Some res \<Rightarrow> s\<lparr>sr_desired := any_put name (res\<lparr>dc_Ready := ready\<rparr>) (sr_desired s)\<rparr>)"

definition DeleteDesiredCompososedResource :: "string \<Rightarrow> service_runtime \<Rightarrow> service_runtime" where
  "DeleteDesiredCompososedResource name s = s\<lparr>sr_desired := filter (\<lambda>kv. fst kv \<noteq> name) (sr_desired s)\<rparr>"

text \<open>\<open>GetCondition\<close>: the condition of a type, unknown when there is none.\<close>

definition GetCondition :: "observed_composed \<Rightarrow> string \<Rightarrow> xp_condition" where
  "GetCondition o_res t =
     (case or_Status o_res of
        Inl _ \<Rightarrow> \<lparr>xc_Type = '''', xc_Status = '''', xc_Reason = ''''\<rparr>
      | Inr conditions \<Rightarrow>
          (case find (\<lambda>c. xc_Type c = t) (or_zero [] conditions) of
             None \<Rightarrow> \<lparr>xc_Type = t, xc_Status = ''Unknown'', xc_Reason = ''''\<rparr>
           | Some c \<Rightarrow> c))"

text \<open>One round of \<open>checkReadiness\<close>.\<close>

definition check_ready :: "string \<Rightarrow> service_runtime \<Rightarrow> service_runtime" where
  "check_ready name s =
     (case map_of (sr_desired s) name of
        None \<Rightarrow> s
      | Some dr \<Rightarrow>
          (case map_of (sr_observed s) name of
             None \<Rightarrow> AddResult (SeverityWarning, ''Desire resource is not in observed resources: '' @ name) s
           | Some o_res \<Rightarrow>
               (if dc_Ready dr \<noteq> ReadyEmpty \<and> dc_Ready dr \<noteq> ReadyUnspecified then s
                else if xc_Status (GetCondition o_res ''Ready'') = ''True''
                then s\<lparr>sr_desired := any_put name (dr\<lparr>dc_Ready := ReadyTrue\<rparr>) (sr_desired s)\<rparr>
                else s)))"

definition checkReadiness :: "(string list \<Rightarrow> string list) \<Rightarrow> service_runtime \<Rightarrow> service_runtime" where
  "checkReadiness order s = fold check_ready (order (map fst (sr_desired s))) s"

definition isResourceSyncedAndReady :: "service_runtime \<Rightarrow> string \<Rightarrow> bool" where
  "isResourceSyncedAndReady s name =
     (case map_of (sr_observed s) (EscapeDNS1123 name False) of
        None \<Rightarrow> False
      | Some obj \<Rightarrow>
          (case or_Status obj of
             Inl _ \<Rightarrow> False
           | Inr None \<Rightarrow> False
           | Inr (Some conditions) \<Rightarrow>
               list_all (\<lambda>c. \<not> (xc_Type c = ''Synced'' \<and> xc_Status c = ''False'') \<and> \<not> (xc_Type c = ''Ready'' \<and> xc_Status c = ''False''))
                 conditions))"

definition areResourcesReady :: "service_runtime \<Rightarrow> string list \<Rightarrow> bool" where
  "areResourcesReady s names = list_all (isResourceSyncedAndReady s) names"

definition WaitForObservedDependencies :: "service_runtime \<Rightarrow> string \<Rightarrow> string list \<Rightarrow> bool" where
  "WaitForObservedDependencies s mainResource dependencies =
     (map_of (sr_observed s) mainResource \<noteq> None \<or> areResourcesReady s dependencies)"

definition WaitForDesiredDependencies :: "service_runtime \<Rightarrow> string \<Rightarrow> string list \<Rightarrow> bool" where
  "WaitForDesiredDependencies s mainResource dependencies =
     (mainResource \<in> set (sr_requestDesired s) \<or> areResourcesReady s dependencies)"

text \<open>The loop over the dependencies and the connection details wanted of each.\<close>

fun details_ready ::
    "string \<Rightarrow> (string \<times> string list) list \<Rightarrow> service_runtime \<Rightarrow> (rt_error + bool) \<times> service_runtime" where
  "details_ready mainResource [] s = (Inr True, s)"
| "details_ready mainResource ((dep, cds) # deps) s =
     (if \<not> WaitForObservedDependencies s mainResource [dep]
      then (Inr False, SetDesiredResourceReadiness mainResource ReadyFalse s)
      else (case GetObservedComposedResourceConnectionDetails s dep of
              Inl e \<Rightarrow> (Inl e, SetDesiredResourceReadiness mainResource ReadyFalse s)
            | Inr cd \<Rightarrow>
                (if list_ex (\<lambda>field. or_zero '''' (cd field) = '''') cds
                 then (Inr False, SetDesiredResourceReadiness mainResource ReadyFalse s)
                 else details_ready mainResource deps s)))"

definition WaitForObservedDependenciesWithConnectionDetails ::
    "(string \<times> string list) list \<Rightarrow> string \<Rightarrow> service_runtime \<Rightarrow> (rt_error + bool) \<times> service_runtime" where
  "WaitForObservedDependenciesWithConnectionDetails objectCDMap mainResource s =
     (if map_of (sr_observed s) mainResource \<noteq> None then (Inr True, s) else details_ready mainResource objectCDMap s)"

definition IsResourceReady :: "service_runtime \<Rightarrow> string \<Rightarrow> gerr + bool" where
  "IsResourceReady s name =
     (case map_of (sr_observed s) (EscapeDNS1123 name False) of
        None \<Rightarrow> Inl (Msg ''resource not in observed state'')
      | Some res \<Rightarrow> (if xc_Status (GetCondition res ''Ready'') \<noteq> ''True'' then Inl (Msg ''resource is not ready'') else Inr True))"

definition ResourceExistsInObserved :: "service_runtime \<Rightarrow> string \<Rightarrow> bool" where
  "ResourceExistsInObserved s name \<longleftrightarrow> map_of (sr_observed s) (EscapeDNS1123 name False) \<noteq> None"

text \<open>\<open>CopyKubeResource\<close>: observe an object in one namespace, and set what is observed in another.\<close>

definition CopyKubeResource ::
    "runtime_env \<Rightarrow> ((string \<times> gany) list \<Rightarrow> gerr + kube_object) \<Rightarrow> kube_object \<Rightarrow> string \<Rightarrow> string \<Rightarrow> string \<Rightarrow> string \<Rightarrow> string list \<Rightarrow>
     service_runtime \<Rightarrow> (rt_error + kube_object) \<times> service_runtime" where
  "CopyKubeResource rt decode obj resourceName name fromNS toNS cd s =
     (let observerName = resourceName @ ''-claim-observer'';
          observerObj = obj\<lparr>kb_Name := name, kb_Namespace := fromNS\<rparr>;
          kubeOpts = [KubeOptionAddLabels [ProviderConfigIgnoreLabel \<mapsto> ''true''], KubeOptionObserve, KubeOptionAllowDeletion] @
            (if cd \<noteq> [] then [KubeOptionAddConnectionDetails toNS cd] else [])
      in (case SetDesiredKubeObject rt observerObj observerName kubeOpts s of
            (Some e, s) \<Rightarrow> (Inl e, s)
          | (None, s) \<Rightarrow>
         (case GetObservedKubeObject s observerName of
            Inl e \<Rightarrow> (Inl e, s)
          | Inr m \<Rightarrow>
         (case decode m of
            Inl e \<Rightarrow> (Inl (RtErr e), s)
          | Inr observed \<Rightarrow>
              (let instObj = observed\<lparr>kb_Namespace := toNS\<rparr>
               in (case SetDesiredKubeObject rt instObj resourceName [KubeOptionAllowDeletion] s of
                     (Some e, s) \<Rightarrow> (Inl e, s)
                   | (None, s) \<Rightarrow> (Inr instObj, s)))))))"

section \<open>Usages\<close>

text \<open>
  \<open>unwrapUsage\<close> looks the resource up twice, the second time under the name as it is; when only the escaped
  one is there, the zero value it gets holds a nil pointer, and the call on it panics.
\<close>

definition unwrapUsage :: "runtime_env \<Rightarrow> string \<Rightarrow> service_runtime \<Rightarrow> (rt_error + bool) \<times> service_runtime" where
  "unwrapUsage rt name s =
     (case GetObservedComposedResource s name of
        Inl NotFoundError \<Rightarrow> (Inr True, s)
      | Inl e \<Rightarrow> (Inl e, s)
      | Inr usage \<Rightarrow>
          (case map_of (sr_observed s) name of
             None \<Rightarrow> (Inl RtPanic, s)
           | Some res \<Rightarrow>
               (if cp_Kind (or_Resource res) \<noteq> ''Object'' then (Inr True, s)
                else if ms_ManagementPolicies (cp_Spec usage) = [] \<or> hd (ms_ManagementPolicies (cp_Spec usage)) \<noteq> ''Observe''
                then (case SetDesiredComposedResourceWithName rt
                             (usage\<lparr>cp_Spec := (cp_Spec usage)\<lparr>ms_ManagementPolicies := [''Observe'']\<rparr>\<rparr>) name [] s of
                        (Some e, s) \<Rightarrow> (Inl e, s)
                      | (None, s) \<Rightarrow> (Inr False, s))
                else (Inr False, s))))"

definition usage_object :: "string \<Rightarrow> composed_resource \<Rightarrow> composed_resource \<Rightarrow> composed_resource" where
  "usage_object name ofRes byRes =
     \<lparr>cp_APIVersion = ''apiextensions.crossplane.io/v1alpha1'', cp_Kind = ''Usage'', cp_Name = name,
      cp_Labels = [ProviderConfigIgnoreLabel \<mapsto> ''true''], cp_Annotations = Map.empty,
      cp_Spec = \<lparr>ms_ManagementPolicies = [], ms_ProviderConfigRef = None, ms_WriteConnectionSecret = None, ms_References = [],
        ms_Readiness = '''', ms_ConnectionDetails = [], ms_Manifest = None,
        ms_Other = GMap [(''replayDeletion'', GBool True),
          (''of'', GMap [(''apiVersion'', GStr (cp_APIVersion ofRes)), (''kind'', GStr (cp_Kind ofRes)),
                         (''resourceRef'', GMap [(''name'', GStr (cp_Name ofRes))])]),
          (''by'', GMap [(''apiVersion'', GStr (cp_APIVersion byRes)), (''kind'', GStr (cp_Kind byRes)),
                         (''resourceRef'', GMap [(''name'', GStr (cp_Name byRes))])])]\<rparr>\<rparr>"

definition UsageOfBy :: "runtime_env \<Rightarrow> string \<Rightarrow> string \<Rightarrow> service_runtime \<Rightarrow> rt_error option \<times> service_runtime" where
  "UsageOfBy rt of_name by_name s =
     (case (map_of (sr_desired s) of_name, map_of (sr_desired s) by_name) of
        (Some ofRaw, Some byRaw) \<Rightarrow>
          (let ofRes = dc_Resource ofRaw; byRes = dc_Resource byRaw;
               name = cp_Name ofRes @ ''-used-by-'' @ cp_Name byRes
           in (case unwrapUsage rt name s of
                 (Inl RtPanic, s) \<Rightarrow> (Some RtPanic, s)
               | (Inl e, s) \<Rightarrow> (Some (RtErr (Msg ''cannot remove kube object wrapper from uage'')), s)
               | (Inr removed, s) \<Rightarrow>
                   (if \<not> removed then (None, s)
                    else (case rt_From rt (usage_object name ofRes byRes) of
                            Some e \<Rightarrow> (Some (RtErr (Wrapped ''cannot convert usage object to managed resource'' e)), s)
                          | None \<Rightarrow>
                              (None, s\<lparr>sr_desired := any_put name \<lparr>dc_Resource = usage_object name ofRes byRes, dc_Ready = ReadyEmpty\<rparr>
                                 (sr_desired s)\<rparr>)))))
      | _ \<Rightarrow> (Some NotFoundError, s))"

text \<open>The two inner loops of \<open>addUsages\<close>: a usage whose other end is not desired is a warning, not an error.\<close>

fun add_usages_for :: "runtime_env \<Rightarrow> (string \<times> string) list \<Rightarrow> service_runtime \<Rightarrow> rt_error option \<times> service_runtime" where
  "add_usages_for rt [] s = (None, s)"
| "add_usages_for rt ((of_name, by_name) # pairs) s =
     (case UsageOfBy rt of_name by_name s of
        (None, s) \<Rightarrow> add_usages_for rt pairs s
      | (Some NotFoundError, s) \<Rightarrow>
          add_usages_for rt pairs (AddResult (SeverityWarning, ''cannot add usage for object: not found'') s)
      | (Some e, s) \<Rightarrow> (Some e, s))"

definition protection_pairs :: "string \<Rightarrow> composed_resource \<Rightarrow> (string \<times> string) list" where
  "protection_pairs resName res =
     (case cp_Annotations res ProtectedByAnnotation of
        None \<Rightarrow> [] | Some byName \<Rightarrow> map (\<lambda>r. (resName, r)) (split_char (CHR '','') byName)) @
     (case cp_Annotations res ProtectsAnnotation of
        None \<Rightarrow> [] | Some ofName \<Rightarrow> map (\<lambda>r. (r, resName)) (split_char (CHR '','') ofName))"

text \<open>
  The outer loop: \<open>order\<close> lists the keys visited. An entry that the loop itself adds may be visited or not; a
  key that is no longer there is not.
\<close>

fun addUsages :: "runtime_env \<Rightarrow> string list \<Rightarrow> service_runtime \<Rightarrow> rt_error option \<times> service_runtime" where
  "addUsages rt [] s = (None, s)"
| "addUsages rt (resName # order) s =
     (case map_of (sr_desired s) resName of
        None \<Rightarrow> addUsages rt order s
      | Some res \<Rightarrow>
          (case add_usages_for rt (protection_pairs resName (dc_Resource res)) s of
             (None, s) \<Rightarrow> addUsages rt order s
           | (Some e, s) \<Rightarrow> (Some e, s)))"

section \<open>Events, provider configs, connection details\<close>

definition isKubeObject :: "composed_resource \<Rightarrow> bool" where
  "isKubeObject r \<longleftrightarrow> cp_Kind r = ''Object'' \<and> has_prefix (cp_APIVersion r) ''kubernetes.crossplane.io''"

definition eventForwardValue :: "claim_ref \<Rightarrow> string" where
  "eventForwardValue ref = cl_APIVersion ref @ ''/'' @ cl_Kind ref @ ''/'' @ cl_Namespace ref @ ''/'' @ cl_Name ref"

text \<open>The annotations of the manifest; a value there that is not an object panics in the assertion.\<close>

definition forward_manifest :: "string \<Rightarrow> (string \<times> gany) list option \<Rightarrow> rt_error + (string \<times> gany) list" where
  "forward_manifest val manifest =
     (let m = or_zero [] manifest
      in (case any_get m ''metadata'' of
            GNull \<Rightarrow> Inr (any_put ''metadata'' (GMap [(''annotations'', GMap [(EventForwardAnnotation, GStr val)])]) m)
          | GMap meta \<Rightarrow>
              (case any_get meta ''annotations'' of
                 GNull \<Rightarrow> Inr (any_put ''metadata'' (GMap (any_put ''annotations'' (GMap [(EventForwardAnnotation, GStr val)]) meta)) m)
               | GMap a \<Rightarrow> Inr (any_put ''metadata'' (GMap (any_put ''annotations'' (GMap (any_put EventForwardAnnotation (GStr val) a)) meta)) m)
               | _ \<Rightarrow> Inl RtPanic)
          | _ \<Rightarrow> Inl (RtErr (Msg ''cannot set event forward annotations for managed object''))))"

definition forward_resource :: "string \<Rightarrow> composed_resource \<Rightarrow> rt_error + composed_resource" where
  "forward_resource val r =
     (let annotated = r\<lparr>cp_Annotations := (cp_Annotations r)(EventForwardAnnotation \<mapsto> val)\<rparr>
      in if \<not> isKubeObject r then Inr annotated
         else (case forward_manifest val (ms_Manifest (cp_Spec r)) of
                 Inl e \<Rightarrow> Inl e
               | Inr m \<Rightarrow> Inr (annotated\<lparr>cp_Spec := (cp_Spec r)\<lparr>ms_Manifest := Some m\<rparr>\<rparr>)))"

fun forward_all :: "string \<Rightarrow> string list \<Rightarrow> service_runtime \<Rightarrow> rt_error option \<times> service_runtime" where
  "forward_all val [] s = (None, s)"
| "forward_all val (k # ks) s =
     (case map_of (sr_desired s) k of
        None \<Rightarrow> forward_all val ks s
      | Some dr \<Rightarrow>
          (case forward_resource val (dc_Resource dr) of
             Inl e \<Rightarrow> (Some e, s)
           | Inr r \<Rightarrow> forward_all val ks (s\<lparr>sr_desired := any_put k (dr\<lparr>dc_Resource := r\<rparr>) (sr_desired s)\<rparr>)))"

definition ForwardEvents :: "(string list \<Rightarrow> string list) \<Rightarrow> service_runtime \<Rightarrow> rt_error option \<times> service_runtime" where
  "ForwardEvents order s =
     (case oc_ClaimRef (sr_composite s) of
        None \<Rightarrow> (None, s)
      | Some ref \<Rightarrow> forward_all (eventForwardValue ref) (order (map fst (sr_desired s))) s)"

definition provider_label :: "service_runtime \<Rightarrow> string" where
  "provider_label s = (let val = or_zero '''' (sr_Config s ''providerConfigLabel'') in if val \<noteq> '''' then val else ProviderConfigLabel)"

definition set_provider_config :: "string \<Rightarrow> string \<Rightarrow> composed_resource \<Rightarrow> composed_resource" where
  "set_provider_config label configName r =
     (if cp_Labels r ProviderConfigIgnoreLabel \<noteq> None then r
      else r\<lparr>cp_Spec := (cp_Spec r)\<lparr>ms_ProviderConfigRef := Some configName\<rparr>, cp_Labels := (cp_Labels r)(label \<mapsto> configName)\<rparr>)"

definition setProviderConfigs :: "service_runtime \<Rightarrow> service_runtime" where
  "setProviderConfigs s =
     (let label = provider_label s; configName = or_zero '''' (oc_Labels (sr_composite s) label)
      in if configName = '''' \<or> configName = ''local'' then s
         else s\<lparr>sr_desired := map (\<lambda>(k, dr). (k, dr\<lparr>dc_Resource := set_provider_config label configName (dc_Resource dr)\<rparr>)) (sr_desired s)\<rparr>)"

definition GetCrossplaneNamespace :: "service_runtime \<Rightarrow> string" where
  "GetCrossplaneNamespace s = or_zero '''' (sr_Config s ''crossplaneNamespace'')"

text \<open>One round of the loop that copies connection secrets into the instance namespace.\<close>

definition deploy_details ::
    "runtime_env \<Rightarrow> (str_map \<Rightarrow> gany) \<Rightarrow> string \<Rightarrow> service_runtime \<Rightarrow> rt_error option \<times> service_runtime" where
  "deploy_details rt as_data i s =
     (case map_of (sr_desired s) i of
        None \<Rightarrow> (None, s)
      | Some dr \<Rightarrow>
          (case ms_WriteConnectionSecret (cp_Spec (dc_Resource dr)) of
             None \<Rightarrow> (None, s)
           | Some (secretName, _) \<Rightarrow>
               (if cp_Annotations (dc_Resource dr) IgnoreConnectionDetailsAnnotation \<noteq> None then (None, s)
                else (case GetObservedComposedResourceConnectionDetails s i of
                        Inl NotFoundError \<Rightarrow> (None, s)
                      | Inl e \<Rightarrow> (Some e, s)
                      | Inr cd \<Rightarrow>
                          (case sr_instanceNamespace s of
                             Inl e \<Rightarrow> (Some (RtErr e), s)
                           | Inr ns \<Rightarrow>
                               (let secret = \<lparr>kb_Kind = ''Secret'', kb_Name = secretName, kb_Namespace = or_zero '''' ns, kb_ResourceVersion = '''',
                                      kb_UID = '''', kb_SelfLink = '''', kb_Generation = 0, kb_OwnerReferences = [], kb_Labels = Map.empty,
                                      kb_Annotations = None, kb_Body = as_data cd\<rparr>;
                                    opts = (if cp_Labels (dc_Resource dr) WebhookAllowDeletionLabel \<noteq> None then [KubeOptionAllowDeletion] else []);
                                    spec = (cp_Spec (dc_Resource dr))\<lparr>ms_WriteConnectionSecret := Some (secretName, GetCrossplaneNamespace s)\<rparr>;
                                    s = s\<lparr>sr_desired := any_put i (dr\<lparr>dc_Resource := (dc_Resource dr)\<lparr>cp_Spec := spec\<rparr>\<rparr>) (sr_desired s)\<rparr>
                                in SetDesiredKubeObject rt secret (cp_Name (dc_Resource dr) @ ''-'' @ oc_Name (sr_composite s)) opts s))))))"

fun deployConnectionDetailsToInstanceNS ::
    "runtime_env \<Rightarrow> (str_map \<Rightarrow> gany) \<Rightarrow> string list \<Rightarrow> service_runtime \<Rightarrow> rt_error option \<times> service_runtime" where
  "deployConnectionDetailsToInstanceNS rt as_data [] s = (None, s)"
| "deployConnectionDetailsToInstanceNS rt as_data (i # order) s =
     (case deploy_details rt as_data i s of
        (None, s) \<Rightarrow> deployConnectionDetailsToInstanceNS rt as_data order s
      | (Some e, s) \<Rightarrow> (Some e, s))"

section \<open>Running a function\<close>

text \<open>The kind a step works on: the claim's, without the leading X of the composite's.\<close>

definition getCleanGVK :: "service_runtime \<Rightarrow> string \<times> string \<times> string" where
  "getCleanGVK s =
     (let kind = oc_Kind (sr_composite s)
      in (oc_Group (sr_composite s), oc_Version (sr_composite s), if has_prefix kind ''X'' then drop 1 kind else kind))"

record fn_step =
  st_Name :: string
  st_Execute :: "service_runtime \<Rightarrow> fn_result option \<times> service_runtime"

text \<open>The result of a step as \<open>RunFunction\<close> reports it; nil counts as success.\<close>

definition step_result :: "string \<Rightarrow> string \<Rightarrow> fn_result option \<Rightarrow> fn_result" where
  "step_result service stepName r =
     (case r of
        None \<Rightarrow> (SeverityNormal, service @ '' step '' @ stepName @ '' result: ran successfully'')
      | Some (sev, msg) \<Rightarrow> (sev, service @ '' step '' @ stepName @ '' result: '' @ msg))"

fun run_steps :: "string \<Rightarrow> fn_step list \<Rightarrow> service_runtime \<Rightarrow> service_runtime" where
  "run_steps service [] s = s"
| "run_steps service (step # steps) s =
     (case st_Execute step s of
        (r, s) \<Rightarrow> run_steps service steps (AddResult (step_result service (st_Name step) r) s))"

record fn_response =
  fr_desired :: "(string \<times> desired_composed) list"
  fr_connectionDetails :: str_map
  fr_results :: "fn_result list"

definition GetResponse :: "(string list \<Rightarrow> string list) \<Rightarrow> service_runtime \<Rightarrow> fn_response" where
  "GetResponse order s =
     (let s = setProviderConfigs (checkReadiness order s)
      in \<lparr>fr_desired = sr_desired s, fr_connectionDetails = sr_connectionDetails s, fr_results = sr_results s\<rparr>)"

text \<open>
  \<open>RunFunction\<close> outside the proxy mode, from the runtime on. The SDK's conversions of the request and the
  response are not modelled; \<open>known\<close> says whether the scheme has the kind the steps work on.
\<close>

definition RunFunction ::
    "runtime_env \<Rightarrow> (str_map \<Rightarrow> gany) \<Rightarrow> (string list \<Rightarrow> string list) \<Rightarrow> (string \<Rightarrow> fn_step list option) \<Rightarrow>
     (string \<times> string \<times> string \<Rightarrow> bool) \<Rightarrow> service_runtime \<Rightarrow> rt_error + fn_response" where
  "RunFunction rt as_data order serviceRegistry known s =
     (case sr_Config s ''serviceName'' of
        None \<Rightarrow> Inl (RtErr (Msg ''composition function input does not contian the name of the service''))
      | Some service \<Rightarrow>
          (case serviceRegistry service of
             None \<Rightarrow> Inl (RtErr (Msg ''no function found for service''))
           | Some steps \<Rightarrow>
               (if steps \<noteq> [] \<and> \<not> known (getCleanGVK s) then Inl (RtErr (Msg ''cannot parse object for step execution''))
                else
                  (let s = run_steps service steps s
                   in (case addUsages rt (order (map fst (sr_desired s))) s of
                         (Some e, s) \<Rightarrow> Inl e
                       | (None, s) \<Rightarrow>
                      (case ForwardEvents order s of
                         (Some e, s) \<Rightarrow> Inl e
                       | (None, s) \<Rightarrow>
                      (case deployConnectionDetailsToInstanceNS rt as_data (order (map fst (sr_desired s))) s of
                         (Some e, s) \<Rightarrow> Inl e
                       | (None, s) \<Rightarrow> Inr (GetResponse order s))))))))"

section \<open>Options are kept\<close>

text \<open>What the last step of setting a resource makes of an object.\<close>

definition stored_form :: "runtime_env \<Rightarrow> service_runtime \<Rightarrow> composed_resource \<Rightarrow> composed_resource" where
  "stored_form rt s obj =
     (let obj = obj\<lparr>cp_Labels := addOwnerReferenceAnnotation s (cp_Labels obj), cp_Name := escapeK8sNames (rt_KindOf rt (cp_Kind obj)) (cp_Name obj)\<rparr>
      in obj\<lparr>cp_Spec := (cp_Spec obj)\<lparr>ms_Manifest := map_option
             (remove_metadata_field ''managedFields'' \<circ> remove_metadata_field ''creationTimestamp'') (ms_Manifest (cp_Spec obj))\<rparr>\<rparr>)"

lemma SetDesired_stores:
  assumes "SetDesiredComposedResourceWithName rt obj name [] s = (None, s')"
  shows "map_of (sr_desired s') (EscapeDNS1123 name False) =
      Some \<lparr>dc_Resource = stored_form rt s obj,
            dc_Ready = (case map_of (sr_desired s) (EscapeDNS1123 name False) of None \<Rightarrow> ReadyEmpty | Some dr \<Rightarrow> dc_Ready dr)\<rparr>"
    and "sr_kubeOptions s' = sr_kubeOptions s" and "sr_Config s' = sr_Config s" and "sr_composite s' = sr_composite s"
  using assms by (auto simp: SetDesiredComposedResourceWithName_def stored_form_def Let_def split: option.splits)

lemma stored_form_cong:
  "sr_Config s' = sr_Config s \<Longrightarrow> sr_composite s' = sr_composite s \<Longrightarrow> stored_form rt s' = stored_form rt s"
  by (simp add: fun_eq_iff stored_form_def addOwnerReferenceAnnotation_def Let_def)

text \<open>One call, with the options it has been given before.\<close>

lemma SetDesiredKubeObject_stores:
  assumes "SetDesiredKubeObjectWithName rt obj kon n opts s = (None, s')"
  shows "\<exists>kobj. putIntoObject rt s obj kon n [] = Inr kobj \<and>
      map_option dc_Resource (map_of (sr_desired s') (EscapeDNS1123 n False)) =
        Some (stored_form rt s (fold (\<lambda>opt. opt) (or_zero [] (map_of (sr_kubeOptions s) n) @ opts) kobj))"
    and "map_of (sr_kubeOptions s') n = Some (or_zero [] (map_of (sr_kubeOptions s) n) @ opts)"
    and "sr_Config s' = sr_Config s" and "sr_composite s' = sr_composite s"
proof -
  obtain kobj where k: "putIntoObject rt s obj kon n [] = Inr kobj"
    using assms by (auto simp: SetDesiredKubeObjectWithName_def split: sum.splits)
  let ?tracked = "or_zero [] (map_of (sr_kubeOptions s) n) @ opts"
  let ?s = "s\<lparr>sr_kubeOptions := any_put n ?tracked (sr_kubeOptions s)\<rparr>"
  have run: "SetDesiredComposedResourceWithName rt (fold (\<lambda>opt. opt) ?tracked kobj) n [] ?s = (None, s')"
    using assms k by (simp add: SetDesiredKubeObjectWithName_def Let_def)
  have "stored_form rt ?s = stored_form rt s" by (rule stored_form_cong) simp_all
  then show "\<exists>kobj. putIntoObject rt s obj kon n [] = Inr kobj \<and>
      map_option dc_Resource (map_of (sr_desired s') (EscapeDNS1123 n False)) =
        Some (stored_form rt s (fold (\<lambda>opt. opt) ?tracked kobj))"
    using k SetDesired_stores(1) [OF run] by simp
  show "map_of (sr_kubeOptions s') n = Some ?tracked" using SetDesired_stores(2) [OF run] by simp
  show "sr_Config s' = sr_Config s" "sr_composite s' = sr_composite s" using SetDesired_stores(3,4) [OF run] by simp_all
qed

text \<open>Several calls for one resource, as the steps of a service make them.\<close>

fun set_kube_objects ::
    "runtime_env \<Rightarrow> string \<Rightarrow> (kube_object \<times> string \<times> kube_option list) list \<Rightarrow> service_runtime \<Rightarrow> rt_error option \<times> service_runtime" where
  "set_kube_objects rt n [] s = (None, s)"
| "set_kube_objects rt n ((obj, kon, opts) # calls) s =
     (case SetDesiredKubeObjectWithName rt obj kon n opts s of
        (None, s) \<Rightarrow> set_kube_objects rt n calls s
      | (Some e, s) \<Rightarrow> (Some e, s))"

lemma set_kube_objects_append:
  assumes "set_kube_objects rt n (calls @ [(obj, kon, opts)]) s = (None, s')"
  shows "\<exists>s1. set_kube_objects rt n calls s = (None, s1) \<and> SetDesiredKubeObjectWithName rt obj kon n opts s1 = (None, s')"
  using assms by (induction rt n calls s rule: set_kube_objects.induct) (auto split: prod.splits option.splits)

lemma set_kube_objects_options:
  assumes "set_kube_objects rt n calls s = (None, s')"
  shows "or_zero [] (map_of (sr_kubeOptions s') n) =
      or_zero [] (map_of (sr_kubeOptions s) n) @ concat (map (\<lambda>(obj, kon, opts). opts) calls)"
    and "sr_Config s' = sr_Config s" and "sr_composite s' = sr_composite s"
proof -
  have "or_zero [] (map_of (sr_kubeOptions s') n) =
      or_zero [] (map_of (sr_kubeOptions s) n) @ concat (map (\<lambda>(obj, kon, opts). opts) calls) \<and>
    sr_Config s' = sr_Config s \<and> sr_composite s' = sr_composite s"
    using assms
  proof (induction calls arbitrary: s)
    case (Cons c calls)
    obtain obj kon opts where c: "c = (obj, kon, opts)" by (cases c)
    then obtain s1 where s1: "SetDesiredKubeObjectWithName rt obj kon n opts s = (None, s1)" "set_kube_objects rt n calls s1 = (None, s')"
      using Cons.prems by (auto split: prod.splits option.splits)
    show ?case using Cons.IH [OF s1(2)] SetDesiredKubeObject_stores(2-4) [OF s1(1)] by (simp add: c)
  qed simp
  then show "or_zero [] (map_of (sr_kubeOptions s') n) =
      or_zero [] (map_of (sr_kubeOptions s) n) @ concat (map (\<lambda>(obj, kon, opts). opts) calls)"
    and "sr_Config s' = sr_Config s" and "sr_composite s' = sr_composite s" by blast+
qed

text \<open>
  C20. No option of a kube object is lost when a later step sets the object again: the resource that ends up
  in the desired state is the last object with the options of every call, in the order of the calls.
\<close>

theorem kube_options_are_kept:
  assumes "map_of (sr_kubeOptions s) n = None"
    and "set_kube_objects rt n (calls @ [(obj, kon, opts)]) s = (None, s')"
  shows "\<exists>s1 kobj. putIntoObject rt s1 obj kon n [] = Inr kobj \<and>
    map_option dc_Resource (map_of (sr_desired s') (EscapeDNS1123 n False)) =
      Some (stored_form rt s (fold (\<lambda>opt. opt) (concat (map (\<lambda>(obj, kon, opts). opts) calls) @ opts) kobj))"
proof -
  obtain s1 where s1: "set_kube_objects rt n calls s = (None, s1)" "SetDesiredKubeObjectWithName rt obj kon n opts s1 = (None, s')"
    using set_kube_objects_append [OF assms(2)] by blast
  note before = set_kube_objects_options [OF s1(1)]
  have "stored_form rt s1 = stored_form rt s" using before(2,3) by (rule stored_form_cong)
  then show ?thesis using SetDesiredKubeObject_stores(1) [OF s1(2)] before(1) assms(1) by auto
qed

section \<open>Steps, readiness and protection\<close>

text \<open>Every step runs, whatever the ones before it have reported, a fatal result included.\<close>

lemma run_steps_results:
  assumes "\<And>step s r s'. step \<in> set steps \<Longrightarrow> st_Execute step s = (r, s') \<Longrightarrow> sr_results s' = sr_results s"
  shows "length (sr_results (run_steps service steps s)) = length (sr_results s) + length steps"
  using assms
proof (induction service steps s rule: run_steps.induct)
  case (2 service step steps s)
  obtain r s1 where s1: "st_Execute step s = (r, s1)" by fastforce
  have "sr_results s1 = sr_results s" using 2(2) [of step s r s1] s1 by simp
  moreover have "length (sr_results (run_steps service steps (AddResult (step_result service (st_Name step) r) s1))) =
      length (sr_results (AddResult (step_result service (st_Name step) r) s1)) + length steps"
    by (rule 2(1) [OF s1 [symmetric]]) (use 2(2) in \<open>meson list.set_intros(2)\<close>)
  ultimately show ?case using s1 by (simp add: AddResult_def)
qed simp

text \<open>A resource without any condition, or whose Ready is unknown, counts as synced and ready.\<close>

lemma no_condition_counts_as_ready:
  assumes "map_of (sr_observed s) (EscapeDNS1123 name False) = Some res"
    and "or_Status res = Inr (Some conditions)" and "\<forall>c \<in> set conditions. xc_Status c \<noteq> ''False''"
  shows "isResourceSyncedAndReady s name"
  using assms by (simp add: isResourceSyncedAndReady_def list_all_iff)

text \<open>The main resource is looked up as it is named, its dependencies under their escaped names.\<close>

lemma main_resource_not_escaped:
  assumes "map_of (sr_observed s) mainResource = None" and "\<not> areResourcesReady s dependencies"
  shows "\<not> WaitForObservedDependencies s mainResource dependencies"
  using assms by (simp add: WaitForObservedDependencies_def)

lemma removeDuplicate_set: "set (removeDuplicate xs seen) = set xs - seen \<and> distinct (removeDuplicate xs seen)"
  by (induction xs seen rule: removeDuplicate.induct) auto

text \<open>Adding a protection keeps the ones there are, and adds a name once.\<close>

lemma addProtection_names:
  assumes "cp_Annotations obj kind = Some old" and "old \<noteq> ''''" and "\<forall>r \<in> set (split_char (CHR '','') old). CHR '','' \<notin> set r"
    and "CHR '','' \<notin> set resName"
  shows "\<exists>names. cp_Annotations (addProtectionAnnotation resName kind obj) kind = Some (join_char (CHR '','') names) \<and>
    split_char (CHR '','') (join_char (CHR '','') names) = names \<and> distinct names \<and>
    set names = insert resName (set (split_char (CHR '','') old))"
proof -
  let ?names = "removeDuplicate (split_char (CHR '','') old @ [resName]) {}"
  have s: "set ?names = insert resName (set (split_char (CHR '','') old))" "distinct ?names"
    using removeDuplicate_set [of "split_char (CHR '','') old @ [resName]" "{}"] by auto
  then have "?names \<noteq> []" by auto
  moreover have "\<forall>p \<in> set ?names. CHR '','' \<notin> set p" using s assms(3,4) by auto
  ultimately show ?thesis
    using assms(1,2) s split_join_char [of ?names "CHR '',''"] by (intro exI [of _ ?names]) (simp add: addProtectionAnnotation_def Let_def)
qed

text \<open>After pruning no object holds a null, in whatever depth of objects and of lists of objects.\<close>

fun no_nulls :: "(string \<times> gany) list \<Rightarrow> bool" and no_null_value :: "gany \<Rightarrow> bool" and no_null_items :: "gany list \<Rightarrow> bool" where
  "no_nulls [] \<longleftrightarrow> True"
| "no_nulls ((k, v) # m) \<longleftrightarrow> v \<noteq> GNull \<and> no_null_value v \<and> no_nulls m"
| "no_null_value (GList l) \<longleftrightarrow> no_null_items l"
| "no_null_value (GMap m) \<longleftrightarrow> no_nulls m"
| "no_null_value _ \<longleftrightarrow> True"
| "no_null_items [] \<longleftrightarrow> True"
| "no_null_items (x # xs) \<longleftrightarrow> (case x of GMap m \<Rightarrow> no_nulls m | _ \<Rightarrow> True) \<and> no_null_items xs"

lemma pruned_no_nulls: "no_nulls (pruneNilFields m)" "no_null_value (prune_value v)" "no_null_items (prune_items xs)"
proof (induction m and v and xs rule: pruneNilFields_prune_value_prune_items.induct)
  case (2 k v m)
  moreover have "prune_value v \<noteq> GNull" if "v \<noteq> GNull" using that by (cases v) auto
  ultimately show ?case by auto
next
  case (12 x xs)
  then show ?case by (cases x) auto
qed auto

lemma prune_idem:
  "no_nulls m \<Longrightarrow> pruneNilFields m = m" "no_null_value v \<Longrightarrow> prune_value v = v" "no_null_items xs \<Longrightarrow> prune_items xs = xs"
proof (induction m and v and xs rule: pruneNilFields_prune_value_prune_items.induct)
  case (12 x xs)
  then show ?case by (cases x) auto
qed auto


text \<open>A runtime with nothing in it, and a registered kind of every object.\<close>

definition example_runtime :: service_runtime where
  "example_runtime =
     \<lparr>sr_Config = [''ownerKind'' \<mapsto> ''XVSHNRedis''], sr_desired = [], sr_connectionDetails = Map.empty, sr_results = [],
      sr_composite = \<lparr>oc_Name = ''redis-a'', oc_Labels = Map.empty, oc_ClaimRef = None, oc_Group = ''vshn.appcat.vshn.io'',
        oc_Version = ''v1'', oc_Kind = ''XVSHNRedis''\<rparr>,
      sr_observed = [], sr_requestDesired = [], sr_instanceNamespace = Inr (Some ''vshn-redis-a''), sr_kubeOptions = []\<rparr>"

definition example_resource :: composed_resource where
  "example_resource = \<lparr>cp_APIVersion = ''helm.crossplane.io/v1beta1'', cp_Kind = ''Release'', cp_Name = ''release'',
     cp_Labels = Map.empty, cp_Annotations = Map.empty, cp_Spec = empty_spec\<rparr>"

definition example_kobject :: kube_object where
  "example_kobject = \<lparr>kb_Kind = ''Secret'', kb_Name = ''creds'', kb_Namespace = ''vshn-redis-a'', kb_ResourceVersion = ''5'', kb_UID = ''u'',
     kb_SelfLink = '''', kb_Generation = 1, kb_OwnerReferences = [], kb_Labels = Map.empty, kb_Annotations = None, kb_Body = GNull\<rparr>"

definition example_runtime_env :: runtime_env where
  "example_runtime_env = \<lparr>rt_KindOf = Some, rt_From = (\<lambda>_. None), rt_ToMap = (\<lambda>obj. Inr [(''kind'', GStr (kb_Kind obj)), (''body'', kb_Body obj)]), rt_Now = ''now''\<rparr>"

lemma escape_plain: "dns1123_match False n \<Longrightarrow> length n \<le> 253 \<Longrightarrow> EscapeDNS1123 n False = n"
  by (simp add: EscapeDNS1123_def)

lemma example_set_ok: "\<exists>s'. SetDesiredKubeObjectWithName example_runtime_env obj kon n opts s = (None, s')"
  by (simp add: example_runtime_env_def SetDesiredKubeObjectWithName_def putIntoObject_def SetDesiredComposedResourceWithName_def Let_def)

text \<open>A secret that one step lets be deleted, and a later one sets again without saying so.\<close>

lemma kube_options_are_kept_witness:
  "\<exists>s'. set_kube_objects example_runtime_env ''creds'' [(example_kobject, ''creds'', [KubeOptionAllowDeletion]), (example_kobject, ''creds'', [])]
       example_runtime = (None, s') \<and>
     (\<exists>r. map_option dc_Resource (map_of (sr_desired s') ''creds'') = Some r \<and> cp_Labels r WebhookAllowDeletionLabel = Some ''true'')"
proof -
  have e: "EscapeDNS1123 ''creds'' False = ''creds''"
    by (rule escape_plain) (simp_all add: dns1123_match_def is_lower_alnum_def)
  obtain s1 where 1: "SetDesiredKubeObjectWithName example_runtime_env example_kobject ''creds'' ''creds'' [KubeOptionAllowDeletion] example_runtime = (None, s1)"
    using example_set_ok by blast
  obtain s' where 2: "SetDesiredKubeObjectWithName example_runtime_env example_kobject ''creds'' ''creds'' [] s1 = (None, s')"
    using example_set_ok by blast
  have s': "set_kube_objects example_runtime_env ''creds''
      ([(example_kobject, ''creds'', [KubeOptionAllowDeletion])] @ [(example_kobject, ''creds'', [])]) example_runtime = (None, s')"
    by (simp add: 1 2)
  from kube_options_are_kept [OF _ s'] obtain kobj where
    "map_option dc_Resource (map_of (sr_desired s') (EscapeDNS1123 ''creds'' False)) =
      Some (stored_form example_runtime_env example_runtime (KubeOptionAllowDeletion kobj))"
    by (auto simp: example_runtime_def)
  then show ?thesis using s'
    by (auto simp: e stored_form_def Let_def addOwnerReferenceAnnotation_def KubeOptionAllowDeletion_def runtime_keys)
qed

end
