(* ===== verification/EventForwarder.thy ===== *)
theory EventForwarder
  imports Runtime
begin

text \<open>
  The event forwarder, \<open>src/pkg/controller/events/event_forwarder.go\<close>: it copies warnings about the resources
  of an instance into the namespace of its claim. Which claim that is says the annotation that
  \<open>ForwardEvents\<close> of the runtime puts on every resource.
\<close>

section \<open>Data\<close>

record object_ref =
  rf_APIVersion :: string
  rf_Kind :: string
  rf_Namespace :: string
  rf_Name :: string
  rf_ResourceVersion :: string
  rf_UID :: string

record kevent =
  ke_Name :: string
  ke_Namespace :: string
  ke_InvolvedObject :: object_ref
  ke_Type :: string
  ke_Reason :: string
  ke_Message :: string
  ke_Count :: int
  ke_FirstTimestamp :: instant
  ke_LastTimestamp :: instant
  ke_ReportingController :: string
  ke_ReportingInstance :: string
  ke_Source :: string

text \<open>An object as the forwarder reads it.\<close>

record event_object =
  eo_Annotations :: str_map
  eo_ResourceVersion :: string
  eo_UID :: string

text \<open>
  The cluster: reading an event by namespace and name, an object by API version, kind, namespace and name, and
  \<open>controllerutil.CreateOrPatch\<close> with the function it calls on the object.
\<close>

record 'w event_env =
  ee_GetEvent :: "string \<times> string \<Rightarrow> 'w \<Rightarrow> (gerr + kevent) \<times> 'w"
  ee_GetObject :: "string \<Rightarrow> string \<Rightarrow> string \<Rightarrow> string \<Rightarrow> 'w \<Rightarrow> (gerr + event_object) \<times> 'w"
  ee_CreateOrPatch :: "kevent \<Rightarrow> (kevent \<Rightarrow> kevent) \<Rightarrow> 'w \<Rightarrow> gerr option \<times> 'w"

section \<open>Operations\<close>

definition new_event :: "kevent \<Rightarrow> string \<Rightarrow> string \<Rightarrow> string \<Rightarrow> string \<Rightarrow> event_object \<Rightarrow> kevent" where
  "new_event event apiVersion kind ns claimName claim =
     \<lparr>ke_Name = ke_Name event, ke_Namespace = ns,
      ke_InvolvedObject = \<lparr>rf_APIVersion = apiVersion, rf_Kind = kind, rf_Namespace = ns, rf_Name = claimName,
        rf_ResourceVersion = eo_ResourceVersion claim, rf_UID = eo_UID claim\<rparr>,
      ke_Type = '''', ke_Reason = '''', ke_Message = '''', ke_Count = 0, ke_FirstTimestamp = zero_time, ke_LastTimestamp = zero_time,
      ke_ReportingController = '''', ke_ReportingInstance = '''', ke_Source = ''''\<rparr>"

definition copy_event :: "kevent \<Rightarrow> kevent \<Rightarrow> kevent" where
  "copy_event event nev =
     nev\<lparr>ke_Count := ke_Count event, ke_FirstTimestamp := ke_FirstTimestamp event, ke_LastTimestamp := ke_LastTimestamp event,
       ke_Message := ke_Message event, ke_Reason := ke_Reason event, ke_ReportingController := ke_ReportingController event,
       ke_ReportingInstance := ke_ReportingInstance event, ke_Type := ke_Type event, ke_Source := ke_Source event\<rparr>"

text \<open>
  The annotation in its parts: API version (group and version), kind, namespace and name. Fewer than five
  parts panic in the slice access.
\<close>

definition forward_target :: "string \<Rightarrow> (string \<times> string \<times> string \<times> string) option" where
  "forward_target annotation =
     (let parts = split_char (CHR ''/'') annotation
      in if length parts < 5 then None
         else Some (parts ! 0 @ ''/'' @ parts ! 1, parts ! 2, parts ! 3, parts ! 4))"

definition forward_event :: "'w event_env \<Rightarrow> kevent \<Rightarrow> string \<Rightarrow> 'w \<Rightarrow> reconcile_result \<times> 'w" where
  "forward_event env event annotation w =
     (case forward_target annotation of
        None \<Rightarrow> (Panicked, w)
      | Some (apiVersion, kind, ns, claimName) \<Rightarrow>
          (case ee_GetObject env apiVersion kind ns claimName w of
             (Inl e, w) \<Rightarrow> (Failure e, w)
           | (Inr claim, w) \<Rightarrow>
               (case ee_CreateOrPatch env (new_event event apiVersion kind ns claimName claim) (copy_event event) w of
                  (Some e, w) \<Rightarrow> (Failure e, w)
                | (None, w) \<Rightarrow> (Done, w))))"

definition event_Reconcile :: "'w event_env \<Rightarrow> string \<times> string \<Rightarrow> 'w \<Rightarrow> reconcile_result \<times> 'w" where
  "event_Reconcile env req w =
     (case ee_GetEvent env req w of
        (Inl e, w) \<Rightarrow> (if IsNotFound e then (Done, w) else (Failure e, w))
      | (Inr event, w) \<Rightarrow>
          (let involved = ke_InvolvedObject event
           in if has_prefix (ke_Name event) ''.'' then (Done, w)
              else if rf_Kind involved = '''' \<or> rf_APIVersion involved = '''' then (Done, w)
              else (case ee_GetObject env (rf_APIVersion involved) (rf_Kind involved) (rf_Namespace involved) (rf_Name involved) w of
                      (Inl e, w) \<Rightarrow> (if IsNotFound e then (Done, w) else if is_reason Forbidden e then (Done, w) else (Failure e, w))
                    | (Inr obj, w) \<Rightarrow>
                        (let annotation = or_zero '''' (eo_Annotations obj ''appcat.vshn.io/forward-events-to'')
                         in if annotation \<noteq> '''' then forward_event env event annotation w else (Done, w)))))"

text \<open>The event filter: what the watch reports, and whether a reconcile follows. None is an object of another type.\<close>

datatype watch_event = CreateEvent "kevent option" | UpdateEvent "kevent option" | DeleteEvent "kevent option"

fun ignoreEvents :: "watch_event \<Rightarrow> bool" where
  "ignoreEvents (CreateEvent None) = False"
| "ignoreEvents (CreateEvent (Some e)) =
     (if ke_Type e = ''Normal'' then False else ke_Namespace e = ''default'' \<or> has_prefix (ke_Namespace e) ''vshn-'')"
| "ignoreEvents (UpdateEvent None) = False"
| "ignoreEvents (UpdateEvent (Some e)) =
     (if ke_Type e = ''Normal'' then False else ke_Namespace e = ''default'' \<or> has_prefix (ke_Namespace e) ''vshn-'')"
| "ignoreEvents (DeleteEvent e) = False"

section \<open>The annotation\<close>

text \<open>A reference to a claim: an API version of group and version, and no slash anywhere else.\<close>

definition claim_ref_ok :: "claim_ref \<Rightarrow> bool" where
  "claim_ref_ok ref \<longleftrightarrow>
     (case split_char (CHR ''/'') (cl_APIVersion ref) of [g, v] \<Rightarrow> True | _ \<Rightarrow> False) \<and>
     CHR ''/'' \<notin> set (cl_Kind ref) \<and> CHR ''/'' \<notin> set (cl_Namespace ref) \<and> CHR ''/'' \<notin> set (cl_Name ref)"

lemma split_char_parts: "p \<in> set (split_char c s) \<Longrightarrow> c \<notin> set p"
  by (induction s arbitrary: p) (auto split: list.splits if_splits)

lemma split_char_length: "length (split_char c s) = Suc (length (filter (\<lambda>x. x = c) s))"
proof (induction s)
  case (Cons x s)
  then show ?case by (cases "split_char c s") auto
qed simp

lemma forward_target_of_value:
  assumes "claim_ref_ok ref"
  shows "forward_target (eventForwardValue ref) = Some (cl_APIVersion ref, cl_Kind ref, cl_Namespace ref, cl_Name ref)"
proof -
  obtain g v where gv: "split_char (CHR ''/'') (cl_APIVersion ref) = [g, v]"
    using assms by (auto simp: claim_ref_ok_def split: list.splits)
  have api: "cl_APIVersion ref = g @ CHR ''/'' # v"
    using join_split_char [of "CHR ''/''" "cl_APIVersion ref"] gv by simp
  have no: "CHR ''/'' \<notin> set g" "CHR ''/'' \<notin> set v"
    using split_char_parts [of _ "CHR ''/''" "cl_APIVersion ref"] gv by auto
  have "eventForwardValue ref = g @ CHR ''/'' # v @ CHR ''/'' # cl_Kind ref @ CHR ''/'' # cl_Namespace ref @ CHR ''/'' # cl_Name ref"
    by (simp add: eventForwardValue_def api)
  then have "split_char (CHR ''/'') (eventForwardValue ref) = [g, v, cl_Kind ref, cl_Namespace ref, cl_Name ref]"
    using no assms by (simp add: claim_ref_ok_def split_char_append split_char_no_sep)
  then show ?thesis by (simp add: forward_target_def api)
qed

lemma eventForwardValue_not_empty: "eventForwardValue ref \<noteq> ''''"
  by (simp add: eventForwardValue_def)

text \<open>A claim of a kind without a group, or an annotation made by hand, is not forwarded: the controller panics.\<close>

lemma malformed_annotation_panics:
  assumes "length (filter (\<lambda>c. c = CHR ''/'') annotation) < 4"
  shows "forward_event env event annotation w = (Panicked, w)"
  using assms by (simp add: forward_event_def forward_target_def split_char_length)

text \<open>What the runtime leaves on the resources.\<close>

lemma forward_resource_annotates:
  "forward_resource val r = Inr r' \<Longrightarrow> cp_Annotations r' EventForwardAnnotation = Some val"
  by (auto simp: forward_resource_def Let_def split: if_splits sum.splits)

lemma forward_all_annotates:
  assumes "forward_all val ks s = (None, s')"
  shows "dom (map_of (sr_desired s')) = dom (map_of (sr_desired s)) \<and>
    (\<forall>k dr. map_of (sr_desired s') k = Some dr \<longrightarrow>
       (k \<in> set ks \<longrightarrow> cp_Annotations (dc_Resource dr) EventForwardAnnotation = Some val) \<and>
       (k \<notin> set ks \<longrightarrow> map_of (sr_desired s) k = Some dr))"
  using assms
proof (induction val ks s rule: forward_all.induct)
  case (2 val k ks s)
  show ?case
  proof (cases "map_of (sr_desired s) k")
    case None
    then show ?thesis using 2 by (auto simp: domIff)
  next
    case (Some dr)
    then obtain r where r: "forward_resource val (dc_Resource dr) = Inr r" using 2(3) by (auto split: sum.splits)
    let ?s = "s\<lparr>sr_desired := any_put k (dr\<lparr>dc_Resource := r\<rparr>) (sr_desired s)\<rparr>"
    have rest: "forward_all val ks ?s = (None, s')" using 2(3) Some r by simp
    have ih: "dom (map_of (sr_desired s')) = dom (map_of (sr_desired ?s)) \<and>
      (\<forall>k dr. map_of (sr_desired s') k = Some dr \<longrightarrow>
         (k \<in> set ks \<longrightarrow> cp_Annotations (dc_Resource dr) EventForwardAnnotation = Some val) \<and>
         (k \<notin> set ks \<longrightarrow> map_of (sr_desired ?s) k = Some dr))"
      by (rule 2(2) [OF Some r rest])
    have "dom (map_of (sr_desired ?s)) = dom (map_of (sr_desired s))" using Some by auto
    moreover have "(k' \<in> set (k # ks) \<longrightarrow> cp_Annotations (dc_Resource d) EventForwardAnnotation = Some val) \<and>
        (k' \<notin> set (k # ks) \<longrightarrow> map_of (sr_desired s) k' = Some d)" if "map_of (sr_desired s') k' = Some d" for k' d
      using ih [THEN conjunct2, THEN spec, THEN spec, THEN mp, OF that] forward_resource_annotates [OF r]
      by (auto split: if_splits)
    ultimately show ?thesis using ih by blast
  qed
qed simp

lemma ForwardEvents_annotates:
  assumes "ForwardEvents order s = (None, s')" and "range_order order" and "oc_ClaimRef (sr_composite s) = Some ref"
    and "map_of (sr_desired s') k = Some dr"
  shows "cp_Annotations (dc_Resource dr) EventForwardAnnotation = Some (eventForwardValue ref)"
proof -
  have f: "forward_all (eventForwardValue ref) (order (map fst (sr_desired s))) s = (None, s')"
    using assms(1,3) by (simp add: ForwardEvents_def)
  have "k \<in> dom (map_of (sr_desired s))" using forward_all_annotates [OF f] assms(4) by blast
  then have "k \<in> set (order (map fst (sr_desired s)))" using range_order_set [OF assms(2)] by (simp add: dom_map_of_conv_image_fst)
  then show ?thesis using forward_all_annotates [OF f] assms(4) by blast
qed

text \<open>
  C21. The annotation the runtime writes is read back by the controller as the same claim: an event on any
  resource of the desired state is looked up at the claim's API version, kind, namespace and name, and a copy
  of it, about that claim, is created or patched in the claim's namespace.
\<close>

theorem events_reach_the_claim:
  assumes "ForwardEvents order s = (None, s')" and "range_order order" and "oc_ClaimRef (sr_composite s) = Some ref"
    and "claim_ref_ok ref" and "map_of (sr_desired s') k = Some dr"
    and "ee_GetEvent env req w = (Inr event, w1)" and "\<not> has_prefix (ke_Name event) ''.''"
    and "ke_InvolvedObject event = involved" and "rf_Kind involved \<noteq> ''''" and "rf_APIVersion involved \<noteq> ''''"
    and "ee_GetObject env (rf_APIVersion involved) (rf_Kind involved) (rf_Namespace involved) (rf_Name involved) w1 = (Inr obj, w2)"
    and "eo_Annotations obj = cp_Annotations (dc_Resource dr)"
    and "ee_GetObject env (cl_APIVersion ref) (cl_Kind ref) (cl_Namespace ref) (cl_Name ref) w2 = (Inr claim, w3)"
  shows "event_Reconcile env req w =
    (case ee_CreateOrPatch env (new_event event (cl_APIVersion ref) (cl_Kind ref) (cl_Namespace ref) (cl_Name ref) claim)
            (copy_event event) w3 of
       (None, w4) \<Rightarrow> (Done, w4) | (Some e, w4) \<Rightarrow> (Failure e, w4))"
proof -
  have a: "eo_Annotations obj ''appcat.vshn.io/forward-events-to'' = Some (eventForwardValue ref)"
    using ForwardEvents_annotates [OF assms(1-3,5)] assms(12) by (simp add: EventForwardAnnotation_def)
  have "event_Reconcile env req w = forward_event env event (eventForwardValue ref) w2"
    using assms(6-11) a by (simp add: event_Reconcile_def eventForwardValue_not_empty)
  then show ?thesis
    using assms(13) forward_target_of_value [OF assms(4)] by (simp add: forward_event_def split: prod.splits option.splits)
qed


text \<open>A cluster with one warning about one Helm release, one claim, and a store of the copies.\<close>

definition example_warning :: kevent where
  "example_warning = \<lparr>ke_Name = ''pod.1'', ke_Namespace = ''vshn-redis-a'',
     ke_InvolvedObject = \<lparr>rf_APIVersion = ''v1'', rf_Kind = ''Pod'', rf_Namespace = ''vshn-redis-a'', rf_Name = ''pod'',
       rf_ResourceVersion = ''1'', rf_UID = ''u''\<rparr>,
     ke_Type = ''Warning'', ke_Reason = ''BackOff'', ke_Message = ''back-off'', ke_Count = 3, ke_FirstTimestamp = 0, ke_LastTimestamp = 9,
     ke_ReportingController = ''kubelet'', ke_ReportingInstance = '''', ke_Source = ''''\<rparr>"

definition example_claim_ref :: claim_ref where
  "example_claim_ref = \<lparr>cl_APIVersion = ''v.ch/v1'', cl_Kind = ''VSHNRedis'', cl_Namespace = ''app'', cl_Name = ''cache''\<rparr>"

definition example_event_env :: "kevent option event_env" where
  "example_event_env =
     \<lparr>ee_GetEvent = (\<lambda>_ w. (Inr example_warning, w)),
      ee_GetObject = (\<lambda>api kind ns name w.
        (Inr \<lparr>eo_Annotations = (if kind = ''Pod'' then [EventForwardAnnotation \<mapsto> eventForwardValue example_claim_ref] else Map.empty),
           eo_ResourceVersion = ''7'', eo_UID = ''c''\<rparr>, w)),
      ee_CreateOrPatch = (\<lambda>nev f w. (None, Some (f (case w of None \<Rightarrow> nev | Some old \<Rightarrow> old))))\<rparr>"

definition example_forward_runtime :: service_runtime where
  "example_forward_runtime = example_runtime\<lparr>
     sr_composite := (sr_composite example_runtime)\<lparr>oc_ClaimRef := Some example_claim_ref\<rparr>,
     sr_desired := [(''release'', \<lparr>dc_Resource = example_resource, dc_Ready = ReadyEmpty\<rparr>)]\<rparr>"

lemma events_reach_the_claim_witness:
  "\<exists>nev. event_Reconcile example_event_env (''vshn-redis-a'', ''pod.1'') None = (Done, Some nev) \<and>
     ke_Namespace nev = ''app'' \<and> rf_Name (ke_InvolvedObject nev) = ''cache'' \<and> ke_Message nev = ''back-off''"
proof -
  let ?dr = "\<lparr>dc_Resource = example_resource\<lparr>cp_Annotations := [EventForwardAnnotation \<mapsto> eventForwardValue example_claim_ref]\<rparr>,
    dc_Ready = ReadyEmpty\<rparr>"
  have f: "ForwardEvents id example_forward_runtime = (None, example_forward_runtime\<lparr>sr_desired := [(''release'', ?dr)]\<rparr>)"
    by (simp add: ForwardEvents_def example_forward_runtime_def forward_resource_def isKubeObject_def example_resource_def)
  let ?obj = "\<lparr>eo_Annotations = [EventForwardAnnotation \<mapsto> eventForwardValue example_claim_ref], eo_ResourceVersion = ''7'', eo_UID = ''c''\<rparr>"
  let ?claim = "\<lparr>eo_Annotations = Map.empty, eo_ResourceVersion = ''7'', eo_UID = ''c''\<rparr>"
  have "event_Reconcile example_event_env (''vshn-redis-a'', ''pod.1'') None =
    (case ee_CreateOrPatch example_event_env (new_event example_warning (cl_APIVersion example_claim_ref) (cl_Kind example_claim_ref)
             (cl_Namespace example_claim_ref) (cl_Name example_claim_ref) ?claim) (copy_event example_warning) None of
       (None, w4) \<Rightarrow> (Done, w4) | (Some e, w4) \<Rightarrow> (Failure e, w4))"
  proof (rule events_reach_the_claim [OF f range_order_id(1), where k = "''release''" and dr = ?dr and obj = ?obj and ?w2.0 = None
        and ?w1.0 = None and event = example_warning and involved = "ke_InvolvedObject example_warning"])
    show "oc_ClaimRef (sr_composite example_forward_runtime) = Some example_claim_ref" by (simp add: example_forward_runtime_def)
    show "claim_ref_ok example_claim_ref" by (simp add: example_claim_ref_def claim_ref_ok_def)
  qed (simp_all add: example_event_env_def example_warning_def example_claim_ref_def has_prefix_def)
  then show ?thesis by (simp add: example_event_env_def new_event_def copy_event_def example_warning_def example_claim_ref_def)
qed

end
