(* ===== verification/GarageCleanup.thy ===== *)
theory GarageCleanup
  imports Prelude
begin

text \<open>
  The cleanup of Garage buckets, \<open>src/pkg/controller/garagebucket/cleanup_controller.go\<close>: a bucket that is
  marked for deletion is emptied through the S3 API. The S3 client, the URL parser and the cluster are
  parameters. The channel between listing and removing is the list of what goes through it.
\<close>

section \<open>Data\<close>

record garage_bucket =
  gb_Name :: string
  gb_Namespace :: string
  gb_DeletionTimestamp :: "instant option"
  gb_Object :: "(string \<times> gany) list"

text \<open>An entry of a listing; a failure of the listing itself is an entry with an error.\<close>

record object_info =
  oi_Name :: string
  oi_Err :: "gerr option"

record s3_client =
  s3_Host :: string
  s3_AccessKey :: string
  s3_SecretKey :: string
  s3_Secure :: bool

record 'w garage_env =
  ge_GetBucket :: "string \<times> string \<Rightarrow> 'w \<Rightarrow> (gerr + garage_bucket) \<times> 'w"
  ge_GetInstanceNamespace :: "string \<Rightarrow> string \<Rightarrow> 'w \<Rightarrow> (gerr + string) \<times> 'w"
  ge_GetSecretData :: "string \<Rightarrow> string \<Rightarrow> 'w \<Rightarrow> (gerr + (string \<Rightarrow> string option)) \<times> 'w"
  ge_NestedString :: "(string \<times> gany) list \<Rightarrow> string list \<Rightarrow> gerr + string option"
  ge_ParseURL :: "string \<Rightarrow> gerr + string \<times> string"
  ge_NewS3 :: "s3_client \<Rightarrow> gerr option"
  ge_ListObjects :: "s3_client \<Rightarrow> string \<Rightarrow> 'w \<Rightarrow> object_info list \<times> 'w"
  ge_RemoveObjects :: "s3_client \<Rightarrow> string \<Rightarrow> string list \<Rightarrow> 'w \<Rightarrow> (string \<times> gerr) list \<times> 'w"

text \<open>A plain error, or the joined ones of a removal.\<close>

datatype cleanup_error = CleanupErr gerr | RemoveErrs "gerr list"

definition adminCredentialsSecret :: string where "adminCredentialsSecret = ''admin-s3-credentials''"

section \<open>Operations\<close>

text \<open>The events of the watch that lead to a reconcile: the deletion timestamps of the object, old and new.\<close>

datatype bucket_event = BucketCreated "instant option" | BucketUpdated "instant option" "instant option" | BucketDeleted | BucketGeneric

fun inDeletion :: "bucket_event \<Rightarrow> bool" where
  "inDeletion (BucketCreated t) = (t \<noteq> None)"
| "inDeletion (BucketUpdated t_old t_new) = (let oldDel = t_old \<noteq> None; newDel = t_new \<noteq> None in \<not> oldDel \<and> newDel)"
| "inDeletion BucketDeleted = False"
| "inDeletion BucketGeneric = False"

text \<open>The filter in front of the removal: the names up to the first error, and that error.\<close>

fun filter_listing :: "object_info list \<Rightarrow> string list \<times> gerr option" where
  "filter_listing [] = ([], None)"
| "filter_listing (obj # objs) =
     (case oi_Err obj of
        Some e \<Rightarrow> ([], Some (Wrapped ''error listing objects in bucket'' e))
      | None \<Rightarrow> (case filter_listing objs of (names, e) \<Rightarrow> (oi_Name obj # names, e)))"

text \<open>Listing, filtering and removing, up to the joined errors.\<close>

definition remove_listed :: "'w garage_env \<Rightarrow> s3_client \<Rightarrow> string \<Rightarrow> 'w \<Rightarrow> cleanup_error option \<times> 'w" where
  "remove_listed env c bucketName w =
     (let (listing, w) = ge_ListObjects env c bucketName w;
          (names, listErr) = filter_listing listing;
          (removeErrors, w) = ge_RemoveObjects env c bucketName names w;
          errs = map (\<lambda>(name, e). Wrapped ''cannot remove object'' e) removeErrors;
          errs = (case listErr of None \<Rightarrow> errs | Some e \<Rightarrow> errs @ [e])
      in (if errs \<noteq> [] then Some (RemoveErrs errs) else None, w))"

definition emptyBucket ::
    "'w garage_env \<Rightarrow> (string \<Rightarrow> string option) \<Rightarrow> string \<Rightarrow> 'w \<Rightarrow> cleanup_error option \<times> 'w" where
  "emptyBucket env secret bucketName w =
     (if list_ex (\<lambda>key. or_zero '''' (secret key) = '''') [''endpoint'', ''access-key-id'', ''secret-access-key'']
      then (Some (CleanupErr (Msg ''admin credentials secret missing required key'')), w)
      else
        (let endpoint = or_zero '''' (secret ''endpoint''); accessKeyID = or_zero '''' (secret ''access-key-id'');
             secretAccessKey = or_zero '''' (secret ''secret-access-key'')
         in (case ge_ParseURL env endpoint of
               Inl e \<Rightarrow> (Some (CleanupErr (Wrapped ''cannot parse endpoint'' e)), w)
             | Inr (scheme, host) \<Rightarrow>
                 (if host = '''' then (Some (CleanupErr (Msg ''endpoint is invalid: missing host'')), w)
                  else
                    (let c = \<lparr>s3_Host = host, s3_AccessKey = accessKeyID, s3_SecretKey = secretAccessKey, s3_Secure = (scheme = ''https'')\<rparr>
                     in (case ge_NewS3 env c of
                           Some e \<Rightarrow> (Some (CleanupErr (Wrapped ''cannot create S3 client'' e)), w)
                         | None \<Rightarrow>
                             remove_listed env c bucketName w))))))"

definition bucket_Reconcile :: "'w garage_env \<Rightarrow> string \<times> string \<Rightarrow> 'w \<Rightarrow> cleanup_error option \<times> 'w" where
  "bucket_Reconcile env req w =
     (case ge_GetBucket env req w of
        (Inl e, w) \<Rightarrow> (if IsNotFound e then (None, w) else (Some (CleanupErr e), w))
      | (Inr garageBucket, w) \<Rightarrow>
          (if gb_DeletionTimestamp garageBucket = None then (None, w)
           else
             (case ge_NestedString env (gb_Object garageBucket) [''spec'', ''clusterRef'', ''name''] of
                Inl e \<Rightarrow> (Some (CleanupErr (Wrapped ''cannot read spec.clusterRef.name from GarageBucket'' e)), w)
              | Inr clusterRefName \<Rightarrow>
                  (if or_zero '''' clusterRefName = '''' then (Some (CleanupErr (Msg ''GarageBucket has no spec.clusterRef.name'')), w)
                   else (case ge_GetInstanceNamespace env (gb_Namespace garageBucket) (or_zero '''' clusterRefName) w of
                           (Inl e, w) \<Rightarrow> (Some (CleanupErr (Wrapped ''cannot get VSHNGarage'' e)), w)
                         | (Inr instanceNamespace, w) \<Rightarrow>
                        (case ge_GetSecretData env instanceNamespace adminCredentialsSecret w of
                           (Inl e, w) \<Rightarrow> (Some (CleanupErr (Wrapped ''cannot get admin credentials secret'' e)), w)
                         | (Inr adminSecret, w) \<Rightarrow> emptyBucket env adminSecret (gb_Name garageBucket) w))))))"

section \<open>A cleanup that reports success has emptied the bucket\<close>

text \<open>
  What the S3 API documents, on a view \<open>objects\<close> of the world: a listing without an error names every object
  of the bucket and changes nothing, and after a removal each object it was given is gone or reported, no
  new object having appeared.
\<close>

definition s3_laws :: "('w \<Rightarrow> string \<Rightarrow> string set) \<Rightarrow> 'w garage_env \<Rightarrow> bool" where
  "s3_laws objects env \<longleftrightarrow>
     (\<forall>c b w listing w'. ge_ListObjects env c b w = (listing, w') \<longrightarrow> objects w' = objects w \<and>
        ((\<forall>i \<in> set listing. oi_Err i = None) \<longrightarrow> objects w b \<subseteq> oi_Name ` set listing)) \<and>
     (\<forall>c b names w errs w'. ge_RemoveObjects env c b names w = (errs, w') \<longrightarrow>
        objects w' b \<subseteq> (objects w b - set names) \<union> fst ` set errs)"

lemma filter_listing_ok:
  "filter_listing listing = (names, None) \<Longrightarrow> (\<forall>i \<in> set listing. oi_Err i = None) \<and> set names = oi_Name ` set listing"
  by (induction listing arbitrary: names) (auto split: option.splits prod.splits)

lemma emptyBucket_empties:
  assumes "s3_laws objects env" and "emptyBucket env secret bucketName w = (None, w')"
  shows "objects w' bucketName = {}"
proof -
  obtain c listing w1 names where run: "ge_ListObjects env c bucketName w = (listing, w1)" "filter_listing listing = (names, None)"
      "ge_RemoveObjects env c bucketName names w1 = ([], w')"
    using assms(2) by (auto simp: emptyBucket_def remove_listed_def Let_def split: if_splits sum.splits option.splits prod.splits)
  note l = filter_listing_ok [OF run(2)]
  have "objects w1 bucketName \<subseteq> set names" using assms(1) run(1) l by (fastforce simp: s3_laws_def)
  moreover have "objects w' bucketName \<subseteq> objects w1 bucketName - set names"
    using assms(1) run(3) unfolding s3_laws_def by (metis (no_types, lifting) Un_empty_right empty_set image_empty)
  ultimately show ?thesis by blast
qed

text \<open>
  C22. A reconcile of a bucket in deletion that ends without an error leaves the bucket empty; without a
  deletion timestamp no object is touched.
\<close>

theorem cleanup_empties_bucket:
  assumes "s3_laws objects env" and "ge_GetBucket env req w = (Inr garageBucket, w1)" and "bucket_Reconcile env req w = (None, w')"
  shows "if gb_DeletionTimestamp garageBucket = None then w' = w1 else objects w' (gb_Name garageBucket) = {}"
  using assms emptyBucket_empties [OF assms(1)]
  by (auto simp: bucket_Reconcile_def split: if_splits sum.splits prod.splits)

text \<open>A listing that breaks off is an error, although what it named before is removed.\<close>

lemma broken_listing_fails:
  assumes "filter_listing (fst (ge_ListObjects env c bucketName w)) = (names, Some e)"
  shows "\<exists>errs w'. remove_listed env c bucketName w = (Some (RemoveErrs (errs @ [e])), w')"
  using assms by (auto simp: remove_listed_def Let_def split: prod.splits)

text \<open>A bucket with two objects, and a store that removes what it is told to.\<close>

definition example_garage_env :: "string list garage_env" where
  "example_garage_env =
     \<lparr>ge_GetBucket = (\<lambda>(ns, name) w. (Inr \<lparr>gb_Name = name, gb_Namespace = ns, gb_DeletionTimestamp = Some 5, gb_Object = [(''spec'', GNull)]\<rparr>, w)),
      ge_GetInstanceNamespace = (\<lambda>ns name w. (Inr ''vshn-garage'', w)),
      ge_GetSecretData = (\<lambda>ns name w. (Inr [''endpoint'' \<mapsto> ''https://s3'', ''access-key-id'' \<mapsto> ''a'', ''secret-access-key'' \<mapsto> ''b''], w)),
      ge_NestedString = (\<lambda>m path. Inr (Some ''garage'')),
      ge_ParseURL = (\<lambda>u. Inr (''https'', ''s3'')),
      ge_NewS3 = (\<lambda>c. None),
      ge_ListObjects = (\<lambda>c b w. (map (\<lambda>n. \<lparr>oi_Name = n, oi_Err = None\<rparr>) w, w)),
      ge_RemoveObjects = (\<lambda>c b names w. ([], filter (\<lambda>n. n \<notin> set names) w))\<rparr>"

lemma example_s3_laws: "s3_laws (\<lambda>w b. set w) example_garage_env"
  by (auto simp: s3_laws_def example_garage_env_def image_image)

lemma example_cleanup_run: "bucket_Reconcile example_garage_env (''app'', ''files'') [''x'', ''y''] = (None, [])"
  by (simp add: bucket_Reconcile_def emptyBucket_def remove_listed_def example_garage_env_def)

lemma cleanup_empties_bucket_witness:
  "\<exists>w'. bucket_Reconcile example_garage_env (''app'', ''files'') [''x'', ''y''] = (None, w') \<and> set w' = {}"
proof -
  let ?b = "\<lparr>gb_Name = ''files'', gb_Namespace = ''app'', gb_DeletionTimestamp = Some 5, gb_Object = [(''spec'', GNull)]\<rparr>"
  have "if gb_DeletionTimestamp ?b = None then ([] :: string list) = [''x'', ''y''] else set ([] :: string list) = {}"
    by (rule cleanup_empties_bucket [OF example_s3_laws _ example_cleanup_run, where garageBucket = ?b])
      (simp add: example_garage_env_def)
  then show ?thesis using example_cleanup_run by simp
qed

end
