(* ===== verification/Schedule.thy ===== *)
theory Schedule
  imports ServiceMaintenance
begin

text \<open>
  When maintenance and backups run: \<open>TimeOfDay\<close> and the weekdays of \<open>src/apis/vshn/v1/common_types.go\<close>,
  \<open>src/pkg/comp-functions/functions/common/schedule.go\<close> and \<open>SetCustomMaintenanceSchedule\<close> of \<open>postgresql.go\<close>. A
  point in time is the seconds since 1970, of which the code only uses the time of day; what the random
  generator gives is an argument.
\<close>

section \<open>Time of day\<close>

definition seconds_per_day :: int where "seconds_per_day = 86400"

definition clock_hour :: "int \<Rightarrow> nat" where "clock_hour t = nat (t mod seconds_per_day div 3600)"
definition clock_minute :: "int \<Rightarrow> nat" where "clock_minute t = nat (t mod 3600 div 60)"
definition clock_second :: "int \<Rightarrow> nat" where "clock_second t = nat (t mod 60)"

text \<open>\<open>Format(time.TimeOnly)\<close>, that is \<open>15:04:05\<close>.\<close>

definition format_tod :: "int \<Rightarrow> string" where
  "format_tod t = two_digits (clock_hour t) @ '':'' @ two_digits (clock_minute t) @ '':'' @ two_digits (clock_second t)"

text \<open>\<open>time.Parse(time.TimeOnly, s)\<close> as nanoseconds of the day; a fraction of the second is accepted.\<close>

definition parse_tod :: "string \<Rightarrow> int option" where
  "parse_tod s =
     (case getnum False s of None \<Rightarrow> None | Some (h, s) \<Rightarrow>
      (case Option.bind (skip_char (CHR '':'') s) (getnum True) of None \<Rightarrow> None | Some (mi, s) \<Rightarrow>
      (case Option.bind (skip_char (CHR '':'') s) (getnum True) of None \<Rightarrow> None | Some (sec, s) \<Rightarrow>
        (let (ns, s) = get_fraction s
         in if s = '''' \<and> h < 24 \<and> mi < 60 \<and> sec < 60 then Some (int (h * 3600 + mi * 60 + sec) * second + int ns) else None))))"

text \<open>\<open>GetTime\<close>, which is midnight for what does not parse.\<close>

definition tod_GetTime :: "string \<Rightarrow> int" where
  "tod_GetTime a = or_zero 0 (parse_tod a)"

definition tod_IsSet :: "string \<Rightarrow> bool" where
  "tod_IsSet a = (a \<noteq> '''')"

text \<open>\<open>AddDuration\<close>: the time of day, and by how many days the date has moved.\<close>

definition AddDuration :: "string \<Rightarrow> duration \<Rightarrow> string \<times> int" where
  "AddDuration a d =
     (let end_time = tod_GetTime a + d
      in (format_tod (end_time div second), end_time div (24 * hour)))"

definition weekdays :: "string list" where
  "weekdays = [''sunday'', ''monday'', ''tuesday'', ''wednesday'', ''thursday'', ''friday'', ''saturday'']"

fun weekday_loop :: "(nat \<times> string) list \<Rightarrow> string \<Rightarrow> int \<Rightarrow> string" where
  "weekday_loop [] weekday days = weekday"
| "weekday_loop ((i, d) # ds) weekday days =
     (if d = weekday then weekdays ! nat ((int i + days) mod 7) else weekday_loop ds weekday days)"

definition AddDaysToWeekday :: "string \<Rightarrow> int \<Rightarrow> string" where
  "AddDaysToWeekday weekday days = weekday_loop (enumerate 0 weekdays) weekday days"

section \<open>Random schedules\<close>

text \<open>A composite with schedules: what the user has set and what the status has.\<close>

record scheduled =
  sd_SpecDay :: string
  sd_SpecTime :: string
  sd_StatusDay :: string
  sd_StatusTime :: string
  sd_SpecBackup :: string
  sd_StatusBackup :: string
  sd_BackupEnabled :: bool

definition GetMaintenanceDayOfWeek :: "scheduled \<Rightarrow> string" where
  "GetMaintenanceDayOfWeek v = (if sd_SpecDay v \<noteq> '''' then sd_SpecDay v else sd_StatusDay v)"

definition GetMaintenanceTimeOfDay :: "scheduled \<Rightarrow> string" where
  "GetMaintenanceTimeOfDay v = (if sd_SpecTime v \<noteq> '''' then sd_SpecTime v else sd_StatusTime v)"

definition GetBackupSchedule :: "scheduled \<Rightarrow> string" where
  "GetBackupSchedule v = (if sd_SpecBackup v \<noteq> '''' then sd_SpecBackup v else sd_StatusBackup v)"

definition availableDays :: "string list" where
  "availableDays = [''sunday'', ''monday'', ''tuesday'', ''wednesday'', ''thursday'', ''friday'']"

text \<open>The three draws: \<open>Intn(6)\<close>, \<open>Int63n(28800)\<close> and \<open>Int63n(10799)\<close>.\<close>

definition random_maintenance :: "nat \<Rightarrow> int \<Rightarrow> int \<Rightarrow> string \<times> int" where
  "random_maintenance n r1 r2 =
     (let selectedDay = availableDays ! n; maintTime = 21 * 3600 + r1
      in if selectedDay = ''sunday'' \<and> clock_hour maintTime < 21 then (selectedDay, 21 * 3600 + r2) else (selectedDay, maintTime))"

text \<open>The pointer to the time of day is one into the status when the time is not set.\<close>

definition SetRandomMaintenanceSchedule :: "nat \<Rightarrow> int \<Rightarrow> int \<Rightarrow> scheduled \<Rightarrow> int \<times> scheduled" where
  "SetRandomMaintenanceSchedule n r1 r2 v =
     (let (selectedDay, maintTime) = random_maintenance n r1 r2;
          v = (if \<not> tod_IsSet (GetMaintenanceTimeOfDay v) then v\<lparr>sd_StatusTime := format_tod maintTime\<rparr> else v);
          dayOfWeek = (if GetMaintenanceDayOfWeek v = '''' then selectedDay else GetMaintenanceDayOfWeek v);
          v = v\<lparr>sd_StatusDay := dayOfWeek\<rparr>;
          v = v\<lparr>sd_StatusTime := GetMaintenanceTimeOfDay v\<rparr>
      in (maintTime, v))"

definition cron_at :: "int \<Rightarrow> string" where
  "cron_at t = itoa (int (clock_minute t)) @ '' '' @ itoa (int (clock_hour t)) @ '' * * *''"

definition SetRandomBackupSchedule :: "int \<Rightarrow> int option \<Rightarrow> scheduled \<Rightarrow> scheduled" where
  "SetRandomBackupSchedule r maintenanceTime v =
     (if \<not> sd_BackupEnabled v then (if GetBackupSchedule v \<noteq> '''' then v\<lparr>sd_StatusBackup := ''''\<rparr> else v)
      else if GetBackupSchedule v \<noteq> '''' then v\<lparr>sd_StatusBackup := GetBackupSchedule v\<rparr>
      else
        (let backupTime = (case maintenanceTime of Some m \<Rightarrow> m - 3600 | None \<Rightarrow> 20 * 3600 + r)
         in v\<lparr>sd_StatusBackup := cron_at backupTime\<rparr>))"

text \<open>The two calls as the services make them.\<close>

definition random_schedules :: "nat \<Rightarrow> int \<Rightarrow> int \<Rightarrow> int \<Rightarrow> scheduled \<Rightarrow> scheduled" where
  "random_schedules n r1 r2 r v =
     (case SetRandomMaintenanceSchedule n r1 r2 v of (maintTime, v) \<Rightarrow> SetRandomBackupSchedule r (Some maintTime) v)"

text \<open>The offset of the maintenance of a nested PostgreSQL: time and weekday, which it overrides only when the date moves.\<close>

definition SetCustomMaintenanceSchedule :: "string \<times> string \<Rightarrow> duration \<Rightarrow> string \<times> string" where
  "SetCustomMaintenanceSchedule parent d =
     (case AddDuration (snd parent) d of (newTime, dayOffset) \<Rightarrow>
        (if dayOffset \<noteq> 0 then AddDaysToWeekday (fst parent) dayOffset else '''', newTime))"

section \<open>Cron\<close>

definition dayOfWeekMap :: "string \<Rightarrow> int option" where
  "dayOfWeekMap = map_of [(''monday'', 1), (''tuesday'', 2), (''wednesday'', 3), (''thursday'', 4), (''friday'', 5), (''saturday'', 6), (''sunday'', 0)]"

text \<open>The expression \<open>(\d+):(\d+):.*\<close>, at one place and at the first place where it matches.\<close>

definition time_here :: "string \<Rightarrow> (string \<times> string) option" where
  "time_here s =
     (let a = takeWhile is_digit s; s = dropWhile is_digit s
      in if a = '''' then None
         else (case skip_char (CHR '':'') s of
                 None \<Rightarrow> None
               | Some s \<Rightarrow>
                   (let b = takeWhile is_digit s; s = dropWhile is_digit s
                    in if b = '''' \<or> skip_char (CHR '':'') s = None then None else Some (a, b))))"

fun find_time :: "string \<Rightarrow> (string \<times> string) option" where
  "find_time [] = None"
| "find_time (c # s) = (case time_here (c # s) of Some p \<Rightarrow> Some p | None \<Rightarrow> find_time s)"

definition parseCron :: "string \<Rightarrow> string \<Rightarrow> gerr + string" where
  "parseCron dayOfWeek timeOfDay =
     (if dayOfWeek = '''' \<or> timeOfDay = '''' then Inr ''''
      else (case find_time timeOfDay of
              None \<Rightarrow> Inl (Msg ''not a valid time string'')
            | Some (hours, minutes) \<Rightarrow>
                Inr (minutes @ '' '' @ hours @ '' * * '' @ itoa (or_zero 0 (dayOfWeekMap dayOfWeek)))))"

section \<open>Lemmas on the clock\<close>

lemma clock_bounds: "clock_hour t < 24" "clock_minute t < 60" "clock_second t < 60"
  by (simp_all add: clock_hour_def clock_minute_def clock_second_def seconds_per_day_def)

lemma clock_sum: "int (clock_hour t * 3600 + clock_minute t * 60 + clock_second t) = t mod seconds_per_day"
proof -
  let ?m = "t mod 86400"
  have m: "t mod 3600 = ?m mod 3600" "t mod 60 = ?m mod 3600 mod 60" by (simp_all add: mod_mod_cancel)
  have n: "0 \<le> ?m" "0 \<le> ?m mod 3600" "0 \<le> ?m mod 3600 mod 60" by simp_all
  have "?m div 3600 * 3600 + ?m mod 3600 = ?m" "?m mod 3600 div 60 * 60 + ?m mod 3600 mod 60 = ?m mod 3600"
    by (rule div_mult_mod_eq)+
  then show ?thesis
    using n by (simp add: clock_hour_def clock_minute_def clock_second_def seconds_per_day_def m pos_imp_zdiv_nonneg_iff)
qed

lemma parse_format_tod: "parse_tod (format_tod t) = Some (t mod seconds_per_day * second)"
proof -
  have b: "clock_hour t < 100" "clock_minute t < 100" "clock_second t < 100" using clock_bounds [of t] by simp_all
  have f: "get_fraction '''' = (0, '''')" by (simp add: get_fraction_def)
  have g: "getnum True (two_digits (clock_second t)) = Some (clock_second t, '''')"
    using getnum_two_digits [OF b(3), of True "''''"] by simp
  show ?thesis
    using clock_bounds [of t] clock_sum [of t] b
    by (simp add: parse_tod_def format_tod_def getnum_two_digits f g)
qed

lemma format_tod_not_empty: "format_tod t \<noteq> ''''"
  by (simp add: format_tod_def two_digits_def)

lemma format_tod_mod: "format_tod (t mod seconds_per_day) = format_tod t"
proof -
  have "t mod 86400 mod 3600 = t mod 3600" "t mod 86400 mod 60 = t mod 60" by (simp_all add: mod_mod_cancel)
  then show ?thesis by (simp add: format_tod_def clock_hour_def clock_minute_def clock_second_def seconds_per_day_def)
qed


section \<open>The random schedule\<close>

text \<open>The maintenance starts between 21:00 and 5:00, and on a Sunday before midnight.\<close>

definition in_window :: "string \<Rightarrow> int \<Rightarrow> bool" where
  "in_window day t = (day \<in> set availableDays \<and> 21 * 3600 \<le> t \<and> t < 29 * 3600 \<and> (day = ''sunday'' \<longrightarrow> t < 24 * 3600))"

text \<open>What the three draws can be.\<close>

definition draws_ok :: "nat \<Rightarrow> int \<Rightarrow> int \<Rightarrow> bool" where
  "draws_ok n r1 r2 = (n < 6 \<and> 0 \<le> r1 \<and> r1 < 28800 \<and> 0 \<le> r2 \<and> r2 < 10799)"

lemma clock_hour_evening: "21 * 3600 \<le> t \<Longrightarrow> t < 24 * 3600 \<Longrightarrow> 21 \<le> clock_hour t"
  by (simp add: clock_hour_def seconds_per_day_def)

lemma clock_hour_night: "24 * 3600 \<le> t \<Longrightarrow> t < 29 * 3600 \<Longrightarrow> clock_hour t < 5"
proof -
  assume t: "24 * 3600 \<le> t" "t < 29 * 3600"
  have "t mod 86400 = (t - 86400) mod 86400" by simp
  also have "\<dots> = t - 86400" using t by (intro mod_pos_pos_trivial) simp_all
  finally have m: "t mod 86400 = t - 86400" .
  have "(t - 86400) div 3600 < 5" using t by (simp add: div_less_iff_less_mult)
  then show ?thesis using t by (simp add: clock_hour_def seconds_per_day_def m nat_less_iff)
qed

lemma random_maintenance_in_window:
  assumes "draws_ok n r1 r2"
  shows "in_window (fst (random_maintenance n r1 r2)) (snd (random_maintenance n r1 r2))"
proof -
  have n: "availableDays ! n \<in> set availableDays" using assms by (intro nth_mem) (simp add: draws_ok_def availableDays_def)
  show ?thesis
  proof (cases "availableDays ! n = ''sunday'' \<and> clock_hour (21 * 3600 + r1) < 21")
    case True
    then show ?thesis using assms n by (simp add: random_maintenance_def Let_def in_window_def draws_ok_def)
  next
    case False
    have "21 * 3600 + r1 < 24 * 3600" if "availableDays ! n = ''sunday''"
    proof (rule ccontr)
      assume "\<not> 21 * 3600 + r1 < 24 * 3600"
      then have "clock_hour (21 * 3600 + r1) < 5" using assms by (intro clock_hour_night) (simp_all add: draws_ok_def)
      then show False using False that by simp
    qed
    then show ?thesis using False assms n by (auto simp: random_maintenance_def Let_def in_window_def draws_ok_def)
  qed
qed

lemma in_window_hours:
  assumes "in_window day t"
  shows "day \<noteq> ''saturday''" "day \<noteq> ''''" "21 \<le> clock_hour t \<or> clock_hour t < 5" "day = ''sunday'' \<Longrightarrow> 21 \<le> clock_hour t"
proof -
  have d: "day \<in> set availableDays" "21 * 3600 \<le> t" "t < 29 * 3600" "day = ''sunday'' \<Longrightarrow> t < 24 * 3600"
    using assms by (simp_all add: in_window_def)
  show "day \<noteq> ''saturday''" "day \<noteq> ''''" using d(1) by (auto simp: availableDays_def)
  show "21 \<le> clock_hour t \<or> clock_hour t < 5"
    using clock_hour_evening [OF d(2)] clock_hour_night [OF _ d(3)] by linarith
  show "21 \<le> clock_hour t" if "day = ''sunday''" using clock_hour_evening [OF d(2) d(4) [OF that]] .
qed

text \<open>What the status has once both schedules are set.\<close>

lemma random_schedules_maintenance:
  "GetMaintenanceDayOfWeek v = '''' \<Longrightarrow> \<not> tod_IsSet (GetMaintenanceTimeOfDay v) \<Longrightarrow>
   sd_StatusDay (random_schedules n r1 r2 r v) = fst (random_maintenance n r1 r2)
   \<and> sd_StatusTime (random_schedules n r1 r2 r v) = format_tod (snd (random_maintenance n r1 r2))"
  by (cases "random_maintenance n r1 r2")
    (auto simp: random_schedules_def SetRandomMaintenanceSchedule_def SetRandomBackupSchedule_def Let_def tod_IsSet_def
      GetMaintenanceDayOfWeek_def GetMaintenanceTimeOfDay_def split: if_splits)


lemma find_time_format:
  "find_time (format_tod t) = Some (two_digits (clock_hour t), two_digits (clock_minute t))"
proof -
  have d: "clock_hour t div 10 < 10" "clock_hour t mod 10 < 10" "clock_minute t div 10 < 10" "clock_minute t mod 10 < 10"
    using clock_bounds [of t] by (simp_all add: less_mult_imp_div_less)
  have c: "\<not> is_digit (CHR '':'')" by (simp add: is_digit_def digit_val_def)
  have "time_here (format_tod t) = Some (two_digits (clock_hour t), two_digits (clock_minute t))"
    using digit_of_char [OF d(1)] digit_of_char [OF d(2)] digit_of_char [OF d(3)] digit_of_char [OF d(4)]
    by (simp add: time_here_def format_tod_def two_digits_def skip_char_def c Let_def)
  then show ?thesis by (cases "format_tod t") (simp_all add: format_tod_def two_digits_def)
qed

lemma parseCron_format:
  "day \<noteq> '''' \<Longrightarrow> parseCron day (format_tod t) =
     Inr (two_digits (clock_minute t) @ '' '' @ two_digits (clock_hour t) @ '' * * '' @ itoa (or_zero 0 (dayOfWeekMap day)))"
  using format_tod_not_empty [of t] by (simp add: parseCron_def find_time_format)

lemma available_days_numbered:
  "day \<in> set availableDays \<Longrightarrow> \<exists>d. dayOfWeekMap day = Some d \<and> 0 \<le> d \<and> d \<le> 5 \<and> (d = 0 \<longleftrightarrow> day = ''sunday'')"
  by (auto simp: availableDays_def dayOfWeekMap_def)

text \<open>
  C23. An instance whose user has set neither day nor time is maintained in the window the operators expect:
  whatever is drawn, the cron expression of its maintenance job is for a minute and an hour from 21:00 to 5:00,
  never on a Saturday, and on a Sunday not before 21:00.
\<close>

theorem fresh_maintenance_in_window:
  assumes "draws_ok n r1 r2" "GetMaintenanceDayOfWeek v = ''''" "\<not> tod_IsSet (GetMaintenanceTimeOfDay v)"
    "v' = random_schedules n r1 r2 r v"
  shows "\<exists>d h m. parseCron (sd_StatusDay v') (sd_StatusTime v') = Inr (two_digits m @ '' '' @ two_digits h @ '' * * '' @ itoa d)
    \<and> m < 60 \<and> (21 \<le> h \<and> h < 24 \<or> h < 5) \<and> 0 \<le> d \<and> d \<le> 5 \<and> (d = 0 \<longrightarrow> 21 \<le> h)"
proof -
  obtain day t where dt: "random_maintenance n r1 r2 = (day, t)" by fastforce
  have w: "in_window day t" using random_maintenance_in_window [OF assms(1)] dt by simp
  have v': "sd_StatusDay v' = day" "sd_StatusTime v' = format_tod t"
    using random_schedules_maintenance [OF assms(2, 3), of n r1 r2 r] dt assms(4) by simp_all
  obtain d where d: "dayOfWeekMap day = Some d" "0 \<le> d" "d \<le> 5" "d = 0 \<longleftrightarrow> day = ''sunday''"
    using available_days_numbered w by (auto simp: in_window_def)
  have "parseCron day (format_tod t) = Inr (two_digits (clock_minute t) @ '' '' @ two_digits (clock_hour t) @ '' * * '' @ itoa d)"
    using parseCron_format [OF in_window_hours(2) [OF w]] d(1) by (simp add: or_zero_def)
  then show ?thesis
    using clock_bounds [of t] in_window_hours(3, 4) [OF w] d(2-4) v' by metis
qed

definition example_scheduled :: scheduled where
  "example_scheduled = \<lparr>sd_SpecDay = '''', sd_SpecTime = '''', sd_StatusDay = '''', sd_StatusTime = '''',
     sd_SpecBackup = '''', sd_StatusBackup = '''', sd_BackupEnabled = True\<rparr>"

theorem fresh_maintenance_in_window_witness:
  "\<exists>d h m. parseCron (sd_StatusDay (random_schedules 0 11000 500 0 example_scheduled)) (sd_StatusTime (random_schedules 0 11000 500 0 example_scheduled))
      = Inr (two_digits m @ '' '' @ two_digits h @ '' * * '' @ itoa d)
    \<and> m < 60 \<and> (21 \<le> h \<and> h < 24 \<or> h < 5) \<and> 0 \<le> d \<and> d \<le> 5 \<and> (d = 0 \<longrightarrow> 21 \<le> h)"
  by (rule fresh_maintenance_in_window [where n = 0 and ?r1.0 = 11000 and ?r2.0 = 500 and r = 0 and v = example_scheduled, OF _ _ _ refl])
    (simp_all add: draws_ok_def example_scheduled_def GetMaintenanceDayOfWeek_def GetMaintenanceTimeOfDay_def tod_IsSet_def)

section \<open>A schedule once set is kept\<close>

lemma cron_at_not_empty: "cron_at t \<noteq> ''''"
  by (simp add: cron_at_def)

lemma random_maintenance_day: "n < 6 \<Longrightarrow> fst (random_maintenance n r1 r2) \<noteq> ''''"
proof -
  assume "n < 6"
  then have "availableDays ! n \<in> set availableDays" by (intro nth_mem) (simp add: availableDays_def)
  then have "availableDays ! n \<noteq> ''''" by (auto simp: availableDays_def)
  then show ?thesis by (simp add: random_maintenance_def Let_def)
qed

text \<open>The status says what the getters give, and the backup schedule is there when backups are enabled.\<close>

definition settled :: "scheduled \<Rightarrow> bool" where
  "settled v = (sd_StatusDay v \<noteq> '''' \<and> sd_StatusTime v \<noteq> '''' \<and> sd_StatusDay v = GetMaintenanceDayOfWeek v
     \<and> sd_StatusTime v = GetMaintenanceTimeOfDay v
     \<and> (if sd_BackupEnabled v then sd_StatusBackup v \<noteq> '''' \<and> sd_StatusBackup v = GetBackupSchedule v
        else sd_StatusBackup v = ''''))"

lemma SetRandomMaintenanceSchedule_eq:
  assumes "random_maintenance n r1 r2 = (day, t)"
  shows "SetRandomMaintenanceSchedule n r1 r2 v =
    (t, v\<lparr>sd_StatusDay := (if GetMaintenanceDayOfWeek v = '''' then day else GetMaintenanceDayOfWeek v),
         sd_StatusTime := (if GetMaintenanceTimeOfDay v = '''' then format_tod t else GetMaintenanceTimeOfDay v)\<rparr>)"
  using assms
  by (cases "GetMaintenanceTimeOfDay v = ''''")
    (auto simp: SetRandomMaintenanceSchedule_def Let_def tod_IsSet_def GetMaintenanceTimeOfDay_def GetMaintenanceDayOfWeek_def split: if_splits)

lemma SetRandomBackupSchedule_settles:
  fixes v q t defines "u \<equiv> SetRandomBackupSchedule q (Some t) v"
  shows "sd_StatusDay u = sd_StatusDay v" "sd_StatusTime u = sd_StatusTime v"
    "sd_SpecDay u = sd_SpecDay v" "sd_SpecTime u = sd_SpecTime v"
    "if sd_BackupEnabled u then sd_StatusBackup u \<noteq> '''' \<and> sd_StatusBackup u = GetBackupSchedule u else sd_StatusBackup u = ''''"
  unfolding u_def by (simp_all add: SetRandomBackupSchedule_def GetBackupSchedule_def Let_def cron_at_not_empty)

lemma random_schedules_settles:
  assumes "n < 6"
  shows "settled (random_schedules n r1 r2 r v)"
proof -
  obtain day t where dt: "random_maintenance n r1 r2 = (day, t)" by fastforce
  have "day \<noteq> ''''" using random_maintenance_day [OF assms, of r1 r2] dt by simp
  define D where "D = (if GetMaintenanceDayOfWeek v = '''' then day else GetMaintenanceDayOfWeek v)"
  define T where "T = (if GetMaintenanceTimeOfDay v = '''' then format_tod t else GetMaintenanceTimeOfDay v)"
  have ne: "D \<noteq> ''''" "T \<noteq> ''''" using \<open>day \<noteq> ''''\<close> by (simp_all add: D_def T_def format_tod_not_empty)
  have spec: "sd_SpecDay v \<noteq> '''' \<Longrightarrow> sd_SpecDay v = D" "sd_SpecTime v \<noteq> '''' \<Longrightarrow> sd_SpecTime v = T"
    by (simp_all add: D_def T_def GetMaintenanceDayOfWeek_def GetMaintenanceTimeOfDay_def)
  define u where "u = SetRandomBackupSchedule r (Some t) (v\<lparr>sd_StatusDay := D, sd_StatusTime := T\<rparr>)"
  have "random_schedules n r1 r2 r v = u"
    by (simp only: random_schedules_def SetRandomMaintenanceSchedule_eq [OF dt] u_def D_def T_def prod.case)
  moreover have f: "sd_StatusDay u = D" "sd_StatusTime u = T" "sd_SpecDay u = sd_SpecDay v" "sd_SpecTime u = sd_SpecTime v"
    by (simp_all add: u_def SetRandomBackupSchedule_settles)
  moreover have "if sd_BackupEnabled u then sd_StatusBackup u \<noteq> '''' \<and> sd_StatusBackup u = GetBackupSchedule u else sd_StatusBackup u = ''''"
    unfolding u_def by (rule SetRandomBackupSchedule_settles(5))
  ultimately show ?thesis
    using ne spec by (auto simp: settled_def GetMaintenanceDayOfWeek_def GetMaintenanceTimeOfDay_def)
qed

lemma settled_kept:
  assumes "settled v"
  shows "random_schedules m q1 q2 q v = v"
proof -
  obtain day t where dt: "random_maintenance m q1 q2 = (day, t)" by fastforce
  have day: "GetMaintenanceDayOfWeek v \<noteq> ''''" and time: "tod_IsSet (GetMaintenanceTimeOfDay v)"
    using assms by (auto simp: settled_def tod_IsSet_def)
  have k: "v\<lparr>sd_StatusDay := GetMaintenanceDayOfWeek v, sd_StatusTime := GetMaintenanceTimeOfDay v\<rparr> = v"
    using assms by (cases v) (simp add: settled_def)
  have "GetMaintenanceTimeOfDay (v\<lparr>sd_StatusDay := GetMaintenanceDayOfWeek v\<rparr>) = GetMaintenanceTimeOfDay v"
    by (simp add: GetMaintenanceTimeOfDay_def)
  then have "SetRandomMaintenanceSchedule m q1 q2 v = (t, v)"
    using day time k by (simp add: SetRandomMaintenanceSchedule_def Let_def dt)
  moreover have "SetRandomBackupSchedule q (Some t) v = v"
    using assms by (cases v) (simp add: SetRandomBackupSchedule_def settled_def split: if_splits)
  ultimately show ?thesis by (simp add: random_schedules_def)
qed

text \<open>
  The composition function draws anew in every run, and still the schedules of an instance do not move:
  after one run, any other run with any other draws leaves day, time and backup schedule of the status as they are.
\<close>

theorem schedules_are_stable:
  assumes "n < 6"
  shows "random_schedules m q1 q2 q (random_schedules n r1 r2 r v) = random_schedules n r1 r2 r v"
  by (rule settled_kept [OF random_schedules_settles [OF assms]])

theorem schedules_are_stable_witness:
  "random_schedules 3 5 5 5 (random_schedules 0 11000 500 0 example_scheduled) = random_schedules 0 11000 500 0 example_scheduled"
  by (rule schedules_are_stable) simp


section \<open>The schedule of a nested instance\<close>

definition seconds_per_week :: int where "seconds_per_week = 7 * seconds_per_day"

text \<open>The second of the week, counted from Sunday 0:00, at which a schedule starts.\<close>

fun day_index :: "string list \<Rightarrow> string \<Rightarrow> int" where
  "day_index [] day = 0"
| "day_index (d # ds) day = (if d = day then 0 else 1 + day_index ds day)"

definition week_moment :: "string \<Rightarrow> string \<Rightarrow> int" where
  "week_moment day t = day_index weekdays day * seconds_per_day + tod_GetTime t div second"

lemma weekday_loop_index:
  "day \<in> set ds \<Longrightarrow> weekday_loop (enumerate n ds) day k = weekdays ! nat ((int n + day_index ds day + k) mod 7)"
proof (induction ds arbitrary: n)
  case (Cons d ds)
  show ?case
  proof (cases "d = day")
    case False
    have "weekday_loop (enumerate n (d # ds)) day k = weekday_loop (enumerate (Suc n) ds) day k" using False by simp
    also have "\<dots> = weekdays ! nat ((int (Suc n) + day_index ds day + k) mod 7)" using False Cons.prems by (intro Cons.IH) simp
    also have "int (Suc n) + day_index ds day = int n + day_index (d # ds) day" using False by simp
    finally show ?thesis .
  qed simp
qed simp

lemma AddDaysToWeekday_index:
  assumes "day \<in> set weekdays"
  shows "AddDaysToWeekday day k = weekdays ! nat ((day_index weekdays day + k) mod 7)"
  using weekday_loop_index [OF assms, of 0 k] by (simp add: AddDaysToWeekday_def)

lemma day_index_nth: "0 \<le> j \<Longrightarrow> j < 7 \<Longrightarrow> day_index weekdays (weekdays ! nat j) = j"
proof -
  assume "0 \<le> j" "j < 7"
  then have "j \<in> {0, 1, 2, 3, 4, 5, 6}" by auto
  then show ?thesis by (auto simp: weekdays_def)
qed

lemma nth_weekdays: "j < 7 \<Longrightarrow> weekdays ! j \<in> set weekdays"
  by (intro nth_mem) (simp add: weekdays_def)

lemma nth_day_index: "day \<in> set weekdays \<Longrightarrow> weekdays ! nat (day_index weekdays day) = day"
  by (auto simp: weekdays_def)

lemma day_index_bounds: "day \<in> set weekdays \<Longrightarrow> 0 \<le> day_index weekdays day \<and> day_index weekdays day < 7"
  by (auto simp: weekdays_def)

lemma mod_mult_shift: "(x mod n * d + r) mod (n * d) = (x * d + r) mod (n * d :: int)"
proof -
  have "x * d + r = (x div n * n + x mod n) * d + r" by (simp only: div_mult_mod_eq)
  also have "\<dots> = x mod n * d + r + x div n * (n * d)" by (simp only: distrib_left distrib_right ac_simps)
  finally have "x * d + r = x mod n * d + r + x div n * (n * d)" .
  then show ?thesis by (simp only: mod_mult_self1)
qed

lemma tod_GetTime_format: "tod_GetTime (format_tod t) = t mod seconds_per_day * second"
  by (simp add: tod_GetTime_def parse_format_tod or_zero_def)

lemma AddDuration_seconds:
  assumes "tod_GetTime a = s * second"
  shows "AddDuration a (k * second) = (format_tod (s + k), (s + k) div seconds_per_day)"
proof -
  have e: "tod_GetTime a + k * second = (s + k) * second" by (simp add: assms algebra_simps)
  have "second \<noteq> 0" "24 * hour = seconds_per_day * second" by (simp_all add: duration_defs seconds_per_day_def)
  then show ?thesis by (simp add: AddDuration_def e Let_def)
qed

text \<open>
  Moving a maintenance schedule moves the moment in the week, and nothing else: whatever the offset, also
  backwards and over midnight or the end of the week, the day and time that a nested PostgreSQL gets are those of its
  parent plus the offset. The day is only overridden when the date changes.
\<close>

theorem custom_schedule_shifts_week:
  assumes "day \<in> set weekdays" "tod_GetTime t = s * second"
    "SetCustomMaintenanceSchedule (day, t) (k * second) = (override, t')"
    "day' = (if override = '''' then day else override)"
  shows "day' \<in> set weekdays \<and> week_moment day' t' mod seconds_per_week = (week_moment day t + k) mod seconds_per_week"
proof -
  let ?i = "day_index weekdays day" and ?off = "(s + k) div seconds_per_day"
  have second: "second \<noteq> 0" by (simp add: duration_defs)
  have t': "t' = format_tod (s + k)" and ov: "override = (if ?off \<noteq> 0 then AddDaysToWeekday day ?off else '''')"
    using assms(3) by (auto simp: SetCustomMaintenanceSchedule_def AddDuration_seconds [OF assms(2)])
  have i: "0 \<le> ?i" "?i < 7" using day_index_bounds [OF assms(1)] by simp_all
  have m: "0 \<le> (?i + ?off) mod 7" "(?i + ?off) mod 7 < 7" by simp_all
  have mem: "weekdays ! nat ((?i + ?off) mod 7) \<in> set weekdays" by (rule nth_weekdays) (use m in linarith)
  have ne: "'''' \<notin> set weekdays" by (simp add: weekdays_def)
  have day': "day' = weekdays ! nat ((?i + ?off) mod 7)"
  proof (cases "?off = 0")
    case True
    then show ?thesis using nth_day_index [OF assms(1)] assms(4) ov i by simp
  next
    case False
    then have "override = weekdays ! nat ((?i + ?off) mod 7)" using ov AddDaysToWeekday_index [OF assms(1)] by simp
    then show ?thesis using mem ne assms(4) by auto
  qed
  have "week_moment day' t' = (?i + ?off) mod 7 * seconds_per_day + (s + k) mod seconds_per_day"
    unfolding week_moment_def day' t' by (simp add: day_index_nth [OF m] tod_GetTime_format second)
  also have "\<dots> mod seconds_per_week = ((?i + ?off) * seconds_per_day + (s + k) mod seconds_per_day) mod seconds_per_week"
    unfolding seconds_per_week_def by (rule mod_mult_shift)
  also have "(?i + ?off) * seconds_per_day + (s + k) mod seconds_per_day = ?i * seconds_per_day + (?off * seconds_per_day + (s + k) mod seconds_per_day)"
    by (simp add: distrib_right)
  also have "\<dots> = ?i * seconds_per_day + (s + k)" by (simp only: div_mult_mod_eq)
  also have "\<dots> = week_moment day t + k" by (simp add: week_moment_def assms(2) second)
  finally show ?thesis using mem day' by simp
qed

theorem custom_schedule_shifts_week_witness:
  "''saturday'' \<in> set weekdays \<and> week_moment ''saturday'' ''23:30:00'' mod seconds_per_week = (week_moment ''sunday'' ''00:30:00'' + -3600) mod seconds_per_week"
proof (rule custom_schedule_shifts_week [where day = "''sunday''" and t = "''00:30:00''" and s = 1800 and k = "-3600" and override = "''saturday''"])
  show "''sunday'' \<in> set weekdays" by (simp add: weekdays_def)
  show "tod_GetTime ''00:30:00'' = 1800 * second" by code_simp
  show "SetCustomMaintenanceSchedule (''sunday'', ''00:30:00'') (-3600 * second) = (''saturday'', ''23:30:00'')" by code_simp
qed simp

section \<open>The backup schedule\<close>

text \<open>
  The backup schedule that is drawn is an hour before the maintenance time that is drawn, whether or not that
  time is the one of the instance: a user who has set the time of the maintenance gets a backup that has
  nothing to do with it.
\<close>

theorem drawn_backup_ignores_set_time:
  assumes "sd_BackupEnabled v" "GetBackupSchedule v = ''''"
  shows "sd_StatusBackup (random_schedules n r1 r2 r v) = cron_at (snd (random_maintenance n r1 r2) - 3600)
    \<and> sd_StatusTime (random_schedules n r1 r2 r v)
      = (if GetMaintenanceTimeOfDay v = '''' then format_tod (snd (random_maintenance n r1 r2)) else GetMaintenanceTimeOfDay v)"
proof -
  obtain day t where dt: "random_maintenance n r1 r2 = (day, t)" by fastforce
  show ?thesis
    using assms by (simp add: random_schedules_def SetRandomMaintenanceSchedule_eq [OF dt] dt SetRandomBackupSchedule_def GetBackupSchedule_def Let_def split: if_splits)
qed

text \<open>The maintenance is at 2:00, the backup at 22:00.\<close>

theorem drawn_backup_ignores_set_time_witness:
  "sd_StatusBackup (random_schedules 1 7200 0 0 (example_scheduled\<lparr>sd_SpecTime := ''02:00:00''\<rparr>)) = ''0 22 * * *''
   \<and> sd_StatusTime (random_schedules 1 7200 0 0 (example_scheduled\<lparr>sd_SpecTime := ''02:00:00''\<rparr>)) = ''02:00:00''"
proof -
  have "snd (random_maintenance 1 7200 0) = 82800" "cron_at (82800 - 3600) = ''0 22 * * *''" by code_simp+
  then show ?thesis
    using drawn_backup_ignores_set_time [of "example_scheduled\<lparr>sd_SpecTime := ''02:00:00''\<rparr>" 1 7200 0 0]
    by (simp add: example_scheduled_def GetBackupSchedule_def GetMaintenanceTimeOfDay_def)
qed

end
