(* ===== verification/Step_Frame.thy ===== *)
theory Step_Frame
  imports Runtime
begin

text \<open>
  What a step of a composition function can change: the relation \<open>touches\<close> between the runtime before and
  after, its rules for the operations of the runtime, and that a resource is desired once it has been set.
  The theories of the steps compose their frames from these.
\<close>

named_theorems step_frames

definition touches :: "string set \<Rightarrow> service_runtime \<Rightarrow> service_runtime \<Rightarrow> bool" where
  "touches K s s' \<longleftrightarrow>
     (\<forall>k. k \<notin> K \<longrightarrow> map_of (sr_desired s') k = map_of (sr_desired s) k) \<and>
     (\<forall>k. map_of (sr_desired s) k \<noteq> None \<longrightarrow> map_of (sr_desired s') k \<noteq> None) \<and>
     sr_observed s' = sr_observed s \<and> sr_Config s' = sr_Config s \<and> sr_composite s' = sr_composite s \<and>
     sr_connectionDetails s' = sr_connectionDetails s \<and> sr_instanceNamespace s' = sr_instanceNamespace s"

lemma touchesD:
  assumes "touches K s s'"
  shows "k \<notin> K \<Longrightarrow> map_of (sr_desired s') k = map_of (sr_desired s) k"
    and "map_of (sr_desired s) k \<noteq> None \<Longrightarrow> map_of (sr_desired s') k \<noteq> None"
    and "sr_observed s' = sr_observed s" and "sr_Config s' = sr_Config s" and "sr_composite s' = sr_composite s"
    and "sr_connectionDetails s' = sr_connectionDetails s" and "sr_instanceNamespace s' = sr_instanceNamespace s"
  using assms by (auto simp: touches_def)

lemma touches_refl [simp, intro]: "touches K s s"
  by (simp add: touches_def)

lemma touches_trans [trans]: "touches K s s1 \<Longrightarrow> touches K s1 s2 \<Longrightarrow> touches K s s2"
  by (auto simp: touches_def)

lemma touches_mono: "touches K s s' \<Longrightarrow> K \<subseteq> L \<Longrightarrow> touches L s s'"
  by (auto simp: touches_def)

lemma touches_Un: "touches K s s1 \<Longrightarrow> touches L s1 s2 \<Longrightarrow> touches (K \<union> L) s s2"
  by (auto simp: touches_def)

lemma touches_result [step_frames]: "touches K s (AddResult r s)"
  by (simp add: touches_def AddResult_def)

lemma touches_options [step_frames]: "touches K s (s\<lparr>sr_kubeOptions := opts\<rparr>)"
  by (simp add: touches_def)

lemma touches_readiness: "n \<in> K \<Longrightarrow> touches K s (SetDesiredResourceReadiness n r s)"
  by (auto simp: touches_def SetDesiredResourceReadiness_def split: option.splits)

lemma touches_composed:
  "EscapeDNS1123 name False \<in> K \<Longrightarrow> touches K s (snd (SetDesiredComposedResourceWithName rt obj name opts s))"
  by (auto simp: touches_def SetDesiredComposedResourceWithName_def Let_def split: option.splits)

lemma touches_composed_own:
  "EscapeDNS1123 (cp_Name obj) False \<in> K \<Longrightarrow> touches K s (snd (SetDesiredComposedResource rt obj opts s))"
  unfolding SetDesiredComposedResource_def by (rule touches_composed)

lemma touches_kube_named:
  assumes "EscapeDNS1123 n False \<in> K"
  shows "touches K s (snd (SetDesiredKubeObjectWithName rt obj kon n opts s))"
proof (cases "putIntoObject rt s obj kon n []")
  case (Inr kobj)
  let ?t = "or_zero [] (map_of (sr_kubeOptions s) n) @ opts"
  have "touches K (s\<lparr>sr_kubeOptions := any_put n ?t (sr_kubeOptions s)\<rparr>)
      (snd (SetDesiredComposedResourceWithName rt (fold (\<lambda>opt. opt) ?t kobj) n [] (s\<lparr>sr_kubeOptions := any_put n ?t (sr_kubeOptions s)\<rparr>)))"
    by (rule touches_composed [OF assms])
  from touches_trans [OF touches_options this] show ?thesis by (simp add: SetDesiredKubeObjectWithName_def Inr Let_def)
qed (simp add: SetDesiredKubeObjectWithName_def)

lemma touches_kube:
  "EscapeDNS1123 n False \<in> K \<Longrightarrow> touches K s (snd (SetDesiredKubeObject rt obj n opts s))"
  unfolding SetDesiredKubeObject_def by (rule touches_kube_named)

text \<open>The same rules for a call whose result has a name.\<close>

lemma touches_composedD: "SetDesiredComposedResource rt obj opts s = (r, s') \<Longrightarrow> touches {EscapeDNS1123 (cp_Name obj) False} s s'"
  using touches_composed_own [of obj "{EscapeDNS1123 (cp_Name obj) False}" s rt opts] by simp

lemma touches_kubeD: "SetDesiredKubeObject rt obj n opts s = (r, s') \<Longrightarrow> touches {EscapeDNS1123 n False} s s'"
  using touches_kube [of n "{EscapeDNS1123 n False}" s rt obj opts] by simp

lemma touches_kube_namedD: "SetDesiredKubeObjectWithName rt obj kon n opts s = (r, s') \<Longrightarrow> touches {EscapeDNS1123 n False} s s'"
  using touches_kube_named [of n "{EscapeDNS1123 n False}" s rt obj kon opts] by simp

text \<open>A call, then what follows an error and what follows success.\<close>

lemma touches_then:
  assumes "touches K s (snd r)"
    and "\<And>s1. touches K s s1 \<Longrightarrow> touches K s (snd (g s1))"
    and "\<And>e s1. touches K s s1 \<Longrightarrow> touches K s (snd (h e s1))"
  shows "touches K s (snd (case r of (x, s1) \<Rightarrow> (case x of None \<Rightarrow> g s1 | Some e \<Rightarrow> h e s1)))"
  using assms by (cases r; cases "fst r") auto

text \<open>What has been set is desired.\<close>

definition is_desired :: "service_runtime \<Rightarrow> string \<Rightarrow> bool" where
  "is_desired s n \<longleftrightarrow> map_of (sr_desired s) (EscapeDNS1123 n False) \<noteq> None"

lemma kube_is_desired: "SetDesiredKubeObject rt obj n opts s = (None, s') \<Longrightarrow> is_desired s' n"
  using SetDesiredKubeObject_stores(1) [of rt obj n n opts s s'] by (auto simp: SetDesiredKubeObject_def is_desired_def)

lemma composed_is_desired: "SetDesiredComposedResource rt obj opts s = (None, s') \<Longrightarrow> is_desired s' (cp_Name obj)"
  by (auto simp: SetDesiredComposedResource_def SetDesiredComposedResourceWithName_def is_desired_def Let_def split: option.splits)

lemma still_desired: "touches K s s' \<Longrightarrow> is_desired s n \<Longrightarrow> is_desired s' n"
  by (auto simp: is_desired_def dest: touchesD(2))

lemma not_desired: "touches K s s' \<Longrightarrow> EscapeDNS1123 n False \<notin> K \<Longrightarrow> is_desired s' n = is_desired s n"
  by (simp add: is_desired_def touchesD(1))

end
