(* ===== verification/MaintenanceCron.thy ===== *)
theory MaintenanceCron
  imports Schedule Step_Frame Semver
begin

text \<open>
  The maintenance job of an instance, \<open>src/pkg/comp-functions/functions/common/maintenance/maintenance.go\<close>:
  the cron job, the job that runs once after provisioning, their permissions, and the version a release may
  get. An object to be deployed is its kind, name, namespace and, as JSON, the rest the code sets.
\<close>

section \<open>Times in RFC 3339\<close>

definition format_rfc3339 :: "utc_time \<Rightarrow> string" where
  "format_rfc3339 t = two_digits (ut_year t div 100) @ two_digits (ut_year t mod 100) @ ''-'' @ two_digits (ut_month t) @ ''-'' @
     two_digits (ut_day t) @ ''T'' @ two_digits (ut_hour t) @ '':'' @ two_digits (ut_minute t) @ '':'' @
     two_digits (ut_second t) @ ''Z''"

text \<open>The zone of a time, in seconds east of UTC.\<close>

definition parse_zone :: "string \<Rightarrow> int option" where
  "parse_zone s =
     (case s of
        [] \<Rightarrow> None
      | c # r \<Rightarrow>
          (if s = ''Z'' then Some 0
           else if c \<noteq> CHR ''+'' \<and> c \<noteq> CHR ''-'' then None
           else (case getnum True r of None \<Rightarrow> None | Some (h, r) \<Rightarrow>
                (case Option.bind (skip_char (CHR '':'') r) (getnum True) of None \<Rightarrow> None | Some (m, r) \<Rightarrow>
                  (if r \<noteq> [] \<or> 24 < h \<or> 60 < m then None
                   else Some ((if c = CHR ''-'' then -1 else 1) * int (h * 3600 + m * 60)))))))"

text \<open>Days since 1 March of year 0 give the seconds since 1970.\<close>

definition days_before_year :: "nat \<Rightarrow> int" where
  "days_before_year y = int (365 * y + (y + 3) div 4 + (y + 399) div 400) - int ((y + 99) div 100)"

definition unix_seconds :: "utc_time \<Rightarrow> int" where
  "unix_seconds t =
     (days_before_year (ut_year t) - days_before_year 1970 +
      int (sum_list (map (\<lambda>m. days_in m (ut_year t)) [1..<ut_month t]) + ut_day t) - 1) * 86400 +
     int (ut_hour t * 3600 + ut_minute t * 60 + ut_second t)"

definition unix_nano :: "utc_time \<Rightarrow> instant" where
  "unix_nano t = unix_seconds t * second + int (ut_nanosecond t)"

definition parse_rfc3339 :: "string \<Rightarrow> instant option" where
  "parse_rfc3339 s =
     (case get_year s of None \<Rightarrow> None | Some (y, s) \<Rightarrow>
      (case Option.bind (skip_char (CHR ''-'') s) (getnum True) of None \<Rightarrow> None | Some (mo, s) \<Rightarrow>
      (case Option.bind (skip_char (CHR ''-'') s) (getnum True) of None \<Rightarrow> None | Some (d, s) \<Rightarrow>
      (case Option.bind (skip_char (CHR ''T'') s) (getnum False) of None \<Rightarrow> None | Some (h, s) \<Rightarrow>
      (case Option.bind (skip_char (CHR '':'') s) (getnum True) of None \<Rightarrow> None | Some (mi, s) \<Rightarrow>
      (case Option.bind (skip_char (CHR '':'') s) (getnum True) of None \<Rightarrow> None | Some (sec, s) \<Rightarrow>
        (let (ns, s) = get_fraction s;
             t = \<lparr>ut_year = y, ut_month = mo, ut_day = d, ut_hour = h, ut_minute = mi, ut_second = sec, ut_nanosecond = ns\<rparr>
         in if \<not> valid_time t then None else map_option (\<lambda>z. unix_nano t - z * second) (parse_zone s))))))))"

section \<open>The builder\<close>

record maint =
  mt_instanceNamespace :: string
  mt_mainRole :: string
  mt_additionalClusterRoleBinding :: string
  mt_service :: string
  mt_helmBasedService :: bool
  mt_Name :: string
  mt_ResourceLabels :: str_map
  mt_DayOfWeek :: string
  mt_TimeOfDay :: string
  mt_PinImageTag :: string
  mt_DisableAppcatRelease :: bool
  mt_policyRules :: gany
  mt_extraEnvs :: "(string \<times> string) list"
  mt_extraResources :: "(string \<times> kube_object \<times> string list) list"
  mt_extraKubeOptions :: "kube_option list"

definition WithPolicyRules :: "gany \<Rightarrow> maint \<Rightarrow> maint" where
  "WithPolicyRules policyRules m = m\<lparr>mt_policyRules := policyRules\<rparr>"

definition WithHelmBasedService :: "maint \<Rightarrow> maint" where
  "WithHelmBasedService m =
     m\<lparr>mt_helmBasedService := True, mt_extraKubeOptions := mt_extraKubeOptions m @ [KubeOptionDeployOnControlPlane]\<rparr>"

definition WithExtraEnvs :: "(string \<times> string) list \<Rightarrow> maint \<Rightarrow> maint" where
  "WithExtraEnvs extraEnvs m = m\<lparr>mt_extraEnvs := extraEnvs\<rparr>"

definition WithRegistryAuth :: "string \<Rightarrow> string \<Rightarrow> maint \<Rightarrow> maint" where
  "WithRegistryAuth username password m =
     m\<lparr>mt_extraEnvs := [(''REGISTRY_USERNAME'', username), (''REGISTRY_PASSWORD'', password)]\<rparr>"

definition WithExtraResources :: "(string \<times> kube_object \<times> string list) list \<Rightarrow> maint \<Rightarrow> maint" where
  "WithExtraResources extraResources m = m\<lparr>mt_extraResources := extraResources\<rparr>"

definition WithRole :: "string \<Rightarrow> maint \<Rightarrow> maint" where
  "WithRole role m = m\<lparr>mt_mainRole := role\<rparr>"

definition WithAdditionalClusterRoleBinding :: "string \<Rightarrow> maint \<Rightarrow> maint" where
  "WithAdditionalClusterRoleBinding b m = m\<lparr>mt_additionalClusterRoleBinding := b\<rparr>"

definition plain_object :: "string \<Rightarrow> string \<Rightarrow> string \<Rightarrow> (string \<times> gany) list \<Rightarrow> kube_object" where
  "plain_object kind name ns body =
     \<lparr>kb_Kind = kind, kb_Name = name, kb_Namespace = ns, kb_ResourceVersion = '''', kb_UID = '''', kb_SelfLink = '''',
      kb_Generation = 0, kb_OwnerReferences = [], kb_Labels = Map.empty, kb_Annotations = None, kb_Body = GMap body\<rparr>"

section \<open>The jobs\<close>

definition maintServiceAccountName :: string where "maintServiceAccountName = ''maintenanceserviceaccount''"

definition env_vars :: "(string \<times> string) list \<Rightarrow> gany" where
  "env_vars vs = GList (map (\<lambda>(n, v). GMap [(''name'', GStr n), (''value'', GStr v)]) vs)"

definition maintenance_env :: "maint \<Rightarrow> str_map \<Rightarrow> (string \<times> string) list" where
  "maintenance_env m config =
     [(''INSTANCE_NAMESPACE'', mt_instanceNamespace m),
      (''CLAIM_NAME'', or_zero '''' (mt_ResourceLabels m ''crossplane.io/claim-name'')),
      (''COMPOSITE_NAME'', mt_Name m),
      (''CLAIM_NAMESPACE'', or_zero '''' (mt_ResourceLabels m ''crossplane.io/claim-namespace'')),
      (''OWNER_GROUP'', data_field config ''ownerGroup''),
      (''OWNER_VERSION'', data_field config ''ownerVersion''),
      (''OWNER_KIND'', data_field config ''ownerKind''),
      (''SERVICE_ID'', data_field config ''serviceID''),
      (''RELEASE_MANAGEMENT_ENABLED'', data_field config ''releaseManagementEnabled''),
      (''MAINTENANCE_URL'', data_field config ''maintenanceURL''),
      (''MINIMUM_REVISION_AGE'', data_field config ''minimumRevisionAge''),
      (''PIN_IMAGE_TAG'', mt_PinImageTag m),
      (''DISABLE_APPCAT_RELEASE'', if mt_DisableAppcatRelease m then ''true'' else ''false''),
      (''CONTROL_NAMESPACE'', data_field config ''controlNamespace''),
      (''MAINTENANCE_CONFIGMAP_NAME'', data_field config ''maintenanceConfigMapName'')] @ mt_extraEnvs m"

definition buildMaintenancePodTemplateSpec :: "maint \<Rightarrow> str_map \<Rightarrow> string \<Rightarrow> string \<Rightarrow> gany" where
  "buildMaintenancePodTemplateSpec m config imageTag serviceAccount =
     GMap [(''spec'', GMap [
       (''serviceAccountName'', GStr serviceAccount), (''restartPolicy'', GStr ''Never''),
       (''containers'', GList [GMap [
          (''name'', GStr ''maintenancejob''),
          (''image'', GStr (''ghcr.io/vshn/appcat:'' @ imageTag)),
          (''env'', env_vars (maintenance_env m config)),
          (''args'', GList [GStr ''maintenance'', GStr ''--service'', GStr (mt_service m)])]])])]"

text \<open>Where a job runs: its namespace and its service account.\<close>

definition job_place :: "maint \<Rightarrow> str_map \<Rightarrow> gerr + string \<times> string" where
  "job_place m config =
     (if \<not> mt_helmBasedService m then Inr (mt_instanceNamespace m, maintServiceAccountName)
      else if data_field config ''controlNamespace'' = ''''
      then Inl (Msg ''no controlNamespace field in composition function configuration'')
      else if data_field config ''maintenanceSA'' = ''''
      then Inl (Msg ''no maintenanceSA field in composition function configuration'')
      else Inr (data_field config ''controlNamespace'', data_field config ''maintenanceSA''))"

definition createMaintenanceJob :: "runtime_env \<Rightarrow> maint \<Rightarrow> string \<Rightarrow> service_runtime \<Rightarrow> rt_error option \<times> service_runtime" where
  "createMaintenanceJob rt m cronSchedule s =
     (let imageTag = data_field (sr_Config s) ''imageTag'';
          jobName = (if mt_helmBasedService m then mt_Name m @ ''-maintenancejob'' else ''maintenancejob'')
      in if imageTag = '''' then (Some (RtErr (Msg ''no imageTag field in composition function configuration'')), s)
         else (case job_place m (sr_Config s) of
                 Inl e \<Rightarrow> (Some (RtErr e), s)
               | Inr (jobNamespace, sa) \<Rightarrow>
                   SetDesiredKubeObject rt
                     (plain_object ''CronJob'' jobName jobNamespace [(''spec'', GMap [
                        (''schedule'', GStr cronSchedule), (''successfulJobsHistoryLimit'', GInt 1),
                        (''jobTemplate'', GMap [(''spec'', GMap [(''backoffLimit'', GInt 1),
                           (''template'', buildMaintenancePodTemplateSpec m (sr_Config s) imageTag sa)])])])])
                     (mt_Name m @ ''-maintenancejob'') (KubeOptionAllowDeletion # mt_extraKubeOptions m) s))"

definition getInitialMaintenanceJobName :: "maint \<Rightarrow> string" where
  "getInitialMaintenanceJobName m = mt_Name m @ ''-initial-maintenance''"

definition completed_query :: string where
  "completed_query = ''has(object.status) && has(object.status.conditions) && object.status.conditions.exists(c, c.type == \"Complete\" && c.status == \"True\")''"

definition createInitialMaintenanceJob :: "runtime_env \<Rightarrow> maint \<Rightarrow> service_runtime \<Rightarrow> rt_error option \<times> service_runtime" where
  "createInitialMaintenanceJob rt m s =
     (let imageTag = data_field (sr_Config s) ''imageTag''
      in if imageTag = '''' then (Some (RtErr (Msg ''no imageTag field in composition function configuration'')), s)
         else (case job_place m (sr_Config s) of
                 Inl e \<Rightarrow> (Some (RtErr e), s)
               | Inr (jobNamespace, sa) \<Rightarrow>
                   SetDesiredKubeObject rt
                     (plain_object ''Job'' (getInitialMaintenanceJobName m) jobNamespace [(''spec'', GMap [
                        (''backoffLimit'', GInt 6), (''template'', buildMaintenancePodTemplateSpec m (sr_Config s) imageTag sa)])])
                     (getInitialMaintenanceJobName m)
                     (KubeOptionAllowDeletion # mt_extraKubeOptions m @ [KubeOptionCustomReadiness completed_query]) s))"


section \<open>Permissions\<close>

definition createMaintenanceServiceAccount :: "runtime_env \<Rightarrow> maint \<Rightarrow> service_runtime \<Rightarrow> rt_error option \<times> service_runtime" where
  "createMaintenanceServiceAccount rt m =
     SetDesiredKubeObject rt (plain_object ''ServiceAccount'' maintServiceAccountName (mt_instanceNamespace m) [])
       (mt_Name m @ ''-maintenance-serviceaccount'') (mt_extraKubeOptions m)"

definition createMaintenanceRole :: "runtime_env \<Rightarrow> maint \<Rightarrow> service_runtime \<Rightarrow> rt_error option \<times> service_runtime" where
  "createMaintenanceRole rt m =
     SetDesiredKubeObject rt (plain_object ''Role'' (mt_mainRole m) (mt_instanceNamespace m) [(''rules'', mt_policyRules m)])
       (mt_Name m @ ''-maintenance-role'') (mt_extraKubeOptions m)"

definition role_ref :: "string \<Rightarrow> string \<Rightarrow> gany" where
  "role_ref kind name = GMap [(''apiGroup'', GStr ''rbac.authorization.k8s.io''), (''kind'', GStr kind), (''name'', GStr name)]"

definition createMaintenanceRoleBinding :: "runtime_env \<Rightarrow> maint \<Rightarrow> service_runtime \<Rightarrow> rt_error option \<times> service_runtime" where
  "createMaintenanceRoleBinding rt m =
     SetDesiredKubeObject rt
       (plain_object ''RoleBinding'' (mt_mainRole m) (mt_instanceNamespace m)
          [(''roleRef'', role_ref ''Role'' (mt_mainRole m)),
           (''subjects'', GList [GMap [(''kind'', GStr ''ServiceAccount''), (''name'', GStr maintServiceAccountName)]])])
       (mt_Name m @ ''-maintenance-rolebinding'') (mt_extraKubeOptions m)"

definition createMaintenanceClusterRoleBinding :: "runtime_env \<Rightarrow> maint \<Rightarrow> service_runtime \<Rightarrow> rt_error option \<times> service_runtime" where
  "createMaintenanceClusterRoleBinding rt m s =
     (let name = data_field (sr_Config s) ''additionalMaintenanceClusterRole''
      in if name = '''' then (Some (RtErr (Msg ''no additionalMaintenanceClusterRole field in composition function configuration'')), s)
         else SetDesiredKubeObject rt
           (plain_object ''ClusterRoleBinding'' (mt_additionalClusterRoleBinding m) ''''
              [(''roleRef'', role_ref ''ClusterRole'' name),
               (''subjects'', GList [GMap [(''kind'', GStr ''ServiceAccount''), (''name'', GStr maintServiceAccountName),
                                          (''namespace'', GStr (mt_instanceNamespace m))]])])
           (mt_Name m @ ''-maintenance-clusterrolebinding'') (mt_extraKubeOptions m) s)"

definition wrap_rt :: "string \<Rightarrow> rt_error \<Rightarrow> rt_error" where
  "wrap_rt msg e = (case e of RtErr g \<Rightarrow> RtErr (Wrapped msg g) | NotFoundError \<Rightarrow> RtErr (Msg msg) | RtPanic \<Rightarrow> RtPanic)"

definition createRBAC :: "runtime_env \<Rightarrow> maint \<Rightarrow> service_runtime \<Rightarrow> rt_error option \<times> service_runtime" where
  "createRBAC rt m s =
     (case createMaintenanceServiceAccount rt m s of
        (Some e, s) \<Rightarrow> (Some (wrap_rt ''can't create maintenance serviceaccount'' e), s)
      | (None, s) \<Rightarrow>
     (case createMaintenanceRole rt m s of
        (Some e, s) \<Rightarrow> (Some (wrap_rt ''can't create maintenance role'' e), s)
      | (None, s) \<Rightarrow>
     (case createMaintenanceRoleBinding rt m s of
        (Some e, s) \<Rightarrow> (Some (wrap_rt ''can't create maintenance rolebinding'' e), s)
      | (None, s) \<Rightarrow>
     (case createMaintenanceClusterRoleBinding rt m s of
        (Some e, s) \<Rightarrow> (Some (wrap_rt ''can't create maintenance clusterrolebinding'' e), s)
      | (None, s) \<Rightarrow> (None, s)))))"

section \<open>One run\<close>

record initial_status =
  is_CompletedAt :: "string option"
  is_Success :: "bool option"

text \<open>
  The clock, and what setting the desired status of the composite gives. The state is the runtime, the status
  in memory, and the status that goes back to Crossplane.
\<close>

record maint_env =
  mv_rt :: runtime_env
  mv_Now :: utc_time
  mv_SetStatus :: "initial_status \<Rightarrow> gerr option"

record maint_state =
  sm_runtime :: service_runtime
  sm_status :: initial_status
  sm_desired :: "initial_status option"

definition GetInitialMaintenanceRan :: "initial_status \<Rightarrow> bool" where
  "GetInitialMaintenanceRan st \<longleftrightarrow> is_CompletedAt st \<noteq> None"

definition GetInitialMaintenanceCompletedAt :: "initial_status \<Rightarrow> string" where
  "GetInitialMaintenanceCompletedAt st = or_zero '''' (is_CompletedAt st)"

definition SetInitialMaintenanceStatus :: "string \<Rightarrow> bool \<Rightarrow> maint_state \<Rightarrow> maint_state" where
  "SetInitialMaintenanceStatus completedAt success x =
     x\<lparr>sm_status := \<lparr>is_CompletedAt = Some completedAt, is_Success = Some success\<rparr>\<rparr>"

definition SetDesiredCompositeStatus :: "maint_env \<Rightarrow> maint_state \<Rightarrow> gerr option \<times> maint_state" where
  "SetDesiredCompositeStatus mv x =
     (case mv_SetStatus mv (sm_status x) of Some e \<Rightarrow> (Some e, x) | None \<Rightarrow> (None, x\<lparr>sm_desired := Some (sm_status x)\<rparr>))"

definition lift_runtime :: "(service_runtime \<Rightarrow> rt_error option \<times> service_runtime) \<Rightarrow> maint_state \<Rightarrow> rt_error option \<times> maint_state" where
  "lift_runtime f x = (case f (sm_runtime x) of (e, s) \<Rightarrow> (e, x\<lparr>sm_runtime := s\<rparr>))"

definition start_initial :: "maint_env \<Rightarrow> maint \<Rightarrow> maint_state \<Rightarrow> fn_result option \<times> maint_state" where
  "start_initial mv m x =
     (case lift_runtime (createInitialMaintenanceJob (mv_rt mv) m) x of
        (Some e, x) \<Rightarrow>
          (Some (SeverityWarning, ''cannot create initial maintenance job''),
           snd (SetDesiredCompositeStatus mv (SetInitialMaintenanceStatus (format_rfc3339 (mv_Now mv)) False x)))
      | (None, x) \<Rightarrow>
          (case SetDesiredCompositeStatus mv (SetInitialMaintenanceStatus (format_rfc3339 (mv_Now mv)) True x) of
             (Some e, x) \<Rightarrow> (Some (SeverityWarning, ''cannot update InitialMaintenance status''), x)
           | (None, x) \<Rightarrow> (None, x)))"

definition keep_initial :: "maint_env \<Rightarrow> maint \<Rightarrow> maint_state \<Rightarrow> fn_result option \<times> maint_state" where
  "keep_initial mv m x =
     (let completedAt = GetInitialMaintenanceCompletedAt (sm_status x)
      in if completedAt = '''' then (None, x)
         else if (case parse_rfc3339 completedAt of Some t \<Rightarrow> 30 * minute < unix_nano (mv_Now mv) - t | None \<Rightarrow> False) then (None, x)
         else (case lift_runtime (createInitialMaintenanceJob (mv_rt mv) m) x of
                 (Some e, x) \<Rightarrow> (Some (SeverityWarning, ''cannot maintain initial maintenance job''), x)
               | (None, x) \<Rightarrow> (None, x)))"

fun add_extra :: "runtime_env \<Rightarrow> (string \<times> kube_object \<times> string list) list \<Rightarrow> service_runtime \<Rightarrow> rt_error option \<times> service_runtime" where
  "add_extra rt [] s = (None, s)"
| "add_extra rt ((name, obj, refs) # rs) s =
     (case SetDesiredKubeObject rt obj name [KubeOptionAddRefs refs] s of
        (Some e, s) \<Rightarrow> (Some e, s) | (None, s) \<Rightarrow> add_extra rt rs s)"

text \<open>What follows the initial job: permissions, extra resources, the cron job.\<close>

definition recurring_part :: "runtime_env \<Rightarrow> maint \<Rightarrow> string \<Rightarrow> service_runtime \<Rightarrow> rt_error option \<times> service_runtime" where
  "recurring_part rt m cron s =
     (case (if \<not> mt_helmBasedService m \<and> mt_mainRole m \<noteq> '''' \<and> mt_additionalClusterRoleBinding m \<noteq> '''' then createRBAC rt m s else (None, s)) of
        (Some e, s) \<Rightarrow> (Some e, s)
      | (None, s) \<Rightarrow>
     (case add_extra rt (mt_extraResources m) s of
        (Some e, s) \<Rightarrow> (Some e, s)
      | (None, s) \<Rightarrow> createMaintenanceJob rt m cron s))"

definition fatal :: "rt_error \<Rightarrow> fn_result" where
  "fatal e = (SeverityFatal, ''maintenance'')"

definition maintenance_Run :: "maint_env \<Rightarrow> maint \<Rightarrow> maint_state \<Rightarrow> fn_result option \<times> maint_state" where
  "maintenance_Run mv m x =
     (case parseCron (mt_DayOfWeek m) (mt_TimeOfDay m) of
        Inl e \<Rightarrow> (Some (fatal (RtErr e)), x)
      | Inr cron \<Rightarrow>
     (if cron = '''' then (Some (SeverityNormal, ''Maintenance schedule not yet populated''), x)
      else if \<not> GetInitialMaintenanceRan (sm_status x) \<and> mt_Name m = ''''
      then (Some (SeverityNormal, ''Composite resource not yet fully populated, deferring initial maintenance job''), x)
      else
        (case (if \<not> GetInitialMaintenanceRan (sm_status x) then start_initial mv m x else keep_initial mv m x) of
           (Some r, x) \<Rightarrow> (Some r, x)
         | (None, x) \<Rightarrow>
             (case lift_runtime (recurring_part (mv_rt mv) m cron) x of
                (Some e, x) \<Rightarrow> (Some (fatal e), x)
              | (None, x) \<Rightarrow> (None, x)))))"

section \<open>Pinned tags and versions\<close>

record pin_status =
  pn_PinImageTagSetAt :: string
  pn_LastKnownPinImageTag :: string

definition UpdatePinImageTagStatus :: "utc_time \<Rightarrow> string \<Rightarrow> pin_status \<Rightarrow> pin_status" where
  "UpdatePinImageTagStatus now pinImageTag status =
     (if pinImageTag = '''' then status\<lparr>pn_PinImageTagSetAt := '''', pn_LastKnownPinImageTag := ''''\<rparr>
      else if pn_LastKnownPinImageTag status \<noteq> pinImageTag
      then status\<lparr>pn_PinImageTagSetAt := format_rfc3339 now, pn_LastKnownPinImageTag := pinImageTag\<rparr>
      else status)"

text \<open>The two functions of apimachinery's \<open>unstructured\<close>: reading and writing a nested field of the values.\<close>

record values_ops =
  vo_NestedString :: "(string \<times> gany) list \<Rightarrow> string list \<Rightarrow> gerr + string option"
  vo_SetNestedField :: "(string \<times> gany) list \<Rightarrow> string \<Rightarrow> string list \<Rightarrow> gerr option \<times> (string \<times> gany) list"

text \<open>
  The version returned comes with the error, as in Go; \<open>values\<close> are the desired values, changed in place.
  \<open>GTE\<close> of two versions is \<open>LTE\<close> of them exchanged.
\<close>

definition SetReleaseVersion ::
    "semver_ops \<Rightarrow> values_ops \<Rightarrow> string \<Rightarrow> (string \<times> gany) list \<Rightarrow> (string \<times> gany) list \<Rightarrow> string list \<Rightarrow> string \<Rightarrow>
     (string \<times> gerr option) \<times> (string \<times> gany) list" where
  "SetReleaseVersion so vo version desiredValues observedValues flds pinImageTag =
     (let use = (\<lambda>v. case vo_SetNestedField vo desiredValues v flds of (e, values) \<Rightarrow> ((v, e), values))
      in if pinImageTag \<noteq> '''' then use pinImageTag
         else
     (case vo_NestedString vo observedValues flds of
        Inl e \<Rightarrow> (('''', Some (Wrapped ''cannot get image tag from values in release'' e)), desiredValues)
      | Inr observedFound \<Rightarrow>
     (case so_ParseTolerant so version of
        Inl e \<Rightarrow> (('''', Some (Msg ''invalid service version'')), desiredValues)
      | Inr compVersion \<Rightarrow>
     (case vo_NestedString vo desiredValues flds of
        Inl e \<Rightarrow> (('''', Some (Wrapped ''cannot get image tag from values in release'' e)), desiredValues)
      | Inr desiredFound \<Rightarrow>
     (let observedValueVersion = or_zero '''' observedFound; desiredValueVersion = or_zero '''' desiredFound
      in (case (so_ParseTolerant so desiredValueVersion, so_ParseTolerant so observedValueVersion) of
            (_, Inl _) \<Rightarrow> use version
          | (Inl _, Inr observedVersion) \<Rightarrow>
              (if so_LTE so observedVersion compVersion then use version else use observedValueVersion)
          | (Inr desiredVersion, Inr observedVersion) \<Rightarrow>
              (if so_LTE so observedVersion desiredVersion then ((desiredValueVersion, None), desiredValues)
               else if so_LTE so compVersion observedVersion then use observedValueVersion
               else use version)))))))"


section \<open>Times round trip\<close>

lemma parse_format_rfc3339:
  assumes "valid_time t"
  shows "parse_rfc3339 (format_rfc3339 t) = Some (unix_seconds t * second)"
proof -
  have b: "ut_year t < 10000" "ut_month t < 100" "ut_day t < 100" "ut_hour t < 100" "ut_minute t < 100" "ut_second t < 100"
    using assms valid_days by (auto simp: valid_time_def)
  have v: "valid_time (t\<lparr>ut_nanosecond := 0\<rparr>)" using assms by (simp add: valid_time_def)
  have u: "unix_nano (t\<lparr>ut_nanosecond := 0\<rparr>) = unix_seconds t * second" by (simp add: unix_nano_def unix_seconds_def)
  have f: "get_fraction ''Z'' = (0, ''Z'')" "parse_zone ''Z'' = Some 0" by (simp_all add: get_fraction_def parse_zone_def)
  show ?thesis
    using b v u by (cases t) (simp add: parse_rfc3339_def format_rfc3339_def get_year_digits getnum_two_digits f)
qed

lemma format_rfc3339_not_empty: "format_rfc3339 t \<noteq> ''''"
  by (simp add: format_rfc3339_def two_digits_def)

section \<open>What a run touches\<close>

text \<open>The resources of the recurring part.\<close>

definition recurring_names :: "maint \<Rightarrow> string list" where
  "recurring_names m =
     map (\<lambda>suffix. mt_Name m @ suffix)
       [''-maintenancejob'', ''-maintenance-serviceaccount'', ''-maintenance-role'', ''-maintenance-rolebinding'',
        ''-maintenance-clusterrolebinding''] @ map fst (mt_extraResources m)"

definition recurring_keys :: "maint \<Rightarrow> string set" where
  "recurring_keys m = (\<lambda>n. EscapeDNS1123 n False) ` set (recurring_names m)"

lemma recurring_keysI: "n \<in> set (recurring_names m) \<Longrightarrow> EscapeDNS1123 n False \<in> recurring_keys m"
  by (simp add: recurring_keys_def)

lemma touches_createMaintenanceJob: "touches (recurring_keys m) s (snd (createMaintenanceJob rt m cron s))"
  by (auto simp: createMaintenanceJob_def Let_def recurring_names_def split: sum.splits intro!: touches_kube recurring_keysI)

lemma touches_rbac_parts:
  "touches (recurring_keys m) s (snd (createMaintenanceServiceAccount rt m s))"
  "touches (recurring_keys m) s (snd (createMaintenanceRole rt m s))"
  "touches (recurring_keys m) s (snd (createMaintenanceRoleBinding rt m s))"
  "touches (recurring_keys m) s (snd (createMaintenanceClusterRoleBinding rt m s))"
  by (auto simp: createMaintenanceServiceAccount_def createMaintenanceRole_def createMaintenanceRoleBinding_def
      createMaintenanceClusterRoleBinding_def Let_def recurring_names_def intro!: touches_kube recurring_keysI)

lemma touches_createRBAC: "touches (recurring_keys m) s (snd (createRBAC rt m s))"
  unfolding createRBAC_def
  by (intro touches_then) (auto intro: touches_trans touches_rbac_parts)

lemma touches_add_extra:
  "set (map fst rs) \<subseteq> set (recurring_names m) \<Longrightarrow> touches (recurring_keys m) s (snd (add_extra rt rs s))"
proof (induction rt rs s rule: add_extra.induct)
  case (2 rt name obj refs rs s)
  have t: "touches (recurring_keys m) s (snd (SetDesiredKubeObject rt obj name [KubeOptionAddRefs refs] s))"
    using "2.prems" by (intro touches_kube recurring_keysI) simp
  show ?case
  proof (cases "SetDesiredKubeObject rt obj name [KubeOptionAddRefs refs] s")
    case (Pair r s1)
    then show ?thesis using t 2 by (cases r) (auto intro: touches_trans)
  qed
qed simp

lemma touches_recurring_part: "touches (recurring_keys m) s (snd (recurring_part rt m cron s))"
proof -
  have a: "touches (recurring_keys m) s1 (snd (add_extra rt (mt_extraResources m) s1))" for s1
    by (rule touches_add_extra) (auto simp: recurring_names_def)
  show ?thesis
    unfolding recurring_part_def
    by (intro touches_then) (auto intro: touches_trans a touches_createRBAC touches_createMaintenanceJob)
qed


section \<open>The initial job\<close>

lemma touches_createInitial:
  "touches {EscapeDNS1123 (getInitialMaintenanceJobName m) False} s (snd (createInitialMaintenanceJob rt m s))"
  by (auto simp: createInitialMaintenanceJob_def Let_def split: sum.splits intro!: touches_kube)

lemma createInitial_desired:
  "createInitialMaintenanceJob rt m s = (None, s') \<Longrightarrow> is_desired s' (getInitialMaintenanceJobName m)"
  by (auto simp: createInitialMaintenanceJob_def Let_def split: sum.splits if_splits prod.splits dest: kube_is_desired)

text \<open>Whether the initial job is still wanted.\<close>

definition initial_wanted :: "instant \<Rightarrow> initial_status \<Rightarrow> bool" where
  "initial_wanted now st =
     (case is_CompletedAt st of
        None \<Rightarrow> True
      | Some c \<Rightarrow> c \<noteq> '''' \<and> \<not> (\<exists>t. parse_rfc3339 c = Some t \<and> 30 * minute < now - t))"

text \<open>The part of a run that deals with the initial job: when it succeeds, the job is desired if it is wanted.\<close>

lemma initial_part:
  assumes "(if \<not> GetInitialMaintenanceRan (sm_status x) then start_initial mv m x else keep_initial mv m x) = (None, x')"
  shows "if initial_wanted (unix_nano (mv_Now mv)) (sm_status x)
         then is_desired (sm_runtime x') (getInitialMaintenanceJobName m) else x' = x"
proof (cases "is_CompletedAt (sm_status x)")
  case None
  obtain e s where c: "createInitialMaintenanceJob (mv_rt mv) m (sm_runtime x) = (e, s)" by fastforce
  have "e = None" "sm_runtime x' = s"
    using assms None c
    by (auto simp: GetInitialMaintenanceRan_def start_initial_def lift_runtime_def SetInitialMaintenanceStatus_def SetDesiredCompositeStatus_def
        split: option.splits)
  then show ?thesis using None c createInitial_desired [of "mv_rt mv" m "sm_runtime x" s] by (simp add: initial_wanted_def)
next
  case (Some c)
  have k: "keep_initial mv m x = (None, x')" using assms Some by (simp add: GetInitialMaintenanceRan_def)
  show ?thesis
  proof (cases "initial_wanted (unix_nano (mv_Now mv)) (sm_status x)")
    case True
    obtain e s where c: "createInitialMaintenanceJob (mv_rt mv) m (sm_runtime x) = (e, s)" by fastforce
    have "e = None" "sm_runtime x' = s"
      using k True c by (auto simp: keep_initial_def Some initial_wanted_def lift_runtime_def GetInitialMaintenanceCompletedAt_def Let_def
          split: option.splits if_splits)
    then show ?thesis using True c createInitial_desired [of "mv_rt mv" m "sm_runtime x" s] by simp
  next
    case False
    then have "x' = x"
      using k by (auto simp: keep_initial_def Some initial_wanted_def GetInitialMaintenanceCompletedAt_def Let_def split: if_splits)
    then show ?thesis using False by simp
  qed
qed

text \<open>No other resource of the maintenance has the key of the initial job.\<close>

definition job_key_free :: "maint \<Rightarrow> bool" where
  "job_key_free m \<longleftrightarrow> EscapeDNS1123 (getInitialMaintenanceJobName m) False \<notin> recurring_keys m"

definition schedule_set :: "maint \<Rightarrow> bool" where
  "schedule_set m \<longleftrightarrow> (\<exists>cron. parseCron (mt_DayOfWeek m) (mt_TimeOfDay m) = Inr cron \<and> cron \<noteq> '''')"

text \<open>A run without a result, in its two parts.\<close>

lemma maintenance_Run_parts:
  assumes "maintenance_Run mv m x = (None, x')"
  shows "\<exists>cron x1 s. parseCron (mt_DayOfWeek m) (mt_TimeOfDay m) = Inr cron \<and>
    (if \<not> GetInitialMaintenanceRan (sm_status x) then start_initial mv m x else keep_initial mv m x) = (None, x1) \<and>
    recurring_part (mv_rt mv) m cron (sm_runtime x1) = (None, s) \<and> x' = x1\<lparr>sm_runtime := s\<rparr>"
proof -
  obtain cron where cron: "parseCron (mt_DayOfWeek m) (mt_TimeOfDay m) = Inr cron"
    using assms by (auto simp: maintenance_Run_def split: sum.splits)
  obtain r x1 where i: "(if \<not> GetInitialMaintenanceRan (sm_status x) then start_initial mv m x else keep_initial mv m x) = (r, x1)"
    by fastforce
  have r: "r = None" and rest: "(case lift_runtime (recurring_part (mv_rt mv) m cron) x1 of (Some e, x) \<Rightarrow> (Some (fatal e), x) | (None, x) \<Rightarrow> (None, x)) = (None, x')"
    using assms cron i by (auto simp: maintenance_Run_def split: if_splits option.splits)
  obtain e s where p: "recurring_part (mv_rt mv) m cron (sm_runtime x1) = (e, s)" by fastforce
  then have "e = None" "x' = x1\<lparr>sm_runtime := s\<rparr>" using rest by (auto simp: lift_runtime_def split: option.splits)
  then show ?thesis using cron i r p by blast
qed

lemma Run_initial_desired:
  assumes "maintenance_Run mv m x = (None, x')" "job_key_free m" "\<not> is_desired (sm_runtime x) (getInitialMaintenanceJobName m)"
  shows "is_desired (sm_runtime x') (getInitialMaintenanceJobName m) \<longleftrightarrow> initial_wanted (unix_nano (mv_Now mv)) (sm_status x)"
proof -
  obtain cron x1 s where p: "(if \<not> GetInitialMaintenanceRan (sm_status x) then start_initial mv m x else keep_initial mv m x) = (None, x1)"
    "recurring_part (mv_rt mv) m cron (sm_runtime x1) = (None, s)" "x' = x1\<lparr>sm_runtime := s\<rparr>"
    using maintenance_Run_parts [OF assms(1)] by blast
  have "touches (recurring_keys m) (sm_runtime x1) s" using touches_recurring_part [of m "sm_runtime x1" "mv_rt mv" cron] p(2) by simp
  then have "is_desired s (getInitialMaintenanceJobName m) = is_desired (sm_runtime x1) (getInitialMaintenanceJobName m)"
    using assms(2) by (intro not_desired) (auto simp: job_key_free_def)
  then show ?thesis using initial_part [OF p(1)] assms(3) p(3) by (auto split: if_splits)
qed

lemma Run_first_status:
  assumes "maintenance_Run mv m x = (None, x')" "is_CompletedAt (sm_status x) = None"
  shows "sm_desired x' = Some \<lparr>is_CompletedAt = Some (format_rfc3339 (mv_Now mv)), is_Success = Some True\<rparr>"
proof -
  obtain x1 s where p: "start_initial mv m x = (None, x1)" "x' = x1\<lparr>sm_runtime := s\<rparr>"
    using maintenance_Run_parts [OF assms(1)] assms(2) by (auto simp: GetInitialMaintenanceRan_def)
  then show ?thesis
    by (auto simp: start_initial_def SetInitialMaintenanceStatus_def SetDesiredCompositeStatus_def split: option.splits prod.splits)
qed

text \<open>
  The life of the initial maintenance job: the run that finds no trace of it deploys it and records the
  time, and a later run, on a fresh desired state with the status recorded, deploys it again exactly as
  long as no more than half an hour has passed since that first run, whether the job has finished by then or not.
\<close>

theorem initial_job_lifetime:
  assumes "valid_time t0" "job_key_free m" "is_CompletedAt (sm_status x) = None"
    "maintenance_Run (mv\<lparr>mv_Now := t0\<rparr>) m x = (None, x1)" "sm_desired x1 = Some st"
    "maintenance_Run (mv\<lparr>mv_Now := t1\<rparr>) m \<lparr>sm_runtime = s, sm_status = st, sm_desired = None\<rparr> = (None, x2)"
    "\<not> is_desired (sm_runtime x) (getInitialMaintenanceJobName m)" "\<not> is_desired s (getInitialMaintenanceJobName m)"
  shows "is_desired (sm_runtime x1) (getInitialMaintenanceJobName m) \<and>
    (is_desired (sm_runtime x2) (getInitialMaintenanceJobName m) \<longleftrightarrow> unix_nano t1 - unix_seconds t0 * second \<le> 30 * minute)"
proof
  show "is_desired (sm_runtime x1) (getInitialMaintenanceJobName m)"
    using Run_initial_desired [OF assms(4) assms(2) assms(7)] assms(3) by (simp add: initial_wanted_def)
  have st: "st = \<lparr>is_CompletedAt = Some (format_rfc3339 t0), is_Success = Some True\<rparr>"
    using Run_first_status [OF assms(4) assms(3)] assms(5) by simp
  show "is_desired (sm_runtime x2) (getInitialMaintenanceJobName m) \<longleftrightarrow> unix_nano t1 - unix_seconds t0 * second \<le> 30 * minute"
    using Run_initial_desired [OF assms(6) assms(2)] assms(8) format_rfc3339_not_empty [of t0]
    by (simp add: initial_wanted_def st parse_format_rfc3339 [OF assms(1)] not_less)
qed


text \<open>A MinIO-like instance in its own namespace, without a role of its own.\<close>

definition example_maint :: maint where
  "example_maint = \<lparr>mt_instanceNamespace = ''vshn-redis-a'', mt_mainRole = '''', mt_additionalClusterRoleBinding = '''', mt_service = ''redis'',
     mt_helmBasedService = False, mt_Name = ''redis-a'', mt_ResourceLabels = Map.empty, mt_DayOfWeek = ''monday'', mt_TimeOfDay = ''22:00:00'',
     mt_PinImageTag = '''', mt_DisableAppcatRelease = False, mt_policyRules = GNull, mt_extraEnvs = [], mt_extraResources = [],
     mt_extraKubeOptions = []\<rparr>"

definition example_maint_env :: maint_env where
  "example_maint_env = \<lparr>mv_rt = example_runtime_env,
     mv_Now = \<lparr>ut_year = 2024, ut_month = 1, ut_day = 1, ut_hour = 0, ut_minute = 0, ut_second = 0, ut_nanosecond = 0\<rparr>,
     mv_SetStatus = (\<lambda>_. None)\<rparr>"

lemma example_kube_ok: "\<exists>s'. SetDesiredKubeObject example_runtime_env obj n opts s = (None, s')"
  unfolding SetDesiredKubeObject_def by (rule example_set_ok)

lemma example_maint_fields:
  "\<not> mt_helmBasedService example_maint" "mt_mainRole example_maint = ''''" "mt_extraResources example_maint = []"
  "mt_Name example_maint = ''redis-a''"
  by (simp_all add: example_maint_def)

lemma example_initial_ok:
  assumes "data_field (sr_Config s) ''imageTag'' = ''v4''"
  shows "\<exists>s'. createInitialMaintenanceJob example_runtime_env example_maint s = (None, s') \<and> sr_Config s' = sr_Config s"
proof -
  have "\<exists>s'. createInitialMaintenanceJob example_runtime_env example_maint s = (None, s')"
    by (simp add: createInitialMaintenanceJob_def job_place_def example_maint_fields Let_def assms example_kube_ok)
  then obtain s' where s': "createInitialMaintenanceJob example_runtime_env example_maint s = (None, s')" by blast
  then have "touches {EscapeDNS1123 (getInitialMaintenanceJobName example_maint) False} s s'"
    using touches_createInitial [of example_maint s example_runtime_env] by simp
  then show ?thesis using s' touchesD(4) by blast
qed

lemma example_recurring_ok:
  "data_field (sr_Config s) ''imageTag'' = ''v4'' \<Longrightarrow> \<exists>s'. recurring_part example_runtime_env example_maint cron s = (None, s')"
  by (simp add: recurring_part_def createMaintenanceJob_def job_place_def example_maint_fields Let_def example_kube_ok)

lemma example_cron: "parseCron (mt_DayOfWeek example_maint) (mt_TimeOfDay example_maint) = Inr ''00 22 * * 1''"
  by (simp add: example_maint_def) code_simp

lemma example_Run_ok:
  assumes "data_field (sr_Config (sm_runtime x)) ''imageTag'' = ''v4''"
  shows "\<exists>x'. maintenance_Run (example_maint_env\<lparr>mv_Now := t\<rparr>) example_maint x = (None, x')"
proof -
  obtain s where s: "createInitialMaintenanceJob example_runtime_env example_maint (sm_runtime x) = (None, s)" "sr_Config s = sr_Config (sm_runtime x)"
    using example_initial_ok [OF assms] by blast
  obtain s1 where s1: "recurring_part example_runtime_env example_maint ''00 22 * * 1'' s = (None, s1)"
    using example_recurring_ok s(2) assms by metis
  obtain s2 where s2: "recurring_part example_runtime_env example_maint ''00 22 * * 1'' (sm_runtime x) = (None, s2)"
    using example_recurring_ok assms by metis
  have "mt_Name example_maint \<noteq> ''''" by (simp add: example_maint_def)
  then show ?thesis
    by (auto simp: maintenance_Run_def example_cron example_maint_env_def start_initial_def keep_initial_def lift_runtime_def s s1 s2
        SetInitialMaintenanceStatus_def SetDesiredCompositeStatus_def Let_def)
qed

lemma example_job_key_free: "job_key_free example_maint"
proof -
  have "EscapeDNS1123 n False = n" if "n = getInitialMaintenanceJobName example_maint \<or> n \<in> set (recurring_names example_maint)" for n
    using that
    by (intro escape_plain) (auto simp: getInitialMaintenanceJobName_def recurring_names_def example_maint_def dns1123_match_def is_lower_alnum_def)
  then have "recurring_keys example_maint = set (recurring_names example_maint)"
    "EscapeDNS1123 (getInitialMaintenanceJobName example_maint) False = getInitialMaintenanceJobName example_maint"
    by (auto simp: recurring_keys_def)
  then show ?thesis
    by (auto simp: job_key_free_def recurring_names_def getInitialMaintenanceJobName_def example_maint_def)
qed

text \<open>An hour later the job is gone.\<close>

theorem initial_job_lifetime_witness:
  "\<exists>x1 st x2. maintenance_Run (example_maint_env\<lparr>mv_Now := mv_Now example_maint_env\<rparr>) example_maint
        \<lparr>sm_runtime = example_runtime\<lparr>sr_Config := [''imageTag'' \<mapsto> ''v4'']\<rparr>, sm_status = \<lparr>is_CompletedAt = None, is_Success = None\<rparr>, sm_desired = None\<rparr> = (None, x1)
    \<and> sm_desired x1 = Some st
    \<and> maintenance_Run (example_maint_env\<lparr>mv_Now := (mv_Now example_maint_env)\<lparr>ut_hour := 1\<rparr>\<rparr>) example_maint
        \<lparr>sm_runtime = example_runtime\<lparr>sr_Config := [''imageTag'' \<mapsto> ''v4'']\<rparr>, sm_status = st, sm_desired = None\<rparr> = (None, x2)
    \<and> is_desired (sm_runtime x1) ''redis-a-initial-maintenance'' \<and> \<not> is_desired (sm_runtime x2) ''redis-a-initial-maintenance''"
proof -
  let ?s = "example_runtime\<lparr>sr_Config := [''imageTag'' \<mapsto> ''v4'']\<rparr>" and ?t0 = "mv_Now example_maint_env"
  let ?t1 = "?t0\<lparr>ut_hour := 1\<rparr>" and ?n = "getInitialMaintenanceJobName example_maint"
  let ?x = "\<lparr>sm_runtime = ?s, sm_status = \<lparr>is_CompletedAt = None, is_Success = None\<rparr>, sm_desired = None\<rparr>"
  have c: "data_field (sr_Config ?s) ''imageTag'' = ''v4''" by (simp add: data_field_def)
  obtain x1 where x1: "maintenance_Run (example_maint_env\<lparr>mv_Now := ?t0\<rparr>) example_maint ?x = (None, x1)"
    using example_Run_ok [of ?x ?t0] c by auto
  have st: "sm_desired x1 = Some \<lparr>is_CompletedAt = Some (format_rfc3339 ?t0), is_Success = Some True\<rparr>" (is "_ = Some ?st")
    using Run_first_status [OF x1] by simp
  obtain x2 where x2: "maintenance_Run (example_maint_env\<lparr>mv_Now := ?t1\<rparr>) example_maint \<lparr>sm_runtime = ?s, sm_status = ?st, sm_desired = None\<rparr> = (None, x2)"
    using example_Run_ok [of "\<lparr>sm_runtime = ?s, sm_status = ?st, sm_desired = None\<rparr>" ?t1] c by auto
  have v: "valid_time ?t0" by (simp add: example_maint_env_def valid_time_def days_in_def)
  have n: "?n = ''redis-a-initial-maintenance''" by (simp add: getInitialMaintenanceJobName_def example_maint_def)
  have d: "\<not> is_desired ?s ?n" by (simp add: is_desired_def example_runtime_def)
  have "unix_nano ?t1 - unix_seconds ?t0 * second = 60 * minute"
    by (simp add: example_maint_env_def unix_nano_def unix_seconds_def duration_defs algebra_simps)
  then have "\<not> unix_nano ?t1 - unix_seconds ?t0 * second \<le> 30 * minute" by (simp add: duration_defs)
  then have "is_desired (sm_runtime x1) ?n \<and> \<not> is_desired (sm_runtime x2) ?n"
    using initial_job_lifetime [OF v example_job_key_free _ x1 st x2] d by simp
  then show ?thesis using x1 st x2 unfolding n by blast
qed

section \<open>Versions\<close>

text \<open>What apimachinery documents: a nested string that has been set can be read, and blang/semver: the empty string is no version.\<close>

definition values_laws :: "values_ops \<Rightarrow> bool" where
  "values_laws vo \<longleftrightarrow> (\<forall>m v ks m'. ks \<noteq> [] \<longrightarrow> vo_SetNestedField vo m v ks = (None, m') \<longrightarrow> vo_NestedString vo m' ks = Inr (Some v))"

text \<open>
  C24. Without a pinned tag a release is never downgraded: when the observed version is one, the version that
  is chosen is at least that, it is the claim's, the observed or the desired one, and it is what the desired values have
  afterwards.
\<close>

theorem release_never_downgraded:
  assumes "semver_order so rank" "values_laws vo" "flds \<noteq> []" "so_ParseTolerant so '''' = Inl empty_error"
    "vo_NestedString vo observed flds = Inr (Some ov)" "so_ParseTolerant so ov = Inr obs"
    "SetReleaseVersion so vo version desired observed flds '''' = ((v, None), values)"
  shows "\<exists>r. so_ParseTolerant so v = Inr r \<and> rank obs \<le> rank r \<and> vo_NestedString vo values flds = Inr (Some v)"
proof -
  note le = semver_orderD(1) [OF assms(1)]
  obtain comp where comp: "so_ParseTolerant so version = Inr comp"
    using assms(5-7) by (auto simp: SetReleaseVersion_def Let_def split: sum.splits)
  obtain found where found: "vo_NestedString vo desired flds = Inr found"
    using assms(5-7) comp by (auto simp: SetReleaseVersion_def Let_def split: sum.splits)
  have used: "vo_NestedString vo m' flds = Inr (Some x)" if "vo_SetNestedField vo desired x flds = (None, m')" for x m'
    using assms(2,3) that unfolding values_laws_def by blast
  show ?thesis
  proof (cases "so_ParseTolerant so (or_zero '''' found)")
    case (Inl e)
    then show ?thesis
      using assms(5-7) comp found used le
      by (auto simp: SetReleaseVersion_def Let_def not_le split: if_splits prod.splits)
  next
    case (Inr d)
    then have f: "found = Some (or_zero '''' found)" using assms(4) by (cases found) auto
    show ?thesis
      using assms(5-7) comp found used le Inr f
      by (auto simp: SetReleaseVersion_def Let_def not_le split: if_splits prod.splits)
  qed
qed


text \<open>What \<open>SetNestedField\<close> does, for a witness.\<close>

fun put_nested :: "(string \<times> gany) list \<Rightarrow> string \<Rightarrow> string list \<Rightarrow> gerr option \<times> (string \<times> gany) list" where
  "put_nested m v [] = (Some (Msg ''no fields''), m)"
| "put_nested m v [k] = (None, any_put k (GStr v) m)"
| "put_nested m v (k # ks) =
     (case map_of m k of
        None \<Rightarrow> (case put_nested [] v ks of (e, m') \<Rightarrow> (e, any_put k (GMap m') m))
      | Some (GMap m1) \<Rightarrow> (case put_nested m1 v ks of (e, m') \<Rightarrow> (e, any_put k (GMap m') m))
      | Some _ \<Rightarrow> (Some (Msg ''value cannot be set''), m))"

definition example_values_ops :: values_ops where
  "example_values_ops = \<lparr>vo_NestedString = nested_as as_string, vo_SetNestedField = put_nested\<rparr>"

lemma put_nested_get: "put_nested m v ks = (None, m') \<Longrightarrow> nested_as as_string m' ks = Inr (Some v)"
proof (induction m v ks arbitrary: m' rule: put_nested.induct)
  case (3 m v k k2 ks)
  then show ?case
    by (auto simp: nested_as_def split: option.splits gany.splits prod.splits)
qed (auto simp: nested_as_def)

lemma example_values_laws: "values_laws example_values_ops"
  by (auto simp: values_laws_def example_values_ops_def put_nested_get)

text \<open>The claim asks for 7.2.4, and 7.4.1 runs.\<close>

theorem release_never_downgraded_witness:
  "\<exists>r. so_ParseTolerant example_semver ''7.4.1'' = Inr r \<and> example_rank \<lparr>vs_Major = 7, vs_Minor = 4, vs_Patch = 1, vs_Pre = None\<rparr> \<le> example_rank r
     \<and> vo_NestedString example_values_ops [(''image'', GMap [(''tag'', GStr ''7.4.1'')])] [''image'', ''tag''] = Inr (Some ''7.4.1'')"
proof (rule release_never_downgraded [where so = example_semver and flds = "[''image'', ''tag'']" and empty_error = "Msg ''invalid version''"
      and observed = "[(''image'', GMap [(''tag'', GStr ''7.4.1'')])]" and ov = "''7.4.1''" and version = "''7.2.4''"
      and desired = "[(''image'', GMap [(''tag'', GStr ''7.0.0'')])]"])
  show "semver_order example_semver example_rank" by (rule example_semver_order)
  show "values_laws example_values_ops" by (rule example_values_laws)
  show "so_ParseTolerant example_semver '''' = Inl (Msg ''invalid version'')" by code_simp
  show "vo_NestedString example_values_ops [(''image'', GMap [(''tag'', GStr ''7.4.1'')])] [''image'', ''tag''] = Inr (Some ''7.4.1'')"
    by code_simp
  show "so_ParseTolerant example_semver ''7.4.1'' = Inr \<lparr>vs_Major = 7, vs_Minor = 4, vs_Patch = 1, vs_Pre = None\<rparr>" by code_simp
  show "SetReleaseVersion example_semver example_values_ops ''7.2.4'' [(''image'', GMap [(''tag'', GStr ''7.0.0'')])]
      [(''image'', GMap [(''tag'', GStr ''7.4.1'')])] [''image'', ''tag''] '''' = ((''7.4.1'', None), [(''image'', GMap [(''tag'', GStr ''7.4.1'')])])"
    by code_simp
qed simp

text \<open>The time at which a tag was pinned is kept as long as the tag is.\<close>

lemma pin_status_stable:
  "UpdatePinImageTagStatus later tag (UpdatePinImageTagStatus now tag status) = UpdatePinImageTagStatus now tag status"
  by (simp add: UpdatePinImageTagStatus_def)

end
