(* ===== verification/RedisResize.thy ===== *)
theory RedisResize
  imports MaintenanceCron
begin

text \<open>
  Growing the disk of a Redis instance, \<open>src/pkg/comp-functions/functions/vshnredis/pvcresize.go\<close>: the job that deletes the
  stateful set, so that Helm can create it again with larger volumes, and how long it stays desired.
\<close>

text \<open>What the code reads of an observed stateful set: the storage of its volume templates, and its ready replicas.\<close>

record 'q sts_info =
  si_Storage :: "'q list"
  si_ReadyReplicas :: int

text \<open>
  Quantities, and the decoding of the values of a release, of a job (its succeeded pods) and of a stateful set.
  \<open>rz_AsInt64\<close> is the value without the flag that says whether it is one.
\<close>

record 'q resize_env =
  rz_rt :: runtime_env
  rz_Parse :: "string \<Rightarrow> gerr + 'q"
  rz_AsInt64 :: "'q \<Rightarrow> int"
  rz_Values :: "composed_resource \<Rightarrow> gerr + (string \<times> gany) list"
  rz_NestedString :: "(string \<times> gany) list \<Rightarrow> string list \<Rightarrow> gerr + string option"
  rz_Job :: "(string \<times> gany) list \<Rightarrow> gerr + int"
  rz_Sts :: "(string \<times> gany) list \<Rightarrow> gerr + 'q sts_info"

record redis_comp =
  rd_Name :: string
  rd_Disk :: string

definition redis_instance_namespace :: "redis_comp \<Rightarrow> string" where
  "redis_instance_namespace c = ''vshn-redis-'' @ rd_Name c"

definition redisRelease :: string where "redisRelease = ''release''"

definition getSizeAsInt :: "'q resize_env \<Rightarrow> string \<Rightarrow> gerr + int" where
  "getSizeAsInt rz disk = map_sum id (rz_AsInt64 rz) (rz_Parse rz disk)"

text \<open>A missing field is reported before an error; the typed getter reports both at once.\<close>

definition needReleasePatch :: "'q resize_env \<Rightarrow> redis_comp \<Rightarrow> (string \<times> gany) list \<Rightarrow> gerr + bool" where
  "needReleasePatch rz c vals =
     (case rz_NestedString rz vals [''replica'', ''persistence'', ''size''] of
        Inl e \<Rightarrow> Inl (Msg ''disk size not found in release'')
      | Inr None \<Rightarrow> Inl (Msg ''disk size not found in release'')
      | Inr (Some releaseSize) \<Rightarrow>
          (case getSizeAsInt rz (rd_Disk c) of
             Inl e \<Rightarrow> Inl (Wrapped ''cannot parse desired disk size'' e)
           | Inr desiredInt \<Rightarrow>
               (case getSizeAsInt rz releaseSize of
                  Inl e \<Rightarrow> Inl (Wrapped ''cannot parse release disk size'' e)
                | Inr releaseInt \<Rightarrow> Inr (releaseInt < desiredInt))))"

definition getObservedOrDesiredRelease :: "service_runtime \<Rightarrow> rt_error + composed_resource" where
  "getObservedOrDesiredRelease s =
     (case GetObservedComposedResource s redisRelease of
        Inr r \<Rightarrow> Inr r
      | Inl NotFoundError \<Rightarrow>
          (case GetDesiredComposedResourceByName s redisRelease of None \<Rightarrow> Inl NotFoundError | Some r \<Rightarrow> Inr r)
      | Inl e \<Rightarrow> Inl (wrap_rt ''cannot get redis release from observed iof'' e))"

definition addDeletionJob :: "'q resize_env \<Rightarrow> string \<Rightarrow> redis_comp \<Rightarrow> service_runtime \<Rightarrow> rt_error option \<times> service_runtime" where
  "addDeletionJob rz script c s =
     SetDesiredKubeObject (rz_rt rz)
       (plain_object ''Job'' (rd_Name c @ ''-sts-deletion-job'') (data_field (sr_Config s) ''controlNamespace'')
          [(''spec'', GMap [(''template'', GMap [(''spec'', GMap [
             (''serviceAccountName'', GStr ''sa-sts-deleter''), (''restartPolicy'', GStr ''Never''),
             (''containers'', GList [GMap [
                (''name'', GStr ''sts-deleter''), (''image'', GStr (data_field (sr_Config s) ''kubectl_image'')),
                (''imagePullPolicy'', GStr ''IfNotPresent''),
                (''env'', env_vars [(''STS_NAME'', ''redis-node''), (''STS_NAMESPACE'', redis_instance_namespace c),
                   (''STS_SIZE'', rd_Disk c), (''COMPOSITION_NAME'', rd_Name c)]),
                (''command'', GList [GStr ''bash'', GStr ''-c'']), (''args'', GList [GStr script])]])])])])])
       (rd_Name c @ ''-sts-deleter'') [KubeOptionAllowDeletion] s"

definition addStsObserver :: "'q resize_env \<Rightarrow> redis_comp \<Rightarrow> service_runtime \<Rightarrow> rt_error option \<times> service_runtime" where
  "addStsObserver rz c s =
     SetDesiredKubeObject (rz_rt rz) (plain_object ''StatefulSet'' ''redis-node'' (redis_instance_namespace c) [])
       (rd_Name c @ ''-sts-observer'') [KubeOptionObserve, KubeOptionAllowDeletion] s"

text \<open>The stateful set as observed; one that is not there yet is the zero value.\<close>

definition observed_sts :: "'q resize_env \<Rightarrow> redis_comp \<Rightarrow> service_runtime \<Rightarrow> rt_error + 'q sts_info" where
  "observed_sts rz c s =
     (case GetObservedKubeObject s (rd_Name c @ ''-sts-observer'') of
        Inl NotFoundError \<Rightarrow> Inr \<lparr>si_Storage = [], si_ReadyReplicas = 0\<rparr>
      | Inl e \<Rightarrow> Inl e
      | Inr m \<Rightarrow> (case rz_Sts rz m of Inl e \<Rightarrow> Inl (RtErr e) | Inr x \<Rightarrow> Inr x))"

definition sts_size :: "'q resize_env \<Rightarrow> 'q sts_info \<Rightarrow> int" where
  "sts_size rz x = (case si_Storage x of [] \<Rightarrow> 0 | q # _ \<Rightarrow> rz_AsInt64 rz q)"

definition fatal_error :: "string \<Rightarrow> fn_result option" where
  "fatal_error msg = Some (SeverityFatal, msg)"

text \<open>What is done about a job that has been deployed in an earlier run; its manifest is there once it is observed.\<close>

definition follow_job ::
    "'q resize_env \<Rightarrow> string \<Rightarrow> redis_comp \<Rightarrow> (string \<times> gany) list option \<Rightarrow> service_runtime \<Rightarrow> fn_result option \<times> service_runtime" where
  "follow_job rz script c manifest s =
     (case observed_sts rz c s of
        Inl e \<Rightarrow> (fatal_error ''cannot get observed statefulset job'', s)
      | Inr sts \<Rightarrow>
     (case getSizeAsInt rz (rd_Disk c) of
        Inl e \<Rightarrow> (fatal_error ''cannot parse desired size'', s)
      | Inr desiredSize \<Rightarrow>
     (case (case manifest of None \<Rightarrow> Inr 0 | Some m \<Rightarrow> rz_Job rz m) of
        Inl e \<Rightarrow> (fatal_error ''cannot unmarshal sts deleter job'', s)
      | Inr succeeded \<Rightarrow>
          (if (manifest = None \<or> succeeded < 1) \<or> (si_ReadyReplicas sts = 0 \<and> sts_size rz sts \<noteq> desiredSize)
           then (case addDeletionJob rz script c s of
                   (Some e, s) \<Rightarrow> (fatal_error ''cannot create RBAC for the deletion job'', s)
                 | (None, s) \<Rightarrow> (None, s))
           else (None, s)))))"

definition ResizePVCs :: "'q resize_env \<Rightarrow> string \<Rightarrow> redis_comp \<Rightarrow> service_runtime \<Rightarrow> fn_result option \<times> service_runtime" where
  "ResizePVCs rz script c s =
     (if rd_Disk c = '''' then (None, s)
      else
     (case getObservedOrDesiredRelease s of
        Inl NotFoundError \<Rightarrow> (None, s)
      | Inl e \<Rightarrow> (fatal_error ''cannot get release'', s)
      | Inr release \<Rightarrow>
     (case rz_Values rz release of
        Inl e \<Rightarrow> (fatal_error ''cannot parse release values'', s)
      | Inr vals \<Rightarrow>
     (case addStsObserver rz c s of
        (Some e, s) \<Rightarrow> (fatal_error ''cannot observe sts'', s)
      | (None, s) \<Rightarrow>
     (case needReleasePatch rz c vals of
        Inl e \<Rightarrow> (fatal_error ''cannot compare the disk sizes'', s)
      | Inr True \<Rightarrow>
          (case addDeletionJob rz script c s of
             (Some e, s) \<Rightarrow> (fatal_error ''cannot create RBAC for the deletion job'', s)
           | (None, s) \<Rightarrow> (None, s))
      | Inr False \<Rightarrow>
          (case map_of (sr_observed s) (EscapeDNS1123 (rd_Name c @ ''-sts-deleter'') False) of
             None \<Rightarrow> (None, s)
           | Some xJob \<Rightarrow> follow_job rz script c (or_AtProvider xJob) s))))))"


section \<open>How long the job stays\<close>

definition deleter_name :: "redis_comp \<Rightarrow> string" where
  "deleter_name c = rd_Name c @ ''-sts-deleter''"

text \<open>
  The job has done its work: a pod of it has succeeded, and the stateful set is as large as it should be, or at
  least running.
\<close>

definition job_finished :: "'q resize_env \<Rightarrow> redis_comp \<Rightarrow> service_runtime \<Rightarrow> observed_composed \<Rightarrow> bool" where
  "job_finished rz c s xJob \<longleftrightarrow>
     (\<exists>m n sts d. or_AtProvider xJob = Some m \<and> rz_Job rz m = Inr n \<and> 1 \<le> n \<and> observed_sts rz c s = Inr sts \<and>
        getSizeAsInt rz (rd_Disk c) = Inr d \<and> (si_ReadyReplicas sts \<noteq> 0 \<or> sts_size rz sts = d))"

lemma observed_sts_cong: "sr_observed s' = sr_observed s \<Longrightarrow> observed_sts rz c s' = observed_sts rz c s"
  by (simp add: observed_sts_def GetObservedKubeObject_def)

lemma addDeletionJob_desired: "addDeletionJob rz script c s = (None, s') \<Longrightarrow> is_desired s' (deleter_name c)"
  unfolding addDeletionJob_def deleter_name_def by (rule kube_is_desired)

lemma follow_job_desired:
  assumes "follow_job rz script c (or_AtProvider xJob) s = (None, s')" "\<not> is_desired s (deleter_name c)"
  shows "is_desired s' (deleter_name c) \<longleftrightarrow> \<not> job_finished rz c s xJob"
proof -
  obtain sts where sts: "observed_sts rz c s = Inr sts"
    using assms(1) by (auto simp: follow_job_def fatal_error_def split: sum.splits)
  obtain d where d: "getSizeAsInt rz (rd_Disk c) = Inr d"
    using assms(1) sts by (auto simp: follow_job_def fatal_error_def split: sum.splits)
  obtain n where n: "(case or_AtProvider xJob of None \<Rightarrow> Inr 0 | Some m \<Rightarrow> rz_Job rz m) = (Inr n :: gerr + int)"
    using assms(1) sts d by (auto simp: follow_job_def fatal_error_def split: sum.splits)
  have f: "job_finished rz c s xJob \<longleftrightarrow> \<not> ((or_AtProvider xJob = None \<or> n < 1) \<or> si_ReadyReplicas sts = 0 \<and> sts_size rz sts \<noteq> d)"
    using sts d n by (auto simp: job_finished_def not_less split: option.splits)
  show ?thesis
  proof (cases "job_finished rz c s xJob")
    case True
    then have "s' = s" using assms(1) f by (auto simp: follow_job_def sts d n split: if_splits prod.splits)
    then show ?thesis using True assms(2) by simp
  next
    case False
    then have "(case addDeletionJob rz script c s of (Some e, s) \<Rightarrow> (fatal_error ''cannot create RBAC for the deletion job'', s) | (None, s) \<Rightarrow> (None, s)) = (None, s')"
      using assms(1) f by (simp add: follow_job_def sts d n)
    then show ?thesis using False addDeletionJob_desired [of rz script c s s'] by (auto simp: fatal_error_def split: prod.splits option.splits)
  qed
qed

text \<open>
  C27. The job that replaces the stateful set is desired exactly as long as it is needed: when the disk is to grow, and
  from then on, once it has been deployed, until it has succeeded and the stateful set has the new size or is running. So
  it is neither removed while it works nor left behind, where it would keep a later growth from deploying it again.
\<close>

theorem deleter_job_kept_while_needed:
  assumes "ResizePVCs rz script c s = (None, s')" "rd_Disk c \<noteq> ''''" "getObservedOrDesiredRelease s = Inr release"
    "rz_Values rz release = Inr vals" "needReleasePatch rz c vals = Inr grow" "\<not> is_desired s (deleter_name c)"
    "EscapeDNS1123 (deleter_name c) False \<noteq> EscapeDNS1123 (rd_Name c @ ''-sts-observer'') False"
  shows "is_desired s' (deleter_name c) \<longleftrightarrow>
    grow \<or> (\<exists>xJob. map_of (sr_observed s) (EscapeDNS1123 (deleter_name c) False) = Some xJob \<and> \<not> job_finished rz c s xJob)"
proof -
  obtain e s1 where o1: "addStsObserver rz c s = (e, s1)" by fastforce
  have e: "e = None" using assms(1-5) o1 by (auto simp: ResizePVCs_def fatal_error_def split: option.splits)
  have t: "touches {EscapeDNS1123 (rd_Name c @ ''-sts-observer'') False} s s1"
    using o1 unfolding addStsObserver_def by (rule touches_kubeD)
  have n: "\<not> is_desired s1 (deleter_name c)" using not_desired [OF t] assms(6,7) by simp
  have fin: "job_finished rz c s1 x = job_finished rz c s x" for x
    by (simp add: job_finished_def observed_sts_cong [OF touchesD(3) [OF t]])
  have rest: "(case needReleasePatch rz c vals of
        Inl e \<Rightarrow> (fatal_error ''cannot compare the disk sizes'', s1)
      | Inr True \<Rightarrow> (case addDeletionJob rz script c s1 of (Some e, s) \<Rightarrow> (fatal_error ''cannot create RBAC for the deletion job'', s) | (None, s) \<Rightarrow> (None, s))
      | Inr False \<Rightarrow> (case map_of (sr_observed s1) (EscapeDNS1123 (rd_Name c @ ''-sts-deleter'') False) of
             None \<Rightarrow> (None, s1) | Some xJob \<Rightarrow> follow_job rz script c (or_AtProvider xJob) s1)) = (None, s')"
    using assms(1-4) o1 e by (simp add: ResizePVCs_def)
  show ?thesis
  proof (cases grow)
    case True
    then show ?thesis
      using rest assms(5) addDeletionJob_desired [of rz script c s1 s'] by (auto simp: fatal_error_def split: prod.splits option.splits)
  next
    case False
    show ?thesis
    proof (cases "map_of (sr_observed s1) (EscapeDNS1123 (deleter_name c) False)")
      case None
      then have "s' = s1" using rest assms(5) False by (simp add: deleter_name_def)
      then show ?thesis using None n False touchesD(3) [OF t] by simp
    next
      case (Some xJob)
      then have "follow_job rz script c (or_AtProvider xJob) s1 = (None, s')" using rest assms(5) False by (simp add: deleter_name_def)
      from follow_job_desired [OF this n] show ?thesis using Some False fin touchesD(3) [OF t] by simp
    qed
  qed
qed

text \<open>The release has 16 and so does the claim; the job of the growth has been deployed and has not been seen yet.\<close>

definition example_resize :: "int resize_env" where
  "example_resize = \<lparr>rz_rt = example_runtime_env, rz_Parse = (\<lambda>x. case parse_int x of None \<Rightarrow> Inl (Msg ''quantity'') | Some n \<Rightarrow> Inr n),
     rz_AsInt64 = id, rz_Values = (\<lambda>_. Inr [(''replica'', GMap [(''persistence'', GMap [(''size'', GStr ''16'')])])]),
     rz_NestedString = nested_as as_string, rz_Job = (\<lambda>_. Inr 0), rz_Sts = (\<lambda>_. Inr \<lparr>si_Storage = [8], si_ReadyReplicas = 1\<rparr>)\<rparr>"

definition resizing :: service_runtime where
  "resizing = example_runtime\<lparr>sr_observed :=
     [(''release'', \<lparr>or_Resource = example_resource, or_Status = Inr None, or_ConnectionDetails = Map.empty, or_AtProvider = None\<rparr>),
      (''redis-a-sts-deleter'', \<lparr>or_Resource = example_resource, or_Status = Inr None, or_ConnectionDetails = Map.empty, or_AtProvider = None\<rparr>)]\<rparr>"

theorem deleter_job_kept_while_needed_witness:
  "is_desired (snd (ResizePVCs example_resize ''script'' \<lparr>rd_Name = ''redis-a'', rd_Disk = ''16''\<rparr> resizing)) ''redis-a-sts-deleter''"
proof -
  let ?c = "\<lparr>rd_Name = ''redis-a'', rd_Disk = ''16''\<rparr>"
  have k: "\<exists>s'. SetDesiredKubeObject (rz_rt example_resize) obj n opts s = (None, s')" for obj n opts s
    by (simp add: example_resize_def example_kube_ok)
  have d: "deleter_name ?c = ''redis-a-sts-deleter''" by (simp add: deleter_name_def)
  have e: "EscapeDNS1123 ''redis-a-sts-deleter'' False = ''redis-a-sts-deleter''"
    "EscapeDNS1123 ''redis-a-sts-observer'' False = ''redis-a-sts-observer''" "EscapeDNS1123 ''release'' False = ''release''"
    by (intro escape_plain; simp add: dns1123_match_def is_lower_alnum_def)+
  have p: "getSizeAsInt example_resize ''16'' = Inr 16" by (simp add: example_resize_def getSizeAsInt_def) code_simp
  have r: "getObservedOrDesiredRelease resizing = Inr example_resource"
    by (simp add: getObservedOrDesiredRelease_def GetObservedComposedResource_def redisRelease_def e resizing_def)
  obtain s1 where s1: "addStsObserver example_resize ?c resizing = (None, s1)" using k unfolding addStsObserver_def by blast
  have t: "sr_observed s1 = sr_observed resizing"
    using s1 unfolding addStsObserver_def by (blast dest: touchesD(3) [OF touches_kubeD])
  obtain s2 where s2: "addDeletionJob example_resize ''script'' ?c s1 = (None, s2)" using k unfolding addDeletionJob_def by blast
  have sts: "observed_sts example_resize ?c s1 = Inr \<lparr>si_Storage = [], si_ReadyReplicas = 0\<rparr>"
    by (simp add: observed_sts_def GetObservedKubeObject_def t e resizing_def)
  have patch: "needReleasePatch example_resize ?c [(''replica'', GMap [(''persistence'', GMap [(''size'', GStr ''16'')])])] = Inr False"
    using p by (simp add: needReleasePatch_def example_resize_def nested_as_def)
  have vals: "rz_Values example_resize example_resource = Inr [(''replica'', GMap [(''persistence'', GMap [(''size'', GStr ''16'')])])]"
    by (simp add: example_resize_def)
  have job: "follow_job example_resize ''script'' ?c None s1 = (None, s2)" by (simp add: follow_job_def sts p s2)
  obtain xJob where x: "map_of (sr_observed s1) ''redis-a-sts-deleter'' = Some xJob" "or_AtProvider xJob = None"
    by (simp add: t resizing_def)
  have run: "ResizePVCs example_resize ''script'' ?c resizing = (None, s2)"
    by (simp add: ResizePVCs_def r vals s1 patch e x job)
  have "is_desired s2 (deleter_name ?c) \<longleftrightarrow>
    False \<or> (\<exists>xJob. map_of (sr_observed resizing) (EscapeDNS1123 (deleter_name ?c) False) = Some xJob \<and> \<not> job_finished example_resize ?c resizing xJob)"
    by (rule deleter_job_kept_while_needed [OF run _ r vals patch])
      (simp_all add: d e is_desired_def resizing_def example_runtime_def)
  then show ?thesis using run by (auto simp: d e resizing_def job_finished_def)
qed

end
