(* ===== verification/Credentials.thy ===== *)
theory Credentials
  imports Step_Frame
begin

text \<open>
  The secrets with generated passwords of \<open>src/pkg/comp-functions/functions/common/password.go\<close>. The generator and
  the decoding of an observed secret are parameters; a connection detail is written as the path of the field in
  the secret that it exposes.
\<close>

record comp_info =
  ci_Name :: string
  ci_InstanceNamespace :: string
  ci_ClaimNamespace :: string
  ci_Labels :: str_map

text \<open>\<open>ce_Secret\<close> decodes the manifest of an observed secret into its data, \<open>ce_Generate\<close> draws a password.\<close>

record 'w cred_env =
  ce_rt :: runtime_env
  ce_Secret :: "(string \<times> gany) list \<Rightarrow> gerr + str_map"
  ce_Generate :: "'w \<Rightarrow> (gerr + string) \<times> 'w"

type_synonym string_data = "(string \<times> string) list"

text \<open>An option sees the secret's namespace and name, and changes its data and the details.\<close>

type_synonym cred_option = "string \<Rightarrow> string \<Rightarrow> string_data \<Rightarrow> string list \<Rightarrow> string_data \<times> string list"

definition genPassword :: "'w cred_env \<Rightarrow> 'w \<Rightarrow> (gerr + string) \<times> 'w" where
  "genPassword ce w = ce_Generate ce w"

definition secret_detail :: "string \<Rightarrow> string \<Rightarrow> string \<Rightarrow> string" where
  "secret_detail ns name field = ns @ ''/'' @ name @ ''/data.'' @ field"

text \<open>The loop over the fields, on the data there is.\<close>

fun fill_fields :: "'w cred_env \<Rightarrow> str_map \<Rightarrow> string list \<Rightarrow> string_data \<Rightarrow> 'w \<Rightarrow> (gerr + string_data) \<times> 'w" where
  "fill_fields ce data [] acc w = (Inr acc, w)"
| "fill_fields ce data (field # flds) acc w =
     (case data field of
        Some v \<Rightarrow> fill_fields ce data flds (any_put field v acc) w
      | None \<Rightarrow>
          (case genPassword ce w of
             (Inl e, w) \<Rightarrow> (Inl (Wrapped ''cannot generate pw'' e), w)
           | (Inr pw, w) \<Rightarrow> fill_fields ce data flds (any_put field pw acc) w))"

definition string_object :: "string_data \<Rightarrow> gany" where
  "string_object m = GMap (map (\<lambda>(k, v). (k, GStr v)) m)"

definition secret_object :: "string \<Rightarrow> string \<Rightarrow> string_data \<Rightarrow> kube_object" where
  "secret_object name ns data =
     \<lparr>kb_Kind = ''Secret'', kb_Name = name, kb_Namespace = ns, kb_ResourceVersion = '''', kb_UID = '''', kb_SelfLink = '''',
      kb_Generation = 0, kb_OwnerReferences = [], kb_Labels = Map.empty, kb_Annotations = None,
      kb_Body = GMap [(''stringData'', string_object data)]\<rparr>"

text \<open>What both functions do once the data is there.\<close>

definition set_credentials ::
    "runtime_env \<Rightarrow> comp_info \<Rightarrow> string \<Rightarrow> string list \<Rightarrow> bool \<Rightarrow> cred_option list \<Rightarrow> string_data \<Rightarrow> service_runtime \<Rightarrow>
     rt_error option \<times> service_runtime" where
  "set_credentials rt inst name flds allowDeletion opts data s =
     (let ns = ci_InstanceNamespace inst;
          (data, cd) = fold (\<lambda>f (d, c). f ns name d c) opts (data, map (secret_detail ns name) flds)
      in SetDesiredKubeObject rt (secret_object name ns data) name
           (KubeOptionAddConnectionDetails (GetCrossplaneNamespace s) cd # (if allowDeletion then [KubeOptionAllowDeletion] else [])) s)"

text \<open>A secret that is not there yet has no data.\<close>

definition observed_data :: "'w cred_env \<Rightarrow> service_runtime \<Rightarrow> string \<Rightarrow> rt_error + str_map" where
  "observed_data ce s name =
     (case GetObservedKubeObject s name of
        Inl NotFoundError \<Rightarrow> Inr Map.empty
      | Inl e \<Rightarrow> Inl e
      | Inr m \<Rightarrow> (case ce_Secret ce m of Inl e \<Rightarrow> Inl (RtErr e) | Inr d \<Rightarrow> Inr d))"

definition AddGenericSecret ::
    "'w cred_env \<Rightarrow> comp_info \<Rightarrow> string \<Rightarrow> string list \<Rightarrow> bool \<Rightarrow> cred_option list \<Rightarrow> service_runtime \<Rightarrow> 'w \<Rightarrow>
     (string \<times> rt_error option) \<times> service_runtime \<times> 'w" where
  "AddGenericSecret ce inst suffix fieldList allowDeletion opts s w =
     (let name = EscapeDNS1123 (ci_Name inst @ ''-'' @ suffix) False
      in (case observed_data ce s name of
            Inl e \<Rightarrow> ((name, Some e), s, w)
          | Inr data \<Rightarrow>
              (case fill_fields ce data fieldList [] w of
                 (Inl e, w) \<Rightarrow> ((name, Some (RtErr e)), s, w)
               | (Inr sd, w) \<Rightarrow>
                   (case set_credentials (ce_rt ce) inst name fieldList allowDeletion opts sd s of (e, s) \<Rightarrow> ((name, e), s, w)))))"

definition AddCredentialsSecret ::
    "'w cred_env \<Rightarrow> comp_info \<Rightarrow> string list \<Rightarrow> bool \<Rightarrow> cred_option list \<Rightarrow> service_runtime \<Rightarrow> 'w \<Rightarrow>
     (string \<times> rt_error option) \<times> service_runtime \<times> 'w" where
  "AddCredentialsSecret ce inst fieldList allowDeletion opts s w =
     AddGenericSecret ce inst ''credentials-secret'' fieldList allowDeletion opts s w"

definition AddCredentialsSecretFromValues ::
    "'w cred_env \<Rightarrow> comp_info \<Rightarrow> str_map \<Rightarrow> string list \<Rightarrow> bool \<Rightarrow> cred_option list \<Rightarrow> service_runtime \<Rightarrow> 'w \<Rightarrow>
     (string \<times> rt_error option) \<times> service_runtime \<times> 'w" where
  "AddCredentialsSecretFromValues ce inst vals fieldList allowDeletion opts s w =
     (let name = EscapeDNS1123 (ci_Name inst @ ''-credentials-secret'') False
      in (case fill_fields ce vals fieldList [] w of
            (Inl e, w) \<Rightarrow> ((name, Some (RtErr e)), s, w)
          | (Inr sd, w) \<Rightarrow>
              (case set_credentials (ce_rt ce) inst name fieldList allowDeletion opts sd s of (e, s) \<Rightarrow> ((name, e), s, w))))"

text \<open>\<open>flds\<close> is the map in the order in which it is visited.\<close>

definition AddStaticFieldToSecret :: "string_data \<Rightarrow> cred_option" where
  "AddStaticFieldToSecret flds ns name data cd =
     (fold (\<lambda>(k, v). any_put k v) flds data, cd @ map (\<lambda>(k, v). secret_detail ns name k) flds)"

section \<open>Passwords are kept\<close>

lemma fill_fields_dom:
  "fill_fields ce data flds acc w = (Inr sd, w') \<Longrightarrow> dom (map_of sd) = set flds \<union> dom (map_of acc)"
  by (induction ce data flds acc w rule: fill_fields.induct) (auto split: option.splits sum.splits prod.splits)

lemma fill_fields_known: "fill_fields ce data flds acc w = (Inr sd, w') \<Longrightarrow> set flds \<subseteq> dom data \<Longrightarrow> w' = w"
proof (induction flds arbitrary: acc)
  case (Cons f flds)
  then obtain v where "data f = Some v" by auto
  then show ?case using Cons.IH [of "any_put f v acc"] Cons.prems by simp
qed simp

text \<open>A field that the observed data has keeps its value, whatever the others get.\<close>

lemma fill_fields_keeps:
  "fill_fields ce data flds acc w = (Inr sd, w') \<Longrightarrow> f \<in> set flds \<Longrightarrow> data f = Some v \<Longrightarrow> map_of sd f = Some v"
proof (induction ce data flds acc w rule: fill_fields.induct)
  case (2 ce data field flds acc w)
  have later: "map_of sd f = map_of acc' f" if "fill_fields ce data flds acc' w1 = (Inr sd, w')" "f \<notin> set flds" for acc' w1
    using that
  proof (induction flds arbitrary: acc' w1)
    case (Cons g gs)
    then show ?case by (auto split: option.splits sum.splits prod.splits)
  qed simp
  show ?case
  proof (cases "f \<in> set flds")
    case True
    then show ?thesis using 2 by (auto split: option.splits sum.splits prod.splits)
  next
    case False
    then have "f = field" using 2(4) by simp
    then show ?thesis using 2(3,5) later [OF _ False] by auto
  qed
qed simp


text \<open>The static fields of all options are put over the generated ones.\<close>

lemma static_options:
  "\<exists>cd'. fold (\<lambda>f (d, c). f ns name d c) (map AddStaticFieldToSecret statics) (data, cd) =
     (fold (\<lambda>(k, v). any_put k v) (concat statics) data, cd')"
  by (induction statics arbitrary: data cd) (simp_all add: AddStaticFieldToSecret_def)

lemma put_all:
  "k \<notin> fst ` set flds \<Longrightarrow> map_of (fold (\<lambda>(k, v). any_put k v) flds data) k = map_of data k"
  "dom (map_of (fold (\<lambda>(k, v). any_put k v) flds data)) = fst ` set flds \<union> dom (map_of data)"
  by (induction flds arbitrary: data) auto

lemma AddGenericSecret_run:
  assumes "EscapeDNS1123 (ci_Name inst @ ''-'' @ suffix) False = name" "observed_data ce s name = Inr data"
    "fill_fields ce data flds [] w = (Inr sd, w1)" "set_credentials (ce_rt ce) inst name flds allow opts sd s = (e, s1)"
  shows "AddGenericSecret ce inst suffix flds allow opts s w = ((name, e), s1, w1)"
  unfolding AddGenericSecret_def Let_def assms(1) by (simp add: assms(2-4))

text \<open>
  C25. A password that is there is never replaced: whenever a run sets the secret again, every field that the observed
  secret has keeps its value, whichever of the others are missing and whatever the generator gives for those, unless
  the service gives the field a static value; every field asked for is in it, and nothing is generated when all are there.
\<close>

theorem passwords_are_kept:
  assumes "observed_data ce s (EscapeDNS1123 (ci_Name inst @ ''-'' @ suffix) False) = Inr data"
    "AddGenericSecret ce inst suffix flds allow (map AddStaticFieldToSecret statics) s w = ((name, None), s', w')"
  shows "\<exists>sd opts. SetDesiredKubeObject (ce_rt ce) (secret_object name (ci_InstanceNamespace inst) sd) name opts s = (None, s') \<and>
    dom (map_of sd) = set flds \<union> fst ` set (concat statics) \<and>
    (\<forall>f \<in> set flds - fst ` set (concat statics). \<forall>v. data f = Some v \<longrightarrow> map_of sd f = Some v) \<and>
    (set flds \<subseteq> dom data \<longrightarrow> w' = w)"
proof -
  let ?name = "EscapeDNS1123 (ci_Name inst @ ''-'' @ suffix) False"
  obtain gen w1 where f: "fill_fields ce data flds [] w = (Inr gen, w1)"
    using assms by (auto simp: AddGenericSecret_def Let_def split: prod.splits sum.splits)
  obtain e s1 where set: "set_credentials (ce_rt ce) inst ?name flds allow (map AddStaticFieldToSecret statics) gen s = (e, s1)" by fastforce
  then have run: "name = ?name" "e = None" "s' = s1" "w' = w1" using assms f by (simp_all add: AddGenericSecret_def Let_def)
  let ?sd = "fold (\<lambda>(k, v). any_put k v) (concat statics) gen"
  obtain cd' where "fold (\<lambda>f (d, c). f (ci_InstanceNamespace inst) ?name d c) (map AddStaticFieldToSecret statics)
      (gen, map (secret_detail (ci_InstanceNamespace inst) ?name) flds) = (?sd, cd')" using static_options by blast
  then have "\<exists>opts. SetDesiredKubeObject (ce_rt ce) (secret_object name (ci_InstanceNamespace inst) ?sd) name opts s = (None, s')"
    using set run by (auto simp: set_credentials_def Let_def)
  moreover have "dom (map_of ?sd) = set flds \<union> fst ` set (concat statics)"
    using put_all(2) [of "concat statics" gen] fill_fields_dom [OF f] by auto
  moreover have "map_of ?sd f = Some v" if "f \<in> set flds - fst ` set (concat statics)" "data f = Some v" for f v
    using that put_all(1) [of f "concat statics" gen] fill_fields_keeps [OF f, of f v] by simp
  moreover have "set flds \<subseteq> dom data \<Longrightarrow> w' = w" using fill_fields_known [OF f] run by simp
  ultimately show ?thesis by blast
qed

text \<open>The generator counts.\<close>

definition example_cred_env :: "nat cred_env" where
  "example_cred_env = \<lparr>ce_rt = example_runtime_env,
     ce_Secret = (\<lambda>m. Inr (\<lambda>k. Option.bind (map_of m k) as_string)), ce_Generate = (\<lambda>n. (Inr (itoa (int n)), Suc n))\<rparr>"

definition example_comp :: comp_info where
  "example_comp = \<lparr>ci_Name = ''redis-a'', ci_InstanceNamespace = ''vshn-redis-a'', ci_ClaimNamespace = ''team'',
     ci_Labels = [''crossplane.io/claim-name'' \<mapsto> ''redis'']\<rparr>"

text \<open>The secret \<open>name\<close> observed with the data, beside nothing else.\<close>

definition observing :: "string \<Rightarrow> string_data \<Rightarrow> service_runtime" where
  "observing name data = example_runtime\<lparr>sr_observed := [(name,
     \<lparr>or_Resource = example_resource, or_Status = Inr None, or_ConnectionDetails = Map.empty,
      or_AtProvider = Some (map (\<lambda>(k, v). (k, GStr v)) data)\<rparr>)]\<rparr>"

lemma observing_data:
  assumes "EscapeDNS1123 name False = name"
  shows "observed_data example_cred_env (observing name data) name = Inr (map_of data)"
proof -
  have "Option.bind (map_of (map (\<lambda>(k, v). (k, GStr v)) data) k) as_string = map_of data k" for k
    by (induction data) auto
  then show ?thesis
    by (simp add: observed_data_def GetObservedKubeObject_def observing_def assms example_cred_env_def fun_eq_iff)
qed

lemma example_secret_name: "EscapeDNS1123 ''redis-a-credentials-secret'' False = ''redis-a-credentials-secret''"
  by (rule escape_plain) (simp_all add: dns1123_match_def is_lower_alnum_def)

text \<open>One of the two passwords is missing, and the user has a static name.\<close>

theorem passwords_are_kept_witness:
  "\<exists>s' w' sd opts. AddGenericSecret example_cred_env example_comp ''credentials-secret'' [''root'', ''app''] True
        (map AddStaticFieldToSecret [[(''user'', ''admin'')]]) (observing ''redis-a-credentials-secret'' [(''root'', ''0'')]) 7
      = ((''redis-a-credentials-secret'', None), s', w') \<and>
    SetDesiredKubeObject (ce_rt example_cred_env) (secret_object ''redis-a-credentials-secret'' ''vshn-redis-a'' sd) ''redis-a-credentials-secret'' opts
        (observing ''redis-a-credentials-secret'' [(''root'', ''0'')]) = (None, s') \<and>
    map_of sd ''root'' = Some ''0'' \<and> dom (map_of sd) = {''root'', ''app'', ''user''}"
proof -
  let ?s = "observing ''redis-a-credentials-secret'' [(''root'', ''0'')]" and ?st = "[[(''user'', ''admin'')]]"
  have n: "ci_Name example_comp @ ''-'' @ ''credentials-secret'' = ''redis-a-credentials-secret''" by (simp add: example_comp_def)
  have d: "observed_data example_cred_env ?s ''redis-a-credentials-secret'' = Inr (map_of [(''root'', ''0'')])"
    by (rule observing_data [OF example_secret_name])
  obtain gen w1 where f: "fill_fields example_cred_env (map_of [(''root'', ''0'')]) [''root'', ''app''] [] 7 = (Inr gen, w1)"
    by (simp add: genPassword_def example_cred_env_def)
  have "\<exists>s'. set_credentials (ce_rt example_cred_env) example_comp ''redis-a-credentials-secret'' [''root'', ''app''] True
      (map AddStaticFieldToSecret ?st) gen ?s = (None, s')"
    unfolding set_credentials_def SetDesiredKubeObject_def Let_def
    by (auto simp: example_cred_env_def split: prod.splits intro: example_set_ok)
  then obtain s' where c: "set_credentials (ce_rt example_cred_env) example_comp ''redis-a-credentials-secret'' [''root'', ''app''] True
      (map AddStaticFieldToSecret ?st) gen ?s = (None, s')" by blast
  have nm: "EscapeDNS1123 (ci_Name example_comp @ ''-'' @ ''credentials-secret'') False = ''redis-a-credentials-secret''"
    unfolding n by (rule example_secret_name)
  note s = AddGenericSecret_run [OF nm d f c]
  have ns: "ci_InstanceNamespace example_comp = ''vshn-redis-a''" by (simp add: example_comp_def)
  obtain sd opts where "SetDesiredKubeObject (ce_rt example_cred_env) (secret_object ''redis-a-credentials-secret'' ''vshn-redis-a'' sd)
      ''redis-a-credentials-secret'' opts ?s = (None, s')" "map_of sd ''root'' = Some ''0''"
    "dom (map_of sd) = set [''root'', ''app''] \<union> fst ` set (concat ?st)"
    using passwords_are_kept [of example_cred_env ?s example_comp "''credentials-secret''", unfolded nm ns, OF d s]
    by (elim exE conjE) (drule bspec [of _ _ "''root''"], simp_all)
  then show ?thesis using s by (intro exI conjI) auto
qed

section \<open>Frames\<close>

lemma touches_set_credentials: "touches {EscapeDNS1123 name False} s (snd (set_credentials rt inst name flds allow opts data s))"
  by (auto simp: set_credentials_def Let_def split: prod.splits intro!: touches_kube)

lemma touches_AddGenericSecret:
  assumes "AddGenericSecret ce inst suffix flds allow opts s w = (r, s', w')"
  shows "fst r = EscapeDNS1123 (ci_Name inst @ ''-'' @ suffix) False" "touches {EscapeDNS1123 (fst r) False} s s'"
proof -
  let ?n = "EscapeDNS1123 (ci_Name inst @ ''-'' @ suffix) False"
  have "fst r = ?n \<and> (s' = s \<or> (\<exists>sd. s' = snd (set_credentials (ce_rt ce) inst ?n flds allow opts sd s)))"
    using assms by (auto simp: AddGenericSecret_def Let_def split: sum.splits prod.splits) (metis snd_conv)
  then show "fst r = ?n" "touches {EscapeDNS1123 (fst r) False} s s'" using touches_set_credentials by auto
qed

end
