(* ===== verification/PgUsers.thy ===== *)
theory PgUsers
  imports Credentials
begin

text \<open>
  The users of a PostgreSQL instance, \<open>src/pkg/comp-functions/functions/vshnpostgres/user_management.go\<close>: the role,
  database, grants and connection secret that every entry of \<open>spec.parameters.service.access\<close> asks for. A managed
  resource of provider-sql is a \<open>composed_resource\<close> whose \<open>ms_Other\<close> is its \<open>forProvider\<close>.
\<close>

record sql_access =
  ac_User :: string
  ac_Database :: "string option"
  ac_Privileges :: "string list"
  ac_WriteConnectionSecret :: "(string \<times> string) option"

definition managementPoliciesWithoutDelete :: "string list" where
  "managementPoliciesWithoutDelete = [''Create'', ''LateInitialize'', ''Observe'', ''Update'']"

definition sql_labels :: str_map where
  "sql_labels = [ProviderConfigIgnoreLabel \<mapsto> ''true'', WebhookAllowDeletionLabel \<mapsto> ''true'']"

text \<open>What the resources of provider-sql have in common; the secret is a name and a namespace.\<close>

definition sql_resource ::
    "string \<Rightarrow> string \<Rightarrow> string \<Rightarrow> string \<Rightarrow> str_map \<Rightarrow> (string \<times> gany) list \<Rightarrow> (string \<times> string) option \<Rightarrow> composed_resource" where
  "sql_resource grp kind name provider annotations forProvider secret =
     \<lparr>cp_APIVersion = grp @ ''/v1alpha1'', cp_Kind = kind, cp_Name = name, cp_Labels = sql_labels, cp_Annotations = annotations,
      cp_Spec = \<lparr>ms_ManagementPolicies = managementPoliciesWithoutDelete, ms_ProviderConfigRef = Some provider,
        ms_WriteConnectionSecret = secret, ms_References = [], ms_Readiness = '''', ms_ConnectionDetails = [], ms_Manifest = None,
        ms_Other = GMap forProvider\<rparr>\<rparr>"

definition pg_group :: string where "pg_group = ''postgresql.sql.crossplane.io''"

definition role_name :: "comp_info \<Rightarrow> string \<Rightarrow> string" where
  "role_name inst user = ci_Name inst @ ''-'' @ user @ ''-role''"

definition database_name :: "comp_info \<Rightarrow> string \<Rightarrow> string" where
  "database_name inst dbname = ci_Name inst @ ''-'' @ dbname @ ''-database''"

definition pg_db_grant_name :: "comp_info \<Rightarrow> string \<Rightarrow> string \<Rightarrow> string" where
  "pg_db_grant_name inst user dbname = ci_Name inst @ ''-'' @ user @ ''-'' @ dbname @ ''-db-grants''"

definition pg_schema_grant_name :: "comp_info \<Rightarrow> string \<Rightarrow> string \<Rightarrow> string" where
  "pg_schema_grant_name inst user dbname = ci_Name inst @ ''-'' @ user @ ''-'' @ dbname @ ''-schema-grants''"

definition credentials_name :: "comp_info \<Rightarrow> string" where
  "credentials_name inst = ci_Name inst @ ''-provider-conf-credentials''"

text \<open>An error that is only reported, as a warning.\<close>

definition warn_on :: "string \<Rightarrow> rt_error option \<times> service_runtime \<Rightarrow> service_runtime" where
  "warn_on msg r = (case r of (None, s) \<Rightarrow> s | (Some e, s) \<Rightarrow> AddResult (SeverityWarning, msg) s)"

section \<open>The user\<close>

definition empty_resource :: composed_resource where
  "empty_resource = \<lparr>cp_APIVersion = '''', cp_Kind = ''Object'', cp_Name = '''', cp_Labels = Map.empty, cp_Annotations = Map.empty,
     cp_Spec = empty_spec\<lparr>ms_ProviderConfigRef := None\<rparr>\<rparr>"

definition pg_role :: "comp_info \<Rightarrow> string \<Rightarrow> string \<Rightarrow> service_runtime \<Rightarrow> composed_resource" where
  "pg_role inst username secretName s =
     sql_resource pg_group ''Role'' (role_name inst username) (ci_Name inst) [''crossplane.io/external-name'' \<mapsto> username]
       [(''privileges'', GMap [(''login'', GBool True)]),
        (''passwordSecretRef'', GMap [(''name'', GStr (secretName @ ''-cd'')), (''namespace'', GStr (GetCrossplaneNamespace s)), (''key'', GStr ''userpass'')])]
       (Some (secretName, GetCrossplaneNamespace s))"

text \<open>The secret's object is taken from the desired resources and set again with a label; then comes the role.\<close>

definition mark_secret :: "runtime_env \<Rightarrow> string \<Rightarrow> service_runtime \<Rightarrow> service_runtime" where
  "mark_secret rt secretName s =
     (let (obj, s) = (case GetDesiredComposedResourceByName s secretName of
                        None \<Rightarrow> (empty_resource, AddResult (SeverityWarning, ''cannot get user password secret'') s)
                      | Some obj \<Rightarrow> (obj, s));
          obj = obj\<lparr>cp_Labels := (cp_Labels obj)(WebhookAllowDeletionLabel \<mapsto> ''true'')\<rparr>
      in warn_on ''cannot set allow deletion label on user password secret'' (SetDesiredComposedResource rt obj [] s))"

definition pg_addUser :: "'w cred_env \<Rightarrow> comp_info \<Rightarrow> string \<Rightarrow> service_runtime \<Rightarrow> 'w \<Rightarrow> string \<times> service_runtime \<times> 'w" where
  "pg_addUser ce inst username s w =
     (case AddGenericSecret ce inst (''userpass-'' @ username) [''userpass''] True [] s w of
        ((secretName, e), s, w) \<Rightarrow>
          (let s = warn_on ''cannot deploy user password secret'' (e, s);
               r = pg_role inst username secretName s;
               s = mark_secret (ce_rt ce) secretName s
           in (secretName,
               warn_on ''cannot apply user'' (SetDesiredComposedResource (ce_rt ce) r
                 [ComposedOptionProtects (credentials_name inst), ComposedOptionProtects secretName] s), w)))"

section \<open>The connection secret\<close>

definition getPostgresURLCustomUser :: "string \<Rightarrow> string \<Rightarrow> string \<Rightarrow> string \<Rightarrow> string" where
  "getPostgresURLCustomUser host userName pw db =
     (if pw = '''' then '''' else ''postgres://'' @ userName @ '':'' @ pw @ ''@'' @ host @ '':5432/'' @ db)"

definition data_secret :: "string \<Rightarrow> string \<Rightarrow> string \<Rightarrow> string_data \<Rightarrow> kube_object" where
  "data_secret name ns ty data =
     \<lparr>kb_Kind = ''Secret'', kb_Name = name, kb_Namespace = ns, kb_ResourceVersion = '''', kb_UID = '''', kb_SelfLink = '''',
      kb_Generation = 0, kb_OwnerReferences = [], kb_Labels = Map.empty, kb_Annotations = None,
      kb_Body = GMap [(''type'', GStr ty), (''data'', string_object data)]\<rparr>"

text \<open>Where the secret of a user goes: the reference of the entry, or a name made of the claim's.\<close>

definition user_secret_place :: "comp_info \<Rightarrow> string \<Rightarrow> (string \<times> string) option \<Rightarrow> string \<times> string" where
  "user_secret_place inst username ref =
     (case ref of Some p \<Rightarrow> p | None \<Rightarrow> (or_zero '''' (ci_Labels inst ''crossplane.io/claim-name'') @ ''-'' @ username, ci_ClaimNamespace inst))"

definition pg_user_data :: "string \<Rightarrow> string \<Rightarrow> str_map \<Rightarrow> str_map \<Rightarrow> string_data" where
  "pg_user_data username dbname userpassCD cd =
     [(''POSTGRESQL_USER'', username), (''POSTGRESQL_PASSWORD'', data_field userpassCD ''userpass''), (''POSTGRESQL_DB'', dbname),
      (''POSTGRESQL_HOST'', data_field cd ''POSTGRESQL_HOST''), (''POSTGRESQL_PORT'', data_field cd ''POSTGRESQL_PORT''),
      (''POSTGRESQL_URL'', getPostgresURLCustomUser (data_field cd ''POSTGRESQL_HOST'') username (data_field userpassCD ''userpass'') dbname),
      (''ca.crt'', data_field cd ''ca.crt''), (''tls.crt'', data_field cd ''tls.crt''), (''tls.key'', data_field cd ''tls.key'')]"

definition pg_addConnectionDetail ::
    "runtime_env \<Rightarrow> comp_info \<Rightarrow> string \<Rightarrow> string \<Rightarrow> string \<Rightarrow> (string \<times> string) option \<Rightarrow> service_runtime \<Rightarrow> service_runtime" where
  "pg_addConnectionDetail rt inst secretName username dbname ref s =
     (let (userpassCD, s) = (case GetObservedComposedResourceConnectionDetails s secretName of
            Inl e \<Rightarrow> (Map.empty, AddResult (SeverityWarning, ''cannot get userpassword from secret'') s)
          | Inr cd \<Rightarrow> (cd, s));
          (name, ns) = user_secret_place inst username ref
      in if userpassCD = Map.empty then SetDesiredResourceReadiness secretName ReadyFalse s
         else warn_on ''cannot get userpassword from secret''
           (SetDesiredKubeObject rt
              (data_secret name ns ''connection.crossplane.io/v1alpha1'' (pg_user_data username dbname userpassCD (sr_connectionDetails s)))
              (ci_Name inst @ ''-user-'' @ username) [KubeOptionAllowDeletion, KubeOptionDeployOnControlPlane] s))"


section \<open>Provider config, database, grants\<close>

definition pg_addProviderConfig :: "runtime_env \<Rightarrow> comp_info \<Rightarrow> bool \<Rightarrow> service_runtime \<Rightarrow> service_runtime" where
  "pg_addProviderConfig rt inst tlsEnabled s =
     (let cd = sr_connectionDetails s;
          endpoint = (case cd ''LOADBALANCER_IP'' of Some ip \<Rightarrow> ip | None \<Rightarrow> data_field cd ''POSTGRESQL_HOST'');
          secret = data_secret (credentials_name inst) (GetCrossplaneNamespace s) ''''
            [(''username'', data_field cd ''POSTGRESQL_USER''), (''password'', data_field cd ''POSTGRESQL_PASSWORD''),
             (''endpoint'', endpoint), (''port'', data_field cd ''POSTGRESQL_PORT'')];
          s = warn_on ''cannot set credential secret for provider-sql''
            (SetDesiredKubeObject rt secret (credentials_name inst)
               [KubeOptionProtects ''namespace-conditions'', KubeOptionProtects ''cluster'', KubeOptionProtects (ci_Name inst @ ''-netpol''),
                KubeOptionDeployOnControlPlane, KubeOptionAllowDeletion] s);
          config = \<lparr>kb_Kind = ''ProviderConfig'', kb_Name = ci_Name inst, kb_Namespace = '''', kb_ResourceVersion = '''', kb_UID = '''',
            kb_SelfLink = '''', kb_Generation = 0, kb_OwnerReferences = [], kb_Labels = [WebhookAllowDeletionLabel \<mapsto> ''true''],
            kb_Annotations = None,
            kb_Body = GMap [(''sslMode'', GStr (if tlsEnabled then ''require'' else ''disable'')),
              (''credentials'', GMap [(''source'', GStr ''PostgreSQLConnectionSecret''),
                 (''connectionSecretRef'', GMap [(''name'', GStr (credentials_name inst)), (''namespace'', GStr (GetCrossplaneNamespace s))])])]\<rparr>
      in warn_on ''cannot apply the provider config for provider sql''
           (SetDesiredKubeObject rt config (ci_Name inst @ ''-providerconfig'') [KubeOptionDeployOnControlPlane, KubeOptionAllowDeletion] s))"

definition pg_database :: "comp_info \<Rightarrow> string \<Rightarrow> string \<Rightarrow> composed_resource" where
  "pg_database inst username dbname =
     sql_resource pg_group ''Database'' (database_name inst dbname) (ci_Name inst) [''crossplane.io/external-name'' \<mapsto> dbname]
       [(''owner'', GStr username), (''template'', GStr ''template0'')] None"

definition pg_addDatabase :: "runtime_env \<Rightarrow> comp_info \<Rightarrow> string \<Rightarrow> string \<Rightarrow> service_runtime \<Rightarrow> service_runtime" where
  "pg_addDatabase rt inst username dbname s =
     (case GetDesiredComposedResourceByName s (database_name inst dbname) of
        Some _ \<Rightarrow> s
      | None \<Rightarrow> warn_on ''cannot apply database''
          (SetDesiredComposedResource rt (pg_database inst username dbname) [ComposedOptionProtects (credentials_name inst)] s))"

text \<open>Which privileges go to the grant on the database and which to the one on the schema.\<close>

definition dbOnlyPrivileges :: "string list" where "dbOnlyPrivileges = [''CONNECT'', ''TEMPORARY'', ''TEMP'']"
definition schemaOnlyPrivileges :: "string list" where "schemaOnlyPrivileges = [''USAGE'']"

fun split_privileges :: "string list \<Rightarrow> string list \<times> string list \<Rightarrow> string list \<times> string list" where
  "split_privileges [] (db, schema) = (db, schema)"
| "split_privileges (p # ps) (db, schema) =
     split_privileges ps
       (if p \<in> set dbOnlyPrivileges then (db @ [p], schema)
        else if p \<in> set schemaOnlyPrivileges then (db, schema @ [p])
        else if p = ''CREATE'' \<or> p = ''ALL'' \<or> p = ''ALL PRIVILEGES'' then (db @ [p], schema @ [p])
        else (db, schema @ [p]))"

definition pg_grant :: "comp_info \<Rightarrow> string \<Rightarrow> string list \<Rightarrow> string \<Rightarrow> string \<Rightarrow> (string \<times> gany) list \<Rightarrow> composed_resource" where
  "pg_grant inst name privs username dbname schema =
     sql_resource pg_group ''Grant'' name (ci_Name inst) Map.empty
       ([(''privileges'', GList (map GStr privs)), (''role'', GStr username), (''database'', GStr dbname)] @ schema) None"

definition pg_addGrants :: "runtime_env \<Rightarrow> comp_info \<Rightarrow> string \<Rightarrow> string \<Rightarrow> string list \<Rightarrow> service_runtime \<Rightarrow> service_runtime" where
  "pg_addGrants rt inst username dbname privileges s =
     (let privs = (if privileges = [] then [''ALL''] else []) @ privileges;
          (dbGrants, schemaGrants) = split_privileges privs ([], []);
          s = (if dbGrants = [] then s else
            warn_on ''cannot apply database grant''
              (SetDesiredComposedResource rt (pg_grant inst (pg_db_grant_name inst username dbname) dbGrants username dbname [])
                 [ComposedOptionProtects (credentials_name inst)] s))
      in if schemaGrants = [] then s else
           warn_on ''cannot apply schema grant''
             (SetDesiredComposedResource rt
                (pg_grant inst (pg_schema_grant_name inst username dbname) schemaGrants username dbname [(''schema'', GStr ''public'')])
                [ComposedOptionProtects (credentials_name inst)] s))"

section \<open>The step\<close>

definition is_ready :: "service_runtime \<Rightarrow> string \<Rightarrow> bool" where
  "is_ready s name \<longleftrightarrow> IsResourceReady s name = Inr True"

definition access_database :: "sql_access \<Rightarrow> string" where
  "access_database a = (case ac_Database a of None \<Rightarrow> ac_User a | Some d \<Rightarrow> d)"

text \<open>The database once the role is ready, the grants once both are; what exists already is kept in any case.\<close>

definition pg_database_step :: "runtime_env \<Rightarrow> comp_info \<Rightarrow> string \<Rightarrow> string \<Rightarrow> service_runtime \<Rightarrow> service_runtime" where
  "pg_database_step rt inst dbuser dbname s =
     (if is_ready s (role_name inst dbuser) \<or> ResourceExistsInObserved s (database_name inst dbname)
      then pg_addDatabase rt inst dbuser dbname s else s)"

definition pg_grants_step :: "runtime_env \<Rightarrow> comp_info \<Rightarrow> string \<Rightarrow> string \<Rightarrow> string list \<Rightarrow> service_runtime \<Rightarrow> service_runtime" where
  "pg_grants_step rt inst dbuser dbname privileges s =
     (if is_ready s (role_name inst dbuser) \<and> is_ready s (database_name inst dbname) \<or>
         ResourceExistsInObserved s (pg_db_grant_name inst dbuser dbname) \<or> ResourceExistsInObserved s (pg_schema_grant_name inst dbuser dbname)
      then pg_addGrants rt inst dbuser dbname privileges s else s)"

text \<open>One round of the loop over the entries. The readiness read is that of the observed state, which no call changes.\<close>

definition pg_access_step :: "'w cred_env \<Rightarrow> comp_info \<Rightarrow> sql_access \<Rightarrow> service_runtime \<Rightarrow> 'w \<Rightarrow> service_runtime \<times> 'w" where
  "pg_access_step ce inst a s w =
     (case pg_addUser ce inst (ac_User a) s w of
        (userPasswordRef, s, w) \<Rightarrow>
          (pg_addConnectionDetail (ce_rt ce) inst userPasswordRef (ac_User a) (access_database a) (ac_WriteConnectionSecret a)
             (pg_grants_step (ce_rt ce) inst (ac_User a) (access_database a) (ac_Privileges a)
               (pg_database_step (ce_rt ce) inst (ac_User a) (access_database a) s)), w))"

fun pg_access_loop :: "'w cred_env \<Rightarrow> comp_info \<Rightarrow> sql_access list \<Rightarrow> service_runtime \<Rightarrow> 'w \<Rightarrow> service_runtime \<times> 'w" where
  "pg_access_loop ce inst [] s w = (s, w)"
| "pg_access_loop ce inst (a # as) s w = (case pg_access_step ce inst a s w of (s, w) \<Rightarrow> pg_access_loop ce inst as s w)"

definition pg_UserManagement :: "'w cred_env \<Rightarrow> comp_info \<Rightarrow> bool \<Rightarrow> sql_access list \<Rightarrow> service_runtime \<Rightarrow> 'w \<Rightarrow> service_runtime \<times> 'w" where
  "pg_UserManagement ce inst tlsEnabled access s w =
     (if access = [] then (s, w) else pg_access_loop ce inst access (pg_addProviderConfig (ce_rt ce) inst tlsEnabled s) w)"


section \<open>Frames\<close>

lemma touches_warn: "touches K s (snd r) \<Longrightarrow> touches K s (warn_on msg r)"
  unfolding warn_on_def by (cases r; cases "fst r") (auto intro: touches_trans touches_result)

lemma touches_composed_UNIV [simp, intro]: "touches UNIV s (snd (SetDesiredComposedResource rt obj opts s))"
  by (rule touches_composed_own) simp

lemma touches_kube_UNIV [simp, intro]: "touches UNIV s (snd (SetDesiredKubeObject rt obj n opts s))"
  by (rule touches_kube) simp

lemma touches_readiness_UNIV [simp, intro]: "touches UNIV s (SetDesiredResourceReadiness n r s)"
  by (rule touches_readiness) simp

lemma touches_mark_secret: "touches UNIV s (mark_secret rt n s)"
  unfolding mark_secret_def Let_def
  by (auto split: option.splits intro!: touches_warn intro: touches_trans [OF touches_result])

lemma touches_pg_addUser: "touches UNIV s (fst (snd (pg_addUser ce inst u s w)))"
proof -
  obtain n e s1 w1 where a: "AddGenericSecret ce inst (''userpass-'' @ u) [''userpass''] True [] s w = ((n, e), s1, w1)" by (metis prod.exhaust)
  have 1: "touches UNIV s s1" using touches_AddGenericSecret(2) [OF a] by (rule touches_mono) simp
  have 2: "touches UNIV s1 (warn_on m (e, s1))" for m by (rule touches_warn) simp
  note touches_trans [OF 1 touches_trans [OF 2 touches_trans [OF touches_mark_secret touches_warn [OF touches_composed_UNIV]]]]
  then show ?thesis unfolding pg_addUser_def a by (simp add: Let_def)
qed

lemma touches_pg_addDatabase: "touches UNIV s (pg_addDatabase rt inst u d s)"
  by (auto simp: pg_addDatabase_def intro!: touches_warn split: option.splits)

lemma touches_pg_addGrants: "touches UNIV s (pg_addGrants rt inst u d ps s)"
  unfolding pg_addGrants_def Let_def
  by (auto split: prod.splits intro!: touches_warn intro: touches_trans [OF touches_warn [OF touches_composed_UNIV]])

lemma touches_pg_addConnectionDetail: "touches UNIV s (pg_addConnectionDetail rt inst n u d ref s)"
  unfolding pg_addConnectionDetail_def Let_def
  by (auto split: sum.splits prod.splits intro!: touches_warn intro: touches_trans [OF touches_result])

lemma touches_pg_addProviderConfig: "touches UNIV s (pg_addProviderConfig rt inst tls s)"
  unfolding pg_addProviderConfig_def Let_def
  by (rule touches_warn) (rule touches_trans [OF touches_warn [OF touches_kube_UNIV] touches_kube_UNIV])

lemma touches_pg_steps:
  "touches UNIV s (pg_database_step rt inst u d s)" "touches UNIV s (pg_grants_step rt inst u d ps s)"
  by (simp_all add: pg_database_step_def pg_grants_step_def touches_pg_addDatabase touches_pg_addGrants)

lemma touches_pg_access_step: "touches UNIV s (fst (pg_access_step ce inst a s w))"
proof -
  obtain n s1 w1 where u: "pg_addUser ce inst (ac_User a) s w = (n, s1, w1)" by (metis prod.exhaust)
  have "touches UNIV s s1" using touches_pg_addUser [of s ce inst "ac_User a" w] u by simp
  note touches_trans [OF this touches_trans [OF touches_trans [OF touches_pg_steps] touches_pg_addConnectionDetail]]
  then show ?thesis by (simp add: pg_access_step_def u)
qed

lemma touches_pg_access_loop: "touches UNIV s (fst (pg_access_loop ce inst as s w))"
proof (induction as arbitrary: s w)
  case (Cons a as)
  obtain s1 w1 where 1: "pg_access_step ce inst a s w = (s1, w1)" by fastforce
  then have "touches UNIV s s1" using touches_pg_access_step [of s ce inst a w] by simp
  from touches_trans [OF this Cons.IH] show ?case by (simp add: 1)
qed simp


section \<open>What is kept\<close>

text \<open>The SDK converts every resource.\<close>

definition conversions_ok :: "runtime_env \<Rightarrow> bool" where
  "conversions_ok rt \<longleftrightarrow> (\<forall>obj. rt_From rt obj = None)"

lemma composed_ok:
  "conversions_ok rt \<Longrightarrow> \<exists>s'. SetDesiredComposedResource rt obj opts s = (None, s')"
  by (simp add: conversions_ok_def SetDesiredComposedResource_def SetDesiredComposedResourceWithName_def Let_def)

lemma warn_composed_desired:
  "conversions_ok rt \<Longrightarrow> is_desired (warn_on msg (SetDesiredComposedResource rt obj opts s)) (cp_Name obj)"
  using composed_ok [of rt obj opts s] composed_is_desired [of rt obj opts s] by (auto simp: warn_on_def)

lemma sql_resource_name [simp]: "cp_Name (sql_resource g k n p ann fp sec) = n"
  by (simp add: sql_resource_def)

lemma pg_addUser_desired:
  assumes "conversions_ok (ce_rt ce)" "pg_addUser ce inst u s w = (n, s', w')"
  shows "is_desired s' (role_name inst u)"
proof -
  obtain n1 e s1 w1 where a: "AddGenericSecret ce inst (''userpass-'' @ u) [''userpass''] True [] s w = ((n1, e), s1, w1)" by (metis prod.exhaust)
  have "cp_Name (pg_role inst u n1 x) = role_name inst u" for x by (simp add: pg_role_def)
  then show ?thesis
    using assms(2) warn_composed_desired [OF assms(1), of "''cannot apply user''" "pg_role inst u n1 (warn_on ''cannot deploy user password secret'' (e, s1))"]
    unfolding pg_addUser_def a by (auto simp: Let_def)
qed

lemma pg_addDatabase_desired: "conversions_ok rt \<Longrightarrow> is_desired (pg_addDatabase rt inst u d s) (database_name inst d)"
  using warn_composed_desired [of rt _ "pg_database inst u d"]
  by (auto simp: pg_addDatabase_def pg_database_def GetDesiredComposedResourceByName_def is_desired_def split: option.splits)

text \<open>The privileges of an entry, and the two grants made of them.\<close>

definition access_privileges :: "sql_access \<Rightarrow> string list" where
  "access_privileges a = (if ac_Privileges a = [] then [''ALL''] else ac_Privileges a)"

definition on_database :: "string \<Rightarrow> bool" where
  "on_database p \<longleftrightarrow> p \<in> {''CONNECT'', ''TEMPORARY'', ''TEMP'', ''CREATE'', ''ALL'', ''ALL PRIVILEGES''}"

definition on_schema :: "string \<Rightarrow> bool" where
  "on_schema p \<longleftrightarrow> p \<notin> {''CONNECT'', ''TEMPORARY'', ''TEMP''}"

lemma split_privileges_filter:
  "split_privileges ps (db, schema) = (db @ filter on_database ps, schema @ filter on_schema ps)"
  by (induction ps arbitrary: db schema)
    (auto simp: on_database_def on_schema_def dbOnlyPrivileges_def schemaOnlyPrivileges_def)

lemma pg_addGrants_desired:
  assumes "conversions_ok rt" "privs = (if ps = [] then [''ALL''] else ps)"
  shows "filter on_database privs \<noteq> [] \<Longrightarrow> is_desired (pg_addGrants rt inst u d ps s) (pg_db_grant_name inst u d)"
    and "filter on_schema privs \<noteq> [] \<Longrightarrow> is_desired (pg_addGrants rt inst u d ps s) (pg_schema_grant_name inst u d)"
proof -
  have p: "(if ps = [] then [''ALL''] else []) @ ps = privs" using assms(2) by simp
  have n: "cp_Name (pg_grant inst n q u d x) = n" for n q x by (simp add: pg_grant_def)
  have keep: "is_desired (warn_on m (SetDesiredComposedResource rt obj opts s1)) k" if "is_desired s1 k" for m obj opts s1 k
    using still_desired [OF touches_warn [OF touches_composed_UNIV] that] .
  show "is_desired (pg_addGrants rt inst u d ps s) (pg_db_grant_name inst u d)" if "filter on_database privs \<noteq> []"
    using that warn_composed_desired [OF assms(1), of _ "pg_grant inst (pg_db_grant_name inst u d) _ u d _", unfolded n]
    unfolding pg_addGrants_def Let_def p by (simp add: split_privileges_filter keep)
  show "is_desired (pg_addGrants rt inst u d ps s) (pg_schema_grant_name inst u d)" if "filter on_schema privs \<noteq> []"
    using that warn_composed_desired [OF assms(1), of _ "pg_grant inst (pg_schema_grant_name inst u d) _ u d _", unfolded n]
    unfolding pg_addGrants_def Let_def p by (simp add: split_privileges_filter)
qed

text \<open>The objects an entry has when they exist already.\<close>

definition kept_objects :: "comp_info \<Rightarrow> sql_access \<Rightarrow> service_runtime \<Rightarrow> service_runtime \<Rightarrow> bool" where
  "kept_objects inst a s s' \<longleftrightarrow>
     is_desired s' (role_name inst (ac_User a)) \<and>
     (ResourceExistsInObserved s (database_name inst (access_database a)) \<longrightarrow> is_desired s' (database_name inst (access_database a))) \<and>
     (ResourceExistsInObserved s (pg_db_grant_name inst (ac_User a) (access_database a)) \<and> list_ex on_database (access_privileges a) \<longrightarrow>
        is_desired s' (pg_db_grant_name inst (ac_User a) (access_database a))) \<and>
     (ResourceExistsInObserved s (pg_schema_grant_name inst (ac_User a) (access_database a)) \<and> list_ex on_schema (access_privileges a) \<longrightarrow>
        is_desired s' (pg_schema_grant_name inst (ac_User a) (access_database a)))"

lemma exists_observed_cong: "sr_observed s' = sr_observed s \<Longrightarrow> ResourceExistsInObserved s' n = ResourceExistsInObserved s n"
  by (simp add: ResourceExistsInObserved_def)

lemma kept_objects_later: "kept_objects inst a s s1 \<Longrightarrow> touches UNIV s1 s' \<Longrightarrow> kept_objects inst a s s'"
  by (auto simp: kept_objects_def intro: still_desired)

lemma kept_objects_from: "kept_objects inst a s1 s' \<Longrightarrow> touches UNIV s s1 \<Longrightarrow> kept_objects inst a s s'"
  using exists_observed_cong [OF touchesD(3)] unfolding kept_objects_def by blast

lemma pg_access_step_keeps:
  assumes "conversions_ok (ce_rt ce)" "pg_access_step ce inst a s w = (s', w')"
  shows "kept_objects inst a s s'"
proof -
  let ?u = "ac_User a" and ?d = "access_database a" and ?rt = "ce_rt ce"
  obtain n s1 w1 where u: "pg_addUser ce inst ?u s w = (n, s1, w1)" by (metis prod.exhaust)
  define s2 where "s2 = pg_database_step ?rt inst ?u ?d s1"
  define s3 where "s3 = pg_grants_step ?rt inst ?u ?d (ac_Privileges a) s2"
  have t: "touches UNIV s s1" "touches UNIV s1 s2" "touches UNIV s2 s3" "touches UNIV s3 s'"
    using touches_pg_addUser [of s ce inst ?u w] u assms(2)
    by (auto simp: s2_def s3_def touches_pg_steps pg_access_step_def touches_pg_addConnectionDetail)
  have o_same: "ResourceExistsInObserved s1 k = ResourceExistsInObserved s k" "ResourceExistsInObserved s2 k = ResourceExistsInObserved s k" for k
    using exists_observed_cong touchesD(3) t(1,2) by metis+
  have r: "is_desired s3 (role_name inst ?u)"
    using still_desired [OF touches_trans [OF t(2,3)]] pg_addUser_desired [OF assms(1) u] by blast
  have d: "is_desired s3 (database_name inst ?d)" if "ResourceExistsInObserved s (database_name inst ?d)"
    using that still_desired [OF t(3)] pg_addDatabase_desired [OF assms(1)] by (simp add: s2_def pg_database_step_def o_same)
  have g: "s3 = pg_addGrants ?rt inst ?u ?d (ac_Privileges a) s2"
    if "ResourceExistsInObserved s (pg_db_grant_name inst ?u ?d) \<or> ResourceExistsInObserved s (pg_schema_grant_name inst ?u ?d)"
    using that by (auto simp: s3_def pg_grants_step_def o_same)
  have f: "list_ex P ps \<Longrightarrow> filter P ps \<noteq> []" for P :: "string \<Rightarrow> bool" and ps by (induction ps) auto
  have "kept_objects inst a s s3"
    using r d g pg_addGrants_desired [OF assms(1) access_privileges_def [of a], of inst ?u ?d s2] f
    unfolding kept_objects_def by metis
  then show ?thesis using t(4) by (rule kept_objects_later)
qed

lemma pg_access_loop_keeps:
  "conversions_ok (ce_rt ce) \<Longrightarrow> pg_access_loop ce inst as s w = (s', w') \<Longrightarrow> a \<in> set as \<Longrightarrow> kept_objects inst a s s'"
proof (induction as arbitrary: s w)
  case (Cons b as)
  obtain s1 w1 where 1: "pg_access_step ce inst b s w = (s1, w1)" by fastforce
  then have rest: "pg_access_loop ce inst as s1 w1 = (s', w')" using Cons.prems(2) by simp
  have t: "touches UNIV s s1" using touches_pg_access_step [of s ce inst b w] 1 by simp
  have t': "touches UNIV s1 s'" using touches_pg_access_loop [of s1 ce inst as w1] rest by simp
  show ?case
  proof (cases "a = b")
    case True
    then show ?thesis using pg_access_step_keeps [OF Cons.prems(1) 1] t' by (simp add: kept_objects_later)
  next
    case False
    then show ?thesis using Cons.IH [OF Cons.prems(1) rest] Cons.prems(3) t by (simp add: kept_objects_from)
  qed
qed simp

text \<open>
  C26. User management never drops what it has created: for every entry the role is desired in every run, and its
  database and grants, once they exist, are desired again whether or not the role or the database is ready at
  that time, for whatever connection details, passwords and readiness the run observes.
\<close>

theorem user_objects_are_kept:
  assumes "conversions_ok (ce_rt ce)" "pg_UserManagement ce inst tls access s w = (s', w')" "a \<in> set access"
  shows "kept_objects inst a s s'"
proof -
  have "pg_access_loop ce inst access (pg_addProviderConfig (ce_rt ce) inst tls s) w = (s', w')"
    using assms(2,3) by (cases access) (simp_all add: pg_UserManagement_def)
  from pg_access_loop_keeps [OF assms(1) this assms(3)] touches_pg_addProviderConfig show ?thesis by (rule kept_objects_from)
qed


text \<open>The role of \<open>app\<close> is not ready, its database exists.\<close>

definition observing_database :: service_runtime where
  "observing_database = example_runtime\<lparr>sr_observed := [(''redis-a-app-database'',
     \<lparr>or_Resource = example_resource, or_Status = Inr None, or_ConnectionDetails = Map.empty, or_AtProvider = None\<rparr>)]\<rparr>"

theorem user_objects_are_kept_witness:
  "is_desired (fst (pg_UserManagement example_cred_env example_comp True
       [\<lparr>ac_User = ''app'', ac_Database = None, ac_Privileges = [], ac_WriteConnectionSecret = None\<rparr>] observing_database 0)) ''redis-a-app-database''"
proof -
  let ?a = "\<lparr>ac_User = ''app'', ac_Database = None, ac_Privileges = [], ac_WriteConnectionSecret = None\<rparr>"
  obtain s' w' where r: "pg_UserManagement example_cred_env example_comp True [?a] observing_database 0 = (s', w')" by fastforce
  have c: "conversions_ok (ce_rt example_cred_env)" by (simp add: conversions_ok_def example_cred_env_def example_runtime_env_def)
  have e: "EscapeDNS1123 ''redis-a-app-database'' False = ''redis-a-app-database''"
    by (rule escape_plain) (simp_all add: dns1123_match_def is_lower_alnum_def)
  have "kept_objects example_comp ?a observing_database s'" by (rule user_objects_are_kept [OF c r]) simp
  then have "ResourceExistsInObserved observing_database (database_name example_comp (access_database ?a)) \<longrightarrow>
      is_desired s' (database_name example_comp (access_database ?a))"
    unfolding kept_objects_def by blast
  moreover have "database_name example_comp (access_database ?a) = ''redis-a-app-database''"
    by (simp add: access_database_def database_name_def example_comp_def)
  moreover have "ResourceExistsInObserved observing_database ''redis-a-app-database''"
    by (simp add: ResourceExistsInObserved_def observing_database_def e)
  ultimately show ?thesis by (simp add: r)
qed

section \<open>Grants\<close>

definition desired_forProvider :: "service_runtime \<Rightarrow> string \<Rightarrow> gany option" where
  "desired_forProvider s n = map_option (\<lambda>d. ms_Other (cp_Spec (dc_Resource d))) (map_of (sr_desired s) (EscapeDNS1123 n False))"

lemma warn_composed_forProvider:
  assumes "conversions_ok rt"
  shows "desired_forProvider (warn_on m (SetDesiredComposedResource rt obj [ComposedOptionProtects r] s)) (cp_Name obj) = Some (ms_Other (cp_Spec obj))"
  using assms
  by (simp add: conversions_ok_def warn_on_def SetDesiredComposedResource_def SetDesiredComposedResourceWithName_def Let_def
      desired_forProvider_def ComposedOptionProtects_def addProtectionAnnotation_def)

lemma warn_composed_other_forProvider:
  assumes "EscapeDNS1123 n False \<noteq> EscapeDNS1123 (cp_Name obj) False"
  shows "desired_forProvider (warn_on m (SetDesiredComposedResource rt obj opts s)) n = desired_forProvider s n"
proof -
  have "touches {EscapeDNS1123 (cp_Name obj) False} s (warn_on m (SetDesiredComposedResource rt obj opts s))"
    by (intro touches_warn touches_composed_own) simp
  then show ?thesis using assms by (simp add: desired_forProvider_def touchesD(1))
qed

definition grant_parameters :: "string list \<Rightarrow> string \<Rightarrow> string \<Rightarrow> (string \<times> gany) list \<Rightarrow> gany" where
  "grant_parameters privs u d schema =
     GMap ([(''privileges'', GList (map GStr privs)), (''role'', GStr u), (''database'', GStr d)] @ schema)"

lemma pg_grant_other: "ms_Other (cp_Spec (pg_grant inst n q u d x)) = grant_parameters q u d x" "cp_Name (pg_grant inst n q u d x) = n"
  by (simp_all add: pg_grant_def sql_resource_def grant_parameters_def)

text \<open>
  The privileges of an entry reach the database as they were asked for: the two grants that are set carry, in
  the order of the entry, exactly those that PostgreSQL can grant on a database and exactly those that it can grant
  on a schema, every privilege is in one of them, and no entry at all stands for ALL on both.
\<close>

theorem privileges_are_split:
  assumes "conversions_ok rt" "EscapeDNS1123 (pg_db_grant_name inst u d) False \<noteq> EscapeDNS1123 (pg_schema_grant_name inst u d) False"
    "privs = (if ps = [] then [''ALL''] else ps)" "s' = pg_addGrants rt inst u d ps s"
  shows "desired_forProvider s' (pg_db_grant_name inst u d) =
      (if filter on_database privs = [] then desired_forProvider s (pg_db_grant_name inst u d)
       else Some (grant_parameters (filter on_database privs) u d []))
    \<and> desired_forProvider s' (pg_schema_grant_name inst u d) =
      (if filter on_schema privs = [] then desired_forProvider s (pg_schema_grant_name inst u d)
       else Some (grant_parameters (filter on_schema privs) u d [(''schema'', GStr ''public'')]))
    \<and> set (filter on_database privs) \<union> set (filter on_schema privs) = set privs"
proof -
  have p: "(if ps = [] then [''ALL''] else []) @ ps = privs" using assms(3) by simp
  have c: "on_database q \<or> on_schema q" for q by (auto simp: on_database_def on_schema_def)
  have other: "EscapeDNS1123 (pg_schema_grant_name inst u d) False \<noteq> EscapeDNS1123 (pg_db_grant_name inst u d) False" using assms(2) by simp
  note fp = warn_composed_forProvider [OF assms(1), of _ "pg_grant inst _ _ u d _", unfolded pg_grant_other]
  note fo = warn_composed_other_forProvider [of _ "pg_grant inst _ _ u d _", unfolded pg_grant_other]
  show ?thesis
    unfolding assms(4) pg_addGrants_def Let_def p
    using c by (auto simp: split_privileges_filter fp fo assms(2) other)
qed

lemma example_grant_names:
  "EscapeDNS1123 (pg_db_grant_name example_comp ''app'' ''app'') False = ''redis-a-app-app-db-grants''"
  "EscapeDNS1123 (pg_schema_grant_name example_comp ''app'' ''app'') False = ''redis-a-app-app-schema-grants''"
  using escape_plain [of "''redis-a-app-app-db-grants''"] escape_plain [of "''redis-a-app-app-schema-grants''"]
  by (simp_all add: pg_db_grant_name_def pg_schema_grant_name_def example_comp_def dns1123_match_def is_lower_alnum_def)

theorem privileges_are_split_witness:
  "desired_forProvider (pg_addGrants example_runtime_env example_comp ''app'' ''app'' [''CONNECT'', ''SELECT'', ''CREATE''] example_runtime)
     (pg_db_grant_name example_comp ''app'' ''app'') = Some (grant_parameters [''CONNECT'', ''CREATE''] ''app'' ''app'' [])"
proof -
  have c: "conversions_ok example_runtime_env" by (simp add: conversions_ok_def example_runtime_env_def)
  have n: "EscapeDNS1123 (pg_db_grant_name example_comp ''app'' ''app'') False \<noteq> EscapeDNS1123 (pg_schema_grant_name example_comp ''app'' ''app'') False"
    by (simp add: example_grant_names)
  show ?thesis
    using privileges_are_split [OF c n refl refl, of "[''CONNECT'', ''SELECT'', ''CREATE'']" example_runtime] by (simp add: on_database_def)
qed

text \<open>
  The names of the grants join user and database with a dash, which both may contain: when two entries have
  the same joined name, there is one grant for the two of them, and it is the last one's; the other user has none.
\<close>

theorem joined_names_share_a_grant:
  assumes "conversions_ok rt" "u1 @ ''-'' @ d1 = u2 @ ''-'' @ d2" "(u1, d1) \<noteq> (u2, d2)" "list_ex on_database ps2"
    "EscapeDNS1123 (pg_db_grant_name inst u2 d2) False \<noteq> EscapeDNS1123 (pg_schema_grant_name inst u2 d2) False"
    "s' = pg_addGrants rt inst u2 d2 ps2 (pg_addGrants rt inst u1 d1 ps1 s)"
  shows "desired_forProvider s' (pg_db_grant_name inst u1 d1) = Some (grant_parameters (filter on_database ps2) u2 d2 [])"
proof -
  have n: "pg_db_grant_name inst u1 d1 = pg_db_grant_name inst u2 d2"
    using arg_cong [OF assms(2), of "\<lambda>x. ci_Name inst @ ''-'' @ x @ ''-db-grants''"] by (simp add: pg_db_grant_name_def)
  have ps: "ps2 \<noteq> []" "filter on_database ps2 \<noteq> []" using assms(4) by (auto simp: list_ex_iff filter_empty_conv)
  then show ?thesis
    using privileges_are_split [OF assms(1,5) refl assms(6)] by (simp add: n)
qed

theorem joined_names_share_a_grant_witness:
  "desired_forProvider (pg_addGrants example_runtime_env example_comp ''a-b'' ''c'' [''CONNECT'']
       (pg_addGrants example_runtime_env example_comp ''a'' ''b-c'' [''CONNECT''] example_runtime))
     (pg_db_grant_name example_comp ''a'' ''b-c'') = Some (grant_parameters [''CONNECT''] ''a-b'' ''c'' [])"
proof -
  have c: "conversions_ok example_runtime_env" by (simp add: conversions_ok_def example_runtime_env_def)
  have n: "EscapeDNS1123 (pg_db_grant_name example_comp ''a-b'' ''c'') False \<noteq> EscapeDNS1123 (pg_schema_grant_name example_comp ''a-b'' ''c'') False"
    using escape_plain [of "''redis-a-a-b-c-db-grants''"] escape_plain [of "''redis-a-a-b-c-schema-grants''"]
    by (simp add: pg_db_grant_name_def pg_schema_grant_name_def example_comp_def dns1123_match_def is_lower_alnum_def)
  show ?thesis
    using joined_names_share_a_grant [OF c _ _ _ n refl, of "''a''" "''b-c''" "[''CONNECT'']" "[''CONNECT'']" example_runtime]
    by (simp add: on_database_def)
qed

end
