(* ===== verification/MyUsers.thy ===== *)
theory MyUsers
  imports PgUsers
begin

text \<open>
  The users of a MariaDB instance, \<open>src/pkg/comp-functions/functions/vshnmariadb/user_management.go\<close>, and what differs
  from those of PostgreSQL.
\<close>

definition my_group :: string where "my_group = ''mysql.sql.crossplane.io''"

definition my_grant_name :: "comp_info \<Rightarrow> string \<Rightarrow> string \<Rightarrow> string" where
  "my_grant_name inst user dbname = ci_Name inst @ ''-'' @ user @ ''-'' @ dbname @ ''-grants''"

definition my_role :: "comp_info \<Rightarrow> string \<Rightarrow> string \<Rightarrow> service_runtime \<Rightarrow> composed_resource" where
  "my_role inst username secretName s =
     sql_resource my_group ''User'' (role_name inst username) (ci_Name inst) [''crossplane.io/external-name'' \<mapsto> username]
       [(''passwordSecretRef'', GMap [(''name'', GStr (secretName @ ''-cd'')), (''namespace'', GStr (GetCrossplaneNamespace s)), (''key'', GStr ''userpass'')])]
       (Some (secretName, GetCrossplaneNamespace s))"

definition my_addUser :: "'w cred_env \<Rightarrow> comp_info \<Rightarrow> string \<Rightarrow> service_runtime \<Rightarrow> 'w \<Rightarrow> string \<times> service_runtime \<times> 'w" where
  "my_addUser ce inst username s w =
     (case AddGenericSecret ce inst (''userpass-'' @ username) [''userpass''] True [] s w of
        ((secretName, e), s, w) \<Rightarrow>
          (let s = warn_on ''cannot deploy user password secret'' (e, s);
               r = my_role inst username secretName s;
               s = mark_secret (ce_rt ce) secretName s
           in (secretName,
               warn_on ''cannot apply user'' (SetDesiredComposedResource (ce_rt ce) r
                 [ComposedOptionProtects (credentials_name inst), ComposedOptionProtects secretName] s), w)))"

definition my_user_data :: "string \<Rightarrow> string \<Rightarrow> str_map \<Rightarrow> str_map \<Rightarrow> string_data" where
  "my_user_data username dbname userpassCD cd =
     [(''MARIADB_USERNAME'', username), (''MARIADB_PASSWORD'', data_field userpassCD ''userpass''), (''MARIADB_DB'', dbname),
      (''MARIADB_HOST'', data_field cd ''MARIADB_HOST''), (''MARIADB_PORT'', data_field cd ''MARIADB_PORT''),
      (''MARIADB_URL'', ''mysql://'' @ username @ '':'' @ data_field userpassCD ''userpass'' @ ''@'' @ data_field cd ''MARIADB_HOST'' @
         '':'' @ data_field cd ''MARIADB_PORT''),
      (''ca.crt'', data_field cd ''ca.crt'')]"

text \<open>A password that is not there yet is the zero value, and the secret is set all the same.\<close>

definition my_addConnectionDetail ::
    "runtime_env \<Rightarrow> comp_info \<Rightarrow> string \<Rightarrow> string \<Rightarrow> string \<Rightarrow> (string \<times> string) option \<Rightarrow> service_runtime \<Rightarrow> service_runtime" where
  "my_addConnectionDetail rt inst secretName username dbname ref s =
     (let (userpassCD, s) = (case GetObservedComposedResourceConnectionDetails s secretName of
            Inl e \<Rightarrow> (Map.empty, AddResult (SeverityWarning, ''cannot get userpassword from secret'') s)
          | Inr cd \<Rightarrow> (cd, s));
          (name, ns) = user_secret_place inst username ref
      in warn_on ''cannot get userpassword from secret''
           (SetDesiredKubeObject rt
              (data_secret name ns ''connection.crossplane.io/v1alpha1'' (my_user_data username dbname userpassCD (sr_connectionDetails s)))
              (ci_Name inst @ ''-user-'' @ username) [KubeOptionAllowDeletion, KubeOptionDeployOnControlPlane] s))"

definition my_addProviderConfig :: "runtime_env \<Rightarrow> comp_info \<Rightarrow> int \<Rightarrow> bool \<Rightarrow> service_runtime \<Rightarrow> service_runtime" where
  "my_addProviderConfig rt inst instances tlsEnabled s =
     (let cd = sr_connectionDetails s;
          endpoint = (case cd ''LOADBALANCER_IP'' of Some ip \<Rightarrow> ip | None \<Rightarrow> data_field cd ''MARIADB_HOST'');
          secret = data_secret (credentials_name inst) (GetCrossplaneNamespace s) ''''
            [(''username'', data_field cd ''MARIADB_USERNAME''), (''password'', data_field cd ''MARIADB_PASSWORD''),
             (''endpoint'', endpoint), (''port'', data_field cd ''MARIADB_PORT'')];
          opts = map (\<lambda>suffix. KubeOptionProtects (ci_Name inst @ suffix)) [''-instancens'', ''-release'', ''-netpol'', ''-main-service''] @
            [KubeOptionDeployOnControlPlane, KubeOptionAllowDeletion] @
            (if instances \<noteq> 1 then [KubeOptionProtects (ci_Name inst @ ''-proxysql-sts'')] else []);
          s = warn_on ''cannot set credential secret for provider-sql'' (SetDesiredKubeObject rt secret (credentials_name inst) opts s);
          config = \<lparr>kb_Kind = ''ProviderConfig'', kb_Name = ci_Name inst, kb_Namespace = '''', kb_ResourceVersion = '''', kb_UID = '''',
            kb_SelfLink = '''', kb_Generation = 0, kb_OwnerReferences = [], kb_Labels = Map.empty, kb_Annotations = None,
            kb_Body = GMap [(''tls'', GStr (if tlsEnabled then ''skip-verify'' else ''preferred'')),
              (''credentials'', GMap [(''source'', GStr ''MySQLConnectionSecret''),
                 (''connectionSecretRef'', GMap [(''name'', GStr (credentials_name inst)), (''namespace'', GStr (GetCrossplaneNamespace s))])])]\<rparr>
      in warn_on ''cannot apply the provider config for provider sql''
           (SetDesiredKubeObject rt config (ci_Name inst @ ''-providerconfig'') [KubeOptionDeployOnControlPlane, KubeOptionAllowDeletion] s))"

definition my_addDatabase :: "runtime_env \<Rightarrow> comp_info \<Rightarrow> string \<Rightarrow> service_runtime \<Rightarrow> service_runtime" where
  "my_addDatabase rt inst dbname s =
     (case GetDesiredComposedResourceByName s (database_name inst dbname) of
        Some _ \<Rightarrow> s
      | None \<Rightarrow> warn_on ''cannot apply database''
          (SetDesiredComposedResource rt
             (sql_resource my_group ''Database'' (database_name inst dbname) (ci_Name inst) [''crossplane.io/external-name'' \<mapsto> dbname] [] None)
             [ComposedOptionProtects (credentials_name inst)] s))"

definition my_addGrants :: "runtime_env \<Rightarrow> comp_info \<Rightarrow> string \<Rightarrow> string \<Rightarrow> string list \<Rightarrow> service_runtime \<Rightarrow> service_runtime" where
  "my_addGrants rt inst username dbname privileges s =
     warn_on ''cannot apply database''
       (SetDesiredComposedResource rt
          (sql_resource my_group ''Grant'' (my_grant_name inst username dbname) (ci_Name inst) Map.empty
             [(''privileges'', GList (map GStr ((if privileges = [] then [''ALL''] else []) @ privileges))),
              (''user'', GStr username), (''database'', GStr dbname)] None)
          [ComposedOptionProtects (credentials_name inst)] s)"

definition my_database_step :: "runtime_env \<Rightarrow> comp_info \<Rightarrow> string \<Rightarrow> string \<Rightarrow> service_runtime \<Rightarrow> service_runtime" where
  "my_database_step rt inst dbuser dbname s =
     (if is_ready s (role_name inst dbuser) \<or> ResourceExistsInObserved s (database_name inst dbname)
      then my_addDatabase rt inst dbname s else s)"

definition my_grants_step :: "runtime_env \<Rightarrow> comp_info \<Rightarrow> string \<Rightarrow> string \<Rightarrow> string list \<Rightarrow> service_runtime \<Rightarrow> service_runtime" where
  "my_grants_step rt inst dbuser dbname privileges s =
     (if is_ready s (role_name inst dbuser) \<and> is_ready s (database_name inst dbname) \<or>
         ResourceExistsInObserved s (my_grant_name inst dbuser dbname)
      then my_addGrants rt inst dbuser dbname privileges s else s)"

definition my_access_step :: "'w cred_env \<Rightarrow> comp_info \<Rightarrow> sql_access \<Rightarrow> service_runtime \<Rightarrow> 'w \<Rightarrow> service_runtime \<times> 'w" where
  "my_access_step ce inst a s w =
     (case my_addUser ce inst (ac_User a) s w of
        (userPasswordRef, s, w) \<Rightarrow>
          (my_addConnectionDetail (ce_rt ce) inst userPasswordRef (ac_User a) (access_database a) (ac_WriteConnectionSecret a)
             (my_grants_step (ce_rt ce) inst (ac_User a) (access_database a) (ac_Privileges a)
               (my_database_step (ce_rt ce) inst (ac_User a) (access_database a) s)), w))"

fun my_access_loop :: "'w cred_env \<Rightarrow> comp_info \<Rightarrow> sql_access list \<Rightarrow> service_runtime \<Rightarrow> 'w \<Rightarrow> service_runtime \<times> 'w" where
  "my_access_loop ce inst [] s w = (s, w)"
| "my_access_loop ce inst (a # as) s w = (case my_access_step ce inst a s w of (s, w) \<Rightarrow> my_access_loop ce inst as s w)"

definition my_UserManagement ::
    "'w cred_env \<Rightarrow> comp_info \<Rightarrow> int \<Rightarrow> bool \<Rightarrow> sql_access list \<Rightarrow> service_runtime \<Rightarrow> 'w \<Rightarrow> service_runtime \<times> 'w" where
  "my_UserManagement ce inst instances tlsEnabled access s w =
     (if access = [] then (s, w) else my_access_loop ce inst access (my_addProviderConfig (ce_rt ce) inst instances tlsEnabled s) w)"

section \<open>The password that is not there yet\<close>

text \<open>An environment in which every object can be set.\<close>

definition kube_ok :: "runtime_env \<Rightarrow> bool" where
  "kube_ok rt \<longleftrightarrow> conversions_ok rt \<and> (\<forall>k. rt_KindOf rt k \<noteq> None) \<and> (\<forall>obj. \<exists>m. rt_ToMap rt obj = Inr m)"

lemma kube_ok_sets: "kube_ok rt \<Longrightarrow> \<exists>s'. SetDesiredKubeObject rt obj n opts s = (None, s')"
proof -
  assume ok: "kube_ok rt"
  obtain m where m: "rt_ToMap rt (clean_object s rt obj) = Inr m" using ok unfolding kube_ok_def by blast
  have k: "rt_KindOf rt (kb_Kind obj) \<noteq> None" and f: "rt_From rt c = None" for c
    using ok unfolding kube_ok_def conversions_ok_def by blast+
  show ?thesis
    using k by (simp add: SetDesiredKubeObject_def SetDesiredKubeObjectWithName_def putIntoObject_def
        SetDesiredComposedResourceWithName_def Let_def m f)
qed

lemma warn_kube_desired: "kube_ok rt \<Longrightarrow> is_desired (warn_on msg (SetDesiredKubeObject rt obj n opts s)) n"
  using kube_ok_sets [of rt obj n opts s] kube_is_desired [of rt obj n opts s] by (auto simp: warn_on_def)

text \<open>
  As long as the password of a user has not been observed, PostgreSQL does not publish the user's connection
  secret, while MariaDB does, with an empty password in it and in its URL.
\<close>

theorem only_postgres_waits_for_the_password:
  assumes "kube_ok rt" "GetObservedComposedResourceConnectionDetails s secretName = Inl NotFoundError"
    "\<not> is_desired s (ci_Name inst @ ''-user-'' @ u)" "EscapeDNS1123 (ci_Name inst @ ''-user-'' @ u) False \<noteq> secretName"
  shows "\<not> is_desired (pg_addConnectionDetail rt inst secretName u d ref s) (ci_Name inst @ ''-user-'' @ u)
    \<and> is_desired (my_addConnectionDetail rt inst secretName u d ref s) (ci_Name inst @ ''-user-'' @ u)
    \<and> map_of (my_user_data u d Map.empty cd) ''MARIADB_PASSWORD'' = Some ''''
    \<and> map_of (my_user_data u d Map.empty cd) ''MARIADB_URL'' =
        Some (''mysql://'' @ u @ '':@'' @ data_field cd ''MARIADB_HOST'' @ '':'' @ data_field cd ''MARIADB_PORT'')"
proof (intro conjI)
  let ?r = "AddResult (SeverityWarning, ''cannot get userpassword from secret'') s"
  have "pg_addConnectionDetail rt inst secretName u d ref s = SetDesiredResourceReadiness secretName ReadyFalse ?r"
    by (simp add: pg_addConnectionDetail_def assms(2) split: prod.splits)
  moreover have "touches {secretName} s (SetDesiredResourceReadiness secretName ReadyFalse ?r)"
    by (rule touches_trans [OF touches_result touches_readiness]) simp
  ultimately show "\<not> is_desired (pg_addConnectionDetail rt inst secretName u d ref s) (ci_Name inst @ ''-user-'' @ u)"
    using not_desired assms(3,4) by fastforce
  show "is_desired (my_addConnectionDetail rt inst secretName u d ref s) (ci_Name inst @ ''-user-'' @ u)"
    unfolding my_addConnectionDetail_def Let_def assms(2)
    by (simp only: sum.case rt_error.case prod.case split: prod.splits) (intro allI impI warn_kube_desired assms(1))
qed (simp_all add: my_user_data_def data_field_def)

theorem only_postgres_waits_for_the_password_witness:
  "\<not> is_desired (pg_addConnectionDetail example_runtime_env example_comp ''redis-a-userpass-app'' ''app'' ''app'' None example_runtime) ''redis-a-user-app''
   \<and> is_desired (my_addConnectionDetail example_runtime_env example_comp ''redis-a-userpass-app'' ''app'' ''app'' None example_runtime) ''redis-a-user-app''"
proof -
  have n: "ci_Name example_comp @ ''-user-'' @ ''app'' = ''redis-a-user-app''" by (simp add: example_comp_def)
  have e: "EscapeDNS1123 ''redis-a-user-app'' False = ''redis-a-user-app''"
    by (rule escape_plain) (simp_all add: dns1123_match_def is_lower_alnum_def)
  have k: "kube_ok example_runtime_env" by (simp add: kube_ok_def conversions_ok_def example_runtime_env_def)
  have s: "GetObservedComposedResourceConnectionDetails example_runtime ''redis-a-userpass-app'' = Inl NotFoundError"
    by (simp add: GetObservedComposedResourceConnectionDetails_def example_runtime_def)
  have d: "\<not> is_desired example_runtime (ci_Name example_comp @ ''-user-'' @ ''app'')" by (simp add: is_desired_def example_runtime_def)
  have ne: "EscapeDNS1123 (ci_Name example_comp @ ''-user-'' @ ''app'') False \<noteq> ''redis-a-userpass-app''" unfolding n e by simp
  show ?thesis using only_postgres_waits_for_the_password [OF k s d ne] unfolding n by blast
qed

section \<open>What is kept\<close>

lemma touches_my_steps:
  "touches UNIV s (my_database_step rt inst u d s)" "touches UNIV s (my_grants_step rt inst u d ps s)"
  by (auto simp: my_database_step_def my_grants_step_def my_addDatabase_def my_addGrants_def intro!: touches_warn split: option.splits)

lemma my_addDatabase_desired: "conversions_ok rt \<Longrightarrow> is_desired (my_addDatabase rt inst d s) (database_name inst d)"
  using warn_composed_desired [of rt "''cannot apply database''"
      "sql_resource my_group ''Database'' (database_name inst d) (ci_Name inst) [''crossplane.io/external-name'' \<mapsto> d] [] None"]
  by (auto simp: my_addDatabase_def GetDesiredComposedResourceByName_def is_desired_def split: option.splits)

text \<open>An existing database is desired again even when the role of its user is not ready.\<close>

lemma my_database_is_kept:
  assumes "conversions_ok rt" "ResourceExistsInObserved s (database_name inst d)"
  shows "is_desired (my_grants_step rt inst u d ps (my_database_step rt inst u d s)) (database_name inst d)"
  using assms my_addDatabase_desired still_desired [OF touches_my_steps(2)] by (simp add: my_database_step_def)

end
