(* ===== verification/MajorUpgrade.thy ===== *)
theory MajorUpgrade
  imports MyUsers PgMaintenance MaintenanceCron
begin

text \<open>
  The major version upgrade of a StackGres instance, \<open>src/pkg/comp-functions/functions/vshnpostgres/major_version_upgrade.go\<close>:
  a state machine over reconciles whose state is the version in the status and the \<open>SGDbOps\<close> object.
\<close>

section \<open>The operation's conditions\<close>

text \<open>A condition whose reason or status is nil where it is read panics, here None.\<close>

fun success_loop :: "sg_condition list \<Rightarrow> bool \<Rightarrow> bool option" where
  "success_loop [] hasCompleted = Some hasCompleted"
| "success_loop (c # cs) hasCompleted =
     (case condition_holds ''OperationFailed'' c of
        Inl _ \<Rightarrow> None
      | Inr True \<Rightarrow> Some False
      | Inr False \<Rightarrow>
          (case condition_holds ''OperationCompleted'' c of
             Inl _ \<Rightarrow> None
           | Inr completed \<Rightarrow> success_loop cs (hasCompleted \<or> completed)))"

definition isSuccessful :: "sg_condition list option \<Rightarrow> bool option" where
  "isSuccessful conditions = (case conditions of None \<Rightarrow> Some False | Some cs \<Rightarrow> success_loop cs False)"

section \<open>State and environment\<close>

record upgrade_status =
  us_CurrentVersion :: string
  us_PreviousVersion :: string

text \<open>The composite: its name and the version the claim asks for.\<close>

record upgrade_comp =
  uc_Name :: string
  uc_InstanceNamespace :: string
  uc_MajorVersion :: string

text \<open>
  The decoding of observed manifests (the settings of a config, an operation with its conditions, the cluster's name,
  a secret), the StackGres client, and what setting the status of the composite gives.
\<close>

record 'w upgrade_env =
  ug_rt :: runtime_env
  ug_Config :: "(string \<times> gany) list \<Rightarrow> gerr + gany"
  ug_DbOps :: "(string \<times> gany) list \<Rightarrow> gerr + kube_object \<times> sg_condition list option"
  ug_Cluster :: "(string \<times> gany) list \<Rightarrow> gerr + string"
  ug_Secret :: "(string \<times> gany) list \<Rightarrow> gerr + str_map"
  ug_New :: "string \<Rightarrow> string \<Rightarrow> string \<Rightarrow> gerr option"
  ug_GetAvailableVersions :: "'w \<Rightarrow> (gerr + string list option) \<times> 'w"
  ug_SetStatus :: "upgrade_status \<Rightarrow> gerr option"

record upgrade_state =
  ux_runtime :: service_runtime
  ux_status :: upgrade_status
  ux_desired :: "upgrade_status option"

definition observed_as :: "((string \<times> gany) list \<Rightarrow> gerr + 'a) \<Rightarrow> service_runtime \<Rightarrow> string \<Rightarrow> rt_error + 'a" where
  "observed_as decode s name =
     (case GetObservedKubeObject s name of Inl e \<Rightarrow> Inl e | Inr m \<Rightarrow> (case decode m of Inl e \<Rightarrow> Inl (RtErr e) | Inr x \<Rightarrow> Inr x))"

section \<open>The steps\<close>

definition configResourceName :: string where "configResourceName = ''pg-conf''"
definition majorUpgradeSuffix :: string where "majorUpgradeSuffix = ''major-upgrade-dbops''"
definition stackgresCredObserver :: string where "stackgresCredObserver = ''stackgres-creds-observer''"

definition dbops_name :: "upgrade_comp \<Rightarrow> string" where
  "dbops_name c = uc_Name c @ ''-'' @ majorUpgradeSuffix"

text \<open>The settings of the running version, under its own name or under the old one.\<close>

definition upgradePGSettings :: "'w upgrade_env \<Rightarrow> upgrade_comp \<Rightarrow> string \<Rightarrow> service_runtime \<Rightarrow> rt_error option \<times> service_runtime" where
  "upgradePGSettings ug c currentV s =
     (let named = observed_as (ug_Config ug) s (uc_Name c @ ''-'' @ configResourceName @ ''-'' @ currentV);
          conf = (case named of Inr x \<Rightarrow> Inr x | Inl _ \<Rightarrow> observed_as (ug_Config ug) s (uc_Name c @ ''-'' @ configResourceName));
          expectedV = uc_MajorVersion c
      in (case conf of
            Inl e \<Rightarrow> (Some (wrap_rt ''cannot get observed kube object postgres config'' e), s)
          | Inr settings \<Rightarrow>
              (case SetDesiredKubeObject (ug_rt ug)
                      (plain_object ''SGPostgresConfig'' (uc_Name c @ ''-postgres-config-'' @ expectedV) (uc_InstanceNamespace c)
                         [(''spec'', GMap [(''postgresVersion'', GStr expectedV), (''postgresql.conf'', settings)])])
                      (uc_Name c @ ''-'' @ configResourceName @ ''-'' @ expectedV) [] s of
                 (Some e, s) \<Rightarrow> (Some (wrap_rt ''cannot create current version postgres config'' e), s)
               | (None, s) \<Rightarrow> (None, s))))"

definition getSgDbOpsIfExists ::
    "'w upgrade_env \<Rightarrow> upgrade_comp \<Rightarrow> service_runtime \<Rightarrow> rt_error + (kube_object \<times> sg_condition list option) option" where
  "getSgDbOpsIfExists ug c s =
     (case observed_as (ug_DbOps ug) s (dbops_name c) of
        Inl NotFoundError \<Rightarrow> Inr None
      | Inl e \<Rightarrow> Inl (wrap_rt ''cannot get observed kube object major upgrade sgdbops'' e)
      | Inr x \<Rightarrow> Inr (Some x))"

definition keepSgDbOpsResource :: "'w upgrade_env \<Rightarrow> upgrade_comp \<Rightarrow> kube_object \<Rightarrow> service_runtime \<Rightarrow> fn_result \<times> service_runtime" where
  "keepSgDbOpsResource ug c dbops s =
     (case SetDesiredKubeObject (ug_rt ug) dbops (dbops_name c) [KubeOptionAllowDeletion] s of
        (Some e, s) \<Rightarrow> ((SeverityWarning, ''cannot keep major upgrade kube object''), s)
      | (None, s) \<Rightarrow> ((SeverityWarning, ''Major upgrade is not completed or it failed''), s))"

definition updateStatusVersion :: "'w upgrade_env \<Rightarrow> string \<Rightarrow> upgrade_state \<Rightarrow> fn_result \<times> upgrade_state" where
  "updateStatusVersion ug v x =
     (let st = \<lparr>us_CurrentVersion = v, us_PreviousVersion = us_CurrentVersion (ux_status x)\<rparr>; x = x\<lparr>ux_status := st\<rparr>
      in (case ug_SetStatus ug st of
            Some e \<Rightarrow> ((SeverityWarning, ''cannot update status field with the newest major postgres version''), x)
          | None \<Rightarrow> ((SeverityNormal, ''Major upgrade successfully finished, SGDBOps cleaned up''), x\<lparr>ux_desired := Some st\<rparr>)))"

definition upgrade_warning :: "string \<Rightarrow> fn_result" where
  "upgrade_warning msg = (SeverityWarning, msg)"

definition createMajorUpgradeSgDbOps ::
    "'g go_version \<Rightarrow> 'w upgrade_env \<Rightarrow> upgrade_comp \<Rightarrow> service_runtime \<Rightarrow> 'w \<Rightarrow> fn_result \<times> service_runtime \<times> 'w" where
  "createMajorUpgradeSgDbOps gv ug c s w =
     (case observed_as (ug_Cluster ug) s ''cluster'' of
        Inl e \<Rightarrow> (upgrade_warning ''cannot get observed kube object cluster'', s, w)
      | Inr cluster \<Rightarrow>
     (case observed_as (ug_Secret ug) s (uc_Name c @ ''-'' @ stackgresCredObserver) of
        Inl e \<Rightarrow> (upgrade_warning ''cannot get observed stackgres-restapi-admin secret'', s, w)
      | Inr secret \<Rightarrow>
     (case ug_New ug (data_field secret ''k8sUsername'') (data_field secret ''clearPassword'') (data_field (sr_Config s) ''sgNamespace'') of
        Some e \<Rightarrow> (upgrade_warning ''cannot initialize stackgres client'', s, w)
      | None \<Rightarrow>
     (case ug_GetAvailableVersions ug w of
        (Inl e, w) \<Rightarrow> (upgrade_warning ''cannot get postgres version list'', s, w)
      | (Inr vList, w) \<Rightarrow>
     (case GetLatestMinorVersion gv (uc_MajorVersion c) vList of
        (_, Some e) \<Rightarrow> (upgrade_warning ''cannot get latest minor version'', s, w)
      | (majorMinorVersion, None) \<Rightarrow>
     (case SetDesiredKubeObject (ug_rt ug)
             (plain_object ''SGDbOps'' (dbops_name c) (uc_InstanceNamespace c)
                [(''spec'', GMap [
                   (''majorVersionUpgrade'', GMap [(''link'', GBool True), (''postgresVersion'', GStr majorMinorVersion),
                      (''sgPostgresConfig'', GStr (uc_Name c @ ''-postgres-config-'' @ uc_MajorVersion c))]),
                   (''op'', GStr ''majorVersionUpgrade''), (''sgCluster'', GStr cluster)])])
             (dbops_name c) [KubeOptionAllowDeletion] s of
        (Some e, s) \<Rightarrow> (upgrade_warning ''cannot create major upgrade kube object'', s, w)
      | (None, s) \<Rightarrow> ((SeverityNormal, ''SGDBOps for major upgrade created''), s, w)))))))"

text \<open>One run; a panic is \<open>Inl ()\<close>. What \<open>updateStatusVersion\<close> returns is dropped.\<close>

definition MajorVersionUpgrade ::
    "'g go_version \<Rightarrow> 'w upgrade_env \<Rightarrow> upgrade_comp \<Rightarrow> upgrade_state \<Rightarrow> 'w \<Rightarrow> (unit + fn_result option) \<times> upgrade_state \<times> 'w" where
  "MajorVersionUpgrade gv ug c x w =
     (let expectedV = uc_MajorVersion c; currentV = us_CurrentVersion (ux_status x)
      in if currentV = '''' \<or> currentV = expectedV then (Inr None, x, w)
         else
     (case upgradePGSettings ug c currentV (ux_runtime x) of
        (Some e, s) \<Rightarrow> (Inr (Some (upgrade_warning ''cannot upgrade PG settings'')), x\<lparr>ux_runtime := s\<rparr>, w)
      | (None, s) \<Rightarrow>
     (case getSgDbOpsIfExists ug c s of
        Inl e \<Rightarrow> (Inr (Some (upgrade_warning ''cannot get major upgrade SgDbOps resource'')), x\<lparr>ux_runtime := s\<rparr>, w)
      | Inr None \<Rightarrow>
          (case createMajorUpgradeSgDbOps gv ug c s w of (r, s, w) \<Rightarrow> (Inr (Some r), x\<lparr>ux_runtime := s\<rparr>, w))
      | Inr (Some (dbops, conditions)) \<Rightarrow>
          (case isSuccessful conditions of
             None \<Rightarrow> (Inl (), x\<lparr>ux_runtime := s\<rparr>, w)
           | Some ok \<Rightarrow>
               (let x = (if ok then snd (updateStatusVersion ug expectedV (x\<lparr>ux_runtime := s\<rparr>)) else x\<lparr>ux_runtime := s\<rparr>)
                in (case keepSgDbOpsResource ug c dbops (ux_runtime x) of (r, s) \<Rightarrow> (Inr (Some r), x\<lparr>ux_runtime := s\<rparr>, w)))))))"


section \<open>When an operation has succeeded\<close>

definition has_condition :: "string \<Rightarrow> sg_condition list \<Rightarrow> bool" where
  "has_condition reason cs \<longleftrightarrow> (\<exists>c \<in> set cs. sc_Reason c = Some reason \<and> sc_Status c = Some ''True'')"

lemma success_loop_spec:
  "success_loop cs b = Some ok \<Longrightarrow> ok \<longleftrightarrow> (b \<or> has_condition ''OperationCompleted'' cs) \<and> \<not> has_condition ''OperationFailed'' cs"
proof (induction cs arbitrary: b)
  case (Cons c cs)
  obtain f where f: "condition_holds ''OperationFailed'' c = Inr f" using Cons.prems by (auto split: sum.splits)
  then have fail: "f \<longleftrightarrow> sc_Reason c = Some ''OperationFailed'' \<and> sc_Status c = Some ''True''"
    by (auto simp: condition_holds_def split: option.splits if_splits)
  show ?case
  proof (cases f)
    case True
    then show ?thesis using Cons.prems f fail by (auto simp: has_condition_def)
  next
    case False
    obtain d where d: "condition_holds ''OperationCompleted'' c = Inr d" using Cons.prems f False by (auto split: sum.splits)
    then have completed: "d \<longleftrightarrow> sc_Reason c = Some ''OperationCompleted'' \<and> sc_Status c = Some ''True''"
      by (auto simp: condition_holds_def split: option.splits if_splits)
    have "success_loop cs (b \<or> d) = Some ok" using Cons.prems f False d by simp
    from Cons.IH [OF this] show ?thesis using False fail completed by (auto simp: has_condition_def)
  qed
qed (simp add: has_condition_def)

lemma isSuccessful_spec:
  "isSuccessful conditions = Some True \<Longrightarrow>
     \<exists>cs. conditions = Some cs \<and> has_condition ''OperationCompleted'' cs \<and> \<not> has_condition ''OperationFailed'' cs"
  using success_loop_spec by (fastforce simp: isSuccessful_def split: option.splits)

section \<open>The version in the status\<close>

lemma touches_upgradePGSettings:
  assumes "upgradePGSettings ug c v s = (e, s')"
  shows "touches {EscapeDNS1123 (uc_Name c @ ''-'' @ configResourceName @ ''-'' @ uc_MajorVersion c) False} s s'"
  using assms by (auto simp: upgradePGSettings_def Let_def split: sum.splits prod.splits option.splits dest: touches_kubeD)

lemma observed_as_cong: "sr_observed s' = sr_observed s \<Longrightarrow> observed_as d s' n = observed_as d s n"
  by (simp add: observed_as_def GetObservedKubeObject_def)

text \<open>The operation that a run sees, and whether it has succeeded.\<close>

definition sees_success :: "'w upgrade_env \<Rightarrow> upgrade_comp \<Rightarrow> service_runtime \<Rightarrow> bool" where
  "sees_success ug c s \<longleftrightarrow>
     (\<exists>dbops cs. observed_as (ug_DbOps ug) s (dbops_name c) = Inr (dbops, Some cs) \<and>
        has_condition ''OperationCompleted'' cs \<and> \<not> has_condition ''OperationFailed'' cs)"

lemma getSgDbOps_observed:
  "getSgDbOpsIfExists ug c s = Inr (Some x) \<longleftrightarrow> observed_as (ug_DbOps ug) s (dbops_name c) = Inr x"
  by (auto simp: getSgDbOpsIfExists_def split: sum.splits rt_error.splits)

lemma status_of_result:
  "ux_status (snd (updateStatusVersion ug v x)) = \<lparr>us_CurrentVersion = v, us_PreviousVersion = us_CurrentVersion (ux_status x)\<rparr>"
  "ux_runtime (snd (updateStatusVersion ug v x)) = ux_runtime x"
  by (simp_all add: updateStatusVersion_def Let_def split: option.splits)

text \<open>The way through a run that changes the status.\<close>

lemma status_change_run:
  assumes "MajorVersionUpgrade gv ug c x w = (r, x', w')" "ux_status x' \<noteq> ux_status x"
  shows "\<exists>s dbops conds. us_CurrentVersion (ux_status x) \<notin> {'''', uc_MajorVersion c} \<and>
    upgradePGSettings ug c (us_CurrentVersion (ux_status x)) (ux_runtime x) = (None, s) \<and>
    observed_as (ug_DbOps ug) (ux_runtime x) (dbops_name c) = Inr (dbops, conds) \<and> isSuccessful conds = Some True \<and>
    ux_status x' = \<lparr>us_CurrentVersion = uc_MajorVersion c, us_PreviousVersion = us_CurrentVersion (ux_status x)\<rparr> \<and>
    (r, ux_runtime x') = (case keepSgDbOpsResource ug c dbops s of (k, s) \<Rightarrow> (Inr (Some k), s))"
proof -
  let ?v = "us_CurrentVersion (ux_status x)"
  have v: "?v \<noteq> ''''" "?v \<noteq> uc_MajorVersion c" using assms by (auto simp: MajorVersionUpgrade_def Let_def)
  obtain e s where u: "upgradePGSettings ug c ?v (ux_runtime x) = (e, s)" by fastforce
  have e: "e = None" using assms v u by (auto simp: MajorVersionUpgrade_def Let_def split: option.splits)
  obtain g where g: "getSgDbOpsIfExists ug c s = Inr g"
    using assms v u e by (auto simp: MajorVersionUpgrade_def Let_def split: sum.splits)
  obtain dbops conds where d: "g = Some (dbops, conds)"
    using assms v u e g by (cases g) (auto simp: MajorVersionUpgrade_def Let_def split: prod.splits)
  obtain ok where ok: "isSuccessful conds = Some ok"
    using assms v u e g d by (auto simp: MajorVersionUpgrade_def Let_def split: option.splits)
  have True: "ok" using assms v u e g d ok by (cases ok) (auto simp: MajorVersionUpgrade_def Let_def split: prod.splits)
  have "observed_as (ug_DbOps ug) (ux_runtime x) (dbops_name c) = Inr (dbops, conds)"
    using g d by (simp add: getSgDbOps_observed observed_as_cong [OF touchesD(3) [OF touches_upgradePGSettings [OF u]]])
  moreover have "ux_status x' = \<lparr>us_CurrentVersion = uc_MajorVersion c, us_PreviousVersion = ?v\<rparr>
      \<and> (r, ux_runtime x') = (case keepSgDbOpsResource ug c dbops s of (k, s) \<Rightarrow> (Inr (Some k), s))"
    using assms(1) v u e g d ok True by (auto simp: MajorVersionUpgrade_def Let_def status_of_result split: prod.splits)
  ultimately show ?thesis using v u e ok True
    by (intro exI [of _ s] exI [of _ dbops] exI [of _ conds] conjI) auto
qed

text \<open>
  C28. The status switches to the new major version only on an operation that has been observed to have completed and
  not to have failed; then the new version is the one the claim asks for, and the old one is remembered.
\<close>

theorem upgrade_switches_only_on_success:
  assumes "MajorVersionUpgrade gv ug c x w = (r, x', w')" "ux_status x' \<noteq> ux_status x"
  shows "sees_success ug c (ux_runtime x) \<and> us_CurrentVersion (ux_status x) \<notin> {'''', uc_MajorVersion c} \<and>
    ux_status x' = \<lparr>us_CurrentVersion = uc_MajorVersion c, us_PreviousVersion = us_CurrentVersion (ux_status x)\<rparr>"
  using status_change_run [OF assms] isSuccessful_spec by (fastforce simp: sees_success_def)

text \<open>
  The run that completes an upgrade reports it as failed: what \<open>updateStatusVersion\<close> returns is dropped, the run
  goes on to keep the finished operation and warns that the upgrade is not completed or has failed.
\<close>

theorem successful_upgrade_reported_as_failure:
  assumes "MajorVersionUpgrade gv ug c x w = (r, x', w')" "ux_status x' \<noteq> ux_status x" "kube_ok (ug_rt ug)"
  shows "r = Inr (Some (SeverityWarning, ''Major upgrade is not completed or it failed''))
    \<and> is_desired (ux_runtime x') (dbops_name c)"
proof -
  obtain s dbops where run: "(r, ux_runtime x') = (case keepSgDbOpsResource ug c dbops s of (k, s) \<Rightarrow> (Inr (Some k), s))"
    using status_change_run [OF assms(1,2)] by blast
  obtain s' where k: "SetDesiredKubeObject (ug_rt ug) dbops (dbops_name c) [KubeOptionAllowDeletion] s = (None, s')"
    using kube_ok_sets [OF assms(3)] by blast
  show ?thesis using run kube_is_desired [OF k] by (simp add: keepSgDbOpsResource_def k)
qed

lemma config_written:
  assumes "observed_as (ug_Config ug) s (uc_Name c @ ''-'' @ configResourceName @ ''-'' @ v) = Inr settings"
    "\<And>obj m opts s. \<exists>s'. SetDesiredKubeObject (ug_rt ug) obj m opts s = (None, s')"
  shows "\<exists>s'. upgradePGSettings ug c v s = (None, s')"
proof -
  obtain s' where "SetDesiredKubeObject (ug_rt ug)
      (plain_object ''SGPostgresConfig'' (uc_Name c @ ''-postgres-config-'' @ uc_MajorVersion c) (uc_InstanceNamespace c)
         [(''spec'', GMap [(''postgresVersion'', GStr (uc_MajorVersion c)), (''postgresql.conf'', settings)])])
      (uc_Name c @ ''-'' @ configResourceName @ ''-'' @ uc_MajorVersion c) [] s = (None, s')"
    using assms(2) by blast
  then show ?thesis unfolding upgradePGSettings_def Let_def assms(1) by simp
qed

text \<open>An upgrade from 15 to 16 whose operation has completed.\<close>

definition example_upgrade_env :: "unit upgrade_env" where
  "example_upgrade_env = \<lparr>ug_rt = example_runtime_env, ug_Config = (\<lambda>_. Inr GNull),
     ug_DbOps = (\<lambda>_. Inr (example_kobject, Some [\<lparr>sc_Reason = Some ''OperationCompleted'', sc_Status = Some ''True''\<rparr>])),
     ug_Cluster = (\<lambda>_. Inr ''cluster''), ug_Secret = (\<lambda>_. Inr Map.empty), ug_New = (\<lambda>_ _ _. None),
     ug_GetAvailableVersions = (\<lambda>w. (Inr None, w)), ug_SetStatus = (\<lambda>_. None)\<rparr>"

definition example_upgrade_comp :: upgrade_comp where
  "example_upgrade_comp = \<lparr>uc_Name = ''pg'', uc_InstanceNamespace = ''vshn-pg'', uc_MajorVersion = ''16''\<rparr>"

definition seen :: "string \<Rightarrow> string \<times> observed_composed" where
  "seen n = (n, \<lparr>or_Resource = example_resource, or_Status = Inr None, or_ConnectionDetails = Map.empty, or_AtProvider = Some []\<rparr>)"

definition upgrading :: upgrade_state where
  "upgrading = \<lparr>ux_runtime = example_runtime\<lparr>sr_observed := [seen ''pg-major-upgrade-dbops'', seen ''pg-pg-conf-15'']\<rparr>,
     ux_status = \<lparr>us_CurrentVersion = ''15'', us_PreviousVersion = ''''\<rparr>, ux_desired = None\<rparr>"

lemma upgrading_run:
  "\<exists>r x'. MajorVersionUpgrade gv example_upgrade_env example_upgrade_comp upgrading () = (r, x', ()) \<and> ux_status x' \<noteq> ux_status upgrading"
proof -
  have e: "EscapeDNS1123 ''pg-major-upgrade-dbops'' False = ''pg-major-upgrade-dbops''" "EscapeDNS1123 ''pg-pg-conf-15'' False = ''pg-pg-conf-15''"
    by (intro escape_plain; simp add: dns1123_match_def is_lower_alnum_def)+
  have n: "dbops_name example_upgrade_comp = ''pg-major-upgrade-dbops''"
    by (simp add: dbops_name_def example_upgrade_comp_def majorUpgradeSuffix_def)
  have conf: "observed_as (ug_Config example_upgrade_env) (ux_runtime upgrading) ''pg-pg-conf-15'' = Inr GNull"
    by (simp add: observed_as_def GetObservedKubeObject_def e upgrading_def seen_def example_upgrade_env_def)
  have ops: "observed_as (ug_DbOps example_upgrade_env) (ux_runtime upgrading) ''pg-major-upgrade-dbops'' =
      Inr (example_kobject, Some [\<lparr>sc_Reason = Some ''OperationCompleted'', sc_Status = Some ''True''\<rparr>])"
    by (simp add: observed_as_def GetObservedKubeObject_def e upgrading_def seen_def example_upgrade_env_def)
  have ok: "isSuccessful (Some [\<lparr>sc_Reason = Some ''OperationCompleted'', sc_Status = Some ''True''\<rparr>]) = Some True"
    by (simp add: isSuccessful_def condition_holds_def)
  have k: "\<exists>s'. SetDesiredKubeObject (ug_rt example_upgrade_env) obj m opts s = (None, s')" for obj m opts s
    by (simp add: example_upgrade_env_def example_kube_ok)
  have "\<exists>s. upgradePGSettings example_upgrade_env example_upgrade_comp ''15'' (ux_runtime upgrading) = (None, s)"
  proof -
    have n: "uc_Name example_upgrade_comp @ ''-'' @ configResourceName @ ''-'' @ ''15'' = ''pg-pg-conf-15''"
      by (simp add: example_upgrade_comp_def configResourceName_def)
    have "observed_as (ug_Config example_upgrade_env) (ux_runtime upgrading)
        (uc_Name example_upgrade_comp @ ''-'' @ configResourceName @ ''-'' @ ''15'') = Inr GNull"
      unfolding n by (rule conf)
    then show ?thesis using k by (rule config_written)
  qed
  then obtain s where s: "upgradePGSettings example_upgrade_env example_upgrade_comp ''15'' (ux_runtime upgrading) = (None, s)" by blast
  have g: "getSgDbOpsIfExists example_upgrade_env example_upgrade_comp s =
      Inr (Some (example_kobject, Some [\<lparr>sc_Reason = Some ''OperationCompleted'', sc_Status = Some ''True''\<rparr>]))"
    using ops by (simp add: getSgDbOps_observed n observed_as_cong [OF touchesD(3) [OF touches_upgradePGSettings [OF s]]])
  have c: "us_CurrentVersion (ux_status upgrading) = ''15''" "uc_MajorVersion example_upgrade_comp = ''16''"
    by (simp_all add: upgrading_def example_upgrade_comp_def)
  show ?thesis
    by (auto simp: MajorVersionUpgrade_def Let_def c s g ok status_of_result split: prod.splits) (simp add: upgrading_def)
qed

theorem upgrade_switches_only_on_success_witness:
  "\<exists>gv r x'. MajorVersionUpgrade (gv :: nat go_version) example_upgrade_env example_upgrade_comp upgrading () = (r, x', ())
     \<and> us_CurrentVersion (ux_status x') = ''16'' \<and> us_PreviousVersion (ux_status x') = ''15''"
proof -
  fix gv :: "nat go_version"
  obtain r x' where r: "MajorVersionUpgrade gv example_upgrade_env example_upgrade_comp upgrading () = (r, x', ())" "ux_status x' \<noteq> ux_status upgrading"
    using upgrading_run by blast
  from upgrade_switches_only_on_success [OF r]
  have "us_CurrentVersion (ux_status x') = ''16''" "us_PreviousVersion (ux_status x') = ''15''"
    by (simp_all add: example_upgrade_comp_def upgrading_def)
  then show ?thesis using r by blast
qed

theorem successful_upgrade_reported_as_failure_witness:
  "\<exists>gv x'. MajorVersionUpgrade (gv :: nat go_version) example_upgrade_env example_upgrade_comp upgrading () =
     (Inr (Some (SeverityWarning, ''Major upgrade is not completed or it failed'')), x', ()) \<and> us_CurrentVersion (ux_status x') = ''16''"
proof -
  fix gv :: "nat go_version"
  obtain r x' where r: "MajorVersionUpgrade gv example_upgrade_env example_upgrade_comp upgrading () = (r, x', ())" "ux_status x' \<noteq> ux_status upgrading"
    using upgrading_run by blast
  have k: "kube_ok (ug_rt example_upgrade_env)" by (simp add: kube_ok_def conversions_ok_def example_upgrade_env_def example_runtime_env_def)
  have "ux_status x' = \<lparr>us_CurrentVersion = uc_MajorVersion example_upgrade_comp,
      us_PreviousVersion = us_CurrentVersion (ux_status upgrading)\<rparr>"
    using status_change_run [OF r] by blast
  then have "us_CurrentVersion (ux_status x') = ''16''" by (simp add: example_upgrade_comp_def)
  then show ?thesis using r(1) successful_upgrade_reported_as_failure [OF r k] by auto
qed

end
