(* ===== verification/ProbeManager.thy ===== *)
theory ProbeManager
  imports Prelude
begin

text \<open>
  The probe manager of the SLI exporter, \<open>src/pkg/sliexporter/probes/manager.go\<close> and \<open>common.go\<close>. A prober is
  what \<open>GetInfo\<close> says of it. Starting and stopping happen under the mutex and are functions on the state;
  what the goroutines do between them is a step relation.
\<close>

section \<open>Data\<close>

record probe_info =
  pi_Service :: string
  pi_Name :: string
  pi_ClaimNamespace :: string
  pi_InstanceNamespace :: string
  pi_Organization :: string
  pi_HighAvailable :: bool
  pi_ServiceLevel :: string
  pi_CompositionName :: string

definition NewProbeInfo :: "string \<Rightarrow> string \<times> string \<Rightarrow> string \<Rightarrow> string \<Rightarrow> (string \<Rightarrow> string option) \<Rightarrow> probe_info" where
  "NewProbeInfo serviceKey nn objName objNamespace objLabels =
     (let namespace = (if fst nn = '''' then or_zero '''' (objLabels ''crossplane.io/claim-namespace'') else fst nn)
      in \<lparr>pi_Service = serviceKey, pi_Name = objName, pi_ClaimNamespace = namespace, pi_InstanceNamespace = objNamespace,
          pi_Organization = '''', pi_HighAvailable = False, pi_ServiceLevel = '''', pi_CompositionName = ''''\<rparr>)"

definition NewFailingProbe :: "string \<Rightarrow> string \<Rightarrow> string \<Rightarrow> string \<Rightarrow> probe_info" where
  "NewFailingProbe service name claimNamespace instanceNamespace =
     \<lparr>pi_Service = service, pi_Name = name, pi_ClaimNamespace = claimNamespace, pi_InstanceNamespace = instanceNamespace,
      pi_Organization = '''', pi_HighAvailable = False, pi_ServiceLevel = '''', pi_CompositionName = ''''\<rparr>"

definition getKey :: "probe_info \<Rightarrow> string" where
  "getKey info = pi_Service info @ ''; '' @ pi_Name info"

text \<open>
  One call of \<open>runProbe\<close>: whether its context is cancelled, whether it has returned, the flag
  \<open>probeRunning\<close>, and how many goroutines it has in flight.
\<close>

record probe_run =
  pr_Info :: probe_info
  pr_Cancelled :: bool
  pr_Returned :: bool
  pr_Running :: bool
  pr_InFlight :: nat

text \<open>The manager: the map of cancel functions, each the index of the run it cancels, and all runs so far.\<close>

record probe_manager =
  pm_probers :: "string \<Rightarrow> nat option"
  pm_runs :: "probe_run list"

definition NewManager :: probe_manager where
  "NewManager = \<lparr>pm_probers = Map.empty, pm_runs = []\<rparr>"

section \<open>Starting and stopping\<close>

definition cancel_run :: "nat \<Rightarrow> probe_run list \<Rightarrow> probe_run list" where
  "cancel_run i runs = runs[i := (runs ! i)\<lparr>pr_Cancelled := True\<rparr>]"

definition StartProbe :: "probe_info \<Rightarrow> probe_manager \<Rightarrow> probe_manager" where
  "StartProbe p m =
     (let probeKey = getKey p;
          runs = (case pm_probers m probeKey of None \<Rightarrow> pm_runs m | Some c \<Rightarrow> cancel_run c (pm_runs m))
      in m\<lparr>pm_probers := (pm_probers m)(probeKey \<mapsto> length runs),
           pm_runs := runs @ [\<lparr>pr_Info = p, pr_Cancelled = False, pr_Returned = False, pr_Running = False, pr_InFlight = 0\<rparr>]\<rparr>)"

definition StopProbe :: "probe_info \<Rightarrow> probe_manager \<Rightarrow> probe_manager" where
  "StopProbe info m =
     (let probeKey = getKey info
      in case pm_probers m probeKey of
           None \<Rightarrow> m
         | Some c \<Rightarrow> m\<lparr>pm_probers := (pm_probers m)(probeKey := None), pm_runs := cancel_run c (pm_runs m)\<rparr>)"

text \<open>A tick: the compare-and-swap, and the goroutine when it succeeds.\<close>

definition probe_tick :: "probe_run \<Rightarrow> probe_run" where
  "probe_tick r = (if pr_Running r then r else r\<lparr>pr_Running := True, pr_InFlight := pr_InFlight r + 1\<rparr>)"

text \<open>The end of a goroutine, its deferred store included.\<close>

definition probe_done :: "probe_run \<Rightarrow> probe_run" where
  "probe_done r = r\<lparr>pr_Running := False, pr_InFlight := pr_InFlight r - 1\<rparr>"

text \<open>
  What can happen next. The select of \<open>runProbe\<close> takes either ready case, so a tick may still be taken
  after the context is cancelled; goroutines may outlive the loop.
\<close>

inductive manager_step :: "probe_manager \<Rightarrow> probe_manager \<Rightarrow> bool" where
  start: "manager_step m (StartProbe p m)"
| stop: "manager_step m (StopProbe info m)"
| tick: "i < length (pm_runs m) \<Longrightarrow> \<not> pr_Returned (pm_runs m ! i) \<Longrightarrow>
    manager_step m (m\<lparr>pm_runs := (pm_runs m)[i := probe_tick (pm_runs m ! i)]\<rparr>)"
| finish: "i < length (pm_runs m) \<Longrightarrow> 0 < pr_InFlight (pm_runs m ! i) \<Longrightarrow>
    manager_step m (m\<lparr>pm_runs := (pm_runs m)[i := probe_done (pm_runs m ! i)]\<rparr>)"
| return: "i < length (pm_runs m) \<Longrightarrow> pr_Cancelled (pm_runs m ! i) \<Longrightarrow>
    manager_step m (m\<lparr>pm_runs := (pm_runs m)[i := (pm_runs m ! i)\<lparr>pr_Returned := True\<rparr>]\<rparr>)"

inductive_cases manager_stepE: "manager_step m m'"

definition manager_reachable :: "probe_manager \<Rightarrow> bool" where
  "manager_reachable m = manager_step\<^sup>*\<^sup>* NewManager m"

section \<open>The outcome of one probe\<close>

text \<open>What the probe returned, and the state of its context.\<close>

datatype probe_error = ErrTimeout | OtherError
datatype ctx_error = CtxOk | DeadlineExceeded | Canceled

record probe_labels =
  lb_Info :: probe_info
  lb_Maintenance :: bool

text \<open>The reason under which the latency is observed; a cancelled probe is not.\<close>

definition probe_reason :: "probe_error option \<Rightarrow> ctx_error \<Rightarrow> string option" where
  "probe_reason err ctx =
     (case err of
        None \<Rightarrow> Some ''success''
      | Some e \<Rightarrow>
          (if e = ErrTimeout \<or> ctx = DeadlineExceeded then Some ''fail-timeout''
           else if ctx = Canceled then None
           else Some ''fail-unknown''))"

definition sendProbe :: "bool \<Rightarrow> probe_info \<Rightarrow> probe_error option \<Rightarrow> ctx_error \<Rightarrow> (probe_labels \<times> string) option" where
  "sendProbe maintenance info err ctx =
     map_option (\<lambda>reason. (\<lparr>lb_Info = info, lb_Maintenance = maintenance\<rparr>, reason)) (probe_reason err ctx)"

section \<open>The invariant\<close>

definition live :: "probe_manager \<Rightarrow> nat \<Rightarrow> bool" where
  "live m i \<longleftrightarrow> i < length (pm_runs m) \<and> \<not> pr_Cancelled (pm_runs m ! i)"

definition run_ok :: "probe_run \<Rightarrow> bool" where
  "run_ok r \<longleftrightarrow> pr_InFlight r = (if pr_Running r then 1 else 0) \<and> (pr_Returned r \<longrightarrow> pr_Cancelled r)"

text \<open>The map names exactly the runs that are not cancelled, each under its own key.\<close>

definition manager_ok :: "probe_manager \<Rightarrow> bool" where
  "manager_ok m \<longleftrightarrow>
     (\<forall>k i. pm_probers m k = Some i \<longleftrightarrow> live m i \<and> getKey (pr_Info (pm_runs m ! i)) = k) \<and> (\<forall>r \<in> set (pm_runs m). run_ok r)"

lemma manager_okD:
  assumes "manager_ok m"
  shows "pm_probers m k = Some i \<longleftrightarrow> live m i \<and> getKey (pr_Info (pm_runs m ! i)) = k"
    and "i < length (pm_runs m) \<Longrightarrow> run_ok (pm_runs m ! i)"
  using assms by (auto simp: manager_ok_def)

lemma live_unique:
  assumes "manager_ok m" and "live m i" and "live m j" and "getKey (pr_Info (pm_runs m ! i)) = getKey (pr_Info (pm_runs m ! j))"
  shows "i = j"
  using assms manager_okD(1) [OF assms(1)] by (metis option.inject)

lemma cancel_run_nth:
  "j < length runs \<Longrightarrow> cancel_run i runs ! j = (if j = i then (runs ! i)\<lparr>pr_Cancelled := True\<rparr> else runs ! j)"
  "length (cancel_run i runs) = length runs"
  by (auto simp: cancel_run_def nth_list_update)

lemma cancel_run_ok: "\<forall>r \<in> set runs. run_ok r \<Longrightarrow> \<forall>r \<in> set (cancel_run i runs). run_ok r"
proof -
  assume ok: "\<forall>r \<in> set runs. run_ok r"
  show ?thesis
  proof (cases "i < length runs")
    case True
    then have "run_ok ((runs ! i)\<lparr>pr_Cancelled := True\<rparr>)" using ok nth_mem [OF True] by (auto simp: run_ok_def)
    then show ?thesis using ok set_update_subset_insert [of runs i] by (auto simp: cancel_run_def)
  qed (simp add: cancel_run_def ok list_update_beyond)
qed

lemma StopProbe_ok:
  assumes "manager_ok m"
  shows "manager_ok (StopProbe info m)"
proof (cases "pm_probers m (getKey info)")
  case (Some c)
  note ok = manager_okD(1) [OF assms]
  let ?m = "StopProbe info m"
  have m': "pm_probers ?m = (pm_probers m)(getKey info := None)" "pm_runs ?m = cancel_run c (pm_runs m)"
    using Some by (simp_all add: StopProbe_def)
  have c: "live m c" "getKey (pr_Info (pm_runs m ! c)) = getKey info" using ok Some by blast+
  have live': "live ?m i \<longleftrightarrow> live m i \<and> i \<noteq> c" for i by (auto simp: live_def m' cancel_run_nth split: if_splits)
  have key': "getKey (pr_Info (pm_runs ?m ! i)) = getKey (pr_Info (pm_runs m ! i))" if "i < length (pm_runs m)" for i
    using that by (simp add: m' cancel_run_nth)
  have "pm_probers ?m k = Some i \<longleftrightarrow> live ?m i \<and> getKey (pr_Info (pm_runs ?m ! i)) = k" for k i
  proof (cases "live m i")
    case True
    then have len: "i < length (pm_runs m)" by (simp add: live_def)
    show ?thesis
    proof (cases "i = c")
      case False
      then have "getKey (pr_Info (pm_runs m ! i)) \<noteq> getKey info" using live_unique [OF assms True c(1)] c(2) by auto
      then show ?thesis using ok [of k i] True False by (auto simp: m'(1) live' key' [OF len])
    qed (use ok [of k c] c in \<open>auto simp: m'(1) live'\<close>)
  next
    case False
    then show ?thesis using ok by (auto simp: m'(1) live')
  qed
  moreover have "\<forall>r \<in> set (pm_runs ?m). run_ok r"
    unfolding m'(2) by (rule cancel_run_ok) (use assms in \<open>simp add: manager_ok_def\<close>)
  ultimately show ?thesis unfolding manager_ok_def by blast
qed (simp add: StopProbe_def assms)

text \<open>Starting is stopping what runs under the key, and appending a new run.\<close>

lemma StartProbe_alt:
  "StartProbe p m =
     (let m = StopProbe p m
      in m\<lparr>pm_probers := (pm_probers m)(getKey p \<mapsto> length (pm_runs m)),
           pm_runs := pm_runs m @ [\<lparr>pr_Info = p, pr_Cancelled = False, pr_Returned = False, pr_Running = False, pr_InFlight = 0\<rparr>]\<rparr>)"
  by (simp add: StartProbe_def StopProbe_def Let_def split: option.splits)

lemma StopProbe_stops: "manager_ok m \<Longrightarrow> pm_probers (StopProbe info m) (getKey info) = None"
  by (simp add: StopProbe_def Let_def split: option.splits)

lemma StartProbe_ok:
  assumes "manager_ok m"
  shows "manager_ok (StartProbe p m)"
proof -
  let ?m = "StopProbe p m" and ?new = "\<lparr>pr_Info = p, pr_Cancelled = False, pr_Returned = False, pr_Running = False, pr_InFlight = 0\<rparr>"
  note ok = StopProbe_ok [OF assms, of p]
  have m': "pm_probers (StartProbe p m) = (pm_probers ?m)(getKey p \<mapsto> length (pm_runs ?m))" "pm_runs (StartProbe p m) = pm_runs ?m @ [?new]"
    by (simp_all add: StartProbe_alt Let_def)
  have none: "\<not> (live ?m i \<and> getKey (pr_Info (pm_runs ?m ! i)) = getKey p)" for i
    using manager_okD(1) [OF ok, of "getKey p" i] StopProbe_stops [OF assms, of p] by simp
  have live': "live (StartProbe p m) i \<longleftrightarrow> live ?m i \<or> i = length (pm_runs ?m)" for i
    by (auto simp: live_def m' nth_append)
  have "pm_probers (StartProbe p m) k = Some i \<longleftrightarrow>
      live (StartProbe p m) i \<and> getKey (pr_Info (pm_runs (StartProbe p m) ! i)) = k" for k i
  proof (cases "i = length (pm_runs ?m)")
    case True
    then show ?thesis using manager_okD(1) [OF ok, of k i] by (auto simp: m' live' live_def)
  next
    case False
    then show ?thesis using manager_okD(1) [OF ok, of k i] none [of i] by (auto simp: m' live' live_def nth_append)
  qed
  moreover have "\<forall>r \<in> set (pm_runs (StartProbe p m)). run_ok r"
    using ok by (simp add: m'(2) manager_ok_def run_ok_def)
  ultimately show ?thesis by (simp add: manager_ok_def)
qed

lemma update_run_ok:
  assumes "manager_ok m" and "i < length (pm_runs m)" and "run_ok r" and "pr_Info r = pr_Info (pm_runs m ! i)"
    and "pr_Cancelled r = pr_Cancelled (pm_runs m ! i)"
  shows "manager_ok (m\<lparr>pm_runs := (pm_runs m)[i := r]\<rparr>)"
proof -
  have "live (m\<lparr>pm_runs := (pm_runs m)[i := r]\<rparr>) j = live m j" "pr_Info ((pm_runs m)[i := r] ! j) = pr_Info (pm_runs m ! j)" for j
    using assms by (cases "j = i"; simp add: live_def)+
  then show ?thesis using assms(1,3) set_update_subset_insert [of "pm_runs m" i r] by (auto simp: manager_ok_def)
qed

lemma manager_step_ok: "manager_step m m' \<Longrightarrow> manager_ok m \<Longrightarrow> manager_ok m'"
proof (induction rule: manager_step.induct)
  case (tick i m)
  then show ?case using manager_okD(2) [of m i] by (intro update_run_ok) (auto simp: probe_tick_def run_ok_def)
next
  case (finish i m)
  then show ?case using manager_okD(2) [of m i] by (intro update_run_ok) (auto simp: probe_done_def run_ok_def split: if_splits)
next
  case (return i m)
  then show ?case using manager_okD(2) [of m i] by (intro update_run_ok) (auto simp: run_ok_def)
qed (simp_all add: StartProbe_ok StopProbe_ok)

lemma manager_reachable_ok: "manager_reachable m \<Longrightarrow> manager_ok m"
  unfolding manager_reachable_def
  by (induction rule: rtranclp_induct) (auto simp: manager_step_ok, simp add: manager_ok_def NewManager_def live_def)

text \<open>
  C29. Whatever starts, stops, ticks and ends of probes have happened in whatever order: of the runs that are
  not cancelled no two have the same key, every run has at most one probe in flight, and no run has
  returned whose context was not cancelled.
\<close>

theorem at_most_one_prober:
  assumes "manager_reachable m" and "i < length (pm_runs m)"
  shows "(case pm_probers m (getKey (pr_Info (pm_runs m ! i))) of
            None \<Rightarrow> pr_Cancelled (pm_runs m ! i)
          | Some j \<Rightarrow> pr_Cancelled (pm_runs m ! i) = (i \<noteq> j)) \<and>
    pr_InFlight (pm_runs m ! i) \<le> 1 \<and> pr_Returned (pm_runs m ! i) \<le> pr_Cancelled (pm_runs m ! i)"
proof -
  note ok = manager_reachable_ok [OF assms(1)]
  have "run_ok (pm_runs m ! i)" using manager_okD(2) [OF ok assms(2)] .
  moreover have "live m i = (pm_probers m (getKey (pr_Info (pm_runs m ! i))) = Some i)" using manager_okD(1) [OF ok] by blast
  ultimately show ?thesis using assms(2) by (auto simp: run_ok_def live_def split: option.splits)
qed

text \<open>A prober started twice, with a tick in between.\<close>

definition example_probe :: probe_info where
  "example_probe = NewFailingProbe ''VSHNRedis'' ''redis-a'' ''app'' ''vshn-redis-redis-a''"

lemma at_most_one_prober_witness:
  "\<exists>m. manager_reachable m \<and> length (pm_runs m) = 2 \<and> pr_InFlight (pm_runs m ! 0) = 1 \<and>
     pr_Cancelled (pm_runs m ! 0) \<and> \<not> pr_Cancelled (pm_runs m ! 1)"
proof -
  let ?m1 = "StartProbe example_probe NewManager"
  let ?m2 = "?m1\<lparr>pm_runs := (pm_runs ?m1)[0 := probe_tick (pm_runs ?m1 ! 0)]\<rparr>"
  let ?m3 = "StartProbe example_probe ?m2"
  have "manager_step ?m1 ?m2" by (rule manager_step.tick) (simp_all add: StartProbe_def NewManager_def)
  then have r: "manager_reachable ?m3"
    unfolding manager_reachable_def by (meson converse_rtranclp_into_rtranclp manager_step.start rtranclp.rtrancl_refl)
  have runs: "length (pm_runs ?m3) = 2" "pr_InFlight (pm_runs ?m3 ! 0) = 1"
      "pm_probers ?m3 (getKey (pr_Info (pm_runs ?m3 ! 0))) = Some 1" "pm_probers ?m3 (getKey (pr_Info (pm_runs ?m3 ! 1))) = Some 1"
    by (simp_all add: StartProbe_def NewManager_def probe_tick_def cancel_run_def)
  show ?thesis using r runs at_most_one_prober [OF r, of 0] at_most_one_prober [OF r, of 1] by (intro exI [of _ ?m3]) simp
qed

end
