(* ===== verification/SliReconciler.thy ===== *)
theory SliReconciler
  imports ProbeManager Resources
begin

text \<open>
  The reconciler the controllers of the SLI exporter share, \<open>src/pkg/sliexporter/sli_reconciler/reconciler.go\<close>,
  and the detection of maintenance windows, \<open>src/pkg/sliexporter/maintenance_controller/controller.go\<close>.
\<close>

section \<open>Data\<close>

text \<open>What the reconciler and the controllers read of a composite; \<open>si_Instances\<close> is \<open>GetInstances\<close>.\<close>

record sli_instance =
  si_Name :: string
  si_Labels :: str_map
  si_Deleted :: bool
  si_SecretRef :: "(string \<times> string) option"
  si_Instances :: int
  si_Created :: instant
  si_InstanceNamespace :: string
  si_StatusNamespace :: string
  si_ServiceLevel :: string
  si_CompositionName :: string
  si_TLSEnabled :: bool
  si_RelativePath :: string

text \<open>
  The two clusters and the clock. Objects of Garage are read, created and deleted by kind, namespace and
  name.
\<close>

record 'w sli_env =
  se_Get :: "string \<times> string \<Rightarrow> 'w \<Rightarrow> (gerr + sli_instance) \<times> 'w"
  se_Now :: "'w \<Rightarrow> instant \<times> 'w"
  se_GetNamespace :: "string \<Rightarrow> 'w \<Rightarrow> gerr option \<times> 'w"
  se_GetSecret :: "string \<Rightarrow> string \<Rightarrow> 'w \<Rightarrow> (gerr + str_map) \<times> 'w"
  se_GetServiceSecret :: "string \<Rightarrow> string \<Rightarrow> 'w \<Rightarrow> (gerr + str_map) \<times> 'w"
  se_GetClaimNamespace :: "string \<Rightarrow> 'w \<Rightarrow> (gerr + str_map) \<times> 'w"
  se_GetObject :: "string \<Rightarrow> string \<Rightarrow> string \<Rightarrow> 'w \<Rightarrow> gerr option \<times> 'w"
  se_CreateObject :: "string \<Rightarrow> string \<Rightarrow> string \<Rightarrow> (string \<times> gany) list \<Rightarrow> 'w \<Rightarrow> gerr option \<times> 'w"
  se_DeleteObject :: "string \<Rightarrow> string \<Rightarrow> string \<Rightarrow> 'w \<Rightarrow> gerr option \<times> 'w"

text \<open>
  An error of a fetcher. \<open>errNotReady\<close> is a variable of the reconciler's package, and another one of the
  same text in the controllers' packages; errors are compared as pointers.
\<close>

datatype sli_error = SliErr gerr | ReconcilerNotReady | ControllerNotReady | SliPanic

type_synonym 'w fetcher = "sli_instance \<Rightarrow> 'w \<Rightarrow> (sli_error + probe_info) \<times> 'w"

definition ClaimNamespaceLabel :: string where "ClaimNamespaceLabel = ''crossplane.io/claim-namespace''"
definition ClaimNameLabel :: string where "ClaimNameLabel = ''crossplane.io/claim-name''"

section \<open>The reconciler\<close>

definition sli_namespaceExists :: "'w sli_env \<Rightarrow> sli_instance \<Rightarrow> 'w \<Rightarrow> (gerr + bool) \<times> 'w" where
  "sli_namespaceExists env inst w =
     (case se_GetNamespace env (si_InstanceNamespace inst) w of
        (Some e, w) \<Rightarrow> (if IsNotFound e then Inr False else Inl e, w)
      | (None, w) \<Rightarrow> (Inr True, w))"

definition key_info :: "string \<Rightarrow> string \<Rightarrow> probe_info" where
  "key_info serviceKey name = NewFailingProbe serviceKey name '''' ''''"

text \<open>Fetching and starting, the last part of \<open>Reconcile\<close>.\<close>

definition start_probe ::
    "string \<Rightarrow> 'w fetcher \<Rightarrow> sli_instance \<Rightarrow> probe_manager \<Rightarrow> 'w \<Rightarrow> reconcile_result \<times> probe_manager \<times> 'w" where
  "start_probe serviceKey fetchProberFor inst pm w =
     (let claimNamespace = or_zero '''' (si_Labels inst ClaimNamespaceLabel)
      in case fetchProberFor inst w of
           (Inr p, w) \<Rightarrow> (Done, StartProbe p pm, w)
         | (Inl SliPanic, w) \<Rightarrow> (Panicked, pm, w)
         | (Inl ControllerNotReady, w) \<Rightarrow> (Failure (Msg ''Resource is not yet ready''), pm, w)
         | (Inl ReconcilerNotReady, w) \<Rightarrow>
             (RequeueAfter (30 * second), StartProbe (NewFailingProbe serviceKey (si_Name inst) claimNamespace (si_InstanceNamespace inst)) pm, w)
         | (Inl (SliErr e), w) \<Rightarrow>
             (if IsNotFound e
              then (RequeueAfter (30 * second),
                    StartProbe (NewFailingProbe serviceKey (si_Name inst) claimNamespace (si_InstanceNamespace inst)) pm, w)
              else (Failure e, pm, w)))"

text \<open>
  \<open>Reconcile\<close>; \<open>inst0\<close> is the object the reconciler was made with, which a failing read leaves as it is.
\<close>

definition sli_Reconcile ::
    "'w sli_env \<Rightarrow> string \<Rightarrow> duration \<Rightarrow> 'w fetcher \<Rightarrow> string \<times> string \<Rightarrow> sli_instance \<Rightarrow> probe_manager \<Rightarrow> 'w \<Rightarrow>
     reconcile_result \<times> probe_manager \<times> 'w" where
  "sli_Reconcile env serviceKey startupGracePeriod fetchProberFor nn inst0 pm w =
     (case se_Get env nn w of (r, w) \<Rightarrow>
     (let inst = (case r of Inl e \<Rightarrow> inst0 | Inr i \<Rightarrow> i);
          gone = (case r of Inl e \<Rightarrow> IsNotFound e | Inr i \<Rightarrow> False)
      in if gone \<or> si_Deleted inst then (Done, StopProbe (key_info serviceKey (snd nn)) pm, w)
         else (case r of
                 Inl e \<Rightarrow> (Failure e, pm, w)
               | Inr inst \<Rightarrow>
                   (if (case si_SecretRef inst of None \<Rightarrow> True | Some (name, ns) \<Rightarrow> name = '''') then (Done, pm, w)
                    else if si_Instances inst = 0 then (Done, StopProbe (key_info serviceKey (snd nn)) pm, w)
                    else (case se_Now env w of (now1, w) \<Rightarrow>
                      if time_sub now1 (si_Created inst) < startupGracePeriod
                      then (case se_Now env w of (now2, w) \<Rightarrow>
                             (RequeueAfter (startupGracePeriod - time_sub now2 (si_Created inst)), pm, w))
                      else (case sli_namespaceExists env inst w of
                              (Inl e, w) \<Rightarrow> (Failure e, pm, w)
                            | (Inr False, w) \<Rightarrow> (Done, pm, w)
                            | (Inr True, w) \<Rightarrow> start_probe serviceKey fetchProberFor inst pm w))))))"

section \<open>Maintenance windows\<close>

record upgrade_job =
  uj_Deleted :: bool
  uj_Conditions :: "(string \<times> string) list"

record 'w upgrade_env =
  ue_Get :: "string \<times> string \<Rightarrow> 'w \<Rightarrow> (gerr + upgrade_job) \<times> 'w"
  ue_List :: "'w \<Rightarrow> (gerr + upgrade_job list) \<times> 'w"

text \<open>\<open>IsStatusConditionTrue\<close>: the first condition of the type is True.\<close>

definition condition_true :: "(string \<times> string) list \<Rightarrow> string \<Rightarrow> bool" where
  "condition_true cs t = (map_of cs t = Some ''True'')"

definition jobState :: "upgrade_job \<Rightarrow> string" where
  "jobState job =
     (if condition_true (uj_Conditions job) ''Succeeded'' then ''succeeded''
      else if condition_true (uj_Conditions job) ''Failed'' then ''failed''
      else if condition_true (uj_Conditions job) ''Started'' then ''active''
      else ''pending'')"

definition isAnyJobRunning :: "'w upgrade_env \<Rightarrow> 'w \<Rightarrow> (bool \<times> gerr option) \<times> 'w" where
  "isAnyJobRunning env w =
     (case ue_List env w of
        (Inl e, w) \<Rightarrow> ((False, Some e), w)
      | (Inr jobs, w) \<Rightarrow> ((list_ex (\<lambda>job. jobState job = ''active'') jobs, None), w))"

definition upgrade_Reconcile :: "'w upgrade_env \<Rightarrow> string \<times> string \<Rightarrow> bool \<Rightarrow> 'w \<Rightarrow> reconcile_result \<times> bool \<times> 'w" where
  "upgrade_Reconcile env req maintenance w =
     (case ue_Get env req w of
        (Inl e, w) \<Rightarrow> (if IsNotFound e then (Done, maintenance, w) else (Failure e, maintenance, w))
      | (Inr inst, w) \<Rightarrow>
          (if uj_Deleted inst then (Done, maintenance, w)
           else (case isAnyJobRunning env w of
                   ((running, None), w) \<Rightarrow> (Done, running, w)
                 | ((running, Some e), w) \<Rightarrow> (Failure e, running, w))))"

text \<open>The flag is right after a reconcile that could list the jobs.\<close>

lemma upgrade_flag_right:
  assumes "ue_Get env req w = (Inr inst, w1)" and "\<not> uj_Deleted inst" and "ue_List env w1 = (Inr jobs, w2)"
  shows "upgrade_Reconcile env req maintenance w = (Done, \<exists>job \<in> set jobs. jobState job = ''active'', w2)"
  using assms by (simp add: upgrade_Reconcile_def isAnyJobRunning_def list_ex_iff)

text \<open>A list that fails ends the maintenance, and a deleted job, even the one that was active, leaves it running.\<close>

lemma list_error_ends_maintenance:
  assumes "ue_Get env req w = (Inr inst, w1)" and "\<not> uj_Deleted inst" and "ue_List env w1 = (Inl e, w2)"
  shows "upgrade_Reconcile env req True w = (Failure e, False, w2)"
  using assms by (simp add: upgrade_Reconcile_def isAnyJobRunning_def)

lemma deleted_job_keeps_maintenance:
  assumes "ue_Get env req w = (Inl e, w1)" and "IsNotFound e"
  shows "upgrade_Reconcile env req maintenance w = (Done, maintenance, w1)"
  using assms by (simp add: upgrade_Reconcile_def)

section \<open>What a reconcile does to the probers\<close>

text \<open>No run under a key is live.\<close>

definition not_probed :: "string \<Rightarrow> probe_manager \<Rightarrow> bool" where
  "not_probed k m \<longleftrightarrow> (\<forall>r \<in> set (pm_runs m). getKey (pr_Info r) = k \<longrightarrow> pr_Cancelled r)"

text \<open>The runs under other keys are the same, and no run is lost.\<close>

definition other_runs_kept :: "string \<Rightarrow> probe_manager \<Rightarrow> probe_manager \<Rightarrow> bool" where
  "other_runs_kept k m m' \<longleftrightarrow>
     length (pm_runs m) \<le> length (pm_runs m') \<and>
     (\<forall>i < length (pm_runs m). getKey (pr_Info (pm_runs m ! i)) \<noteq> k \<longrightarrow> pm_runs m' ! i = pm_runs m ! i) \<and>
     (\<forall>i < length (pm_runs m'). length (pm_runs m) \<le> i \<longrightarrow> getKey (pr_Info (pm_runs m' ! i)) = k)"

lemma other_runs_kept_refl [simp]: "other_runs_kept k m m"
  by (simp add: other_runs_kept_def)

lemma stopped_not_probed:
  assumes "manager_ok m"
  shows "not_probed (getKey info) (StopProbe info m)"
  unfolding not_probed_def
proof (intro ballI impI)
  fix r
  assume r: "r \<in> set (pm_runs (StopProbe info m))" "getKey (pr_Info r) = getKey info"
  then obtain i where i: "i < length (pm_runs (StopProbe info m))" "r = pm_runs (StopProbe info m) ! i" by (auto simp: in_set_conv_nth)
  have "\<not> live (StopProbe info m) i"
    using manager_okD(1) [OF StopProbe_ok [OF assms], of info "getKey info" i] StopProbe_stops [OF assms, of info] r(2) i(2) by simp
  then show "pr_Cancelled r" using i by (simp add: live_def)
qed

lemma StopProbe_others:
  assumes "manager_ok m"
  shows "other_runs_kept (getKey info) m (StopProbe info m)"
proof (cases "pm_probers m (getKey info)")
  case (Some c)
  have "getKey (pr_Info (pm_runs m ! c)) = getKey info" using manager_okD(1) [OF assms] Some by blast
  then show ?thesis using Some by (auto simp: other_runs_kept_def StopProbe_def cancel_run_nth)
qed (simp add: StopProbe_def)

lemma StartProbe_others:
  assumes "manager_ok m"
  shows "other_runs_kept (getKey p) m (StartProbe p m)"
  using StopProbe_others [OF assms, of p]
  by (auto simp: other_runs_kept_def StartProbe_alt Let_def nth_append)

text \<open>
  What a fetcher of a service promises: the prober it gives is for this service, and for the instance it was
  asked for.
\<close>

locale prober_fetcher =
  fixes serviceKey :: string and fetch :: "'w fetcher"
  assumes fetched: "fetch inst w = (Inr p, w') \<Longrightarrow> pi_Service p = serviceKey \<and> pi_Name p = si_Name inst"
begin

lemma started_key:
  assumes "start_probe serviceKey fetch inst m w = (res, m', w')"
  shows "m' = m \<or> (\<exists>p. m' = StartProbe p m \<and> getKey p = getKey (key_info serviceKey (si_Name inst)))"
  using assms fetched
  by (auto simp: start_probe_def Let_def getKey_def key_info_def NewFailingProbe_def split: prod.splits sum.splits sli_error.splits if_splits)

lemma reconcile_probers:
  assumes "manager_ok m" and "sli_Reconcile env serviceKey grace fetch nn inst0 m w = (res, m', w')"
    and "se_Get env nn w = (r, w1)" and "\<And>inst. r = Inr inst \<Longrightarrow> si_Name inst = snd nn"
  shows "manager_ok m'" and "other_runs_kept (getKey (key_info serviceKey (snd nn))) m m'"
    and "case r of Inl e \<Rightarrow> IsNotFound e \<longrightarrow> not_probed (getKey (key_info serviceKey (snd nn))) m'
      | Inr inst \<Rightarrow> si_Deleted inst \<or> (si_Instances inst = 0 \<and> (\<exists>name ns. si_SecretRef inst = Some (name, ns) \<and> name \<noteq> '''')) \<longrightarrow>
          not_probed (getKey (key_info serviceKey (snd nn))) m'"
proof -
  have "m' = m \<or> m' = StopProbe (key_info serviceKey (snd nn)) m \<or>
      (\<exists>inst w1 w2. r = Inr inst \<and> start_probe serviceKey fetch inst m w1 = (res, m', w2))"
    using assms(2,3) by (auto simp: sli_Reconcile_def Let_def split: prod.splits sum.splits if_splits bool.splits option.splits)
  then have "manager_ok m' \<and> other_runs_kept (getKey (key_info serviceKey (snd nn))) m m'"
  proof (elim disjE exE conjE)
    fix inst w1 w2
    assume "r = Inr inst" "start_probe serviceKey fetch inst m w1 = (res, m', w2)"
    then show ?thesis using started_key StartProbe_ok [OF assms(1)] StartProbe_others [OF assms(1)] assms(1,4) by (metis other_runs_kept_refl)
  qed (use assms(1) StopProbe_ok [OF assms(1)] StopProbe_others [OF assms(1)] in simp_all)
  then show "manager_ok m'" "other_runs_kept (getKey (key_info serviceKey (snd nn))) m m'" by blast+
  have "m' = StopProbe (key_info serviceKey (snd nn)) m"
    if "case r of Inl e \<Rightarrow> IsNotFound e
      | Inr inst \<Rightarrow> si_Deleted inst \<or> (si_Instances inst = 0 \<and> (\<exists>name ns. si_SecretRef inst = Some (name, ns) \<and> name \<noteq> ''''))"
    using that assms(2,3) by (auto simp: sli_Reconcile_def Let_def split: sum.splits if_splits)
  then show "case r of Inl e \<Rightarrow> IsNotFound e \<longrightarrow> not_probed (getKey (key_info serviceKey (snd nn))) m'
      | Inr inst \<Rightarrow> si_Deleted inst \<or> (si_Instances inst = 0 \<and> (\<exists>name ns. si_SecretRef inst = Some (name, ns) \<and> name \<noteq> '''')) \<longrightarrow>
          not_probed (getKey (key_info serviceKey (snd nn))) m'"
    using stopped_not_probed [OF assms(1)] by (auto split: sum.splits)
qed

end

end
