(* ===== verification/SliControllers.thy ===== *)
theory SliControllers
  imports SliReconciler
begin

text \<open>
  The controllers of the SLI exporter, one for each service: \<open>src/pkg/sliexporter/vshn*_controller\<close>, and the
  constructors of their probers in \<open>src/pkg/sliexporter/probes\<close>. Connections are not modelled: of a prober
  its \<open>GetInfo\<close> is kept, and of the drivers and of X.509 the errors they give.
\<close>

section \<open>Drivers\<close>

record dialers =
  dl_ParsePgConfig :: "string \<Rightarrow> gerr option"
  dl_NewPgPool :: "string \<Rightarrow> gerr option"
  dl_AppendCerts :: "string \<Rightarrow> bool"
  dl_OpenMySQL :: "string \<Rightarrow> gerr option"
  dl_X509KeyPair :: "string \<Rightarrow> string \<Rightarrow> gerr option"
  dl_NewMinioClient :: "string \<Rightarrow> bool \<Rightarrow> gerr option"
  dl_ParseURL :: "string \<Rightarrow> gerr + string \<times> string \<times> string"
  dl_PemDecode :: "string \<Rightarrow> string option"
  dl_ParseCertificate :: "string \<Rightarrow> gerr option"

type_synonym object_name = string
type_synonym namespace = string

text \<open>Service, name, claim namespace, instance namespace, organization, service level, composition, availability.\<close>

definition prober ::
    "string \<Rightarrow> object_name \<Rightarrow> namespace \<Rightarrow> namespace \<Rightarrow> string \<Rightarrow> string \<Rightarrow> string \<Rightarrow> bool \<Rightarrow> probe_info" where
  "prober service name claimNamespace instanceNamespace organization sla compositionName ha =
     \<lparr>pi_Service = service, pi_Name = name, pi_ClaimNamespace = claimNamespace, pi_InstanceNamespace = instanceNamespace,
      pi_Organization = organization, pi_HighAvailable = ha, pi_ServiceLevel = sla, pi_CompositionName = compositionName\<rparr>"

definition BestEffort :: string where "BestEffort = ''besteffort''"
definition OrgLabelName :: string where "OrgLabelName = ''appuio.io/organization''"

section \<open>PostgreSQL\<close>

definition PGWithCA :: "dialers \<Rightarrow> string option \<Rightarrow> bool \<Rightarrow> gerr option" where
  "PGWithCA dl ca tlsEnabled =
     (if \<not> tlsEnabled then None
      else (case ca of
              None \<Rightarrow> Some (Msg ''got nil CA'')
            | Some c \<Rightarrow> (if \<not> dl_AppendCerts dl c then Some (Msg ''cannot append root CA certificates'') else None)))"

definition NewPostgreSQL ::
    "dialers \<Rightarrow> string \<Rightarrow> object_name \<Rightarrow> namespace \<Rightarrow> namespace \<Rightarrow> string \<Rightarrow> string \<Rightarrow> string \<Rightarrow> string \<Rightarrow> bool \<Rightarrow> gerr option \<Rightarrow> gerr + probe_info" where
  "NewPostgreSQL dl service name claimNamespace instanceNamespace dsn organization sla compositionName ha op =
     (case dl_ParsePgConfig dl dsn of
        Some e \<Rightarrow> Inl e
      | None \<Rightarrow>
     (case op of
        Some e \<Rightarrow> Inl e
      | None \<Rightarrow>
     (case dl_NewPgPool dl dsn of
        Some e \<Rightarrow> Inl e
      | None \<Rightarrow> Inr (prober service name claimNamespace instanceNamespace organization sla compositionName ha))))"

definition pg_areCredentialsAvailable :: "str_map \<Rightarrow> bool" where
  "pg_areCredentialsAvailable secret =
     list_all (\<lambda>k. secret k \<noteq> None)
       [''POSTGRESQL_USER'', ''POSTGRESQL_PASSWORD'', ''POSTGRESQL_HOST'', ''POSTGRESQL_PORT'', ''POSTGRESQL_DB'', ''ca.crt'']"

text \<open>Reading the connection secret of an instance; the reconciler has made sure that it names one.\<close>

definition get_credentials :: "'w sli_env \<Rightarrow> sli_instance \<Rightarrow> 'w \<Rightarrow> (gerr + str_map) \<times> 'w" where
  "get_credentials env inst w = (case or_zero ('''', '''') (si_SecretRef inst) of (name, ns) \<Rightarrow> se_GetSecret env name ns w)"

definition pg_dsn :: "str_map \<Rightarrow> string \<Rightarrow> string" where
  "pg_dsn secret sslmode =
     ''postgresql://'' @ or_zero '''' (secret ''POSTGRESQL_USER'') @ '':'' @ or_zero '''' (secret ''POSTGRESQL_PASSWORD'') @ ''@'' @
     or_zero '''' (secret ''POSTGRESQL_HOST'') @ '':'' @ or_zero '''' (secret ''POSTGRESQL_PORT'') @ ''/'' @
     or_zero '''' (secret ''POSTGRESQL_DB'') @ ''?sslmode='' @ sslmode"

definition or_besteffort :: "string \<Rightarrow> string" where
  "or_besteffort sla = (if sla = '''' then BestEffort else sla)"

definition or_unknown :: "string \<Rightarrow> string" where
  "or_unknown org = (if org = '''' then ''unknown'' else org)"

text \<open>The error of a constructor is the one of the fetcher.\<close>

definition dialled :: "gerr + probe_info \<Rightarrow> sli_error + probe_info" where
  "dialled r = (case r of Inl e \<Rightarrow> Inl (SliErr e) | Inr p \<Rightarrow> Inr p)"

definition pg_fetchProberFor :: "'w sli_env \<Rightarrow> dialers \<Rightarrow> 'w fetcher" where
  "pg_fetchProberFor env dl inst w =
     (case get_credentials env inst w of
        (Inl e, w) \<Rightarrow> (Inl (SliErr e), w)
      | (Inr credSecret, w) \<Rightarrow>
     (if \<not> pg_areCredentialsAvailable credSecret then (Inl ControllerNotReady, w)
      else
        (let claimNamespace = or_zero '''' (si_Labels inst ClaimNamespaceLabel)
         in (case se_GetClaimNamespace env claimNamespace w of
               (Inl e, w) \<Rightarrow> (Inl (SliErr e), w)
             | (Inr nsLabels, w) \<Rightarrow>
                 (let org = or_zero '''' (nsLabels OrgLabelName); sla = or_besteffort (si_ServiceLevel inst); ha = 1 < si_Instances inst;
                      sslmode = (if si_TLSEnabled inst then ''verify-ca'' else ''disable'')
                  in (dialled (NewPostgreSQL dl ''VSHNPostgreSQL'' (si_Name inst) claimNamespace (si_StatusNamespace inst) (pg_dsn credSecret sslmode)
                        org sla (si_CompositionName inst) ha (PGWithCA dl (credSecret ''ca.crt'') (si_TLSEnabled inst))), w))))))"

section \<open>MariaDB\<close>

definition NewMariaDB ::
    "dialers \<Rightarrow> string \<Rightarrow> object_name \<Rightarrow> namespace \<Rightarrow> namespace \<Rightarrow> string \<Rightarrow> string \<Rightarrow> string \<Rightarrow> string \<Rightarrow> string \<Rightarrow> bool \<Rightarrow> bool \<Rightarrow> gerr + probe_info" where
  "NewMariaDB dl service name claimNamespace instanceNamespace dsn organization caCRT sla compositionName ha TLSEnabled =
     (if \<not> dl_AppendCerts dl caCRT then Inl (Msg ''failed to append PEM'')
      else
        (let dsn = (if TLSEnabled then dsn @ ''?tls='' @ name else dsn)
         in (case dl_OpenMySQL dl dsn of
               Some e \<Rightarrow> Inl e
             | None \<Rightarrow> Inr (prober service name claimNamespace instanceNamespace organization sla compositionName ha))))"

definition mariadb_areCredentialsAvailable :: "str_map \<Rightarrow> bool" where
  "mariadb_areCredentialsAvailable secret =
     list_all (\<lambda>k. secret k \<noteq> None)
       [''MARIADB_HOST'', ''MARIADB_PASSWORD'', ''MARIADB_PORT'', ''MARIADB_URL'', ''MARIADB_USERNAME'', ''ca.crt'']"

definition mariadb_dsn :: "str_map \<Rightarrow> string" where
  "mariadb_dsn secret =
     or_zero '''' (secret ''MARIADB_USERNAME'') @ '':'' @ or_zero '''' (secret ''MARIADB_PASSWORD'') @ ''@tcp('' @
     or_zero '''' (secret ''MARIADB_HOST'') @ '':'' @ or_zero '''' (secret ''MARIADB_PORT'') @ '')/mysql''"

definition mariadb_fetchProberFor :: "'w sli_env \<Rightarrow> dialers \<Rightarrow> 'w fetcher" where
  "mariadb_fetchProberFor env dl inst w =
     (case get_credentials env inst w of
        (Inl e, w) \<Rightarrow> (Inl (SliErr e), w)
      | (Inr credSecret, w) \<Rightarrow>
     (if \<not> mariadb_areCredentialsAvailable credSecret then (Inl ControllerNotReady, w)
      else
        (let claimNamespace = or_zero '''' (si_Labels inst ClaimNamespaceLabel)
         in (case se_GetClaimNamespace env claimNamespace w of
               (Inl e, w) \<Rightarrow> (Inl (SliErr e), w)
             | (Inr nsLabels, w) \<Rightarrow>
                 (let org = or_unknown (or_zero '''' (nsLabels OrgLabelName)); sla = or_besteffort (si_ServiceLevel inst); ha = 1 < si_Instances inst
                  in (dialled (NewMariaDB dl ''VSHNMariaDB'' (si_Name inst) claimNamespace (si_StatusNamespace inst) (mariadb_dsn credSecret)
                        org (or_zero '''' (credSecret ''ca.crt'')) sla (si_CompositionName inst) ha (si_TLSEnabled inst)), w))))))"

section \<open>Redis\<close>

text \<open>\<open>strings.SplitN(s, ".", 2)\<close> gives two parts exactly when there is a dot.\<close>

definition NewRedis ::
    "string \<Rightarrow> object_name \<Rightarrow> namespace \<Rightarrow> namespace \<Rightarrow> string \<Rightarrow> string \<Rightarrow> string \<Rightarrow> bool \<Rightarrow> string \<Rightarrow> gerr + probe_info \<times> string option" where
  "NewRedis service name claimNamespace instanceNamespace organization sla compositionName ha addr =
     (let r = prober service name claimNamespace instanceNamespace organization sla compositionName ha
      in if \<not> ha then Inr (r, None)
         else (case split_char (CHR '':'') addr of
                 [host, port] \<Rightarrow>
                   (case cut_char (CHR ''.'') host of
                      (_, domain, True) \<Rightarrow> Inr (r, Some (''redis-headless.'' @ domain @ '':26379''))
                    | (_, _, False) \<Rightarrow> Inl (Msg ''invalid redis host format''))
               | _ \<Rightarrow> Inl (Msg ''invalid redis address format'')))"

definition getRedisProber :: "'w sli_env \<Rightarrow> dialers \<Rightarrow> 'w fetcher" where
  "getRedisProber env dl inst w =
     (case get_credentials env inst w of
        (Inl e, w) \<Rightarrow> (Inl (SliErr e), w)
      | (Inr credentials, w) \<Rightarrow>
     (let claimNamespace = or_zero '''' (si_Labels inst ClaimNamespaceLabel)
      in (case se_GetClaimNamespace env claimNamespace w of
            (Inl e, w) \<Rightarrow> (Inl (SliErr e), w)
          | (Inr nsLabels, w) \<Rightarrow>
              (let org = or_unknown (or_zero '''' (nsLabels OrgLabelName)); sla = or_besteffort (si_ServiceLevel inst); ha = 1 < si_Instances inst;
                   addr = or_zero '''' (credentials ''REDIS_HOST'') @ '':'' @ or_zero '''' (credentials ''REDIS_PORT'');
                   tlsErr = (if si_TLSEnabled inst
                             then dl_X509KeyPair dl (or_zero '''' (credentials ''tls.crt'')) (or_zero '''' (credentials ''tls.key'')) else None)
               in (case tlsErr of
                     Some e \<Rightarrow> (Inl (SliErr e), w)
                   | None \<Rightarrow>
                       (dialled (map_sum id fst (NewRedis ''VSHNRedis'' (si_Name inst) claimNamespace (si_StatusNamespace inst) org sla
                          (si_CompositionName inst) ha addr)), w))))))"

section \<open>MinIO\<close>

definition SLIBucketName :: string where "SLIBucketName = ''vshn-test-bucket-for-sli''"

definition NewMinio ::
    "dialers \<Rightarrow> string \<Rightarrow> object_name \<Rightarrow> namespace \<Rightarrow> namespace \<Rightarrow> string \<Rightarrow> string \<Rightarrow> string \<Rightarrow> string \<Rightarrow> bool \<Rightarrow> bool \<Rightarrow> gerr + probe_info" where
  "NewMinio dl service name claimNamespace instanceNamespace organization sla compositionName endpointURL ha secure =
     (case dl_NewMinioClient dl endpointURL secure of
        Some e \<Rightarrow> Inl e
      | None \<Rightarrow> Inr (prober service name claimNamespace instanceNamespace organization sla compositionName ha))"

definition getMinioProber :: "'w sli_env \<Rightarrow> dialers \<Rightarrow> 'w fetcher" where
  "getMinioProber env dl inst w =
     (case se_GetSecret env SLIBucketName (''vshn-minio-'' @ si_Name inst) w of
        (Inl e, w) \<Rightarrow> (Inl (SliErr e), w)
      | (Inr creds, w) \<Rightarrow>
          (let claimNamespace = or_zero '''' (si_Labels inst ClaimNamespaceLabel); ha = 4 \<le> si_Instances inst
           in (dialled (NewMinio dl ''VSHNMinio'' (si_Name inst) claimNamespace (si_StatusNamespace inst) (or_zero '''' (si_Labels inst OrgLabelName))
                 BestEffort (si_CompositionName inst) (or_zero '''' (creds ''ENDPOINT'')) ha False), w)))"

section \<open>Keycloak\<close>

definition keycloakHealthURL :: "string \<Rightarrow> string \<Rightarrow> string" where
  "keycloakHealthURL host relativePath = ''https://'' @ host @ '':9000'' @ trim_suffix relativePath ''/'' @ ''/health''"

definition NewHTTP :: "string \<Rightarrow> string \<Rightarrow> object_name \<Rightarrow> namespace \<Rightarrow> namespace \<Rightarrow> string \<Rightarrow> string \<Rightarrow> string \<Rightarrow> bool \<Rightarrow> probe_info \<times> string" where
  "NewHTTP url service name claimNamespace instanceNamespace organization sla compositionName ha =
     (prober service name claimNamespace instanceNamespace organization sla compositionName ha, url)"

text \<open>A certificate that is not PEM makes \<open>pem.Decode\<close> return nil, and the access to its bytes panics.\<close>

definition getKeycloakProber :: "'w sli_env \<Rightarrow> dialers \<Rightarrow> 'w fetcher" where
  "getKeycloakProber env dl inst w =
     (case get_credentials env inst w of
        (Inl e, w) \<Rightarrow> (Inl (SliErr e), w)
      | (Inr credentials, w) \<Rightarrow>
     (let org = or_zero '''' (si_Labels inst OrgLabelName); ha = 1 < si_Instances inst
      in (case credentials ''KEYCLOAK_HOST'' of
            None \<Rightarrow> (Inl (SliErr (Msg ''secret does not contain Keycloak url'')), w)
          | Some host \<Rightarrow>
         (case credentials ''ca.crt'' of
            None \<Rightarrow> (Inl (SliErr (Msg ''secret does not contain ca certificate'')), w)
          | Some rawCACert \<Rightarrow>
         (case dl_PemDecode dl rawCACert of
            None \<Rightarrow> (Inl SliPanic, w)
          | Some parsedCa \<Rightarrow>
         (case dl_ParseCertificate dl parsedCa of
            Some e \<Rightarrow> (Inl (SliErr (Wrapped ''cannot parse certificate'' e)), w)
          | None \<Rightarrow>
              (Inr (fst (NewHTTP (keycloakHealthURL host (si_RelativePath inst)) ''VSHNKeycloak'' (si_Name inst)
                 (or_zero '''' (si_Labels inst ClaimNamespaceLabel)) (si_StatusNamespace inst) org (si_ServiceLevel inst) (si_CompositionName inst) ha)), w)))))))"

end
