(* ===== verification/Sha256.thy ===== *)
theory Sha256
  imports Naming
begin

unbundle bit_operations_syntax

text \<open>
  \<open>crypto/sha256\<close> of Go's standard library, written out on 32-bit words; names and identifiers carry parts of
  its hashes.
\<close>

section \<open>The hash\<close>

text \<open>
  The constants are what the standard defines them to be: the first 32 bits after the point of the square
  roots of the first 8 primes and of the cube roots of the first 64.
\<close>

definition primes256 :: "int list" where
  "primes256 =
    [2, 3, 5, 7, 11, 13, 17, 19, 23, 29, 31, 37, 41, 43, 47, 53, 59, 61, 67, 71, 73, 79,
     83, 89, 97, 101, 103, 107, 109, 113, 127, 131, 137, 139, 149, 151, 157, 163, 167, 173, 179, 181, 191, 193,
     197, 199, 211, 223, 227, 229, 233, 239, 241, 251, 257, 263, 269, 271, 277, 281, 283, 293, 307, 311]"

fun integer_root :: "nat \<Rightarrow> int \<Rightarrow> nat \<Rightarrow> int \<Rightarrow> int" where
  "integer_root k n 0 r = r"
| "integer_root k n (Suc bits) r = integer_root k n bits (if (r + 2 ^ bits) ^ k \<le> n then r + 2 ^ bits else r)"

definition root_fraction :: "nat \<Rightarrow> int \<Rightarrow> 32 word" where
  "root_fraction k p = word_of_int (integer_root k (p * 2 ^ (32 * k)) 37 0)"

definition sha256_constants :: "32 word list" where
  "sha256_constants = map (root_fraction 3) primes256"

definition sha256_start :: "32 word list" where
  "sha256_start = map (root_fraction 2) (take 8 primes256)"

text \<open>The message schedule, latest word first.\<close>

definition next_schedule256 :: "32 word list \<Rightarrow> 32 word list" where
  "next_schedule256 ws =
     (let w15 = ws ! 14; w2 = ws ! 1;
          s0 = word_rotr 7 w15 XOR word_rotr 18 w15 XOR drop_bit 3 w15;
          s1 = word_rotr 17 w2 XOR word_rotr 19 w2 XOR drop_bit 10 w2
      in (ws ! 15 + s0 + ws ! 6 + s1) # ws)"

definition schedule_words256 :: "32 word list \<Rightarrow> 32 word list" where
  "schedule_words256 ws = rev ((next_schedule256 ^^ 48) (rev ws))"

definition sha256_round :: "32 word \<times> 32 word \<Rightarrow> 32 word list \<Rightarrow> 32 word list" where
  "sha256_round kw st =
     (case (kw, st) of
        ((k, w), [a, b, c, d, e, f, g, h]) \<Rightarrow>
          (let s1 = word_rotr 6 e XOR word_rotr 11 e XOR word_rotr 25 e;
               ch = (e AND f) XOR (NOT e AND g);
               t1 = h + s1 + ch + k + w;
               s0 = word_rotr 2 a XOR word_rotr 13 a XOR word_rotr 22 a;
               maj = (a AND b) XOR (a AND c) XOR (b AND c)
           in [t1 + s0 + maj, a, b, c, d + t1, e, f, g])
      | _ \<Rightarrow> st)"

definition sha256_block :: "nat list \<Rightarrow> 32 word list \<Rightarrow> 32 word list" where
  "sha256_block block st =
     map2 (+) st (fold sha256_round (zip sha256_constants (schedule_words256 (map word_be (chunks 4 block)))) st)"

definition sha256_hex :: "string \<Rightarrow> string" where
  "sha256_hex s = concat (map hex_word (fold sha256_block (chunks 64 (sha1_pad (map of_char s))) sha256_start))"

lemma sha256_round_length: "length (sha256_round kw st) = length st"
  by (auto simp: sha256_round_def Let_def split: prod.splits list.splits)

lemma sha256_hex_length: "length (sha256_hex s) = 64"
proof -
  have f: "length (fold sha256_round kws st) = length st" for kws st
    by (induction kws arbitrary: st) (simp_all add: sha256_round_length)
  have "length (fold sha256_block bs st) = length st" for bs st
    by (induction bs arbitrary: st) (simp_all add: sha256_block_def f)
  moreover have "length (concat (map hex_word ws)) = 8 * length ws" for ws
    by (induction ws) (simp_all add: hex_word_alnum)
  ultimately show ?thesis by (simp add: sha256_hex_def sha256_start_def primes256_def)
qed

end
