(* ===== verification/SliGarage.thy ===== *)
theory SliGarage
  imports SliControllers Sha256
begin

text \<open>
  The controller of Garage in the SLI exporter, \<open>src/pkg/sliexporter/vshngarage_controller\<close>, which keeps a
  bucket and a key of its own for every instance, and what holds of the controllers of all services.
\<close>

section \<open>The bucket and the key\<close>

definition sliGarageBucketCRName :: "string \<Rightarrow> string" where
  "sliGarageBucketCRName claimName =
     (let name = ''vshn-sli-probe-'' @ claimName
      in if 63 < length name then take 57 name @ ''-'' @ take 5 (sha256_hex name) else name)"

definition cluster_ref :: "string \<Rightarrow> string \<Rightarrow> (string \<times> gany) list" where
  "cluster_ref claimName instanceNamespace =
     [(''clusterRef'', GMap [(''name'', GStr claimName), (''namespace'', GStr instanceNamespace)])]"

definition ensureGarageBucketCR :: "'w sli_env \<Rightarrow> string \<Rightarrow> string \<Rightarrow> string \<Rightarrow> 'w \<Rightarrow> gerr option \<times> 'w" where
  "ensureGarageBucketCR env claimNamespace claimName instanceNamespace w =
     (let name = sliGarageBucketCRName claimName
      in (case se_GetObject env ''GarageBucket'' claimNamespace name w of
            (None, w) \<Rightarrow> (None, w)
          | (Some e, w) \<Rightarrow>
              (if \<not> IsNotFound e then (Some e, w)
               else se_CreateObject env ''GarageBucket'' claimNamespace name (cluster_ref claimName instanceNamespace) w)))"

definition ensureGarageKeyCR :: "'w sli_env \<Rightarrow> string \<Rightarrow> string \<Rightarrow> string \<Rightarrow> 'w \<Rightarrow> gerr option \<times> 'w" where
  "ensureGarageKeyCR env claimNamespace claimName instanceNamespace w =
     (let name = sliGarageBucketCRName claimName
      in (case se_GetObject env ''GarageKey'' claimNamespace name w of
            (None, w) \<Rightarrow> (None, w)
          | (Some e, w) \<Rightarrow>
              (if \<not> IsNotFound e then (Some e, w)
               else se_CreateObject env ''GarageKey'' claimNamespace name
                 (cluster_ref claimName instanceNamespace @
                  [(''bucketPermissions'', GList [GMap [(''bucketRef'', GMap [(''name'', GStr name)]), (''read'', GBool True), (''write'', GBool True)]])]) w)))"

definition cleanupSLIBucketCR :: "'w sli_env \<Rightarrow> sli_instance \<Rightarrow> 'w \<Rightarrow> gerr option \<times> 'w" where
  "cleanupSLIBucketCR env inst w =
     (let claimName = or_zero '''' (si_Labels inst ClaimNameLabel); claimNamespace = or_zero '''' (si_Labels inst ClaimNamespaceLabel);
          name = sliGarageBucketCRName claimName
      in if claimName = '''' \<or> claimNamespace = '''' then (None, w)
         else (case se_DeleteObject env ''GarageBucket'' claimNamespace name w of (r, w) \<Rightarrow>
                (case (if \<exists>e. r = Some e \<and> IsNotFound e then None else r) of
                   Some e \<Rightarrow> (Some (Wrapped ''failed to delete SLI GarageBucket CR'' e), w)
                 | None \<Rightarrow>
                (case se_DeleteObject env ''GarageKey'' claimNamespace name w of (r, w) \<Rightarrow>
                (case (if \<exists>e. r = Some e \<and> IsNotFound e then None else r) of
                   Some e \<Rightarrow> (Some (Wrapped ''failed to delete SLI GarageKey CR'' e), w)
                 | None \<Rightarrow> (None, w))))))"

section \<open>The prober\<close>

text \<open>The parts of a URL are its scheme, its host and the host without the port.\<close>

definition NewGarage ::
    "dialers \<Rightarrow> string \<Rightarrow> object_name \<Rightarrow> namespace \<Rightarrow> namespace \<Rightarrow> string \<Rightarrow> string \<Rightarrow> string \<Rightarrow> string \<Rightarrow> bool \<Rightarrow> gerr + probe_info \<times> string" where
  "NewGarage dl service name claimNamespace instanceNamespace organization sla compositionName endpointURL ha =
     (case dl_ParseURL dl endpointURL of
        Inl e \<Rightarrow> Inl (Wrapped ''cannot parse garage endpoint'' e)
      | Inr (scheme, host, hostname) \<Rightarrow>
          (if host = '''' then Inl (Msg ''garage endpoint has no host (add scheme, e.g. http://)'')
           else if scheme \<noteq> ''http'' \<and> scheme \<noteq> ''https'' then Inl (Msg ''garage endpoint has unsupported scheme (must be http or https)'')
           else (case dl_NewMinioClient dl host (scheme = ''https'') of
                   Some e \<Rightarrow> Inl e
                 | None \<Rightarrow> Inr (prober service name claimNamespace instanceNamespace organization sla compositionName ha,
                     scheme @ ''://'' @ hostname @ '':3903''))))"

definition getGarageProber :: "'w sli_env \<Rightarrow> dialers \<Rightarrow> 'w fetcher" where
  "getGarageProber env dl inst w =
     (let instanceNamespace = si_InstanceNamespace inst;
          claimNamespace = or_zero '''' (si_Labels inst ClaimNamespaceLabel); claimName = or_zero '''' (si_Labels inst ClaimNameLabel);
          bucketName = sliGarageBucketCRName claimName
      in if instanceNamespace = '''' then (Inl (SliErr (Msg ''instance namespace not yet set'')), w)
         else (case ensureGarageBucketCR env claimNamespace claimName instanceNamespace w of
                 (Some e, w) \<Rightarrow> (Inl (SliErr (Wrapped ''cannot ensure SLI bucket CR'' e)), w)
               | (None, w) \<Rightarrow>
              (case ensureGarageKeyCR env claimNamespace claimName instanceNamespace w of
                 (Some e, w) \<Rightarrow> (Inl (SliErr (Wrapped ''cannot ensure SLI key CR'' e)), w)
               | (None, w) \<Rightarrow>
              (case se_GetSecret env bucketName claimNamespace w of
                 (Inl e, w) \<Rightarrow> (Inl (SliErr e), w)
               | (Inr bucketSecret, w) \<Rightarrow>
              (case se_GetServiceSecret env ''garage-admin-token'' instanceNamespace w of
                 (Inl e, w) \<Rightarrow> (Inl (SliErr e), w)
               | (Inr tokenSecret, w) \<Rightarrow>
                   (dialled (map_sum id fst (NewGarage dl ''VSHNGarage'' (si_Name inst) claimNamespace instanceNamespace
                      (or_zero '''' (si_Labels inst OrgLabelName)) (si_ServiceLevel inst) (si_CompositionName inst)
                      (or_zero '''' (bucketSecret ''endpoint'')) (1 < si_Instances inst))), w))))))"

text \<open>The object as it is made, before anything is read into it.\<close>

definition zero_instance :: sli_instance where
  "zero_instance = \<lparr>si_Name = '''', si_Labels = Map.empty, si_Deleted = False, si_SecretRef = None, si_Instances = 0,
     si_Created = zero_time, si_InstanceNamespace = '''', si_StatusNamespace = '''', si_ServiceLevel = '''', si_CompositionName = '''',
     si_TLSEnabled = False, si_RelativePath = ''''\<rparr>"

definition garage_Reconcile ::
    "'w sli_env \<Rightarrow> dialers \<Rightarrow> duration \<Rightarrow> string \<times> string \<Rightarrow> probe_manager \<Rightarrow> 'w \<Rightarrow> reconcile_result \<times> probe_manager \<times> 'w" where
  "garage_Reconcile env dl grace nn pm w =
     (case se_Get env nn w of (r, w) \<Rightarrow>
     (case (case r of Inl e \<Rightarrow> if IsNotFound e then Inr zero_instance else Inl e | Inr i \<Rightarrow> Inr i) of
        Inl e \<Rightarrow> (Failure e, pm, w)
      | Inr inst \<Rightarrow>
          (case (if si_Deleted inst then cleanupSLIBucketCR env inst w else (None, w)) of
             (Some e, w) \<Rightarrow> (Failure e, pm, w)
           | (None, w) \<Rightarrow> sli_Reconcile env ''VSHNGarage'' grace (getGarageProber env dl) nn inst pm w)))"

text \<open>The other controllers call the shared reconciler with their key and their fetcher, and nothing else.\<close>

definition sli_fetchers :: "'w sli_env \<Rightarrow> dialers \<Rightarrow> (string \<times> 'w fetcher) list" where
  "sli_fetchers env dl =
     [(''VSHNPostgreSQL'', pg_fetchProberFor env dl), (''VSHNMariaDB'', mariadb_fetchProberFor env dl), (''VSHNRedis'', getRedisProber env dl),
      (''VSHNMinio'', getMinioProber env dl), (''VSHNKeycloak'', getKeycloakProber env dl), (''VSHNGarage'', getGarageProber env dl)]"

definition controller_Reconcile ::
    "'w sli_env \<Rightarrow> string \<times> 'w fetcher \<Rightarrow> duration \<Rightarrow> string \<times> string \<Rightarrow> probe_manager \<Rightarrow> 'w \<Rightarrow> reconcile_result \<times> probe_manager \<times> 'w" where
  "controller_Reconcile env service grace nn pm w = sli_Reconcile env (fst service) grace (snd service) nn zero_instance pm w"

section \<open>Every fetcher gives a prober of its own service and instance\<close>

text \<open>The name of the bucket fits into a label.\<close>

lemma sliGarageBucketCRName_length: "length (sliGarageBucketCRName claimName) \<le> 63"
  by (simp add: sliGarageBucketCRName_def Let_def sha256_hex_length)

lemma prober_sel [simp]:
  "pi_Service (prober s n c i org sla comp_name ha) = s" "pi_Name (prober s n c i org sla comp_name ha) = n"
  by (simp_all add: prober_def)

lemmas dialled_simps = dialled_def NewPostgreSQL_def NewMariaDB_def NewRedis_def NewMinio_def NewGarage_def NewHTTP_def Let_def

interpretation pg_prober: prober_fetcher "''VSHNPostgreSQL''" "pg_fetchProberFor env dl"
  by unfold_locales
    (auto simp: pg_fetchProberFor_def dialled_simps split: prod.splits sum.splits option.splits if_splits)

interpretation mariadb_prober: prober_fetcher "''VSHNMariaDB''" "mariadb_fetchProberFor env dl"
  by unfold_locales
    (auto simp: mariadb_fetchProberFor_def dialled_simps split: prod.splits sum.splits option.splits if_splits)

interpretation redis_prober: prober_fetcher "''VSHNRedis''" "getRedisProber env dl"
  by unfold_locales
    (auto simp: getRedisProber_def dialled_simps split: prod.splits sum.splits option.splits if_splits list.splits bool.splits)

interpretation minio_prober: prober_fetcher "''VSHNMinio''" "getMinioProber env dl"
  by unfold_locales
    (auto simp: getMinioProber_def dialled_simps split: prod.splits sum.splits option.splits if_splits)

interpretation keycloak_prober: prober_fetcher "''VSHNKeycloak''" "getKeycloakProber env dl"
  by unfold_locales
    (auto simp: getKeycloakProber_def dialled_simps split: prod.splits sum.splits option.splits if_splits)

interpretation garage_prober: prober_fetcher "''VSHNGarage''" "getGarageProber env dl"
  by unfold_locales
    (auto simp: getGarageProber_def dialled_simps split: prod.splits sum.splits option.splits if_splits)

text \<open>The six interpretations in one rule.\<close>

lemma sli_fetchers_lawful: "(key, fetch) \<in> set (sli_fetchers env dl) \<Longrightarrow> prober_fetcher key fetch"
  by (auto simp: sli_fetchers_def intro: pg_prober.prober_fetcher_axioms mariadb_prober.prober_fetcher_axioms
      redis_prober.prober_fetcher_axioms minio_prober.prober_fetcher_axioms keycloak_prober.prober_fetcher_axioms
      garage_prober.prober_fetcher_axioms)

section \<open>Probers follow their instances\<close>

text \<open>
  The reconcile of an instance of any service touches no prober of another instance or service, and
  when the instance is gone, in deletion or suspended, no prober of it is left alive: the names under which
  probers are started and stopped are the same.
\<close>

theorem probers_follow_instances:
  assumes "service \<in> set (sli_fetchers env dl)" and "manager_ok m"
    and "controller_Reconcile env service grace nn m w = (res, m', w')"
    and "se_Get env nn w = (r, w1)" and "\<forall>inst. r = Inr inst \<longrightarrow> si_Name inst = snd nn"
  shows "manager_ok m' \<and> other_runs_kept (fst service @ ''; '' @ snd nn) m m' \<and>
    (case r of
       Inl e \<Rightarrow> IsNotFound e \<longrightarrow> not_probed (fst service @ ''; '' @ snd nn) m'
     | Inr inst \<Rightarrow> si_Deleted inst \<or> (si_Instances inst = 0 \<and> (\<exists>name ns. si_SecretRef inst = Some (name, ns) \<and> name \<noteq> '''')) \<longrightarrow>
         not_probed (fst service @ ''; '' @ snd nn) m')"
proof -

  have f: "prober_fetcher (fst service) (snd service)"
    by (rule sli_fetchers_lawful [where env = env and dl = dl]) (use assms(1) in simp)
  have run: "sli_Reconcile env (fst service) grace (snd service) nn zero_instance m w = (res, m', w')"
    using assms(3) by (simp add: controller_Reconcile_def)
  have key: "getKey (key_info (fst service) (snd nn)) = fst service @ ''; '' @ snd nn"
    by (simp add: getKey_def key_info_def NewFailingProbe_def)
  have "\<And>inst. r = Inr inst \<Longrightarrow> si_Name inst = snd nn" using assms(5) by blast
  note step = prober_fetcher.reconcile_probers [OF f assms(2) run assms(4) this, unfolded key]
  show ?thesis using step by blast
qed

text \<open>A PostgreSQL instance that is probed, and then suspended.\<close>

definition example_sli_instance :: sli_instance where
  "example_sli_instance = zero_instance\<lparr>si_Name := ''pg-a'', si_SecretRef := Some (''creds'', ''crossplane''), si_Instances := 1,
     si_InstanceNamespace := ''vshn-postgresql-pg-a'', si_Labels := [ClaimNamespaceLabel \<mapsto> ''app'']\<rparr>"

definition example_sli_env :: "str_map \<Rightarrow> sli_instance sli_env" where
  "example_sli_env secret =
     \<lparr>se_Get = (\<lambda>nn w. (Inr w, w)), se_Now = (\<lambda>w. (0, w)), se_GetNamespace = (\<lambda>n w. (None, w)), se_GetSecret = (\<lambda>n ns w. (Inr secret, w)),
      se_GetServiceSecret = (\<lambda>n ns w. (Inr secret, w)), se_GetClaimNamespace = (\<lambda>n w. (Inr [OrgLabelName \<mapsto> ''acme''], w)),
      se_GetObject = (\<lambda>k ns n w. (None, w)), se_CreateObject = (\<lambda>k ns n obj w. (None, w)), se_DeleteObject = (\<lambda>k ns n w. (None, w))\<rparr>"

definition example_dialers :: dialers where
  "example_dialers = \<lparr>dl_ParsePgConfig = (\<lambda>_. None), dl_NewPgPool = (\<lambda>_. None), dl_AppendCerts = (\<lambda>_. True), dl_OpenMySQL = (\<lambda>_. None),
     dl_X509KeyPair = (\<lambda>_ _. None), dl_NewMinioClient = (\<lambda>_ _. None), dl_ParseURL = (\<lambda>u. Inr (''https'', u, u)), dl_PemDecode = Some,
     dl_ParseCertificate = (\<lambda>_. None)\<rparr>"

lemma NewManager_ok: "manager_ok NewManager"
  by (simp add: manager_ok_def NewManager_def live_def)

lemma probers_follow_instances_witness:
  "\<exists>m'. controller_Reconcile (example_sli_env Map.empty) (''VSHNPostgreSQL'', pg_fetchProberFor (example_sli_env Map.empty) example_dialers) minute
       ('''', ''pg-a'') (StartProbe (key_info ''VSHNPostgreSQL'' ''pg-a'') NewManager) (example_sli_instance\<lparr>si_Instances := 0\<rparr>) =
       (Done, m', example_sli_instance\<lparr>si_Instances := 0\<rparr>) \<and>
     length (pm_runs m') = 1 \<and> not_probed ''VSHNPostgreSQL; pg-a'' m'"
proof -
  let ?env = "example_sli_env Map.empty" and ?inst = "example_sli_instance\<lparr>si_Instances := 0\<rparr>"
  let ?service = "(''VSHNPostgreSQL'', pg_fetchProberFor ?env example_dialers)"
  let ?m = "StartProbe (key_info ''VSHNPostgreSQL'' ''pg-a'') NewManager"
  let ?m' = "StopProbe (key_info ''VSHNPostgreSQL'' ''pg-a'') ?m"
  have get: "se_Get ?env ('''', ''pg-a'') ?inst = (Inr ?inst, ?inst)" by (simp add: example_sli_env_def)
  have run: "controller_Reconcile ?env ?service minute ('''', ''pg-a'') ?m ?inst = (Done, ?m', ?inst)"
    by (simp add: controller_Reconcile_def sli_Reconcile_def example_sli_env_def example_sli_instance_def zero_instance_def)
  have service: "?service \<in> set (sli_fetchers ?env example_dialers)" by (simp add: sli_fetchers_def)
  have names: "\<forall>inst. (Inr ?inst :: gerr + sli_instance) = Inr inst \<longrightarrow> si_Name inst = snd ('''', ''pg-a'')"
    by (simp add: example_sli_instance_def)
  have "length (pm_runs ?m') = 1" by (simp add: StopProbe_def StartProbe_def NewManager_def cancel_run_def)
  moreover have "not_probed ''VSHNPostgreSQL; pg-a'' ?m'"
    using probers_follow_instances [OF service StartProbe_ok [OF NewManager_ok] run get names]
    by (simp add: example_sli_instance_def)
  ultimately show ?thesis using run by blast
qed

section \<open>Credentials that are not ready\<close>

text \<open>
  The reconciler means to count an instance whose credentials are incomplete as failing, and to look
  again in 30 seconds. It does so when the secret does not exist; when fields of it are missing, the error
  of the PostgreSQL and MariaDB controllers is another value than the one it compares with, so the
  reconcile fails and no prober is started: the instance is not measured at all.
\<close>

theorem incomplete_credentials_not_probed:
  assumes "se_Get env nn w = (Inr inst, w1)" and "\<not> si_Deleted inst" and "si_SecretRef inst = Some (name, ns)" and "name \<noteq> ''''"
    and "si_Instances inst \<noteq> 0" and "se_Now env w1 = (now, w2)" and "grace \<le> time_sub now (si_Created inst)"
    and "se_GetNamespace env (si_InstanceNamespace inst) w2 = (None, w3)" and "se_GetSecret env name ns w3 = (secret, w4)"
    and "service = (''VSHNPostgreSQL'', pg_fetchProberFor env dl) \<and> field \<in> {''POSTGRESQL_USER'', ''POSTGRESQL_HOST'', ''ca.crt''} \<or>
      service = (''VSHNMariaDB'', mariadb_fetchProberFor env dl) \<and> field \<in> {''MARIADB_URL'', ''MARIADB_HOST'', ''ca.crt''}"
  shows "case secret of
      Inl e \<Rightarrow> IsNotFound e \<longrightarrow> controller_Reconcile env service grace nn m w = (RequeueAfter (30 * second),
        StartProbe (NewFailingProbe (fst service) (si_Name inst) (or_zero '''' (si_Labels inst ClaimNamespaceLabel)) (si_InstanceNamespace inst)) m, w4)
    | Inr data \<Rightarrow> data field = None \<longrightarrow>
        controller_Reconcile env service grace nn m w = (Failure (Msg ''Resource is not yet ready''), m, w4)"
proof -
  have start: "controller_Reconcile env service grace nn m w = start_probe (fst service) (snd service) inst m w3"
    using assms(1-8) by (simp add: controller_Reconcile_def sli_Reconcile_def sli_namespaceExists_def)
  have creds: "get_credentials env inst w3 = (secret, w4)" using assms(3,9) by (simp add: get_credentials_def)
  show ?thesis
  proof (cases secret)
    case (Inl e)
    then have "snd service inst w3 = (Inl (SliErr e), w4)"
      using assms(10) creds by (auto simp: pg_fetchProberFor_def mariadb_fetchProberFor_def)
    then show ?thesis using Inl by (simp add: start start_probe_def)
  next
    case (Inr data)
    have "snd service inst w3 = (Inl ControllerNotReady, w4)" if "data field = None"
      using assms(10) creds Inr that
      by (auto simp: pg_fetchProberFor_def mariadb_fetchProberFor_def pg_areCredentialsAvailable_def mariadb_areCredentialsAvailable_def)
    then show ?thesis using Inr by (simp add: start start_probe_def)
  qed
qed

lemma incomplete_credentials_not_probed_witness:
  "controller_Reconcile (example_sli_env Map.empty) (''VSHNPostgreSQL'', pg_fetchProberFor (example_sli_env Map.empty) example_dialers) minute
     ('''', ''pg-a'') NewManager example_sli_instance = (Failure (Msg ''Resource is not yet ready''), NewManager, example_sli_instance)"
proof -
  have "case (Inr Map.empty :: gerr + str_map) of
      Inl e \<Rightarrow> IsNotFound e \<longrightarrow> controller_Reconcile (example_sli_env Map.empty)
          (''VSHNPostgreSQL'', pg_fetchProberFor (example_sli_env Map.empty) example_dialers) minute ('''', ''pg-a'') NewManager example_sli_instance =
        (RequeueAfter (30 * second),
        StartProbe (NewFailingProbe (fst (''VSHNPostgreSQL'', pg_fetchProberFor (example_sli_env Map.empty) example_dialers)) (si_Name example_sli_instance)
          (or_zero '''' (si_Labels example_sli_instance ClaimNamespaceLabel)) (si_InstanceNamespace example_sli_instance)) NewManager, example_sli_instance)
    | Inr data \<Rightarrow> data ''ca.crt'' = None \<longrightarrow>
        controller_Reconcile (example_sli_env Map.empty) (''VSHNPostgreSQL'', pg_fetchProberFor (example_sli_env Map.empty) example_dialers) minute
          ('''', ''pg-a'') NewManager example_sli_instance = (Failure (Msg ''Resource is not yet ready''), NewManager, example_sli_instance)"
    by (rule incomplete_credentials_not_probed [where inst = example_sli_instance and ?w1.0 = example_sli_instance and ?w2.0 = example_sli_instance
          and ?w3.0 = example_sli_instance and now = 0 and name = "''creds''" and ns = "''crossplane''" and dl = example_dialers])
      (simp_all add: example_sli_env_def example_sli_instance_def zero_instance_def time_sub_def zero_time_def duration_defs)
  then show ?thesis by simp
qed

end
