(* ===== verification/MultiWatch.thy ===== *)
theory MultiWatch
  imports Prelude
begin

text \<open>
  \<open>MultiWatcher\<close> of \<open>src/pkg/apiserver/common.go\<close>: the watches of several instances merged into one channel by a
  goroutine each, as a step relation over what the goroutines and the channels do.
\<close>

section \<open>The state\<close>

text \<open>A goroutine: not started, waiting for the next event, blocked on the common channel, or ended.\<close>

datatype 'e forwarder = NotStarted | Receiving | Sending 'e | Finished

datatype stop_phase = Open | Stopping | Closed

text \<open>
  Watch \<open>i\<close> has an event channel: what waits in it, and whether it is closed. \<open>mw_arrived\<close> is all that ever came in,
  \<open>mw_out\<close> all that the reader has got, with the watch it came from; both are only there to be talked about.
\<close>

record 'e multi_watcher =
  mw_watchers :: nat
  mw_pending :: "nat \<Rightarrow> 'e list"
  mw_closed :: "nat \<Rightarrow> bool"
  mw_forwarder :: "nat \<Rightarrow> 'e forwarder"
  mw_phase :: stop_phase
  mw_crashed :: bool
  mw_arrived :: "nat \<Rightarrow> 'e list"
  mw_out :: "(nat \<times> 'e) list"

definition NewEmptyMultiWatch :: "'e multi_watcher" where
  "NewEmptyMultiWatch = \<lparr>mw_watchers = 0, mw_pending = (\<lambda>_. []), mw_closed = (\<lambda>_. False), mw_forwarder = (\<lambda>_. NotStarted),
     mw_phase = Open, mw_crashed = False, mw_arrived = (\<lambda>_. []), mw_out = []\<rparr>"

definition AddWatcher :: "'e multi_watcher \<Rightarrow> 'e multi_watcher" where
  "AddWatcher m = m\<lparr>mw_watchers := Suc (mw_watchers m)\<rparr>"

section \<open>The steps\<close>

text \<open>\<open>wg.Wait\<close> returns when every goroutine that was counted has ended.\<close>

definition waited :: "'e multi_watcher \<Rightarrow> bool" where
  "waited m \<longleftrightarrow> (\<forall>i < mw_watchers m. mw_forwarder m i \<in> {NotStarted, Finished})"

text \<open>
  An event arrives, or a watch ends; \<open>ResultChan\<close> starts the goroutine of the next watch; a goroutine receives, ends,
  or hands its event to the reader of the common channel, if \<open>reading\<close>; on a closed channel it panics. \<open>Stop\<close> stops
  the watches, waits, and closes the channel. With \<open>late\<close> goroutines may start after \<open>Stop\<close> was called. The loop of
  \<open>Stop\<close> over the watches is one step, that of \<open>ResultChan\<close> one step for each watch.
\<close>

inductive mw_step :: "bool \<Rightarrow> bool \<Rightarrow> 'e multi_watcher \<Rightarrow> 'e multi_watcher \<Rightarrow> bool" for reading late where
  arrive: "\<not> mw_crashed m \<Longrightarrow> i < mw_watchers m \<Longrightarrow> \<not> mw_closed m i \<Longrightarrow>
    mw_step reading late m (m\<lparr>mw_pending := (mw_pending m)(i := mw_pending m i @ [e]), mw_arrived := (mw_arrived m)(i := mw_arrived m i @ [e])\<rparr>)"
| source_ends: "\<not> mw_crashed m \<Longrightarrow> i < mw_watchers m \<Longrightarrow> \<not> mw_closed m i \<Longrightarrow> mw_step reading late m (m\<lparr>mw_closed := (mw_closed m)(i := True)\<rparr>)"
| start: "\<not> mw_crashed m \<Longrightarrow> i < mw_watchers m \<Longrightarrow> mw_forwarder m i = NotStarted \<Longrightarrow> \<forall>j < i. mw_forwarder m j \<noteq> NotStarted \<Longrightarrow>
    late \<or> mw_phase m = Open \<Longrightarrow> mw_step reading late m (m\<lparr>mw_forwarder := (mw_forwarder m)(i := Receiving)\<rparr>)"
| receive: "\<not> mw_crashed m \<Longrightarrow> i < mw_watchers m \<Longrightarrow> mw_forwarder m i = Receiving \<Longrightarrow> mw_pending m i = e # es \<Longrightarrow>
    mw_step reading late m (m\<lparr>mw_pending := (mw_pending m)(i := es), mw_forwarder := (mw_forwarder m)(i := Sending e)\<rparr>)"
| ends: "\<not> mw_crashed m \<Longrightarrow> i < mw_watchers m \<Longrightarrow> mw_forwarder m i = Receiving \<Longrightarrow> mw_pending m i = [] \<Longrightarrow> mw_closed m i \<Longrightarrow>
    mw_step reading late m (m\<lparr>mw_forwarder := (mw_forwarder m)(i := Finished)\<rparr>)"
| send: "\<not> mw_crashed m \<Longrightarrow> i < mw_watchers m \<Longrightarrow> mw_forwarder m i = Sending e \<Longrightarrow> mw_phase m \<noteq> Closed \<Longrightarrow> reading \<Longrightarrow>
    mw_step reading late m (m\<lparr>mw_forwarder := (mw_forwarder m)(i := Receiving), mw_out := mw_out m @ [(i, e)]\<rparr>)"
| send_on_closed: "\<not> mw_crashed m \<Longrightarrow> i < mw_watchers m \<Longrightarrow> mw_forwarder m i = Sending e \<Longrightarrow> mw_phase m = Closed \<Longrightarrow>
    mw_step reading late m (m\<lparr>mw_crashed := True\<rparr>)"
| stop: "\<not> mw_crashed m \<Longrightarrow> mw_phase m = Open \<Longrightarrow> mw_step reading late m (m\<lparr>mw_phase := Stopping, mw_closed := (\<lambda>_. True)\<rparr>)"
| close: "\<not> mw_crashed m \<Longrightarrow> mw_phase m = Stopping \<Longrightarrow> waited m \<Longrightarrow> mw_step reading late m (m\<lparr>mw_phase := Closed\<rparr>)"

inductive_cases mw_stepE: "mw_step reading late m m'"

text \<open>A request adds its watches one after the other, and then hands the watcher to its reader.\<close>

inductive mw_reach :: "bool \<Rightarrow> bool \<Rightarrow> 'e multi_watcher \<Rightarrow> bool" for reading late where
  added: "mw_reach reading late ((AddWatcher ^^ n) NewEmptyMultiWatch)"
| steps: "mw_reach reading late m \<Longrightarrow> mw_step reading late m m' \<Longrightarrow> mw_reach reading late m'"

inductive mw_run :: "bool \<Rightarrow> bool \<Rightarrow> nat \<Rightarrow> 'e multi_watcher \<Rightarrow> 'e multi_watcher \<Rightarrow> bool" for reading late where
  run_refl: "mw_run reading late 0 m m"
| run_step: "mw_run reading late k m m' \<Longrightarrow> mw_step reading late m' m'' \<Longrightarrow> mw_run reading late (Suc k) m m''"

lemma added_watchers:
  "(AddWatcher ^^ n) NewEmptyMultiWatch = \<lparr>mw_watchers = n, mw_pending = (\<lambda>_. []), mw_closed = (\<lambda>_. False), mw_forwarder = (\<lambda>_. NotStarted),
     mw_phase = Open, mw_crashed = False, mw_arrived = (\<lambda>_. []), mw_out = []\<rparr>"
  by (induction n) (simp_all add: NewEmptyMultiWatch_def AddWatcher_def)

section \<open>Nothing is lost, doubled or reordered\<close>

fun in_flight :: "'e forwarder \<Rightarrow> 'e list" where
  "in_flight (Sending e) = [e]"
| "in_flight _ = []"

definition delivered_from :: "nat \<Rightarrow> (nat \<times> 'e) list \<Rightarrow> 'e list" where
  "delivered_from i evs = map snd (filter (\<lambda>x. fst x = i) evs)"

definition accounted :: "'e multi_watcher \<Rightarrow> nat \<Rightarrow> bool" where
  "accounted m i \<longleftrightarrow> mw_arrived m i = delivered_from i (mw_out m) @ in_flight (mw_forwarder m i) @ mw_pending m i"

lemma accounted_step: "mw_step reading late m m' \<Longrightarrow> \<forall>i. accounted m i \<Longrightarrow> accounted m' i"
  by (erule mw_stepE) (auto simp: accounted_def delivered_from_def)

text \<open>
  C34. Of every watch the reader gets the events in the order in which they came, each once: at any time they are the
  ones delivered, then the one its goroutine holds, then the ones that wait, and nothing else, also while stopping.
\<close>

theorem merged_events_are_kept:
  assumes "mw_reach reading late m"
  shows "mw_arrived m i = delivered_from i (mw_out m) @ in_flight (mw_forwarder m i) @ mw_pending m i"
proof -
  have "\<forall>i. accounted m i"
    using assms
  proof (induction rule: mw_reach.induct)
    case (added n)
    then show ?case by (simp add: added_watchers accounted_def delivered_from_def)
  next
    case (steps m m')
    then show ?case using accounted_step by blast
  qed
  then show ?thesis by (simp add: accounted_def)
qed

section \<open>Stopping\<close>

definition closed_means_waited :: "'e multi_watcher \<Rightarrow> bool" where
  "closed_means_waited m \<longleftrightarrow> (mw_phase m = Closed \<longrightarrow> waited m) \<and> \<not> mw_crashed m"

lemma closed_step: "mw_step reading False m m' \<Longrightarrow> closed_means_waited m \<Longrightarrow> closed_means_waited m'"
  by (erule mw_stepE) (auto simp: closed_means_waited_def waited_def)

lemma no_crash: "mw_reach reading False m \<Longrightarrow> closed_means_waited m"
proof (induction rule: mw_reach.induct)
  case (added n)
  then show ?case by (simp add: added_watchers closed_means_waited_def)
next
  case (steps m m')
  then show ?case using closed_step by blast
qed

text \<open>How much a stopping watcher has left to do.\<close>

definition forwarder_work :: "'e forwarder \<Rightarrow> nat" where
  "forwarder_work f = (case f of NotStarted \<Rightarrow> 0 | Receiving \<Rightarrow> 1 | Sending e \<Rightarrow> 2 | Finished \<Rightarrow> 0)"

definition stop_work :: "'e multi_watcher \<Rightarrow> nat" where
  "stop_work m = (\<Sum>i < mw_watchers m. 2 * length (mw_pending m i) + forwarder_work (mw_forwarder m i)) +
     (if mw_phase m = Closed then 0 else 1)"

definition stopping :: "'e multi_watcher \<Rightarrow> bool" where
  "stopping m \<longleftrightarrow> mw_phase m \<noteq> Open \<and> (\<forall>i. mw_closed m i) \<and> closed_means_waited m"

lemma sum_update:
  fixes f :: "nat \<Rightarrow> nat"
  assumes "i < n" "\<And>j. j \<noteq> i \<Longrightarrow> g j = f j" "g i < f i"
  shows "(\<Sum>j < n. g j) < (\<Sum>j < n. f j)"
proof (rule sum_strict_mono_ex1)
  show "\<forall>j \<in> {..< n}. g j \<le> f j" using assms(2,3) by (metis order_refl less_imp_le)
  show "\<exists>j \<in> {..< n}. g j < f j" using assms(1,3) by auto
qed simp

lemma stopping_step:
  assumes "mw_step reading False m m'" "stopping m"
  shows "stopping m' \<and> mw_watchers m' = mw_watchers m \<and> stop_work m' < stop_work m"
proof -
  have s: "stopping m'"
    using assms closed_step [OF assms(1)] by (auto simp: stopping_def elim: mw_stepE)
  have "stop_work m' < stop_work m \<and> mw_watchers m' = mw_watchers m"
    using assms(1)
  proof (cases rule: mw_step.cases)
    case (receive i e es)
    then show ?thesis by (auto simp: stop_work_def forwarder_work_def intro!: add_less_mono1 sum_update [of i])
  next
    case (ends i)
    then show ?thesis by (auto simp: stop_work_def forwarder_work_def intro!: add_less_mono1 sum_update [of i])
  next
    case (send i e)
    then show ?thesis by (auto simp: stop_work_def forwarder_work_def intro!: add_less_mono1 sum_update [of i])
  next
    case (send_on_closed i e)
    then show ?thesis using assms(2) by (auto simp: stopping_def closed_means_waited_def waited_def)
  next
    case close
    then show ?thesis by (simp add: stop_work_def)
  qed (use assms(2) in \<open>auto simp: stopping_def\<close>)
  then show ?thesis using s by simp
qed

lemma stopping_progress:
  assumes "stopping m" "mw_phase m \<noteq> Closed"
  shows "\<exists>m'. mw_step True False m m'"
proof (cases "waited m")
  case True
  then show ?thesis using assms mw_step.close [of m] by (cases "mw_phase m") (auto simp: stopping_def closed_means_waited_def)
next
  case False
  have ok: "\<not> mw_crashed m" "\<And>i. mw_closed m i" using assms by (auto simp: stopping_def closed_means_waited_def)
  obtain i where i: "i < mw_watchers m" "mw_forwarder m i \<noteq> NotStarted" "mw_forwarder m i \<noteq> Finished"
    using False by (auto simp: waited_def)
  show ?thesis
  proof (cases "mw_forwarder m i")
    case Receiving
    show ?thesis
    proof (cases "mw_pending m i")
      case Nil
      then show ?thesis by (intro exI) (rule mw_step.ends [OF ok(1) i(1) Receiving _ ok(2)])
    next
      case (Cons e es)
      then show ?thesis by (intro exI) (rule mw_step.receive [OF ok(1) i(1) Receiving])
    qed
  next
    case (Sending e)
    then show ?thesis by (intro exI) (rule mw_step.send [OF ok(1) i(1) _ assms(2) TrueI])
  qed (use i in simp_all)
qed

lemma stopping_run: "mw_run reading False k m m' \<Longrightarrow> stopping m \<Longrightarrow> stopping m' \<and> k + stop_work m' \<le> stop_work m"
proof (induction rule: mw_run.induct)
  case (run_step k m m' m'')
  then show ?case using stopping_step [OF run_step.hyps(2)] by force
qed simp

lemma reached_stopping:
  assumes "mw_reach reading False m" "mw_phase m = Stopping"
  shows "stopping m"
proof -
  have "mw_reach reading False m \<Longrightarrow> mw_phase m \<noteq> Open \<longrightarrow> (\<forall>i. mw_closed m i)"
  proof (induction rule: mw_reach.induct)
    case (added n)
    then show ?case by (simp add: added_watchers)
  next
    case (steps m m')
    then show ?case by (auto elim!: mw_stepE)
  qed
  then show ?thesis using assms no_crash [OF assms(1)] by (simp add: stopping_def)
qed

text \<open>
  C35. Stopping returns while the reader reads on, provided that no goroutine starts once \<open>Stop\<close> has been called: no run
  from a watcher that is being stopped is longer than the work it has left, none gets stuck before the channel is closed,
  and nothing is sent on the closed channel. (With a goroutine that starts later something can be: \<open>late_start_panics\<close>.)
\<close>

theorem stop_returns_while_reading:
  assumes "mw_reach True False m" "mw_phase m = Stopping" "mw_run True False k m m'"
  shows "k \<le> stop_work m \<and> (mw_phase m' = Closed \<or> (\<exists>m''. mw_step True False m' m'')) \<and> \<not> mw_crashed m'"
  using stopping_run [OF assms(3) reached_stopping [OF assms(1,2)]] stopping_progress [of m']
  by (auto simp: stopping_def closed_means_waited_def)

section \<open>When it does not return\<close>

text \<open>
  C36. Without a reader stopping never returns: once a goroutine holds an event, and whatever else happens, the channel
  is not closed, since \<open>Stop\<close> waits for the goroutine and the goroutine for the reader.
\<close>

theorem stop_hangs_without_reader:
  assumes "mw_run False late k m m'" "i < mw_watchers m" "mw_forwarder m i = Sending e" "mw_phase m \<noteq> Closed"
  shows "mw_phase m' \<noteq> Closed \<and> mw_forwarder m' i = Sending e"
proof -
  have "mw_run False late k m m' \<Longrightarrow> i < mw_watchers m \<Longrightarrow> mw_forwarder m i = Sending e \<Longrightarrow> mw_phase m \<noteq> Closed \<Longrightarrow>
    i < mw_watchers m' \<and> mw_forwarder m' i = Sending e \<and> mw_phase m' \<noteq> Closed"
  proof (induction rule: mw_run.induct)
    case (run_step k m m' m'')
    then have "i < mw_watchers m'" "mw_forwarder m' i = Sending e" "mw_phase m' \<noteq> Closed" by simp_all
    then have "\<not> waited m'" by (auto simp: waited_def intro!: exI [of _ i])
    with run_step.hyps(2) show ?case
      using \<open>i < mw_watchers m'\<close> \<open>mw_forwarder m' i = Sending e\<close> \<open>mw_phase m' \<noteq> Closed\<close> by (auto elim!: mw_stepE)
  qed simp
  then show ?thesis using assms by blast
qed

text \<open>One watch with one event that a goroutine holds while \<open>Stop\<close> is called.\<close>

definition holding :: "nat multi_watcher" where
  "holding = ((AddWatcher NewEmptyMultiWatch)\<lparr>mw_forwarder := (\<lambda>_. NotStarted)(0 := Sending 7), mw_arrived := (\<lambda>_. [])(0 := [7]),
     mw_phase := Stopping, mw_closed := (\<lambda>_. True)\<rparr>)"

lemma holding_reach: "mw_reach reading False holding"
proof -
  let ?m0 = "AddWatcher NewEmptyMultiWatch :: nat multi_watcher"
  let ?m1 = "?m0\<lparr>mw_pending := (mw_pending ?m0)(0 := mw_pending ?m0 0 @ [7]), mw_arrived := (mw_arrived ?m0)(0 := mw_arrived ?m0 0 @ [7])\<rparr>"
  let ?m2 = "?m1\<lparr>mw_forwarder := (mw_forwarder ?m1)(0 := Receiving)\<rparr>"
  let ?m3 = "?m2\<lparr>mw_pending := (mw_pending ?m2)(0 := []), mw_forwarder := (mw_forwarder ?m2)(0 := Sending 7)\<rparr>"
  let ?m4 = "?m3\<lparr>mw_phase := Stopping, mw_closed := (\<lambda>_. True)\<rparr>"
  note d = NewEmptyMultiWatch_def AddWatcher_def
  have "mw_reach reading False ?m0" using mw_reach.added [of reading False 1] by simp
  moreover have "mw_step reading False ?m0 ?m1" by (rule mw_step.arrive) (simp_all add: d)
  moreover have "mw_step reading False ?m1 ?m2" by (rule mw_step.start) (simp_all add: d)
  moreover have "mw_step reading False ?m2 ?m3" by (rule mw_step.receive) (simp_all add: d)
  moreover have "mw_step reading False ?m3 ?m4" by (rule mw_step.stop) (simp_all add: d)
  ultimately have "mw_reach reading False ?m4" by (meson mw_reach.steps)
  moreover have "?m4 = holding" by (auto simp: holding_def d fun_eq_iff)
  ultimately show ?thesis by simp
qed

theorem merged_events_are_kept_witness:
  "mw_arrived holding 0 = delivered_from 0 (mw_out holding) @ in_flight (mw_forwarder holding 0) @ mw_pending holding 0"
  by (rule merged_events_are_kept [OF holding_reach [of True]])

theorem stop_returns_while_reading_witness:
  "0 \<le> stop_work holding \<and> (mw_phase holding = Closed \<or> (\<exists>m''. mw_step True False holding m'')) \<and> \<not> mw_crashed holding"
  by (rule stop_returns_while_reading [OF holding_reach _ run_refl]) (simp add: holding_def)

theorem stop_hangs_without_reader_witness:
  "\<exists>m'. mw_run False False 1 (holding\<lparr>mw_phase := Open\<rparr>) m' \<and> mw_phase m' = Stopping \<and> mw_forwarder m' 0 = Sending 7"
proof -
  let ?m = "holding\<lparr>mw_phase := Open\<rparr>" and ?m' = "(holding\<lparr>mw_phase := Open\<rparr>)\<lparr>mw_phase := Stopping, mw_closed := (\<lambda>_. True)\<rparr>"
  have "mw_step False False ?m ?m'" by (rule mw_step.stop) (simp_all add: holding_def NewEmptyMultiWatch_def AddWatcher_def)
  then have r: "mw_run False False 1 ?m ?m'" using run_step [OF run_refl] by simp
  have "mw_phase ?m' \<noteq> Closed \<and> mw_forwarder ?m' 0 = Sending 7"
    by (rule stop_hangs_without_reader [OF r]) (simp_all add: holding_def NewEmptyMultiWatch_def AddWatcher_def)
  then show ?thesis using r by auto
qed

text \<open>
  A goroutine that starts only after \<open>Stop\<close> has returned panics: the filter of apimachinery starts them in a goroutine of
  its own, which may run after the request has ended.
\<close>

lemma late_start_panics: "\<exists>m :: nat multi_watcher. mw_reach True True m \<and> mw_crashed m"
proof -
  let ?m0 = "AddWatcher NewEmptyMultiWatch :: nat multi_watcher"
  let ?m1 = "?m0\<lparr>mw_pending := (mw_pending ?m0)(0 := mw_pending ?m0 0 @ [7]), mw_arrived := (mw_arrived ?m0)(0 := mw_arrived ?m0 0 @ [7])\<rparr>"
  let ?m2 = "?m1\<lparr>mw_phase := Stopping, mw_closed := (\<lambda>_. True)\<rparr>"
  let ?m3 = "?m2\<lparr>mw_phase := Closed\<rparr>"
  let ?m4 = "?m3\<lparr>mw_forwarder := (mw_forwarder ?m3)(0 := Receiving)\<rparr>"
  let ?m5 = "?m4\<lparr>mw_pending := (mw_pending ?m4)(0 := []), mw_forwarder := (mw_forwarder ?m4)(0 := Sending 7)\<rparr>"
  let ?m6 = "?m5\<lparr>mw_crashed := True\<rparr>"
  note d = NewEmptyMultiWatch_def AddWatcher_def waited_def
  have "mw_reach True True ?m0" using mw_reach.added [of True True 1] by simp
  moreover have "mw_step True True ?m0 ?m1" by (rule mw_step.arrive) (simp_all add: d)
  moreover have "mw_step True True ?m1 ?m2" by (rule mw_step.stop) (simp_all add: d)
  moreover have "mw_step True True ?m2 ?m3" by (rule mw_step.close) (simp_all add: d)
  moreover have "mw_step True True ?m3 ?m4" by (rule mw_step.start) (simp_all add: d)
  moreover have "mw_step True True ?m4 ?m5" by (rule mw_step.receive) (simp_all add: d)
  moreover have "mw_step True True ?m5 ?m6" by (rule mw_step.send_on_closed [where i = 0 and e = 7]) (simp_all add: d)
  ultimately have "mw_reach True True ?m6" by (meson mw_reach.steps)
  then show ?thesis by (intro exI [of _ ?m6]) simp
qed

end
