(* ===== verification/ApiServer.thy ===== *)
theory ApiServer
  imports Runtime
begin

text \<open>
  The aggregated API server, \<open>src/pkg/apiserver\<close>: what its storages share (\<open>common.go\<close>), the snapshots of k8up
  (\<open>vshn/k8up\<close>), and the backups of Redis and MariaDB (\<open>vshn/redis\<close>, \<open>vshn/mariadb\<close>), whose storages are the same but
  for the type names.
\<close>

section \<open>Objects and clients\<close>

record api_meta =
  am_Name :: string
  am_Namespace :: string
  am_Created :: instant

text \<open>What the storages read of a claim; an absent label is the empty string.\<close>

record claim =
  cl_Name :: string
  cl_Namespace :: string
  cl_InstanceNamespace :: string
  cl_ProviderConfig :: string
  cl_CompositionRef :: string
  cl_ResourceRef :: string
  cl_UseExternalPostgreSQL :: bool
  cl_ExistingPGConnectionSecret :: string

record snapshot =
  sn_Meta :: api_meta
  sn_ID :: "string option"
  sn_Date :: "instant option"

text \<open>The reference to the kubeconfig: namespace, name and key.\<close>

record provider_config =
  pv_Source :: string
  pv_SecretRef :: "(string \<times> string \<times> string) option"

text \<open>A panic is recovered by the HTTP server; the request ends with it.\<close>

datatype 'a api_result = Answer 'a | Refused gerr | Crash

fun refuse_on :: "(gerr \<Rightarrow> gerr) \<Rightarrow> gerr + 'a \<Rightarrow> 'a api_result" where
  "refuse_on f (Inl e) = Refused (f e)"
| "refuse_on f (Inr x) = Answer x"

text \<open>
  The clusters: a client of type \<open>'c\<close>, a dynamic one of type \<open>'d\<close>, watches of type \<open>'h\<close>. \<open>ae_Client\<close> and \<open>ae_Dynamic\<close>
  are the constructors of controller-runtime and client-go, on the loopback configuration (\<open>None\<close>) or on a kubeconfig.
\<close>

record ('c, 'd, 'h, 'w) api_env =
  ae_ListInstances :: "string \<Rightarrow> 'w \<Rightarrow> (gerr + claim list) \<times> 'w"
  ae_Local :: 'c
  ae_GetProviderConfig :: "string \<Rightarrow> 'w \<Rightarrow> (gerr + provider_config) \<times> 'w"
  ae_GetSecret :: "string \<Rightarrow> string \<Rightarrow> 'w \<Rightarrow> (gerr + str_map) \<times> 'w"
  ae_RESTConfig :: "string \<Rightarrow> gerr option"
  ae_Client :: "string \<Rightarrow> gerr + 'c"
  ae_Dynamic :: "string option \<Rightarrow> gerr + 'd"
  ae_GetSnapshot :: "'c \<Rightarrow> string \<Rightarrow> string \<Rightarrow> 'w \<Rightarrow> (gerr + snapshot) \<times> 'w"
  ae_ListSnapshots :: "'c \<Rightarrow> string \<Rightarrow> 'w \<Rightarrow> (gerr + snapshot list) \<times> 'w"
  ae_WatchSnapshots :: "'c \<Rightarrow> 'w \<Rightarrow> (gerr + 'h) \<times> 'w"
  ae_Snapshot :: "(string \<times> gany) list \<Rightarrow> gerr + snapshot"
  ae_Now :: "'w \<Rightarrow> instant \<times> 'w"

text \<open>The name in the error of apimachinery is part of its text.\<close>

definition ResolveError :: "gerr \<Rightarrow> gerr" where
  "ResolveError e = (if IsNotFound e then ApiErr NotFound else if IsAlreadyExists e then ApiErr AlreadyExists else e)"

definition fetchProvider :: "('c, 'd, 'h, 'w, 'z) api_env_scheme \<Rightarrow> string \<Rightarrow> 'w \<Rightarrow> (gerr + provider_config) \<times> 'w" where
  "fetchProvider env name w = ae_GetProviderConfig env name w"

text \<open>A provider config without a reference to a secret is dereferenced all the same.\<close>

definition getKubeConfig :: "('c, 'd, 'h, 'w, 'z) api_env_scheme \<Rightarrow> provider_config \<Rightarrow> 'w \<Rightarrow> string api_result \<times> 'w" where
  "getKubeConfig env p w =
     (case pv_SecretRef p of
        None \<Rightarrow> (Crash, w)
      | Some (ns, name, key) \<Rightarrow>
          (case ae_GetSecret env ns name w of
             (Inl e, w) \<Rightarrow> (Refused e, w)
           | (Inr data, w) \<Rightarrow> (Answer (data_field data key), w)))"

definition remote_client :: "('c, 'd, 'h, 'w, 'z) api_env_scheme \<Rightarrow> (string \<Rightarrow> gerr + 'x) \<Rightarrow> provider_config \<Rightarrow> 'w \<Rightarrow> 'x api_result \<times> 'w" where
  "remote_client env mk p w =
     (case getKubeConfig env p w of
        (Crash, w) \<Rightarrow> (Crash, w)
      | (Refused e, w) \<Rightarrow> (Refused e, w)
      | (Answer kubeconfig, w) \<Rightarrow>
          (case ae_RESTConfig env kubeconfig of
             Some e \<Rightarrow> (Refused e, w)
           | None \<Rightarrow> (refuse_on id (mk kubeconfig), w)))"

definition GetKubeClient :: "('c, 'd, 'h, 'w, 'z) api_env_scheme \<Rightarrow> claim \<Rightarrow> 'w \<Rightarrow> 'c api_result \<times> 'w" where
  "GetKubeClient env inst w =
     (if cl_ProviderConfig inst = '''' then (Answer (ae_Local env), w)
      else (case fetchProvider env (cl_ProviderConfig inst) w of
              (Inl e, w) \<Rightarrow> (Refused e, w)
            | (Inr p, w) \<Rightarrow> remote_client env (ae_Client env) p w))"

definition GetDynKubeClient :: "('c, 'd, 'h, 'w, 'z) api_env_scheme \<Rightarrow> claim \<Rightarrow> 'w \<Rightarrow> 'd api_result \<times> 'w" where
  "GetDynKubeClient env inst w =
     (if cl_ProviderConfig inst = '''' \<or> cl_ProviderConfig inst = ''local'' then (refuse_on id (ae_Dynamic env None), w)
      else (case fetchProvider env (cl_ProviderConfig inst) w of
              (Inl e, w) \<Rightarrow> (Refused e, w)
            | (Inr p, w) \<Rightarrow>
                (if pv_Source p = ''InjectedIdentity'' then (refuse_on id (ae_Dynamic env None), w)
                 else remote_client env (\<lambda>k. ae_Dynamic env (Some k)) p w)))"

text \<open>The listing of claims in every storage: without an instance namespace a claim is left out.\<close>

definition has_namespace :: "claim list \<Rightarrow> claim list" where
  "has_namespace = filter (\<lambda>p. cl_InstanceNamespace p \<noteq> '''')"

definition ListVSHNRedis :: "('c, 'd, 'h, 'w, 'z) api_env_scheme \<Rightarrow> string \<Rightarrow> 'w \<Rightarrow> (gerr + claim list) \<times> 'w" where
  "ListVSHNRedis env ns w = (case ae_ListInstances env ns w of (Inl e, w) \<Rightarrow> (Inl e, w) | (Inr l, w) \<Rightarrow> (Inr (has_namespace l), w))"

section \<open>Snapshots\<close>

definition snapshot_Get :: "('c, 'd, 'h, 'w, 'z) api_env_scheme \<Rightarrow> string \<Rightarrow> string \<Rightarrow> 'c \<Rightarrow> 'w \<Rightarrow> (gerr + snapshot) \<times> 'w" where
  "snapshot_Get env iid ns c w = ae_GetSnapshot env c ns iid w"

definition snapshot_List :: "('c, 'd, 'h, 'w, 'z) api_env_scheme \<Rightarrow> string \<Rightarrow> 'c \<Rightarrow> 'w \<Rightarrow> (gerr + snapshot list) \<times> 'w" where
  "snapshot_List env ns c w = ae_ListSnapshots env c ns w"

text \<open>The watch is opened with the list but without its namespace.\<close>

definition snapshot_Watch :: "('c, 'd, 'h, 'w, 'z) api_env_scheme \<Rightarrow> string \<Rightarrow> 'c \<Rightarrow> 'w \<Rightarrow> (gerr + 'h) \<times> 'w" where
  "snapshot_Watch env ns c w =
     (case snapshot_List env ns c w of (Inl e, w) \<Rightarrow> (Inl e, w) | (Inr l, w) \<Rightarrow> ae_WatchSnapshots env c w)"

text \<open>The object of an event: none, a decoded one, or an unstructured one.\<close>

datatype 'a watch_object = NoObject | Typed 'a | Unstructured "(string \<times> gany) list"

definition snapshot_GetFromEvent :: "('c, 'd, 'h, 'w, 'z) api_env_scheme \<Rightarrow> 'a watch_object \<Rightarrow> gerr + snapshot" where
  "snapshot_GetFromEvent env ob =
     (case ob of Unstructured m \<Rightarrow> ae_Snapshot env m | _ \<Rightarrow> Inl (Msg ''cannot parse snapshot from watch event''))"

section \<open>Backups of Redis and MariaDB\<close>

record k8up_backup =
  kb_Meta :: api_meta
  kb_ID :: string
  kb_Date :: instant
  kb_Instance :: string

definition empty_meta :: api_meta where "empty_meta = \<lparr>am_Name = '''', am_Namespace = '''', am_Created = zero_time\<rparr>"

definition empty_backup :: k8up_backup where
  "empty_backup = \<lparr>kb_Meta = empty_meta, kb_ID = '''', kb_Date = zero_time, kb_Instance = ''''\<rparr>"

definition deRefString :: "string option \<Rightarrow> string" where "deRefString s = or_zero '''' s"

definition deRefMetaTime :: "('c, 'd, 'h, 'w, 'z) api_env_scheme \<Rightarrow> instant option \<Rightarrow> 'w \<Rightarrow> instant \<times> 'w" where
  "deRefMetaTime env t w = (case t of None \<Rightarrow> ae_Now env w | Some t \<Rightarrow> (t, w))"

definition trimStringLength :: "string \<Rightarrow> string" where "trimStringLength s = take 8 s"

definition redis_backup :: "('c, 'd, 'h, 'w, 'z) api_env_scheme \<Rightarrow> string \<Rightarrow> string \<Rightarrow> snapshot \<Rightarrow> 'w \<Rightarrow> k8up_backup \<times> 'w" where
  "redis_backup env name ns snap w =
     (case deRefMetaTime env (sn_Date snap) w of (date, w) \<Rightarrow>
        (\<lparr>kb_Meta = (sn_Meta snap)\<lparr>am_Namespace := ns\<rparr>, kb_ID = deRefString (sn_ID snap), kb_Date = date, kb_Instance = name\<rparr>, w))"

fun redis_get_loop :: "('c, 'd, 'h, 'w, 'z) api_env_scheme \<Rightarrow> string \<Rightarrow> claim list \<Rightarrow> k8up_backup \<Rightarrow> 'w \<Rightarrow> k8up_backup api_result \<times> 'w" where
  "redis_get_loop env name [] acc w = (Answer acc, w)"
| "redis_get_loop env name (inst # insts) acc w =
     (case GetKubeClient env inst w of
        (Crash, w) \<Rightarrow> (Crash, w)
      | (Refused e, w) \<Rightarrow> (Refused (Wrapped ''cannot get KubeClient from ProviderConfig'' e), w)
      | (Answer c, w) \<Rightarrow>
          (case snapshot_Get env name (cl_InstanceNamespace inst) c w of
             (Inl e, w) \<Rightarrow> (if IsNotFound e then redis_get_loop env name insts acc w else (Refused e, w))
           | (Inr snap, w) \<Rightarrow>
               (case redis_backup env (cl_Name inst) (cl_Namespace inst) snap w of (b, w) \<Rightarrow> redis_get_loop env name insts b w)))"

text \<open>The namespace of the request is None when the context has none.\<close>

definition redis_Get :: "('c, 'd, 'h, 'w, 'z) api_env_scheme \<Rightarrow> string option \<Rightarrow> string \<Rightarrow> 'w \<Rightarrow> k8up_backup api_result \<times> 'w" where
  "redis_Get env ctx name w =
     (case ctx of
        None \<Rightarrow> (Refused (Msg ''cannot get namespace from context''), w)
      | Some ns \<Rightarrow>
          (case ListVSHNRedis env ns w of
             (Inl e, w) \<Rightarrow> (Refused e, w)
           | (Inr insts, w) \<Rightarrow> redis_get_loop env name insts empty_backup w))"

fun redis_backups :: "('c, 'd, 'h, 'w, 'z) api_env_scheme \<Rightarrow> claim \<Rightarrow> snapshot list \<Rightarrow> k8up_backup list \<Rightarrow> 'w \<Rightarrow> k8up_backup list \<times> 'w" where
  "redis_backups env inst [] acc w = (acc, w)"
| "redis_backups env inst (snap # snaps) acc w =
     (case redis_backup env (cl_Name inst) (cl_Namespace inst) snap w of (b, w) \<Rightarrow> redis_backups env inst snaps (acc @ [b]) w)"

text \<open>When the snapshots are not found, the list is nil and reading its items panics.\<close>

fun redis_list_loop :: "('c, 'd, 'h, 'w, 'z) api_env_scheme \<Rightarrow> claim list \<Rightarrow> k8up_backup list \<Rightarrow> 'w \<Rightarrow> k8up_backup list api_result \<times> 'w" where
  "redis_list_loop env [] acc w = (Answer acc, w)"
| "redis_list_loop env (inst # insts) acc w =
     (case GetKubeClient env inst w of
        (Crash, w) \<Rightarrow> (Crash, w)
      | (Refused e, w) \<Rightarrow> (Refused (Wrapped ''cannot get KubeClient from ProviderConfig'' e), w)
      | (Answer c, w) \<Rightarrow>
          (case snapshot_List env (cl_InstanceNamespace inst) c w of
             (Inl e, w) \<Rightarrow> (if IsNotFound e then Crash else Refused e, w)
           | (Inr snaps, w) \<Rightarrow>
               (case redis_backups env inst snaps acc w of (acc, w) \<Rightarrow> redis_list_loop env insts acc w)))"

definition redis_List :: "('c, 'd, 'h, 'w, 'z) api_env_scheme \<Rightarrow> string option \<Rightarrow> 'w \<Rightarrow> k8up_backup list api_result \<times> 'w" where
  "redis_List env ctx w =
     (case ctx of
        None \<Rightarrow> (Refused (Msg ''cannot get namespace from resource''), w)
      | Some ns \<Rightarrow>
          (case ListVSHNRedis env ns w of
             (Inl e, w) \<Rightarrow> (Refused e, w)
           | (Inr insts, w) \<Rightarrow> redis_list_loop env insts [] w))"

subsection \<open>Watching\<close>

fun add_watchers :: "('c, 'd, 'h, 'w, 'z) api_env_scheme \<Rightarrow> claim list \<Rightarrow> 'h list \<Rightarrow> 'w \<Rightarrow> 'h list api_result \<times> 'w" where
  "add_watchers env [] mw w = (Answer mw, w)"
| "add_watchers env (inst # insts) mw w =
     (case GetKubeClient env inst w of
        (Crash, w) \<Rightarrow> (Crash, w)
      | (Refused e, w) \<Rightarrow> (Refused (Msg ''cannot get KubeClient from ProviderConfig''), w)
      | (Answer c, w) \<Rightarrow>
          (case snapshot_Watch env (cl_InstanceNamespace inst) c w of
             (Inl e, w) \<Rightarrow> (Refused (ResolveError e), w)
           | (Inr h, w) \<Rightarrow> add_watchers env insts (mw @ [h]) w))"

text \<open>The watches of a request, and the claims its filter was made with.\<close>

definition redis_Watch :: "('c, 'd, 'h, 'w, 'z) api_env_scheme \<Rightarrow> string option \<Rightarrow> 'w \<Rightarrow> ('h list \<times> claim list) api_result \<times> 'w" where
  "redis_Watch env ctx w =
     (case ctx of
        None \<Rightarrow> (Refused (Msg ''cannot get namespace from resource''), w)
      | Some ns \<Rightarrow>
          (case ListVSHNRedis env ns w of
             (Inl e, w) \<Rightarrow> (Refused (Msg ''cannot list VSHNPostgreSQL instances''), w)
           | (Inr insts, w) \<Rightarrow>
               (case add_watchers env insts [] w of
                  (Answer mw, w) \<Rightarrow> (Answer (mw, insts), w) | (Refused e, w) \<Rightarrow> (Refused e, w) | (Crash, w) \<Rightarrow> (Crash, w))))"

text \<open>The last claim of the loop that has the namespace: its name and namespace.\<close>

definition claim_of_namespace :: "claim list \<Rightarrow> string \<Rightarrow> string \<times> string" where
  "claim_of_namespace insts ns =
     fold (\<lambda>v r. if cl_InstanceNamespace v = ns then (cl_Name v, cl_Namespace v) else r) insts ('''', '''')"

text \<open>What the filter makes of an event's object: dropped, passed on as it is, or translated.\<close>

datatype ('a, 'b) filtered = Dropped | Passed "'a watch_object" | Translated 'b

definition redis_watch_filter ::
    "('c, 'd, 'h, 'w, 'z) api_env_scheme \<Rightarrow> claim list \<Rightarrow> 'a watch_object \<Rightarrow> 'w \<Rightarrow> ('a, k8up_backup) filtered \<times> 'w" where
  "redis_watch_filter env insts ob w =
     (if ob = NoObject then (Passed ob, w)
      else (case snapshot_GetFromEvent env ob of
              Inl e \<Rightarrow> (Dropped, w)
            | Inr snap \<Rightarrow>
                (case claim_of_namespace insts (am_Namespace (sn_Meta snap)) of (db, ns) \<Rightarrow>
                   (if db = '''' then (Dropped, w)
                    else (case redis_backup env db ns snap w of (b, w) \<Rightarrow> (Translated b, w))))))"

subsection \<open>Tables\<close>

text \<open>An object given to the printer; \<open>OtherObject\<close> is of another type.\<close>

datatype 'b printable = OneObject 'b | ObjectList "'b list" | OtherObject

datatype table_cell = TextCell string | BoolCell bool

record 'b api_table =
  tb_Rows :: "(table_cell list \<times> 'b) list"
  tb_Columns :: "string list"

text \<open>The clock and the formats a table is printed with.\<close>

record printer =
  pr_Since :: "instant \<Rightarrow> duration"
  pr_HumanDuration :: "duration \<Rightarrow> string"
  pr_RFC3339 :: "instant \<Rightarrow> string"

definition GetBackupTable :: "string \<Rightarrow> string \<Rightarrow> string \<Rightarrow> string \<Rightarrow> string \<Rightarrow> string \<Rightarrow> 'b \<Rightarrow> table_cell list \<times> 'b" where
  "GetBackupTable iid inst status age started finished b = (map TextCell [iid, inst, started, finished, status, age], b)"

definition GetBackupColumnDefinition :: "string list" where
  "GetBackupColumnDefinition = [''Backup ID'', ''Instance'', ''Started'', ''Finished'', ''Status'', ''Age'']"

definition age_of :: "printer \<Rightarrow> api_meta \<Rightarrow> string" where
  "age_of pr m = pr_HumanDuration pr (pr_Since pr (am_Created m))"

definition redis_table_row :: "printer \<Rightarrow> k8up_backup \<Rightarrow> table_cell list \<times> k8up_backup" where
  "redis_table_row pr b =
     GetBackupTable (trimStringLength (kb_ID b)) (kb_Instance b) ''Completed'' (age_of pr (kb_Meta b))
       (pr_RFC3339 pr (kb_Date b)) (pr_RFC3339 pr (kb_Date b)) b"

text \<open>The options are None when they are not table options, else whether they ask for no headers.\<close>

definition convert_table :: "('b \<Rightarrow> table_cell list \<times> 'b) \<Rightarrow> string list \<Rightarrow> 'b printable \<Rightarrow> bool option \<Rightarrow> gerr + 'b api_table" where
  "convert_table row columns ob opts =
     (let header = (if opts = Some True then [] else columns)
      in (case ob of
            OtherObject \<Rightarrow> Inl (Msg ''not a vshn backup'')
          | OneObject b \<Rightarrow> Inr \<lparr>tb_Rows = [row b], tb_Columns = header\<rparr>
          | ObjectList bs \<Rightarrow> Inr \<lparr>tb_Rows = map row bs, tb_Columns = header\<rparr>))"

definition redis_ConvertToTable :: "printer \<Rightarrow> k8up_backup printable \<Rightarrow> bool option \<Rightarrow> gerr + k8up_backup api_table" where
  "redis_ConvertToTable pr = convert_table (redis_table_row pr) GetBackupColumnDefinition"

subsection \<open>MariaDB\<close>

text \<open>The storage of MariaDB is that of Redis over its own claims and types.\<close>

definition ListVSHNMariaDB :: "('c, 'd, 'h, 'w, 'z) api_env_scheme \<Rightarrow> string \<Rightarrow> 'w \<Rightarrow> (gerr + claim list) \<times> 'w" where
  "ListVSHNMariaDB env ns w = (case ae_ListInstances env ns w of (Inl e, w) \<Rightarrow> (Inl e, w) | (Inr l, w) \<Rightarrow> (Inr (has_namespace l), w))"

definition mariadb_Get :: "('c, 'd, 'h, 'w, 'z) api_env_scheme \<Rightarrow> string option \<Rightarrow> string \<Rightarrow> 'w \<Rightarrow> k8up_backup api_result \<times> 'w" where
  "mariadb_Get env ctx name w =
     (case ctx of
        None \<Rightarrow> (Refused (Msg ''cannot get namespace from context''), w)
      | Some ns \<Rightarrow>
          (case ListVSHNMariaDB env ns w of
             (Inl e, w) \<Rightarrow> (Refused e, w)
           | (Inr insts, w) \<Rightarrow> redis_get_loop env name insts empty_backup w))"

definition mariadb_List :: "('c, 'd, 'h, 'w, 'z) api_env_scheme \<Rightarrow> string option \<Rightarrow> 'w \<Rightarrow> k8up_backup list api_result \<times> 'w" where
  "mariadb_List env ctx w =
     (case ctx of
        None \<Rightarrow> (Refused (Msg ''cannot get namespace from resource''), w)
      | Some ns \<Rightarrow>
          (case ListVSHNMariaDB env ns w of
             (Inl e, w) \<Rightarrow> (Refused e, w)
           | (Inr insts, w) \<Rightarrow> redis_list_loop env insts [] w))"

definition mariadb_Watch :: "('c, 'd, 'h, 'w, 'z) api_env_scheme \<Rightarrow> string option \<Rightarrow> 'w \<Rightarrow> ('h list \<times> claim list) api_result \<times> 'w" where
  "mariadb_Watch = redis_Watch"

definition mariadb_watch_filter ::
    "('c, 'd, 'h, 'w, 'z) api_env_scheme \<Rightarrow> claim list \<Rightarrow> 'a watch_object \<Rightarrow> 'w \<Rightarrow> ('a, k8up_backup) filtered \<times> 'w" where
  "mariadb_watch_filter = redis_watch_filter"

definition mariadb_table_row :: "printer \<Rightarrow> k8up_backup \<Rightarrow> table_cell list \<times> k8up_backup" where
  "mariadb_table_row = redis_table_row"

definition mariadb_ConvertToTable :: "printer \<Rightarrow> k8up_backup printable \<Rightarrow> bool option \<Rightarrow> gerr + k8up_backup api_table" where
  "mariadb_ConvertToTable pr = convert_table (mariadb_table_row pr) GetBackupColumnDefinition"

section \<open>What a request sees\<close>

text \<open>
  The contents of the clusters: \<open>claims ns\<close> in a namespace, \<open>snaps ns\<close> in an instance namespace. A read in a namespace
  gives what is there; about a read without a namespace, which goes over the whole cluster, nothing is said.
\<close>

definition reads_within :: "('c, 'd, 'h, 'w, 'z) api_env_scheme \<Rightarrow> (string \<Rightarrow> claim set) \<Rightarrow> (string \<Rightarrow> snapshot set) \<Rightarrow> bool" where
  "reads_within env claims snaps \<longleftrightarrow>
     (\<forall>ns w l w'. ae_ListInstances env ns w = (Inr l, w') \<longrightarrow> set l \<subseteq> claims ns) \<and>
     (\<forall>c ns w l w'. ae_ListSnapshots env c ns w = (Inr l, w') \<longrightarrow> ns \<noteq> '''' \<longrightarrow> set l \<subseteq> snaps ns) \<and>
     (\<forall>c ns iid w s w'. ae_GetSnapshot env c ns iid w = (Inr s, w') \<longrightarrow> ns \<noteq> '''' \<longrightarrow> s \<in> snaps ns)"

text \<open>The backup is the snapshot, as one of the claim.\<close>

definition backup_of :: "claim \<Rightarrow> snapshot \<Rightarrow> k8up_backup \<Rightarrow> bool" where
  "backup_of inst s b \<longleftrightarrow>
     kb_Meta b = (sn_Meta s)\<lparr>am_Namespace := cl_Namespace inst\<rparr> \<and> kb_ID b = deRefString (sn_ID s) \<and> kb_Instance b = cl_Name inst \<and>
     (\<forall>t. sn_Date s = Some t \<longrightarrow> kb_Date b = t)"

definition within :: "(string \<Rightarrow> claim set) \<Rightarrow> (string \<Rightarrow> snapshot set) \<Rightarrow> string \<Rightarrow> k8up_backup \<Rightarrow> bool" where
  "within claims snaps ns b \<longleftrightarrow>
     (\<exists>inst \<in> claims ns. \<exists>s \<in> snaps (cl_InstanceNamespace inst). cl_InstanceNamespace inst \<noteq> '''' \<and> backup_of inst s b)"

lemma redis_backup_of: "redis_backup env (cl_Name inst) (cl_Namespace inst) s w = (b, w') \<Longrightarrow> backup_of inst s b"
  by (auto simp: redis_backup_def deRefMetaTime_def backup_of_def split: option.splits prod.splits)

lemma redis_backups_spec:
  "redis_backups env inst snaps acc w = (acc', w') \<Longrightarrow> \<exists>bs. acc' = acc @ bs \<and> list_all2 (backup_of inst) snaps bs"
proof (induction snaps arbitrary: acc w)
  case (Cons s snaps)
  obtain b w1 where b: "redis_backup env (cl_Name inst) (cl_Namespace inst) s w = (b, w1)" by fastforce
  then obtain bs where "acc' = (acc @ [b]) @ bs" "list_all2 (backup_of inst) snaps bs" using Cons by fastforce
  then show ?case using redis_backup_of [OF b] by (intro exI [of _ "b # bs"]) simp
qed simp

lemma ListVSHNRedis_spec:
  assumes "reads_within env claims snaps" "ListVSHNRedis env ns w = (Inr insts, w')" "inst \<in> set insts"
  shows "inst \<in> claims ns \<and> cl_InstanceNamespace inst \<noteq> ''''"
proof -
  obtain l where l: "ae_ListInstances env ns w = (Inr l, w')" "insts = has_namespace l"
    using assms(2) by (auto simp: ListVSHNRedis_def split: prod.splits sum.splits)
  then have "set l \<subseteq> claims ns" using assms(1) unfolding reads_within_def by blast
  then show ?thesis using assms(3) l(2) by (auto simp: has_namespace_def)
qed

lemma redis_list_loop_within:
  assumes "reads_within env claims snaps" "\<And>inst. inst \<in> set insts \<Longrightarrow> inst \<in> claims ns \<and> cl_InstanceNamespace inst \<noteq> ''''"
    "redis_list_loop env insts acc w = (Answer bs, w')" "\<And>b. b \<in> set acc \<Longrightarrow> within claims snaps ns b" "b \<in> set bs"
  shows "within claims snaps ns b"
  using assms(2-5)
proof (induction insts arbitrary: acc w)
  case (Cons inst insts)
  obtain c w1 where c: "GetKubeClient env inst w = (Answer c, w1)"
    using Cons.prems(2) by (auto split: prod.splits api_result.splits)
  obtain l w2 where l: "snapshot_List env (cl_InstanceNamespace inst) c w1 = (Inr l, w2)"
    using Cons.prems(2) c by (auto split: prod.splits sum.splits if_splits)
  obtain acc' w3 where bk: "redis_backups env inst l acc w2 = (acc', w3)" by fastforce
  obtain new where new: "acc' = acc @ new" "list_all2 (backup_of inst) l new" using redis_backups_spec [OF bk] by blast
  have inst: "inst \<in> claims ns" "cl_InstanceNamespace inst \<noteq> ''''" using Cons.prems(1) by simp_all
  then have sub: "set l \<subseteq> snaps (cl_InstanceNamespace inst)"
    using assms(1) l unfolding reads_within_def snapshot_List_def by blast
  have "within claims snaps ns b'" if new': "b' \<in> set new" for b'
  proof -
    obtain i where i: "i < length new" "new ! i = b'" using new' unfolding in_set_conv_nth by blast
    then have "l ! i \<in> set l" "backup_of inst (l ! i) b'" using new(2) by (auto simp: list_all2_conv_all_nth)
    then show ?thesis using inst sub by (auto simp: within_def)
  qed
  then show ?case using Cons.IH [of acc' w3] Cons.prems c l bk new(1) by auto
qed simp

lemma redis_get_loop_within:
  assumes "reads_within env claims snaps" "\<And>inst. inst \<in> set insts \<Longrightarrow> inst \<in> claims ns \<and> cl_InstanceNamespace inst \<noteq> ''''"
    "redis_get_loop env name insts acc w = (Answer b, w')" "acc = empty_backup \<or> within claims snaps ns acc"
  shows "b = empty_backup \<or> within claims snaps ns b"
  using assms(2-4)
proof (induction insts arbitrary: acc w)
  case (Cons inst insts)
  obtain c w1 where c: "GetKubeClient env inst w = (Answer c, w1)"
    using Cons.prems(2) by (auto split: prod.splits api_result.splits)
  obtain r w2 where r: "snapshot_Get env name (cl_InstanceNamespace inst) c w1 = (r, w2)" by fastforce
  show ?case
  proof (cases r)
    case (Inl e)
    then show ?thesis using Cons.IH [of acc w2] Cons.prems c r by (auto split: if_splits)
  next
    case (Inr s)
    obtain b' w3 where b': "redis_backup env (cl_Name inst) (cl_Namespace inst) s w2 = (b', w3)" by fastforce
    have "s \<in> snaps (cl_InstanceNamespace inst)"
      using assms(1) r [unfolded Inr snapshot_Get_def] Cons.prems(1) [of inst] unfolding reads_within_def by (meson list.set_intros(1))
    then have "within claims snaps ns b'" using redis_backup_of [OF b'] Cons.prems(1) [of inst] by (auto simp: within_def)
    then show ?thesis using Cons.IH [of b' w3] Cons.prems c r Inr b' by auto
  qed
qed simp

text \<open>
  Tenants are kept apart: what listing or reading backups in a namespace answers are snapshots from the instance
  namespaces of the claims in that namespace, relabelled as the claim's; a read that finds none answers an empty object.
\<close>

theorem backups_stay_in_their_namespace:
  assumes "reads_within env claims snaps"
  shows "(redis_List env (Some ns) w = (Answer bs, w') \<longrightarrow> (\<forall>b \<in> set bs. within claims snaps ns b)) \<and>
    (redis_Get env (Some ns) name w = (Answer b, w') \<longrightarrow> b = empty_backup \<or> within claims snaps ns b)"
proof (intro conjI impI ballI)
  fix b assume r: "redis_List env (Some ns) w = (Answer bs, w')" "b \<in> set bs"
  obtain insts w1 where l: "ListVSHNRedis env ns w = (Inr insts, w1)" using r(1) by (auto simp: redis_List_def split: prod.splits sum.splits)
  have "redis_list_loop env insts [] w1 = (Answer bs, w')" using r(1) l by (simp add: redis_List_def)
  moreover have "inst \<in> claims ns \<and> cl_InstanceNamespace inst \<noteq> ''''" if "inst \<in> set insts" for inst
    using ListVSHNRedis_spec [OF assms l that] .
  ultimately show "within claims snaps ns b"
    using redis_list_loop_within [OF assms, of insts ns "[]" w1 bs w' b] r(2) by simp
next
  assume r: "redis_Get env (Some ns) name w = (Answer b, w')"
  obtain insts w1 where l: "ListVSHNRedis env ns w = (Inr insts, w1)" using r by (auto simp: redis_Get_def split: prod.splits sum.splits)
  have "redis_get_loop env name insts empty_backup w1 = (Answer b, w')" using r l by (simp add: redis_Get_def)
  moreover have "inst \<in> claims ns \<and> cl_InstanceNamespace inst \<noteq> ''''" if "inst \<in> set insts" for inst
    using ListVSHNRedis_spec [OF assms l that] .
  ultimately show "b = empty_backup \<or> within claims snaps ns b"
    using redis_get_loop_within [OF assms, of insts ns name empty_backup w1 b w'] by simp
qed

section \<open>Flaws\<close>

lemma mariadb_is_redis: "mariadb_Get env = redis_Get env" "mariadb_List env = redis_List env"
  unfolding fun_eq_iff mariadb_Get_def redis_Get_def mariadb_List_def redis_List_def ListVSHNMariaDB_def ListVSHNRedis_def by simp_all

text \<open>A backup that no instance has is answered with an empty object and no error.\<close>

lemma missing_backup_is_empty:
  assumes "\<And>inst w. \<exists>c. GetKubeClient env inst w = (Answer c, w)" "\<And>c ns w. ae_GetSnapshot env c ns name w = (Inl (ApiErr NotFound), w)"
  shows "redis_get_loop env name insts acc w = (Answer acc, w)"
proof (induction insts)
  case (Cons inst insts)
  obtain c where "GetKubeClient env inst w = (Answer c, w)" using assms(1) by blast
  then show ?case using Cons assms(2) by (simp add: snapshot_Get_def)
qed simp

text \<open>
  A watch that is opened with a typed list delivers typed objects, of which the filter drops every one.
\<close>

lemma typed_events_are_dropped: "redis_watch_filter env insts (Typed x) w = (Dropped, w)"
  by (simp add: redis_watch_filter_def snapshot_GetFromEvent_def)

text \<open>Only the dynamic client knows the local cluster: with an injected identity the other one panics.\<close>

lemma local_claim_panics:
  assumes "cl_ProviderConfig inst = ''local''" "ae_GetProviderConfig env ''local'' w = (Inr p, w)" "pv_SecretRef p = None"
  shows "GetKubeClient env inst w = (Crash, w) \<and> fst (GetDynKubeClient env inst w) \<noteq> Crash"
  using assms by (cases "ae_Dynamic env None") (simp_all add: GetKubeClient_def GetDynKubeClient_def fetchProvider_def remote_client_def getKubeConfig_def)

text \<open>A cluster with two tenants, each with one instance and one snapshot.\<close>

definition example_claim :: "string \<Rightarrow> string \<Rightarrow> claim" where
  "example_claim ns inner = \<lparr>cl_Name = ''redis'', cl_Namespace = ns, cl_InstanceNamespace = inner, cl_ProviderConfig = '''',
     cl_CompositionRef = '''', cl_ResourceRef = '''', cl_UseExternalPostgreSQL = False, cl_ExistingPGConnectionSecret = ''''\<rparr>"

definition example_snapshot :: "string \<Rightarrow> snapshot" where
  "example_snapshot ns = \<lparr>sn_Meta = \<lparr>am_Name = ''snap'', am_Namespace = ns, am_Created = 0\<rparr>, sn_ID = Some ''0123456789'', sn_Date = Some 5\<rparr>"

definition example_claims :: "string \<Rightarrow> claim list" where
  "example_claims ns = (if ns = ''a'' then [example_claim ''a'' ''in-a''] else if ns = ''b'' then [example_claim ''b'' ''in-b''] else [])"

definition example_snaps :: "string \<Rightarrow> snapshot list" where
  "example_snaps ns = (if ns = '''' then [example_snapshot ''in-a'', example_snapshot ''in-b'']
     else if ns \<in> {''in-a'', ''in-b''} then [example_snapshot ns] else [])"

definition example_api :: "(unit, unit, nat, nat) api_env" where
  "example_api = \<lparr>ae_ListInstances = (\<lambda>ns w. (Inr (example_claims ns), w)), ae_Local = (),
     ae_GetProviderConfig = (\<lambda>n w. (Inl (ApiErr NotFound), w)), ae_GetSecret = (\<lambda>ns n w. (Inl (ApiErr NotFound), w)),
     ae_RESTConfig = (\<lambda>k. None), ae_Client = (\<lambda>k. Inr ()), ae_Dynamic = (\<lambda>k. Inr ()),
     ae_GetSnapshot = (\<lambda>c ns n w. (if n = ''snap'' \<and> ns \<in> {''in-a'', ''in-b''} then Inr (example_snapshot ns) else Inl (ApiErr NotFound), w)),
     ae_ListSnapshots = (\<lambda>c ns w. (Inr (example_snaps ns), w)), ae_WatchSnapshots = (\<lambda>c w. (Inr w, Suc w)),
     ae_Snapshot = (\<lambda>m. Inl (Msg ''invalid'')), ae_Now = (\<lambda>w. (int w, Suc w))\<rparr>"

lemma example_api_within: "reads_within example_api (\<lambda>ns. set (example_claims ns)) (\<lambda>ns. set (example_snaps ns))"
  by (auto simp: reads_within_def example_api_def example_snaps_def split: if_splits)

theorem backups_stay_in_their_namespace_witness:
  "\<exists>b. redis_List example_api (Some ''a'') 0 = (Answer [b], 0) \<and>
     within (\<lambda>ns. set (example_claims ns)) (\<lambda>ns. set (example_snaps ns)) ''a'' b \<and> kb_Meta b = \<lparr>am_Name = ''snap'', am_Namespace = ''a'', am_Created = 0\<rparr>"
proof -
  let ?b = "\<lparr>kb_Meta = \<lparr>am_Name = ''snap'', am_Namespace = ''a'', am_Created = 0\<rparr>, kb_ID = ''0123456789'', kb_Date = 5, kb_Instance = ''redis''\<rparr>"
  have r: "redis_List example_api (Some ''a'') 0 = (Answer [?b], 0)"
    by (simp add: redis_List_def ListVSHNRedis_def example_api_def has_namespace_def example_claims_def example_claim_def GetKubeClient_def
        snapshot_List_def example_snaps_def example_snapshot_def redis_backup_def deRefMetaTime_def deRefString_def)
  then show ?thesis using backups_stay_in_their_namespace [OF example_api_within, of "''a''" 0 "[?b]" 0] by auto
qed

end
