(* ===== verification/ApiPostgres.thy ===== *)
theory ApiPostgres
  imports ApiServer
begin

text \<open>
  The backups of PostgreSQL in the API server, \<open>src/pkg/apiserver/vshn/postgres\<close>: the backup objects of StackGres and
  CloudNativePG, read through a dynamic client and translated.
\<close>

section \<open>Objects and clients\<close>

type_synonym gmap = "(string \<times> gany) list"

text \<open>The object of a \<open>runtime.RawExtension\<close>, if it has one.\<close>

type_synonym raw_extension = "gmap option"

record backup_info =
  bi_Meta :: api_meta
  bi_Process :: raw_extension
  bi_BackupInformation :: raw_extension

record pg_backup_status =
  ps_Process :: "raw_extension option"
  ps_BackupInformation :: "raw_extension option"
  ps_DatabaseInstance :: string

record pg_backup =
  pg_Meta :: api_meta
  pg_Status :: pg_backup_status

text \<open>Group, version and resource.\<close>

type_synonym gvr = "string \<times> string \<times> string"

record list_options =
  lo_Limit :: int
  lo_Continue :: string

text \<open>
  To the clusters come the dynamic clients: \<open>ae_Objects\<close> the provider's own, on the loopback configuration, and reads
  of objects by resource and namespace. \<open>ae_ObjectMeta\<close> is the conversion of apimachinery, \<open>ae_Kind\<close>, \<open>ae_NestedMap\<close>
  and \<open>ae_NestedString\<close> its accessors. The composites are read with the local client: those of Keycloak and Nextcloud
  give the kinds and names they refer to, those of PostgreSQL their instance namespace and their composition.
\<close>

record ('c, 'd, 'h, 'w) pg_api_env = "('c, 'd, 'h, 'w) api_env" +
  ae_Objects :: 'd
  ae_GetObject :: "'d \<Rightarrow> gvr \<Rightarrow> string \<Rightarrow> string \<Rightarrow> 'w \<Rightarrow> (gerr + gmap) \<times> 'w"
  ae_ListObjects :: "'d \<Rightarrow> gvr \<Rightarrow> string \<Rightarrow> list_options \<Rightarrow> 'w \<Rightarrow> (gerr + gmap list) \<times> 'w"
  ae_WatchObjects :: "'d \<Rightarrow> gvr \<Rightarrow> string \<Rightarrow> list_options \<Rightarrow> 'w \<Rightarrow> (gerr + 'h) \<times> 'w"
  ae_ObjectMeta :: "gmap \<Rightarrow> gerr + api_meta"
  ae_Kind :: "gmap \<Rightarrow> string"
  ae_NestedMap :: "gmap \<Rightarrow> string list \<Rightarrow> gerr + gmap option"
  ae_NestedString :: "gmap \<Rightarrow> string list \<Rightarrow> gerr + string option"
  ae_GetComposite :: "string \<Rightarrow> 'w \<Rightarrow> (gerr + (string \<times> string) list) \<times> 'w"
  ae_GetXPostgreSQL :: "string \<Rightarrow> 'w \<Rightarrow> (gerr + string \<times> string) \<times> 'w"

definition no_options :: list_options where "no_options = \<lparr>lo_Limit = 0, lo_Continue = []\<rparr>"

type_synonym ('c, 'd, 'h, 'w) pg_env = "('c, 'd, 'h, 'w) pg_api_env"

definition SGbackupGroupVersionResource :: gvr where
  "SGbackupGroupVersionResource = (''stackgres.io'', ''v1'', ''sgbackups'')"

definition CNPGbackupGroupVersionResource :: gvr where
  "CNPGbackupGroupVersionResource = (''postgresql.cnpg.io'', ''v1'', ''backups'')"

definition DetermineTargetSchema :: "string \<Rightarrow> gvr" where
  "DetermineTargetSchema compositionRefName =
     (if compositionRefName = ''vshnpostgrescnpg.vshn.appcat.vshn.io'' then CNPGbackupGroupVersionResource
      else SGbackupGroupVersionResource)"

definition getPluralOfSingularKind :: "string \<Rightarrow> string" where
  "getPluralOfSingularKind kind = (if has_suffix kind ''s'' then kind else kind @ ''s'')"

section \<open>Translation\<close>

text \<open>What CloudNativePG keeps in the status, in the form that StackGres has.\<close>

definition cnpg_process :: "gmap \<Rightarrow> gmap" where
  "cnpg_process status =
     [(''jobPod'', case as_map (any_get status ''instanceID'') of None \<Rightarrow> GNull | Some m \<Rightarrow> any_get m ''podName''),
      (''status'', any_get status ''phase''),
      (''timing'', GMap [(''start'', any_get status ''startedAt''), (''end'', any_get status ''stoppedAt'')])]"

definition cnpg_information :: "gmap \<Rightarrow> gmap" where
  "cnpg_information status =
     map (\<lambda>k. (k, any_get status k))
       [''backupId'', ''backupName'', ''destinationPath'', ''beginLSN'', ''beginWal'', ''endLSN'', ''endWal'', ''serverName'']"

definition convertToBackupInfo :: "('c, 'd, 'h, 'w) pg_env \<Rightarrow> gmap \<Rightarrow> gerr + backup_info" where
  "convertToBackupInfo env ob =
     (case ae_NestedMap env ob [''metadata''] of
        Inr (Some m) \<Rightarrow>
          (case ae_ObjectMeta env m of
             Inl e \<Rightarrow> Inl e
           | Inr meta \<Rightarrow>
               (let b = \<lparr>bi_Meta = meta, bi_Process = None, bi_BackupInformation = None\<rparr>
                in (if getPluralOfSingularKind (to_lower (ae_Kind env ob)) = snd (snd CNPGbackupGroupVersionResource)
                    then (case ae_NestedMap env ob [''status''] of
                            Inl e \<Rightarrow> Inl (Msg ''cannot parse status field'')
                          | Inr None \<Rightarrow> Inr b
                          | Inr (Some status) \<Rightarrow>
                              Inr (b\<lparr>bi_Process := Some (cnpg_process status), bi_BackupInformation := Some (cnpg_information status)\<rparr>))
                    else (case ae_NestedMap env ob [''status'', ''process''] of
                            Inl e \<Rightarrow> Inl (Msg ''cannot parse status.process field'')
                          | Inr p \<Rightarrow>
                              (case ae_NestedMap env ob [''status'', ''backupInformation''] of
                                 Inl e \<Rightarrow> Inl (Msg ''cannot parse status.backupInformation field'')
                               | Inr bi \<Rightarrow> Inr (b\<lparr>bi_Process := p, bi_BackupInformation := bi\<rparr>))))))
      | _ \<Rightarrow> Inl (Msg ''cannot parse metadata from object''))"

definition set_if_object :: "raw_extension \<Rightarrow> raw_extension option" where
  "set_if_object r = (if r = None then None else Some r)"

definition NewVSHNPostgresBackup :: "backup_info option \<Rightarrow> string \<Rightarrow> string \<Rightarrow> pg_backup option" where
  "NewVSHNPostgresBackup backup db originalNamespace =
     (case backup of
        None \<Rightarrow> None
      | Some b \<Rightarrow>
          (if originalNamespace = '''' \<or> db = '''' then None
           else Some \<lparr>pg_Meta = (bi_Meta b)\<lparr>am_Namespace := originalNamespace\<rparr>,
             pg_Status = \<lparr>ps_Process = set_if_object (bi_Process b), ps_BackupInformation = set_if_object (bi_BackupInformation b),
               ps_DatabaseInstance = db\<rparr>\<rparr>))"

section \<open>Reading the backup objects\<close>

text \<open>Without a client the provider's own is used, with the resource it was made for.\<close>

definition GetBackup :: "('c, 'd, 'h, 'w) pg_env \<Rightarrow> string \<Rightarrow> string \<Rightarrow> gvr \<Rightarrow> 'd option \<Rightarrow> 'w \<Rightarrow> (gerr + backup_info) \<times> 'w" where
  "GetBackup env name ns schema d w =
     (case (case d of Some d \<Rightarrow> ae_GetObject env d schema ns name w
                    | None \<Rightarrow> ae_GetObject env (ae_Objects env) SGbackupGroupVersionResource ns name w) of
        (Inl e, w) \<Rightarrow> (Inl e, w)
      | (Inr ob, w) \<Rightarrow> (convertToBackupInfo env ob, w))"

text \<open>An object that cannot be translated is left out.\<close>

definition converted :: "('c, 'd, 'h, 'w) pg_env \<Rightarrow> gmap list \<Rightarrow> backup_info list" where
  "converted env obs = List.map_filter (\<lambda>ob. case convertToBackupInfo env ob of Inl e \<Rightarrow> None | Inr b \<Rightarrow> Some b) obs"

definition ListBackup ::
    "('c, 'd, 'h, 'w) pg_env \<Rightarrow> string \<Rightarrow> gvr \<Rightarrow> 'd option \<Rightarrow> list_options \<Rightarrow> 'w \<Rightarrow> (gerr + backup_info list) \<times> 'w" where
  "ListBackup env ns schema d opts w =
     (case (case d of Some d \<Rightarrow> ae_ListObjects env d schema ns opts w
                    | None \<Rightarrow> ae_ListObjects env (ae_Objects env) SGbackupGroupVersionResource ns opts w) of
        (Inl e, w) \<Rightarrow> (Inl e, w)
      | (Inr obs, w) \<Rightarrow> (Inr (converted env obs), w))"

text \<open>Only the provider's own client watches.\<close>

definition WatchBackup :: "('c, 'd, 'h, 'w) pg_env \<Rightarrow> string \<Rightarrow> list_options \<Rightarrow> 'w \<Rightarrow> (gerr + 'h) \<times> 'w" where
  "WatchBackup env ns opts w = ae_WatchObjects env (ae_Objects env) SGbackupGroupVersionResource ns opts w"

definition GetFromEvent :: "('c, 'd, 'h, 'w) pg_env \<Rightarrow> 'a watch_object \<Rightarrow> backup_info option" where
  "GetFromEvent env ob =
     (case ob of Unstructured m \<Rightarrow> (case convertToBackupInfo env m of Inl e \<Rightarrow> None | Inr b \<Rightarrow> Some b) | _ \<Rightarrow> None)"

section \<open>The storage\<close>

text \<open>The listing cleans what it has got and hands the error on.\<close>

definition ListVSHNPostgreSQL :: "('c, 'd, 'h, 'w) pg_env \<Rightarrow> string \<Rightarrow> 'w \<Rightarrow> (gerr + claim list) \<times> 'w" where
  "ListVSHNPostgreSQL env ns w =
     (case ae_ListInstances env ns w of (Inl e, w) \<Rightarrow> (Inl e, w) | (Inr l, w) \<Rightarrow> (Inr (has_namespace l), w))"

fun pg_get_loop ::
    "('c, 'd, 'h, 'w) pg_env \<Rightarrow> string \<Rightarrow> string \<Rightarrow> claim list \<Rightarrow> pg_backup option \<Rightarrow> 'w \<Rightarrow> pg_backup option api_result \<times> 'w" where
  "pg_get_loop env ns name [] acc w = (Answer acc, w)"
| "pg_get_loop env ns name (inst # insts) acc w =
     (case GetDynKubeClient env inst w of
        (Crash, w) \<Rightarrow> (Crash, w)
      | (Refused e, w) \<Rightarrow> (Refused (Wrapped ''cannot get KubeClient from ProviderConfig'' e), w)
      | (Answer d, w) \<Rightarrow>
          (case GetBackup env name (cl_InstanceNamespace inst) (DetermineTargetSchema (cl_CompositionRef inst)) (Some d) w of
             (Inl e, w) \<Rightarrow> (if IsNotFound (ResolveError e) then pg_get_loop env ns name insts acc w else (Refused e, w))
           | (Inr b, w) \<Rightarrow> pg_get_loop env ns name insts (NewVSHNPostgresBackup (Some b) (cl_Name inst) ns) w))"

definition pg_Get :: "('c, 'd, 'h, 'w) pg_env \<Rightarrow> string option \<Rightarrow> string \<Rightarrow> 'w \<Rightarrow> pg_backup api_result \<times> 'w" where
  "pg_Get env ctx name w =
     (case ctx of
        None \<Rightarrow> (Refused (Msg ''cannot get namespace from resource''), w)
      | Some ns \<Rightarrow>
          (case ListVSHNPostgreSQL env ns w of
             (Inl e, w) \<Rightarrow> (Refused (Msg ''cannot list VSHNPostgreSQL instances''), w)
           | (Inr insts, w) \<Rightarrow>
               (case pg_get_loop env ns name insts None w of
                  (Crash, w) \<Rightarrow> (Crash, w)
                | (Refused e, w) \<Rightarrow> (Refused e, w)
                | (Answer None, w) \<Rightarrow> (Refused (ApiErr NotFound), w)
                | (Answer (Some b), w) \<Rightarrow> (Answer b, w))))"

fun pg_list_loop ::
    "('c, 'd, 'h, 'w) pg_env \<Rightarrow> string \<Rightarrow> list_options \<Rightarrow> claim list \<Rightarrow> pg_backup list \<Rightarrow> 'w \<Rightarrow> pg_backup list api_result \<times> 'w" where
  "pg_list_loop env ns opts [] acc w = (Answer acc, w)"
| "pg_list_loop env ns opts (inst # insts) acc w =
     (case GetDynKubeClient env inst w of
        (Crash, w) \<Rightarrow> (Crash, w)
      | (Refused e, w) \<Rightarrow> (Refused (Wrapped ''cannot get KubeClient from ProviderConfig'' e), w)
      | (Answer d, w) \<Rightarrow>
          (case ListBackup env (cl_InstanceNamespace inst) (DetermineTargetSchema (cl_CompositionRef inst)) (Some d) opts w of
             (Inl e, w) \<Rightarrow> (Refused (ResolveError e), w)
           | (Inr bis, w) \<Rightarrow>
               pg_list_loop env ns opts insts
                 (acc @ List.map_filter (\<lambda>b. NewVSHNPostgresBackup (Some b) (cl_Name inst) ns) bis) w))"

definition pg_List :: "('c, 'd, 'h, 'w) pg_env \<Rightarrow> string option \<Rightarrow> list_options \<Rightarrow> 'w \<Rightarrow> pg_backup list api_result \<times> 'w" where
  "pg_List env ctx opts w =
     (case ctx of
        None \<Rightarrow> (Refused (Msg ''cannot get namespace from resource''), w)
      | Some ns \<Rightarrow>
          (case ListVSHNPostgreSQL env ns w of
             (Inl e, w) \<Rightarrow> (Refused (Wrapped ''cannot list VSHNPostgreSQL instances'' e), w)
           | (Inr insts, w) \<Rightarrow> pg_list_loop env ns opts insts [] w))"

fun pg_add_watchers ::
    "('c, 'd, 'h, 'w) pg_env \<Rightarrow> list_options \<Rightarrow> claim list \<Rightarrow> 'h list \<Rightarrow> 'w \<Rightarrow> 'h list api_result \<times> 'w" where
  "pg_add_watchers env opts [] mw w = (Answer mw, w)"
| "pg_add_watchers env opts (inst # insts) mw w =
     (case WatchBackup env (cl_InstanceNamespace inst) opts w of
        (Inl e, w) \<Rightarrow> (Refused (ResolveError e), w)
      | (Inr h, w) \<Rightarrow> pg_add_watchers env opts insts (mw @ [h]) w)"

definition pg_Watch ::
    "('c, 'd, 'h, 'w) pg_env \<Rightarrow> string option \<Rightarrow> list_options \<Rightarrow> 'w \<Rightarrow> ('h list \<times> claim list \<times> string) api_result \<times> 'w" where
  "pg_Watch env ctx opts w =
     (case ctx of
        None \<Rightarrow> (Refused (Msg ''cannot get namespace from resource''), w)
      | Some ns \<Rightarrow>
          (case ListVSHNPostgreSQL env ns w of
             (Inl e, w) \<Rightarrow> (Refused (Msg ''cannot list VSHNPostgreSQL instances''), w)
           | (Inr insts, w) \<Rightarrow>
               (case pg_add_watchers env opts insts [] w of
                  (Answer mw, w) \<Rightarrow> (Answer (mw, insts, ns), w) | (Refused e, w) \<Rightarrow> (Refused e, w) | (Crash, w) \<Rightarrow> (Crash, w))))"

text \<open>An object that cannot be translated is passed on as it is.\<close>

definition pg_watch_filter ::
    "('c, 'd, 'h, 'w) pg_env \<Rightarrow> claim list \<Rightarrow> string \<Rightarrow> 'a watch_object \<Rightarrow> ('a, pg_backup) filtered" where
  "pg_watch_filter env insts ns ob =
     (if ob = NoObject then Passed ob
      else (case GetFromEvent env ob of
              None \<Rightarrow> Passed ob
            | Some b \<Rightarrow>
                (let db = fst (claim_of_namespace insts (am_Namespace (bi_Meta b)))
                 in (if db = '''' then Dropped
                     else (case NewVSHNPostgresBackup (Some b) db ns of None \<Rightarrow> Dropped | Some vb \<Rightarrow> Translated vb)))))"

section \<open>Tables\<close>

definition process_field :: "('c, 'd, 'h, 'w) pg_env \<Rightarrow> string list \<Rightarrow> raw_extension option \<Rightarrow> string" where
  "process_field env path process =
     (case process of
        Some (Some p) \<Rightarrow> (case ae_NestedString env p path of Inr (Some s) \<Rightarrow> s | _ \<Rightarrow> '''')
      | _ \<Rightarrow> '''')"

definition getEndTime :: "('c, 'd, 'h, 'w) pg_env \<Rightarrow> raw_extension option \<Rightarrow> string" where
  "getEndTime env = process_field env [''timing'', ''end'']"

definition getStartTime :: "('c, 'd, 'h, 'w) pg_env \<Rightarrow> raw_extension option \<Rightarrow> string" where
  "getStartTime env = process_field env [''timing'', ''start'']"

definition getProcessStatus :: "('c, 'd, 'h, 'w) pg_env \<Rightarrow> raw_extension option \<Rightarrow> string" where
  "getProcessStatus env = process_field env [''status'']"

definition pg_table_row :: "('c, 'd, 'h, 'w) pg_env \<Rightarrow> printer \<Rightarrow> pg_backup \<Rightarrow> table_cell list \<times> pg_backup" where
  "pg_table_row env pr b =
     (let p = ps_Process (pg_Status b)
      in GetBackupTable (am_Name (pg_Meta b)) (ps_DatabaseInstance (pg_Status b)) (getProcessStatus env p)
           (age_of pr (pg_Meta b)) (getStartTime env p) (getEndTime env p) b)"

definition pg_ConvertToTable ::
    "('c, 'd, 'h, 'w) pg_env \<Rightarrow> printer \<Rightarrow> pg_backup printable \<Rightarrow> bool option \<Rightarrow> gerr + pg_backup api_table" where
  "pg_ConvertToTable env pr = convert_table (pg_table_row env pr) GetBackupColumnDefinition"
section \<open>What a request sees\<close>

text \<open>The clusters as in \<^const>\<open>reads_within\<close>: \<open>objs ns\<close> are the backup objects of an instance namespace.\<close>

definition objects_within :: "('c, 'd, 'h, 'w) pg_env \<Rightarrow> (string \<Rightarrow> claim set) \<Rightarrow> (string \<Rightarrow> gmap set) \<Rightarrow> bool" where
  "objects_within env claims objs \<longleftrightarrow>
     (\<forall>ns w l w'. ae_ListInstances env ns w = (Inr l, w') \<longrightarrow> set l \<subseteq> claims ns) \<and>
     (\<forall>d r ns opts w l w'. ae_ListObjects env d r ns opts w = (Inr l, w') \<longrightarrow> ns \<noteq> '''' \<longrightarrow> set l \<subseteq> objs ns) \<and>
     (\<forall>d r ns name w ob w'. ae_GetObject env d r ns name w = (Inr ob, w') \<longrightarrow> ns \<noteq> '''' \<longrightarrow> ob \<in> objs ns)"

text \<open>The information is translated from an object of the claim's instance namespace.\<close>

definition info_of :: "('c, 'd, 'h, 'w) pg_env \<Rightarrow> (string \<Rightarrow> gmap set) \<Rightarrow> string \<Rightarrow> backup_info \<Rightarrow> bool" where
  "info_of env objs ns b \<longleftrightarrow> (\<exists>ob \<in> objs ns. convertToBackupInfo env ob = Inr b)"

definition pg_within ::
    "('c, 'd, 'h, 'w) pg_env \<Rightarrow> (string \<Rightarrow> claim set) \<Rightarrow> (string \<Rightarrow> gmap set) \<Rightarrow> string \<Rightarrow> pg_backup \<Rightarrow> bool" where
  "pg_within env claims objs ns vb \<longleftrightarrow>
     (\<exists>inst \<in> claims ns. \<exists>b. cl_InstanceNamespace inst \<noteq> '''' \<and> info_of env objs (cl_InstanceNamespace inst) b \<and>
        NewVSHNPostgresBackup (Some b) (cl_Name inst) ns = Some vb)"

lemma in_map_filter: "y \<in> set (List.map_filter f xs) \<longleftrightarrow> (\<exists>x \<in> set xs. f x = Some y)"
  by (force simp: map_filter_def)

lemma right_case_Some: "(case s of Inl e \<Rightarrow> None | Inr x \<Rightarrow> Some x) = Some y \<longleftrightarrow> s = Inr y"
  by (cases s) auto

lemma in_converted: "b \<in> set (converted env obs) \<longleftrightarrow> (\<exists>ob \<in> set obs. convertToBackupInfo env ob = Inr b)"
  by (simp add: converted_def in_map_filter right_case_Some)

lemma GetBackup_info:
  assumes "objects_within env claims objs" "GetBackup env name ns schema d w = (Inr b, w')" "ns \<noteq> ''''"
  shows "info_of env objs ns b"
proof -
  obtain d' schema' ob where "ae_GetObject env d' schema' ns name w = (Inr ob, w')" "convertToBackupInfo env ob = Inr b"
    using assms(2) by (auto simp: GetBackup_def split: option.splits prod.splits sum.splits)
  moreover from this assms(1,3) have "ob \<in> objs ns" unfolding objects_within_def by blast
  ultimately show ?thesis unfolding info_of_def by blast
qed

lemma ListBackup_info:
  assumes "objects_within env claims objs" "ListBackup env ns schema d opts w = (Inr bs, w')" "ns \<noteq> ''''" "b \<in> set bs"
  shows "info_of env objs ns b"
proof -
  obtain d' schema' l where "ae_ListObjects env d' schema' ns opts w = (Inr l, w')" "bs = converted env l"
    using assms(2) by (auto simp: ListBackup_def split: option.splits prod.splits sum.splits)
  moreover from this assms(1,3) have "set l \<subseteq> objs ns" unfolding objects_within_def by blast
  ultimately show ?thesis
    using assms(4) by (auto simp: in_converted info_of_def)
qed

lemma ListVSHNPostgreSQL_spec:
  assumes "objects_within env claims objs" "ListVSHNPostgreSQL env ns w = (Inr insts, w')" "inst \<in> set insts"
  shows "inst \<in> claims ns \<and> cl_InstanceNamespace inst \<noteq> ''''"
proof -
  obtain l where l: "ae_ListInstances env ns w = (Inr l, w')" "insts = has_namespace l"
    using assms(2) by (auto simp: ListVSHNPostgreSQL_def split: prod.splits sum.splits)
  then have "set l \<subseteq> claims ns" using assms(1) unfolding objects_within_def by blast
  then show ?thesis using assms(3) l(2) by (auto simp: has_namespace_def)
qed

lemma pg_list_loop_within:
  assumes "objects_within env claims objs" "\<And>inst. inst \<in> set insts \<Longrightarrow> inst \<in> claims ns \<and> cl_InstanceNamespace inst \<noteq> ''''"
    "pg_list_loop env ns opts insts acc w = (Answer bs, w')" "\<And>b. b \<in> set acc \<Longrightarrow> pg_within env claims objs ns b" "b \<in> set bs"
  shows "pg_within env claims objs ns b"
  using assms(2-5)
proof (induction insts arbitrary: acc w)
  case (Cons inst insts)
  obtain d w1 where d: "GetDynKubeClient env inst w = (Answer d, w1)"
    using Cons.prems(2) by (auto split: prod.splits api_result.splits)
  obtain bis w2 where l: "ListBackup env (cl_InstanceNamespace inst) (DetermineTargetSchema (cl_CompositionRef inst)) (Some d) opts w1 = (Inr bis, w2)"
    using Cons.prems(2) d by (auto split: prod.splits sum.splits)
  let ?new = "List.map_filter (\<lambda>b. NewVSHNPostgresBackup (Some b) (cl_Name inst) ns) bis"
  have inst: "inst \<in> claims ns" "cl_InstanceNamespace inst \<noteq> ''''" using Cons.prems(1) by simp_all
  have "pg_within env claims objs ns b'" if new: "b' \<in> set ?new" for b'
  proof -
    obtain i where "i \<in> set bis" "NewVSHNPostgresBackup (Some i) (cl_Name inst) ns = Some b'"
      using new by (auto simp: in_map_filter)
    then show ?thesis using inst ListBackup_info [OF assms(1) l inst(2)] unfolding pg_within_def by blast
  qed
  then show ?case using Cons.IH [of "acc @ ?new" w2] Cons.prems d l by auto
qed simp

lemma pg_get_loop_within:
  assumes "objects_within env claims objs" "\<And>inst. inst \<in> set insts \<Longrightarrow> inst \<in> claims ns \<and> cl_InstanceNamespace inst \<noteq> ''''"
    "pg_get_loop env ns name insts acc w = (Answer (Some b), w')" "\<And>b. acc = Some b \<Longrightarrow> pg_within env claims objs ns b"
  shows "pg_within env claims objs ns b"
  using assms(2-4)
proof (induction insts arbitrary: acc w)
  case (Cons inst insts)
  obtain d w1 where d: "GetDynKubeClient env inst w = (Answer d, w1)"
    using Cons.prems(2) by (auto split: prod.splits api_result.splits)
  obtain r w2 where r: "GetBackup env name (cl_InstanceNamespace inst) (DetermineTargetSchema (cl_CompositionRef inst)) (Some d) w1 = (r, w2)"
    by fastforce
  have inst: "inst \<in> claims ns" "cl_InstanceNamespace inst \<noteq> ''''" using Cons.prems(1) by simp_all
  show ?case
  proof (cases r)
    case (Inl e)
    then show ?thesis using Cons.IH [of acc w2] Cons.prems d r by (auto split: if_splits)
  next
    case (Inr i)
    have "pg_within env claims objs ns b'" if "NewVSHNPostgresBackup (Some i) (cl_Name inst) ns = Some b'" for b'
      using that inst GetBackup_info [OF assms(1) r [unfolded Inr] inst(2)] unfolding pg_within_def by blast
    then show ?thesis using Cons.IH [of "NewVSHNPostgresBackup (Some i) (cl_Name inst) ns" w2] Cons.prems d r Inr by auto
  qed
qed simp

text \<open>
  C30. The backups of PostgreSQL that a namespace sees are those of its own instances: each was translated from an object
  in the instance namespace of a claim there, and what listing and reading answer is never empty-handed: a backup no
  instance has is reported as not found.
\<close>

theorem postgres_backups_are_confined:
  assumes "objects_within env claims objs"
  shows "(pg_List env (Some ns) opts w = (Answer bs, w') \<longrightarrow> (\<forall>b \<in> set bs. pg_within env claims objs ns b)) \<and>
    (pg_Get env (Some ns) name w = (Answer b, w') \<longrightarrow> pg_within env claims objs ns b)"
proof (intro conjI impI ballI)
  fix b assume r: "pg_List env (Some ns) opts w = (Answer bs, w')" "b \<in> set bs"
  obtain insts w1 where l: "ListVSHNPostgreSQL env ns w = (Inr insts, w1)" using r(1) by (auto simp: pg_List_def split: prod.splits sum.splits)
  have "pg_list_loop env ns opts insts [] w1 = (Answer bs, w')" using r(1) l by (simp add: pg_List_def)
  then show "pg_within env claims objs ns b"
    using pg_list_loop_within [OF assms ListVSHNPostgreSQL_spec [OF assms l], of insts opts "[]" w1 bs w' b] r(2) by simp
next
  assume r: "pg_Get env (Some ns) name w = (Answer b, w')"
  obtain insts w1 where l: "ListVSHNPostgreSQL env ns w = (Inr insts, w1)" using r by (auto simp: pg_Get_def split: prod.splits sum.splits)
  have "pg_get_loop env ns name insts None w1 = (Answer (Some b), w')"
    using r l by (auto simp: pg_Get_def split: prod.splits api_result.splits option.splits)
  then show "pg_within env claims objs ns b"
    using pg_get_loop_within [OF assms ListVSHNPostgreSQL_spec [OF assms l], of insts name None w1 b w'] by simp
qed

section \<open>Over the whole cluster\<close>

lemma pg_list_loop_cluster: "pg_list_loop env '''' opts insts acc w = (Answer bs, w') \<Longrightarrow> bs = acc"
proof (induction insts arbitrary: acc w)
  case (Cons inst insts)
  then show ?case
    by (auto simp: NewVSHNPostgresBackup_def map_filter_def split: prod.splits api_result.splits sum.splits)
qed simp

text \<open>Listing without a namespace finds every backup and drops it, since the translation refuses an empty namespace.\<close>

lemma cluster_list_is_empty: "pg_List env (Some '''') opts w = (Answer bs, w') \<Longrightarrow> bs = []"
  by (auto simp: pg_List_def dest!: pg_list_loop_cluster split: prod.splits sum.splits)
text \<open>Two tenants, each with an instance and a backup of the same name.\<close>

definition example_object :: "string \<Rightarrow> gmap" where
  "example_object ns = [(''kind'', GStr ''SGBackup''), (''metadata'', GMap [(''name'', GStr ''bk''), (''namespace'', GStr ns)]),
     (''status'', GMap [(''process'', GMap [(''status'', GStr ns)])])]"

definition example_objects :: "string \<Rightarrow> gmap list" where
  "example_objects ns = (if ns = '''' then [example_object ''in-b'', example_object ''in-a'']
     else if ns = ''in-a'' \<or> ns = ''in-b'' then [example_object ns] else [])"

definition example_pg_api :: "(unit, unit, nat, nat) pg_env" where
  "example_pg_api = api_env.extend example_api (pg_api_env.fields ()
     (\<lambda>d r ns name w. (case example_objects ns of [] \<Rightarrow> Inl (ApiErr NotFound) | ob # obs \<Rightarrow> if name = ''bk'' then Inr ob else Inl (ApiErr NotFound), w))
     (\<lambda>d r ns opts w. (Inr (example_objects ns), w)) (\<lambda>d r ns opts w. (Inr w, Suc w))
     (\<lambda>m. Inr \<lparr>am_Name = or_zero '''' (as_string (any_get m ''name'')), am_Namespace = or_zero '''' (as_string (any_get m ''namespace'')), am_Created = 0\<rparr>)
     (\<lambda>ob. or_zero '''' (as_string (any_get ob ''kind''))) (nested_as as_map) (nested_as as_string)
     (\<lambda>name w. (Inr [(''XVSHNPostgreSQL'', ''pg'')], w)) (\<lambda>name w. (Inr ('''', ''''), w)))"

lemmas example_pg_defs = example_pg_api_def example_api_def api_env.extend_def pg_api_env.fields_def

lemma example_pg_reads:
  "ae_ListInstances example_pg_api ns w = (Inr (example_claims ns), w)"
  "ae_Dynamic example_pg_api k = Inr ()" "ae_Local example_pg_api = ()"
  "ae_ListObjects example_pg_api d r ns opts w = (Inr (example_objects ns), w)"
  "ae_GetObject example_pg_api d r ns name w =
     (case example_objects ns of [] \<Rightarrow> Inl (ApiErr NotFound) | ob # obs \<Rightarrow> if name = ''bk'' then Inr ob else Inl (ApiErr NotFound), w)"
  "ae_GetComposite example_pg_api name w = (Inr [(''XVSHNPostgreSQL'', ''pg'')], w)"
  "ae_GetXPostgreSQL example_pg_api name w = (Inr ('''', ''''), w)"
  by (simp_all add: example_pg_defs)

lemma example_pg_within: "objects_within example_pg_api (\<lambda>ns. set (example_claims ns)) (\<lambda>ns. set (example_objects ns))"
  by (auto simp: objects_within_def example_pg_defs example_objects_def split: if_splits)

definition example_pg_backup :: pg_backup where
  "example_pg_backup = \<lparr>pg_Meta = \<lparr>am_Name = ''bk'', am_Namespace = ''a'', am_Created = 0\<rparr>,
     pg_Status = \<lparr>ps_Process = Some (Some [(''status'', GStr ''in-a'')]), ps_BackupInformation = None, ps_DatabaseInstance = ''redis''\<rparr>\<rparr>"

lemma example_conversion:
  "convertToBackupInfo example_pg_api (example_object ns) =
     Inr \<lparr>bi_Meta = \<lparr>am_Name = ''bk'', am_Namespace = ns, am_Created = 0\<rparr>, bi_Process = Some [(''status'', GStr ns)], bi_BackupInformation = None\<rparr>"
  by (simp add: convertToBackupInfo_def example_pg_defs example_object_def nested_as_def any_get_def to_lower_def to_lower_char_def
      getPluralOfSingularKind_def has_suffix_def CNPGbackupGroupVersionResource_def Let_def)

theorem postgres_backups_are_confined_witness:
  "pg_List example_pg_api (Some ''a'') no_options 0 = (Answer [example_pg_backup], 0) \<and>
   pg_Get example_pg_api (Some ''a'') ''bk'' 0 = (Answer example_pg_backup, 0) \<and>
   pg_within example_pg_api (\<lambda>ns. set (example_claims ns)) (\<lambda>ns. set (example_objects ns)) ''a'' example_pg_backup"
proof -
  have l: "pg_List example_pg_api (Some ''a'') no_options 0 = (Answer [example_pg_backup], 0)"
    and g: "pg_Get example_pg_api (Some ''a'') ''bk'' 0 = (Answer example_pg_backup, 0)"
    unfolding pg_List_def pg_Get_def ListVSHNPostgreSQL_def
    by (simp_all add: example_pg_reads example_claims_def example_claim_def has_namespace_def GetDynKubeClient_def ListBackup_def
        GetBackup_def converted_def map_filter_simps example_objects_def example_conversion NewVSHNPostgresBackup_def
        set_if_object_def example_pg_backup_def)
  then show ?thesis using postgres_backups_are_confined [OF example_pg_within, of "''a''" no_options 0 "[example_pg_backup]" 0 "''bk''"] by auto
qed

end
