(* ===== verification/ApiNested.thy ===== *)
theory ApiNested
  imports ApiPostgres Naming "HOL-Library.Multiset"
begin

text \<open>
  The backups of Keycloak and Nextcloud in the API server, \<open>src/pkg/apiserver/vshn/keycloak\<close> and \<open>nextcloud\<close>: services
  that bring a PostgreSQL of their own, whose backups are shown as theirs.
\<close>

section \<open>The database of a service\<close>

text \<open>Its instance namespace, its name and its composition; all empty when it cannot be read.\<close>

definition getPostgreSQLMetadata :: "('c, 'd, 'h, 'w) pg_env \<Rightarrow> claim \<Rightarrow> 'w \<Rightarrow> (string \<times> string \<times> string) \<times> 'w" where
  "getPostgreSQLMetadata env inst w =
     (case ae_GetComposite env (cl_ResourceRef inst) w of
        (Inl e, w) \<Rightarrow> (('''', '''', ''''), w)
      | (Inr refs, w) \<Rightarrow>
          (let pgName = or_zero '''' (map_option snd (find (\<lambda>r. fst r = ''XVSHNPostgreSQL'') refs))
           in (case ae_GetXPostgreSQL env pgName w of
                 (Inl e, w) \<Rightarrow> (('''', '''', ''''), w)
               | (Inr (ns, composition), w) \<Rightarrow> ((ns, pgName, composition), w))))"

definition database_status :: "string \<Rightarrow> backup_info \<Rightarrow> pg_backup_status" where
  "database_status pgName b =
     \<lparr>ps_Process = Some (bi_Process b), ps_BackupInformation = Some (bi_BackupInformation b), ps_DatabaseInstance = pgName\<rparr>"

definition no_database_status :: pg_backup_status where
  "no_database_status = \<lparr>ps_Process = None, ps_BackupInformation = None, ps_DatabaseInstance = ''''\<rparr>"

definition ListVSHNkeycloak :: "('c, 'd, 'h, 'w) pg_env \<Rightarrow> string \<Rightarrow> 'w \<Rightarrow> (gerr + claim list) \<times> 'w" where
  "ListVSHNkeycloak env ns w = (case ae_ListInstances env ns w of (Inl e, w) \<Rightarrow> (Inl e, w) | (Inr l, w) \<Rightarrow> (Inr (has_namespace l), w))"

section \<open>Keycloak\<close>

record kc_backup =
  kc_Meta :: api_meta
  kc_DatabaseBackupAvailable :: bool
  kc_DatabaseBackupStatus :: pg_backup_status

definition empty_kc_backup :: kc_backup where
  "empty_kc_backup = \<lparr>kc_Meta = empty_meta, kc_DatabaseBackupAvailable = False, kc_DatabaseBackupStatus = no_database_status\<rparr>"

definition keycloak_backup :: "claim \<Rightarrow> string \<Rightarrow> backup_info \<Rightarrow> kc_backup" where
  "keycloak_backup inst pgName b =
     \<lparr>kc_Meta = (bi_Meta b)\<lparr>am_Namespace := cl_Namespace inst\<rparr>, kc_DatabaseBackupAvailable = True,
      kc_DatabaseBackupStatus = database_status pgName b\<rparr>"

fun keycloak_get_loop ::
    "('c, 'd, 'h, 'w) pg_env \<Rightarrow> string \<Rightarrow> claim list \<Rightarrow> kc_backup \<Rightarrow> 'w \<Rightarrow> kc_backup api_result \<times> 'w" where
  "keycloak_get_loop env name [] acc w = (Answer acc, w)"
| "keycloak_get_loop env name (inst # insts) acc w =
     (case getPostgreSQLMetadata env inst w of
        ((pgNamespace, pgName, compRefName), w) \<Rightarrow>
          (case GetDynKubeClient env inst w of
             (Crash, w) \<Rightarrow> (Crash, w)
           | (Refused e, w) \<Rightarrow> (Refused e, w)
           | (Answer d, w) \<Rightarrow>
               (case ListBackup env pgNamespace (DetermineTargetSchema compRefName) (Some d) no_options w of
                  (Inl e, w) \<Rightarrow> (Refused e, w)
                | (Inr backups, w) \<Rightarrow>
                    keycloak_get_loop env name insts
                      (case find (\<lambda>b. name = am_Name (bi_Meta b)) backups of None \<Rightarrow> acc | Some b \<Rightarrow> keycloak_backup inst pgName b) w)))"

definition keycloak_Get :: "('c, 'd, 'h, 'w) pg_env \<Rightarrow> string option \<Rightarrow> string \<Rightarrow> 'w \<Rightarrow> kc_backup api_result \<times> 'w" where
  "keycloak_Get env ctx name w =
     (case ctx of
        None \<Rightarrow> (Refused (Msg ''cannot get namespace from context''), w)
      | Some ns \<Rightarrow>
          (case ListVSHNkeycloak env ns w of
             (Inl e, w) \<Rightarrow> (Refused e, w)
           | (Inr insts, w) \<Rightarrow> keycloak_get_loop env name insts empty_kc_backup w))"

text \<open>The listing, unlike the reading, asks for no backups without the namespace of the database.\<close>

fun keycloak_list_loop ::
    "('c, 'd, 'h, 'w) pg_env \<Rightarrow> list_options \<Rightarrow> claim list \<Rightarrow> kc_backup list \<Rightarrow> 'w \<Rightarrow> kc_backup list api_result \<times> 'w" where
  "keycloak_list_loop env opts [] acc w = (Answer acc, w)"
| "keycloak_list_loop env opts (inst # insts) acc w =
     (case getPostgreSQLMetadata env inst w of
        ((pgNamespace, pgName, compRefName), w) \<Rightarrow>
          (if pgNamespace = '''' then keycloak_list_loop env opts insts acc w
           else (case GetDynKubeClient env inst w of
                   (Crash, w) \<Rightarrow> (Crash, w)
                 | (Refused e, w) \<Rightarrow> (Refused e, w)
                 | (Answer d, w) \<Rightarrow>
                     (case ListBackup env pgNamespace (DetermineTargetSchema compRefName) (Some d) opts w of
                        (Inl e, w) \<Rightarrow> (Refused e, w)
                      | (Inr backups, w) \<Rightarrow> keycloak_list_loop env opts insts (acc @ map (keycloak_backup inst pgName) backups) w))))"

definition keycloak_List :: "('c, 'd, 'h, 'w) pg_env \<Rightarrow> string option \<Rightarrow> list_options \<Rightarrow> 'w \<Rightarrow> kc_backup list api_result \<times> 'w" where
  "keycloak_List env ctx opts w =
     (case ctx of
        None \<Rightarrow> (Refused (Msg ''cannot get namespace from resource''), w)
      | Some ns \<Rightarrow>
          (case ListVSHNkeycloak env ns w of
             (Inl e, w) \<Rightarrow> (Refused e, w)
           | (Inr insts, w) \<Rightarrow> keycloak_list_loop env opts insts [] w))"

fun keycloak_add_watchers ::
    "('c, 'd, 'h, 'w) pg_env \<Rightarrow> list_options \<Rightarrow> claim list \<Rightarrow> 'h list \<Rightarrow> 'w \<Rightarrow> 'h list api_result \<times> 'w" where
  "keycloak_add_watchers env opts [] mw w = (Answer mw, w)"
| "keycloak_add_watchers env opts (inst # insts) mw w =
     (case getPostgreSQLMetadata env inst w of
        ((pgNamespace, pgName, compRefName), w) \<Rightarrow>
          (if pgNamespace = '''' then keycloak_add_watchers env opts insts mw w
           else (case WatchBackup env pgNamespace opts w of
                   (Inl e, w) \<Rightarrow> (Refused (ResolveError e), w)
                 | (Inr h, w) \<Rightarrow> keycloak_add_watchers env opts insts (mw @ [h]) w)))"

definition keycloak_Watch ::
    "('c, 'd, 'h, 'w) pg_env \<Rightarrow> string option \<Rightarrow> list_options \<Rightarrow> 'w \<Rightarrow> ('h list \<times> claim list) api_result \<times> 'w" where
  "keycloak_Watch env ctx opts w =
     (case ctx of
        None \<Rightarrow> (Refused (Msg ''cannot get namespace from resource''), w)
      | Some ns \<Rightarrow>
          (case ListVSHNkeycloak env ns w of
             (Inl e, w) \<Rightarrow> (Refused (Wrapped ''cannot list VSHNKeycloak instances'' e), w)
           | (Inr insts, w) \<Rightarrow>
               (case keycloak_add_watchers env opts insts [] w of
                  (Answer mw, w) \<Rightarrow> (Answer (mw, insts), w) | (Refused e, w) \<Rightarrow> (Refused e, w) | (Crash, w) \<Rightarrow> (Crash, w))))"

text \<open>The namespace of the database's backup is compared with that of Keycloak itself.\<close>

definition keycloak_watch_filter ::
    "('c, 'd, 'h, 'w) pg_env \<Rightarrow> claim list \<Rightarrow> 'a watch_object \<Rightarrow> 'w \<Rightarrow> ('a, kc_backup) filtered \<times> 'w" where
  "keycloak_watch_filter env insts ob w =
     (if ob = NoObject then (Passed ob, w)
      else (case GetFromEvent env ob of
              None \<Rightarrow> (Dropped, w)
            | Some b \<Rightarrow>
                (case find (\<lambda>inst. cl_InstanceNamespace inst = am_Namespace (bi_Meta b)) insts of
                   None \<Rightarrow> (Dropped, w)
                 | Some inst \<Rightarrow>
                     (case getPostgreSQLMetadata env inst w of ((ns, pgName, crn), w) \<Rightarrow> (Translated (keycloak_backup inst pgName b), w)))))"

definition getKeycloakTableDefinition :: "string list" where
  "getKeycloakTableDefinition = [''Backup ID'', ''Database Instance'', ''Started'', ''Finished'', ''DatabaseBackup'', ''Status'', ''Age'']"

definition keycloak_table_row :: "printer \<Rightarrow> kc_backup \<Rightarrow> table_cell list \<times> kc_backup" where
  "keycloak_table_row pr b =
     (let there = ps_BackupInformation (kc_DatabaseBackupStatus b) \<noteq> None;
          shown = (\<lambda>s. TextCell (if there then s else ''''));
          created = pr_RFC3339 pr (am_Created (kc_Meta b))
      in ([shown (am_Name (kc_Meta b)), shown (ps_DatabaseInstance (kc_DatabaseBackupStatus b)), shown created, shown created,
           BoolCell (kc_DatabaseBackupAvailable b), TextCell ''Completed'', TextCell (age_of pr (kc_Meta b))], b))"

definition keycloak_ConvertToTable :: "printer \<Rightarrow> kc_backup printable \<Rightarrow> bool option \<Rightarrow> gerr + kc_backup api_table" where
  "keycloak_ConvertToTable pr = convert_table (keycloak_table_row pr) getKeycloakTableDefinition"
section \<open>Nextcloud\<close>

record nc_file_backup =
  nf_ID :: string
  nf_Date :: instant
  nf_Instance :: string

record nc_backup =
  nc_Meta :: api_meta
  nc_FileBackupAvailable :: bool
  nc_DatabaseBackupAvailable :: bool
  nc_DBType :: string
  nc_NextcloudFileBackup :: nc_file_backup
  nc_DatabaseBackupStatus :: pg_backup_status

definition ListVSHNnextcloud :: "('c, 'd, 'h, 'w) pg_env \<Rightarrow> string \<Rightarrow> 'w \<Rightarrow> (gerr + claim list) \<times> 'w" where
  "ListVSHNnextcloud env ns w = (case ae_ListInstances env ns w of (Inl e, w) \<Rightarrow> (Inl e, w) | (Inr l, w) \<Rightarrow> (Inr (has_namespace l), w))"

text \<open>\<open>hashString\<close> of this package.\<close>

definition backup_hash :: "string \<Rightarrow> string" where "backup_hash name = take 8 (sha1_hex name)"

definition no_file :: nc_file_backup where "no_file = \<lparr>nf_ID = '''', nf_Date = zero_time, nf_Instance = ''''\<rparr>"

definition isSharedDB :: "claim \<Rightarrow> bool" where
  "isSharedDB inst \<longleftrightarrow> cl_UseExternalPostgreSQL inst \<and> cl_ExistingPGConnectionSecret inst \<noteq> ''''"

text \<open>A backup object not older or younger than a minute, and the others.\<close>

fun getClosestPGBackup :: "backup_info list \<Rightarrow> instant \<Rightarrow> backup_info option \<times> backup_info list" where
  "getClosestPGBackup [] t = (None, [])"
| "getClosestPGBackup (b # bs) t =
     (if \<bar>time_sub (am_Created (bi_Meta b)) t\<bar> \<le> 1 * minute then (Some b, bs)
      else (case getClosestPGBackup bs t of (r, remaining) \<Rightarrow> (r, b # remaining)))"

subsection \<open>Reading one\<close>

definition file_of :: "('c, 'd, 'h, 'w) pg_env \<Rightarrow> claim \<Rightarrow> snapshot \<Rightarrow> 'w \<Rightarrow> nc_file_backup \<times> 'w" where
  "file_of env inst snap w =
     (case deRefMetaTime env (sn_Date snap) w of
        (date, w) \<Rightarrow> (\<lparr>nf_ID = deRefString (sn_ID snap), nf_Date = date, nf_Instance = cl_Name inst\<rparr>, w))"

text \<open>The database's backup: the closest to the snapshot, else the one whose hash was asked for.\<close>

definition matched_backup :: "string \<Rightarrow> snapshot option \<Rightarrow> backup_info list \<Rightarrow> backup_info option api_result" where
  "matched_backup name snap backups =
     (let by_name = find (\<lambda>b. name = backup_hash (am_Name (bi_Meta b))) backups
      in (case snap of
            None \<Rightarrow> Answer by_name
          | Some s \<Rightarrow>
              (case sn_Date s of
                 None \<Rightarrow> Crash
               | Some t \<Rightarrow> Answer (case fst (getClosestPGBackup backups t) of None \<Rightarrow> by_name | Some b \<Rightarrow> Some b))))"

definition nextcloud_answer ::
    "claim \<Rightarrow> string \<Rightarrow> snapshot option \<Rightarrow> nc_file_backup \<Rightarrow> backup_info option \<Rightarrow> string \<Rightarrow> nc_backup" where
  "nextcloud_answer inst pgName snap file db dbType =
     (let meta = (case (snap, db) of (Some s, _) \<Rightarrow> sn_Meta s | (None, Some b) \<Rightarrow> bi_Meta b | (None, None) \<Rightarrow> empty_meta)
      in \<lparr>nc_Meta = meta\<lparr>am_Namespace := cl_Namespace inst\<rparr>, nc_FileBackupAvailable = (snap \<noteq> None),
          nc_DatabaseBackupAvailable = (db \<noteq> None), nc_DBType = dbType,
          nc_NextcloudFileBackup = (case (snap, db) of
             (None, Some b) \<Rightarrow> \<lparr>nf_ID = backup_hash (am_Name (bi_Meta b)), nf_Date = am_Created (bi_Meta b), nf_Instance = cl_Name inst\<rparr>
           | _ \<Rightarrow> file),
          nc_DatabaseBackupStatus = (case db of None \<Rightarrow> no_database_status | Some b \<Rightarrow> database_status pgName b)\<rparr>)"

definition nextcloud_get_db ::
    "('c, 'd, 'h, 'w) pg_env \<Rightarrow> string \<Rightarrow> claim \<Rightarrow> snapshot option \<Rightarrow> nc_file_backup \<Rightarrow> 'w \<Rightarrow> nc_backup api_result \<times> 'w" where
  "nextcloud_get_db env name inst snap file w =
     (case getPostgreSQLMetadata env inst w of
        ((pgNamespace, pgCompName, pgCompRefName), w) \<Rightarrow>
          (case GetDynKubeClient env inst w of
             (Crash, w) \<Rightarrow> (Crash, w)
           | (Refused e, w) \<Rightarrow> (Refused (Wrapped ''cannot get dynamic kube client'' e), w)
           | (Answer d, w) \<Rightarrow>
               (case ListBackup env pgNamespace (DetermineTargetSchema pgCompRefName) (Some d) no_options w of
                  (Inl e, w) \<Rightarrow> (Refused (Wrapped ''cannot list backups'' e), w)
                | (Inr backups, w) \<Rightarrow>
                    (case matched_backup name snap backups of
                       Answer db \<Rightarrow> (Answer (nextcloud_answer inst pgCompName snap file db ''dedicated''), w)
                     | Refused e \<Rightarrow> (Refused e, w)
                     | Crash \<Rightarrow> (Crash, w)))))"

definition nextcloud_get_instance ::
    "('c, 'd, 'h, 'w) pg_env \<Rightarrow> string \<Rightarrow> claim \<Rightarrow> 'w \<Rightarrow> nc_backup api_result \<times> 'w" where
  "nextcloud_get_instance env name inst w =
     (case GetKubeClient env inst w of
        (Crash, w) \<Rightarrow> (Crash, w)
      | (Refused e, w) \<Rightarrow> (Refused (Wrapped ''cannot get kube client for instance'' e), w)
      | (Answer c, w) \<Rightarrow>
          (case snapshot_Get env name (cl_InstanceNamespace inst) c w of
             (Inl e, w) \<Rightarrow>
               (if \<not> IsNotFound e then (Refused (Wrapped ''error getting file snapshot'' e), w)
                else if isSharedDB inst then (Answer (nextcloud_answer inst '''' None no_file None ''shared''), w)
                else nextcloud_get_db env name inst None no_file w)
           | (Inr snap, w) \<Rightarrow>
               (case file_of env inst snap w of
                  (file, w) \<Rightarrow>
                    (if isSharedDB inst then (Answer (nextcloud_answer inst '''' (Some snap) file None ''shared''), w)
                     else nextcloud_get_db env name inst (Some snap) file w))))"

text \<open>The loop over the instances returns in its first turn, whatever it finds.\<close>

definition nextcloud_Get :: "('c, 'd, 'h, 'w) pg_env \<Rightarrow> string option \<Rightarrow> string \<Rightarrow> 'w \<Rightarrow> nc_backup api_result \<times> 'w" where
  "nextcloud_Get env ctx name w =
     (case ctx of
        None \<Rightarrow> (Refused (Msg ''cannot extract namespace from context''), w)
      | Some ns \<Rightarrow>
          (case ListVSHNnextcloud env ns w of
             (Inl e, w) \<Rightarrow> (Refused (Wrapped ''cannot list VSHNNextcloud instances'' e), w)
           | (Inr [], w) \<Rightarrow> (Refused (ApiErr NotFound), w)
           | (Inr (inst # insts), w) \<Rightarrow> nextcloud_get_instance env name inst w))"

subsection \<open>Listing\<close>

text \<open>The snapshots of an instance, each with the database backup it took from those that are left.\<close>

fun nextcloud_snapshots ::
    "('c, 'd, 'h, 'w) pg_env \<Rightarrow> claim \<Rightarrow> string \<Rightarrow> snapshot list \<Rightarrow> backup_info list \<Rightarrow> nc_backup list \<Rightarrow> 'w \<Rightarrow>
     (nc_backup list \<times> backup_info list) api_result \<times> 'w" where
  "nextcloud_snapshots env inst pgName [] backups acc w = (Answer (acc, backups), w)"
| "nextcloud_snapshots env inst pgName (snap # snaps) backups acc w =
     (case file_of env inst snap w of
        (file, w) \<Rightarrow>
          (if isSharedDB inst
           then nextcloud_snapshots env inst pgName snaps backups (acc @ [nextcloud_answer inst pgName (Some snap) file None ''shared'']) w
           else (case sn_Date snap of
                   None \<Rightarrow> (Crash, w)
                 | Some t \<Rightarrow>
                     (case getClosestPGBackup backups t of
                        (db, remaining) \<Rightarrow>
                          nextcloud_snapshots env inst pgName snaps remaining
                            (acc @ [nextcloud_answer inst pgName (Some snap) file db ''dedicated'']) w))))"

text \<open>A backup without files keeps its own namespace, and has no type of database.\<close>

definition nextcloud_remaining :: "claim \<Rightarrow> string \<Rightarrow> backup_info \<Rightarrow> nc_backup" where
  "nextcloud_remaining inst pgName b =
     \<lparr>nc_Meta = bi_Meta b, nc_FileBackupAvailable = False, nc_DatabaseBackupAvailable = True, nc_DBType = '''',
      nc_NextcloudFileBackup = \<lparr>nf_ID = backup_hash (am_Name (bi_Meta b)), nf_Date = am_Created (bi_Meta b), nf_Instance = cl_Name inst\<rparr>,
      nc_DatabaseBackupStatus = database_status pgName b\<rparr>"

definition nextcloud_items ::
    "('c, 'd, 'h, 'w) pg_env \<Rightarrow> claim \<Rightarrow> string \<Rightarrow> snapshot list \<Rightarrow> backup_info list \<Rightarrow> nc_backup list \<Rightarrow> 'w \<Rightarrow>
     nc_backup list api_result \<times> 'w" where
  "nextcloud_items env inst pgName snaps backups acc w =
     (case nextcloud_snapshots env inst pgName snaps backups acc w of
        (Crash, w) \<Rightarrow> (Crash, w)
      | (Refused e, w) \<Rightarrow> (Refused e, w)
      | (Answer (acc, remaining), w) \<Rightarrow>
          (Answer (if isSharedDB inst then acc else acc @ map (nextcloud_remaining inst pgName) remaining), w))"

definition nextcloud_databases ::
    "('c, 'd, 'h, 'w) pg_env \<Rightarrow> list_options \<Rightarrow> claim \<Rightarrow> 'w \<Rightarrow> (string \<times> backup_info list) api_result \<times> 'w" where
  "nextcloud_databases env opts inst w =
     (case getPostgreSQLMetadata env inst w of
        ((pgNamespace, pgCompName, pgCompRefName), w) \<Rightarrow>
          (if pgNamespace = '''' then (Answer (pgCompName, []), w)
           else (case GetDynKubeClient env inst w of
                   (Crash, w) \<Rightarrow> (Crash, w)
                 | (Refused e, w) \<Rightarrow> (Refused (Wrapped ''cannot get dynamic kube client'' e), w)
                 | (Answer d, w) \<Rightarrow>
                     (case ListBackup env pgNamespace (DetermineTargetSchema pgCompRefName) (Some d) opts w of
                        (Inl e, w) \<Rightarrow> (Refused (Wrapped ''error listing postgres backups'' e), w)
                      | (Inr backups, w) \<Rightarrow> (Answer (pgCompName, backups), w)))))"

text \<open>Without snapshots the list is nil: reading its items panics, after the databases were listed.\<close>

fun nextcloud_list_loop ::
    "('c, 'd, 'h, 'w) pg_env \<Rightarrow> list_options \<Rightarrow> claim list \<Rightarrow> nc_backup list \<Rightarrow> 'w \<Rightarrow> nc_backup list api_result \<times> 'w" where
  "nextcloud_list_loop env opts [] acc w = (Answer acc, w)"
| "nextcloud_list_loop env opts (inst # insts) acc w =
     (case GetKubeClient env inst w of
        (Crash, w) \<Rightarrow> (Crash, w)
      | (Refused e, w) \<Rightarrow> (Refused (Wrapped ''cannot get kube client from ProviderConfig'' e), w)
      | (Answer c, w) \<Rightarrow>
          (case snapshot_List env (cl_InstanceNamespace inst) c w of
             (r, w) \<Rightarrow>
               (case r of
                  Inl e \<Rightarrow>
                    (if \<not> IsNotFound e then (Refused (Wrapped ''error listing file backups'' e), w)
                     else (case nextcloud_databases env opts inst w of
                             (Refused e, w) \<Rightarrow> (Refused e, w)
                           | (_, w) \<Rightarrow> (Crash, w)))
                | Inr snaps \<Rightarrow>
                    (case nextcloud_databases env opts inst w of
                       (Crash, w) \<Rightarrow> (Crash, w)
                     | (Refused e, w) \<Rightarrow> (Refused e, w)
                     | (Answer (pgName, backups), w) \<Rightarrow>
                         (case nextcloud_items env inst pgName snaps backups acc w of
                            (Crash, w) \<Rightarrow> (Crash, w)
                          | (Refused e, w) \<Rightarrow> (Refused e, w)
                          | (Answer acc, w) \<Rightarrow> nextcloud_list_loop env opts insts acc w)))))"

definition nextcloud_List :: "('c, 'd, 'h, 'w) pg_env \<Rightarrow> string option \<Rightarrow> list_options \<Rightarrow> 'w \<Rightarrow> nc_backup list api_result \<times> 'w" where
  "nextcloud_List env ctx opts w =
     (case ctx of
        None \<Rightarrow> (Refused (Msg ''cannot get namespace from context''), w)
      | Some ns \<Rightarrow>
          (case ListVSHNnextcloud env ns w of
             (Inl e, w) \<Rightarrow> (Refused (Wrapped ''cannot list VSHNNextcloud instances'' e), w)
           | (Inr insts, w) \<Rightarrow> nextcloud_list_loop env opts insts [] w))"

subsection \<open>Watching and tables\<close>

definition nextcloud_Watch :: "('c, 'd, 'h, 'w) pg_env \<Rightarrow> string option \<Rightarrow> 'w \<Rightarrow> ('h list \<times> claim list) api_result \<times> 'w" where
  "nextcloud_Watch env ctx w =
     (case ctx of
        None \<Rightarrow> (Refused (Msg ''cannot get namespace from resource''), w)
      | Some ns \<Rightarrow>
          (case ListVSHNnextcloud env ns w of
             (Inl e, w) \<Rightarrow> (Refused (Msg ''cannot list VSHNPostgreSQL instances''), w)
           | (Inr insts, w) \<Rightarrow>
               (case add_watchers env insts [] w of
                  (Answer mw, w) \<Rightarrow> (Answer (mw, insts), w) | (Refused e, w) \<Rightarrow> (Refused e, w) | (Crash, w) \<Rightarrow> (Crash, w))))"

definition nextcloud_watch_filter ::
    "('c, 'd, 'h, 'w) pg_env \<Rightarrow> claim list \<Rightarrow> 'a watch_object \<Rightarrow> 'w \<Rightarrow> ('a, nc_backup) filtered \<times> 'w" where
  "nextcloud_watch_filter env insts ob w =
     (if ob = NoObject then (Passed ob, w)
      else (case snapshot_GetFromEvent env ob of
              Inl e \<Rightarrow> (Dropped, w)
            | Inr snap \<Rightarrow>
                (case claim_of_namespace insts (am_Namespace (sn_Meta snap)) of
                   (inst, ns) \<Rightarrow>
                     (if inst = '''' then (Dropped, w)
                      else (case deRefMetaTime env (sn_Date snap) w of
                              (date, w) \<Rightarrow>
                                (Translated \<lparr>nc_Meta = (sn_Meta snap)\<lparr>am_Namespace := ns\<rparr>, nc_FileBackupAvailable = True,
                                   nc_DatabaseBackupAvailable = False, nc_DBType = '''',
                                   nc_NextcloudFileBackup = \<lparr>nf_ID = deRefString (sn_ID snap), nf_Date = date, nf_Instance = inst\<rparr>,
                                   nc_DatabaseBackupStatus = no_database_status\<rparr>, w))))))"

definition getNextcloudTableDefinition :: "string list" where
  "getNextcloudTableDefinition =
     [''Backup ID'', ''Database Instance'', ''Database Type'', ''Started'', ''Finished'', ''FileBackup'', ''DatabaseBackup'', ''Status'', ''Age'']"

definition nextcloud_table_row :: "printer \<Rightarrow> nc_backup \<Rightarrow> table_cell list \<times> nc_backup" where
  "nextcloud_table_row pr b =
     (let file = nc_NextcloudFileBackup b; date = pr_RFC3339 pr (nf_Date file)
      in ([TextCell (trimStringLength (nf_ID file)), TextCell (nf_Instance file), TextCell (nc_DBType b), TextCell date, TextCell date,
           BoolCell (nc_FileBackupAvailable b), BoolCell (nc_DatabaseBackupAvailable b), TextCell ''Completed'',
           TextCell (age_of pr (nc_Meta b))], b))"

definition nextcloud_ConvertToTable :: "printer \<Rightarrow> nc_backup printable \<Rightarrow> bool option \<Rightarrow> gerr + nc_backup api_table" where
  "nextcloud_ConvertToTable pr = convert_table (nextcloud_table_row pr) getNextcloudTableDefinition"
section \<open>Every backup is listed once\<close>

lemma getClosestPGBackup_mset:
  "getClosestPGBackup bs t = (r, remaining) \<Longrightarrow> mset bs = (case r of None \<Rightarrow> {#} | Some b \<Rightarrow> {#b#}) + mset remaining"
  by (induction bs arbitrary: remaining) (auto split: if_splits prod.splits option.splits)

lemma getClosestPGBackup_close:
  "getClosestPGBackup bs t = (Some b, remaining) \<Longrightarrow> b \<in> set bs \<and> \<bar>time_sub (am_Created (bi_Meta b)) t\<bar> \<le> minute"
  by (induction bs arbitrary: remaining) (auto split: if_splits prod.splits)

text \<open>The databases' parts of a listing, with repetitions, and its files in order.\<close>

definition database_parts :: "nc_backup list \<Rightarrow> pg_backup_status multiset" where
  "database_parts bs = mset (map nc_DatabaseBackupStatus (filter nc_DatabaseBackupAvailable bs))"

definition file_parts :: "nc_backup list \<Rightarrow> string list" where
  "file_parts bs = map (\<lambda>b. nf_ID (nc_NextcloudFileBackup b)) (filter nc_FileBackupAvailable bs)"

lemma parts_append [simp]:
  "database_parts (bs @ cs) = database_parts bs + database_parts cs" "file_parts (bs @ cs) = file_parts bs @ file_parts cs"
  "database_parts [] = {#}" "file_parts [] = []"
  by (simp_all add: database_parts_def file_parts_def)

lemma parts_answer [simp]:
  "database_parts [nextcloud_answer inst pgName (Some s) file db ty] = (case db of None \<Rightarrow> {#} | Some b \<Rightarrow> {#database_status pgName b#})"
  "file_parts [nextcloud_answer inst pgName (Some s) file db ty] = [nf_ID file]"
  by (simp_all add: database_parts_def file_parts_def nextcloud_answer_def Let_def split: option.splits)

lemma parts_remaining [simp]:
  "database_parts (map (nextcloud_remaining inst pgName) bs) = image_mset (database_status pgName) (mset bs)"
  "file_parts (map (nextcloud_remaining inst pgName) bs) = []"
  by (simp_all add: database_parts_def file_parts_def nextcloud_remaining_def filter_map o_def)

lemma file_of_ID: "file_of env inst snap w = (file, w') \<Longrightarrow> nf_ID file = deRefString (sn_ID snap)"
  by (auto simp: file_of_def split: prod.splits)

lemma nextcloud_snapshots_parts:
  assumes "\<not> isSharedDB inst" "nextcloud_snapshots env inst pgName snaps bs acc w = (Answer (items, remaining), w')"
  shows "database_parts items + image_mset (database_status pgName) (mset remaining)
      = database_parts acc + image_mset (database_status pgName) (mset bs)"
    and "file_parts items = file_parts acc @ map (\<lambda>s. deRefString (sn_ID s)) snaps"
  using assms(2)
proof (induction snaps arbitrary: bs acc w)
  case (Cons s snaps)
  case 1
  obtain fl w1 where f: "file_of env inst s w = (fl, w1)" by fastforce
  obtain t where t: "sn_Date s = Some t" using 1 f assms(1) by (auto split: option.splits)
  obtain r bs' where c: "getClosestPGBackup bs t = (r, bs')" by fastforce
  show ?case using Cons.IH(1) [of bs'] 1 f t c assms(1) getClosestPGBackup_mset [OF c] by (cases r) (auto simp: ac_simps)
next
  case (Cons s snaps)
  case 2
  obtain fl w1 where f: "file_of env inst s w = (fl, w1)" by fastforce
  obtain t where t: "sn_Date s = Some t" using 2 f assms(1) by (auto split: option.splits)
  obtain r bs' where c: "getClosestPGBackup bs t = (r, bs')" by fastforce
  show ?case using Cons.IH(2) [of bs'] 2 f t c assms(1) file_of_ID [OF f] by auto
qed simp_all

text \<open>
  C32. What Nextcloud lists for an instance with a database of its own is complete and without repetition: every snapshot
  is one entry, in order, and every backup of the database is in exactly one entry, with the snapshot that took it or
  in one of its own.
\<close>

theorem every_backup_listed_once:
  assumes "\<not> isSharedDB inst" "nextcloud_items env inst pgName snaps backups [] w = (Answer items, w')"
  shows "database_parts items = image_mset (database_status pgName) (mset backups) \<and>
    file_parts items = map (\<lambda>s. deRefString (sn_ID s)) snaps"
proof -
  obtain front remaining where s: "nextcloud_snapshots env inst pgName snaps backups [] w = (Answer (front, remaining), w')"
    and "items = front @ map (nextcloud_remaining inst pgName) remaining"
    using assms by (auto simp: nextcloud_items_def split: prod.splits api_result.splits)
  then show ?thesis using nextcloud_snapshots_parts [OF assms(1) s] by simp
qed

section \<open>Flaws\<close>

text \<open>
  C31. Reading a Keycloak backup crosses tenants: while the database of an instance cannot be found, or has no instance
  namespace yet, the backups of the whole cluster are searched for the name, and that of another tenant is answered as
  the instance's own. Listing shows nothing in the same situation.
\<close>

theorem keycloak_get_crosses_tenants:
  assumes "ListVSHNkeycloak env ns w = (Inr [inst], w1)" "getPostgreSQLMetadata env inst w1 = (('''', pgName, crn), w2)"
    "GetDynKubeClient env inst w2 = (Answer d, w3)"
    "ListBackup env '''' (DetermineTargetSchema crn) (Some d) no_options w3 = (Inr backups, w4)"
    "find (\<lambda>b. name = am_Name (bi_Meta b)) backups = Some b"
  shows "keycloak_Get env (Some ns) name w =
      (Answer \<lparr>kc_Meta = (bi_Meta b)\<lparr>am_Namespace := cl_Namespace inst\<rparr>, kc_DatabaseBackupAvailable = True,
         kc_DatabaseBackupStatus = database_status pgName b\<rparr>, w4) \<and>
    keycloak_List env (Some ns) opts w = (Answer [], w2)"
  using assms by (simp add: keycloak_Get_def keycloak_List_def keycloak_backup_def)

text \<open>The tenant with the database not ready asks for the name of the other's backup.\<close>

lemma example_metadata: "getPostgreSQLMetadata example_pg_api inst w = (('''', ''pg'', ''''), w)"
  by (simp add: getPostgreSQLMetadata_def example_pg_reads)

theorem keycloak_get_crosses_tenants_witness:
  "keycloak_Get example_pg_api (Some ''a'') ''bk'' 0 =
     (Answer \<lparr>kc_Meta = \<lparr>am_Name = ''bk'', am_Namespace = ''a'', am_Created = 0\<rparr>, kc_DatabaseBackupAvailable = True,
        kc_DatabaseBackupStatus = \<lparr>ps_Process = Some (Some [(''status'', GStr ''in-b'')]), ps_BackupInformation = Some None,
          ps_DatabaseInstance = ''pg''\<rparr>\<rparr>, 0) \<and>
   keycloak_List example_pg_api (Some ''a'') no_options 0 = (Answer [], 0)"
proof -
  let ?b = "\<lambda>ns. \<lparr>bi_Meta = \<lparr>am_Name = ''bk'', am_Namespace = ns, am_Created = 0\<rparr>, bi_Process = Some [(''status'', GStr ns)], bi_BackupInformation = None\<rparr>"
  have i: "ListVSHNkeycloak example_pg_api ''a'' 0 = (Inr [example_claim ''a'' ''in-a''], 0)"
    by (simp add: ListVSHNkeycloak_def example_pg_reads example_claims_def has_namespace_def) (simp add: example_claim_def)
  have d: "GetDynKubeClient example_pg_api (example_claim ''a'' ''in-a'') 0 = (Answer (), 0)"
    by (simp add: GetDynKubeClient_def example_claim_def example_pg_reads)
  have l: "ListBackup example_pg_api '''' (DetermineTargetSchema '''') (Some ()) no_options 0 = (Inr [?b ''in-b'', ?b ''in-a''], 0)"
    by (simp add: ListBackup_def example_pg_reads example_objects_def converted_def map_filter_simps example_conversion)
  show ?thesis
    using keycloak_get_crosses_tenants [OF i example_metadata d l, of "''bk''" "?b ''in-b''" no_options]
    by (simp add: database_status_def) (simp add: example_claim_def)
qed

text \<open>Two snapshots and three backups, of which one is close to a snapshot.\<close>

theorem every_backup_listed_once_witness:
  "\<exists>items. nextcloud_items example_pg_api (example_claim ''a'' ''in-a'') ''pg''
      [(example_snapshot ''in-a'')\<lparr>sn_Date := Some (5 * minute)\<rparr>]
      [\<lparr>bi_Meta = empty_meta, bi_Process = None, bi_BackupInformation = None\<rparr>,
       \<lparr>bi_Meta = empty_meta\<lparr>am_Created := 5 * minute + 1\<rparr>, bi_Process = Some [], bi_BackupInformation = None\<rparr>] [] 0 = (Answer items, 0) \<and>
    size (database_parts items) = 2 \<and> length items = 2 \<and> file_parts items = [''0123456789'']"
proof -
  let ?inst = "example_claim ''a'' ''in-a''" and ?snaps = "[(example_snapshot ''in-a'')\<lparr>sn_Date := Some (5 * minute)\<rparr>]"
    and ?bs = "[\<lparr>bi_Meta = empty_meta, bi_Process = None, bi_BackupInformation = None\<rparr>,
       \<lparr>bi_Meta = empty_meta\<lparr>am_Created := 5 * minute + 1\<rparr>, bi_Process = Some [], bi_BackupInformation = None\<rparr>]"
  have s: "\<not> isSharedDB ?inst" by (simp add: isSharedDB_def example_claim_def)
  obtain items where items: "nextcloud_items example_pg_api ?inst ''pg'' ?snaps ?bs [] 0 = (Answer items, 0)" "length items = 2"
    using that by (simp add: nextcloud_items_def s file_of_def example_snapshot_def deRefMetaTime_def time_sub_def empty_meta_def
        zero_time_def duration_defs)
  then show ?thesis
    using every_backup_listed_once [OF s items(1)] by (simp add: example_snapshot_def deRefString_def)
qed

end
