(* ===== verification/ApiAppCat.thy ===== *)
theory ApiAppCat
  imports ApiServer
begin

text \<open>
  The catalogue in the API server, \<open>src/pkg/apiserver/appcat\<close> and \<open>src/apis/apiserver/v1/appcat_types.go\<close>: the services
  on offer, made from the compositions that are labelled so.
\<close>

section \<open>A service from its composition\<close>

text \<open>The annotations are listed in the order in which Go goes through the map.\<close>

record composition =
  co_Meta :: api_meta
  co_Labels :: str_map
  co_Annotations :: "(string \<times> string) list"

record vshn_plan =
  vp_Note :: string
  vp_CPU :: string
  vp_Disk :: string
  vp_Memory :: string

record appcat =
  ac_Meta :: api_meta
  ac_Details :: "(string \<times> string) list"
  ac_Plans :: "(string \<times> vshn_plan) list"
  ac_CompositionName :: string

definition PrefixAppCatKey :: string where "PrefixAppCatKey = ''metadata.appcat.vshn.io''"
definition OfferedKey :: string where "OfferedKey = PrefixAppCatKey @ ''/offered''"
definition OfferedValue :: string where "OfferedValue = ''true''"

text \<open>
  The client for compositions, selectors of apimachinery, the title case of \<open>golang.org/x/text\<close> and the JSON decoder.
\<close>

record ('s, 'h, 'w) appcat_env =
  aa_GetComposition :: "string \<Rightarrow> 'w \<Rightarrow> (gerr + composition) \<times> 'w"
  aa_ListCompositions :: "'s \<Rightarrow> 'w \<Rightarrow> (gerr + composition list) \<times> 'w"
  aa_WatchCompositions :: "'s \<Rightarrow> 'w \<Rightarrow> (gerr + 'h) \<times> 'w"
  aa_NewSelector :: 's
  aa_AddEquals :: "'s \<Rightarrow> string \<Rightarrow> string \<Rightarrow> 's"
  aa_Title :: "string \<Rightarrow> string"
  aa_Unmarshal :: "string \<Rightarrow> (string \<times> vshn_plan) list option"

definition is_key_char :: "char \<Rightarrow> bool" where
  "is_key_char c \<longleftrightarrow> (let n = of_char c :: nat in (48 \<le> n \<and> n \<le> 57) \<or> (65 \<le> n \<and> n \<le> 90) \<or> (97 \<le> n \<and> n \<le> 122))"

text \<open>\<open>strings.FieldsFunc\<close> at the dashes: no field is empty.\<close>

fun dash_fields :: "string \<Rightarrow> string \<Rightarrow> string list" where
  "dash_fields field [] = (if field = [] then [] else [field])"
| "dash_fields field (c # s) =
     (if c = CHR ''-'' then (if field = [] then dash_fields [] s else field # dash_fields [] s)
      else dash_fields (field @ [c]) s)"

text \<open>The first field is read without looking whether there is one.\<close>

definition makeCamelCase :: "(string \<Rightarrow> string) \<Rightarrow> string \<Rightarrow> string api_result" where
  "makeCamelCase title s =
     (case dash_fields [] (to_lower (filter (\<lambda>c. is_key_char c \<or> c = CHR ''-'') s)) of
        [] \<Rightarrow> Crash
      | first # others \<Rightarrow> Answer (first @ concat (map title others)))"

definition no_plan :: vshn_plan where "no_plan = \<lparr>vp_Note = '''', vp_CPU = '''', vp_Disk = '''', vp_Memory = ''''\<rparr>"

definition parsePlansJSON :: "('s, 'h, 'w) appcat_env \<Rightarrow> string \<Rightarrow> appcat \<Rightarrow> appcat" where
  "parsePlansJSON env v a =
     a\<lparr>ac_Plans := (case aa_Unmarshal env v of None \<Rightarrow> [(''Plans are currently not available'', no_plan)] | Some plans \<Rightarrow> plans)\<rparr>"

definition after_last_slash :: "string \<Rightarrow> string" where
  "after_last_slash k = rev (takeWhile (\<lambda>c. c \<noteq> CHR ''/'') (rev k))"

fun appcat_details :: "('s, 'h, 'w) appcat_env \<Rightarrow> (string \<times> string) list \<Rightarrow> appcat \<Rightarrow> appcat api_result" where
  "appcat_details env [] a = Answer a"
| "appcat_details env ((k, v) # annotations) a =
     (if k = PrefixAppCatKey @ ''/plans'' then appcat_details env annotations (parsePlansJSON env v a)
      else if has_prefix k PrefixAppCatKey
           then (case makeCamelCase (aa_Title env) (after_last_slash k) of
                   Answer key \<Rightarrow> appcat_details env annotations (a\<lparr>ac_Details := any_put key v (ac_Details a)\<rparr>)
                 | Refused e \<Rightarrow> Refused e
                 | Crash \<Rightarrow> Crash)
           else appcat_details env annotations a)"

definition offered :: "composition \<Rightarrow> bool" where
  "offered c \<longleftrightarrow> data_field (co_Labels c) OfferedKey = OfferedValue"

definition NewAppCatFromComposition :: "('s, 'h, 'w) appcat_env \<Rightarrow> composition \<Rightarrow> appcat option api_result" where
  "NewAppCatFromComposition env c =
     (if \<not> offered c then Answer None
      else (case appcat_details env (co_Annotations c)
                   \<lparr>ac_Meta = co_Meta c, ac_Details = [], ac_Plans = [], ac_CompositionName = am_Name (co_Meta c)\<rparr> of
              Answer a \<Rightarrow> Answer (Some a) | Refused e \<Rightarrow> Refused e | Crash \<Rightarrow> Crash))"

section \<open>The storage\<close>

text \<open>The selector of the options, if there are options and if they have one.\<close>

definition addOfferedLabelSelector :: "('s, 'h, 'w) appcat_env \<Rightarrow> 's option option \<Rightarrow> 's" where
  "addOfferedLabelSelector env options =
     aa_AddEquals env (case options of Some (Some s) \<Rightarrow> s | _ \<Rightarrow> aa_NewSelector env) OfferedKey OfferedValue"

definition appcat_Get :: "('s, 'h, 'w) appcat_env \<Rightarrow> string \<Rightarrow> 'w \<Rightarrow> appcat api_result \<times> 'w" where
  "appcat_Get env name w =
     (case aa_GetComposition env name w of
        (Inl e, w) \<Rightarrow> (Refused (ResolveError e), w)
      | (Inr c, w) \<Rightarrow>
          (case NewAppCatFromComposition env c of
             Answer (Some a) \<Rightarrow> (Answer a, w)
           | Answer None \<Rightarrow> (Refused (ApiErr NotFound), w)
           | Refused e \<Rightarrow> (Refused e, w)
           | Crash \<Rightarrow> (Crash, w)))"

fun appcat_items :: "('s, 'h, 'w) appcat_env \<Rightarrow> composition list \<Rightarrow> appcat list \<Rightarrow> appcat list api_result" where
  "appcat_items env [] acc = Answer acc"
| "appcat_items env (c # cs) acc =
     (case NewAppCatFromComposition env c of
        Answer (Some a) \<Rightarrow> appcat_items env cs (acc @ [a])
      | Answer None \<Rightarrow> appcat_items env cs acc
      | Refused e \<Rightarrow> Refused e
      | Crash \<Rightarrow> Crash)"

definition appcat_List :: "('s, 'h, 'w) appcat_env \<Rightarrow> 's option option \<Rightarrow> 'w \<Rightarrow> appcat list api_result \<times> 'w" where
  "appcat_List env options w =
     (case aa_ListCompositions env (addOfferedLabelSelector env options) w of
        (Inl e, w) \<Rightarrow> (Refused (ResolveError e), w)
      | (Inr cs, w) \<Rightarrow> (appcat_items env cs [], w))"

definition appcat_Watch :: "('s, 'h, 'w) appcat_env \<Rightarrow> 's option option \<Rightarrow> 'w \<Rightarrow> 'h api_result \<times> 'w" where
  "appcat_Watch env options w =
     (case aa_WatchCompositions env (addOfferedLabelSelector env options) w of
        (Inl e, w) \<Rightarrow> (Refused (ResolveError e), w)
      | (Inr h, w) \<Rightarrow> (Answer h, w))"

text \<open>Only a composition is translated; its panic is that of the filter.\<close>

definition appcat_watch_filter :: "('s, 'h, 'w) appcat_env \<Rightarrow> composition watch_object \<Rightarrow> (composition, appcat) filtered api_result" where
  "appcat_watch_filter env ob =
     (case ob of
        Typed c \<Rightarrow>
          (case NewAppCatFromComposition env c of
             Answer (Some a) \<Rightarrow> Answer (Translated a)
           | Answer None \<Rightarrow> Answer Dropped
           | Refused e \<Rightarrow> Refused e
           | Crash \<Rightarrow> Crash)
      | _ \<Rightarrow> Answer (Passed ob))"

definition detail :: "appcat \<Rightarrow> string \<Rightarrow> string" where
  "detail a k = or_zero '''' (map_of (ac_Details a) k)"

definition appcat_table_row :: "printer \<Rightarrow> appcat \<Rightarrow> table_cell list \<times> appcat" where
  "appcat_table_row pr a =
     (map TextCell [am_Name (ac_Meta a), detail a ''displayname'', detail a ''zone'', detail a ''endUserDocsUrl'', age_of pr (ac_Meta a)], a)"

definition appcat_columns :: "string list" where
  "appcat_columns = [''AppCat Name'', ''AppCat Display Name'', ''Service Zone'', ''User Docs'', ''Age'']"

definition appcat_ConvertToTable :: "printer \<Rightarrow> appcat printable \<Rightarrow> bool option \<Rightarrow> gerr + appcat api_table" where
  "appcat_ConvertToTable pr = convert_table (appcat_table_row pr) appcat_columns"

section \<open>The catalogue shows what is offered\<close>

text \<open>Kubernetes has every annotation key end in a letter or a digit.\<close>

definition valid_keys :: "composition \<Rightarrow> bool" where
  "valid_keys c \<longleftrightarrow> (\<forall>(k, v) \<in> set (co_Annotations c). k \<noteq> [] \<and> is_key_char (last k))"

lemma dash_fields_nonempty: "field \<noteq> [] \<Longrightarrow> dash_fields field s \<noteq> []"
  by (induction field s rule: dash_fields.induct) auto

lemma dash_fields_last: "c \<noteq> CHR ''-'' \<Longrightarrow> dash_fields field (s @ [c]) \<noteq> []"
  by (induction field s rule: dash_fields.induct) auto

lemma lower_key_char: "is_key_char c \<Longrightarrow> to_lower_char c \<noteq> CHR ''-''"
  by (auto simp: is_key_char_def to_lower_char_def Let_def dest!: arg_cong [where f = "of_char :: char \<Rightarrow> nat"])

lemma makeCamelCase_answers:
  assumes "is_key_char c"
  shows "\<exists>key. makeCamelCase title (s @ [c]) = Answer key"
proof -
  let ?f = "\<lambda>c. is_key_char c \<or> c = CHR ''-''"
  have "to_lower (filter ?f (s @ [c])) = to_lower (filter ?f s) @ [to_lower_char c]" using assms by (simp add: to_lower_def)
  then have "dash_fields [] (to_lower (filter ?f (s @ [c]))) \<noteq> []"
    using dash_fields_last [OF lower_key_char [OF assms]] by simp
  then show ?thesis unfolding makeCamelCase_def by (cases "dash_fields [] (to_lower (filter ?f (s @ [c])))") simp_all
qed

lemma after_last_slash_last: "is_key_char c \<Longrightarrow> \<exists>s. after_last_slash (k @ [c]) = s @ [c]"
  by (auto simp: after_last_slash_def is_key_char_def)

lemma appcat_details_answers:
  assumes "\<forall>(k, v) \<in> set annotations. k \<noteq> [] \<and> is_key_char (last k)"
  shows "\<exists>a'. appcat_details env annotations a = Answer a' \<and> ac_CompositionName a' = ac_CompositionName a"
  using assms
proof (induction annotations arbitrary: a)
  case (Cons kv annotations)
  obtain k v where kv: "kv = (k, v)" by fastforce
  have "k = butlast k @ [last k]" "is_key_char (last k)" using Cons.prems kv by simp_all
  then obtain key where "makeCamelCase (aa_Title env) (after_last_slash k) = Answer key"
    using makeCamelCase_answers after_last_slash_last by metis
  then show ?case using Cons kv by (fastforce simp: parsePlansJSON_def)
qed simp

lemma NewAppCat_cases:
  assumes "valid_keys c"
  shows "if offered c then \<exists>a. NewAppCatFromComposition env c = Answer (Some a) \<and> ac_CompositionName a = am_Name (co_Meta c)
    else NewAppCatFromComposition env c = Answer None"
proof -
  let ?a = "\<lparr>ac_Meta = co_Meta c, ac_Details = [], ac_Plans = [], ac_CompositionName = am_Name (co_Meta c)\<rparr>"
  obtain a where "appcat_details env (co_Annotations c) ?a = Answer a" "ac_CompositionName a = am_Name (co_Meta c)"
    using appcat_details_answers [OF assms [unfolded valid_keys_def], of env ?a] by auto
  then show ?thesis by (simp add: NewAppCatFromComposition_def)
qed

lemma appcat_items_names:
  assumes "\<forall>c \<in> set cs. valid_keys c"
  shows "\<exists>l. appcat_items env cs acc = Answer l \<and>
    map ac_CompositionName l = map ac_CompositionName acc @ map (\<lambda>c. am_Name (co_Meta c)) (filter offered cs)"
  using assms
proof (induction cs arbitrary: acc)
  case (Cons c cs)
  show ?case
  proof (cases "offered c")
    case True
    then obtain a where "NewAppCatFromComposition env c = Answer (Some a)" "ac_CompositionName a = am_Name (co_Meta c)"
      using NewAppCat_cases [of c env] Cons.prems by auto
    then show ?thesis using Cons.IH [of "acc @ [a]"] Cons.prems True by auto
  next
    case False
    then have "NewAppCatFromComposition env c = Answer None" using NewAppCat_cases [of c env] Cons.prems by simp
    then show ?thesis using Cons.IH [of acc] Cons.prems False by auto
  qed
qed simp

text \<open>
  C33. The catalogue is the list of the offered compositions: whatever the cluster answers to the selector, each
  composition with the label is listed, in order, and no other; one that is not offered is not found by name either.
\<close>

theorem catalogue_is_what_is_offered:
  assumes "aa_ListCompositions env (addOfferedLabelSelector env options) w = (Inr cs, w')" "\<forall>c \<in> set cs. valid_keys c"
    "aa_GetComposition env name v = (Inr c, v')" "valid_keys c"
  shows "(\<exists>l. appcat_List env options w = (Answer l, w') \<and>
        map ac_CompositionName l = map (\<lambda>c. am_Name (co_Meta c)) (filter offered cs)) \<and>
    (if offered c then \<exists>a. appcat_Get env name v = (Answer a, v') \<and> ac_CompositionName a = am_Name (co_Meta c)
     else appcat_Get env name v = (Refused (ApiErr NotFound), v'))"
  using appcat_items_names [OF assms(2), of env "[]"] NewAppCat_cases [OF assms(4), of env] assms(1,3)
  by (auto simp: appcat_List_def appcat_Get_def split: if_splits)

text \<open>A key that ends in a dash would be a detail without a name: the server panics on it.\<close>

lemma dashed_key_panics:
  "offered c \<Longrightarrow> co_Annotations c = [(PrefixAppCatKey @ ''/-'', v)] \<Longrightarrow> NewAppCatFromComposition env c = Crash"
  by (simp add: NewAppCatFromComposition_def PrefixAppCatKey_def has_prefix_def makeCamelCase_def after_last_slash_def to_lower_def
      to_lower_char_def is_key_char_def)

definition example_composition :: "string \<Rightarrow> string \<Rightarrow> composition" where
  "example_composition name label = \<lparr>co_Meta = \<lparr>am_Name = name, am_Namespace = '''', am_Created = 0\<rparr>, co_Labels = [OfferedKey \<mapsto> label],
     co_Annotations = [(PrefixAppCatKey @ ''/end-user-docs-url'', ''https://vs.hn'')]\<rparr>"

definition example_appcat_env :: "(unit, unit, nat) appcat_env" where
  "example_appcat_env = \<lparr>aa_GetComposition = (\<lambda>name w. (Inr (example_composition name ''false''), w)),
     aa_ListCompositions = (\<lambda>s w. (Inr [example_composition ''redis'' ''true'', example_composition ''old'' ''false''], w)),
     aa_WatchCompositions = (\<lambda>s w. (Inr (), w)), aa_NewSelector = (), aa_AddEquals = (\<lambda>s k v. ()), aa_Title = (\<lambda>s. s),
     aa_Unmarshal = (\<lambda>s. None)\<rparr>"

theorem catalogue_is_what_is_offered_witness:
  "(\<exists>a. appcat_List example_appcat_env None 0 = (Answer [a], 0) \<and> ac_CompositionName a = ''redis'') \<and>
   appcat_Get example_appcat_env ''old'' 0 = (Refused (ApiErr NotFound), 0)"
proof -
  have v: "valid_keys (example_composition name label)" for name label
    by (simp add: valid_keys_def example_composition_def PrefixAppCatKey_def is_key_char_def)
  have o': "offered (example_composition name label) \<longleftrightarrow> label = ''true''" for name label
    by (simp add: offered_def example_composition_def data_field_def OfferedValue_def)
  have n: "am_Name (co_Meta (example_composition name label)) = name" for name label by (simp add: example_composition_def)
  obtain l where "appcat_List example_appcat_env None 0 = (Answer l, 0)" "map ac_CompositionName l = [''redis'']"
    and "appcat_Get example_appcat_env ''old'' 0 = (Refused (ApiErr NotFound), 0)"
    using catalogue_is_what_is_offered [of example_appcat_env None 0 "[example_composition ''redis'' ''true'', example_composition ''old'' ''false'']" 0
        "''old''" 0 "example_composition ''old'' ''false''" 0] v o' n by (auto simp: example_appcat_env_def)
  then show ?thesis by (cases l) auto
qed

end
