(* ===== verification/InstanceNamespace.thy ===== *)
theory InstanceNamespace
  imports MyUsers MaintenanceCron Quotas
begin

text \<open>
  The first step of every service, \<open>src/pkg/comp-functions/functions/common/instance_namespace.go\<close> and \<open>netpol.go\<close>: the
  namespace of the instance with its labels and quotas, who may see it and who may reach it.
\<close>

section \<open>Data\<close>

text \<open>What the step reads of a composite; \<open>GetAllowedNamespaces\<close> adds the namespace of the claim to those of the spec.\<close>

record instance_comp = comp_info +
  ic_BillingName :: string
  ic_AllowedGroups :: "string list"
  ic_AllowedUsers :: "string list"
  ic_AllowedNamespaces :: "string list"
  ic_AllowAllNamespaces :: bool

definition GetAllowedNamespaces :: "instance_comp \<Rightarrow> string list" where
  "GetAllowedNamespaces inst = ic_AllowedNamespaces inst @ [ci_ClaimNamespace inst]"

text \<open>
  The decoding of manifests into namespaces and the data of config maps, the metadata of the observed composite, and
  what storing the status of the composite answers.
\<close>

record ns_env =
  ne_rt :: runtime_env
  ne_Namespace :: "(string \<times> gany) list \<Rightarrow> gerr + kube_object"
  ne_ConfigMap :: "(string \<times> gany) list \<Rightarrow> gerr + str_map"
  ne_CompositeKind :: "observed_composite \<Rightarrow> gerr + string"
  ne_SetStatus :: "rt_error option"

definition observed_object :: "((string \<times> gany) list \<Rightarrow> gerr + 'a) \<Rightarrow> service_runtime \<Rightarrow> string \<Rightarrow> rt_error + 'a" where
  "observed_object decode s name =
     (case GetObservedKubeObject s name of
        Inl e \<Rightarrow> Inl e | Inr m \<Rightarrow> (case decode m of Inl e \<Rightarrow> Inl (RtErr e) | Inr x \<Rightarrow> Inr x))"

definition desired_object :: "((string \<times> gany) list \<Rightarrow> gerr + 'a) \<Rightarrow> service_runtime \<Rightarrow> string \<Rightarrow> rt_error + 'a" where
  "desired_object decode s name =
     (case GetDesiredKubeObject s name of
        Inl e \<Rightarrow> Inl e | Inr m \<Rightarrow> (case decode m of Inl e \<Rightarrow> Inl (RtErr e) | Inr x \<Rightarrow> Inr x))"

definition plain_object :: "string \<Rightarrow> string \<Rightarrow> string \<Rightarrow> str_map \<Rightarrow> gany \<Rightarrow> kube_object" where
  "plain_object kind name ns labels body =
     \<lparr>kb_Kind = kind, kb_Name = name, kb_Namespace = ns, kb_ResourceVersion = '''', kb_UID = '''', kb_SelfLink = '''',
      kb_Generation = 0, kb_OwnerReferences = [], kb_Labels = labels, kb_Annotations = None, kb_Body = body\<rparr>"

definition claimNsObserverSuffix :: string where "claimNsObserverSuffix = ''-claim-ns-observer''"
definition claimNameLabel :: string where "claimNameLabel = ''crossplane.io/claim-name''"
definition disableBillingCMKey :: string where "disableBillingCMKey = ''billingDisabled''"
definition roleBindingName :: string where "roleBindingName = ''appcat:services:read''"

section \<open>The namespaces\<close>

definition GetOrg :: "'z ns_env_scheme \<Rightarrow> string \<Rightarrow> service_runtime \<Rightarrow> rt_error + string" where
  "GetOrg ne inst s =
     (case observed_object (ne_Namespace ne) s (inst @ claimNsObserverSuffix) of
        Inl e \<Rightarrow> Inl e | Inr ns \<Rightarrow> Inr (data_field (kb_Labels ns) ''appuio.io/organization''))"

definition createNamespaceObserver :: "'z ns_env_scheme \<Rightarrow> string \<Rightarrow> string \<Rightarrow> service_runtime \<Rightarrow> rt_error option \<times> service_runtime" where
  "createNamespaceObserver ne claimNs inst s =
     SetDesiredKubeObject (ne_rt ne) (plain_object ''Namespace'' claimNs '''' Map.empty GNull) (inst @ claimNsObserverSuffix)
       [KubeOptionDeployOnControlPlane, KubeOptionObserve] s"

text \<open>The config map is set without the option to only observe it.\<close>

definition isBillingDisabled :: "'z ns_env_scheme \<Rightarrow> string \<Rightarrow> string \<Rightarrow> string \<Rightarrow> service_runtime \<Rightarrow> (rt_error + bool) \<times> service_runtime" where
  "isBillingDisabled ne controlNS instanceNamespace compName s =
     (let name = compName @ ''-ns-conf-observer''
      in (case SetDesiredKubeObject (ne_rt ne) (plain_object ''ConfigMap'' instanceNamespace controlNS Map.empty GNull) name [] s of
            (Some e, s) \<Rightarrow> (Inl e, s)
          | (None, s) \<Rightarrow>
              (case observed_object (ne_ConfigMap ne) s name of
                 Inl e \<Rightarrow> (Inl e, s) | Inr data \<Rightarrow> (Inr (data disableBillingCMKey \<noteq> None), s))))"

definition DisableBilling :: "'z ns_env_scheme \<Rightarrow> string \<Rightarrow> service_runtime \<Rightarrow> rt_error option \<times> service_runtime" where
  "DisableBilling ne instanceNamespace s =
     (case sr_Config s ''controlNamespace'' of
        None \<Rightarrow> (Some (RtErr (Msg ''controlNamespace not specified in composition input'')), s)
      | Some controlNS \<Rightarrow>
          (let name = instanceNamespace @ ''-config'';
               cm = plain_object ''ConfigMap'' instanceNamespace controlNS Map.empty (GMap [(''data'', GMap [(disableBillingCMKey, GStr ''true'')])])
           in (case desired_object (ne_ConfigMap ne) s name of
                 Inl (RtErr e) \<Rightarrow> (Some (RtErr e), s)
               | Inl RtPanic \<Rightarrow> (Some RtPanic, s)
               | _ \<Rightarrow> SetDesiredKubeObject (ne_rt ne) cm name [] s)))"

text \<open>Labels that are given are added one map after the other; none replaces one that is there.\<close>

definition instance_labels :: "instance_comp \<Rightarrow> string \<Rightarrow> string \<Rightarrow> string \<Rightarrow> string \<Rightarrow> str_map list \<Rightarrow> str_map" where
  "instance_labels inst serviceName mode claimName organization labels =
     fold (\<lambda>m l. m ++ l) labels
       [''appcat.vshn.io/servicename'' \<mapsto> serviceName @ ''-'' @ mode, ''appcat.vshn.io/claim-namespace'' \<mapsto> ci_ClaimNamespace inst,
        ''appcat.vshn.io/claim-name'' \<mapsto> claimName, ''appuio.io/no-rbac-creation'' \<mapsto> ''true'',
        ''appuio.io/billing-name'' \<mapsto> ic_BillingName inst, ''appuio.io/organization'' \<mapsto> organization,
        ''openshift.io/cluster-monitoring'' \<mapsto> ''false'']"

definition warn :: "string \<Rightarrow> service_runtime \<Rightarrow> service_runtime" where
  "warn msg s = AddResult (SeverityWarning, msg) s"

definition createInstanceNamespace ::
    "'z ns_env_scheme \<Rightarrow> instance_comp \<Rightarrow> string \<Rightarrow> string \<Rightarrow> string \<Rightarrow> str_map list \<Rightarrow> service_runtime \<Rightarrow> rt_error option \<times> service_runtime" where
  "createInstanceNamespace ne inst serviceName namespaceResName claimName labels s =
     (let (organization, s) = (case GetOrg ne (ci_Name inst) s of
            Inl e \<Rightarrow> ('''', warn ''cannot get claim namespace'' s) | Inr x \<Rightarrow> (x, s));
          mode = (case sr_Config s ''mode'' of None \<Rightarrow> ''standalone'' | Some x \<Rightarrow> x);
          nsLabels = instance_labels inst serviceName mode claimName organization labels;
          s = (if sr_Config s ''controlNamespace'' = None then warn ''no control namespace defined'' s else s)
      in (case isBillingDisabled ne (data_field (sr_Config s) ''controlNamespace'') (ci_InstanceNamespace inst) (ci_Name inst) s of
            (r, s) \<Rightarrow>
              (let s = (case r of Inl e \<Rightarrow> warn ''cannot determine billing status of the service'' s | Inr _ \<Rightarrow> s);
                   nsLabels = (if r = Inr True then nsLabels(''appuio.io/billing-name'' \<mapsto> '''') else nsLabels)
               in SetDesiredKubeObjectWithName (ne_rt ne) (plain_object ''Namespace'' (ci_InstanceNamespace inst) '''' nsLabels GNull)
                    (ci_InstanceNamespace inst) namespaceResName [] s)))"

text \<open>The namespace as it is observed, else as it is desired.\<close>

definition observed_or_desired :: "'z ns_env_scheme \<Rightarrow> string \<Rightarrow> service_runtime \<Rightarrow> rt_error + kube_object \<times> bool" where
  "observed_or_desired ne name s =
     (case observed_object (ne_Namespace ne) s name of
        Inr ns \<Rightarrow> Inr (ns, True)
      | Inl NotFoundError \<Rightarrow>
          (case desired_object (ne_Namespace ne) s name of
             Inl e \<Rightarrow> Inl (wrap_rt ''cannot get namespace'' e) | Inr ns \<Rightarrow> Inr (ns, False))
      | Inl e \<Rightarrow> Inl (wrap_rt ''cannot get namespace'' e))"

section \<open>Who may see it\<close>

definition subject :: "string \<Rightarrow> string \<Rightarrow> gany" where
  "subject kind name = GMap [(''kind'', GStr kind), (''apiGroup'', GStr ''rbac.authorization.k8s.io''), (''name'', GStr name)]"

definition subjects_of :: "string \<Rightarrow> instance_comp \<Rightarrow> gany list" where
  "subjects_of organization inst =
     (if organization \<noteq> '''' then [subject ''Group'' organization] else []) @ map (subject ''Group'') (ic_AllowedGroups inst) @
     map (subject ''User'') (ic_AllowedUsers inst)"

definition createNamespacePermissions ::
    "'z ns_env_scheme \<Rightarrow> instance_comp \<Rightarrow> string \<Rightarrow> service_runtime \<Rightarrow> rt_error option \<times> service_runtime" where
  "createNamespacePermissions ne inst namespaceResName s =
     (case observed_or_desired ne namespaceResName s of
        Inl e \<Rightarrow> (Some e, s)
      | Inr _ \<Rightarrow>
          (case GetOrg ne (ci_Name inst) s of
             Inl e \<Rightarrow> (Some (wrap_rt ''cannot get claim namespace'' e), s)
           | Inr organization \<Rightarrow>
               (let subjects = subjects_of organization inst;
                    roleBinding = plain_object ''RoleBinding'' roleBindingName (ci_InstanceNamespace inst) Map.empty
                      (GMap [(''subjects'', GList subjects),
                             (''roleRef'', GMap [(''apiGroup'', GStr ''rbac.authorization.k8s.io''), (''kind'', GStr ''ClusterRole''),
                                                 (''name'', GStr roleBindingName)])])
                in if subjects = [] then (None, s)
                   else SetDesiredKubeObjectWithName (ne_rt ne) roleBinding (ci_Name inst @ ''-service-rolebinding'') ''namespace-permissions'' [] s)))"

section \<open>Who may reach it\<close>

definition from_namespace :: "string \<Rightarrow> gany" where
  "from_namespace ns = GMap [(''namespaceSelector'', GMap [(''matchLabels'', GMap [(''kubernetes.io/metadata.name'', GStr ns)])])]"

text \<open>The namespaces traffic may come from; the exporter's and Crossplane's are added when they are configured.\<close>

definition peers :: "str_map \<Rightarrow> string list \<Rightarrow> bool \<Rightarrow> string list" where
  "peers config sourceNS allowAll =
     (if allowAll then []
      else sourceNS @ filter (\<lambda>ns. ns \<noteq> '''') [data_field config ''sliNamespace'', data_field config ''crossplaneNamespace''])"

text \<open>An empty list of peers is not written.\<close>

definition netpol_body :: "string list \<Rightarrow> gany" where
  "netpol_body ps = GMap [(''spec'', GMap [(''podSelector'', GMap []),
     (''ingress'', GList [GMap (if ps = [] then [] else [(''from'', GList (map from_namespace ps))])]),
     (''policyTypes'', GList [GStr ''Ingress''])])]"

definition CustomCreateNetworkPolicy ::
    "runtime_env \<Rightarrow> string list \<Rightarrow> string \<Rightarrow> string \<Rightarrow> string \<Rightarrow> bool \<Rightarrow> service_runtime \<Rightarrow> rt_error option \<times> service_runtime" where
  "CustomCreateNetworkPolicy rt sourceNS instanceNs name kubeName allowAll s =
     (case SetDesiredKubeObject rt (plain_object ''NetworkPolicy'' name instanceNs Map.empty (netpol_body (peers (sr_Config s) sourceNS allowAll)))
             (if kubeName = '''' then name @ ''-netpol'' else kubeName) [] s of
        (Some e, s) \<Rightarrow> (Some (wrap_rt ''cannot create networkPolicy object'' e), s)
      | (None, s) \<Rightarrow> (None, s))"

definition CreateNetworkPolicy :: "runtime_env \<Rightarrow> instance_comp \<Rightarrow> service_runtime \<Rightarrow> rt_error option \<times> service_runtime" where
  "CreateNetworkPolicy rt inst s =
     CustomCreateNetworkPolicy rt (GetAllowedNamespaces inst) (ci_InstanceNamespace inst) (ci_Name inst) '''' (ic_AllowAllNamespaces inst) s"

definition AddLoadbalancerNetpolicy :: "runtime_env \<Rightarrow> instance_comp \<Rightarrow> service_runtime \<Rightarrow> rt_error option \<times> service_runtime" where
  "AddLoadbalancerNetpolicy rt inst s =
     (case SetDesiredKubeObject rt
             (plain_object ''NetworkPolicy'' ''allow-all'' (ci_InstanceNamespace inst) Map.empty
                (GMap [(''spec'', GMap [(''podSelector'', GMap []), (''ingress'', GList [GMap []])])]))
             (ci_Name inst @ ''-allow-all'') [KubeOptionAllowDeletion] s of
        (Some e, s) \<Rightarrow> (Some (wrap_rt ''cannot deploy allow all network policy'' e), s)
      | (None, s) \<Rightarrow> (None, s))"

section \<open>Quotas\<close>

definition QuotaAnnotations :: "string list" where
  "QuotaAnnotations = [DiskAnnotation, StorageClassesAnnotation, CpuRequestAnnotation, CpuLimitAnnotation, MemoryRequestAnnotation,
     MemoryLimitAnnotation, CpuRequestTerminationQuota, CpuLimitTerminationQuota, MemoryRequestTerminationQuota,
     MemoryLimitTerminationQuota, ActiveDeadlineSecondsOverrideAnnotation]"

text \<open>The annotations of the list that the first map has are written into the second.\<close>

definition carry_over :: "str_map \<Rightarrow> str_map \<Rightarrow> str_map" where
  "carry_over found annotations =
     fold (\<lambda>a m. case found a of None \<Rightarrow> m | Some v \<Rightarrow> m(a \<mapsto> v)) QuotaAnnotations annotations"

definition addInitialNamespaceQuotas ::
    "'z ns_env_scheme \<Rightarrow> 'q quantity_ops \<Rightarrow> 'v quota_env \<Rightarrow> string \<Rightarrow> service_runtime \<Rightarrow> rt_error option \<times> service_runtime" where
  "addInitialNamespaceQuotas ne Q qe namespaceKon s =
     (if \<not> GetBoolFromCompositionConfig s ''quotasEnabled'' then (None, AddResult (SeverityNormal, ''Quotas disabled, skipping'') s)
      else (case observed_or_desired ne namespaceKon s of
              Inl e \<Rightarrow> (Some e, s)
            | Inr (ns, observed) \<Rightarrow>
                (if \<not> observed \<and> kb_Name ns = '''' then (Some (RtErr (Msg ''namespace doesnt yet have a name'')), s)
                 else (case ne_CompositeKind ne (sr_composite s) of
                         Inl e \<Rightarrow> (Some (RtErr (Wrapped ''cannot get composite meta'' e)), s)
                       | Inr kind \<Rightarrow>
                           (let sidecars = (case FetchSidecarsFromConfig qe (sr_Config s) of Inl e \<Rightarrow> [] | Inr x \<Rightarrow> x);
                                found = AddNamespaceQuotas Q (qe_SidecarOrder qe) (or_zero Map.empty (kb_Annotations ns)) sidecars kind
                                  (data_field (sr_Config s) ''cloudProvider'')
                            in (case desired_object (ne_Namespace ne) s namespaceKon of
                                  Inl e \<Rightarrow> (Some (wrap_rt ''cannot get desired namespace'' e), s)
                                | Inr desiredNs \<Rightarrow>
                                    (case SetDesiredKubeObjectWithName (ne_rt ne)
                                            (desiredNs\<lparr>kb_Annotations := Some (carry_over found (or_zero Map.empty (kb_Annotations desiredNs)))\<rparr>)
                                            (kb_Name desiredNs) namespaceKon [] s of
                                       (Some e, s) \<Rightarrow> (Some (wrap_rt ''cannot save namespace quotas'' e), s)
                                     | (None, s) \<Rightarrow> (None, s))))))))"

section \<open>The step\<close>

definition BootstrapInstanceNs ::
    "'z ns_env_scheme \<Rightarrow> 'q quantity_ops \<Rightarrow> 'v quota_env \<Rightarrow> instance_comp \<Rightarrow> string \<Rightarrow> string \<Rightarrow> str_map list \<Rightarrow> service_runtime \<Rightarrow>
     rt_error option \<times> service_runtime" where
  "BootstrapInstanceNs ne Q qe inst serviceName namespaceResName labels s =
     (case ci_Labels inst claimNameLabel of
        None \<Rightarrow> (Some (RtErr (Msg ''no claim name available in composite labels'')), s)
      | Some claimName \<Rightarrow>
     (case createNamespaceObserver ne (ci_ClaimNamespace inst) (ci_Name inst) s of
        (Some e, s) \<Rightarrow> (Some (wrap_rt ''cannot create namespace observer for claim namespace'' e), s)
      | (None, s) \<Rightarrow>
     (case createInstanceNamespace ne inst serviceName namespaceResName claimName labels s of
        (Some e, s) \<Rightarrow> (Some (wrap_rt ''cannot create namespace'' e), s)
      | (None, s) \<Rightarrow>
     (case createNamespacePermissions ne inst namespaceResName s of
        (Some e, s) \<Rightarrow> (Some (wrap_rt ''cannot create rbac rules for instance'' e), s)
      | (None, s) \<Rightarrow>
     (case CreateNetworkPolicy (ne_rt ne) inst s of
        (Some e, s) \<Rightarrow> (Some (wrap_rt ''cannot create namespace policy for instance'' e), s)
      | (None, s) \<Rightarrow>
     (case ne_SetStatus ne of
        Some e \<Rightarrow> (Some (wrap_rt ''cannot add instance namespace to composite status'' e), s)
      | None \<Rightarrow>
     (case addInitialNamespaceQuotas ne Q qe namespaceResName s of
        (Some e, s) \<Rightarrow> (Some (wrap_rt ''canot add default quotas to namespace'' e), s)
      | (None, s) \<Rightarrow> (None, s))))))))"
section \<open>Labels\<close>

lemma fold_labels: "fold (\<lambda>m l. m ++ l) labels base k = (case base k of Some v \<Rightarrow> Some v | None \<Rightarrow> fold (\<lambda>m l. m ++ l) labels Map.empty k)"
proof (induction labels arbitrary: base)
  case (Cons m labels)
  show ?case using Cons [of "m ++ base"] Cons [of m] by (auto simp: map_add_def split: option.splits)
qed (simp split: option.splits)

text \<open>Whatever labels a service adds, those of the tenant stay.\<close>

lemma labels_not_overridden:
  "instance_labels inst serviceName mode claimName organization labels ''appuio.io/organization'' = Some organization"
  "instance_labels inst serviceName mode claimName organization labels ''appuio.io/billing-name'' = Some (ic_BillingName inst)"
  "instance_labels inst serviceName mode claimName organization labels ''appcat.vshn.io/claim-namespace'' = Some (ci_ClaimNamespace inst)"
  unfolding instance_labels_def fold_labels [of labels "[_ \<mapsto> _, _ \<mapsto> _, _ \<mapsto> _, _ \<mapsto> _, _ \<mapsto> _, _ \<mapsto> _, _ \<mapsto> _]"] by simp_all

section \<open>Who reaches an instance\<close>

text \<open>
  What Kubernetes documents of a policy: a rule without peers admits everybody, one with peers the namespaces that one
  of them selects; here the peers select by the name of the namespace.
\<close>

definition rule_admits :: "gany \<Rightarrow> string \<Rightarrow> bool" where
  "rule_admits rule ns =
     (case any_get (or_zero [] (as_map rule)) ''from'' of GList ps \<Rightarrow> from_namespace ns \<in> set ps | _ \<Rightarrow> True)"

definition policy_admits :: "gany \<Rightarrow> string \<Rightarrow> bool" where
  "policy_admits body ns =
     list_ex (\<lambda>rule. rule_admits rule ns)
       (or_zero [] (as_list (any_get (or_zero [] (as_map (any_get (or_zero [] (as_map body)) ''spec''))) ''ingress'')))"

lemma netpol_body_admits: "policy_admits (netpol_body ps) ns \<longleftrightarrow> ps = [] \<or> ns \<in> set ps"
  by (auto simp: policy_admits_def rule_admits_def netpol_body_def any_get_def from_namespace_def)

definition instance_policy :: "instance_comp \<Rightarrow> service_runtime \<Rightarrow> kube_object" where
  "instance_policy inst s = plain_object ''NetworkPolicy'' (ci_Name inst) (ci_InstanceNamespace inst) Map.empty
     (netpol_body (peers (sr_Config s) (GetAllowedNamespaces inst) (ic_AllowAllNamespaces inst)))"

text \<open>
  C40. The network policy of an instance is in the desired state once the step has run, and it admits the namespace of the
  claim, the namespaces the claim allows, the exporter's and Crossplane's, and no other, unless the claim allows all.
\<close>

theorem instance_reached_by_allowed:
  assumes "CreateNetworkPolicy rt inst s = (None, s')"
  shows "(\<exists>kobj. putIntoObject rt s (instance_policy inst s) (ci_Name inst @ ''-netpol'') (ci_Name inst @ ''-netpol'') [] = Inr kobj \<and>
      map_option dc_Resource (map_of (sr_desired s') (EscapeDNS1123 (ci_Name inst @ ''-netpol'') False)) =
        Some (stored_form rt s (fold (\<lambda>opt. opt) (or_zero [] (map_of (sr_kubeOptions s) (ci_Name inst @ ''-netpol''))) kobj))) \<and>
    (policy_admits (kb_Body (instance_policy inst s)) ns \<longleftrightarrow>
       ic_AllowAllNamespaces inst \<or> ns = ci_ClaimNamespace inst \<or> ns \<in> set (ic_AllowedNamespaces inst) \<or>
       ns \<noteq> '''' \<and> (ns = data_field (sr_Config s) ''sliNamespace'' \<or> ns = data_field (sr_Config s) ''crossplaneNamespace''))"
proof
  have "SetDesiredKubeObjectWithName rt (instance_policy inst s) (ci_Name inst @ ''-netpol'') (ci_Name inst @ ''-netpol'') [] s = (None, s')"
    using assms by (auto simp: CreateNetworkPolicy_def CustomCreateNetworkPolicy_def instance_policy_def SetDesiredKubeObject_def split: prod.splits option.splits)
  from SetDesiredKubeObject_stores(1) [OF this]
  show "\<exists>kobj. putIntoObject rt s (instance_policy inst s) (ci_Name inst @ ''-netpol'') (ci_Name inst @ ''-netpol'') [] = Inr kobj \<and>
      map_option dc_Resource (map_of (sr_desired s') (EscapeDNS1123 (ci_Name inst @ ''-netpol'') False)) =
        Some (stored_form rt s (fold (\<lambda>opt. opt) (or_zero [] (map_of (sr_kubeOptions s) (ci_Name inst @ ''-netpol''))) kobj))"
    by simp
  show "policy_admits (kb_Body (instance_policy inst s)) ns \<longleftrightarrow>
       ic_AllowAllNamespaces inst \<or> ns = ci_ClaimNamespace inst \<or> ns \<in> set (ic_AllowedNamespaces inst) \<or>
       ns \<noteq> '''' \<and> (ns = data_field (sr_Config s) ''sliNamespace'' \<or> ns = data_field (sr_Config s) ''crossplaneNamespace'')"
    by (auto simp: instance_policy_def plain_object_def netpol_body_admits peers_def GetAllowedNamespaces_def)
qed

section \<open>Quotas are kept\<close>

text \<open>
  What the conversions do with annotations: those that are managed come back from the manifest as they went in.
\<close>

definition annotation_codec :: "'z ns_env_scheme \<Rightarrow> bool" where
  "annotation_codec ne \<longleftrightarrow>
     (\<forall>s obj m. rt_ToMap (ne_rt ne) (clean_object s (ne_rt ne) obj) = Inr m \<longrightarrow>
        (\<exists>ns. ne_Namespace ne (remove_metadata_field ''managedFields'' (remove_metadata_field ''creationTimestamp'' (pruneNilFields m))) = Inr ns \<and>
           (\<forall>a \<in> set QuotaAnnotations. or_zero Map.empty (kb_Annotations ns) a = or_zero Map.empty (kb_Annotations obj) a)))"

lemma carry_over_spec: "carry_over found m a = (if a \<in> set QuotaAnnotations \<and> found a \<noteq> None then found a else m a)"
proof -
  have "fold (\<lambda>a m. case found a of None \<Rightarrow> m | Some v \<Rightarrow> m(a \<mapsto> v)) xs m a = (if a \<in> set xs \<and> found a \<noteq> None then found a else m a)" for xs
    by (induction xs arbitrary: m) (auto split: option.splits)
  then show ?thesis by (simp add: carry_over_def)
qed

lemma set_namespace_annotations:
  assumes "annotation_codec ne" "SetDesiredKubeObjectWithName (ne_rt ne) obj kon n [] s = (None, s')" "or_zero [] (map_of (sr_kubeOptions s) n) = []"
  shows "\<exists>ns. desired_object (ne_Namespace ne) s' n = Inr ns \<and>
    (\<forall>a \<in> set QuotaAnnotations. or_zero Map.empty (kb_Annotations ns) a = or_zero Map.empty (kb_Annotations obj) a)"
proof -
  obtain kobj where k: "putIntoObject (ne_rt ne) s obj kon n [] = Inr kobj"
    "map_option dc_Resource (map_of (sr_desired s') (EscapeDNS1123 n False)) = Some (stored_form (ne_rt ne) s kobj)"
    using SetDesiredKubeObject_stores(1) [OF assms(2)] assms(3) by auto
  then obtain m where m: "rt_ToMap (ne_rt ne) (clean_object s (ne_rt ne) obj) = Inr m" "ms_Manifest (cp_Spec kobj) = Some (pruneNilFields m)"
    by (auto simp: putIntoObject_def Let_def split: if_splits sum.splits)
  obtain ns where ns: "ne_Namespace ne (remove_metadata_field ''managedFields'' (remove_metadata_field ''creationTimestamp'' (pruneNilFields m))) = Inr ns"
    "\<forall>a \<in> set QuotaAnnotations. or_zero Map.empty (kb_Annotations ns) a = or_zero Map.empty (kb_Annotations obj) a"
    using assms(1) m(1) unfolding annotation_codec_def by blast
  have "desired_object (ne_Namespace ne) s' n = Inr ns"
    using k(2) m(2) ns(1) by (auto simp: desired_object_def GetDesiredKubeObject_def stored_form_def Let_def)
  then show ?thesis using ns(2) by blast
qed

text \<open>
  C39. Quotas survive the rebuilding of the namespace: the desired namespace is made from scratch in every run, and when
  the step has succeeded it has every quota annotation of the observed one with its value, and none that is managed
  is missing.
\<close>

theorem quotas_survive_rebuilding:
  assumes "annotation_codec ne" "GetBoolFromCompositionConfig s ''quotasEnabled''" "observed_object (ne_Namespace ne) s kon = Inr ns"
    "or_zero [] (map_of (sr_kubeOptions s) kon) = []" "addInitialNamespaceQuotas ne Q qe kon s = (None, s')"
  shows "\<exists>ns'. desired_object (ne_Namespace ne) s' kon = Inr ns' \<and>
    (\<forall>a \<in> set QuotaAnnotations. \<forall>v. or_zero Map.empty (kb_Annotations ns) a = Some v \<longrightarrow> or_zero Map.empty (kb_Annotations ns') a = Some v) \<and>
    (\<forall>a \<in> set managed_annotations. or_zero Map.empty (kb_Annotations ns') a \<noteq> None)"
proof -
  let ?old = "or_zero Map.empty (kb_Annotations ns)"
  obtain kind desiredNs sidecars where set: "SetDesiredKubeObjectWithName (ne_rt ne)
      (desiredNs\<lparr>kb_Annotations := Some (carry_over (AddNamespaceQuotas Q (qe_SidecarOrder qe) ?old sidecars kind (data_field (sr_Config s) ''cloudProvider''))
        (or_zero Map.empty (kb_Annotations desiredNs)))\<rparr>) (kb_Name desiredNs) kon [] s = (None, s')"
    using assms(2,3,5) by (auto simp: addInitialNamespaceQuotas_def observed_or_desired_def Let_def split: sum.splits prod.splits option.splits)
  let ?new = "AddNamespaceQuotas Q (qe_SidecarOrder qe) ?old sidecars kind (data_field (sr_Config s) ''cloudProvider'')"
  have q: "?old \<subseteq>\<^sub>m ?new" "set managed_annotations \<subseteq> dom ?new"
    using AddNamespaceQuotas_defaults [of ?old Q "qe_SidecarOrder qe" sidecars kind "data_field (sr_Config s) ''cloudProvider''"] by auto
  obtain ns' where ns': "desired_object (ne_Namespace ne) s' kon = Inr ns'"
    "\<forall>a \<in> set QuotaAnnotations. or_zero Map.empty (kb_Annotations ns') a = carry_over ?new (or_zero Map.empty (kb_Annotations desiredNs)) a"
    using set_namespace_annotations [OF assms(1) set assms(4)] by auto
  have "?new a = Some v" if "?old a = Some v" for a v using q(1) that by (auto simp: map_le_def dom_def)
  moreover have "set managed_annotations \<subseteq> set QuotaAnnotations" by (auto simp: managed_annotations_def QuotaAnnotations_def)
  moreover have "?new a \<noteq> None" if "a \<in> set managed_annotations" for a using q(2) that by auto
  ultimately show ?thesis using ns' by (intro exI [of _ ns']) (auto simp: carry_over_spec)
qed

section \<open>The first runs\<close>

lemma GetOrg_missing: "GetObservedKubeObject s (inst @ claimNsObserverSuffix) = Inl NotFoundError \<Longrightarrow> GetOrg ne inst s = Inl NotFoundError"
  by (simp add: GetOrg_def observed_object_def)

text \<open>As long as the namespace of the claim is not observed, the permissions fail, and with them all that follows.\<close>

lemma unobserved_claim_namespace_stops:
  assumes "GetObservedKubeObject s (ci_Name inst @ claimNsObserverSuffix) = Inl NotFoundError"
  shows "\<exists>e. createNamespacePermissions ne inst kon s = (Some e, s)"
  using GetOrg_missing [OF assms, of ne] by (auto simp: createNamespacePermissions_def split: sum.splits)

text \<open>The map that is only to be looked at may be created, changed and deleted.\<close>

lemma billing_observer_is_managed:
  assumes "SetDesiredKubeObject rt obj n [] s = (None, s')" "map_of (sr_desired s) (EscapeDNS1123 n False) = None" "map_of (sr_kubeOptions s) n = None"
  shows "\<exists>r. map_of (sr_desired s') (EscapeDNS1123 n False) = Some r \<and> ms_ManagementPolicies (cp_Spec (dc_Resource r)) = []"
  using SetDesiredKubeObject_stores(1) [OF assms(1) [unfolded SetDesiredKubeObject_def]] assms(2,3)
  by (auto simp: stored_form_def putIntoObject_def GetDesiredComposedResourceByName_def empty_spec_def Let_def split: if_splits sum.splits)
section \<open>An instance\<close>

text \<open>A cluster whose conversions keep the name and the managed annotations of an object.\<close>

definition annotation_fields :: "str_map \<Rightarrow> (string \<times> gany) list" where
  "annotation_fields ann = List.map_filter (\<lambda>a. map_option (\<lambda>v. (a, GStr v)) (ann a)) QuotaAnnotations"

definition example_ns_env :: ns_env where
  "example_ns_env =
     \<lparr>ne_rt = example_runtime_env\<lparr>rt_ToMap := \<lambda>obj. Inr [(''metadata'', GMap [(''name'', GStr (kb_Name obj)),
        (''annotations'', GMap (annotation_fields (or_zero Map.empty (kb_Annotations obj))))])]\<rparr>,
      ne_Namespace = (\<lambda>m. let meta = manifest_metadata m; ann = or_zero [] (as_map (any_get meta ''annotations''))
        in Inr ((plain_object ''Namespace'' (or_zero '''' (as_string (any_get meta ''name''))) '''' Map.empty GNull)
                  \<lparr>kb_Annotations := Some (\<lambda>a. as_string (any_get ann a))\<rparr>)),
      ne_ConfigMap = (\<lambda>m. Inr Map.empty), ne_CompositeKind = (\<lambda>c. Inr (oc_Kind c)), ne_SetStatus = None\<rparr>"

lemma annotation_fields_get: "a \<in> set QuotaAnnotations \<Longrightarrow> as_string (any_get (annotation_fields ann) a) = ann a"
proof -
  have "map_of (List.map_filter (\<lambda>a. map_option (\<lambda>v. (a, GStr v)) (ann a)) xs) a = (if a \<in> set xs then map_option GStr (ann a) else None)" for xs
    by (induction xs) (auto simp: map_filter_simps split: option.splits)
  then show "a \<in> set QuotaAnnotations \<Longrightarrow> as_string (any_get (annotation_fields ann) a) = ann a"
    by (auto simp: annotation_fields_def any_get_def split: option.splits)
qed

lemma annotation_fields_pruned: "pruneNilFields (annotation_fields ann) = annotation_fields ann"
proof -
  have "pruneNilFields (List.map_filter (\<lambda>a. map_option (\<lambda>v. (a, GStr v)) (ann a)) xs) = List.map_filter (\<lambda>a. map_option (\<lambda>v. (a, GStr v)) (ann a)) xs" for xs
    by (induction xs) (auto simp: map_filter_simps split: option.splits)
  then show ?thesis by (simp add: annotation_fields_def)
qed

lemma example_codec: "annotation_codec example_ns_env"
proof -
  have k: "''kubectl.kubernetes.io/last-applied-configuration'' \<notin> set QuotaAnnotations"
    by (simp add: QuotaAnnotations_def annotation_defs)
  have "or_zero Map.empty (kb_Annotations (clean_object s rt obj)) a = or_zero Map.empty (kb_Annotations obj) a"
    if "a \<in> set QuotaAnnotations" for s rt obj a
    using that k by (cases "kb_Annotations obj") (auto simp: clean_object_def)
  then show ?thesis
    by (auto simp: annotation_codec_def example_ns_env_def remove_metadata_field_def any_get_def manifest_metadata_def Let_def
        annotation_fields_pruned annotation_fields_get [unfolded any_get_def] plain_object_def)
qed

definition example_instance :: instance_comp where
  "example_instance = \<lparr>ci_Name = ''redis-a'', ci_InstanceNamespace = ''vshn-redis-a'', ci_ClaimNamespace = ''tenant'',
     ci_Labels = [claimNameLabel \<mapsto> ''redis''], ic_BillingName = ''appcat-redis'', ic_AllowedGroups = [], ic_AllowedUsers = [],
     ic_AllowedNamespaces = [''friend''], ic_AllowAllNamespaces = False\<rparr>"

theorem instance_reached_by_allowed_witness:
  "\<exists>s'. CreateNetworkPolicy example_runtime_env example_instance example_runtime = (None, s') \<and>
    policy_admits (kb_Body (instance_policy example_instance example_runtime)) ''tenant'' \<and>
    policy_admits (kb_Body (instance_policy example_instance example_runtime)) ''friend'' \<and>
    \<not> policy_admits (kb_Body (instance_policy example_instance example_runtime)) ''stranger''"
proof -
  obtain s' where s: "CreateNetworkPolicy example_runtime_env example_instance example_runtime = (None, s')"
    using that example_kube_ok [of "instance_policy example_instance example_runtime" "''redis-a-netpol''" "[]" example_runtime]
    by (auto simp: CreateNetworkPolicy_def CustomCreateNetworkPolicy_def instance_policy_def example_instance_def)
  have "policy_admits (kb_Body (instance_policy example_instance example_runtime)) ns \<longleftrightarrow> ns = ''tenant'' \<or> ns = ''friend''" for ns
    using conjunct2 [OF instance_reached_by_allowed [OF s, of ns]] by (auto simp: example_instance_def example_runtime_def data_field_def)
  then show ?thesis using s by simp
qed

text \<open>A namespace whose limit on CPUs was raised by hand.\<close>

definition example_manifest :: "(string \<times> gany) list" where
  "example_manifest = [(''metadata'', GMap [(''name'', GStr ''vshn-redis-a''), (''annotations'', GMap [(CpuLimitAnnotation, GStr ''99'')])])]"

definition example_quota_runtime :: service_runtime where
  "example_quota_runtime = example_runtime\<lparr>sr_Config := [''quotasEnabled'' \<mapsto> ''true''],
     sr_observed := [(''ns'', \<lparr>or_Resource = example_resource, or_Status = Inr None, or_ConnectionDetails = Map.empty, or_AtProvider = Some example_manifest\<rparr>)],
     sr_desired := [(''ns'', \<lparr>dc_Resource = example_resource\<lparr>cp_Spec := empty_spec\<lparr>ms_Manifest := Some [(''metadata'', GMap [(''name'', GStr ''vshn-redis-a'')])]\<rparr>\<rparr>,
        dc_Ready = ReadyEmpty\<rparr>)]\<rparr>"

theorem quotas_survive_rebuilding_witness:
  "\<exists>s' ns'. addInitialNamespaceQuotas example_ns_env example_quantity example_quota_env ''ns'' example_quota_runtime = (None, s') \<and>
     desired_object (ne_Namespace example_ns_env) s' ''ns'' = Inr ns' \<and>
     or_zero Map.empty (kb_Annotations ns') CpuLimitAnnotation = Some ''99'' \<and> or_zero Map.empty (kb_Annotations ns') DiskAnnotation \<noteq> None"
proof -
  have e: "EscapeDNS1123 ''ns'' False = ''ns''" by (rule escape_plain) (simp_all add: dns1123_match_def is_lower_alnum_def)
  obtain ns where ns: "observed_object (ne_Namespace example_ns_env) example_quota_runtime ''ns'' = Inr ns"
    "or_zero Map.empty (kb_Annotations ns) CpuLimitAnnotation = Some ''99''"
    by (simp add: observed_object_def GetObservedKubeObject_def e example_quota_runtime_def example_ns_env_def Let_def example_manifest_def
        manifest_metadata_def any_get_def)
  have d: "\<exists>d. desired_object (ne_Namespace example_ns_env) example_quota_runtime ''ns'' = Inr d"
    by (simp add: desired_object_def GetDesiredKubeObject_def e example_quota_runtime_def example_ns_env_def Let_def)
  have set: "\<exists>s'. SetDesiredKubeObjectWithName (ne_rt example_ns_env) obj kon n opts s = (None, s')" for obj kon n opts s
    by (simp add: example_ns_env_def example_runtime_env_def SetDesiredKubeObjectWithName_def putIntoObject_def
        SetDesiredComposedResourceWithName_def Let_def)
  have b: "GetBoolFromCompositionConfig example_quota_runtime ''quotasEnabled''"
    by (simp add: GetBoolFromCompositionConfig_def example_quota_runtime_def)
  have k: "ne_CompositeKind example_ns_env c = Inr (oc_Kind c)" for c by (simp add: example_ns_env_def)
  obtain s' where s: "addInitialNamespaceQuotas example_ns_env example_quantity example_quota_env ''ns'' example_quota_runtime = (None, s')"
  proof -
    obtain d where d: "desired_object (ne_Namespace example_ns_env) example_quota_runtime ''ns'' = Inr d" using d by blast
    let ?obj = "d\<lparr>kb_Annotations := Some (carry_over (AddNamespaceQuotas example_quantity (qe_SidecarOrder example_quota_env)
      (or_zero Map.empty (kb_Annotations ns)) (case FetchSidecarsFromConfig example_quota_env (sr_Config example_quota_runtime) of Inl e \<Rightarrow> [] | Inr x \<Rightarrow> x)
      (oc_Kind (sr_composite example_quota_runtime)) (data_field (sr_Config example_quota_runtime) ''cloudProvider''))
      (or_zero Map.empty (kb_Annotations d)))\<rparr>"
    obtain s' where "SetDesiredKubeObjectWithName (ne_rt example_ns_env) ?obj (kb_Name d) ''ns'' [] example_quota_runtime = (None, s')"
      using set by blast
    then show ?thesis using that by (simp add: addInitialNamespaceQuotas_def b k observed_or_desired_def ns(1) d Let_def)
  qed
  have o': "or_zero [] (map_of (sr_kubeOptions example_quota_runtime) ''ns'') = []"
    by (simp add: example_quota_runtime_def example_runtime_def)
  show ?thesis
    using quotas_survive_rebuilding [OF example_codec b ns(1) o' s] s ns(2)
    by (fastforce simp: QuotaAnnotations_def managed_annotations_def)
qed

end
