(* ===== verification/BillingStep.thy ===== *)
theory BillingStep
  imports InstanceNamespace Billing_Events Sha256
begin

text \<open>
  The billing of an instance in the composition functions: the \<open>BillingService\<close> the billing controller works on
  (\<open>src/pkg/comp-functions/functions/common/billing_service.go\<close>), the older Prometheus rule (\<open>common/billing.go\<close>), and
  the choice between the two in the services (\<open>billing.go\<close> of each).
\<close>

section \<open>Data\<close>

text \<open>The creation timestamp is None when it is zero, else its text.\<close>

record billing_comp = instance_comp +
  bc_ClaimName :: string
  bc_ServiceName :: string
  bc_Instances :: int
  bc_SLA :: string
  bc_Annotations :: str_map
  bc_CreationTimestamp :: "string option"

text \<open>The decoding of items from an annotation, and the UID of an observed object.\<close>

record billing_step_env = ns_env +
  bl_Items :: "string \<Rightarrow> gerr + item_spec list"
  bl_UID :: "composed_resource \<Rightarrow> string"

record billing_options =
  bo_ResourceNameSuffix :: string
  bo_Items :: "item_spec list"
  bo_AdditionalLabels :: "(string \<times> string) list"

definition BillingNamespace :: string where "BillingNamespace = ''syn-appcat''"
definition DefaultKeepAfterDeletion :: int where "DefaultKeepAfterDeletion = 365"

definition shortSHA :: "string \<Rightarrow> string" where "shortSHA s = take 8 (sha256_hex s)"

definition getProductID :: "billing_comp \<Rightarrow> string \<Rightarrow> string" where
  "getProductID inst service =
     ''appcat-vshn-'' @ service @ ''-'' @
     (if 1 < bc_Instances inst \<and> bc_SLA inst = ''guaranteed'' then ''guaranteed'' else ''besteffort'')"

definition GetItemDescription :: "bool \<Rightarrow> string \<Rightarrow> string \<Rightarrow> string" where
  "GetItemDescription isAPPUiOCloud cluster ns =
     (if isAPPUiOCloud then ''APPUiO Cloud - Cluster: '' else ''APPUiO Managed - Cluster: '') @ cluster @ '' / Namespace: '' @ ns"

section \<open>The BillingService\<close>

text \<open>The configured number of days, if it is a number.\<close>

definition keep_after :: "str_map \<Rightarrow> int" where
  "keep_after config =
     (case parse_int (data_field config ''crDeletionAfter'') of None \<Rightarrow> DefaultKeepAfterDeletion | Some n \<Rightarrow> n)"

definition annotation_prefix :: "str_map \<Rightarrow> string" where
  "annotation_prefix config = data_field config ''servalaBillingAnnotationPrefix''"

text \<open>The sales order, and whether there is none: an annotation replaces the configured one.\<close>

definition sales_order :: "billing_comp \<Rightarrow> str_map \<Rightarrow> string \<times> bool" where
  "sales_order inst config =
     (let salesOrder = data_field config ''salesOrder''; prefix = annotation_prefix config;
          v = data_field (bc_Annotations inst) (prefix @ ''/salesOrderID'')
      in if prefix \<noteq> '''' \<and> v \<noteq> '''' then (v, False) else (salesOrder, salesOrder = ''''))"

definition or_default :: "string \<Rightarrow> string \<Rightarrow> string" where
  "or_default d v = (if v = '''' then d else v)"

text \<open>The items of the caller with what they leave open, and the one for the service itself.\<close>

definition standard_items :: "billing_comp \<Rightarrow> string \<Rightarrow> item_spec list \<Rightarrow> item_spec list" where
  "standard_items inst description items =
     map (\<lambda>it. it\<lparr>it_ItemDescription := or_default description (it_ItemDescription it),
                   it_ItemGroupDescription := or_default (bc_ClaimName inst) (it_ItemGroupDescription it),
                   it_InstanceID := or_default (ci_Name inst @ ''-'' @ shortSHA (it_ProductID it)) (it_InstanceID it)\<rparr>) items @
     [let productID = getProductID inst (bc_ServiceName inst)
      in \<lparr>it_ProductID = productID, it_ItemDescription = description, it_ItemGroupDescription = bc_ClaimName inst,
          it_Value = itoa (bc_Instances inst), it_InstanceID = ci_Name inst @ ''-'' @ shortSHA productID\<rparr>]"

text \<open>The items of the annotation, or what is wrong with it.\<close>

definition annotated_items :: "billing_step_env \<Rightarrow> billing_comp \<Rightarrow> string \<Rightarrow> string + item_spec list" where
  "annotated_items be inst prefix =
     (let raw = data_field (bc_Annotations inst) (prefix @ ''/items'')
      in if raw = '''' then Inl ''items annotation missing''
         else (case bl_Items be raw of
                 Inl e \<Rightarrow> Inl ''cannot parse items''
               | Inr items \<Rightarrow>
                   (if items = [] then Inl ''items is empty''
                    else if \<exists>it \<in> set items. it_ProductID it = '''' then Inl ''items contains an item with empty productID''
                    else Inr (map (\<lambda>it. it\<lparr>it_InstanceID := ci_Name inst @ ''-'' @
                               shortSHA (it_ProductID it @ it_ItemDescription it @ it_ItemGroupDescription it)\<rparr>) items))))"

definition omit_empty :: "string \<Rightarrow> string \<Rightarrow> (string \<times> gany) list" where
  "omit_empty k v = (if v = '''' then [] else [(k, GStr v)])"

definition item_fields :: "item_spec \<Rightarrow> gany" where
  "item_fields it =
     GMap ([(''productID'', GStr (it_ProductID it))] @ omit_empty ''itemDescription'' (it_ItemDescription it) @
       omit_empty ''itemGroupDescription'' (it_ItemGroupDescription it) @ [(''value'', GStr (it_Value it))] @
       omit_empty ''instanceID'' (it_InstanceID it))"

definition billing_service_object ::
    "billing_comp \<Rightarrow> str_map \<Rightarrow> billing_options \<Rightarrow> string \<Rightarrow> string \<Rightarrow> item_spec list \<Rightarrow> kube_object" where
  "billing_service_object inst config opts salesOrder organization items =
     (let labels = fold (\<lambda>(k, v) m. m(k \<mapsto> v)) (bo_AdditionalLabels opts)
            [''appcat.vshn.io/claim-name'' \<mapsto> bc_ClaimName inst, ''appcat.vshn.io/claim-namespace'' \<mapsto> ci_ClaimNamespace inst,
             ''appcat.vshn.io/service-name'' \<mapsto> bc_ServiceName inst];
          annotations = (case bc_CreationTimestamp inst of
            None \<Rightarrow> Map.empty | Some t \<Rightarrow> [''appcat.vshn.io/instance-creation-timestamp'' \<mapsto> t]);
          keep = keep_after config;
          spec = (if keep = 0 then [] else [(''keepAfterDeletion'', GInt keep)]) @
            [(''odoo'', GMap ([(''serviceID'', GStr (ci_Name inst))] @ omit_empty ''salesOrderID'' salesOrder @
               omit_empty ''organization'' organization @ [(''items'', GList (map item_fields items))]))]
      in (plain_object ''BillingService'' (ci_Name inst @ bo_ResourceNameSuffix opts) BillingNamespace labels
            (GMap [(''spec'', GMap spec)]))\<lparr>kb_Annotations := Some annotations\<rparr>)"

definition owner_ref :: "billing_step_env \<Rightarrow> composed_resource \<Rightarrow> gany" where
  "owner_ref be k =
     GMap [(''apiVersion'', GStr ''kubernetes.crossplane.io/v1alpha2''), (''kind'', GStr ''Object''), (''name'', GStr (cp_Name k)),
           (''uid'', GStr (bl_UID be k)), (''controller'', GBool True), (''blockOwnerDeletion'', GBool False)]"

text \<open>What is observed is desired again, whether or not that works.\<close>

definition preserveExistingAndWarn ::
    "billing_step_env \<Rightarrow> rt_error + composed_resource \<Rightarrow> string \<Rightarrow> string \<Rightarrow> service_runtime \<Rightarrow> fn_result \<times> service_runtime" where
  "preserveExistingAndWarn be observed name msg s =
     (case observed of
        Inl _ \<Rightarrow> ((SeverityWarning, msg), s)
      | Inr k \<Rightarrow> ((SeverityWarning, msg), snd (SetDesiredComposedResourceWithName (ne_rt be) k name [] s)))"

definition set_billing_service ::
    "billing_step_env \<Rightarrow> billing_comp \<Rightarrow> billing_options \<Rightarrow> rt_error + composed_resource \<Rightarrow> item_spec list \<Rightarrow> service_runtime \<Rightarrow>
     fn_result \<times> service_runtime" where
  "set_billing_service be inst opts observed items s =
     (let name = ci_Name inst @ bo_ResourceNameSuffix opts; (salesOrder, isAPPUiOCloud) = sales_order inst (sr_Config s);
          org = (if isAPPUiOCloud then GetOrg be (ci_Name inst) s else Inr '''')
      in (case org of
            Inl e \<Rightarrow> ((SeverityWarning, ''cannot add billing to service''), s)
          | Inr organization \<Rightarrow>
              (let obj = billing_service_object inst (sr_Config s) opts salesOrder organization items;
                   kubeOpts = [KubeOptionDeployOnControlPlane, KubeOptionObserveCreateUpdate] @
                     (case observed of Inl _ \<Rightarrow> [] | Inr k \<Rightarrow> [KubeOptionSetOwnerReferenceFromKubeObject (owner_ref be k)])
               in (case SetDesiredKubeObject (ne_rt be) obj name kubeOpts s of
                     (Some e, s) \<Rightarrow> preserveExistingAndWarn be observed name ''cannot create BillingService'' s
                   | (None, s) \<Rightarrow> ((SeverityNormal, ''BillingService configured''), s)))))"

definition CreateOrUpdateBillingServiceWithOptions ::
    "billing_step_env \<Rightarrow> billing_comp \<Rightarrow> billing_options \<Rightarrow> service_runtime \<Rightarrow> fn_result \<times> service_runtime" where
  "CreateOrUpdateBillingServiceWithOptions be inst opts s =
     (let config = sr_Config s; prefix = annotation_prefix config; name = ci_Name inst @ bo_ResourceNameSuffix opts
      in if data_field config ''billingEnabled'' = ''false'' then ((SeverityNormal, ''billing not enabled, skipping''), s)
         else if ci_ClaimNamespace inst = data_field config ''ignoreNamespaceForBilling''
         then ((SeverityNormal, ''billing skipped for test instance''), s)
         else if data_field config ''clusterName'' = '''' then ((SeverityWarning, ''no clusterName set in composition''), s)
         else (let observed = GetObservedComposedResource s name;
                   description = GetItemDescription (snd (sales_order inst config)) (data_field config ''clusterName'') (ci_ClaimNamespace inst)
               in if (case observed of Inl e \<Rightarrow> e \<noteq> NotFoundError | Inr _ \<Rightarrow> False)
                  then ((SeverityWarning, ''cannot add billing to service''), s)
                  else if prefix = '''' then set_billing_service be inst opts observed (standard_items inst description (bo_Items opts)) s
                  else (case annotated_items be inst prefix of
                          Inl msg \<Rightarrow> preserveExistingAndWarn be observed name msg s
                        | Inr items \<Rightarrow> set_billing_service be inst opts observed items s)))"

definition CreateOrUpdateBillingService :: "billing_step_env \<Rightarrow> billing_comp \<Rightarrow> service_runtime \<Rightarrow> fn_result \<times> service_runtime" where
  "CreateOrUpdateBillingService be inst s =
     CreateOrUpdateBillingServiceWithOptions be inst \<lparr>bo_ResourceNameSuffix = ''-billing-service'', bo_Items = [], bo_AdditionalLabels = []\<rparr> s"

section \<open>The Prometheus rule\<close>

definition getVectorExpression :: "int \<Rightarrow> string" where "getVectorExpression i = ''vector('' @ itoa i @ '')''"

definition getBillingNameWithAddOn :: "string \<Rightarrow> string \<Rightarrow> gerr + string" where
  "getBillingNameWithAddOn billingName addOn =
     (if billingName = '''' then Inl (Msg ''billing name is empty'')
      else if addOn = '''' then Inr billingName else Inr (billingName @ ''-'' @ addOn))"

text \<open>Without a billing name the labels are a panic, here None.\<close>

definition getLabels :: "service_runtime \<Rightarrow> billing_comp \<Rightarrow> string \<Rightarrow> string \<Rightarrow> string_data option" where
  "getLabels s inst org addOnName =
     (case getBillingNameWithAddOn (ic_BillingName inst) addOnName of
        Inl e \<Rightarrow> None
      | Inr b \<Rightarrow>
          Some ([(''label_appcat_vshn_io_claim_name'', bc_ClaimName inst), (''label_appcat_vshn_io_claim_namespace'', ci_ClaimNamespace inst),
                 (''label_appcat_vshn_io_sla'', bc_SLA inst), (''label_appcat_vshn_io_addon_name'', addOnName),
                 (''label_appuio_io_billing_name'', b), (''label_appuio_io_organization'', org)] @
                (if data_field (sr_Config s) ''salesOrder'' = '''' then [] else [(''sales_order'', data_field (sr_Config s) ''salesOrder'')])))"

definition metering_rule :: "int \<Rightarrow> string_data \<Rightarrow> gany" where
  "metering_rule instances labels =
     GMap [(''record'', GStr ''appcat:metering''), (''expr'', GStr (getVectorExpression instances)), (''labels'', string_object labels)]"

fun add_on_rules :: "service_runtime \<Rightarrow> billing_comp \<Rightarrow> string \<Rightarrow> (string \<times> int) list \<Rightarrow> gany list option" where
  "add_on_rules s inst org [] = Some []"
| "add_on_rules s inst org ((name, instances) # addOns) =
     (case getLabels s inst org name of
        None \<Rightarrow> None
      | Some labels \<Rightarrow> map_option (\<lambda>rs. metering_rule instances labels # rs) (add_on_rules s inst org addOns))"

definition billing_rule_object :: "billing_comp \<Rightarrow> gany list \<Rightarrow> kube_object" where
  "billing_rule_object inst rules =
     plain_object ''PrometheusRule'' (ci_Name inst @ ''-billing'') (ci_InstanceNamespace inst)
       [''openshift.io/prometheus-rule-evaluation-scope'' \<mapsto> ''leaf-prometheus'']
       (GMap [(''spec'', GMap [(''groups'', GList [GMap [(''name'', GStr ''appcat-metering-rules''), (''rules'', GList rules)]])])])"

text \<open>A test instance has no result at all.\<close>

definition CreateBillingRecord ::
    "billing_step_env \<Rightarrow> billing_comp \<Rightarrow> (string \<times> int) list \<Rightarrow> service_runtime \<Rightarrow> (rt_error + fn_result option) \<times> service_runtime" where
  "CreateBillingRecord be inst addOns s =
     (if ci_ClaimNamespace inst = data_field (sr_Config s) ''ignoreNamespaceForBilling'' then (Inr None, s)
      else (case GetOrg be (ci_Name inst) s of
              Inl e \<Rightarrow> (Inr (Some (SeverityWarning, ''cannot add billing to service'')), s)
            | Inr org \<Rightarrow>
           (case sr_Config s ''controlNamespace'' of
              None \<Rightarrow> (Inr (Some (SeverityWarning, ''cannot add billing to service'')), s)
            | Some controlNS \<Rightarrow>
           (case isBillingDisabled be controlNS (ci_InstanceNamespace inst) (ci_Name inst) s of
              (Inl e, s) \<Rightarrow> (Inr (Some (SeverityWarning, ''cannot add billing to service'')), s)
            | (Inr disabled, s) \<Rightarrow>
                (if disabled then (Inr (Some (SeverityNormal, ''billing disabled for instance'')), s)
                 else (case add_on_rules s inst org (('''', bc_Instances inst) # addOns) of
                         None \<Rightarrow> (Inl RtPanic, s)
                       | Some rules \<Rightarrow>
                           (case SetDesiredKubeObject (ne_rt be) (billing_rule_object inst rules) (ci_Name inst @ ''-billing'') [] s of
                              (Some e, s) \<Rightarrow> (Inr (Some (SeverityWarning, ''cannot add billing to service'')), s)
                            | (None, s) \<Rightarrow> (Inr (Some (SeverityNormal, ''billing enabled for instance'')), s))))))))"

section \<open>The services\<close>

definition billing_by_events :: "service_runtime \<Rightarrow> bool" where
  "billing_by_events s \<longleftrightarrow> data_field (sr_Config s) ''billingEnabled'' = ''true''"

text \<open>The composite is the one that was read, or the error of reading it.\<close>

definition redis_AddBilling ::
    "billing_step_env \<Rightarrow> gerr + billing_comp \<Rightarrow> service_runtime \<Rightarrow> (rt_error + fn_result option) \<times> service_runtime" where
  "redis_AddBilling be composite s =
     (case composite of
        Inl e \<Rightarrow> (Inr (Some (SeverityFatal, ''cannot get composite'')), s)
      | Inr inst \<Rightarrow>
          (if billing_by_events s then (case CreateOrUpdateBillingService be inst s of (r, s) \<Rightarrow> (Inr (Some r), s))
           else CreateBillingRecord be inst [] s))"

definition mariadb_AddBilling where "mariadb_AddBilling = redis_AddBilling"
definition keycloak_AddBilling where "keycloak_AddBilling = redis_AddBilling"
definition minio_AddBilling where "minio_AddBilling = redis_AddBilling"
definition forgejo_AddBilling where "forgejo_AddBilling = redis_AddBilling"
definition cnpg_AddBilling where "cnpg_AddBilling = redis_AddBilling"

text \<open>A database inside another service is not billed by events.\<close>

definition postgres_AddBilling ::
    "billing_step_env \<Rightarrow> gerr + billing_comp \<Rightarrow> service_runtime \<Rightarrow> (rt_error + fn_result option) \<times> service_runtime" where
  "postgres_AddBilling be composite s =
     (case composite of
        Inr inst \<Rightarrow>
          (if billing_by_events s \<and> data_field (ci_Labels inst) OwnerCompositeLabel \<noteq> ''''
           then (Inr (Some (SeverityNormal, ''Skipping Billing as composite is a subservice'')), s)
           else redis_AddBilling be composite s)
      | Inl e \<Rightarrow> redis_AddBilling be composite s)"

definition collabora_item :: item_spec where
  "collabora_item = \<lparr>it_ProductID = ''appcat-vshn-nextcloud-office-besteffort'', it_ItemDescription = '''', it_ItemGroupDescription = '''',
     it_Value = ''1'', it_InstanceID = ''''\<rparr>"

definition nextcloud_AddBilling ::
    "billing_step_env \<Rightarrow> gerr + billing_comp \<times> bool \<Rightarrow> service_runtime \<Rightarrow> (rt_error + fn_result option) \<times> service_runtime" where
  "nextcloud_AddBilling be composite s =
     (case composite of
        Inl e \<Rightarrow> (Inr (Some (SeverityFatal, ''cannot get composite'')), s)
      | Inr (inst, collabora) \<Rightarrow>
          (if billing_by_events s
           then (case CreateOrUpdateBillingServiceWithOptions be inst
                        \<lparr>bo_ResourceNameSuffix = ''-billing-service'', bo_Items = (if collabora then [collabora_item] else []),
                         bo_AdditionalLabels = []\<rparr> s of (r, s) \<Rightarrow> (Inr (Some r), s))
           else CreateBillingRecord be inst (if collabora then [(''office'', 1)] else []) s))"
section \<open>Billing goes on\<close>

lemma composed_set_ok: "conversions_ok rt \<Longrightarrow> \<exists>s'. SetDesiredComposedResourceWithName rt k n [] s = (None, s')"
  by (simp add: SetDesiredComposedResourceWithName_def conversions_ok_def Let_def)

lemma preserved_is_desired:
  assumes "conversions_ok (ne_rt be)"
  shows "is_desired (snd (preserveExistingAndWarn be (Inr k) name msg s)) name"
proof -
  obtain s' where s': "SetDesiredComposedResourceWithName (ne_rt be) k name [] s = (None, s')" using composed_set_ok [OF assms] by blast
  then show ?thesis using SetDesired_stores(1) [OF s'] by (simp add: preserveExistingAndWarn_def is_desired_def)
qed

lemma set_billing_is_desired:
  assumes "conversions_ok (ne_rt be)" "snd (sales_order inst (sr_Config s)) \<Longrightarrow> \<exists>org. GetOrg be (ci_Name inst) s = Inr org"
  shows "is_desired (snd (set_billing_service be inst opts (Inr k) items s)) (ci_Name inst @ bo_ResourceNameSuffix opts)"
proof -
  obtain salesOrder cloud where so: "sales_order inst (sr_Config s) = (salesOrder, cloud)" by fastforce
  obtain org where org: "(if cloud then GetOrg be (ci_Name inst) s else Inr '''') = Inr org" using assms(2) so by (cases cloud) auto
  show ?thesis
    by (auto simp: set_billing_service_def so org Let_def preserved_is_desired [OF assms(1)] dest: kube_is_desired
        simp del: append_assoc split: prod.splits option.splits)
qed

text \<open>Billing is on for this instance, and the cluster has a name.\<close>

definition billed :: "billing_comp \<Rightarrow> str_map \<Rightarrow> bool" where
  "billed inst config \<longleftrightarrow> data_field config ''billingEnabled'' \<noteq> ''false'' \<and>
     ci_ClaimNamespace inst \<noteq> data_field config ''ignoreNamespaceForBilling'' \<and> data_field config ''clusterName'' \<noteq> ''''"

text \<open>
  C37. Billing does not stop by accident: while billing is on and the organisation can be read where it is needed, an
  existing BillingService is desired again in every run, whatever is in the annotations - without items, with items
  that cannot be parsed, with products that have no name - and even when the new one cannot be set.
\<close>

theorem existing_billing_is_kept:
  assumes "billed inst (sr_Config s)" "GetObservedComposedResource s (ci_Name inst @ bo_ResourceNameSuffix opts) = Inr k"
    "conversions_ok (ne_rt be)" "snd (sales_order inst (sr_Config s)) \<longrightarrow> (\<exists>org. GetOrg be (ci_Name inst) s = Inr org)"
  shows "is_desired (snd (CreateOrUpdateBillingServiceWithOptions be inst opts s)) (ci_Name inst @ bo_ResourceNameSuffix opts)"
  using assms(1,2) set_billing_is_desired [OF assms(3), of inst s opts k] assms(4) preserved_is_desired [OF assms(3)]
  by (auto simp: CreateOrUpdateBillingServiceWithOptions_def billed_def Let_def split: sum.splits)

text \<open>
  C38. When billing is on, an existing BillingService that no earlier step desires gets lost in a run exactly when the
  instance has no sales order, the organisation that is needed instead cannot be read, and the step gets that far, which
  it does unless items are to come from an annotation that has none, or bad ones.
\<close>

theorem unreadable_organisation_ends_billing:
  assumes "billed inst (sr_Config s)" "GetObservedComposedResource s (ci_Name inst @ bo_ResourceNameSuffix opts) = Inr k"
    "conversions_ok (ne_rt be)"
  shows "\<not> is_desired (snd (CreateOrUpdateBillingServiceWithOptions be inst opts s)) (ci_Name inst @ bo_ResourceNameSuffix opts) \<longleftrightarrow>
    \<not> is_desired s (ci_Name inst @ bo_ResourceNameSuffix opts) \<and> snd (sales_order inst (sr_Config s)) \<and>
    (\<exists>e. GetOrg be (ci_Name inst) s = Inl e) \<and>
    (annotation_prefix (sr_Config s) = '''' \<or> (\<exists>items. annotated_items be inst (annotation_prefix (sr_Config s)) = Inr items))"
proof -
  let ?name = "ci_Name inst @ bo_ResourceNameSuffix opts" and ?prefix = "annotation_prefix (sr_Config s)"
  have step: "CreateOrUpdateBillingServiceWithOptions be inst opts s =
      (if ?prefix = '''' then set_billing_service be inst opts (Inr k) (standard_items inst
           (GetItemDescription (snd (sales_order inst (sr_Config s))) (data_field (sr_Config s) ''clusterName'') (ci_ClaimNamespace inst)) (bo_Items opts)) s
       else (case annotated_items be inst ?prefix of
               Inl msg \<Rightarrow> preserveExistingAndWarn be (Inr k) ?name msg s | Inr items \<Rightarrow> set_billing_service be inst opts (Inr k) items s))"
    using assms(1,2) by (simp add: CreateOrUpdateBillingServiceWithOptions_def billed_def Let_def)
  have set: "is_desired (snd (set_billing_service be inst opts (Inr k) items s)) ?name \<longleftrightarrow>
      is_desired s ?name \<or> \<not> (snd (sales_order inst (sr_Config s)) \<and> (\<exists>e. GetOrg be (ci_Name inst) s = Inl e))" for items
  proof (cases "snd (sales_order inst (sr_Config s)) \<and> (\<exists>e. GetOrg be (ci_Name inst) s = Inl e)")
    case True
    then have "snd (set_billing_service be inst opts (Inr k) items s) = s" by (auto simp: set_billing_service_def Let_def split: prod.splits)
    then show ?thesis using True by simp
  next
    case False
    then have "is_desired (snd (set_billing_service be inst opts (Inr k) items s)) ?name"
      by (intro set_billing_is_desired [OF assms(3)]) (auto intro: sum.exhaust)
    then show ?thesis using False by simp
  qed
  show ?thesis unfolding step using set preserved_is_desired [OF assms(3)] by (auto split: sum.splits)
qed

section \<open>The items\<close>

text \<open>Every item names its instance, and two of the annotation have one identifier only if their hashes agree.\<close>

lemma annotated_items_ids:
  assumes "annotated_items be inst prefix = Inr items"
  shows "items \<noteq> [] \<and> (\<forall>it \<in> set items. it_ProductID it \<noteq> '''' \<and>
    it_InstanceID it = ci_Name inst @ ''-'' @ shortSHA (it_ProductID it @ it_ItemDescription it @ it_ItemGroupDescription it))"
  using assms by (auto simp: annotated_items_def Let_def split: if_splits sum.splits)

text \<open>
  Products and descriptions are joined without a mark between them, so different items may share an identifier.
\<close>

lemma joined_descriptions_collide:
  assumes "bl_Items be raw = Inr [a, b]" "data_field (bc_Annotations inst) (prefix @ ''/items'') = raw" "raw \<noteq> ''''"
    "it_ProductID a = ''a''" "it_ItemDescription a = ''bc''" "it_ItemGroupDescription a = ''''"
    "it_ProductID b = ''ab''" "it_ItemDescription b = ''c''" "it_ItemGroupDescription b = ''''"
  shows "\<exists>x y. annotated_items be inst prefix = Inr [x, y] \<and> it_ProductID x \<noteq> it_ProductID y \<and> it_InstanceID x = it_InstanceID y"
  using assms by (simp add: annotated_items_def Let_def)
section \<open>An instance\<close>

definition example_billing_env :: billing_step_env where
  "example_billing_env = ns_env.extend example_ns_env (billing_step_env.fields (\<lambda>s. Inl (Msg ''invalid'')) cp_Name)"

definition example_billing_comp :: billing_comp where
  "example_billing_comp = instance_comp.extend (comp_info.extend (comp_info.truncate example_instance) (instance_comp.fields ''appcat-redis'' [] [] [] False))
     (billing_comp.fields ''redis'' ''redis'' 1 ''besteffort'' Map.empty None)"

definition example_options :: billing_options where
  "example_options = \<lparr>bo_ResourceNameSuffix = ''-billing-service'', bo_Items = [], bo_AdditionalLabels = []\<rparr>"

text \<open>A cluster with an existing BillingService and no observed namespace, with or without annotations for items.\<close>

definition example_billing_runtime :: "str_map \<Rightarrow> service_runtime" where
  "example_billing_runtime config = example_runtime\<lparr>sr_Config := config, sr_observed := [(''redis-a-billing-service'',
     \<lparr>or_Resource = example_resource, or_Status = Inr None, or_ConnectionDetails = Map.empty, or_AtProvider = None\<rparr>)]\<rparr>"

lemma example_billing_name: "ci_Name example_billing_comp @ bo_ResourceNameSuffix example_options = ''redis-a-billing-service''"
  by (simp add: example_billing_comp_def example_options_def example_instance_def instance_comp.extend_def comp_info.extend_def
      comp_info.truncate_def instance_comp.fields_def billing_comp.fields_def)

lemma escaped_billing_name: "EscapeDNS1123 ''redis-a-billing-service'' False = ''redis-a-billing-service''"
  by (rule escape_plain) (simp_all add: dns1123_match_def is_lower_alnum_def)

lemma example_billing_observed:
  "GetObservedComposedResource (example_billing_runtime config) (ci_Name example_billing_comp @ bo_ResourceNameSuffix example_options) = Inr example_resource"
  unfolding example_billing_name by (simp add: GetObservedComposedResource_def escaped_billing_name example_billing_runtime_def)

lemma example_billed:
  "config ''clusterName'' = Some ''c-one'' \<Longrightarrow> config ''billingEnabled'' = Some ''true'' \<Longrightarrow> config ''ignoreNamespaceForBilling'' = None \<Longrightarrow>
     billed example_billing_comp (sr_Config (example_billing_runtime config))"
  by (simp add: billed_def data_field_def example_billing_runtime_def example_billing_comp_def example_instance_def instance_comp.extend_def
      comp_info.extend_def comp_info.truncate_def instance_comp.fields_def billing_comp.fields_def)

lemma example_conversions: "conversions_ok (ne_rt example_billing_env)"
  by (simp add: conversions_ok_def example_billing_env_def example_ns_env_def example_runtime_env_def ns_env.extend_def)

text \<open>With a sales order and a prefix, but without the annotation the prefix asks for.\<close>

theorem existing_billing_is_kept_witness:
  "is_desired (snd (CreateOrUpdateBillingServiceWithOptions example_billing_env example_billing_comp example_options
     (example_billing_runtime [''clusterName'' \<mapsto> ''c-one'', ''billingEnabled'' \<mapsto> ''true'', ''salesOrder'' \<mapsto> ''S1'',
        ''servalaBillingAnnotationPrefix'' \<mapsto> ''servala.com''])))
     ''redis-a-billing-service''"
proof -
  let ?c = "[''clusterName'' \<mapsto> ''c-one'', ''billingEnabled'' \<mapsto> ''true'', ''salesOrder'' \<mapsto> ''S1'', ''servalaBillingAnnotationPrefix'' \<mapsto> ''servala.com'']"
  have b: "billed example_billing_comp (sr_Config (example_billing_runtime ?c))" by (rule example_billed) simp_all
  have s: "snd (sales_order example_billing_comp (sr_Config (example_billing_runtime ?c))) \<longrightarrow>
      (\<exists>org. GetOrg example_billing_env (ci_Name example_billing_comp) (example_billing_runtime ?c) = Inr org)"
    by (simp add: sales_order_def data_field_def example_billing_runtime_def Let_def)
  show ?thesis using existing_billing_is_kept [OF b example_billing_observed example_conversions s] unfolding example_billing_name .
qed

theorem unreadable_organisation_ends_billing_witness:
  "\<not> is_desired (snd (CreateOrUpdateBillingServiceWithOptions example_billing_env example_billing_comp example_options
       (example_billing_runtime [''clusterName'' \<mapsto> ''c-one'', ''billingEnabled'' \<mapsto> ''true'']))) ''redis-a-billing-service''"
proof -
  let ?c = "[''clusterName'' \<mapsto> ''c-one'', ''billingEnabled'' \<mapsto> ''true'']"
  have b: "billed example_billing_comp (sr_Config (example_billing_runtime ?c))" by (rule example_billed) simp_all
  have e: "EscapeDNS1123 (''redis-a'' @ claimNsObserverSuffix) False = ''redis-a-claim-ns-observer''"
    unfolding claimNsObserverSuffix_def append.simps by (rule escape_plain) (simp_all add: dns1123_match_def is_lower_alnum_def)
  have "ci_Name example_billing_comp = ''redis-a''"
    by (simp add: example_billing_comp_def example_instance_def instance_comp.extend_def comp_info.extend_def comp_info.truncate_def
        instance_comp.fields_def billing_comp.fields_def)
  then have o': "GetOrg example_billing_env (ci_Name example_billing_comp) (example_billing_runtime ?c) = Inl NotFoundError"
    by (intro GetOrg_missing) (simp add: GetObservedKubeObject_def e example_billing_runtime_def)
  have n: "\<not> is_desired (example_billing_runtime ?c) (ci_Name example_billing_comp @ bo_ResourceNameSuffix example_options)"
    by (simp add: is_desired_def example_billing_runtime_def example_runtime_def)
  have so: "snd (sales_order example_billing_comp (sr_Config (example_billing_runtime ?c)))" "annotation_prefix (sr_Config (example_billing_runtime ?c)) = ''''"
    by (simp_all add: sales_order_def annotation_prefix_def data_field_def example_billing_runtime_def Let_def)
  show ?thesis
    using unreadable_organisation_ends_billing [OF b example_billing_observed example_conversions] n so o' unfolding example_billing_name by blast
qed

end
