(* ===== verification/Spec2Isabelle.thy ===== *)
theory Spec2Isabelle
  imports Billing_Liveness TcpGateway DeletionProtection PostgreSQL_Lifecycle ServiceWebhooks_Props
    RunMaintenance EventForwarder GarageCleanup RedisResize MajorUpgrade SliGarage
    MultiWatch ApiNested ApiAppCat BillingStep
begin

text \<open>
  AppCat (\<open>github.com/vshn/appcat\<close>) is the backend of the VSHN application catalog: composition
  functions that turn a claim for a service into Kubernetes resources, controllers and admission
  webhooks that run beside them, jobs for maintenance and the commands that start it all. This
  development models the controllers and webhooks, the maintenance jobs, the runtime of the composition
  functions and those of its steps that decide something: where the state and the decisions are.

  \<^bold>\<open>The parts, and how they call each other.\<close> The billing controller (\<open>pkg/controller/billing\<close>) keeps a
  queue of events in the status of a \<open>BillingService\<close> and delivers them to Odoo one per reconcile. The
  validating webhooks (\<open>pkg/controller/webhooks\<close>) decide on every request for a claim: the handlers of
  the services call the default handler, which calls the quota checker (\<open>pkg/common/quotas\<close>), which
  reads plans, sidecars and quotas (\<open>pkg/common/utils\<close>). The deletion protection webhooks refuse to
  delete what belongs to a running instance. The mutating webhook of the TCP gateway
  (\<open>webhooks/tcpgateway\<close>) gives listeners a gateway and a port. The maintenance command
  (\<open>cmd/maintenance.go\<close>) waits for backups, rolls the latest composition revision out and runs the job of
  one service (\<open>pkg/maintenance\<close>), which picks a newer version and patches the Helm release or creates
  database operations. The runtime of the composition functions (\<open>pkg/comp-functions/runtime\<close>) keeps the desired
  resources of an instance; it writes the labels the deletion protection reads and the annotation by which the
  event forwarder (\<open>pkg/controller/events\<close>) finds the claim of a resource. The steps of the services
  (\<open>pkg/comp-functions/functions\<close>) are functions on that runtime: they draw a schedule, deploy the job that runs the
  maintenance command by it, keep passwords, and add users, databases and upgrades as the instance gets ready.
  The aggregated API server (\<open>pkg/apiserver\<close>) shows tenants the services on offer and the backups of their
  instances, which lie in namespaces the tenants do not see.

  \<^bold>\<open>Theories.\<close>
  \<^item> \<open>Prelude\<close>: errors, time, the functions of Go's standard library on byte strings, values decoded
    from JSON, lemmas on loops and on the order of map iteration.
  \<^item> \<open>Billing_Events\<close> (\<open>events.go\<close>, \<open>resend.go\<close>, \<open>types.go\<close>): the event list as a list, newest first;
    pruning, searching, resending. Pruning equals a reference that drops the oldest sent events of
    each instance, and keeps the limit where it can.
  \<^item> \<open>Billing\<close> (the other files of the controller): one function for each function of the package, on the
    record \<open>billing_service\<close> (spec, status, metadata) and a world; \<open>Reconcile\<close> composes them.
  \<^item> \<open>Billing_Ledger\<close>: the life of one instance in the event list as a step relation (\<open>ledger_step\<close>).
    The locale \<open>enqueue_handler\<close> states what a handler may do to the list; creation, scaling, items,
    removal and deletion are its interpretations, so every handler refines the step relation.
  \<^item> \<open>Billing_Delivery\<close>: which event a reconcile sends, that it sends at most one, what a delivery marks,
    when the finalizer goes, and two ways in which an event is lost or never made. \<open>Billing_Liveness\<close>: once the
    events of a service say all that it asks for (\<open>settled\<close>), every \<open>Reconcile\<close> delivers one of those that wait, as long as
    Odoo accepts and the cluster answers; the queue is held up by one event that Odoo refuses.
  \<^item> \<open>TcpGateway\<close> (\<open>allocator.go\<close>, \<open>handler.go\<close>, \<open>sharding.go\<close>): ports are 32-bit words. The loop over the
    port range is a \<open>partial_function\<close>, None being a loop that does not end; it ends whenever the
    range does not reach the largest \<open>int32\<close>.
  \<^item> \<open>Webhook_Base\<close>, \<open>DeletionProtection\<close> (\<open>deletionprotection.go\<close> and its handlers).
  \<^item> \<open>Resources\<close>, \<open>Quotas\<close>: a \<open>resource.Quantity\<close> is of an arbitrary type with the operations of
    \<open>quantity_ops\<close>; \<open>quantity_laws\<close> is what its documentation says.
  \<^item> \<open>DefaultWebhook\<close> (\<open>default_handler.go\<close>): the claim is \<open>service_claim\<close>, what the code reads through
    \<open>common.Composite\<close>.
  \<^item> \<open>PostgreSQL\<close>, \<open>PostgreSQL_Lifecycle\<close> (\<open>postgresql{,_cnpg,_stackgres}.go\<close>): \<open>pg_claim\<close> extends the claim.
    The contract of a \<open>pgValidator\<close> is the locale \<open>pg_validator\<close>, interpreted for both
    implementations; \<open>pg_history\<close> is the life of an instance under accepted requests.
  \<^item> \<open>ServiceWebhooks\<close>, \<open>ServiceWebhooks_Props\<close> (\<open>keycloak.go\<close>, \<open>nextcloud.go\<close>, \<open>forgejo.go\<close>, \<open>mariadb.go\<close>,
    \<open>redis.go\<close>, \<open>codey.go\<close>; and the custom files in \<open>functions/vshnkeycloak/deploy.go\<close>).

  \<^item> \<open>Semver\<close>: the versions of blang/semver and the order its documentation promises.
  \<^item> \<open>Release\<close> (\<open>pkg/maintenance/release\<close>): the roll-out of composition revisions. \<open>updateClaim\<close> and
    \<open>updateComposite\<close> are interpretations of the locale \<open>revision_updater\<close>; \<open>rollouts\<close> is what happens to a
    cluster over time, and no pinned instance goes back in it.
  \<^item> \<open>HelmPatcher\<close> (\<open>pkg/maintenance/helm\<close>), \<open>ServiceMaintenance\<close> (\<open>redis.go\<close>, \<open>mariadb.go\<close>, \<open>nextcloud.go\<close>,
    \<open>forgejo.go\<close>, \<open>keycloak.go\<close>, \<open>minio.go\<close>, \<open>config.go\<close>, \<open>url.go\<close> of \<open>pkg/maintenance\<close>): the pages of a registry are
    \<open>partial_function\<close>s. The contract of a \<open>VersionComparisonStrategy\<close> is the locale \<open>version_strategy\<close>,
    interpreted for semantic versions and for the dates of MinIO.
  \<^item> \<open>Backup_Waiter\<close> (\<open>pkg/maintenance/backup\<close>): the contract of an \<open>InProgressFunc\<close> is the locale
    \<open>backup_checker\<close>, interpreted for k8up, CloudNativePG and StackGres.
  \<^item> \<open>PgMaintenance\<close> (\<open>postgresql.go\<close>, \<open>postgresqlcnpg.go\<close>, and \<open>GetLatestMinorVersion\<close> of \<open>pkg/auth/stackgres\<close>).
  \<^item> \<open>RunMaintenance\<close> (\<open>cmd/maintenance.go\<close>): the order of waiting, rolling out and maintaining, over the Go
    interface \<open>Maintenance\<close> as the record \<open>maintenance_impl\<close>, and \<open>service_impl\<close> for every service.
  \<^item> \<open>Naming\<close> (\<open>naming.go\<close> of \<open>pkg/comp-functions/runtime\<close>), \<open>Labels\<close>, \<open>Runtime\<close> (\<open>function_mgr.go\<close>): the record
    \<open>service_runtime\<close> is the \<open>ServiceRuntime\<close>, the desired and observed resources of one service; a step of a
    service is a function on it.
  \<^item> \<open>Step_Frame\<close>: which desired resources a step may touch, the frame relation \<open>touches\<close> that the proofs on
    steps share.
  \<^item> \<open>Schedule\<close> (\<open>common/schedule.go\<close>, \<open>TimeOfDay\<close>, \<open>parseCron\<close>), \<open>MaintenanceCron\<close> (\<open>common/maintenance\<close>),
    \<open>Credentials\<close> (\<open>common/password.go\<close>): steps all services share. The random draws, the clock and the
    generator of passwords are arguments.
  \<^item> \<open>PgUsers\<close>, \<open>MyUsers\<close> (\<open>user_management.go\<close> of PostgreSQL and MariaDB), \<open>RedisResize\<close> (\<open>pvcresize.go\<close>),
    \<open>MajorUpgrade\<close> (\<open>major_version_upgrade.go\<close>): what they set in one run, given what is observed, and that what
    a run has created is not dropped by a later one.
  \<^item> \<open>EventForwarder\<close> (\<open>pkg/controller/events\<close>), \<open>GarageCleanup\<close> (\<open>pkg/controller/garagebucket\<close>).
  \<^item> \<open>ProbeManager\<close> (\<open>pkg/sliexporter/probes/manager.go\<close>): the goroutines of the probes as the step relation
    \<open>manager_step\<close>, with its reachable states. \<open>SliReconciler\<close> (\<open>sli_reconciler\<close>, \<open>maintenance_controller\<close>),
    \<open>SliControllers\<close>, \<open>SliGarage\<close> (\<open>vshn*_controller\<close>): what a fetcher of probers promises is the locale
    \<open>prober_fetcher\<close>, interpreted for the six services.
  \<^item> \<open>MultiWatch\<close>, \<open>ApiServer\<close> (\<open>common.go\<close>, \<open>vshn/k8up\<close>, \<open>vshn/redis\<close>, \<open>vshn/mariadb\<close> of \<open>pkg/apiserver\<close>),
    \<open>ApiPostgres\<close>, \<open>ApiNested\<close> (\<open>vshn/keycloak\<close>, \<open>vshn/nextcloud\<close>), \<open>ApiAppCat\<close>: a storage is a function of the
    namespace of the request and the clusters; its theorems say which backups a namespace may see. The merging of
    watches is the step relation \<open>mw_step\<close> of its goroutines and channels.
  \<^item> \<open>InstanceNamespace\<close> (\<open>common/instance_namespace.go\<close>, \<open>common/netpol.go\<close>): the first step of every service, with who
    may reach the instance and that quotas survive the rebuilding of its namespace. \<open>BillingStep\<close>
    (\<open>common/billing_service.go\<close>, \<open>common/billing.go\<close>, \<open>billing.go\<close> of the services): the BillingService that the billing
    controller works on, and exactly when a run loses it; \<open>Sha256\<close> computes the hash in its identifiers.

  \<^bold>\<open>Conventions.\<close> Code that is not in the repository - the cluster, Odoo, the clock, apimachinery,
  controller-runtime, semver, JSON decoding - is a record of functions over a world of an arbitrary
  type \<open>'w\<close>: a call takes the world and gives its result and the next one. What a property needs of
  it is a named law (\<open>retry_law\<close>, \<open>store_law\<close>, \<open>quantity_laws\<close>, \<open>accessor_laws\<close>, \<open>semver_laws\<close>,
  \<open>semver_order\<close>, \<open>release_store\<close>, \<open>patch_history\<close>, \<open>poll_law\<close>, \<open>s3_laws\<close>, \<open>values_laws\<close>, \<open>kube_ok\<close>, \<open>reads_within\<close>,
  \<open>objects_within\<close>, \<open>object_law\<close>, \<open>cluster_serves\<close>, \<open>conversions_ok\<close>, \<open>annotation_codec\<close>), and an
  instance for which the law holds stands beside it. A Go error is a value of \<open>gerr\<close>, \<open>webhook_error\<close>
  or \<open>status_error\<close>; a panic is \<open>Panicked\<close>. A map that is ranged over is visited in an order that is an
  argument of the model; \<open>range_order\<close> says that every key is visited once. Of a field error the type,
  the field and the bad value are kept, its text is dropped, and so are log lines. Case folding
  (\<open>ToLower\<close>, \<open>EqualFold\<close>) is the one of ASCII. A failed type assertion of an admission object is not
  modelled, since the model's claims are typed.

  \<^bold>\<open>Not modelled.\<close> The steps of the composition functions that only build Kubernetes objects and Helm values, the
  exporters and reports, the other commands, generated types: input, output and tables. Of the API server the
  operations no storage has, and the wiring. Of the runtime of the composition functions the proxy mode and the
  conversions of the SDK.
\<close>

end
